(* ===== verification/Prelude.thy ===== *)
theory Prelude
  imports Main "HOL-Library.Word" "HOL-Library.Numeral_Type"
begin

text \<open>
  Shared vocabulary of the development: the widths of the Rust integers, Rust's checked,
  saturating and overflowing arithmetic on them, the combinators that write Rust's
  \<open>?\<close> operator and early returns, little-endian byte strings and fixed-length byte
  arrays \<open>[u8; N]\<close>.  The simp rules turn every word operation into arithmetic on
  \<open>nat\<close> through \<open>unat\<close>, so that component proofs never see a wrap-around.
\<close>

type_synonym u8 = "8 word"
type_synonym u16 = "16 word"
type_synonym u32 = "32 word"
type_synonym u64 = "64 word"
type_synonym u128 = "128 word"

named_theorems rust_arith \<open>Rust's integer operations read through \<open>unat\<close>\<close>
named_theorems pool_access \<open>accessors of the pool's reserved bytes\<close>
named_theorems handler_defs \<open>definitions of the instruction handlers' building blocks\<close>

section \<open>Checked, saturating and overflowing arithmetic\<close>

definition checked_add :: "'a::len word \<Rightarrow> 'a word \<Rightarrow> 'a word option" where
  "checked_add a b = (if unat a + unat b < 2 ^ LENGTH('a) then Some (a + b) else None)"

definition checked_sub :: "'a::len word \<Rightarrow> 'a word \<Rightarrow> 'a word option" where
  "checked_sub a b = (if b \<le> a then Some (a - b) else None)"

definition checked_mul :: "'a::len word \<Rightarrow> 'a word \<Rightarrow> 'a word option" where
  "checked_mul a b = (if unat a * unat b < 2 ^ LENGTH('a) then Some (a * b) else None)"

definition checked_div :: "'a::len word \<Rightarrow> 'a word \<Rightarrow> 'a word option" where
  "checked_div a b = (if b = 0 then None else Some (a div b))"

definition saturating_add :: "'a::len word \<Rightarrow> 'a word \<Rightarrow> 'a word" where
  "saturating_add a b = (if unat a + unat b < 2 ^ LENGTH('a) then a + b else - 1)"

definition saturating_sub :: "'a::len word \<Rightarrow> 'a word \<Rightarrow> 'a word" where
  "saturating_sub a b = (if b \<le> a then a - b else 0)"

definition overflowing_add :: "'a::len word \<Rightarrow> 'a word \<Rightarrow> 'a word \<times> bool" where
  "overflowing_add a b = (a + b, 2 ^ LENGTH('a) \<le> unat a + unat b)"

lemma unat_lt_2p: "unat (a :: 'a::len word) < 2 ^ LENGTH('a)"
  by (rule unsigned_less)

lemma unat_u64_less: "unat (a :: u64) < 18446744073709551616"
  using unat_lt_2p [of a] by simp

lemma unat_u64_le_max: "unat (a :: u64) \<le> 18446744073709551615"
  using unat_u64_less [of a] by linarith

lemma unat_u16_less: "unat (a :: u16) < 65536"
  using unat_lt_2p [of a] by simp

lemma unat_u128_less: "unat (a :: u128) < 340282366920938463463374607431768211456"
  using unat_lt_2p [of a] by simp

lemma unat_eqD: "unat a = unat b \<Longrightarrow> a = (b :: 'a::len word)"
  by (rule unsigned_word_eqI)

lemma unat_sub_le: "b \<le> a \<Longrightarrow> unat (a - b) = unat a - unat (b :: 'a::len word)"
  by (simp add: unat_sub)

lemma unat_of_nat_lt: "n < 2 ^ LENGTH('a) \<Longrightarrow> unat (of_nat n :: 'a::len word) = n"
  by (simp add: unat_of_nat take_bit_nat_eq_self)

lemma checked_add_eq_Some [rust_arith]:
  "checked_add a b = Some c \<longleftrightarrow> unat c = unat a + unat (b :: 'a::len word)"
proof
  assume "checked_add a b = Some c"
  then show "unat c = unat a + unat b"
    by (auto simp: checked_add_def unat_word_ariths split: if_splits)
next
  assume c: "unat c = unat a + unat b"
  have lt: "unat a + unat b < 2 ^ LENGTH('a)"
    using c unat_lt_2p [of c] by simp
  have "c = a + b"
    by (rule unat_eqD) (use lt in \<open>simp add: c unat_word_ariths\<close>)
  with lt show "checked_add a b = Some c"
    by (simp add: checked_add_def)
qed

lemma checked_add_eq_None [rust_arith]:
  "checked_add a b = None \<longleftrightarrow> 2 ^ LENGTH('a) \<le> unat a + unat (b :: 'a::len word)"
  by (simp add: checked_add_def not_less)

lemma checked_sub_eq_Some [rust_arith]:
  "checked_sub a b = Some c \<longleftrightarrow> unat a = unat c + unat (b :: 'a::len word)"
proof
  assume "checked_sub a b = Some c"
  then show "unat a = unat c + unat b"
    by (auto simp: checked_sub_def unat_sub_le word_le_nat_alt split: if_splits)
next
  assume a: "unat a = unat c + unat b"
  then have le: "b \<le> a"
    by (simp add: word_le_nat_alt)
  moreover have "a - b = c"
    by (rule unat_eqD) (use a le in \<open>simp add: unat_sub_le\<close>)
  ultimately show "checked_sub a b = Some c"
    by (simp add: checked_sub_def)
qed

lemma checked_sub_eq_None [rust_arith]:
  "checked_sub a b = None \<longleftrightarrow> unat a < unat (b :: 'a::len word)"
  by (simp add: checked_sub_def word_le_nat_alt not_le)

lemma checked_mul_eq_Some [rust_arith]:
  "checked_mul a b = Some c \<longleftrightarrow> unat c = unat a * unat (b :: 'a::len word)"
proof
  assume "checked_mul a b = Some c"
  then show "unat c = unat a * unat b"
    by (auto simp: checked_mul_def unat_word_ariths split: if_splits)
next
  assume c: "unat c = unat a * unat b"
  have lt: "unat a * unat b < 2 ^ LENGTH('a)"
    using c unat_lt_2p [of c] by simp
  have "c = a * b"
    by (rule unat_eqD) (use lt in \<open>simp add: c unat_word_ariths\<close>)
  with lt show "checked_mul a b = Some c"
    by (simp add: checked_mul_def)
qed

lemma checked_mul_eq_None [rust_arith]:
  "checked_mul a b = None \<longleftrightarrow> 2 ^ LENGTH('a) \<le> unat a * unat (b :: 'a::len word)"
  by (simp add: checked_mul_def not_less)

lemma checked_div_eq_Some [rust_arith]:
  "checked_div a b = Some c \<longleftrightarrow> b \<noteq> 0 \<and> unat c = unat a div unat (b :: 'a::len word)"
  by (auto simp: checked_div_def unat_div intro: unat_eqD)

lemma unat_saturating_sub [simp]:
  "unat (saturating_sub a b) = unat a - unat (b :: 'a::len word)"
  by (simp add: saturating_sub_def unat_sub_le word_le_nat_alt)

lemma unat_saturating_add:
  "unat (saturating_add a b) = min (unat a + unat b) (2 ^ LENGTH('a) - 1)"
  for a b :: "'a::len word"
  by (auto simp: saturating_add_def unat_word_ariths unsigned_minus_1_eq_mask mask_eq_exp_minus_1
      min_def)

lemma unat_ucast_widen:
  assumes "LENGTH('a) \<le> LENGTH('b)"
  shows "unat (ucast (a :: 'a::len word) :: 'b::len word) = unat a"
proof -
  have "unat a < 2 ^ LENGTH('b)"
    using unat_lt_2p [of a] assms
    by (meson less_le_trans one_le_numeral power_increasing)
  then show ?thesis
    by (simp add: unsigned_ucast_eq take_bit_nat_eq_self)
qed

lemma unat_ucast_u64_u128 [simp]: "unat (ucast (a :: u64) :: u128) = unat a"
  by (rule unat_ucast_widen) simp

lemma unat_ucast_u16_u128 [simp]: "unat (ucast (a :: u16) :: u128) = unat a"
  by (rule unat_ucast_widen) simp

lemma unat_ucast_u128_u64:
  "unat (a :: u128) < 2 ^ 64 \<Longrightarrow> unat (ucast a :: u64) = unat a"
  by (simp add: unsigned_ucast_eq take_bit_nat_eq_self)

lemma ucast_u64_u128_inject [simp]:
  "(ucast (a :: u64) :: u128) = ucast (b :: u64) \<longleftrightarrow> a = b"
  by (metis unat_eqD unat_ucast_u64_u128)

section \<open>Early returns\<close>

text \<open>
  A fallible operation returns \<open>'e + 'a\<close>, \<open>Inl\<close> being the error.  \<open>bind_err\<close> is
  Rust's \<open>?\<close>, \<open>require\<close> is \<open>if !c { return Err(e) }\<close>, \<open>ok_or\<close> is
  \<open>Option::ok_or\<close>.  The equivalences below turn \<open>handler \<dots> = Inr w\<close> into the
  conjunction of the guards the handler passed.
\<close>

definition bind_err :: "'e + 'a \<Rightarrow> ('a \<Rightarrow> 'e + 'b) \<Rightarrow> 'e + 'b" where
  "bind_err r k = (case r of Inl e \<Rightarrow> Inl e | Inr x \<Rightarrow> k x)"

definition require :: "bool \<Rightarrow> 'e \<Rightarrow> 'e + 'b \<Rightarrow> 'e + 'b" where
  "require c e k = (if c then k else Inl e)"

definition ok_or :: "'a option \<Rightarrow> 'e \<Rightarrow> 'e + 'a" where
  "ok_or x e = (case x of None \<Rightarrow> Inl e | Some v \<Rightarrow> Inr v)"

lemma bind_err_simps [simp]:
  "bind_err (Inl e) k = Inl e"
  "bind_err (Inr x) k = k x"
  by (simp_all add: bind_err_def)

lemma bind_err_eq_Inr [simp]:
  "bind_err r k = Inr y \<longleftrightarrow> (\<exists>x. r = Inr x \<and> k x = Inr y)"
  by (simp add: bind_err_def split: sum.split)

lemma bind_err_eq_Inl:
  "bind_err r k = Inl e \<longleftrightarrow> r = Inl e \<or> (\<exists>x. r = Inr x \<and> k x = Inl e)"
  by (auto simp: bind_err_def split: sum.split)

lemma require_simps [simp]:
  "require True e k = k"
  "require False e k = Inl e"
  by (simp_all add: require_def)

lemma require_eq_Inr [simp]:
  "require c e k = Inr y \<longleftrightarrow> c \<and> k = Inr y"
  by (simp add: require_def)

lemma require_cong:
  "c = c' \<Longrightarrow> (c' \<Longrightarrow> k = k') \<Longrightarrow> require c e k = require c' e k'"
  by (simp add: require_def)

lemma require_eq_Inl:
  "require c e k = Inl e' \<longleftrightarrow> (\<not> c \<and> e = e') \<or> (c \<and> k = Inl e')"
  by (auto simp: require_def)

lemma ok_or_simps [simp]:
  "ok_or None e = Inl e"
  "ok_or (Some v) e = Inr v"
  by (simp_all add: ok_or_def)

lemma ok_or_eq_Inr [simp]: "ok_or x e = Inr v \<longleftrightarrow> x = Some v"
  by (simp add: ok_or_def split: option.split)

lemma ok_or_eq_Inl [simp]: "ok_or x e = Inl e' \<longleftrightarrow> x = None \<and> e = e'"
  by (auto simp: ok_or_def split: option.split)

lemma bind_eq_Some [simp]: "Option.bind x k = Some y \<longleftrightarrow> (\<exists>v. x = Some v \<and> k v = Some y)"
  by (cases x) simp_all

lemma word_one_le: "(1 :: 'a::len word) \<le> x \<longleftrightarrow> x \<noteq> 0"
  by (simp add: word_le_nat_alt Suc_le_eq unat_gt_0)

end
