(* ===== verification/Bytes.thy ===== *)
theory Bytes
  imports Prelude
begin

text \<open>
  Byte strings: little-endian integers (\<open>to_le_bytes\<close> / \<open>from_le_bytes\<close>), slices
  \<open>data[i..i+n]\<close> and in-place writes \<open>copy_from_slice\<close>, and the fixed-length arrays
  \<open>[u8; N]\<close> as the type \<open>'n bytes\<close>.  The locale \<open>codec\<close> is the contract of a
  fixed-width encoder and decoder; the structure layouts of the program rest on it.
\<close>

section \<open>Little-endian integers\<close>

primrec le_of_nat :: "nat \<Rightarrow> nat \<Rightarrow> u8 list" where
  "le_of_nat 0 x = []"
| "le_of_nat (Suc n) x = of_nat (x mod 256) # le_of_nat n (x div 256)"

primrec nat_of_le :: "u8 list \<Rightarrow> nat" where
  "nat_of_le [] = 0"
| "nat_of_le (b # bs) = unat b + 256 * nat_of_le bs"

definition to_le_bytes :: "'a::len word \<Rightarrow> u8 list" where
  "to_le_bytes w = le_of_nat (LENGTH('a) div 8) (unat w)"

definition from_le_bytes :: "u8 list \<Rightarrow> 'a::len word" where
  "from_le_bytes bs = of_nat (nat_of_le bs)"

lemma length_le_of_nat [simp]: "length (le_of_nat n x) = n"
  by (induction n arbitrary: x) simp_all

lemma unat_u8_less [simp]: "unat (b :: u8) < 256"
  using unat_lt_2p [of b] by simp

lemma unat_of_nat_mod_256 [simp]: "unat (of_nat (x mod 256) :: u8) = x mod 256"
  by (rule unat_of_nat_lt) simp

lemma nat_of_le_of_nat: "x < 256 ^ n \<Longrightarrow> nat_of_le (le_of_nat n x) = x"
proof (induction n arbitrary: x)
  case 0
  then show ?case by simp
next
  case (Suc n)
  then have "x div 256 < 256 ^ n"
    by (simp add: less_mult_imp_div_less mult.commute)
  then show ?case
    by (simp add: Suc.IH)
qed

lemma nat_of_le_less: "nat_of_le bs < 256 ^ length bs"
proof (induction bs)
  case Nil
  then show ?case by simp
next
  case (Cons b bs)
  have "unat b < 256" by simp
  moreover have "256 * nat_of_le bs + 256 \<le> 256 * 256 ^ length bs"
    using Cons.IH by linarith
  ultimately have "unat b + 256 * nat_of_le bs < 256 * 256 ^ length bs"
    by linarith
  then show ?case by simp
qed

lemma le_of_nat_of_le: "le_of_nat (length bs) (nat_of_le bs) = bs"
proof (induction bs)
  case Nil
  then show ?case by simp
next
  case (Cons b bs)
  have "(unat b + 256 * nat_of_le bs) mod 256 = unat b"
    and "(unat b + 256 * nat_of_le bs) div 256 = nat_of_le bs"
    using unat_u8_less [of b] by simp_all
  then show ?case
    by (simp add: Cons.IH)
qed

lemma length_to_le_bytes [simp]: "length (to_le_bytes (w :: 'a::len word)) = LENGTH('a) div 8"
  by (simp add: to_le_bytes_def)

lemma from_to_le_bytes:
  assumes "LENGTH('a) = 8 * n"
  shows "from_le_bytes (to_le_bytes (w :: 'a::len word)) = w"
proof -
  have "(256 :: nat) ^ n = 2 ^ LENGTH('a)"
    by (simp add: assms power_mult)
  then have "unat w < 256 ^ (LENGTH('a) div 8)"
    using unat_lt_2p [of w] assms by simp
  then show ?thesis
    by (simp add: to_le_bytes_def from_le_bytes_def nat_of_le_of_nat)
qed

lemma to_from_le_bytes:
  assumes "LENGTH('a) = 8 * n" and "length bs = n"
  shows "to_le_bytes (from_le_bytes bs :: 'a::len word) = bs"
proof -
  have "nat_of_le bs < 2 ^ LENGTH('a)"
    using nat_of_le_less [of bs] by (simp add: assms power_mult)
  then have "unat (from_le_bytes bs :: 'a word) = nat_of_le bs"
    by (simp add: from_le_bytes_def unat_of_nat_lt)
  then show ?thesis
    using le_of_nat_of_le [of bs] by (simp add: to_le_bytes_def assms)
qed

lemma le_bytes_roundtrip [simp]:
  "from_le_bytes (to_le_bytes a) = (a :: u16)"
  "from_le_bytes (to_le_bytes b) = (b :: u64)"
  "from_le_bytes (to_le_bytes c) = (c :: u128)"
  by (rule from_to_le_bytes [where n = 2], simp, rule from_to_le_bytes [where n = 8], simp,
      rule from_to_le_bytes [where n = 16], simp)

section \<open>Slices and in-place writes\<close>

definition slice :: "nat \<Rightarrow> nat \<Rightarrow> 'a list \<Rightarrow> 'a list" where
  "slice i n xs = take n (drop i xs)"

definition patch :: "nat \<Rightarrow> 'a list \<Rightarrow> 'a list \<Rightarrow> 'a list" where
  "patch i ys xs = take i xs @ ys @ drop (i + length ys) xs"

lemma length_slice: "i + n \<le> length xs \<Longrightarrow> length (slice i n xs) = n"
  by (simp add: slice_def)

lemma length_patch: "i + length ys \<le> length xs \<Longrightarrow> length (patch i ys xs) = length xs"
  by (simp add: patch_def)

lemma slice_patch_same:
  "i + length ys \<le> length xs \<Longrightarrow> n = length ys \<Longrightarrow> slice i n (patch i ys xs) = ys"
  by (simp add: slice_def patch_def)

lemma slice_patch_before:
  assumes "j + n \<le> i" and "i + length ys \<le> length xs"
  shows "slice j n (patch i ys xs) = slice j n xs"
proof -
  have "take (n + j) (patch i ys xs) = take (n + j) xs"
    using assms by (simp add: patch_def)
  then show ?thesis
    by (simp add: slice_def take_drop)
qed

lemma slice_patch_after:
  assumes "i + length ys \<le> j" and "i + length ys \<le> length xs"
  shows "slice j n (patch i ys xs) = slice j n xs"
proof -
  have "drop j (patch i ys xs) = drop j xs"
    using assms by (simp add: patch_def)
  then show ?thesis by (simp add: slice_def)
qed

lemma slice_append_left: "i + n \<le> length xs \<Longrightarrow> slice i n (xs @ ys) = slice i n xs"
  by (simp add: slice_def)

lemma slice_append_right:
  "length xs \<le> i \<Longrightarrow> slice i n (xs @ ys) = slice (i - length xs) n ys"
  by (simp add: slice_def)

lemma slice_append_exact [simp]: "n = length xs \<Longrightarrow> slice 0 n (xs @ ys) = xs"
  by (simp add: slice_def)

lemma slice_full [simp]: "n = length xs \<Longrightarrow> slice 0 n xs = xs"
  by (simp add: slice_def)

section \<open>Fixed-length arrays \<open>[u8; N]\<close>\<close>

typedef (overloaded) ('n::len) bytes = "{xs :: u8 list. length xs = LENGTH('n)}"
  morphisms list_of_bytes Abs_bytes
  by (rule exI [where x = "replicate LENGTH('n) 0"]) simp

setup_lifting type_definition_bytes

text \<open>\<open>array_of\<close> reads an array from a slice of that length, as \<open>try_into\<close> does.\<close>

definition array_of :: "u8 list \<Rightarrow> ('n::len) bytes" where
  "array_of xs = Abs_bytes (take LENGTH('n) (xs @ replicate LENGTH('n) 0))"

text \<open>\<open>fill b\<close> is the array literal \<open>[b; N]\<close>.\<close>

definition fill :: "u8 \<Rightarrow> ('n::len) bytes" where
  "fill b = array_of (replicate LENGTH('n) b)"

instantiation bytes :: (len) equal
begin
definition equal_bytes :: "'a bytes \<Rightarrow> 'a bytes \<Rightarrow> bool" where
  "equal_bytes a b \<longleftrightarrow> list_of_bytes a = list_of_bytes b"
instance
  by standard (simp add: equal_bytes_def list_of_bytes_inject)
end

lemma length_list_of_bytes [simp]: "length (list_of_bytes (a :: 'n::len bytes)) = LENGTH('n)"
  using list_of_bytes [of a] by simp

lemma array_of_inverse: "length xs = LENGTH('n) \<Longrightarrow> list_of_bytes (array_of xs :: 'n::len bytes) = xs"
  by (simp add: array_of_def Abs_bytes_inverse)

lemma array_of_list_of_bytes [simp]: "array_of (list_of_bytes a) = a"
  by (metis array_of_inverse length_list_of_bytes list_of_bytes_inject)

lemma list_of_bytes_array_of [code abstract]:
  "list_of_bytes (array_of xs :: 'n::len bytes) = take LENGTH('n) (xs @ replicate LENGTH('n) 0)"
  by (simp add: array_of_def Abs_bytes_inverse)

instance bytes :: (len) finite
proof
  have "finite {xs :: u8 list. set xs \<subseteq> UNIV \<and> length xs = LENGTH('a)}" by (rule finite_lists_length_eq) simp
  then have "finite (range (list_of_bytes :: 'a bytes \<Rightarrow> u8 list))" by (rule rev_finite_subset) auto
  moreover have "inj (list_of_bytes :: 'a bytes \<Rightarrow> u8 list)" by (simp add: inj_def list_of_bytes_inject)
  ultimately show "finite (UNIV :: 'a bytes set)" by (rule finite_imageD)
qed

lemma list_of_bytes_fill [simp]: "list_of_bytes (fill b :: 'n::len bytes) = replicate LENGTH('n) b"
  by (simp add: fill_def array_of_inverse)

lemma fill_eq_fill [simp]: "(fill a :: 'n::len bytes) = fill b \<longleftrightarrow> a = b"
proof
  assume "(fill a :: 'n bytes) = fill b"
  then have "replicate LENGTH('n) a = replicate LENGTH('n) b"
    by (metis list_of_bytes_fill)
  then show "a = b"
    by simp
qed simp

definition get_bytes :: "nat \<Rightarrow> nat \<Rightarrow> ('n::len) bytes \<Rightarrow> u8 list" where
  "get_bytes i n a = slice i n (list_of_bytes a)"

definition put_bytes :: "nat \<Rightarrow> u8 list \<Rightarrow> ('n::len) bytes \<Rightarrow> 'n bytes" where
  "put_bytes i ys a = array_of (patch i ys (list_of_bytes a))"

lemma list_of_bytes_put [simp]:
  assumes "i + length ys \<le> LENGTH('n)"
  shows "list_of_bytes (put_bytes i ys a) = patch i ys (list_of_bytes (a :: 'n::len bytes))"
  unfolding put_bytes_def by (rule array_of_inverse) (use assms in \<open>simp add: length_patch\<close>)

lemma length_get_bytes [simp]:
  "i + n \<le> LENGTH('n) \<Longrightarrow> length (get_bytes i n (a :: 'n::len bytes)) = n"
  by (simp add: get_bytes_def length_slice)

lemma get_put_bytes_same [simp]:
  "n = length ys \<Longrightarrow> i + n \<le> LENGTH('n) \<Longrightarrow> get_bytes i n (put_bytes i ys (a :: 'n::len bytes)) = ys"
  by (simp add: get_bytes_def slice_patch_same)

lemma get_put_bytes_other [simp]:
  assumes "j + n \<le> i \<or> i + length ys \<le> j" and "i + length ys \<le> LENGTH('n)"
  shows "get_bytes j n (put_bytes i ys (a :: 'n::len bytes)) = get_bytes j n a"
  using assms by (auto simp: get_bytes_def slice_patch_before slice_patch_after)

lemma get_bytes_fill [simp]:
  "i + n \<le> LENGTH('n) \<Longrightarrow> get_bytes i n (fill b :: 'n::len bytes) = replicate n b"
  by (simp add: get_bytes_def fill_def slice_def array_of_inverse)

lemma from_le_bytes_zeros [simp]: "from_le_bytes (replicate n 0) = 0"
  by (induction n) (simp_all add: from_le_bytes_def)

lemma zero_bytes: "set d \<subseteq> {0} \<Longrightarrow> d = replicate (length d) (0 :: u8)"
  by (intro replicate_eqI) auto

section \<open>The contract of a fixed-width codec\<close>

text \<open>
  A structure of the program is read from a byte slice of known length and written back
  to it.  \<open>codec enc dec n\<close>: encodings have length \<open>n\<close>, decoding reads only the first
  \<open>n\<close> bytes and inverts encoding.  \<open>store\<close> is the write-back into a longer buffer.
\<close>

locale codec =
  fixes enc :: "'a \<Rightarrow> u8 list"
    and dec :: "u8 list \<Rightarrow> 'a"
    and width :: nat
  assumes enc_length: "length (enc x) = width"
    and dec_enc: "dec (enc x @ rest) = x"
begin

text \<open>Writing a structure back into the buffer it was read from.\<close>

definition store :: "'a \<Rightarrow> u8 list \<Rightarrow> u8 list" where
  "store x buf = patch 0 (enc x) buf"

lemma load_store: "width \<le> length buf \<Longrightarrow> dec (store x buf) = x"
  by (simp add: store_def patch_def dec_enc)

lemma store_length: "width \<le> length buf \<Longrightarrow> length (store x buf) = length buf"
  by (simp add: store_def length_patch enc_length)

lemma store_store: "width \<le> length buf \<Longrightarrow> store y (store x buf) = store y buf"
  by (simp add: store_def patch_def enc_length)

lemma store_tail: "width \<le> length buf \<Longrightarrow> width \<le> i \<Longrightarrow> slice i n (store x buf) = slice i n buf"
  by (simp add: store_def slice_patch_after enc_length)

lemma enc_inject: "enc x = enc y \<Longrightarrow> x = y"
  using dec_enc [of x "[]"] dec_enc [of y "[]"] by simp

end

end
