(* ===== verification/Math.thy ===== *)
theory Math
  imports Bytes
begin

unbundle bit_operations_syntax

text \<open>
  The pure LP arithmetic of \<open>src/math.rs\<close>: share pricing with the virtual offset, pool
  value, loss and fee distribution between the tranches, the 256-bit multiply-divide and
  the high-water-mark floor.  The locale \<open>share_pricing\<close> states what a pair of
  mint/burn quotes promises (both round in favour of the pool); the global, junior and
  senior quotes are its three interpretations.
\<close>

section \<open>Definitions\<close>

definition VIRTUAL_SHARES :: u128 where
  "VIRTUAL_SHARES = 1"

definition VIRTUAL_ASSETS :: u128 where
  "VIRTUAL_ASSETS = 1"

definition U64_MAX :: u64 where
  "U64_MAX = - 1"

definition calc_lp_for_deposit :: "u64 \<Rightarrow> u64 \<Rightarrow> u64 \<Rightarrow> u64 option" where
  "calc_lp_for_deposit total_lp_supply total_pool_value deposit_amount =
     (if total_lp_supply = 0 \<and> total_pool_value = 0 then Some deposit_amount
      else if total_lp_supply = 0 then None
      else if total_pool_value = 0 then None
      else
        Option.bind (checked_add (ucast total_lp_supply) VIRTUAL_SHARES) (\<lambda>shares.
        Option.bind (checked_mul (ucast deposit_amount) shares) (\<lambda>product.
        Option.bind (checked_add (ucast total_pool_value) VIRTUAL_ASSETS) (\<lambda>assets.
        Option.bind (checked_div product assets) (\<lambda>lp.
        if lp > ucast U64_MAX then None else Some (ucast lp))))))"

definition calc_collateral_for_withdraw :: "u64 \<Rightarrow> u64 \<Rightarrow> u64 \<Rightarrow> u64 option" where
  "calc_collateral_for_withdraw total_lp_supply total_pool_value lp_amount =
     (if total_lp_supply = 0 then None
      else
        Option.bind (checked_add (ucast total_pool_value) VIRTUAL_ASSETS) (\<lambda>assets.
        Option.bind (checked_mul (ucast lp_amount) assets) (\<lambda>product.
        Option.bind (checked_add (ucast total_lp_supply) VIRTUAL_SHARES) (\<lambda>shares.
        Option.bind (checked_div product shares) (\<lambda>collateral.
        if collateral > ucast U64_MAX then None else Some (ucast collateral))))))"

definition pool_value :: "u64 \<Rightarrow> u64 \<Rightarrow> u64 option" where
  "pool_value total_deposited total_withdrawn = checked_sub total_deposited total_withdrawn"

definition pool_value_with_fees :: "u64 \<Rightarrow> u64 \<Rightarrow> u64 \<Rightarrow> u64 option" where
  "pool_value_with_fees total_deposited total_withdrawn total_fees_earned =
     Option.bind (checked_sub total_deposited total_withdrawn) (\<lambda>v.
     checked_add v total_fees_earned)"

definition calc_junior_lp_for_deposit :: "u64 \<Rightarrow> u64 \<Rightarrow> u64 \<Rightarrow> u64 option" where
  "calc_junior_lp_for_deposit junior_total_lp junior_balance deposit_amount =
     calc_lp_for_deposit junior_total_lp junior_balance deposit_amount"

definition calc_senior_lp_for_deposit :: "u64 \<Rightarrow> u64 \<Rightarrow> u64 \<Rightarrow> u64 option" where
  "calc_senior_lp_for_deposit senior_total_lp senior_balance deposit_amount =
     calc_lp_for_deposit senior_total_lp senior_balance deposit_amount"

definition calc_junior_collateral_for_withdraw :: "u64 \<Rightarrow> u64 \<Rightarrow> u64 \<Rightarrow> u64 option" where
  "calc_junior_collateral_for_withdraw junior_total_lp junior_balance lp_amount =
     calc_collateral_for_withdraw junior_total_lp junior_balance lp_amount"

definition calc_senior_collateral_for_withdraw :: "u64 \<Rightarrow> u64 \<Rightarrow> u64 \<Rightarrow> u64 option" where
  "calc_senior_collateral_for_withdraw senior_total_lp senior_balance lp_amount =
     calc_collateral_for_withdraw senior_total_lp senior_balance lp_amount"

definition distribute_loss :: "u64 \<Rightarrow> u64 \<Rightarrow> u64 \<Rightarrow> u64 \<times> u64" where
  "distribute_loss junior_balance senior_balance loss_amount =
     (let total = saturating_add junior_balance senior_balance;
          capped_loss = min loss_amount total
      in if capped_loss \<le> junior_balance then (capped_loss, 0)
         else (junior_balance, saturating_sub capped_loss junior_balance))"

text \<open>The \<open>while i > 0\<close> loop of \<open>mul_div_floor\<close>, from bit 255 down to bit 0.\<close>

primrec mul_div_loop :: "u128 \<Rightarrow> u128 \<Rightarrow> u128 \<Rightarrow> nat \<Rightarrow> u128 \<Rightarrow> u128 \<Rightarrow> u128" where
  "mul_div_loop hi lo d 0 rm quo = quo"
| "mul_div_loop hi lo d (Suc i) rm quo =
     (let b = (if i \<ge> 128 then drop_bit (i - 128) hi AND 1 else drop_bit i lo AND 1);
          rem_top = drop_bit 127 rm;
          rm1 = push_bit 1 rm OR b
      in if rem_top = 1 \<or> rm1 \<ge> d
         then mul_div_loop hi lo d i (rm1 - d) (if i < 128 then quo OR push_bit i 1 else quo)
         else mul_div_loop hi lo d i rm1 quo)"

definition mul_div_floor :: "u128 \<Rightarrow> u128 \<Rightarrow> u128 \<Rightarrow> u128" where
  "mul_div_floor a b d =
     (case checked_mul a b of
        Some p \<Rightarrow> p div d
      | None \<Rightarrow>
        (let mask = ucast U64_MAX;
             a0 = a AND mask; a1 = drop_bit 64 a;
             b0 = b AND mask; b1 = drop_bit 64 b;
             m0 = a0 * b0; m1 = a0 * b1; m2 = a1 * b0; m3 = a1 * b1;
             (s, c) = overflowing_add m1 m2;
             mid = s; mid_carry = (if c then 1 else 0 :: u128);
             (lo, c1) = overflowing_add m0 (push_bit 64 mid);
             hi = m3 + drop_bit 64 mid + push_bit 64 mid_carry + (if c1 then 1 else 0)
         in mul_div_loop hi lo d 256 0 0))"

definition distribute_fees :: "u64 \<Rightarrow> u64 \<Rightarrow> u16 \<Rightarrow> u64 \<Rightarrow> u64 \<times> u64" where
  "distribute_fees junior_balance senior_balance junior_fee_mult_bps total_fee =
     (if total_fee = 0 then (0, 0)
      else let total_balance = ucast junior_balance + ucast senior_balance :: u128 in
      if total_balance = 0 then (0, 0)
      else
        (let junior_weight = ucast junior_balance * ucast junior_fee_mult_bps :: u128;
             senior_weight = ucast senior_balance * 10000 :: u128;
             total_weight = junior_weight + senior_weight
         in if total_weight = 0 then (0, 0)
            else
              (let junior_fee_u128 =
                     (case checked_mul (ucast total_fee) junior_weight of
                        Some product \<Rightarrow> product div total_weight
                      | None \<Rightarrow>
                          (let q = ucast total_fee div total_weight;
                               r = ucast total_fee mod total_weight;
                               part1 = q * junior_weight;
                               part2 = mul_div_floor r junior_weight total_weight
                           in saturating_add part1 part2));
                   junior_fee = ucast (min junior_fee_u128 (ucast total_fee)) :: u64;
                   senior_fee = saturating_sub total_fee junior_fee
               in (junior_fee, senior_fee))))"

definition senior_protected :: "u64 \<Rightarrow> u64 \<Rightarrow> u64 \<Rightarrow> bool" where
  "senior_protected junior_balance senior_balance loss_amount \<longleftrightarrow> loss_amount \<le> junior_balance"

definition hwm_floor :: "u64 \<Rightarrow> u16 \<Rightarrow> u64 option" where
  "hwm_floor epoch_high_water_tvl hwm_floor_bps =
     Option.bind (checked_mul (ucast epoch_high_water_tvl :: u128) (ucast hwm_floor_bps)) (\<lambda>product.
     Option.bind (checked_div product 10000) (\<lambda>floor.
     if floor > ucast U64_MAX then None else Some (ucast floor)))"

definition hwm_withdrawal_allowed :: "u64 \<Rightarrow> u64 \<Rightarrow> u16 \<Rightarrow> bool" where
  "hwm_withdrawal_allowed post_withdrawal_tvl epoch_high_water_tvl hwm_floor_bps =
     (case hwm_floor epoch_high_water_tvl hwm_floor_bps of
        Some floor \<Rightarrow> post_withdrawal_tvl \<ge> floor
      | None \<Rightarrow> False)"

section \<open>The quotes as arithmetic on natural numbers\<close>

lemma U64_MAX_unat [simp]: "unat U64_MAX = 2 ^ 64 - 1"
  by (simp add: U64_MAX_def unsigned_minus_1_eq_mask mask_eq_exp_minus_1)

lemma gt_u64_max_iff: "(x :: u128) > ucast U64_MAX \<longleftrightarrow> 2 ^ 64 \<le> unat x"
  by (auto simp: word_less_nat_alt)

lemma ucast_u128_u64_eq: "unat (x :: u128) < 2 ^ 64 \<Longrightarrow> (ucast x :: u64) = y \<longleftrightarrow> unat y = unat x"
  by (metis unat_eqD unat_ucast_u128_u64)

text \<open>
  Both quotes are one pattern: a product of two values below \<open>2^w\<close> and \<open>2^w + 1\<close>,
  divided in a type at least twice as wide, and narrowed when it fits.  No intermediate step
  overflows.
\<close>

lemma quote_eq_Some:
  fixes S a V r :: "'w::len word"
  assumes wide: "2 * LENGTH('w) \<le> LENGTH('d::len)"
  shows "Option.bind (checked_add (ucast S) (1 :: 'd word)) (\<lambda>s.
     Option.bind (checked_mul (ucast a) s) (\<lambda>p.
     Option.bind (checked_add (ucast V) 1) (\<lambda>v.
     Option.bind (checked_div p v) (\<lambda>q.
     if q > ucast (- 1 :: 'w word) then None else Some (ucast q :: 'w word))))) = Some r \<longleftrightarrow>
   unat r = unat a * (unat S + 1) div (unat V + 1)"
proof -
  let ?W = "2 ^ LENGTH('w) :: nat" and ?D = "2 ^ LENGTH('d) :: nat"
  have lt: "unat x + 1 \<le> ?W" for x :: "'w word"
    unfolding Suc_eq_plus1 [symmetric] Suc_le_eq by (rule unat_lt_2p)
  have w2: "2 \<le> ?W" using power_increasing [of 1 "LENGTH('w)" "2 :: nat"] by (simp add: Suc_le_eq)
  have WD: "?W * ?W \<le> ?D" using power_increasing [OF wide, of "2 :: nat"] by (simp add: mult_2 power_add)
  have W: "?W < ?D"
  proof -
    have "?W * 2 \<le> ?W * ?W" using w2 by (rule mult_le_mono2)
    moreover have "0 < ?W" by simp
    ultimately show ?thesis using WD by linarith
  qed
  have cast: "unat (ucast x :: 'd word) = unat x" for x :: "'w word"
    by (rule unat_ucast_widen) (use wide in simp)
  define s p v :: "'d word" where "s = of_nat (unat S + 1)" and "p = of_nat (unat a * (unat S + 1))"
    and "v = of_nat (unat V + 1)"
  have s: "unat s = unat S + 1" and v: "unat v = unat V + 1"
    unfolding s_def v_def by (rule unat_of_nat_lt; use lt W in \<open>meson le_less_trans\<close>)+
  have "unat a * (unat S + 1) < ?W * ?W"
    by (rule less_le_trans [OF mult_strict_right_mono mult_le_mono2]) (use lt [of S] unat_lt_2p [of a] in auto)
  then have p: "unat p = unat a * (unat S + 1)"
    unfolding p_def by (intro unat_of_nat_lt) (use WD in linarith)
  have adds: "checked_add (ucast S) (1 :: 'd word) = Some s" "checked_add (ucast V) (1 :: 'd word) = Some v"
    by (simp_all add: rust_arith cast s v)
  have mul: "checked_mul (ucast a) s = Some p"
    by (simp add: rust_arith cast p s)
  have dv: "checked_div p v = Some (p div v)"
    using v by (auto simp: checked_div_def)
  have q: "unat (p div v) = unat a * (unat S + 1) div (unat V + 1)"
    by (simp add: unat_div p v)
  have "unat (- 1 :: 'w word) = ?W - 1" by (simp add: unsigned_minus_1_eq_mask mask_eq_exp_minus_1)
  then have "unat (ucast (- 1 :: 'w word) :: 'd word) = ?W - 1" unfolding cast .
  then have gt: "p div v > ucast (- 1 :: 'w word) \<longleftrightarrow> ?W \<le> unat (p div v)"
    unfolding word_less_nat_alt using w2 by linarith
  have nar: "(ucast (p div v) :: 'w word) = r \<longleftrightarrow> unat r = unat (p div v)" if "unat (p div v) < ?W"
    using that by (auto simp: unsigned_ucast_eq take_bit_nat_eq_self intro!: unat_eqD)
  have "unat r \<noteq> unat (p div v)" if "?W \<le> unat (p div v)"
    using that unat_lt_2p [of r] by (metis not_le)
  with nar show ?thesis by (auto simp: adds mul dv gt q)
qed

lemma calc_lp_for_deposit_eq_Some:
  "calc_lp_for_deposit S V a = Some lp \<longleftrightarrow>
     (S = 0 \<and> V = 0 \<and> lp = a) \<or>
     (S \<noteq> 0 \<and> V \<noteq> 0 \<and> unat lp = unat a * (unat S + 1) div (unat V + 1))"
  by (auto simp: calc_lp_for_deposit_def VIRTUAL_SHARES_def VIRTUAL_ASSETS_def U64_MAX_def quote_eq_Some
      simp del: bind_eq_Some)

lemma calc_collateral_for_withdraw_eq_Some:
  "calc_collateral_for_withdraw S V lp = Some c \<longleftrightarrow>
     S \<noteq> 0 \<and> unat c = unat lp * (unat V + 1) div (unat S + 1)"
  by (simp add: calc_collateral_for_withdraw_def VIRTUAL_SHARES_def VIRTUAL_ASSETS_def U64_MAX_def quote_eq_Some
      del: bind_eq_Some)

lemmas quote_defs =
  calc_junior_lp_for_deposit_def calc_senior_lp_for_deposit_def
  calc_junior_collateral_for_withdraw_def calc_senior_collateral_for_withdraw_def

section \<open>The contract of a mint/burn quote pair\<close>

text \<open>
  A sub-pool is a pair of counters: the LP supply \<open>S\<close> and the value \<open>V\<close> behind it.  A
  deposit of \<open>a\<close> mints \<open>mint S V a\<close> LP, a burn of \<open>l\<close> LP pays \<open>burn S V l\<close>.  The two
  laws say that both quotes round against the trader at the offset price
  \<open>(V + 1) / (S + 1)\<close>; everything a trader could try follows from them.
\<close>

datatype 'w lp_trade = Mint 'w | Burn 'w

fun run_trades ::
  "('w::len word \<Rightarrow> 'w word \<Rightarrow> 'w word \<Rightarrow> 'w word option) \<Rightarrow> ('w word \<Rightarrow> 'w word \<Rightarrow> 'w word \<Rightarrow> 'w word option) \<Rightarrow>
   'w word lp_trade list \<Rightarrow> 'w word \<Rightarrow> 'w word \<Rightarrow> ('w word \<times> 'w word) option" where
  "run_trades mint burn [] S V = Some (S, V)"
| "run_trades mint burn (Mint a # ts) S V =
     Option.bind (mint S V a) (\<lambda>lp.
     Option.bind (checked_add S lp) (\<lambda>S'.
     Option.bind (checked_add V a) (\<lambda>V'.
     run_trades mint burn ts S' V')))"
| "run_trades mint burn (Burn l # ts) S V =
     Option.bind (burn S V l) (\<lambda>c.
     Option.bind (checked_sub S l) (\<lambda>S'.
     Option.bind (checked_sub V c) (\<lambda>V'.
     run_trades mint burn ts S' V')))"

text \<open>Comparing prices \<open>v / s \<le> v1 / s1 \<le> v' / s'\<close> cross-multiplied is transitive.\<close>

lemma price_trans:
  fixes v s v1 s1 v' s' :: nat
  assumes "v * s1 \<le> v1 * s" and "v1 * s' \<le> v' * s1" and pos: "0 < v1" "0 < s1"
  shows "v * s' \<le> v' * s"
proof -
  have "(v * s1) * (v1 * s') \<le> (v1 * s) * (v' * s1)"
    using assms(1,2) by (rule mult_le_mono)
  then have "(v * s') * (v1 * s1) \<le> (v' * s) * (v1 * s1)"
    by (simp add: mult_ac)
  then show ?thesis
    using pos by simp
qed

lemma floor_quote_bound: "(q :: nat) = x div y \<Longrightarrow> q * y \<le> x"
  by simp

locale share_pricing =
  fixes mint burn :: "'w::len word \<Rightarrow> 'w word \<Rightarrow> 'w word \<Rightarrow> 'w word option"
  assumes mint_bound:
      "mint S V a = Some lp \<Longrightarrow> unat lp * (unat V + 1) \<le> unat a * (unat S + 1)"
    and burn_bound:
      "burn S V l = Some c \<Longrightarrow> unat c * (unat S + 1) \<le> unat l * (unat V + 1)"
begin

lemma mint_price:
  assumes "mint S V a = Some lp"
  shows "(unat V + 1) * (unat S + unat lp + 1) \<le> (unat V + unat a + 1) * (unat S + 1)"
  using mint_bound [OF assms] by (simp add: algebra_simps)

lemma burn_le_value:
  assumes "burn S V l = Some c" and "l \<le> S"
  shows "c \<le> V"
proof (rule ccontr)
  assume "\<not> c \<le> V"
  then have "(unat V + 1) * (unat S + 1) \<le> unat c * (unat S + 1)"
    by (intro mult_le_mono) (simp_all add: word_le_nat_alt)
  also have "\<dots> \<le> unat l * (unat V + 1)"
    using assms(1) by (rule burn_bound)
  also have "\<dots> \<le> unat S * (unat V + 1)"
    using assms(2) by (intro mult_le_mono) (simp_all add: word_le_nat_alt)
  finally show False by (simp add: algebra_simps)
qed

lemma burn_price:
  assumes "burn S V l = Some c" and "l \<le> S"
  shows "(unat V + 1) * (unat S - unat l + 1) \<le> (unat V - unat c + 1) * (unat S + 1)"
proof -
  have "c \<le> V" using assms by (rule burn_le_value)
  then obtain v where v: "unat V = unat c + v"
    by (auto simp: word_le_nat_alt dest: le_Suc_ex)
  obtain s where s: "unat S = unat l + s"
    using assms(2) by (auto simp: word_le_nat_alt dest: le_Suc_ex)
  have "unat c * (unat S + 1) \<le> unat l * (unat V + 1)"
    using assms(1) by (rule burn_bound)
  then show ?thesis
    by (simp add: v s algebra_simps)
qed

lemma mint_burn_no_profit:
  assumes "mint S V a = Some lp" and "unat S' = unat S + unat lp" and "unat V' = unat V + unat a"
    and "burn S' V' lp = Some c"
  shows "c \<le> a"
proof -
  have "unat c * (unat S' + 1) \<le> unat lp * (unat V' + 1)"
    using assms(4) by (rule burn_bound)
  also have "\<dots> \<le> unat a * (unat S' + 1)"
    using mint_bound [OF assms(1)] by (simp add: assms algebra_simps)
  finally show ?thesis
    by (simp add: word_le_nat_alt del: mult_Suc_right)
qed

text \<open>One trade never lowers the offset price, so a run of trades never does.\<close>

lemma run_trades_price:
  "run_trades mint burn ts S V = Some (S', V') \<Longrightarrow>
     (unat V + 1) * (unat S' + 1) \<le> (unat V' + 1) * (unat S + 1)"
proof (induction ts arbitrary: S V)
  case Nil
  then show ?case by simp
next
  case (Cons t ts)
  obtain S1 V1 where run: "run_trades mint burn ts S1 V1 = Some (S', V')"
    and step: "(unat V + 1) * (unat S1 + 1) \<le> (unat V1 + 1) * (unat S + 1)"
  proof (cases t)
    case (Mint a)
    with Cons.prems obtain lp S1 V1 where "mint S V a = Some lp" "unat S1 = unat S + unat lp"
      "unat V1 = unat V + unat a" "run_trades mint burn ts S1 V1 = Some (S', V')"
      by (auto simp: rust_arith)
    then show ?thesis using mint_price [of S V a lp] by (intro that [of S1 V1]) auto
  next
    case (Burn l)
    with Cons.prems obtain c S1 V1 where "burn S V l = Some c" "unat S = unat S1 + unat l"
      "unat V = unat V1 + unat c" "run_trades mint burn ts S1 V1 = Some (S', V')"
      by (auto simp: rust_arith)
    then show ?thesis using burn_price [of S V l c]
      by (intro that [of S1 V1]) (auto simp: word_le_nat_alt)
  qed
  from run have "(unat V1 + 1) * (unat S' + 1) \<le> (unat V' + 1) * (unat S1 + 1)"
    by (rule Cons.IH)
  with step show ?case
    by (rule price_trans) simp_all
qed

lemma run_trades_cycle:
  assumes "run_trades mint burn ts S V = Some (S, V')"
  shows "V \<le> V'"
  using run_trades_price [OF assms] by (simp add: word_le_nat_alt del: mult_Suc_right)

end

interpretation global_quote: share_pricing calc_lp_for_deposit calc_collateral_for_withdraw
proof
  fix S V a lp
  assume "calc_lp_for_deposit S V a = Some lp"
  then show "unat lp * (unat V + 1) \<le> unat a * (unat S + 1)"
    unfolding calc_lp_for_deposit_eq_Some by (elim disjE conjE; intro floor_quote_bound) simp_all
next
  fix S V l c
  assume "calc_collateral_for_withdraw S V l = Some c"
  then show "unat c * (unat S + 1) \<le> unat l * (unat V + 1)"
    unfolding calc_collateral_for_withdraw_eq_Some by (elim conjE; intro floor_quote_bound) simp
qed

interpretation junior_quote: share_pricing calc_junior_lp_for_deposit calc_junior_collateral_for_withdraw
  by unfold_locales (auto simp: quote_defs dest: global_quote.mint_bound global_quote.burn_bound)

interpretation senior_quote: share_pricing calc_senior_lp_for_deposit calc_senior_collateral_for_withdraw
  by unfold_locales (auto simp: quote_defs dest: global_quote.mint_bound global_quote.burn_bound)

end
