(* ===== verification/Wide_Arith.thy ===== *)
theory Wide_Arith
  imports Math
begin

unbundle bit_operations_syntax

text \<open>
  Correctness of \<open>mul_div_floor\<close> (\<open>src/math.rs\<close>): the 64-bit limbs form the exact 256-bit
  product, and the bit-by-bit long division of that product by a 128-bit divisor returns
  the floor of the quotient whenever it fits.  The loop invariant is
  \<open>rm = (N div 2^i) mod d\<close> and \<open>quo = ((N div 2^i) div d) * 2^i\<close>.
\<close>

lemma or_low_bit:
  fixes x b :: u128
  assumes "b = 0 \<or> b = 1"
  shows "push_bit 1 x OR b = of_nat (2 * unat x + unat b)"
proof -
  have "push_bit 1 x AND b = 0"
    using assms by (auto intro!: bit_word_eqI simp: bit_simps bit_0)
  then have "push_bit 1 x OR b = push_bit 1 x + b"
    by (simp add: disjunctive_add_eq_or)
  also have "push_bit 1 x = of_nat (2 * unat x)"
    by (simp add: push_bit_eq_mult mult.commute)
  finally show ?thesis by (simp add: mult.commute)
qed

lemma or_fresh_bit:
  fixes q :: u128
  assumes "unat q = k * 2 ^ Suc i" and "i < 128"
  shows "q OR push_bit i 1 = of_nat (unat q + 2 ^ i)"
proof -
  have "\<not> bit (unat q) i"
    by (simp add: assms(1) bit_iff_odd)
  then have "\<not> bit q i"
    by (simp add: bit_unsigned_iff)
  then have "q AND push_bit i 1 = 0"
    by (auto intro!: bit_word_eqI simp: bit_simps)
  then have "q OR push_bit i 1 = q + push_bit i 1"
    by (simp add: disjunctive_add_eq_or)
  then show ?thesis
    by (simp add: push_bit_eq_mult)
qed

lemma unat_low_bit: "unat (drop_bit n (x :: u128) AND 1) = unat x div 2 ^ n mod 2"
proof -
  have "unat (drop_bit n x) = unat x div 2 ^ n"
    using unat_drop_bit_eq [of n x] by (simp only: drop_bit_eq_div)
  then show ?thesis by (simp add: and_one_eq unat_mod)
qed

lemma bit_of_pair:
  fixes hi lo :: u128
  defines "N \<equiv> unat hi * 2 ^ 128 + unat lo"
  shows "unat (if i \<ge> 128 then drop_bit (i - 128) hi AND 1 else drop_bit i lo AND 1) =
    N div 2 ^ i mod 2"
proof (cases "i \<ge> 128")
  case True
  have "N div 2 ^ 128 = unat hi"
    using unat_u128_less [of lo] by (simp add: N_def)
  moreover have "(2::nat) ^ i = 2 ^ 128 * 2 ^ (i - 128)"
    using True by (metis le_add_diff_inverse power_add)
  ultimately have "N div 2 ^ i = unat hi div 2 ^ (i - 128)"
    by (metis div_mult2_eq)
  with True show ?thesis by (simp add: unat_low_bit)
next
  case False
  then have "N = unat lo + (unat hi * 2 ^ (128 - i)) * 2 ^ i"
    by (simp add: N_def mult.assoc flip: power_add)
  then have "N div 2 ^ i = unat hi * 2 ^ (128 - i) + unat lo div 2 ^ i"
    by (metis div_mult_self1 power_not_zero zero_neq_numeral)
  moreover have "(2::nat) ^ (128 - i) = 2 * 2 ^ (127 - i)"
    using False by (simp flip: power_Suc add: Suc_diff_le)
  ultimately show ?thesis
    using False by (simp add: unat_low_bit mod_add_eq[symmetric])
qed

lemma unat_of_nat_u128: "n < 2 ^ 128 \<Longrightarrow> unat (of_nat n :: u128) = n"
  by (rule unat_of_nat_lt) simp

lemma div_step:
  fixes M' d \<beta> :: nat
  assumes "0 < d" and "\<beta> \<le> 1"
  defines "T \<equiv> 2 * (M' mod d) + \<beta>"
  shows "(2 * M' + \<beta>) mod d = (if d \<le> T then T - d else T)"
    and "(2 * M' + \<beta>) div d = 2 * (M' div d) + (if d \<le> T then 1 else 0)"
proof -
  have lt: "T < 2 * d"
    using mod_less_divisor [OF assms(1), of M'] assms(2) unfolding T_def by linarith
  have "2 * M' + \<beta> = T + d * (2 * (M' div d))"
    unfolding T_def using mult_div_mod_eq [of d M'] by (metis (no_types, lifting)
      add.commute add.left_commute distrib_left mult.left_commute)
  moreover have "T mod d = (if d \<le> T then T - d else T)"
    using lt by (simp add: mod_if)
  moreover have "T div d = (if d \<le> T then 1 else 0)"
    using lt assms(1) by (auto simp: div_nat_eqI not_le)
  ultimately show "(2 * M' + \<beta>) mod d = (if d \<le> T then T - d else T)"
    and "(2 * M' + \<beta>) div d = 2 * (M' div d) + (if d \<le> T then 1 else 0)"
    using assms(1) by simp_all
qed

text \<open>One pass of the loop body: the 129-bit remainder \<open>2 r + bit\<close> is compared and reduced.\<close>

lemma rem_step:
  fixes rm b d :: u128
  assumes "unat rm < unat d" and "unat b \<le> 1"
  defines "T \<equiv> 2 * unat rm + unat b"
  shows "drop_bit 127 rm = 1 \<or> push_bit 1 rm OR b \<ge> d \<longleftrightarrow> unat d \<le> T"
    and "unat d \<le> T \<Longrightarrow> unat ((push_bit 1 rm OR b) - d) = T - unat d"
    and "\<not> unat d \<le> T \<Longrightarrow> unat (push_bit 1 rm OR b) = T"
proof -
  have d: "unat d < 2 ^ 128" using unat_u128_less [of d] by simp
  have "b = 0 \<or> b = 1"
    using assms(2) by (metis le_antisym less_one not_le unat_0_iff unat_1 unat_eqD)
  then have rm1: "push_bit 1 rm OR b = of_nat T"
    unfolding T_def by (rule or_low_bit)
  have top: "unat (drop_bit 127 rm) = unat rm div 2 ^ 127"
    using unat_drop_bit_eq [of 127 rm] by (simp only: drop_bit_eq_div)
  have top1: "drop_bit 127 rm = 1 \<longleftrightarrow> 2 ^ 128 \<le> T"
  proof
    assume "drop_bit 127 rm = 1"
    then have "unat rm div 2 ^ 127 = 1" using top by simp
    then show "2 ^ 128 \<le> T" unfolding T_def by simp
  next
    assume "2 ^ 128 \<le> T"
    then have "2 ^ 127 \<le> unat rm" using assms(2) unfolding T_def by simp
    then have "unat rm div 2 ^ 127 = 1"
      using unat_u128_less [of rm] by (simp add: div_nat_eqI)
    then show "drop_bit 127 rm = 1" using top by (simp add: unat_eqD)
  qed
  show "drop_bit 127 rm = 1 \<or> push_bit 1 rm OR b \<ge> d \<longleftrightarrow> unat d \<le> T"
  proof (cases "2 ^ 128 \<le> T")
    case True
    then show ?thesis using top1 d by linarith
  next
    case False
    then have "unat (push_bit 1 rm OR b) = T"
      unfolding rm1 by (simp add: unat_of_nat_u128)
    with False top1 show ?thesis by (simp add: word_le_nat_alt)
  qed
  show "unat ((push_bit 1 rm OR b) - d) = T - unat d" if "unat d \<le> T"
  proof -
    have "(push_bit 1 rm OR b) - d = of_nat (T - unat d)"
      using that unfolding rm1 by (simp add: of_nat_diff)
    moreover have "T - unat d < 2 ^ 128"
      using assms(1,2) d unfolding T_def by linarith
    ultimately show ?thesis by (simp only: unat_of_nat_u128)
  qed
  show "unat (push_bit 1 rm OR b) = T" if "\<not> unat d \<le> T"
    using that d unfolding rm1 by (simp add: unat_of_nat_u128)
qed

text \<open>A pass that subtracts \<open>d\<close> sets a bit of the quotient that fits and was clear.\<close>

lemma quotient_bit:
  fixes quo :: u128
  assumes fits: "N div d < 2 ^ 128" and Q: "N div 2 ^ i div d = 2 * q + 1" and quo: "unat quo = q * 2 ^ Suc i"
  shows "i < 128" and "unat (quo OR push_bit i 1) = (2 * q + 1) * 2 ^ i"
proof -
  have "N div d div 2 ^ i = 2 * q + 1" using Q by (metis div_mult2_eq mult.commute)
  then have ge: "(2 * q + 1) * 2 ^ i \<le> N div d" by (metis div_times_less_eq_dividend)
  show i: "i < 128"
  proof (rule ccontr)
    assume "\<not> i < 128"
    then have "(2::nat) ^ 128 \<le> 2 ^ i" by (intro power_increasing) simp_all
    also have "\<dots> \<le> (2 * q + 1) * 2 ^ i" by simp
    finally show False using ge fits by linarith
  qed
  have "unat quo + 2 ^ i < 2 ^ 128" using ge fits by (simp add: quo algebra_simps)
  then have "unat (quo OR push_bit i 1) = unat quo + 2 ^ i"
    unfolding or_fresh_bit [OF quo i] by (rule unat_of_nat_u128)
  then show "unat (quo OR push_bit i 1) = (2 * q + 1) * 2 ^ i" by (simp add: quo algebra_simps)
qed

lemma mul_div_loop_correct:
  fixes hi lo d :: u128
  defines "N \<equiv> unat hi * 2 ^ 128 + unat lo"
  assumes d: "0 < unat d" and fits: "N div unat d < 2 ^ 128"
  shows "unat rm = N div 2 ^ i mod unat d \<Longrightarrow> unat quo = (N div 2 ^ i div unat d) * 2 ^ i \<Longrightarrow>
    unat (mul_div_loop hi lo d i rm quo) = N div unat d"
proof (induction i arbitrary: rm quo)
  case 0
  then show ?case by simp
next
  case (Suc i)
  define b where "b = (if i \<ge> 128 then drop_bit (i - 128) hi AND 1 else drop_bit i lo AND 1)"
  define M' where "M' = N div 2 ^ Suc i"
  define T where "T = 2 * unat rm + unat b"
  have b: "unat b = N div 2 ^ i mod 2"
    unfolding b_def N_def by (rule bit_of_pair)
  then have b1: "unat b \<le> 1" by simp
  have "M' = N div 2 ^ i div 2"
    unfolding M'_def by (simp only: power_Suc2 div_mult2_eq)
  then have M: "N div 2 ^ i = 2 * M' + unat b"
    using b by simp
  have rm: "unat rm = M' mod unat d" and quo: "unat quo = (M' div unat d) * 2 ^ Suc i"
    using Suc.prems by (simp_all add: M'_def)
  have rm_lt: "unat rm < unat d" using rm d by simp
  note step = div_step [OF d b1, of M', folded rm, folded T_def, folded M]
  note body = rem_step [OF rm_lt b1, folded T_def]
  have unfold: "mul_div_loop hi lo d (Suc i) rm quo =
      (if unat d \<le> T then mul_div_loop hi lo d i ((push_bit 1 rm OR b) - d)
           (if i < 128 then quo OR push_bit i 1 else quo)
       else mul_div_loop hi lo d i (push_bit 1 rm OR b) quo)"
    by (simp only: mul_div_loop.simps Let_def b_def [symmetric] body(1))
  show ?case
  proof (cases "unat d \<le> T")
    case True
    have Q: "N div 2 ^ i div unat d = 2 * (M' div unat d) + 1"
      using step(2) True by simp
    note bit = quotient_bit [OF fits Q quo]
    have "unat (quo OR push_bit i 1) = (N div 2 ^ i div unat d) * 2 ^ i" unfolding Q by (rule bit(2))
    moreover have "unat ((push_bit 1 rm OR b) - d) = N div 2 ^ i mod unat d"
      using step(1) body(2) True by simp
    ultimately show ?thesis
      using unfold True bit(1) Suc.IH by simp
  next
    case False
    then have "unat (push_bit 1 rm OR b) = N div 2 ^ i mod unat d"
      and "unat quo = (N div 2 ^ i div unat d) * 2 ^ i"
      using step body(3) quo by simp_all
    then show ?thesis
      using unfold False Suc.IH by simp
  qed
qed


text \<open>The 64-bit limbs: \<open>hi * 2^128 + lo\<close> is the full 256-bit product.\<close>

lemma limb_product:
  fixes a0 a1 b0 b1 X mq mr lq lr :: nat
  assumes m: "a0 * b1 + a1 * b0 = mq * X + mr" and l: "a0 * b0 + mr * X = lq * (X * X) + lr"
  shows "(a0 + a1 * X) * (b0 + b1 * X) = (a1 * b1 + mq + lq) * (X * X) + lr"
proof -
  have "(a0 + a1 * X) * (b0 + b1 * X) = a1 * b1 * (X * X) + (a0 * b1 + a1 * b0) * X + a0 * b0"
    by (simp add: algebra_simps)
  also have "\<dots> = (a1 * b1 + mq) * (X * X) + (a0 * b0 + mr * X)"
    unfolding m by (simp add: algebra_simps)
  also have "\<dots> = (a1 * b1 + mq + lq) * (X * X) + lr"
    unfolding l by (simp add: algebra_simps)
  finally show ?thesis .
qed

lemma unat_low_limb: "unat ((a :: u128) AND ucast U64_MAX) = unat a mod 2 ^ 64"
proof -
  have "(ucast U64_MAX :: u128) = mask 64"
    by (rule unat_eqD) (simp add: mask_eq_exp_minus_1)
  then have "a AND ucast U64_MAX = take_bit 64 a"
    by (simp only: take_bit_eq_mask)
  moreover have "unat (take_bit 64 a) = take_bit 64 (unat a)"
    by (rule unsigned_take_bit_eq)
  ultimately show ?thesis
    by (simp only: take_bit_eq_mod)
qed

lemma unat_high_limb: "unat (drop_bit 64 (a :: u128)) = unat a div 2 ^ 64"
  using unat_drop_bit_eq [of 64 a] by (simp only: drop_bit_eq_div)

lemma unat_push_64: "unat (push_bit 64 (a :: u128)) = unat a mod 2 ^ 64 * 2 ^ 64"
proof -
  have "push_bit 64 a = of_nat (unat a * 2 ^ 64)"
    by (simp add: push_bit_eq_mult)
  then have "unat (push_bit 64 a) = (unat a * 2 ^ 64) mod 2 ^ 128"
    by (simp only: unat_of_nat take_bit_eq_mod) simp
  also have "(2::nat) ^ 128 = 2 ^ 64 * 2 ^ 64" by simp
  finally show ?thesis by (simp only: mult_mod_left)
qed

lemma overflowing_add_u128:
  fixes x y :: u128
  assumes "unat x + unat y = q * 2 ^ 128 + r" and "r < 2 ^ 128"
  shows "unat (fst (overflowing_add x y)) = r"
    and "(if snd (overflowing_add x y) then 1 else 0 :: u128) = of_nat q"
proof -
  have lt: "unat x + unat y < 2 * 2 ^ 128"
    using unat_u128_less [of x] unat_u128_less [of y] by simp
  then have q: "q = 0 \<or> q = 1"
    using assms(1) by auto
  show "unat (fst (overflowing_add x y)) = r"
    using assms by (simp add: overflowing_add_def unat_word_ariths)
  show "(if snd (overflowing_add x y) then 1 else 0 :: u128) = of_nat q"
    using q assms by (auto simp: overflowing_add_def)
qed


lemma split_div_2p: "(m :: nat) div 2 ^ 64 = m mod 2 ^ 128 div 2 ^ 64 + m div 2 ^ 128 * 2 ^ 64"
proof -
  have "m div 2 ^ 64 = (m mod 2 ^ 128 + m div 2 ^ 128 * 2 ^ 64 * 2 ^ 64) div 2 ^ 64"
    by simp
  also have "\<dots> = m div 2 ^ 128 * 2 ^ 64 + m mod 2 ^ 128 div 2 ^ 64"
    by (rule div_mult_self1) simp
  finally show ?thesis by simp
qed

lemma mult_limbs_of_nat: "of_nat (unat x * unat y) = x * (y :: u128)"
  by simp

lemma unat_mult_limbs:
  fixes x y :: u128
  assumes "unat x < 2 ^ 64" and "unat y < 2 ^ 64"
  shows "unat (x * y) = unat x * unat y"
proof -
  have "unat x * unat y \<le> (2 ^ 64 - 1) * (2 ^ 64 - 1)"
    using assms by (intro mult_le_mono) simp_all
  then show ?thesis by (simp add: unat_word_ariths)
qed

text \<open>The sums of limb products with their carries, and the upper half they make.\<close>

lemma limb_sums:
  fixes a0 a1 b0 b1 :: u128
  defines "mid \<equiv> fst (overflowing_add (a0 * b1) (a1 * b0))"
    and "mc \<equiv> (if snd (overflowing_add (a0 * b1) (a1 * b0)) then 1 else 0 :: u128)"
  defines "lo \<equiv> fst (overflowing_add (a0 * b0) (push_bit 64 mid))"
    and "lc \<equiv> (if snd (overflowing_add (a0 * b0) (push_bit 64 mid)) then 1 else 0 :: u128)"
  assumes lt: "unat a0 < 2 ^ 64" "unat a1 < 2 ^ 64" "unat b0 < 2 ^ 64" "unat b1 < 2 ^ 64"
  obtains m l where "unat mid = m mod 2 ^ 128" "mc = of_nat (m div 2 ^ 128)" "unat lo = l mod 2 ^ 128" "lc = of_nat (l div 2 ^ 128)"
    and "(unat a0 + unat a1 * 2 ^ 64) * (unat b0 + unat b1 * 2 ^ 64)
      = (unat a1 * unat b1 + m div 2 ^ 64 + l div 2 ^ 128) * 2 ^ 128 + unat lo"
proof -
  define m where "m = unat a0 * unat b1 + unat a1 * unat b0"
  define l where "l = unat a0 * unat b0 + m mod 2 ^ 64 * 2 ^ 64"
  have "unat (a0 * b1) + unat (a1 * b0) = m div 2 ^ 128 * 2 ^ 128 + m mod 2 ^ 128"
    unfolding m_def by (simp only: unat_mult_limbs lt div_mult_mod_eq)
  from overflowing_add_u128 [OF this]
  have mid: "unat mid = m mod 2 ^ 128" and mc: "mc = of_nat (m div 2 ^ 128)"
    unfolding mid_def mc_def by simp_all
  have push: "unat (push_bit 64 mid) = m mod 2 ^ 64 * 2 ^ 64"
    unfolding unat_push_64 mid by (simp add: mod_mod_cancel)
  have "unat (a0 * b0) + unat (push_bit 64 mid) = l div 2 ^ 128 * 2 ^ 128 + l mod 2 ^ 128"
    unfolding l_def push by (simp only: unat_mult_limbs lt div_mult_mod_eq)
  from overflowing_add_u128 [OF this]
  have lo: "unat lo = l mod 2 ^ 128" and lc: "lc = of_nat (l div 2 ^ 128)"
    unfolding lo_def lc_def by simp_all
  have "(unat a0 + unat a1 * 2 ^ 64) * (unat b0 + unat b1 * 2 ^ 64)
      = (unat a1 * unat b1 + m div 2 ^ 64 + l div 2 ^ 128) * (2 ^ 64 * 2 ^ 64) + l mod 2 ^ 128"
    by (rule limb_product [where mr = "m mod 2 ^ 64"]) (simp_all add: l_def m_def)
  then show thesis by (intro that [OF mid mc lo lc]) (simp add: lo)
qed

text \<open>Adding the carries into the upper half is exact.\<close>

lemma upper_sum:
  fixes x mid mc lc :: u128
  assumes mid: "unat mid = m mod 2 ^ 128" and mc: "mc = of_nat (m div 2 ^ 128)" and lc: "lc = of_nat c"
    and fits: "unat x + m div 2 ^ 64 + c < 2 ^ 128"
  shows "unat (x + drop_bit 64 mid + push_bit 64 mc + lc) = unat x + m div 2 ^ 64 + c"
    and "unat x + unat (drop_bit 64 mid) + unat (push_bit 64 mc) + unat lc \<le> unat x + m div 2 ^ 64 + c"
proof -
  have "drop_bit 64 mid = of_nat (m mod 2 ^ 128 div 2 ^ 64)"
    using arg_cong [OF unat_high_limb [of mid], of "of_nat :: nat \<Rightarrow> u128"] unfolding mid by simp
  moreover have "push_bit 64 mc = of_nat (m div 2 ^ 128 * 2 ^ 64)"
    unfolding mc by (simp add: push_bit_eq_mult)
  ultimately have "drop_bit 64 mid + push_bit 64 mc = of_nat (m div 2 ^ 64)"
    unfolding split_div_2p [of m] by simp
  then have "x + drop_bit 64 mid + push_bit 64 mc + lc = of_nat (unat x + m div 2 ^ 64 + c)"
    unfolding lc by (simp add: add.assoc)
  then show "unat (x + drop_bit 64 mid + push_bit 64 mc + lc) = unat x + m div 2 ^ 64 + c"
    using fits by (simp only: unat_of_nat_u128)
  have mc_nat: "unat mc \<le> m div 2 ^ 128" and lc_nat: "unat lc \<le> c"
    unfolding mc lc by (simp_all only: unat_of_nat take_bit_eq_mod mod_less_eq_dividend)
  have "unat (push_bit 64 mc) \<le> unat mc * 2 ^ 64"
    unfolding unat_push_64 by (intro mult_le_mono1 mod_less_eq_dividend)
  with mc_nat have "unat (push_bit 64 mc) \<le> m div 2 ^ 128 * 2 ^ 64" by (meson mult_le_mono1 order_trans)
  moreover have "unat (drop_bit 64 mid) = m mod 2 ^ 128 div 2 ^ 64" by (simp only: unat_high_limb mid)
  ultimately show "unat x + unat (drop_bit 64 mid) + unat (push_bit 64 mc) + unat lc \<le> unat x + m div 2 ^ 64 + c"
    unfolding split_div_2p [of m] using lc_nat by linarith
qed

text \<open>The slow path's \<open>hi\<close> and \<open>lo\<close>, computed with carries, hold the exact product.\<close>

lemma wide_product:
  fixes a b :: u128
  defines "a0 \<equiv> a AND ucast U64_MAX" and "a1 \<equiv> drop_bit 64 a"
    and "b0 \<equiv> b AND ucast U64_MAX" and "b1 \<equiv> drop_bit 64 b"
  defines "mid \<equiv> fst (overflowing_add (a0 * b1) (a1 * b0))"
    and "mc \<equiv> (if snd (overflowing_add (a0 * b1) (a1 * b0)) then 1 else 0 :: u128)"
  defines "lo \<equiv> fst (overflowing_add (a0 * b0) (push_bit 64 mid))"
    and "lc \<equiv> (if snd (overflowing_add (a0 * b0) (push_bit 64 mid)) then 1 else 0 :: u128)"
  defines "hi \<equiv> a1 * b1 + drop_bit 64 mid + push_bit 64 mc + lc"
  shows "unat hi * 2 ^ 128 + unat lo = unat a * unat b"
    and "unat (a1 * b1) + unat (drop_bit 64 mid) + unat (push_bit 64 mc) + unat lc < 2 ^ 128"
proof -
  have x: "unat a0 = unat a mod 2 ^ 64" "unat a1 = unat a div 2 ^ 64"
    "unat b0 = unat b mod 2 ^ 64" "unat b1 = unat b div 2 ^ 64"
    by (simp_all only: a0_def a1_def b0_def b1_def unat_low_limb unat_high_limb)
  have lt: "unat a0 < 2 ^ 64" "unat a1 < 2 ^ 64" "unat b0 < 2 ^ 64" "unat b1 < 2 ^ 64"
    unfolding x using unat_u128_less [of a] unat_u128_less [of b]
    by (simp_all add: less_mult_imp_div_less)
  obtain m l where ml: "unat mid = m mod 2 ^ 128" "mc = of_nat (m div 2 ^ 128)" "lc = of_nat (l div 2 ^ 128)"
    and "(unat a0 + unat a1 * 2 ^ 64) * (unat b0 + unat b1 * 2 ^ 64)
      = (unat a1 * unat b1 + m div 2 ^ 64 + l div 2 ^ 128) * 2 ^ 128 + unat lo"
    unfolding mid_def mc_def lo_def lc_def by (rule limb_sums [OF lt])
  then have prod: "unat a * unat b = (unat (a1 * b1) + m div 2 ^ 64 + l div 2 ^ 128) * 2 ^ 128 + unat lo"
    unfolding unat_mult_limbs [OF lt(2,4)] unfolding x by simp
  have "(unat (a1 * b1) + m div 2 ^ 64 + l div 2 ^ 128) * 2 ^ 128 \<le> unat a * unat b" using prod by simp
  also have "\<dots> < 2 ^ 128 * 2 ^ 128"
    using unat_u128_less [of a] unat_u128_less [of b] by (intro mult_strict_mono) simp_all
  finally have fits: "unat (a1 * b1) + m div 2 ^ 64 + l div 2 ^ 128 < 2 ^ 128" by simp
  note up = upper_sum [OF ml fits]
  show "unat hi * 2 ^ 128 + unat lo = unat a * unat b" unfolding hi_def up(1) prod by (rule refl)
  show "unat (a1 * b1) + unat (drop_bit 64 mid) + unat (push_bit 64 mc) + unat lc < 2 ^ 128"
    using up(2) fits by (rule le_less_trans)
qed

lemma mul_div_floor_exact:
  assumes d: "d \<noteq> 0" and fits: "unat a * unat b div unat d < 2 ^ 128"
  shows "unat (mul_div_floor a b d) = unat a * unat b div unat d"
proof (cases "checked_mul a b")
  case (Some p)
  then have "unat p = unat a * unat b" by (simp add: rust_arith)
  with Some show ?thesis by (simp add: mul_div_floor_def unat_div)
next
  case None
  then obtain hi lo where code: "mul_div_floor a b d = mul_div_loop hi lo d 256 0 0"
    and prod: "unat hi * 2 ^ 128 + unat lo = unat a * unat b"
    using wide_product(1) [of a b] by (simp add: mul_div_floor_def Let_def case_prod_beta)
  have "unat (mul_div_loop hi lo d 256 0 0) = (unat hi * 2 ^ 128 + unat lo) div unat d"
  proof (rule mul_div_loop_correct)
    show "0 < unat d" using d by (simp add: unat_gt_0)
    show "(unat hi * 2 ^ 128 + unat lo) div unat d < 2 ^ 128"
      using fits by (simp only: prod)
    have "(unat hi * 2 ^ 128 + unat lo) div 2 ^ 256 = 0"
      using unat_u128_less [of hi] unat_u128_less [of lo] by simp
    then show "unat (0 :: u128) = (unat hi * 2 ^ 128 + unat lo) div 2 ^ 256 mod unat d"
      and "unat (0 :: u128) = (unat hi * 2 ^ 128 + unat lo) div 2 ^ 256 div unat d * 2 ^ 256"
      by (simp_all only:) simp_all
  qed
  then show ?thesis by (simp only: code prod)
qed

end
