(* ===== verification/Tranche_Math.thy ===== *)
theory Tranche_Math
  imports Wide_Arith
begin

text \<open>
  What the tranche arithmetic of \<open>src/math.rs\<close> computes: losses hit the junior tranche
  first, the fee split is the exact weighted floor on both code paths and loses nothing,
  and the high-water-mark floor never overflows.
\<close>

lemma distribute_loss_junior_first:
  assumes "distribute_loss jb sb loss = (jl, sl)"
  shows "unat jl = min (unat loss) (unat jb)"
    and "unat jb + unat sb < 2 ^ 64 \<Longrightarrow> unat sl = min (unat loss - unat jb) (unat sb)"
    and "sl \<noteq> 0 \<Longrightarrow> jl = jb"
proof -
  let ?t = "saturating_add jb sb"
  have t: "unat ?t = min (unat jb + unat sb) (2 ^ 64 - 1)"
    by (simp add: unat_saturating_add)
  then have le: "unat jb \<le> unat ?t"
    using unat_u64_le_max [of jb] by simp
  have mn: "unat (min loss ?t) = min (unat loss) (unat ?t)"
    by (simp add: min_def word_le_nat_alt)
  have cases: "if min (unat loss) (unat ?t) \<le> unat jb then unat jl = min (unat loss) (unat ?t) \<and> sl = 0
      else jl = jb \<and> unat sl = min (unat loss) (unat ?t) - unat jb"
    using assms mn by (auto simp: distribute_loss_def Let_def word_le_nat_alt split: if_splits)
  show "unat jl = min (unat loss) (unat jb)"
    using cases le by (auto split: if_splits)
  show "unat sl = min (unat loss - unat jb) (unat sb)" if "unat jb + unat sb < 2 ^ 64"
    using cases le t that by (auto split: if_splits)
  show "sl \<noteq> 0 \<Longrightarrow> jl = jb"
    using cases by (auto split: if_splits)
qed

lemma floor_split: "(f * j) div (t::nat) = (f div t) * j + (f mod t) * j div t" if "t \<noteq> 0"
proof -
  have "f * j = (f mod t) * j + ((f div t) * j) * t"
    by (metis (no_types, lifting) add.commute add_mult_distrib div_mult_mod_eq mult.assoc mult.commute)
  then show ?thesis
    using that by (metis div_mult_self1)
qed

lemma weighted_floor_le: "(f * j) div (j + s) \<le> (f::nat)"
proof (cases "j + s = 0")
  case False
  have "f * j \<le> f * (j + s)" by simp
  then show ?thesis using False by (metis div_le_mono nonzero_mult_div_cancel_right)
qed simp

text \<open>The junior share of the fee before the clamp, on both code paths.\<close>

lemma junior_share_exact:
  fixes J T :: u128 and fee :: u64
  assumes T: "T \<noteq> 0" and le: "J \<le> T"
  shows "unat (case checked_mul (ucast fee) J of
      Some product \<Rightarrow> product div T
    | None \<Rightarrow> saturating_add (ucast fee div T * J) (mul_div_floor (ucast fee mod T) J T))
    = unat fee * unat J div unat T"
proof (cases "checked_mul (ucast fee) J")
  case (Some p)
  then have "unat p = unat fee * unat J" by (simp add: rust_arith)
  with Some show ?thesis by (simp add: unat_div)
next
  case None
  have T0: "unat T \<noteq> 0" using T by (simp add: unat_eq_0)
  have JT: "unat J \<le> unat T" using le by (simp add: word_le_nat_alt)
  define q r where "q = unat fee div unat T" and "r = unat fee mod unat T"
  have "q * unat J \<le> q * unat T" using JT by simp
  also have "\<dots> \<le> unat fee" by (simp add: q_def)
  finally have qJ: "q * unat J < 2 ^ 64" using unat_u64_less [of fee] by simp
  have p1: "unat (ucast fee div T * J) = q * unat J"
    using qJ by (simp add: unat_word_ariths(2) unat_div q_def)
  have "r * unat J div unat T \<le> r"
    using JT T0 by (metis div_le_mono mult_le_mono2 nonzero_mult_div_cancel_right)
  moreover have "r < unat T" using T0 by (simp add: r_def)
  ultimately have rJ: "r * unat J div unat T < 2 ^ 128"
    using unat_u128_less [of T] by simp
  have p2: "unat (mul_div_floor (ucast fee mod T) J T) = r * unat J div unat T"
    using mul_div_floor_exact [OF T, of "ucast fee mod T" J] rJ by (simp add: unat_mod r_def)
  have sum: "q * unat J + r * unat J div unat T = unat fee * unat J div unat T"
    unfolding q_def r_def using floor_split [OF T0, of "unat fee" "unat J"] by simp
  obtain s where "unat T = unat J + s" using JT by (metis le_Suc_ex)
  then have "unat fee * unat J div unat T \<le> unat fee"
    using weighted_floor_le [of "unat fee" "unat J" s] by simp
  then have "unat fee * unat J div unat T \<le> 2 ^ 128 - 1"
    using unat_u64_le_max [of fee] by simp
  with None show ?thesis
    by (simp add: unat_saturating_add p1 p2 sum)
qed

lemma distribute_fees_exact:
  assumes "distribute_fees jb sb mult fee = (jf, sf)"
  defines "jw \<equiv> unat jb * unat mult" and "sw \<equiv> unat sb * 10000"
  shows "unat jf = unat fee * jw div (jw + sw)"
    and "jw + sw \<noteq> 0 \<Longrightarrow> unat jf + unat sf = unat fee"
proof -
  define J S T :: u128 where "J = ucast jb * ucast mult" and "S = ucast sb * 10000" and "T = J + S"
  have jwb: "jw \<le> 18446744073709551615 * 65535" unfolding jw_def
    using unat_u64_le_max [of jb] unat_u16_less [of mult] by (intro mult_le_mono) linarith+
  have swb: "sw \<le> 18446744073709551615 * 10000" unfolding sw_def
    using unat_u64_le_max [of sb] by simp
  have J: "unat J = jw" and S: "unat S = sw"
    using jwb swb by (simp_all add: J_def S_def jw_def sw_def unat_word_ariths)
  have T: "unat T = jw + sw"
    using jwb swb by (simp add: T_def J S unat_word_ariths)
  have JT: "J \<le> T" by (simp add: word_le_nat_alt J T)
  have tb: "(ucast jb + ucast sb :: u128) = 0 \<longleftrightarrow> unat jb + unat sb = 0"
    unfolding unat_eq_0 [symmetric] using unat_u64_le_max [of jb] unat_u64_le_max [of sb]
    by (simp add: unat_word_ariths)
  define X where "X = (case checked_mul (ucast fee) J of Some product \<Rightarrow> product div T
    | None \<Rightarrow> saturating_add (ucast fee div T * J) (mul_div_floor (ucast fee mod T) J T))"
  have unfold: "(jf, sf) = (if fee = 0 \<or> unat jb + unat sb = 0 \<or> T = 0 then (0, 0)
      else (ucast (min X (ucast fee)), saturating_sub fee (ucast (min X (ucast fee)))))"
    using assms(1) unfolding distribute_fees_def Let_def J_def S_def T_def X_def tb
    by (auto split: if_splits)
  have le: "unat fee * jw div (jw + sw) \<le> unat fee" by (rule weighted_floor_le)
  have nz: "T \<noteq> 0 \<longleftrightarrow> jw + sw \<noteq> 0" by (simp add: T flip: unat_eq_0)
  have share: "unat (ucast (min X (ucast fee)) :: u64) = unat fee * jw div (jw + sw)" if "T \<noteq> 0"
  proof -
    have X: "unat X = unat fee * jw div (jw + sw)"
      unfolding X_def junior_share_exact [OF that JT] by (simp add: J T)
    then have "min X (ucast fee) = X" using le by (simp add: min_def word_le_nat_alt)
    then show ?thesis using X le unat_u64_less [of fee] by (simp add: unat_ucast_u128_u64 )
  qed
  show "unat jf = unat fee * jw div (jw + sw)"
    using unfold share nz by (auto split: if_splits simp: jw_def)
  show "unat jf + unat sf = unat fee" if "jw + sw \<noteq> 0"
    using unfold share nz that le by (auto split: if_splits simp: jw_def sw_def)
qed

lemma hwm_floor_eq_Some:
  "hwm_floor hwm bps = Some f \<longleftrightarrow> unat f = unat hwm * unat bps div 10000"
proof -
  have lt: "unat hwm * unat bps \<le> 18446744073709551615 * 65535"
    using unat_u64_le_max [of hwm] unat_u16_less [of bps] by (intro mult_le_mono) linarith+
  define p :: u128 where "p = of_nat (unat hwm * unat bps)"
  have p: "unat p = unat hwm * unat bps"
    unfolding p_def by (rule unat_of_nat_lt) (use lt in simp)
  have mul: "checked_mul (ucast hwm :: u128) (ucast bps) = Some p"
    by (simp add: rust_arith p)
  have dv: "checked_div p 10000 = Some (p div 10000)"
    by (simp add: checked_div_def)
  have q: "unat (p div 10000) = unat hwm * unat bps div 10000"
    by (simp add: unat_div p)
  have "unat f < 2 ^ 64" using unat_u64_less [of f] by simp
  then show ?thesis
    using ucast_u128_u64_eq [of "p div 10000" f]
    by (auto simp: hwm_floor_def mul dv gt_u64_max_iff q)
qed
end
