(* ===== verification/Pricing.thy ===== *)
theory Pricing
  imports Tranche_Math
begin

text \<open>
  What the pure arithmetic of \<open>src/math.rs\<close> guarantees to depositors: a round trip never
  pays, no run of mints and burns extracts value, payouts never exceed the pool, losses hit
  the junior tranche first, and fees are split exactly.
\<close>

section \<open>Mint and burn quotes\<close>

text \<open>
  No round trip is profitable.  A depositor who mints LP at the quoted price and burns the
  same LP right after, with the counters updated by exactly his own deposit, never receives
  more than he put in.
\<close>

lemma deposit_withdraw_no_profit:
  assumes "calc_lp_for_deposit S V a = Some lp"
    and "checked_add S lp = Some S'" and "checked_add V a = Some V'"
    and "calc_collateral_for_withdraw S' V' lp = Some c"
  shows "c \<le> a"
  using assms(1) _ _ assms(4)
  by (rule global_quote.mint_burn_no_profit) (use assms(2,3) in \<open>simp_all add: rust_arith\<close>)

text \<open>
  C27 (no sequence of trades dilutes the pool).  Over any sequence of mints and burns, by any
  traders, the offset price \<open>(value + 1) / (supply + 1)\<close> never falls; in particular a
  sequence that brings the supply back to where it was leaves at least the same value
  behind, so the traders together extract nothing.  It holds of the global, the junior and
  the senior quotes.
\<close>

theorem trades_never_dilute:
  assumes "(mint, burn) \<in>
      {(calc_lp_for_deposit, calc_collateral_for_withdraw),
       (calc_junior_lp_for_deposit, calc_junior_collateral_for_withdraw),
       (calc_senior_lp_for_deposit, calc_senior_collateral_for_withdraw)}"
    and run: "run_trades mint burn ts S V = Some (S', V')"
  shows "(unat V + 1) * (unat S' + 1) \<le> (unat V' + 1) * (unat S + 1) \<and> (S' = S \<longrightarrow> V \<le> V')"
proof -
  have "share_pricing mint burn"
    using assms(1) global_quote.share_pricing_axioms junior_quote.share_pricing_axioms
      senior_quote.share_pricing_axioms by auto
  then show ?thesis
    using run share_pricing.run_trades_price share_pricing.run_trades_cycle by blast
qed

theorem trades_never_dilute_witness:
  "\<exists>V'. run_trades calc_lp_for_deposit calc_collateral_for_withdraw [Mint 500, Burn 433] 1000 1154
     = Some (1000, V') \<and> 1154 \<le> V'"
proof -
  have m: "calc_lp_for_deposit 1000 1154 500 = Some 433"
    and b: "calc_collateral_for_withdraw 1433 1654 433 = Some 499"
    by (simp_all add: calc_lp_for_deposit_eq_Some calc_collateral_for_withdraw_eq_Some)
  have "run_trades calc_lp_for_deposit calc_collateral_for_withdraw [Mint 500, Burn 433] 1000 1154
     = Some (1000, 1155)"
    by (simp add: m b checked_add_def checked_sub_def del: bind_eq_Some)
  then show ?thesis
    using trades_never_dilute [of calc_lp_for_deposit calc_collateral_for_withdraw
        "[Mint 500, Burn 433]" 1000 1154 1000 1155] by blast
qed

text \<open>
  A payout never exceeds the value behind it.  Burning no more LP than exists pays at
  most the sub-pool's value, and burning a share pays at most that share of the offset value.
\<close>

lemma withdraw_within_value:
  assumes "calc_collateral_for_withdraw S V lp = Some c" and "lp \<le> S"
  shows "c \<le> V \<and> unat c * (unat S + 1) \<le> unat lp * (unat V + 1)"
  using global_quote.burn_le_value [OF assms] global_quote.burn_bound [OF assms(1)] by auto

text \<open>
  C29 (the deposit quote is exact).  With supply and value both present the deposit quote is
  the floor of \<open>amount * (supply + 1) / (value + 1)\<close>, an empty pool mints one for one,
  and orphaned value or worthless supply is refused; the quote fails only when the exact
  result does not fit 64 bits.  No intermediate product overflows.
\<close>

theorem deposit_quote_exact:
  "calc_lp_for_deposit S V a =
     (if S = 0 \<and> V = 0 then Some a
      else if S = 0 \<or> V = 0 then None
      else let q = unat a * (unat S + 1) div (unat V + 1)
           in if q < 2 ^ 64 then Some (of_nat q) else None)"
proof (cases "S = 0 \<or> V = 0")
  case True
  then show ?thesis by (auto simp: calc_lp_for_deposit_def)
next
  case False
  define q where "q = unat a * (unat S + 1) div (unat V + 1)"
  have eq: "calc_lp_for_deposit S V a = Some lp \<longleftrightarrow> unat lp = q" for lp
    using False by (simp add: calc_lp_for_deposit_eq_Some q_def)
  show ?thesis
  proof (cases "q < 2 ^ 64")
    case True
    then have "unat (of_nat q :: u64) = q" by (intro unat_of_nat_lt) simp
    then have "calc_lp_for_deposit S V a = Some (of_nat q)" using eq by blast
    then show ?thesis using False True by (simp add: Let_def q_def)
  next
    case big: False
    have "calc_lp_for_deposit S V a \<noteq> Some lp" for lp
      using eq [of lp] big unat_u64_less [of lp] by auto
    then have "calc_lp_for_deposit S V a = None" by (cases "calc_lp_for_deposit S V a") auto
    then show ?thesis using False big by (simp add: Let_def q_def)
  qed
qed

section \<open>Wide arithmetic, fees and losses\<close>

text \<open>
  C31 (the tranches share fees and losses exactly).  Of a fee the junior tranche receives exactly
  the floor of its weighted share and the senior tranche the rest, so that nothing is lost or
  created as long as some weight exists.  Of a loss the junior tranche bears all up to its whole
  balance and the senior tranche exactly the rest up to its own; senior is touched only when
  \<open>senior_protected\<close> is false.
\<close>

theorem tranche_splits_exact:
  assumes "distribute_fees jb sb mult fee = (jf, sf)"
    and "distribute_loss jb sb loss = (jl, sl)" "unat jb + unat sb < 2 ^ 64"
  shows "unat jf = unat fee * (unat jb * unat mult) div (unat jb * unat mult + unat sb * 10000)
    \<and> (unat jb * unat mult + unat sb * 10000 \<noteq> 0 \<longrightarrow> unat jf + unat sf = unat fee)
    \<and> unat jl = min (unat loss) (unat jb) \<and> unat sl = min (unat loss - unat jb) (unat sb)
    \<and> unat jl + unat sl = min (unat loss) (unat jb + unat sb)
    \<and> (senior_protected jb sb loss \<longleftrightarrow> unat loss \<le> unat jb)"
proof -
  note d = distribute_loss_junior_first [OF assms(2)]
  have jl: "unat jl = min (unat loss) (unat jb)" by (rule d(1))
  have sl: "unat sl = min (unat loss - unat jb) (unat sb)" by (rule d(2)) (rule assms(3))
  have "senior_protected jb sb loss \<longleftrightarrow> unat loss \<le> unat jb"
    by (simp add: senior_protected_def word_le_nat_alt)
  moreover have "unat jl + unat sl = min (unat loss) (unat jb + unat sb)"
    using jl sl by auto
  ultimately show ?thesis using jl sl distribute_fees_exact [OF assms(1)] by auto
qed

theorem tranche_splits_exact_witness:
  "\<exists>jf sf jl sl. distribute_fees 1000 3000 20000 500 = (jf, sf) \<and> unat jf = 200 \<and> unat jf + unat sf = 500
     \<and> distribute_loss 1000 3000 1450 = (jl, sl) \<and> unat jl = 1000 \<and> unat sl = 450"
proof -
  obtain jf sf jl sl where d: "distribute_fees 1000 3000 20000 500 = (jf, sf)" "distribute_loss 1000 3000 1450 = (jl, sl)"
    by fastforce
  have r: "unat (1000 :: u64) + unat (3000 :: u64) < 2 ^ 64" by simp
  show ?thesis using tranche_splits_exact [OF d r] d by auto
qed

text \<open>
  The high-water-mark floor is a rate limiter.  A withdrawal is allowed exactly when the
  value left is at least the floored share of the mark, and with a floor of at most 90% at least a tenth
  of the mark is always withdrawable.
\<close>

lemma hwm_floor_rate_limit:
  "(hwm_withdrawal_allowed post hwm bps \<longleftrightarrow>
     unat hwm * unat bps div 10000 < 2 ^ 64 \<and> unat hwm * unat bps div 10000 \<le> unat post) \<and>
   (unat bps \<le> 9000 \<and> unat hwm \<le> unat post + unat hwm div 10 \<longrightarrow> hwm_withdrawal_allowed post hwm bps)"
proof -
  have ex: "hwm_withdrawal_allowed post hwm bps \<longleftrightarrow>
     unat hwm * unat bps div 10000 < 2 ^ 64 \<and> unat hwm * unat bps div 10000 \<le> unat post" for bps
  proof (cases "hwm_floor hwm bps")
    case (Some f)
    then have "unat f = unat hwm * unat bps div 10000" by (simp add: hwm_floor_eq_Some)
    then show ?thesis using Some unat_u64_less [of f]
      by (simp add: hwm_withdrawal_allowed_def word_le_nat_alt)
  next
    case None
    have "\<not> unat hwm * unat bps div 10000 < 2 ^ 64"
    proof
      assume "unat hwm * unat bps div 10000 < 2 ^ 64"
      then have "hwm_floor hwm bps = Some (of_nat (unat hwm * unat bps div 10000))"
        by (simp add: hwm_floor_eq_Some unat_of_nat_lt)
      with None show False by simp
    qed
    with None show ?thesis by (simp add: hwm_withdrawal_allowed_def)
  qed
  have "unat bps \<le> 9000 \<and> unat hwm \<le> unat post + unat hwm div 10 \<longrightarrow> hwm_withdrawal_allowed post hwm bps"
  proof
    assume a: "unat bps \<le> 9000 \<and> unat hwm \<le> unat post + unat hwm div 10"
    then have "unat hwm * unat bps \<le> unat hwm * 9000" by (intro mult_le_mono) auto
    then have "unat hwm * unat bps div 10000 \<le> unat hwm * 9000 div 10000" by (rule div_le_mono)
    also have "\<dots> \<le> unat hwm - unat hwm div 10" by linarith
    finally show "hwm_withdrawal_allowed post hwm bps"
      unfolding ex using a unat_u64_less [of post] by auto
  qed
  with ex show ?thesis by blast
qed

end
