(* ===== verification/Stake_Error.thy ===== *)
theory Stake_Error
  imports Bytes
begin

text \<open>
  The error enumeration of \<open>src/error.rs\<close>, its numbering, and the result type of every
  instruction.  \<open>ProgramError\<close> lists the variants of Solana's error type that the
  program returns; \<open>Panic\<close> stands for an aborted execution (a \<open>RefCell\<close> borrowed twice).
\<close>

datatype StakeError =
    AlreadyInitialized
  | NotInitialized
  | Unauthorized
  | CooldownNotElapsed
  | InsufficientLpTokens
  | ZeroAmount
  | Overflow
  | InvalidMint
  | MarketResolved
  | DepositCapExceeded
  | InvalidPda
  | DeprecatedAdminAlreadyTransferred
  | DeprecatedAdminNotTransferred
  | InsufficientVaultBalance
  | InvalidPercolatorProgram
  | CpiFailed
  | InvalidAccount
  | InvalidPoolMode
  | WithdrawalBelowHwmFloor
  | TrancheNotEnabled
  | JuniorBalanceInsufficient
  | WrongTranche
  | ZeroSharesMinted
  | NoPendingAdmin
  | InsuranceLossOutstanding
  | CooldownIncreaseRequiresTimelock
  | TimelockNotElapsed
  | NoPendingCooldownProposal
  | DepositBelowMinimumLiquidity

fun error_code :: "StakeError \<Rightarrow> u32" where
  "error_code AlreadyInitialized = 0"
| "error_code NotInitialized = 1"
| "error_code Unauthorized = 2"
| "error_code CooldownNotElapsed = 3"
| "error_code InsufficientLpTokens = 4"
| "error_code ZeroAmount = 5"
| "error_code Overflow = 6"
| "error_code InvalidMint = 7"
| "error_code MarketResolved = 8"
| "error_code DepositCapExceeded = 9"
| "error_code InvalidPda = 10"
| "error_code DeprecatedAdminAlreadyTransferred = 11"
| "error_code DeprecatedAdminNotTransferred = 12"
| "error_code InsufficientVaultBalance = 13"
| "error_code InvalidPercolatorProgram = 14"
| "error_code CpiFailed = 15"
| "error_code InvalidAccount = 16"
| "error_code InvalidPoolMode = 17"
| "error_code WithdrawalBelowHwmFloor = 18"
| "error_code TrancheNotEnabled = 19"
| "error_code JuniorBalanceInsufficient = 20"
| "error_code WrongTranche = 21"
| "error_code ZeroSharesMinted = 22"
| "error_code NoPendingAdmin = 23"
| "error_code InsuranceLossOutstanding = 24"
| "error_code CooldownIncreaseRequiresTimelock = 25"
| "error_code TimelockNotElapsed = 26"
| "error_code NoPendingCooldownProposal = 27"
| "error_code DepositBelowMinimumLiquidity = 28"

datatype ProgramError =
    Custom u32
  | InvalidArgument
  | InvalidInstructionData
  | InvalidAccountData
  | IncorrectProgramId
  | MissingRequiredSignature
  | NotEnoughAccountKeys
  | IllegalOwner
  | AccountBorrowFailed
  | UnsupportedSysvar
  | CpiError nat
  | Panic

text \<open>\<open>impl From<StakeError> for ProgramError\<close>.\<close>

definition stake_err :: "StakeError \<Rightarrow> ProgramError" where
  "stake_err e = Custom (error_code e)"

type_synonym 'a result = "ProgramError + 'a"

text \<open>The hint texts, in UTF-8: the source's dash is the three bytes \<open>E2 80 94\<close>.\<close>

definition em_dash :: string where
  "em_dash = [CHR 0xE2, CHR 0x80, CHR 0x94]"

definition error_hint :: "u32 \<Rightarrow> string" where
  "error_hint code =
     (if code = 0 then ''Pool already initialized '' @ em_dash @ '' use a different slab address or check if InitPool was already called''
      else if code = 1 then ''Pool not initialized '' @ em_dash @ '' call InitPool first to create the stake pool''
      else if code = 2 then ''Unauthorized '' @ em_dash @ '' you must be the pool admin to perform this action''
      else if code = 3 then ''Cooldown not elapsed '' @ em_dash @ '' wait for the cooldown period before withdrawing again''
      else if code = 4 then ''Insufficient LP tokens '' @ em_dash @ '' you don't have enough LP tokens to burn''
      else if code = 5 then ''Zero amount '' @ em_dash @ '' deposit and withdrawal amounts must be greater than zero''
      else if code = 6 then ''Arithmetic overflow '' @ em_dash @ '' pool values exceeded u64 bounds, operation blocked''
      else if code = 7 then ''Invalid mint '' @ em_dash @ '' LP mint doesn't match the pool's LP mint''
      else if code = 8 then ''Market is resolved '' @ em_dash @ '' no new deposits allowed after resolution''
      else if code = 9 then ''Deposit cap exceeded '' @ em_dash @ '' pool has reached its maximum deposit limit''
      else if code = 10 then ''Invalid PDA '' @ em_dash @ '' account is not a valid PDA for the expected seed''
      else if code = 11 then ''Admin already transferred '' @ em_dash @ '' transfer admin is a one-time operation''
      else if code = 12 then ''Admin not yet transferred '' @ em_dash @ '' call TransferAdmin before performing admin operations''
      else if code = 13 then ''Insufficient vault balance '' @ em_dash @ '' vault doesn't have enough collateral for this withdrawal''
      else if code = 14 then ''Invalid percolator program '' @ em_dash @ '' percolator program ID doesn't match''
      else if code = 15 then ''CPI to percolator failed '' @ em_dash @ '' the cross-program invoke to percolator failed''
      else if code = 16 then ''Invalid account '' @ em_dash @ '' account is not owned by the expected program or is not writable''
      else if code = 17 then ''Pool mode mismatch '' @ em_dash @ '' operation not valid for this pool's mode (e.g., AccrueFees on insurance pool)''
      else if code = 18 then ''Withdrawal blocked '' @ em_dash @ '' would breach high-water mark floor protection''
      else if code = 19 then ''Tranches not enabled '' @ em_dash @ '' senior/junior tranches are not enabled on this pool''
      else if code = 20 then ''Junior balance insufficient '' @ em_dash @ '' junior tranche doesn't have enough balance for this operation''
      else if code = 21 then ''Wrong tranche '' @ em_dash @ '' deposit already belongs to a different tranche''
      else if code = 22 then ''Zero shares minted '' @ em_dash @ '' deposit amount too small to mint any LP at the current share price; increase the amount''
      else if code = 23 then ''No pending admin '' @ em_dash @ '' there is no admin transfer to accept (propose one first, or it was cancelled)''
      else if code = 24 then ''Insurance loss outstanding '' @ em_dash @ '' total_flushed > total_returned. Junior tranche deposits are paused, and AdminResolveMarket/SetMarketResolved are blocked until RecoverFlushedInsurance fully returns the flushed insurance (resolving first would strand it '' @ em_dash @ '' recovery requires LIVE mode)''
      else if code = 28 then ''Deposit below minimum liquidity '' @ em_dash @ '' the pool's first-ever deposit must exceed MINIMUM_LIQUIDITY so a permanent dead-share floor can be locked (N7 anti-inflation hardening); deposit a larger amount''
      else ''Unknown error '' @ em_dash @ '' check the error code and pool state'')"

section \<open>Accesses that panic\<close>

text \<open>
  \<open>xs[i..j]\<close> and \<open>xs[i]\<close> abort the program when they leave the slice, whatever the caller checked
  before: \<open>Panic\<close> is the outcome of an access out of range.
\<close>

definition slice_at :: "nat \<Rightarrow> nat \<Rightarrow> 'a list \<Rightarrow> 'a list result" where
  "slice_at i j xs = require (i \<le> j \<and> j \<le> length xs) Panic (Inr (slice i (j - i) xs))"

definition index_at :: "nat \<Rightarrow> 'a list \<Rightarrow> 'a result" where
  "index_at i xs = require (i < length xs) Panic (Inr (xs ! i))"

lemma slice_at_in_range [simp]: "i \<le> j \<Longrightarrow> j \<le> length xs \<Longrightarrow> slice_at i j xs = Inr (slice i (j - i) xs)"
  by (simp add: slice_at_def)

lemma index_at_in_range [simp]: "i < length xs \<Longrightarrow> index_at i xs = Inr (xs ! i)"
  by (simp add: index_at_def)

lemma error_code_inject [simp]: "error_code a = error_code b \<longleftrightarrow> a = b"
  by (cases a; cases b) simp_all

lemma stake_err_inject [simp]: "stake_err a = stake_err b \<longleftrightarrow> a = b"
  by (simp add: stake_err_def)

lemma stake_err_distinct [simp]:
  "stake_err e \<noteq> InvalidArgument" "stake_err e \<noteq> InvalidInstructionData"
  "stake_err e \<noteq> InvalidAccountData" "stake_err e \<noteq> IncorrectProgramId"
  "stake_err e \<noteq> MissingRequiredSignature" "stake_err e \<noteq> NotEnoughAccountKeys"
  "stake_err e \<noteq> IllegalOwner" "stake_err e \<noteq> AccountBorrowFailed" "stake_err e \<noteq> Panic"
  by (simp_all add: stake_err_def)

end
