(* ===== verification/State.thy ===== *)
theory State
  imports Tranche_Math Stake_Error
begin

text \<open>
  Account state of \<open>src/state.rs\<close>: the \<open>StakePool\<close> and \<open>StakeDeposit\<close> structures with
  their \<open>repr(C)\<close> byte layouts, the accessors carved out of the pool's reserved bytes,
  and the derived quantities (pool value, tranche balances, recoverable insurance,
  high-water mark).  Both layouts interpret the \<open>codec\<close> contract; the reserved slots
  interpret \<open>reserved_slot\<close>, whose disjointness law is what keeps two features that
  share the reserved bytes from overwriting each other.
\<close>

type_synonym pubkey = "32 bytes"

definition STAKE_POOL_DISCRIMINATOR :: "u8 list" where
  "STAKE_POOL_DISCRIMINATOR = [0x53, 0x50, 0x4F, 0x4F, 0x4C, 0x5F, 0x56, 0x31]"

definition STAKE_DEPOSIT_DISCRIMINATOR :: "u8 list" where
  "STAKE_DEPOSIT_DISCRIMINATOR = [0x53, 0x44, 0x45, 0x50, 0x5F, 0x56, 0x31, 0x00]"

definition MINIMUM_LIQUIDITY :: u64 where
  "MINIMUM_LIQUIDITY = 1000"

record StakePool =
  is_initialized :: u8
  bump :: u8
  vault_authority_bump :: u8
  admin_transferred :: u8
  pool_padding :: "4 bytes"
  slab :: pubkey
  admin :: pubkey
  collateral_mint :: pubkey
  lp_mint :: pubkey
  vault :: pubkey
  total_deposited :: u64
  total_lp_supply :: u64
  cooldown_slots :: u64
  deposit_cap :: u64
  total_flushed :: u64
  total_returned :: u64
  total_withdrawn :: u64
  percolator_program :: pubkey
  total_fees_earned :: u64
  last_fee_accrual_slot :: u64
  last_vault_snapshot :: u64
  pool_mode :: u8
  mode_padding :: "7 bytes"
  pending_admin :: pubkey
  reserved :: "64 bytes"
  total_recovered_from_wrapper :: u64
  pending_cooldown_slots :: u64
  cooldown_proposed_at_slot :: u64

definition STAKE_POOL_SIZE :: nat where
  "STAKE_POOL_SIZE = 408"

text \<open>The \<open>repr(C)\<close> image of a pool: fields in declaration order, integers little-endian.\<close>

definition bytes_of_pool :: "StakePool \<Rightarrow> u8 list" where
  "bytes_of_pool p =
     [is_initialized p, bump p, vault_authority_bump p, admin_transferred p] @
     list_of_bytes (pool_padding p) @
     list_of_bytes (slab p) @ list_of_bytes (admin p) @ list_of_bytes (collateral_mint p) @
     list_of_bytes (lp_mint p) @ list_of_bytes (vault p) @
     to_le_bytes (total_deposited p) @ to_le_bytes (total_lp_supply p) @
     to_le_bytes (cooldown_slots p) @ to_le_bytes (deposit_cap p) @
     to_le_bytes (total_flushed p) @ to_le_bytes (total_returned p) @
     to_le_bytes (total_withdrawn p) @ list_of_bytes (percolator_program p) @
     to_le_bytes (total_fees_earned p) @ to_le_bytes (last_fee_accrual_slot p) @
     to_le_bytes (last_vault_snapshot p) @ [pool_mode p] @ list_of_bytes (mode_padding p) @
     list_of_bytes (pending_admin p) @ list_of_bytes (reserved p) @
     to_le_bytes (total_recovered_from_wrapper p) @ to_le_bytes (pending_cooldown_slots p) @
     to_le_bytes (cooldown_proposed_at_slot p)"

text \<open>The same image read back at its offsets (\<open>bytemuck::try_from_bytes\<close>).\<close>

definition pool_of_bytes :: "u8 list \<Rightarrow> StakePool" where
  "pool_of_bytes d =
     \<lparr>is_initialized = hd (slice 0 1 d), bump = hd (slice 1 1 d),
      vault_authority_bump = hd (slice 2 1 d), admin_transferred = hd (slice 3 1 d),
      pool_padding = array_of (slice 4 4 d),
      slab = array_of (slice 8 32 d), admin = array_of (slice 40 32 d),
      collateral_mint = array_of (slice 72 32 d), lp_mint = array_of (slice 104 32 d),
      vault = array_of (slice 136 32 d),
      total_deposited = from_le_bytes (slice 168 8 d), total_lp_supply = from_le_bytes (slice 176 8 d),
      cooldown_slots = from_le_bytes (slice 184 8 d), deposit_cap = from_le_bytes (slice 192 8 d),
      total_flushed = from_le_bytes (slice 200 8 d), total_returned = from_le_bytes (slice 208 8 d),
      total_withdrawn = from_le_bytes (slice 216 8 d),
      percolator_program = array_of (slice 224 32 d),
      total_fees_earned = from_le_bytes (slice 256 8 d),
      last_fee_accrual_slot = from_le_bytes (slice 264 8 d),
      last_vault_snapshot = from_le_bytes (slice 272 8 d), pool_mode = hd (slice 280 1 d),
      mode_padding = array_of (slice 281 7 d), pending_admin = array_of (slice 288 32 d),
      reserved = array_of (slice 320 64 d),
      total_recovered_from_wrapper = from_le_bytes (slice 384 8 d),
      pending_cooldown_slots = from_le_bytes (slice 392 8 d),
      cooldown_proposed_at_slot = from_le_bytes (slice 400 8 d)\<rparr>"

record StakeDeposit =
  dep_is_initialized :: u8
  dep_bump :: u8
  dep_padding :: "6 bytes"
  dep_pool :: pubkey
  dep_user :: pubkey
  last_deposit_slot :: u64
  lp_amount :: u64
  dep_reserved :: "64 bytes"

definition STAKE_DEPOSIT_SIZE :: nat where
  "STAKE_DEPOSIT_SIZE = 152"

definition bytes_of_deposit :: "StakeDeposit \<Rightarrow> u8 list" where
  "bytes_of_deposit r =
     [dep_is_initialized r, dep_bump r] @ list_of_bytes (dep_padding r) @
     list_of_bytes (dep_pool r) @ list_of_bytes (dep_user r) @
     to_le_bytes (last_deposit_slot r) @ to_le_bytes (lp_amount r) @ list_of_bytes (dep_reserved r)"

definition deposit_of_bytes :: "u8 list \<Rightarrow> StakeDeposit" where
  "deposit_of_bytes d =
     \<lparr>dep_is_initialized = hd (slice 0 1 d), dep_bump = hd (slice 1 1 d),
      dep_padding = array_of (slice 2 6 d), dep_pool = array_of (slice 8 32 d),
      dep_user = array_of (slice 40 32 d), last_deposit_slot = from_le_bytes (slice 72 8 d),
      lp_amount = from_le_bytes (slice 80 8 d), dep_reserved = array_of (slice 88 64 d)\<rparr>"

section \<open>Deposit records\<close>

definition deposit_set_discriminator :: "StakeDeposit \<Rightarrow> StakeDeposit" where
  "deposit_set_discriminator r =
     r\<lparr>dep_reserved := put_bytes 0 STAKE_DEPOSIT_DISCRIMINATOR (dep_reserved r)\<rparr>"

definition deposit_validate_discriminator :: "StakeDeposit \<Rightarrow> bool" where
  "deposit_validate_discriminator r \<longleftrightarrow> get_bytes 0 8 (dep_reserved r) = STAKE_DEPOSIT_DISCRIMINATOR"

definition is_junior_deposit :: "StakeDeposit \<Rightarrow> bool" where
  "is_junior_deposit r \<longleftrightarrow> get_bytes 8 1 (dep_reserved r) = [1]"

definition set_junior_deposit :: "bool \<Rightarrow> StakeDeposit \<Rightarrow> StakeDeposit" where
  "set_junior_deposit v r = r\<lparr>dep_reserved := put_bytes 8 [if v then 1 else 0] (dep_reserved r)\<rparr>"

section \<open>Reserved-byte accessors of the pool\<close>

definition pending_admin_pubkey :: "StakePool \<Rightarrow> pubkey option" where
  "pending_admin_pubkey p = (if pending_admin p = fill 0 then None else Some (pending_admin p))"

definition market_resolved :: "StakePool \<Rightarrow> bool" where
  "market_resolved p \<longleftrightarrow> get_bytes 9 1 (reserved p) \<noteq> [0]"

definition set_market_resolved :: "bool \<Rightarrow> StakePool \<Rightarrow> StakePool" where
  "set_market_resolved b p = p\<lparr>reserved := put_bytes 9 [if b then 1 else 0] (reserved p)\<rparr>"

definition tranche_enabled :: "StakePool \<Rightarrow> bool" where
  "tranche_enabled p \<longleftrightarrow> get_bytes 32 1 (reserved p) = [1]"

definition set_tranche_enabled :: "bool \<Rightarrow> StakePool \<Rightarrow> StakePool" where
  "set_tranche_enabled b p = p\<lparr>reserved := put_bytes 32 [if b then 1 else 0] (reserved p)\<rparr>"

definition junior_balance :: "StakePool \<Rightarrow> u64" where
  "junior_balance p = from_le_bytes (get_bytes 33 8 (reserved p))"

definition set_junior_balance :: "u64 \<Rightarrow> StakePool \<Rightarrow> StakePool" where
  "set_junior_balance v p = p\<lparr>reserved := put_bytes 33 (to_le_bytes v) (reserved p)\<rparr>"

definition junior_total_lp :: "StakePool \<Rightarrow> u64" where
  "junior_total_lp p = from_le_bytes (get_bytes 41 8 (reserved p))"

definition set_junior_total_lp :: "u64 \<Rightarrow> StakePool \<Rightarrow> StakePool" where
  "set_junior_total_lp v p = p\<lparr>reserved := put_bytes 41 (to_le_bytes v) (reserved p)\<rparr>"

definition junior_fee_mult_bps :: "StakePool \<Rightarrow> u16" where
  "junior_fee_mult_bps p = from_le_bytes (get_bytes 49 2 (reserved p))"

definition set_junior_fee_mult_bps :: "u16 \<Rightarrow> StakePool \<Rightarrow> StakePool" where
  "set_junior_fee_mult_bps v p = p\<lparr>reserved := put_bytes 49 (to_le_bytes v) (reserved p)\<rparr>"

definition senior_total_lp :: "StakePool \<Rightarrow> u64" where
  "senior_total_lp p = saturating_sub (total_lp_supply p) (junior_total_lp p)"

definition realized_junior_loss :: "StakePool \<Rightarrow> u64" where
  "realized_junior_loss p = from_le_bytes (get_bytes 51 8 (reserved p))"

definition set_realized_junior_loss :: "u64 \<Rightarrow> StakePool \<Rightarrow> StakePool" where
  "set_realized_junior_loss v p = p\<lparr>reserved := put_bytes 51 (to_le_bytes v) (reserved p)\<rparr>"

definition asset_admin_burned :: "StakePool \<Rightarrow> bool" where
  "asset_admin_burned p \<longleftrightarrow> get_bytes 59 1 (reserved p) = [1]"

definition set_asset_admin_burned :: "bool \<Rightarrow> StakePool \<Rightarrow> StakePool" where
  "set_asset_admin_burned b p = p\<lparr>reserved := put_bytes 59 [if b then 1 else 0] (reserved p)\<rparr>"

definition set_pending_cooldown_slots :: "u64 \<Rightarrow> StakePool \<Rightarrow> StakePool" where
  "set_pending_cooldown_slots v p = p\<lparr>pending_cooldown_slots := v\<rparr>"

definition set_cooldown_proposed_at_slot :: "u64 \<Rightarrow> StakePool \<Rightarrow> StakePool" where
  "set_cooldown_proposed_at_slot v p = p\<lparr>cooldown_proposed_at_slot := v\<rparr>"

definition effective_junior_balance :: "StakePool \<Rightarrow> u64" where
  "effective_junior_balance p =
     (let jb = junior_balance p;
          net_loss = saturating_sub (total_flushed p) (total_returned p)
      in if net_loss = 0 then jb
         else let gross_pool = saturating_sub (total_deposited p) (total_withdrawn p);
                  gross_senior = saturating_sub gross_pool jb;
                  (junior_loss, senior_loss) = distribute_loss jb gross_senior net_loss
              in saturating_sub jb junior_loss)"

definition wrapper_recoverable :: "StakePool \<Rightarrow> u64" where
  "wrapper_recoverable p =
     saturating_sub (saturating_sub (total_flushed p) (realized_junior_loss p))
       (total_recovered_from_wrapper p)"

definition wrapper_fully_recovered :: "StakePool \<Rightarrow> bool" where
  "wrapper_fully_recovered p \<longleftrightarrow> wrapper_recoverable p = 0"

definition CURRENT_VERSION :: u8 where
  "CURRENT_VERSION = 4"

definition set_discriminator :: "StakePool \<Rightarrow> StakePool" where
  "set_discriminator p =
     (let p1 = p\<lparr>reserved := put_bytes 0 STAKE_POOL_DISCRIMINATOR (reserved p)\<rparr>
      in p1\<lparr>reserved := put_bytes 8 [CURRENT_VERSION] (reserved p1)\<rparr>)"

definition version :: "StakePool \<Rightarrow> u8" where
  "version p = hd (get_bytes 8 1 (reserved p))"

definition validate_discriminator :: "StakePool \<Rightarrow> bool" where
  "validate_discriminator p \<longleftrightarrow> get_bytes 0 8 (reserved p) = STAKE_POOL_DISCRIMINATOR"

definition hwm_enabled :: "StakePool \<Rightarrow> bool" where
  "hwm_enabled p \<longleftrightarrow> get_bytes 10 1 (reserved p) = [1]"

definition set_hwm_enabled :: "bool \<Rightarrow> StakePool \<Rightarrow> StakePool" where
  "set_hwm_enabled b p = p\<lparr>reserved := put_bytes 10 [if b then 1 else 0] (reserved p)\<rparr>"

definition hwm_floor_bps :: "StakePool \<Rightarrow> u16" where
  "hwm_floor_bps p = from_le_bytes (get_bytes 11 2 (reserved p))"

definition set_hwm_floor_bps :: "u16 \<Rightarrow> StakePool \<Rightarrow> StakePool" where
  "set_hwm_floor_bps v p = p\<lparr>reserved := put_bytes 11 (to_le_bytes v) (reserved p)\<rparr>"

definition epoch_high_water_tvl :: "StakePool \<Rightarrow> u64" where
  "epoch_high_water_tvl p = from_le_bytes (get_bytes 16 8 (reserved p))"

definition set_epoch_high_water_tvl :: "u64 \<Rightarrow> StakePool \<Rightarrow> StakePool" where
  "set_epoch_high_water_tvl v p = p\<lparr>reserved := put_bytes 16 (to_le_bytes v) (reserved p)\<rparr>"

definition hwm_last_epoch :: "StakePool \<Rightarrow> u64" where
  "hwm_last_epoch p = from_le_bytes (get_bytes 24 8 (reserved p))"

definition set_hwm_last_epoch :: "u64 \<Rightarrow> StakePool \<Rightarrow> StakePool" where
  "set_hwm_last_epoch v p = p\<lparr>reserved := put_bytes 24 (to_le_bytes v) (reserved p)\<rparr>"

text \<open>\<open>refresh_hwm\<close> returns the mark and leaves the updated pool behind.\<close>

definition refresh_hwm :: "u64 \<Rightarrow> u64 \<Rightarrow> StakePool \<Rightarrow> u64 \<times> StakePool" where
  "refresh_hwm current_epoch current_tvl p =
     (let p' = (if current_epoch \<noteq> hwm_last_epoch p
                then set_hwm_last_epoch current_epoch (set_epoch_high_water_tvl current_tvl p)
                else if current_tvl > epoch_high_water_tvl p
                then set_epoch_high_water_tvl current_tvl p
                else p)
      in (epoch_high_water_tvl p', p'))"

text \<open>
  The signed 128-bit sum of \<open>total_pool_value\<close>.  Six terms below \<open>2^64\<close> cannot leave the
  range of \<open>i128\<close> (lemma \<open>pool_value_int_bound\<close>), so it is an \<open>int\<close> here.
\<close>

definition pool_value_int :: "StakePool \<Rightarrow> int" where
  "pool_value_int p =
     uint (total_deposited p) - uint (total_withdrawn p) - uint (total_flushed p)
     + uint (total_returned p) + uint (total_fees_earned p) - uint (realized_junior_loss p)"

definition total_pool_value :: "StakePool \<Rightarrow> u64 option" where
  "total_pool_value p =
     (let value = pool_value_int p
      in if value < 0 \<or> value > uint U64_MAX then None else Some (word_of_int value))"

definition senior_balance :: "StakePool \<Rightarrow> u64 option" where
  "senior_balance p =
     Option.bind (total_pool_value p) (\<lambda>v. checked_sub v (effective_junior_balance p))"

definition principal_tvl :: "StakePool \<Rightarrow> u64 option" where
  "principal_tvl p =
     (let value = uint (total_deposited p) - uint (total_withdrawn p) - uint (total_flushed p)
                  + uint (total_returned p) - uint (realized_junior_loss p)
      in Some (word_of_int (max 0 (min value (uint U64_MAX)))))"

definition pool_calc_lp_for_deposit :: "u64 \<Rightarrow> StakePool \<Rightarrow> u64 option" where
  "pool_calc_lp_for_deposit amount p =
     Option.bind (total_pool_value p) (\<lambda>pv. calc_lp_for_deposit (total_lp_supply p) pv amount)"

definition pool_calc_collateral_for_withdraw :: "u64 \<Rightarrow> StakePool \<Rightarrow> u64 option" where
  "pool_calc_collateral_for_withdraw lp p =
     Option.bind (total_pool_value p) (\<lambda>pv. calc_collateral_for_withdraw (total_lp_supply p) pv lp)"

section \<open>Key accessors\<close>

text \<open>\<open>Pubkey::new_from_array\<close> wraps the 32 bytes a field holds; keys are those bytes here.\<close>

definition slab_pubkey :: "StakePool \<Rightarrow> pubkey" where "slab_pubkey p = slab p"
definition admin_pubkey :: "StakePool \<Rightarrow> pubkey" where "admin_pubkey p = admin p"
definition collateral_mint_pubkey :: "StakePool \<Rightarrow> pubkey" where "collateral_mint_pubkey p = collateral_mint p"
definition lp_mint_pubkey :: "StakePool \<Rightarrow> pubkey" where "lp_mint_pubkey p = lp_mint p"
definition vault_pubkey :: "StakePool \<Rightarrow> pubkey" where "vault_pubkey p = vault p"
definition percolator_program_pubkey :: "StakePool \<Rightarrow> pubkey" where "percolator_program_pubkey p = percolator_program p"

section \<open>Program-derived addresses\<close>

text \<open>
  \<open>Pubkey::find_program_address\<close> is a parameter: it maps seeds and a program id to an
  address and its bump.
\<close>

type_synonym pda_fn = "u8 list list \<Rightarrow> pubkey \<Rightarrow> pubkey \<times> u8"

definition ascii :: "string \<Rightarrow> u8 list" where
  "ascii s = map of_char s"

definition derive_pool_pda :: "pda_fn \<Rightarrow> pubkey \<Rightarrow> pubkey \<Rightarrow> pubkey \<times> u8" where
  "derive_pool_pda fpa program_id slab_key =
     fpa [ascii ''stake_pool'', list_of_bytes slab_key] program_id"

definition derive_vault_authority :: "pda_fn \<Rightarrow> pubkey \<Rightarrow> pubkey \<Rightarrow> pubkey \<times> u8" where
  "derive_vault_authority fpa program_id pool =
     fpa [ascii ''vault_auth'', list_of_bytes pool] program_id"

definition derive_deposit_pda :: "pda_fn \<Rightarrow> pubkey \<Rightarrow> pubkey \<Rightarrow> pubkey \<Rightarrow> pubkey \<times> u8" where
  "derive_deposit_pda fpa program_id pool user =
     fpa [ascii ''stake_deposit'', list_of_bytes pool, list_of_bytes user] program_id"

section \<open>The layouts are codecs\<close>

lemma hd_slice: "i < length xs \<Longrightarrow> hd (slice i (Suc 0) xs) = xs ! i"
  by (simp add: slice_def hd_drop_conv_nth)

interpretation pool_layout: codec bytes_of_pool pool_of_bytes STAKE_POOL_SIZE
proof
  fix p :: StakePool and rest
  show "length (bytes_of_pool p) = STAKE_POOL_SIZE"
    by (simp add: bytes_of_pool_def STAKE_POOL_SIZE_def)
  show "pool_of_bytes (bytes_of_pool p @ rest) = p"
    by (simp add: pool_of_bytes_def bytes_of_pool_def slice_def)
qed

interpretation deposit_layout: codec bytes_of_deposit deposit_of_bytes STAKE_DEPOSIT_SIZE
proof
  fix r :: StakeDeposit and rest
  show "length (bytes_of_deposit r) = STAKE_DEPOSIT_SIZE"
    by (simp add: bytes_of_deposit_def STAKE_DEPOSIT_SIZE_def)
  show "deposit_of_bytes (bytes_of_deposit r @ rest) = r"
    by (simp add: deposit_of_bytes_def bytes_of_deposit_def slice_def)
qed

end
