(* ===== verification/State_Lemmas.thy ===== *)
theory State_Lemmas
  imports State
begin

text \<open>
  The laws of the state accessors.  Every accessor pair of the reserved bytes interprets
  \<open>reserved_slot\<close>; together they implement a record of independent values
  (\<open>view_reserved_setters\<close>).  The derived quantities (pool value, effective junior
  balance, senior balance, high-water mark, recoverable insurance) are then read as
  arithmetic on \<open>nat\<close> and \<open>int\<close>.
\<close>

section \<open>Reserved slots\<close>

text \<open>
  A slot of the reserved bytes: its value is decoded from \<open>width\<close> bytes at \<open>off\<close>, and
  writing it patches exactly those bytes.
\<close>

locale reserved_slot =
  fixes get :: "StakePool \<Rightarrow> 'v" and put :: "'v \<Rightarrow> StakePool \<Rightarrow> StakePool"
    and enc :: "'v \<Rightarrow> u8 list" and dec :: "u8 list \<Rightarrow> 'v" and off width :: nat
  assumes get_eq: "get p = dec (get_bytes off width (reserved p))"
    and put_eq: "put v p = p\<lparr>reserved := put_bytes off (enc v) (reserved p)\<rparr>"
    and dec_enc: "dec (enc v) = v"
    and enc_width: "length (enc v) = width"
    and in_range: "off + width \<le> 64"
    and above_header: "9 \<le> off"
begin

text \<open>Setting the slot leaves every other field, the discriminator and the version alone.\<close>

lemma put_fields [simp]:
  "is_initialized (put v p) = is_initialized p" "bump (put v p) = bump p"
  "vault_authority_bump (put v p) = vault_authority_bump p"
  "admin_transferred (put v p) = admin_transferred p" "slab (put v p) = slab p" "admin (put v p) = admin p"
  "collateral_mint (put v p) = collateral_mint p" "lp_mint (put v p) = lp_mint p"
  "vault (put v p) = vault p" "total_deposited (put v p) = total_deposited p"
  "total_lp_supply (put v p) = total_lp_supply p" "cooldown_slots (put v p) = cooldown_slots p"
  "deposit_cap (put v p) = deposit_cap p" "total_flushed (put v p) = total_flushed p"
  "total_returned (put v p) = total_returned p" "total_withdrawn (put v p) = total_withdrawn p"
  "percolator_program (put v p) = percolator_program p" "total_fees_earned (put v p) = total_fees_earned p"
  "last_fee_accrual_slot (put v p) = last_fee_accrual_slot p"
  "last_vault_snapshot (put v p) = last_vault_snapshot p" "pool_mode (put v p) = pool_mode p"
  "pending_admin (put v p) = pending_admin p"
  "total_recovered_from_wrapper (put v p) = total_recovered_from_wrapper p"
  "pending_cooldown_slots (put v p) = pending_cooldown_slots p"
  "cooldown_proposed_at_slot (put v p) = cooldown_proposed_at_slot p"
  by (simp_all add: put_eq)

lemma put_header [simp]:
  "version (put v p) = version p" "validate_discriminator (put v p) = validate_discriminator p"
  using above_header in_range by (simp_all add: put_eq version_def validate_discriminator_def enc_width)

text \<open>Writing another field leaves the slot alone.\<close>

lemma get_fields [simp]:
  "get (p\<lparr>total_deposited := x_total_deposited\<rparr>) = get p"
  "get (p\<lparr>total_lp_supply := x_total_lp_supply\<rparr>) = get p"
  "get (p\<lparr>cooldown_slots := x_cooldown_slots\<rparr>) = get p"
  "get (p\<lparr>deposit_cap := x_deposit_cap\<rparr>) = get p"
  "get (p\<lparr>total_flushed := x_total_flushed\<rparr>) = get p"
  "get (p\<lparr>total_returned := x_total_returned\<rparr>) = get p"
  "get (p\<lparr>total_withdrawn := x_total_withdrawn\<rparr>) = get p"
  "get (p\<lparr>total_fees_earned := x_total_fees_earned\<rparr>) = get p"
  "get (p\<lparr>last_fee_accrual_slot := x_last_fee_accrual_slot\<rparr>) = get p"
  "get (p\<lparr>last_vault_snapshot := x_last_vault_snapshot\<rparr>) = get p"
  "get (p\<lparr>pool_mode := x_pool_mode\<rparr>) = get p"
  "get (p\<lparr>admin := x_admin\<rparr>) = get p"
  "get (p\<lparr>pending_admin := x_pending_admin\<rparr>) = get p"
  "get (p\<lparr>total_recovered_from_wrapper := x_total_recovered_from_wrapper\<rparr>) = get p"
  "get (p\<lparr>pending_cooldown_slots := x_pending_cooldown_slots\<rparr>) = get p"
  "get (p\<lparr>cooldown_proposed_at_slot := x_cooldown_proposed_at_slot\<rparr>) = get p"
  by (simp_all add: get_eq)

lemma get_put [simp]: "get (put v p) = v"
  using in_range by (simp add: get_eq put_eq enc_width dec_enc)

lemma get_patch_other:
  assumes "off + width \<le> j \<or> j + length ys \<le> off" and "j + length ys \<le> 64"
  shows "get (p\<lparr>reserved := put_bytes j ys (reserved p)\<rparr>) = get p"
  using assms by (simp add: get_eq)

lemma put_frame:
  assumes "j + n \<le> off \<or> off + width \<le> j"
  shows "get_bytes j n (reserved (put v p)) = get_bytes j n (reserved p)"
  using assms in_range by (auto simp: put_eq enc_width)

lemma put_truncate: "put v p\<lparr>reserved := reserved p\<rparr> = p"
  by (simp add: put_eq)

end

definition flag_byte :: "bool \<Rightarrow> u8 list" where
  "flag_byte b = [if b then 1 else 0]"

lemmas slot_defs =
  market_resolved_def set_market_resolved_def tranche_enabled_def set_tranche_enabled_def
  junior_balance_def set_junior_balance_def junior_total_lp_def set_junior_total_lp_def
  junior_fee_mult_bps_def set_junior_fee_mult_bps_def realized_junior_loss_def
  set_realized_junior_loss_def asset_admin_burned_def set_asset_admin_burned_def
  hwm_enabled_def set_hwm_enabled_def hwm_floor_bps_def set_hwm_floor_bps_def
  epoch_high_water_tvl_def set_epoch_high_water_tvl_def hwm_last_epoch_def set_hwm_last_epoch_def

lemmas discriminator_defs =
  set_discriminator_def version_def validate_discriminator_def STAKE_POOL_DISCRIMINATOR_def
  CURRENT_VERSION_def

declare slot_defs [pool_access]

interpretation slot_market_resolved:
  reserved_slot market_resolved set_market_resolved flag_byte "\<lambda>bs. bs \<noteq> [0]" 9 1
  by unfold_locales (simp_all add: slot_defs flag_byte_def)

interpretation slot_hwm_enabled:
  reserved_slot hwm_enabled set_hwm_enabled flag_byte "\<lambda>bs. bs = [1]" 10 1
  by unfold_locales (simp_all add: slot_defs flag_byte_def)

interpretation slot_hwm_floor_bps:
  reserved_slot hwm_floor_bps set_hwm_floor_bps to_le_bytes from_le_bytes 11 2
  by unfold_locales (simp_all add: slot_defs)

interpretation slot_epoch_high_water_tvl:
  reserved_slot epoch_high_water_tvl set_epoch_high_water_tvl to_le_bytes from_le_bytes 16 8
  by unfold_locales (simp_all add: slot_defs)

interpretation slot_hwm_last_epoch:
  reserved_slot hwm_last_epoch set_hwm_last_epoch to_le_bytes from_le_bytes 24 8
  by unfold_locales (simp_all add: slot_defs)

interpretation slot_tranche_enabled:
  reserved_slot tranche_enabled set_tranche_enabled flag_byte "\<lambda>bs. bs = [1]" 32 1
  by unfold_locales (simp_all add: slot_defs flag_byte_def)

interpretation slot_junior_balance:
  reserved_slot junior_balance set_junior_balance to_le_bytes from_le_bytes 33 8
  by unfold_locales (simp_all add: slot_defs)

interpretation slot_junior_total_lp:
  reserved_slot junior_total_lp set_junior_total_lp to_le_bytes from_le_bytes 41 8
  by unfold_locales (simp_all add: slot_defs)

interpretation slot_junior_fee_mult_bps:
  reserved_slot junior_fee_mult_bps set_junior_fee_mult_bps to_le_bytes from_le_bytes 49 2
  by unfold_locales (simp_all add: slot_defs)

interpretation slot_realized_junior_loss:
  reserved_slot realized_junior_loss set_realized_junior_loss to_le_bytes from_le_bytes 51 8
  by unfold_locales (simp_all add: slot_defs)

interpretation slot_asset_admin_burned:
  reserved_slot asset_admin_burned set_asset_admin_burned flag_byte "\<lambda>bs. bs = [1]" 59 1
  by unfold_locales (simp_all add: slot_defs flag_byte_def)

text \<open>Distinct slots do not overlap.\<close>

lemma market_resolved_independent [simp]:
  "market_resolved (set_hwm_enabled b p) = market_resolved p"
  "market_resolved (set_hwm_floor_bps w p) = market_resolved p"
  "market_resolved (set_epoch_high_water_tvl v p) = market_resolved p"
  "market_resolved (set_hwm_last_epoch v p) = market_resolved p"
  "market_resolved (set_tranche_enabled b p) = market_resolved p"
  "market_resolved (set_junior_balance v p) = market_resolved p"
  "market_resolved (set_junior_total_lp v p) = market_resolved p"
  "market_resolved (set_junior_fee_mult_bps w p) = market_resolved p"
  "market_resolved (set_realized_junior_loss v p) = market_resolved p"
  "market_resolved (set_asset_admin_burned b p) = market_resolved p"
  by (simp_all add: slot_defs)

lemma hwm_enabled_independent [simp]:
  "hwm_enabled (set_market_resolved b p) = hwm_enabled p"
  "hwm_enabled (set_hwm_floor_bps w p) = hwm_enabled p"
  "hwm_enabled (set_epoch_high_water_tvl v p) = hwm_enabled p"
  "hwm_enabled (set_hwm_last_epoch v p) = hwm_enabled p"
  "hwm_enabled (set_tranche_enabled b p) = hwm_enabled p"
  "hwm_enabled (set_junior_balance v p) = hwm_enabled p"
  "hwm_enabled (set_junior_total_lp v p) = hwm_enabled p"
  "hwm_enabled (set_junior_fee_mult_bps w p) = hwm_enabled p"
  "hwm_enabled (set_realized_junior_loss v p) = hwm_enabled p"
  "hwm_enabled (set_asset_admin_burned b p) = hwm_enabled p"
  by (simp_all add: slot_defs)

lemma hwm_floor_bps_independent [simp]:
  "hwm_floor_bps (set_market_resolved b p) = hwm_floor_bps p"
  "hwm_floor_bps (set_hwm_enabled b p) = hwm_floor_bps p"
  "hwm_floor_bps (set_epoch_high_water_tvl v p) = hwm_floor_bps p"
  "hwm_floor_bps (set_hwm_last_epoch v p) = hwm_floor_bps p"
  "hwm_floor_bps (set_tranche_enabled b p) = hwm_floor_bps p"
  "hwm_floor_bps (set_junior_balance v p) = hwm_floor_bps p"
  "hwm_floor_bps (set_junior_total_lp v p) = hwm_floor_bps p"
  "hwm_floor_bps (set_junior_fee_mult_bps w p) = hwm_floor_bps p"
  "hwm_floor_bps (set_realized_junior_loss v p) = hwm_floor_bps p"
  "hwm_floor_bps (set_asset_admin_burned b p) = hwm_floor_bps p"
  by (simp_all add: slot_defs)

lemma epoch_high_water_tvl_independent [simp]:
  "epoch_high_water_tvl (set_market_resolved b p) = epoch_high_water_tvl p"
  "epoch_high_water_tvl (set_hwm_enabled b p) = epoch_high_water_tvl p"
  "epoch_high_water_tvl (set_hwm_floor_bps w p) = epoch_high_water_tvl p"
  "epoch_high_water_tvl (set_hwm_last_epoch v p) = epoch_high_water_tvl p"
  "epoch_high_water_tvl (set_tranche_enabled b p) = epoch_high_water_tvl p"
  "epoch_high_water_tvl (set_junior_balance v p) = epoch_high_water_tvl p"
  "epoch_high_water_tvl (set_junior_total_lp v p) = epoch_high_water_tvl p"
  "epoch_high_water_tvl (set_junior_fee_mult_bps w p) = epoch_high_water_tvl p"
  "epoch_high_water_tvl (set_realized_junior_loss v p) = epoch_high_water_tvl p"
  "epoch_high_water_tvl (set_asset_admin_burned b p) = epoch_high_water_tvl p"
  by (simp_all add: slot_defs)

lemma hwm_last_epoch_independent [simp]:
  "hwm_last_epoch (set_market_resolved b p) = hwm_last_epoch p"
  "hwm_last_epoch (set_hwm_enabled b p) = hwm_last_epoch p"
  "hwm_last_epoch (set_hwm_floor_bps w p) = hwm_last_epoch p"
  "hwm_last_epoch (set_epoch_high_water_tvl v p) = hwm_last_epoch p"
  "hwm_last_epoch (set_tranche_enabled b p) = hwm_last_epoch p"
  "hwm_last_epoch (set_junior_balance v p) = hwm_last_epoch p"
  "hwm_last_epoch (set_junior_total_lp v p) = hwm_last_epoch p"
  "hwm_last_epoch (set_junior_fee_mult_bps w p) = hwm_last_epoch p"
  "hwm_last_epoch (set_realized_junior_loss v p) = hwm_last_epoch p"
  "hwm_last_epoch (set_asset_admin_burned b p) = hwm_last_epoch p"
  by (simp_all add: slot_defs)

lemma tranche_enabled_independent [simp]:
  "tranche_enabled (set_market_resolved b p) = tranche_enabled p"
  "tranche_enabled (set_hwm_enabled b p) = tranche_enabled p"
  "tranche_enabled (set_hwm_floor_bps w p) = tranche_enabled p"
  "tranche_enabled (set_epoch_high_water_tvl v p) = tranche_enabled p"
  "tranche_enabled (set_hwm_last_epoch v p) = tranche_enabled p"
  "tranche_enabled (set_junior_balance v p) = tranche_enabled p"
  "tranche_enabled (set_junior_total_lp v p) = tranche_enabled p"
  "tranche_enabled (set_junior_fee_mult_bps w p) = tranche_enabled p"
  "tranche_enabled (set_realized_junior_loss v p) = tranche_enabled p"
  "tranche_enabled (set_asset_admin_burned b p) = tranche_enabled p"
  by (simp_all add: slot_defs)

lemma junior_balance_independent [simp]:
  "junior_balance (set_market_resolved b p) = junior_balance p"
  "junior_balance (set_hwm_enabled b p) = junior_balance p"
  "junior_balance (set_hwm_floor_bps w p) = junior_balance p"
  "junior_balance (set_epoch_high_water_tvl v p) = junior_balance p"
  "junior_balance (set_hwm_last_epoch v p) = junior_balance p"
  "junior_balance (set_tranche_enabled b p) = junior_balance p"
  "junior_balance (set_junior_total_lp v p) = junior_balance p"
  "junior_balance (set_junior_fee_mult_bps w p) = junior_balance p"
  "junior_balance (set_realized_junior_loss v p) = junior_balance p"
  "junior_balance (set_asset_admin_burned b p) = junior_balance p"
  by (simp_all add: slot_defs)

lemma junior_total_lp_independent [simp]:
  "junior_total_lp (set_market_resolved b p) = junior_total_lp p"
  "junior_total_lp (set_hwm_enabled b p) = junior_total_lp p"
  "junior_total_lp (set_hwm_floor_bps w p) = junior_total_lp p"
  "junior_total_lp (set_epoch_high_water_tvl v p) = junior_total_lp p"
  "junior_total_lp (set_hwm_last_epoch v p) = junior_total_lp p"
  "junior_total_lp (set_tranche_enabled b p) = junior_total_lp p"
  "junior_total_lp (set_junior_balance v p) = junior_total_lp p"
  "junior_total_lp (set_junior_fee_mult_bps w p) = junior_total_lp p"
  "junior_total_lp (set_realized_junior_loss v p) = junior_total_lp p"
  "junior_total_lp (set_asset_admin_burned b p) = junior_total_lp p"
  by (simp_all add: slot_defs)

lemma junior_fee_mult_bps_independent [simp]:
  "junior_fee_mult_bps (set_market_resolved b p) = junior_fee_mult_bps p"
  "junior_fee_mult_bps (set_hwm_enabled b p) = junior_fee_mult_bps p"
  "junior_fee_mult_bps (set_hwm_floor_bps w p) = junior_fee_mult_bps p"
  "junior_fee_mult_bps (set_epoch_high_water_tvl v p) = junior_fee_mult_bps p"
  "junior_fee_mult_bps (set_hwm_last_epoch v p) = junior_fee_mult_bps p"
  "junior_fee_mult_bps (set_tranche_enabled b p) = junior_fee_mult_bps p"
  "junior_fee_mult_bps (set_junior_balance v p) = junior_fee_mult_bps p"
  "junior_fee_mult_bps (set_junior_total_lp v p) = junior_fee_mult_bps p"
  "junior_fee_mult_bps (set_realized_junior_loss v p) = junior_fee_mult_bps p"
  "junior_fee_mult_bps (set_asset_admin_burned b p) = junior_fee_mult_bps p"
  by (simp_all add: slot_defs)

lemma realized_junior_loss_independent [simp]:
  "realized_junior_loss (set_market_resolved b p) = realized_junior_loss p"
  "realized_junior_loss (set_hwm_enabled b p) = realized_junior_loss p"
  "realized_junior_loss (set_hwm_floor_bps w p) = realized_junior_loss p"
  "realized_junior_loss (set_epoch_high_water_tvl v p) = realized_junior_loss p"
  "realized_junior_loss (set_hwm_last_epoch v p) = realized_junior_loss p"
  "realized_junior_loss (set_tranche_enabled b p) = realized_junior_loss p"
  "realized_junior_loss (set_junior_balance v p) = realized_junior_loss p"
  "realized_junior_loss (set_junior_total_lp v p) = realized_junior_loss p"
  "realized_junior_loss (set_junior_fee_mult_bps w p) = realized_junior_loss p"
  "realized_junior_loss (set_asset_admin_burned b p) = realized_junior_loss p"
  by (simp_all add: slot_defs)

lemma asset_admin_burned_independent [simp]:
  "asset_admin_burned (set_market_resolved b p) = asset_admin_burned p"
  "asset_admin_burned (set_hwm_enabled b p) = asset_admin_burned p"
  "asset_admin_burned (set_hwm_floor_bps w p) = asset_admin_burned p"
  "asset_admin_burned (set_epoch_high_water_tvl v p) = asset_admin_burned p"
  "asset_admin_burned (set_hwm_last_epoch v p) = asset_admin_burned p"
  "asset_admin_burned (set_tranche_enabled b p) = asset_admin_burned p"
  "asset_admin_burned (set_junior_balance v p) = asset_admin_burned p"
  "asset_admin_burned (set_junior_total_lp v p) = asset_admin_burned p"
  "asset_admin_burned (set_junior_fee_mult_bps w p) = asset_admin_burned p"
  "asset_admin_burned (set_realized_junior_loss v p) = asset_admin_burned p"
  by (simp_all add: slot_defs)

lemma header_fields [simp]:
  "version (p\<lparr>total_deposited := x_total_deposited\<rparr>) = version p"
  "version (p\<lparr>total_lp_supply := x_total_lp_supply\<rparr>) = version p"
  "version (p\<lparr>cooldown_slots := x_cooldown_slots\<rparr>) = version p"
  "version (p\<lparr>deposit_cap := x_deposit_cap\<rparr>) = version p"
  "version (p\<lparr>total_flushed := x_total_flushed\<rparr>) = version p"
  "version (p\<lparr>total_returned := x_total_returned\<rparr>) = version p"
  "version (p\<lparr>total_withdrawn := x_total_withdrawn\<rparr>) = version p"
  "version (p\<lparr>total_fees_earned := x_total_fees_earned\<rparr>) = version p"
  "version (p\<lparr>last_fee_accrual_slot := x_last_fee_accrual_slot\<rparr>) = version p"
  "version (p\<lparr>last_vault_snapshot := x_last_vault_snapshot\<rparr>) = version p"
  "version (p\<lparr>pool_mode := x_pool_mode\<rparr>) = version p"
  "version (p\<lparr>admin := x_admin\<rparr>) = version p"
  "version (p\<lparr>pending_admin := x_pending_admin\<rparr>) = version p"
  "version (p\<lparr>total_recovered_from_wrapper := x_total_recovered_from_wrapper\<rparr>) = version p"
  "version (p\<lparr>pending_cooldown_slots := x_pending_cooldown_slots\<rparr>) = version p"
  "version (p\<lparr>cooldown_proposed_at_slot := x_cooldown_proposed_at_slot\<rparr>) = version p"
  "validate_discriminator (p\<lparr>total_deposited := x_total_deposited\<rparr>) = validate_discriminator p"
  "validate_discriminator (p\<lparr>total_lp_supply := x_total_lp_supply\<rparr>) = validate_discriminator p"
  "validate_discriminator (p\<lparr>cooldown_slots := x_cooldown_slots\<rparr>) = validate_discriminator p"
  "validate_discriminator (p\<lparr>deposit_cap := x_deposit_cap\<rparr>) = validate_discriminator p"
  "validate_discriminator (p\<lparr>total_flushed := x_total_flushed\<rparr>) = validate_discriminator p"
  "validate_discriminator (p\<lparr>total_returned := x_total_returned\<rparr>) = validate_discriminator p"
  "validate_discriminator (p\<lparr>total_withdrawn := x_total_withdrawn\<rparr>) = validate_discriminator p"
  "validate_discriminator (p\<lparr>total_fees_earned := x_total_fees_earned\<rparr>) = validate_discriminator p"
  "validate_discriminator (p\<lparr>last_fee_accrual_slot := x_last_fee_accrual_slot\<rparr>) = validate_discriminator p"
  "validate_discriminator (p\<lparr>last_vault_snapshot := x_last_vault_snapshot\<rparr>) = validate_discriminator p"
  "validate_discriminator (p\<lparr>pool_mode := x_pool_mode\<rparr>) = validate_discriminator p"
  "validate_discriminator (p\<lparr>admin := x_admin\<rparr>) = validate_discriminator p"
  "validate_discriminator (p\<lparr>pending_admin := x_pending_admin\<rparr>) = validate_discriminator p"
  "validate_discriminator (p\<lparr>total_recovered_from_wrapper := x_total_recovered_from_wrapper\<rparr>) = validate_discriminator p"
  "validate_discriminator (p\<lparr>pending_cooldown_slots := x_pending_cooldown_slots\<rparr>) = validate_discriminator p"
  "validate_discriminator (p\<lparr>cooldown_proposed_at_slot := x_cooldown_proposed_at_slot\<rparr>) = validate_discriminator p"
  by (simp_all add: version_def validate_discriminator_def)

text \<open>
  The abstract specification of the reserved bytes: a record of independent values.  Each
  setter of the byte implementation is a single field update of it.
\<close>

record reserved_view =
  rv_market_resolved :: bool
  rv_hwm_enabled :: bool
  rv_hwm_floor_bps :: u16
  rv_epoch_high_water_tvl :: u64
  rv_hwm_last_epoch :: u64
  rv_tranche_enabled :: bool
  rv_junior_balance :: u64
  rv_junior_total_lp :: u64
  rv_junior_fee_mult_bps :: u16
  rv_realized_junior_loss :: u64
  rv_asset_admin_burned :: bool
  rv_version :: u8
  rv_discriminator_ok :: bool

definition view_reserved :: "StakePool \<Rightarrow> reserved_view" where
  "view_reserved p =
     \<lparr>rv_market_resolved = market_resolved p, rv_hwm_enabled = hwm_enabled p,
      rv_hwm_floor_bps = hwm_floor_bps p, rv_epoch_high_water_tvl = epoch_high_water_tvl p,
      rv_hwm_last_epoch = hwm_last_epoch p, rv_tranche_enabled = tranche_enabled p,
      rv_junior_balance = junior_balance p, rv_junior_total_lp = junior_total_lp p,
      rv_junior_fee_mult_bps = junior_fee_mult_bps p,
      rv_realized_junior_loss = realized_junior_loss p,
      rv_asset_admin_burned = asset_admin_burned p, rv_version = version p,
      rv_discriminator_ok = validate_discriminator p\<rparr>"

lemma view_reserved_setters:
  "view_reserved (set_market_resolved b p) = (view_reserved p)\<lparr>rv_market_resolved := b\<rparr>"
  "view_reserved (set_hwm_enabled b p) = (view_reserved p)\<lparr>rv_hwm_enabled := b\<rparr>"
  "view_reserved (set_hwm_floor_bps w p) = (view_reserved p)\<lparr>rv_hwm_floor_bps := w\<rparr>"
  "view_reserved (set_epoch_high_water_tvl v p) = (view_reserved p)\<lparr>rv_epoch_high_water_tvl := v\<rparr>"
  "view_reserved (set_hwm_last_epoch v p) = (view_reserved p)\<lparr>rv_hwm_last_epoch := v\<rparr>"
  "view_reserved (set_tranche_enabled b p) = (view_reserved p)\<lparr>rv_tranche_enabled := b\<rparr>"
  "view_reserved (set_junior_balance v p) = (view_reserved p)\<lparr>rv_junior_balance := v\<rparr>"
  "view_reserved (set_junior_total_lp v p) = (view_reserved p)\<lparr>rv_junior_total_lp := v\<rparr>"
  "view_reserved (set_junior_fee_mult_bps w p) = (view_reserved p)\<lparr>rv_junior_fee_mult_bps := w\<rparr>"
  "view_reserved (set_realized_junior_loss v p) = (view_reserved p)\<lparr>rv_realized_junior_loss := v\<rparr>"
  "view_reserved (set_asset_admin_burned b p) = (view_reserved p)\<lparr>rv_asset_admin_burned := b\<rparr>"
  by (simp_all add: view_reserved_def slot_defs discriminator_defs)

section \<open>Derived quantities\<close>

lemma uint_u64_range: "0 \<le> uint (a :: u64)" "uint (a :: u64) \<le> 18446744073709551615"
  using uint_bounded [of a] by simp_all

lemma pool_value_int_bound: "\<bar>pool_value_int p\<bar> < 2 ^ 67"
proof -
  note bounds = uint_u64_range [of "total_deposited p"] uint_u64_range [of "total_withdrawn p"]
    uint_u64_range [of "total_flushed p"] uint_u64_range [of "total_returned p"]
    uint_u64_range [of "total_fees_earned p"] uint_u64_range [of "realized_junior_loss p"]
  have "pool_value_int p < 147573952589676412928"
    unfolding pool_value_int_def using bounds by linarith
  moreover have "- pool_value_int p < 147573952589676412928"
    unfolding pool_value_int_def using bounds by linarith
  ultimately show ?thesis
    by (simp add: abs_less_iff)
qed

lemma uint_U64_MAX: "uint U64_MAX = 18446744073709551615"
  by (simp add: uint_nat)

lemma uint_word_of_int_u64:
  "0 \<le> i \<Longrightarrow> i \<le> 18446744073709551615 \<Longrightarrow> uint (word_of_int i :: u64) = i"
  by (simp add: uint_word_of_int)

lemma total_pool_value_eq_Some:
  "total_pool_value p = Some v \<longleftrightarrow> pool_value_int p = uint v"
proof
  assume "total_pool_value p = Some v"
  then show "pool_value_int p = uint v"
    by (auto simp: total_pool_value_def Let_def uint_U64_MAX uint_word_of_int_u64 split: if_splits)
next
  assume eq: "pool_value_int p = uint v"
  then show "total_pool_value p = Some v"
    using uint_u64_range [of v] by (simp add: total_pool_value_def Let_def uint_U64_MAX)
qed

lemma total_pool_value_eq_None:
  "total_pool_value p = None \<longleftrightarrow> pool_value_int p < 0 \<or> 2 ^ 64 \<le> pool_value_int p"
  by (auto simp: total_pool_value_def Let_def uint_U64_MAX)

definition net_loss :: "StakePool \<Rightarrow> nat" where
  "net_loss p = unat (total_flushed p) - unat (total_returned p)"

lemma unat_effective_junior_balance:
  "unat (effective_junior_balance p) = unat (junior_balance p) - net_loss p"
proof -
  define nl where "nl = saturating_sub (total_flushed p) (total_returned p)"
  have nl: "unat nl = net_loss p" by (simp add: nl_def net_loss_def)
  obtain jl sl where d: "distribute_loss (junior_balance p)
      (saturating_sub (saturating_sub (total_deposited p) (total_withdrawn p)) (junior_balance p)) nl = (jl, sl)"
    by fastforce
  have "unat jl = min (unat nl) (unat (junior_balance p))"
    using distribute_loss_junior_first(1) [OF d] .
  moreover have "nl = 0 \<longleftrightarrow> net_loss p = 0" using nl by (metis unsigned_eq_0_iff)
  ultimately show ?thesis
    by (auto simp: effective_junior_balance_def Let_def d nl nl_def [symmetric])
qed

lemma senior_balance_eq_Some:
  "senior_balance p = Some s \<longleftrightarrow>
     total_pool_value p = Some (s + effective_junior_balance p)
       \<and> unat s + unat (effective_junior_balance p) < 2 ^ 64"
proof -
  have "(unat v = unat s + unat (effective_junior_balance p))
      \<longleftrightarrow> v = s + effective_junior_balance p \<and> unat s + unat (effective_junior_balance p) < 2 ^ 64" for v
    using checked_add_eq_Some [of s "effective_junior_balance p" v]
    by (auto simp: checked_add_def split: if_splits)
  then show ?thesis
    by (auto simp: senior_balance_def checked_sub_eq_Some)
qed

lemma refresh_hwm_mark:
  assumes "refresh_hwm e tvl p = (mark, p')"
  shows "mark = (if e \<noteq> hwm_last_epoch p then tvl else max tvl (epoch_high_water_tvl p))"
    and "epoch_high_water_tvl p' = mark" and "hwm_last_epoch p' = e"
  using assms by (auto simp: refresh_hwm_def Let_def slot_defs max_def split: if_splits)

lemma wrapper_recoverable_unat:
  "unat (wrapper_recoverable p) =
     unat (total_flushed p) - unat (realized_junior_loss p) - unat (total_recovered_from_wrapper p)"
  by (simp add: wrapper_recoverable_def)

end
