(* ===== verification/Runtime.thy ===== *)
theory Runtime
  imports State_Lemmas
begin

text \<open>
  What a handler sees of Solana: the ledger of accounts, the account list of an
  instruction, and the services the program calls but does not contain.  Those services
  (\<open>find_program_address\<close>, cross-program invocation, the sysvars, the system program's
  instruction builders) are the fields of the parameter \<open>env\<close>; nothing is assumed of them
  here, and each theorem that relies on their documented behaviour names it as a hypothesis.

  A handler maps a ledger to a ledger or an error.  An error aborts the transaction, so
  no intermediate ledger survives it.  While a handler holds \<open>pool_pda\<close>'s data mutably
  the pool is a local value of the model, written back when the handler returns; a second
  borrow of the same account is the error it is in Rust (\<open>try_borrow_data\<close> fails,
  \<open>data_is_empty\<close> panics).
\<close>

record account =
  acc_lamports :: u64
  acc_owner :: pubkey
  acc_data :: "u8 list"

type_synonym ledger = "pubkey \<Rightarrow> account"

record AccountInfo =
  key :: pubkey
  is_signer :: bool
  is_writable :: bool

record AccountMeta =
  meta_pubkey :: pubkey
  meta_is_signer :: bool
  meta_is_writable :: bool

record Instruction =
  ix_program_id :: pubkey
  ix_accounts :: "AccountMeta list"
  ix_data :: "u8 list"

record Clock =
  slot :: u64
  epoch :: u64

text \<open>\<open>AccountMeta::new\<close> is writable, \<open>AccountMeta::new_readonly\<close> is not.\<close>

definition meta_new :: "pubkey \<Rightarrow> bool \<Rightarrow> AccountMeta" where
  "meta_new k s = \<lparr>meta_pubkey = k, meta_is_signer = s, meta_is_writable = True\<rparr>"

definition meta_new_readonly :: "pubkey \<Rightarrow> bool \<Rightarrow> AccountMeta" where
  "meta_new_readonly k s = \<lparr>meta_pubkey = k, meta_is_signer = s, meta_is_writable = False\<rparr>"

text \<open>
  \<open>runtime_invoke held ix infos seeds\<close> is \<open>invoke_signed\<close> (with no seeds, \<open>invoke\<close>);
  \<open>held\<close> are the accounts whose data the caller still borrows.
\<close>

record env =
  find_program_address :: pda_fn
  runtime_invoke :: "pubkey list \<Rightarrow> Instruction \<Rightarrow> AccountInfo list \<Rightarrow> u8 list list list \<Rightarrow> ledger \<Rightarrow> ledger result"
  clock_from_account_info :: "AccountInfo \<Rightarrow> ledger \<Rightarrow> Clock result"
  rent_from_account_info :: "AccountInfo \<Rightarrow> ledger \<Rightarrow> unit result"
  rent_minimum_balance :: "nat \<Rightarrow> u64 result"
  rent_sysvar_id :: pubkey
  system_create_account :: "pubkey \<Rightarrow> pubkey \<Rightarrow> u64 \<Rightarrow> u64 \<Rightarrow> pubkey \<Rightarrow> Instruction"
  system_transfer :: "pubkey \<Rightarrow> pubkey \<Rightarrow> u64 \<Rightarrow> Instruction"
  system_allocate :: "pubkey \<Rightarrow> u64 \<Rightarrow> Instruction"
  system_assign :: "pubkey \<Rightarrow> pubkey \<Rightarrow> Instruction"
  devnet_feature :: bool

section \<open>Account access\<close>

definition account_owner :: "AccountInfo \<Rightarrow> ledger \<Rightarrow> pubkey" where
  "account_owner ai L = acc_owner (L (key ai))"

definition account_lamports :: "AccountInfo \<Rightarrow> ledger \<Rightarrow> u64" where
  "account_lamports ai L = acc_lamports (L (key ai))"

definition try_borrow_data :: "pubkey list \<Rightarrow> AccountInfo \<Rightarrow> ledger \<Rightarrow> u8 list result" where
  "try_borrow_data held ai L =
     require (key ai \<notin> set held) AccountBorrowFailed (Inr (acc_data (L (key ai))))"

definition data_len :: "pubkey list \<Rightarrow> AccountInfo \<Rightarrow> ledger \<Rightarrow> nat result" where
  "data_len held ai L = require (key ai \<notin> set held) Panic (Inr (length (acc_data (L (key ai)))))"

definition data_is_empty :: "pubkey list \<Rightarrow> AccountInfo \<Rightarrow> ledger \<Rightarrow> bool result" where
  "data_is_empty held ai L = require (key ai \<notin> set held) Panic (Inr (acc_data (L (key ai)) = []))"

definition set_data :: "pubkey \<Rightarrow> u8 list \<Rightarrow> ledger \<Rightarrow> ledger" where
  "set_data k d L = L(k := (L k)\<lparr>acc_data := d\<rparr>)"

lemmas account_access = account_owner_def try_borrow_data_def data_len_def data_is_empty_def

lemma set_data_same [simp]: "acc_data (set_data k d L k) = d"
  by (simp add: set_data_def)

lemma set_data_other [simp]: "j \<noteq> k \<Longrightarrow> set_data k d L j = L j"
  by (simp add: set_data_def)

lemma set_data_owner [simp]: "acc_owner (set_data k d L j) = acc_owner (L j)"
  by (simp add: set_data_def)

lemma set_data_lamports [simp]: "acc_lamports (set_data k d L j) = acc_lamports (L j)"
  by (simp add: set_data_def)

end
