(* ===== verification/Spl_Token.thy ===== *)
theory Spl_Token
  imports Runtime
begin

text \<open>
  The SPL Token helpers of \<open>src/spl_token.rs\<close>: instruction builders in the token
  program's wire format and the parsers of token accounts and mints.
\<close>

definition spl_token_id :: pubkey where
  "spl_token_id = array_of
     [0x06, 0xDD, 0xF6, 0xE1, 0xD7, 0x65, 0xA1, 0x93, 0xD9, 0xCB, 0xE1, 0x46, 0xCE, 0xEB, 0x79, 0xAC,
      0x1C, 0xB4, 0x85, 0xED, 0x5F, 0x5B, 0x37, 0x91, 0x3A, 0x8C, 0xF5, 0x85, 0x7E, 0xFF, 0x00, 0xA9]"

definition IX_INITIALIZE_MINT :: u8 where "IX_INITIALIZE_MINT = 0"
definition IX_INITIALIZE_ACCOUNT :: u8 where "IX_INITIALIZE_ACCOUNT = 1"
definition IX_TRANSFER :: u8 where "IX_TRANSFER = 3"
definition IX_MINT_TO :: u8 where "IX_MINT_TO = 7"
definition IX_BURN :: u8 where "IX_BURN = 8"

definition initialize_mint ::
  "env \<Rightarrow> pubkey \<Rightarrow> pubkey \<Rightarrow> pubkey \<Rightarrow> pubkey option \<Rightarrow> u8 \<Rightarrow> Instruction result" where
  "initialize_mint E prog_id mint mint_authority freeze_authority decimals =
     Inr \<lparr>ix_program_id = spl_token_id,
       ix_accounts = [meta_new mint False, meta_new_readonly (rent_sysvar_id E) False],
       ix_data = (case freeze_authority of
           None \<Rightarrow> [IX_INITIALIZE_MINT, decimals] @ list_of_bytes mint_authority @ [0]
         | Some auth \<Rightarrow> [IX_INITIALIZE_MINT, decimals] @ list_of_bytes mint_authority @ [1]
                        @ list_of_bytes auth)\<rparr>"

definition initialize_account ::
  "env \<Rightarrow> pubkey \<Rightarrow> pubkey \<Rightarrow> pubkey \<Rightarrow> pubkey \<Rightarrow> Instruction result" where
  "initialize_account E prog_id acct mint own =
     Inr \<lparr>ix_program_id = spl_token_id,
       ix_accounts = [meta_new acct False, meta_new_readonly mint False, meta_new_readonly own False,
                      meta_new_readonly (rent_sysvar_id E) False],
       ix_data = [IX_INITIALIZE_ACCOUNT]\<rparr>"

definition spl_transfer ::
  "pubkey \<Rightarrow> pubkey \<Rightarrow> pubkey \<Rightarrow> pubkey \<Rightarrow> pubkey list \<Rightarrow> u64 \<Rightarrow> Instruction result" where
  "spl_transfer prog_id source dest authority multisigners amount =
     Inr \<lparr>ix_program_id = spl_token_id,
       ix_accounts = [meta_new source False, meta_new dest False, meta_new_readonly authority True],
       ix_data = IX_TRANSFER # to_le_bytes amount\<rparr>"

definition mint_to ::
  "pubkey \<Rightarrow> pubkey \<Rightarrow> pubkey \<Rightarrow> pubkey \<Rightarrow> pubkey list \<Rightarrow> u64 \<Rightarrow> Instruction result" where
  "mint_to prog_id mint destination authority multisigners amount =
     Inr \<lparr>ix_program_id = spl_token_id,
       ix_accounts = [meta_new mint False, meta_new destination False, meta_new_readonly authority True],
       ix_data = IX_MINT_TO # to_le_bytes amount\<rparr>"

definition spl_burn ::
  "pubkey \<Rightarrow> pubkey \<Rightarrow> pubkey \<Rightarrow> pubkey \<Rightarrow> pubkey list \<Rightarrow> u64 \<Rightarrow> Instruction result" where
  "spl_burn prog_id acct mint authority multisigners amount =
     Inr \<lparr>ix_program_id = spl_token_id,
       ix_accounts = [meta_new acct False, meta_new mint False, meta_new_readonly authority True],
       ix_data = IX_BURN # to_le_bytes amount\<rparr>"

section \<open>State parsing\<close>

datatype AccountState = Uninitialized | Initialized | Frozen

definition ACCOUNT_LEN :: nat where "ACCOUNT_LEN = 165"

definition MINT_LEN :: nat where "MINT_LEN = 82"

record TokenAccount =
  tok_amount :: u64
  tok_state :: AccountState

record Mint =
  mint_decimals :: u8
  mint_is_initialized :: bool

definition token_account_unpack :: "u8 list \<Rightarrow> TokenAccount result" where
  "token_account_unpack data =
     require (ACCOUNT_LEN \<le> length data) InvalidAccountData
       (bind_err (slice_at 64 72 data) (\<lambda>amount.
        bind_err (index_at 108 data) (\<lambda>st.
        Inr \<lparr>tok_amount = from_le_bytes amount,
             tok_state = (if st = 0 then Uninitialized else if st = 1 then Initialized else Frozen)\<rparr>)))"

definition mint_unpack :: "u8 list \<Rightarrow> Mint result" where
  "mint_unpack data =
     require (MINT_LEN \<le> length data) InvalidAccountData
       (bind_err (index_at 44 data) (\<lambda>decimals.
        bind_err (index_at 45 data) (\<lambda>init.
        Inr \<lparr>mint_decimals = decimals, mint_is_initialized = init \<noteq> 0\<rparr>)))"

text \<open>
  The mint and owner fields, read raw by the processor's account checks as \<open>data[0..32]\<close> and
  \<open>data[32..64]\<close>; \<open>token_mint\<close> and \<open>token_owner\<close> are their values in a buffer that has them.
\<close>

definition read_mint :: "u8 list \<Rightarrow> pubkey result" where
  "read_mint data = bind_err (slice_at 0 32 data) (\<lambda>b. Inr (array_of b))"

definition read_owner :: "u8 list \<Rightarrow> pubkey result" where
  "read_owner data = bind_err (slice_at 32 64 data) (\<lambda>b. Inr (array_of b))"

definition token_mint :: "u8 list \<Rightarrow> pubkey" where
  "token_mint data = array_of (slice 0 32 data)"

definition token_owner :: "u8 list \<Rightarrow> pubkey" where
  "token_owner data = array_of (slice 32 32 data)"

lemma read_in_range [simp]:
  "32 \<le> length data \<Longrightarrow> read_mint data = Inr (token_mint data)"
  "64 \<le> length data \<Longrightarrow> read_owner data = Inr (token_owner data)"
  by (simp_all add: read_mint_def read_owner_def token_mint_def token_owner_def)

text \<open>Behind their length tests the parsers read in range.\<close>

lemma token_account_unpack_eq:
  "token_account_unpack data =
     require (ACCOUNT_LEN \<le> length data) InvalidAccountData
       (Inr \<lparr>tok_amount = from_le_bytes (slice 64 8 data),
             tok_state = (if data ! 108 = 0 then Uninitialized
                          else if data ! 108 = 1 then Initialized else Frozen)\<rparr>)"
  unfolding token_account_unpack_def by (rule require_cong) (simp_all add: ACCOUNT_LEN_def)

lemma mint_unpack_eq:
  "mint_unpack data =
     require (MINT_LEN \<le> length data) InvalidAccountData
       (Inr \<lparr>mint_decimals = data ! 44, mint_is_initialized = data ! 45 \<noteq> 0\<rparr>)"
  unfolding mint_unpack_def by (rule require_cong) (simp_all add: MINT_LEN_def)

lemmas spl_builders = initialize_mint_def initialize_account_def spl_transfer_def mint_to_def spl_burn_def

text \<open>The token program's address is no constant array.\<close>

lemma not_fill:
  assumes "list_of_bytes (k :: pubkey) ! 0 \<noteq> list_of_bytes k ! 1"
  shows "k \<noteq> fill b"
proof
  assume "k = fill b"
  then have "list_of_bytes k = replicate LENGTH(32) b" by (simp only: list_of_bytes_fill)
  with assms show False by simp
qed

lemma spl_token_id_not_fill [simp]: "spl_token_id \<noteq> fill b" "fill b \<noteq> spl_token_id"
proof -
  show "spl_token_id \<noteq> fill b" by (rule not_fill) (simp add: spl_token_id_def array_of_inverse)
  then show "fill b \<noteq> spl_token_id" by metis
qed

end
