(* ===== verification/Cpi.thy ===== *)
theory Cpi
  imports Spl_Token
begin

text \<open>
  The cross-program calls into the percolator wrapper (\<open>src/cpi.rs\<close>): for each, the wire
  data, the account metas, and the \<open>invoke_signed\<close> with the signing PDA's seeds.  Every
  helper takes the accounts in the order of the source.
\<close>

definition TAG_TOP_UP_INSURANCE :: u8 where "TAG_TOP_UP_INSURANCE = 9"
definition TAG_UPDATE_AUTHORITY :: u8 where "TAG_UPDATE_AUTHORITY = 32"
definition TAG_UPDATE_ASSET_AUTHORITY :: u8 where "TAG_UPDATE_ASSET_AUTHORITY = 65"
definition ASSET_INDEX_ZERO :: u16 where "ASSET_INDEX_ZERO = 0"
definition ASSET_AUTH_INSURANCE :: u8 where "ASSET_AUTH_INSURANCE = 1"
definition ASSET_AUTH_INSURANCE_OPERATOR :: u8 where "ASSET_AUTH_INSURANCE_OPERATOR = 2"
definition ASSET_AUTH_ADMIN :: u8 where "ASSET_AUTH_ADMIN = 0"
definition TAG_WITHDRAW_INSURANCE_ASSET :: u8 where "TAG_WITHDRAW_INSURANCE_ASSET = 57"
definition TAG_RESOLVE_MARKET :: u8 where "TAG_RESOLVE_MARKET = 19"
definition TAG_UPDATE_FEE_SPLIT :: u8 where "TAG_UPDATE_FEE_SPLIT = 86"
definition TAG_UPDATE_MAINTENANCE_FEE_PER_SLOT :: u8 where "TAG_UPDATE_MAINTENANCE_FEE_PER_SLOT = 88"
definition TAG_UPDATE_BACKING_FEE_POLICY :: u8 where "TAG_UPDATE_BACKING_FEE_POLICY = 51"
definition TAG_UPDATE_TRADE_FEE_POLICY :: u8 where "TAG_UPDATE_TRADE_FEE_POLICY = 55"

section \<open>Insurance funds\<close>

definition top_up_insurance_ix ::
  "AccountInfo \<Rightarrow> AccountInfo \<Rightarrow> AccountInfo \<Rightarrow> AccountInfo \<Rightarrow> AccountInfo \<Rightarrow> AccountInfo \<Rightarrow> u64 \<Rightarrow> Instruction" where
  "top_up_insurance_ix perc_ai signer_ai slab_ai signer_ata_ai wrapper_vault_ai token_ai amount =
     \<lparr>ix_program_id = key perc_ai,
      ix_accounts = [meta_new_readonly (key signer_ai) True, meta_new (key slab_ai) False,
                     meta_new (key signer_ata_ai) False, meta_new (key wrapper_vault_ai) False,
                     meta_new_readonly (key token_ai) False],
      ix_data = TAG_TOP_UP_INSURANCE # to_le_bytes (ucast amount :: u128)\<rparr>"

definition cpi_top_up_insurance ::
  "env \<Rightarrow> pubkey list \<Rightarrow> AccountInfo \<Rightarrow> AccountInfo \<Rightarrow> AccountInfo \<Rightarrow> AccountInfo \<Rightarrow> AccountInfo \<Rightarrow>
   AccountInfo \<Rightarrow> u64 \<Rightarrow> u8 list list \<Rightarrow> ledger \<Rightarrow> ledger result" where
  "cpi_top_up_insurance E held perc_ai signer_ai slab_ai signer_ata_ai wrapper_vault_ai token_ai amount seeds L =
     runtime_invoke E held
       (top_up_insurance_ix perc_ai signer_ai slab_ai signer_ata_ai wrapper_vault_ai token_ai amount)
       [signer_ai, slab_ai, signer_ata_ai, wrapper_vault_ai, token_ai] [seeds] L"

definition withdraw_insurance_asset_ix ::
  "AccountInfo \<Rightarrow> AccountInfo \<Rightarrow> AccountInfo \<Rightarrow> AccountInfo \<Rightarrow> AccountInfo \<Rightarrow> AccountInfo \<Rightarrow> AccountInfo \<Rightarrow>
   u64 \<Rightarrow> Instruction" where
  "withdraw_insurance_asset_ix perc_ai vault_auth_ai market_ai dest_ai wrapper_vault_ai wrapper_auth_ai token_ai amount =
     \<lparr>ix_program_id = key perc_ai,
      ix_accounts = [meta_new_readonly (key vault_auth_ai) True, meta_new (key market_ai) False,
                     meta_new (key dest_ai) False, meta_new (key wrapper_vault_ai) False,
                     meta_new_readonly (key wrapper_auth_ai) False, meta_new_readonly (key token_ai) False],
      ix_data = TAG_WITHDRAW_INSURANCE_ASSET # to_le_bytes ASSET_INDEX_ZERO
                @ to_le_bytes (ucast amount :: u128)\<rparr>"

definition cpi_withdraw_insurance_asset ::
  "env \<Rightarrow> pubkey list \<Rightarrow> AccountInfo \<Rightarrow> AccountInfo \<Rightarrow> AccountInfo \<Rightarrow> AccountInfo \<Rightarrow> AccountInfo \<Rightarrow>
   AccountInfo \<Rightarrow> AccountInfo \<Rightarrow> u64 \<Rightarrow> u8 list list \<Rightarrow> ledger \<Rightarrow> ledger result" where
  "cpi_withdraw_insurance_asset E held perc_ai vault_auth_ai market_ai dest_ai wrapper_vault_ai
       wrapper_auth_ai token_ai amount seeds L =
     runtime_invoke E held
       (withdraw_insurance_asset_ix perc_ai vault_auth_ai market_ai dest_ai wrapper_vault_ai
          wrapper_auth_ai token_ai amount)
       [vault_auth_ai, market_ai, dest_ai, wrapper_vault_ai, wrapper_auth_ai, token_ai] [seeds] L"

section \<open>Authorities\<close>

definition update_authority_ix ::
  "AccountInfo \<Rightarrow> AccountInfo \<Rightarrow> AccountInfo \<Rightarrow> AccountInfo \<Rightarrow> Instruction" where
  "update_authority_ix perc_ai current_ai new_ai slab_ai =
     \<lparr>ix_program_id = key perc_ai,
      ix_accounts = [meta_new_readonly (key current_ai) True, meta_new_readonly (key new_ai) True,
                     meta_new (key slab_ai) False],
      ix_data = TAG_UPDATE_AUTHORITY # list_of_bytes (key new_ai)\<rparr>"

definition cpi_update_authority ::
  "env \<Rightarrow> pubkey list \<Rightarrow> AccountInfo \<Rightarrow> AccountInfo \<Rightarrow> AccountInfo \<Rightarrow> AccountInfo \<Rightarrow> u8 list list \<Rightarrow>
   ledger \<Rightarrow> ledger result" where
  "cpi_update_authority E held perc_ai current_ai new_ai slab_ai seeds L =
     runtime_invoke E held (update_authority_ix perc_ai current_ai new_ai slab_ai)
       [current_ai, new_ai, slab_ai] [seeds] L"

text \<open>The shared 36-byte payload of \<open>UpdateAssetAuthority\<close> for asset 0.\<close>

definition asset_authority_data :: "u8 \<Rightarrow> u8 list \<Rightarrow> u8 list" where
  "asset_authority_data kind new_pubkey =
     TAG_UPDATE_ASSET_AUTHORITY # to_le_bytes ASSET_INDEX_ZERO @ [kind] @ new_pubkey"

definition cpi_bind_insurance_authority ::
  "env \<Rightarrow> pubkey list \<Rightarrow> AccountInfo \<Rightarrow> AccountInfo \<Rightarrow> AccountInfo \<Rightarrow> AccountInfo \<Rightarrow> u8 list list \<Rightarrow>
   ledger \<Rightarrow> ledger result" where
  "cpi_bind_insurance_authority E held perc_ai admin_ai vault_auth_ai market_ai seeds L =
     runtime_invoke E held
       \<lparr>ix_program_id = key perc_ai,
        ix_accounts = [meta_new_readonly (key admin_ai) True, meta_new_readonly (key vault_auth_ai) True,
                       meta_new (key market_ai) False],
        ix_data = asset_authority_data ASSET_AUTH_INSURANCE (list_of_bytes (key vault_auth_ai))\<rparr>
       [admin_ai, vault_auth_ai, market_ai] [seeds] L"

definition cpi_bind_insurance_operator ::
  "env \<Rightarrow> pubkey list \<Rightarrow> AccountInfo \<Rightarrow> AccountInfo \<Rightarrow> AccountInfo \<Rightarrow> AccountInfo \<Rightarrow> u8 list list \<Rightarrow>
   ledger \<Rightarrow> ledger result" where
  "cpi_bind_insurance_operator E held perc_ai admin_ai vault_auth_ai market_ai seeds L =
     runtime_invoke E held
       \<lparr>ix_program_id = key perc_ai,
        ix_accounts = [meta_new_readonly (key admin_ai) True, meta_new_readonly (key vault_auth_ai) True,
                       meta_new (key market_ai) False],
        ix_data = asset_authority_data ASSET_AUTH_INSURANCE_OPERATOR (list_of_bytes (key vault_auth_ai))\<rparr>
       [admin_ai, vault_auth_ai, market_ai] [seeds] L"

definition cpi_burn_asset_admin ::
  "env \<Rightarrow> pubkey list \<Rightarrow> AccountInfo \<Rightarrow> AccountInfo \<Rightarrow> AccountInfo \<Rightarrow> AccountInfo \<Rightarrow> ledger \<Rightarrow> ledger result" where
  "cpi_burn_asset_admin E held perc_ai admin_ai vault_auth_ai market_ai L =
     runtime_invoke E held
       \<lparr>ix_program_id = key perc_ai,
        ix_accounts = [meta_new_readonly (key admin_ai) True, meta_new_readonly (key vault_auth_ai) False,
                       meta_new (key market_ai) False],
        ix_data = asset_authority_data ASSET_AUTH_ADMIN (replicate 32 0)\<rparr>
       [admin_ai, vault_auth_ai, market_ai] [] L"

definition cpi_rotate_insurance_operator ::
  "env \<Rightarrow> pubkey list \<Rightarrow> AccountInfo \<Rightarrow> AccountInfo \<Rightarrow> AccountInfo \<Rightarrow> AccountInfo \<Rightarrow> u8 list list \<Rightarrow>
   ledger \<Rightarrow> ledger result" where
  "cpi_rotate_insurance_operator E held perc_ai vault_auth_ai target_ai market_ai seeds L =
     runtime_invoke E held
       \<lparr>ix_program_id = key perc_ai,
        ix_accounts = [meta_new_readonly (key vault_auth_ai) True, meta_new_readonly (key target_ai) True,
                       meta_new (key market_ai) False],
        ix_data = asset_authority_data ASSET_AUTH_INSURANCE_OPERATOR (list_of_bytes (key target_ai))\<rparr>
       [vault_auth_ai, target_ai, market_ai] [seeds] L"

definition cpi_rotate_insurance_authority ::
  "env \<Rightarrow> pubkey list \<Rightarrow> AccountInfo \<Rightarrow> AccountInfo \<Rightarrow> AccountInfo \<Rightarrow> AccountInfo \<Rightarrow> u8 list list \<Rightarrow>
   ledger \<Rightarrow> ledger result" where
  "cpi_rotate_insurance_authority E held perc_ai vault_auth_ai target_ai market_ai seeds L =
     runtime_invoke E held
       \<lparr>ix_program_id = key perc_ai,
        ix_accounts = [meta_new_readonly (key vault_auth_ai) True, meta_new_readonly (key target_ai) True,
                       meta_new (key market_ai) False],
        ix_data = asset_authority_data ASSET_AUTH_INSURANCE (list_of_bytes (key target_ai))\<rparr>
       [vault_auth_ai, target_ai, market_ai] [seeds] L"

section \<open>Resolution and fee policy\<close>

definition signed_market_ix :: "AccountInfo \<Rightarrow> AccountInfo \<Rightarrow> AccountInfo \<Rightarrow> u8 list \<Rightarrow> Instruction" where
  "signed_market_ix perc_ai authority_ai slab_ai data =
     \<lparr>ix_program_id = key perc_ai,
      ix_accounts = [meta_new_readonly (key authority_ai) True, meta_new (key slab_ai) False],
      ix_data = data\<rparr>"

definition cpi_resolve_market ::
  "env \<Rightarrow> pubkey list \<Rightarrow> AccountInfo \<Rightarrow> AccountInfo \<Rightarrow> AccountInfo \<Rightarrow> u8 list list \<Rightarrow> ledger \<Rightarrow> ledger result" where
  "cpi_resolve_market E held perc_ai pool_ai slab_ai seeds L =
     runtime_invoke E held (signed_market_ix perc_ai pool_ai slab_ai [TAG_RESOLVE_MARKET])
       [pool_ai, slab_ai] [seeds] L"

definition cpi_update_fee_split ::
  "env \<Rightarrow> pubkey list \<Rightarrow> AccountInfo \<Rightarrow> AccountInfo \<Rightarrow> AccountInfo \<Rightarrow> u16 \<Rightarrow> u16 \<Rightarrow> u16 \<Rightarrow> u8 list list \<Rightarrow>
   ledger \<Rightarrow> ledger result" where
  "cpi_update_fee_split E held perc_ai pool_ai slab_ai creator_share_bps lp_share_bps insurance_share_bps seeds L =
     runtime_invoke E held
       (signed_market_ix perc_ai pool_ai slab_ai
          (TAG_UPDATE_FEE_SPLIT # to_le_bytes creator_share_bps @ to_le_bytes lp_share_bps
           @ to_le_bytes insurance_share_bps))
       [pool_ai, slab_ai] [seeds] L"

definition cpi_update_maintenance_fee_per_slot ::
  "env \<Rightarrow> pubkey list \<Rightarrow> AccountInfo \<Rightarrow> AccountInfo \<Rightarrow> AccountInfo \<Rightarrow> u128 \<Rightarrow> u8 list list \<Rightarrow>
   ledger \<Rightarrow> ledger result" where
  "cpi_update_maintenance_fee_per_slot E held perc_ai pool_ai slab_ai fee seeds L =
     runtime_invoke E held
       (signed_market_ix perc_ai pool_ai slab_ai
          (TAG_UPDATE_MAINTENANCE_FEE_PER_SLOT # to_le_bytes fee))
       [pool_ai, slab_ai] [seeds] L"

definition cpi_update_backing_fee_policy ::
  "env \<Rightarrow> pubkey list \<Rightarrow> AccountInfo \<Rightarrow> AccountInfo \<Rightarrow> AccountInfo \<Rightarrow> u16 \<Rightarrow> u16 \<Rightarrow> u16 \<Rightarrow> u8 list list \<Rightarrow>
   ledger \<Rightarrow> ledger result" where
  "cpi_update_backing_fee_policy E held perc_ai vault_auth_ai slab_ai domain fee_bps insurance_share_bps seeds L =
     runtime_invoke E held
       (signed_market_ix perc_ai vault_auth_ai slab_ai
          (TAG_UPDATE_BACKING_FEE_POLICY # to_le_bytes domain @ to_le_bytes fee_bps
           @ to_le_bytes insurance_share_bps))
       [vault_auth_ai, slab_ai] [seeds] L"

definition cpi_update_trade_fee_policy ::
  "env \<Rightarrow> pubkey list \<Rightarrow> AccountInfo \<Rightarrow> AccountInfo \<Rightarrow> AccountInfo \<Rightarrow> u64 \<Rightarrow> u8 list list \<Rightarrow>
   ledger \<Rightarrow> ledger result" where
  "cpi_update_trade_fee_policy E held perc_ai vault_auth_ai slab_ai trade_fee_base_bps seeds L =
     runtime_invoke E held
       (signed_market_ix perc_ai vault_auth_ai slab_ai
          (TAG_UPDATE_TRADE_FEE_POLICY # to_le_bytes trade_fee_base_bps))
       [vault_auth_ai, slab_ai] [seeds] L"

lemmas wrapper_calls =
  cpi_top_up_insurance_def cpi_withdraw_insurance_asset_def cpi_update_authority_def
  cpi_bind_insurance_authority_def cpi_bind_insurance_operator_def cpi_burn_asset_admin_def
  cpi_rotate_insurance_operator_def cpi_rotate_insurance_authority_def cpi_resolve_market_def
  cpi_update_fee_split_def cpi_update_maintenance_fee_per_slot_def cpi_update_backing_fee_policy_def
  cpi_update_trade_fee_policy_def

end
