(* ===== verification/Guards.thy ===== *)
theory Guards
  imports Cpi
begin

text \<open>
  The checks every handler of \<open>src/processor.rs\<close> is built from: parameter bounds, account
  ownership, opening the pool and the deposit record, token-account checks, and the
  creation of program-derived accounts.
\<close>

section \<open>Parameter validation\<close>

definition MAX_COOLDOWN_SLOTS :: u64 where "MAX_COOLDOWN_SLOTS = 78840000"

definition TIMELOCK_SLOTS :: u64 where "TIMELOCK_SLOTS = 432000"

definition MAX_HWM_FLOOR_BPS :: u16 where "MAX_HWM_FLOOR_BPS = 9000"

definition INIT_POOL_POOL_PDA_INDEX :: nat where "INIT_POOL_POOL_PDA_INDEX = 2"

definition timelock_window_elapsed :: "u64 \<Rightarrow> u64 \<Rightarrow> u64 \<Rightarrow> bool result" where
  "timelock_window_elapsed proposed_at timelock_slots now =
     bind_err (ok_or (checked_add proposed_at timelock_slots) (stake_err Overflow)) (\<lambda>earliest.
     Inr (now \<ge> earliest))"

definition validate_cooldown_slots :: "u64 \<Rightarrow> unit result" where
  "validate_cooldown_slots n =
     require (n \<noteq> 0) InvalidArgument (
     require (\<not> n > MAX_COOLDOWN_SLOTS) InvalidArgument (Inr ()))"

definition validate_hwm_floor_bps :: "u16 \<Rightarrow> unit result" where
  "validate_hwm_floor_bps bps =
     require (\<not> (bps = 0 \<or> bps > MAX_HWM_FLOOR_BPS)) InvalidArgument (Inr ())"

section \<open>Account validation\<close>

definition verify_token_program :: "AccountInfo \<Rightarrow> unit result" where
  "verify_token_program token_ai = require (key token_ai = spl_token_id) IncorrectProgramId (Inr ())"

definition validate_account_owner :: "AccountInfo \<Rightarrow> pubkey \<Rightarrow> ledger \<Rightarrow> unit result" where
  "validate_account_owner ai expected L =
     require (account_owner ai L = expected) (stake_err InvalidAccount) (Inr ())"

definition validate_pool_version :: "StakePool \<Rightarrow> unit result" where
  "validate_pool_version p = require (version p = CURRENT_VERSION) (stake_err InvalidAccount) (Inr ())"

definition validate_account_writable :: "AccountInfo \<Rightarrow> unit result" where
  "validate_account_writable ai = require (is_writable ai) (stake_err InvalidAccount) (Inr ())"

definition validate_account_not_empty :: "AccountInfo \<Rightarrow> ledger \<Rightarrow> unit result" where
  "validate_account_not_empty ai L =
     bind_err (data_is_empty [] ai L) (\<lambda>empty. require (\<not> empty) (stake_err InvalidAccount) (Inr ()))"

definition validate_account_empty :: "AccountInfo \<Rightarrow> ledger \<Rightarrow> unit result" where
  "validate_account_empty ai L =
     bind_err (data_is_empty [] ai L) (\<lambda>empty. require empty (stake_err AlreadyInitialized) (Inr ()))"

text \<open>The mint and owner fields of a token account must be the expected ones.\<close>

definition validate_lp_recipient_account ::
  "pubkey list \<Rightarrow> AccountInfo \<Rightarrow> pubkey \<Rightarrow> pubkey \<Rightarrow> ledger \<Rightarrow> unit result" where
  "validate_lp_recipient_account held lp_ata_ai expected_lp_mint expected_owner L =
     require (account_owner lp_ata_ai L = spl_token_id) (stake_err InvalidAccount) (
     bind_err (try_borrow_data held lp_ata_ai L) (\<lambda>d.
     require (\<not> length d < ACCOUNT_LEN) (stake_err InvalidAccount) (
     bind_err (read_mint d) (\<lambda>mint_bytes.
     require (mint_bytes = expected_lp_mint) (stake_err InvalidMint) (
     bind_err (read_owner d) (\<lambda>owner_bytes.
     require (owner_bytes = expected_owner) (stake_err Unauthorized) (Inr ())))))))"

text \<open>
  The source of a deposit: owned by the token program, of the pool's mint (with the
  caller's choice of error) and of the signing user.
\<close>

definition validate_source_ata ::
  "pubkey list \<Rightarrow> StakeError \<Rightarrow> AccountInfo \<Rightarrow> pubkey \<Rightarrow> pubkey \<Rightarrow> ledger \<Rightarrow> unit result" where
  "validate_source_ata held mint_error ata_ai mint own L =
     require (account_owner ata_ai L = spl_token_id) (stake_err InvalidAccount) (
     bind_err (try_borrow_data held ata_ai L) (\<lambda>d.
     require (\<not> length d < ACCOUNT_LEN) (stake_err InvalidAccount) (
     bind_err (read_mint d) (\<lambda>mint_bytes.
     require (mint_bytes = mint) (stake_err mint_error) (
     bind_err (read_owner d) (\<lambda>owner_bytes.
     require (owner_bytes = own) (stake_err Unauthorized) (Inr ())))))))"

text \<open>A token account that only has to be of the pool's mint.\<close>

definition validate_mint_of ::
  "pubkey list \<Rightarrow> AccountInfo \<Rightarrow> pubkey \<Rightarrow> ledger \<Rightarrow> unit result" where
  "validate_mint_of held ata_ai mint L =
     require (account_owner ata_ai L = spl_token_id) (stake_err InvalidAccount) (
     bind_err (try_borrow_data held ata_ai L) (\<lambda>d.
     require (\<not> length d < ACCOUNT_LEN) (stake_err InvalidAccount) (
     bind_err (read_mint d) (\<lambda>mint_bytes.
     require (mint_bytes = mint) (stake_err InvalidMint) (Inr ())))))"

text \<open>Behind the length test the fields are there.\<close>

lemma token_checks_read:
  assumes "\<not> length d < ACCOUNT_LEN"
  shows "read_mint d = Inr (token_mint d)" "read_owner d = Inr (token_owner d)"
  using assms by (simp_all add: ACCOUNT_LEN_def)

lemma validate_lp_recipient_account_eq:
  "validate_lp_recipient_account held lp_ata_ai expected_lp_mint expected_owner L =
     require (account_owner lp_ata_ai L = spl_token_id) (stake_err InvalidAccount) (
     bind_err (try_borrow_data held lp_ata_ai L) (\<lambda>d.
     require (\<not> length d < ACCOUNT_LEN) (stake_err InvalidAccount) (
     require (token_mint d = expected_lp_mint) (stake_err InvalidMint) (
     require (token_owner d = expected_owner) (stake_err Unauthorized) (Inr ())))))"
  unfolding validate_lp_recipient_account_def by (simp add: token_checks_read cong: require_cong)

lemma validate_source_ata_eq:
  "validate_source_ata held mint_error ata_ai mint own L =
     require (account_owner ata_ai L = spl_token_id) (stake_err InvalidAccount) (
     bind_err (try_borrow_data held ata_ai L) (\<lambda>d.
     require (\<not> length d < ACCOUNT_LEN) (stake_err InvalidAccount) (
     require (token_mint d = mint) (stake_err mint_error) (
     require (token_owner d = own) (stake_err Unauthorized) (Inr ())))))"
  unfolding validate_source_ata_def by (simp add: token_checks_read cong: require_cong)

lemma validate_mint_of_eq:
  "validate_mint_of held ata_ai mint L =
     require (account_owner ata_ai L = spl_token_id) (stake_err InvalidAccount) (
     bind_err (try_borrow_data held ata_ai L) (\<lambda>d.
     require (\<not> length d < ACCOUNT_LEN) (stake_err InvalidAccount) (
     require (token_mint d = mint) (stake_err InvalidMint) (Inr ()))))"
  unfolding validate_mint_of_def by (simp add: token_checks_read cong: require_cong)

section \<open>Opening accounts\<close>

text \<open>
  A structure is read from the front of the account's data, \<open>&data[..SIZE]\<close>, behind a length test.
  \<open>bytemuck\<close> refuses a slice of another size or a misaligned one: the size is exact, and the
  runtime aligns account data to eight bytes, so that its \<open>InvalidAccountData\<close> does not arise.
\<close>

definition pool_from_data :: "u8 list \<Rightarrow> StakePool result" where
  "pool_from_data d =
     require (\<not> length d < STAKE_POOL_SIZE) (stake_err InvalidAccount)
       (bind_err (slice_at 0 STAKE_POOL_SIZE d) (\<lambda>b. Inr (pool_of_bytes b)))"

definition deposit_from_data :: "u8 list \<Rightarrow> StakeDeposit result" where
  "deposit_from_data d =
     require (\<not> length d < STAKE_DEPOSIT_SIZE) (stake_err InvalidAccount)
       (bind_err (slice_at 0 STAKE_DEPOSIT_SIZE d) (\<lambda>b. Inr (deposit_of_bytes b)))"

lemma slice_front [simp]: "slice 0 n xs = take n xs"
  by (simp add: slice_def)

lemma pool_from_data_eq:
  "pool_from_data d =
     require (\<not> length d < STAKE_POOL_SIZE) (stake_err InvalidAccount)
       (Inr (pool_of_bytes (take STAKE_POOL_SIZE d)))"
  unfolding pool_from_data_def by (simp cong: require_cong)

lemma deposit_from_data_eq:
  "deposit_from_data d =
     require (\<not> length d < STAKE_DEPOSIT_SIZE) (stake_err InvalidAccount)
       (Inr (deposit_of_bytes (take STAKE_DEPOSIT_SIZE d)))"
  unfolding deposit_from_data_def by (simp cong: require_cong)

text \<open>
  The block that opens every handler: borrow the pool, reinterpret its bytes, check the
  initialisation flag, the discriminator and the version.
\<close>

definition open_pool :: "AccountInfo \<Rightarrow> ledger \<Rightarrow> StakePool result" where
  "open_pool pool_ai L =
     bind_err (try_borrow_data [] pool_ai L) (\<lambda>d.
     bind_err (pool_from_data d) (\<lambda>p.
     require (is_initialized p = 1) (stake_err NotInitialized) (
     require (validate_discriminator p) (stake_err InvalidAccount) (
     bind_err (validate_pool_version p) (\<lambda>_. Inr p)))))"

definition write_pool :: "AccountInfo \<Rightarrow> StakePool \<Rightarrow> ledger \<Rightarrow> ledger" where
  "write_pool pool_ai p L =
     set_data (key pool_ai) (patch 0 (bytes_of_pool p) (acc_data (L (key pool_ai)))) L"

definition write_deposit :: "AccountInfo \<Rightarrow> StakeDeposit \<Rightarrow> ledger \<Rightarrow> ledger" where
  "write_deposit dep_ai r L =
     set_data (key dep_ai) (patch 0 (bytes_of_deposit r) (acc_data (L (key dep_ai)))) L"

text \<open>The three checks made on \<open>pool_pda\<close> before it is opened, in their two orders.\<close>

definition owned_pool_account :: "pubkey \<Rightarrow> AccountInfo \<Rightarrow> ledger \<Rightarrow> unit result" where
  "owned_pool_account program_id pool_ai L =
     bind_err (validate_account_owner pool_ai program_id L) (\<lambda>_.
     bind_err (validate_account_not_empty pool_ai L) (\<lambda>_.
     validate_account_writable pool_ai))"

definition present_pool_account :: "pubkey \<Rightarrow> AccountInfo \<Rightarrow> ledger \<Rightarrow> unit result" where
  "present_pool_account program_id pool_ai L =
     bind_err (validate_account_not_empty pool_ai L) (\<lambda>_.
     bind_err (validate_account_owner pool_ai program_id L) (\<lambda>_.
     validate_account_writable pool_ai))"

text \<open>
  The prologue of the admin handlers that mutate the pool: the admin signs, the pool
  account is this program's, non-empty and writable, and the pool opens under its admin.
\<close>

definition open_pool_as_admin :: "pubkey \<Rightarrow> AccountInfo \<Rightarrow> AccountInfo \<Rightarrow> ledger \<Rightarrow> StakePool result" where
  "open_pool_as_admin program_id admin_ai pool_ai L =
     require (is_signer admin_ai) MissingRequiredSignature (
     bind_err (owned_pool_account program_id pool_ai L) (\<lambda>_.
     bind_err (open_pool pool_ai L) (\<lambda>p.
     require (admin p = key admin_ai) (stake_err Unauthorized) (Inr p))))"

section \<open>Signing seeds\<close>

definition vault_auth_seeds :: "AccountInfo \<Rightarrow> u8 \<Rightarrow> u8 list list" where
  "vault_auth_seeds pool_ai b = [ascii ''vault_auth'', list_of_bytes (key pool_ai), [b]]"

definition pool_seeds :: "AccountInfo \<Rightarrow> u8 \<Rightarrow> u8 list list" where
  "pool_seeds slab_ai b = [ascii ''stake_pool'', list_of_bytes (key slab_ai), [b]]"

definition deposit_seeds :: "AccountInfo \<Rightarrow> AccountInfo \<Rightarrow> u8 \<Rightarrow> u8 list list" where
  "deposit_seeds pool_ai user_ai b =
     [ascii ''stake_deposit'', list_of_bytes (key pool_ai), list_of_bytes (key user_ai), [b]]"

section \<open>Creating program-derived accounts\<close>

definition create_or_adopt_pda ::
  "env \<Rightarrow> pubkey list \<Rightarrow> AccountInfo \<Rightarrow> AccountInfo \<Rightarrow> AccountInfo \<Rightarrow> pubkey \<Rightarrow> nat \<Rightarrow> u8 list list \<Rightarrow>
   ledger \<Rightarrow> ledger result" where
  "create_or_adopt_pda E held target_ai payer_ai system_ai own space seeds L =
     bind_err (rent_minimum_balance E space) (\<lambda>need.
     if account_lamports target_ai L = 0 then
       runtime_invoke E held
         (system_create_account E (key payer_ai) (key target_ai) need (of_nat space) own)
         [payer_ai, target_ai, system_ai] [seeds] L
     else
       (let have_lamports = account_lamports target_ai L in
        bind_err (if have_lamports < need
                  then bind_err (ok_or (checked_sub need have_lamports) Panic) (\<lambda>shortfall.
                       runtime_invoke E held (system_transfer E (key payer_ai) (key target_ai) shortfall)
                         [payer_ai, target_ai, system_ai] [] L)
                  else Inr L) (\<lambda>L1.
        bind_err (runtime_invoke E held (system_allocate E (key target_ai) (of_nat space))
                    [target_ai, system_ai] [seeds] L1) (\<lambda>L2.
        runtime_invoke E held (system_assign E (key target_ai) own) [target_ai, system_ai] [seeds] L2))))"

lemma create_or_adopt_pda_eq:
  "create_or_adopt_pda E held target_ai payer_ai system_ai own space seeds L =
     bind_err (rent_minimum_balance E space) (\<lambda>need.
     if account_lamports target_ai L = 0 then
       runtime_invoke E held
         (system_create_account E (key payer_ai) (key target_ai) need (of_nat space) own)
         [payer_ai, target_ai, system_ai] [seeds] L
     else
       (let have_lamports = account_lamports target_ai L in
        bind_err (if have_lamports < need
                  then runtime_invoke E held
                         (system_transfer E (key payer_ai) (key target_ai) (need - have_lamports))
                         [payer_ai, target_ai, system_ai] [] L
                  else Inr L) (\<lambda>L1.
        bind_err (runtime_invoke E held (system_allocate E (key target_ai) (of_nat space))
                    [target_ai, system_ai] [seeds] L1) (\<lambda>L2.
        runtime_invoke E held (system_assign E (key target_ai) own) [target_ai, system_ai] [seeds] L2))))"
  unfolding create_or_adopt_pda_def Let_def
  by (simp add: checked_sub_def less_imp_le not_less cong: if_cong)

section \<open>What the guards establish\<close>

lemma validate_cooldown_slots_ok [simp]:
  "validate_cooldown_slots n = Inr u \<longleftrightarrow> n \<noteq> 0 \<and> n \<le> MAX_COOLDOWN_SLOTS"
  by (simp add: validate_cooldown_slots_def not_less)

lemma validate_hwm_floor_bps_ok [simp]:
  "validate_hwm_floor_bps b = Inr u \<longleftrightarrow> b \<noteq> 0 \<and> b \<le> MAX_HWM_FLOOR_BPS"
  by (simp add: validate_hwm_floor_bps_def not_less)

lemma timelock_window_elapsed_ok:
  "timelock_window_elapsed a w now = Inr b \<longleftrightarrow>
     unat a + unat w < 2 ^ 64 \<and> b = (unat a + unat w \<le> unat now)"
proof -
  have "unat e = unat a + unat w \<longleftrightarrow> e = a + w \<and> unat a + unat w < 2 ^ 64" for e
    using checked_add_eq_Some [of a w e] by (auto simp: checked_add_def split: if_splits)
  then show ?thesis
    by (auto simp: timelock_window_elapsed_def rust_arith word_le_nat_alt unat_word_ariths)
qed

lemma owner_ok [simp]:
  "validate_account_owner ai k L = Inr u \<longleftrightarrow> acc_owner (L (key ai)) = k"
  by (simp add: validate_account_owner_def account_owner_def)

lemma not_empty_ok [simp]:
  "validate_account_not_empty ai L = Inr u \<longleftrightarrow> acc_data (L (key ai)) \<noteq> []"
  by (simp add: validate_account_not_empty_def data_is_empty_def)

lemma writable_ok [simp]: "validate_account_writable ai = Inr u \<longleftrightarrow> is_writable ai"
  by (simp add: validate_account_writable_def)

lemma verify_token_program_ok [simp]: "verify_token_program ai = Inr u \<longleftrightarrow> key ai = spl_token_id"
  by (simp add: verify_token_program_def)

lemma owned_pool_account_ok [simp]:
  "owned_pool_account pid ai L = Inr u \<longleftrightarrow>
     acc_owner (L (key ai)) = pid \<and> acc_data (L (key ai)) \<noteq> [] \<and> is_writable ai"
  by (simp add: owned_pool_account_def)

lemma present_pool_account_ok [simp]:
  "present_pool_account pid ai L = Inr u \<longleftrightarrow>
     acc_data (L (key ai)) \<noteq> [] \<and> acc_owner (L (key ai)) = pid \<and> is_writable ai"
  by (simp add: present_pool_account_def)

text \<open>
  \<open>pool_at L k p\<close>: the account \<open>k\<close> holds the pool \<open>p\<close>, initialised, with the right
  discriminator and version.
\<close>

definition live_pool :: "StakePool \<Rightarrow> bool" where
  "live_pool p \<longleftrightarrow> is_initialized p = 1 \<and> validate_discriminator p \<and> version p = CURRENT_VERSION"

definition pool_bytes_at :: "ledger \<Rightarrow> pubkey \<Rightarrow> StakePool \<Rightarrow> bool" where
  "pool_bytes_at L k p \<longleftrightarrow>
     STAKE_POOL_SIZE \<le> length (acc_data (L k)) \<and> pool_of_bytes (take STAKE_POOL_SIZE (acc_data (L k))) = p"

lemma open_pool_ok:
  "open_pool ai L = Inr p \<longleftrightarrow> pool_bytes_at L (key ai) p \<and> live_pool p"
  by (auto simp: open_pool_def try_borrow_data_def pool_from_data_eq validate_pool_version_def
      pool_bytes_at_def live_pool_def not_less)

lemma open_pool_as_admin_ok:
  "open_pool_as_admin pid a ai L = Inr p \<longleftrightarrow>
     is_signer a \<and> acc_owner (L (key ai)) = pid \<and> acc_data (L (key ai)) \<noteq> [] \<and> is_writable ai
     \<and> pool_bytes_at L (key ai) p \<and> live_pool p \<and> admin p = key a"
  by (auto simp: open_pool_as_admin_def open_pool_ok)

lemma pool_bytes_at_unique: "pool_bytes_at L k p \<Longrightarrow> pool_bytes_at L k q \<Longrightarrow> p = q"
  by (simp add: pool_bytes_at_def)

lemma pool_bytes_nonempty: "pool_bytes_at L k p \<Longrightarrow> acc_data (L k) \<noteq> []"
  by (auto simp: pool_bytes_at_def STAKE_POOL_SIZE_def)

lemma take_patch_front: "length ys = n \<Longrightarrow> take n (patch 0 ys xs) = ys"
  by (simp add: patch_def)

lemma pool_of_bytes_of_pool [simp]: "pool_of_bytes (bytes_of_pool p) = p"
  using pool_layout.dec_enc [of p "[]"] by simp

lemma write_pool_at:
  assumes "STAKE_POOL_SIZE \<le> length (acc_data (L (key ai)))"
  shows "pool_bytes_at (write_pool ai p L) (key ai) p"
  using assms
  by (simp add: pool_bytes_at_def write_pool_def take_patch_front pool_layout.enc_length length_patch)

lemma write_pool_other [simp]: "k \<noteq> key ai \<Longrightarrow> write_pool ai p L k = L k"
  by (simp add: write_pool_def)

lemma write_pool_owner [simp]: "acc_owner (write_pool ai p L k) = acc_owner (L k)"
  by (simp add: write_pool_def)

lemma write_deposit_other [simp]: "k \<noteq> key ai \<Longrightarrow> write_deposit ai r L k = L k"
  by (simp add: write_deposit_def)

lemma write_deposit_owner [simp]: "acc_owner (write_deposit ai r L k) = acc_owner (L k)"
  by (simp add: write_deposit_def)

end
