(* ===== verification/Instruction.thy ===== *)
theory Instruction
  imports State
begin

text \<open>
  Wire format of the instructions (\<open>src/instruction.rs\<close>): the enumeration, and
  \<open>unpack\<close> from the instruction data.  \<open>pack\<close> is the reference encoder: the tag byte of
  the source's documentation followed by the little-endian arguments.
\<close>

datatype StakeInstruction =
    InitPool u64 u64
  | Deposit u64
  | Withdraw u64
  | FlushToInsurance u64
  | BindInsuranceAuthority
  | RotateInsuranceAuthority
  | BurnAssetAdmin
  | RotateInsuranceOperator
  | RecoverFlushedInsurance u64
  | UpdateConfig "u64 option" "u64 option"
  | ProposeAdmin pubkey
  | AcceptAdmin
  | ProposeCooldownIncrease u64
  | CommitCooldownIncrease
  | CancelCooldownIncrease
  | ReturnInsurance u64
  | AccrueFees
  | InitTradingPool u64 u64
  | AdminSetHwmConfig bool u16
  | AdminSetTrancheConfig u16
  | DepositJunior u64
  | SetMarketResolved
  | AdminResolveMarket
  | AdminUpdateFeeSplit u16 u16 u16
  | AdminUpdateMaintenanceFeePerSlot u128
  | AdminUpdateBackingFeePolicy u16 u16 u16
  | AdminUpdateTradeFeePolicy u64

section \<open>Decoding\<close>

text \<open>
  An arm of the \<open>match\<close>: the length of the payload must be exact, then the arguments are
  read at their offsets.  Each \<open>rest[i..j]\<close> and \<open>rest[i]\<close> panics out of range, so it is the
  length test that keeps the decoder from aborting; the conversion of a slice of constant
  length into an array of that length cannot fail.
\<close>

definition arm :: "u8 list \<Rightarrow> nat \<Rightarrow> StakeInstruction result \<Rightarrow> StakeInstruction result" where
  "arm rest n body = require (length rest = n) InvalidInstructionData body"

definition le_arg :: "u8 list \<Rightarrow> nat \<Rightarrow> nat \<Rightarrow> 'a::len word result" where
  "le_arg rest i j = bind_err (slice_at i j rest) (\<lambda>b. Inr (from_le_bytes b))"

definition flag_arg :: "u8 list \<Rightarrow> nat \<Rightarrow> bool result" where
  "flag_arg rest i = bind_err (index_at i rest) (\<lambda>b. Inr (b \<noteq> 0))"

text \<open>The payloads that occur more than once: one 64-bit amount, two of them, three 16-bit numbers.\<close>

definition one_u64 :: "u8 list \<Rightarrow> (u64 \<Rightarrow> StakeInstruction) \<Rightarrow> StakeInstruction result" where
  "one_u64 rest ins = arm rest 8 (bind_err (le_arg rest 0 8) (\<lambda>x. Inr (ins x)))"

definition two_u64 :: "u8 list \<Rightarrow> (u64 \<Rightarrow> u64 \<Rightarrow> StakeInstruction) \<Rightarrow> StakeInstruction result" where
  "two_u64 rest ins =
     arm rest 16 (bind_err (le_arg rest 0 8) (\<lambda>x. bind_err (le_arg rest 8 16) (\<lambda>y. Inr (ins x y))))"

definition three_u16 :: "u8 list \<Rightarrow> (u16 \<Rightarrow> u16 \<Rightarrow> u16 \<Rightarrow> StakeInstruction) \<Rightarrow> StakeInstruction result" where
  "three_u16 rest ins =
     arm rest 6 (bind_err (le_arg rest 0 2) (\<lambda>x. bind_err (le_arg rest 2 4) (\<lambda>y.
       bind_err (le_arg rest 4 6) (\<lambda>z. Inr (ins x y z)))))"

text \<open>Tags 24 to 28, and the catch-all arm.\<close>

definition unpack_proxies :: "u8 \<Rightarrow> u8 list \<Rightarrow> StakeInstruction result" where
  "unpack_proxies tag rest =
     (if tag = 24 then arm rest 0 (Inr AdminResolveMarket)
      else if tag = 25 then three_u16 rest AdminUpdateFeeSplit
      else if tag = 26 then
        arm rest 16 (bind_err (le_arg rest 0 16) (\<lambda>x. Inr (AdminUpdateMaintenanceFeePerSlot x)))
      else if tag = 27 then three_u16 rest AdminUpdateBackingFeePolicy
      else if tag = 28 then one_u64 rest AdminUpdateTradeFeePolicy
      else Inl InvalidInstructionData)"

text \<open>Tags 19 to 23, 10, 12 to 16 and 18.\<close>

definition unpack_insurance :: "u8 \<Rightarrow> u8 list \<Rightarrow> StakeInstruction result" where
  "unpack_insurance tag rest =
     (if tag = 19 then arm rest 0 (Inr BindInsuranceAuthority)
      else if tag = 20 then arm rest 0 (Inr RotateInsuranceAuthority)
      else if tag = 21 then arm rest 0 (Inr BurnAssetAdmin)
      else if tag = 22 then arm rest 0 (Inr RotateInsuranceOperator)
      else if tag = 23 then one_u64 rest RecoverFlushedInsurance
      else if tag = 10 then one_u64 rest ReturnInsurance
      else if tag = 12 then arm rest 0 (Inr AccrueFees)
      else if tag = 13 then two_u64 rest InitTradingPool
      else if tag = 14 then
        arm rest 3 (bind_err (flag_arg rest 0) (\<lambda>enabled. bind_err (le_arg rest 1 3) (\<lambda>bps.
          Inr (AdminSetHwmConfig enabled bps))))
      else if tag = 15 then arm rest 2 (bind_err (le_arg rest 0 2) (\<lambda>m. Inr (AdminSetTrancheConfig m)))
      else if tag = 16 then one_u64 rest DepositJunior
      else if tag = 18 then arm rest 0 (Inr SetMarketResolved)
      else unpack_proxies tag rest)"

text \<open>The whole \<open>match\<close>: tags 0 to 9 first, in the order of the source.\<close>

definition unpack :: "u8 list \<Rightarrow> StakeInstruction result" where
  "unpack data =
     (case data of
        [] \<Rightarrow> Inl InvalidInstructionData
      | tag # rest \<Rightarrow>
          if tag = 0 then two_u64 rest InitPool
          else if tag = 1 then one_u64 rest Deposit
          else if tag = 2 then one_u64 rest Withdraw
          else if tag = 3 then one_u64 rest FlushToInsurance
          else if tag = 4 then
            arm rest 18 (bind_err (flag_arg rest 0) (\<lambda>has_cooldown. bind_err (le_arg rest 1 9) (\<lambda>cooldown.
              bind_err (flag_arg rest 9) (\<lambda>has_cap. bind_err (le_arg rest 10 18) (\<lambda>cap.
              Inr (UpdateConfig (if has_cooldown then Some cooldown else None)
                     (if has_cap then Some cap else None)))))))
          else if tag = 5 then
            arm rest 32 (bind_err (slice_at 0 32 rest) (\<lambda>new_admin. Inr (ProposeAdmin (array_of new_admin))))
          else if tag = 6 then arm rest 0 (Inr AcceptAdmin)
          else if tag = 7 then one_u64 rest ProposeCooldownIncrease
          else if tag = 8 then arm rest 0 (Inr CommitCooldownIncrease)
          else if tag = 9 then arm rest 0 (Inr CancelCooldownIncrease)
          else unpack_insurance tag rest)"

section \<open>Reference encoder\<close>

definition opt_arg :: "u64 option \<Rightarrow> u8 list" where
  "opt_arg x = (case x of None \<Rightarrow> 0 # to_le_bytes (0 :: u64) | Some v \<Rightarrow> 1 # to_le_bytes v)"

fun pack :: "StakeInstruction \<Rightarrow> u8 list" where
  "pack (InitPool c d) = 0 # to_le_bytes c @ to_le_bytes d"
| "pack (Deposit a) = 1 # to_le_bytes a"
| "pack (Withdraw l) = 2 # to_le_bytes l"
| "pack (FlushToInsurance a) = 3 # to_le_bytes a"
| "pack (UpdateConfig c d) = 4 # opt_arg c @ opt_arg d"
| "pack (ProposeAdmin k) = 5 # list_of_bytes k"
| "pack AcceptAdmin = [6]"
| "pack (ProposeCooldownIncrease s) = 7 # to_le_bytes s"
| "pack CommitCooldownIncrease = [8]"
| "pack CancelCooldownIncrease = [9]"
| "pack (ReturnInsurance a) = 10 # to_le_bytes a"
| "pack AccrueFees = [12]"
| "pack (InitTradingPool c d) = 13 # to_le_bytes c @ to_le_bytes d"
| "pack (AdminSetHwmConfig b f) = 14 # (if b then 1 else 0) # to_le_bytes f"
| "pack (AdminSetTrancheConfig m) = 15 # to_le_bytes m"
| "pack (DepositJunior a) = 16 # to_le_bytes a"
| "pack SetMarketResolved = [18]"
| "pack BindInsuranceAuthority = [19]"
| "pack RotateInsuranceAuthority = [20]"
| "pack BurnAssetAdmin = [21]"
| "pack RotateInsuranceOperator = [22]"
| "pack (RecoverFlushedInsurance a) = 23 # to_le_bytes a"
| "pack AdminResolveMarket = [24]"
| "pack (AdminUpdateFeeSplit a b c) = 25 # to_le_bytes a @ to_le_bytes b @ to_le_bytes c"
| "pack (AdminUpdateMaintenanceFeePerSlot f) = 26 # to_le_bytes f"
| "pack (AdminUpdateBackingFeePolicy a b c) = 27 # to_le_bytes a @ to_le_bytes b @ to_le_bytes c"
| "pack (AdminUpdateTradeFeePolicy t) = 28 # to_le_bytes t"

text \<open>The payload length each tag demands; tags the program does not know have none.\<close>

definition payload_length :: "u8 \<Rightarrow> nat option" where
  "payload_length tag =
     (if tag \<in> {0, 13, 26} then Some 16
      else if tag \<in> {1, 2, 3, 7, 10, 16, 23, 28} then Some 8
      else if tag = 4 then Some 18
      else if tag = 5 then Some 32
      else if tag = 14 then Some 3
      else if tag = 15 then Some 2
      else if tag \<in> {25, 27} then Some 6
      else if tag \<in> {6, 8, 9, 12, 18, 19, 20, 21, 22, 24} then Some 0
      else None)"

lemmas unpack_defs =
  unpack_def unpack_insurance_def unpack_proxies_def one_u64_def two_u64_def three_u16_def arm_def le_arg_def flag_arg_def

lemma opt_arg_length [simp]: "length (opt_arg x) = 9"
  by (simp add: opt_arg_def split: option.split)

lemma unpack_pack: "unpack (pack i) = Inr i"
  by (cases i) (simp_all add: unpack_defs slice_def opt_arg_def nth_append split: option.split)

lemma unpack_total:
  "(\<exists>i. unpack data = Inr i) \<longleftrightarrow>
     (\<exists>tag rest. data = tag # rest \<and> payload_length tag = Some (length rest))"
proof (cases data)
  case Nil
  then show ?thesis by (simp add: unpack_def)
next
  case (Cons tag rest)
  show ?thesis
    unfolding Cons unpack_defs payload_length_def list.case require_def
    by (auto split: if_splits)
qed

lemma unpack_error: "unpack data = Inl e \<Longrightarrow> e = InvalidInstructionData"
  unfolding unpack_defs require_def by (auto split: list.splits if_splits)

end
