(* ===== verification/Layout.thy ===== *)
theory Layout
  imports Guards Instruction
begin

text \<open>
  What the byte-level code guarantees: account images and instruction data are read back as
  written, features that share the pool's reserved bytes do not overlap, the derived balances
  are exact, and the calls into the wrapper have the advertised wire format.
\<close>

text \<open>
  C32 (account images round-trip).  Writing a pool or a deposit record into a buffer of at
  least its size and reading it back gives the same structure; the length and every byte
  behind the image stay as they were.  Every buffer shorter than the structure read from it
  (408 bytes for a pool, 152 for a deposit record) is refused with \<open>InvalidAccount\<close> instead of
  being sliced out of range.
\<close>

theorem account_image_roundtrip:
  assumes "STAKE_POOL_SIZE \<le> length buf" and "STAKE_DEPOSIT_SIZE \<le> length dbuf"
    and "length sp < STAKE_POOL_SIZE" and "length sd < STAKE_DEPOSIT_SIZE"
  shows "pool_from_data (patch 0 (bytes_of_pool p) buf) = Inr p
    \<and> deposit_from_data (patch 0 (bytes_of_deposit r) dbuf) = Inr r
    \<and> length (patch 0 (bytes_of_pool p) buf) = length buf
    \<and> drop STAKE_POOL_SIZE (patch 0 (bytes_of_pool p) buf) = drop STAKE_POOL_SIZE buf
    \<and> length (patch 0 (bytes_of_deposit r) dbuf) = length dbuf
    \<and> drop STAKE_DEPOSIT_SIZE (patch 0 (bytes_of_deposit r) dbuf) = drop STAKE_DEPOSIT_SIZE dbuf
    \<and> pool_from_data sp = Inl (stake_err InvalidAccount)
    \<and> deposit_from_data sd = Inl (stake_err InvalidAccount)"
proof -
  have "deposit_of_bytes (bytes_of_deposit r) = r"
    using deposit_layout.dec_enc [of r "[]"] by simp
  then show ?thesis
    using assms
    by (simp add: pool_from_data_eq deposit_from_data_eq patch_def pool_layout.enc_length
        deposit_layout.enc_length STAKE_POOL_SIZE_def STAKE_DEPOSIT_SIZE_def)
qed

theorem account_image_roundtrip_witness:
  "pool_from_data (patch 0 (bytes_of_pool (pool_of_bytes [])) (replicate 408 7)) = Inr (pool_of_bytes [])
   \<and> deposit_from_data (patch 0 (bytes_of_deposit (deposit_of_bytes [])) (replicate 152 7)) = Inr (deposit_of_bytes [])
   \<and> pool_from_data (replicate 407 7) = Inl (stake_err InvalidAccount)
   \<and> deposit_from_data (replicate 151 7) = Inl (stake_err InvalidAccount)"
  using account_image_roundtrip [of "replicate 408 7" "replicate 152 7" "replicate 407 7" "replicate 151 7"
      "pool_of_bytes []" "deposit_of_bytes []"]
  by (simp add: STAKE_POOL_SIZE_def STAKE_DEPOSIT_SIZE_def)

text \<open>
  C33 (the reserved bytes implement independent fields).  Every setter that writes into the
  pool's 64 reserved bytes is a single field update of the record of the values those bytes
  hold: no feature overwrites another one's bytes, nor the discriminator or the version.
\<close>

theorem reserved_bytes_refine_record:
  "view_reserved (set_market_resolved b p) = (view_reserved p)\<lparr>rv_market_resolved := b\<rparr>
   \<and> view_reserved (set_hwm_enabled b p) = (view_reserved p)\<lparr>rv_hwm_enabled := b\<rparr>
   \<and> view_reserved (set_hwm_floor_bps w p) = (view_reserved p)\<lparr>rv_hwm_floor_bps := w\<rparr>
   \<and> view_reserved (set_epoch_high_water_tvl v p) = (view_reserved p)\<lparr>rv_epoch_high_water_tvl := v\<rparr>
   \<and> view_reserved (set_hwm_last_epoch v p) = (view_reserved p)\<lparr>rv_hwm_last_epoch := v\<rparr>
   \<and> view_reserved (set_tranche_enabled b p) = (view_reserved p)\<lparr>rv_tranche_enabled := b\<rparr>
   \<and> view_reserved (set_junior_balance v p) = (view_reserved p)\<lparr>rv_junior_balance := v\<rparr>
   \<and> view_reserved (set_junior_total_lp v p) = (view_reserved p)\<lparr>rv_junior_total_lp := v\<rparr>
   \<and> view_reserved (set_junior_fee_mult_bps w p) = (view_reserved p)\<lparr>rv_junior_fee_mult_bps := w\<rparr>
   \<and> view_reserved (set_realized_junior_loss v p) = (view_reserved p)\<lparr>rv_realized_junior_loss := v\<rparr>
   \<and> view_reserved (set_asset_admin_burned b p) = (view_reserved p)\<lparr>rv_asset_admin_burned := b\<rparr>
   \<and> view_reserved (set_discriminator p) = (view_reserved p)\<lparr>rv_version := CURRENT_VERSION, rv_discriminator_ok := True\<rparr>"
proof -
  have "view_reserved (set_discriminator p)
      = (view_reserved p)\<lparr>rv_version := CURRENT_VERSION, rv_discriminator_ok := True\<rparr>"
    by (simp add: view_reserved_def slot_defs discriminator_defs Let_def)
  then show ?thesis by (simp only: view_reserved_setters simp_thms)
qed

text \<open>
  \<open>total_pool_value\<close> is the exact signed sum of the six counters when it
  fits 64 bits and \<open>None\<close> otherwise; the intermediate sum stays far inside the range of
  \<open>i128\<close>, so no order of the terms can under- or overflow.
\<close>

lemma pool_value_exact:
  "total_pool_value p =
     (if 0 \<le> pool_value_int p \<and> pool_value_int p < 2 ^ 64
      then Some (word_of_int (pool_value_int p)) else None)
   \<and> (\<forall>v. total_pool_value p = Some v \<longleftrightarrow> pool_value_int p = uint v)
   \<and> \<bar>pool_value_int p\<bar> < 2 ^ 67"
  using total_pool_value_eq_Some [of p] pool_value_int_bound [of p]
  by (auto simp: total_pool_value_def Let_def uint_U64_MAX)

text \<open>
  The tranches partition the pool.  The junior tranche's effective balance is its raw
  balance less the outstanding insurance loss, floored at zero, and where the senior balance
  exists the two add up to the pool value exactly.
\<close>

lemma tranches_partition_pool:
  "unat (effective_junior_balance p) = unat (junior_balance p) - (unat (total_flushed p) - unat (total_returned p))
   \<and> (\<forall>s. senior_balance p = Some s \<longleftrightarrow>
         (\<exists>v. total_pool_value p = Some v \<and> unat v = unat s + unat (effective_junior_balance p)))"
  using unat_effective_junior_balance [of p]
  by (auto simp: net_loss_def senior_balance_def checked_sub_eq_Some)

text \<open>
  C34 (instruction data).  \<open>unpack\<close> inverts the reference encoding of every instruction; it
  accepts exactly a known tag followed by a payload of that tag's length, so truncated and
  trailing bytes and the retired tags are refused, always with \<open>InvalidInstructionData\<close>.
\<close>

theorem unpack_exact:
  "unpack (pack i) = Inr i
   \<and> ((\<exists>j. unpack data = Inr j) \<longleftrightarrow>
        (\<exists>tag rest. data = tag # rest \<and> payload_length tag = Some (length rest)))
   \<and> (\<forall>e. unpack data = Inl e \<longrightarrow> e = InvalidInstructionData)
   \<and> unpack (11 # rest) = Inl InvalidInstructionData \<and> unpack (17 # rest) = Inl InvalidInstructionData"
proof -
  have "unpack (11 # rest) = Inl InvalidInstructionData" "unpack (17 # rest) = Inl InvalidInstructionData"
    by (simp_all add: unpack_defs)
  then show ?thesis
    using unpack_pack [of i] unpack_total [of data] unpack_error [of data] by blast
qed

theorem unpack_exact_witness:
  "unpack (pack (AdminUpdateFeeSplit 1000 7000 2000)) = Inr (AdminUpdateFeeSplit 1000 7000 2000)"
  using unpack_exact [of "AdminUpdateFeeSplit 1000 7000 2000" "[]" "[]"] by blast

text \<open>
  The wire format of the wrapper calls.  The insurance payloads carry the 64-bit amount
  widened to 128 bits (17 and 19 bytes), every authority update is 36 bytes for asset 0 with
  its kind byte, and the market is the only writable account of an authority call.
\<close>

lemma wrapper_wire_format:
  "length (ix_data (top_up_insurance_ix c s m a w t amt)) = 17
   \<and> hd (ix_data (top_up_insurance_ix c s m a w t amt)) = 9
   \<and> (from_le_bytes (tl (ix_data (top_up_insurance_ix c s m a w t amt))) :: u128) = ucast amt
   \<and> length (ix_data (withdraw_insurance_asset_ix c s m d w v t amt)) = 19
   \<and> (from_le_bytes (drop 3 (ix_data (withdraw_insurance_asset_ix c s m d w v t amt))) :: u128) = ucast amt
   \<and> meta_is_signer (hd (ix_accounts (withdraw_insurance_asset_ix c s m d w v t amt)))
   \<and> length (asset_authority_data kind (list_of_bytes k)) = 36
   \<and> take 4 (asset_authority_data kind (list_of_bytes k)) = [65, 0, 0, kind]
   \<and> drop 4 (asset_authority_data kind (list_of_bytes (k :: pubkey))) = list_of_bytes k
   \<and> length (ix_data (update_authority_ix c s d m)) = 33
   \<and> filter meta_is_writable (ix_accounts (update_authority_ix c s d m)) = [meta_new (key m) False]"
  by (simp add: top_up_insurance_ix_def withdraw_insurance_asset_ix_def asset_authority_data_def
      update_authority_ix_def meta_new_def meta_new_readonly_def TAG_TOP_UP_INSURANCE_def
      TAG_UPDATE_ASSET_AUTHORITY_def ASSET_INDEX_ZERO_def to_le_bytes_def [of "0 :: u16"] numeral_2_eq_2)

end
