(* ===== verification/Admin.thy ===== *)
theory Admin
  imports Guards
begin

text \<open>
  Administration of a pool (\<open>src/processor.rs\<close>): configuration, two-step admin rotation,
  the cooldown timelock, the high-water-mark and the tranche configuration.  Each handler
  is its account checks, a pure transition of the pool (\<open>\<dots>_pool\<close>), and the write-back.
\<close>

section \<open>Transitions of the pool\<close>

definition update_config_pool :: "u64 option \<Rightarrow> u64 option \<Rightarrow> StakePool \<Rightarrow> StakePool result" where
  "update_config_pool new_cooldown_slots new_deposit_cap p =
     bind_err (case new_cooldown_slots of
         None \<Rightarrow> Inr p
       | Some cooldown \<Rightarrow>
           bind_err (validate_cooldown_slots cooldown) (\<lambda>_.
           require (\<not> cooldown > cooldown_slots p) (stake_err CooldownIncreaseRequiresTimelock)
             (Inr (p\<lparr>cooldown_slots := cooldown\<rparr>)))) (\<lambda>p1.
     Inr (case new_deposit_cap of None \<Rightarrow> p1 | Some cap \<Rightarrow> p1\<lparr>deposit_cap := cap\<rparr>))"

definition accept_admin_pool :: "pubkey \<Rightarrow> StakePool \<Rightarrow> StakePool result" where
  "accept_admin_pool signer p =
     require (pending_admin p \<noteq> fill 0) (stake_err NoPendingAdmin) (
     require (pending_admin p = signer) (stake_err Unauthorized)
       (Inr (p\<lparr>admin := pending_admin p, pending_admin := fill 0\<rparr>)))"

definition propose_cooldown_pool :: "u64 \<Rightarrow> u64 \<Rightarrow> StakePool \<Rightarrow> StakePool result" where
  "propose_cooldown_pool new_cooldown_slots now p =
     bind_err (validate_cooldown_slots new_cooldown_slots) (\<lambda>_.
     require (\<not> new_cooldown_slots \<le> cooldown_slots p) (stake_err CooldownIncreaseRequiresTimelock)
       (Inr (set_cooldown_proposed_at_slot now (set_pending_cooldown_slots new_cooldown_slots p))))"

definition commit_cooldown_pool :: "u64 \<Rightarrow> StakePool \<Rightarrow> StakePool result" where
  "commit_cooldown_pool now p =
     (let proposed_at = cooldown_proposed_at_slot p in
      require (proposed_at \<noteq> 0) (stake_err NoPendingCooldownProposal) (
      bind_err (timelock_window_elapsed proposed_at TIMELOCK_SLOTS now) (\<lambda>elapsed.
      require elapsed (stake_err TimelockNotElapsed) (
      let pending = pending_cooldown_slots p in
      bind_err (validate_cooldown_slots pending) (\<lambda>_.
      Inr (set_cooldown_proposed_at_slot 0 (set_pending_cooldown_slots 0
             (p\<lparr>cooldown_slots := pending\<rparr>))))))))"

definition cancel_cooldown_pool :: "StakePool \<Rightarrow> StakePool result" where
  "cancel_cooldown_pool p =
     require (cooldown_proposed_at_slot p \<noteq> 0) (stake_err NoPendingCooldownProposal)
       (Inr (set_cooldown_proposed_at_slot 0 (set_pending_cooldown_slots 0 p)))"

definition apply_hwm_config :: "bool \<Rightarrow> u16 \<Rightarrow> StakePool \<Rightarrow> StakePool" where
  "apply_hwm_config enabled bps p =
     (let p1 = set_hwm_enabled enabled p in if enabled then set_hwm_floor_bps bps p1 else p1)"

definition set_tranche_config_pool :: "u16 \<Rightarrow> StakePool \<Rightarrow> StakePool result" where
  "set_tranche_config_pool mult p =
     require (10000 \<le> mult \<and> mult \<le> 50000) InvalidArgument (
     require (\<not> (junior_total_lp p > 0 \<and> junior_fee_mult_bps p \<noteq> mult)) (stake_err Unauthorized)
       (Inr (set_junior_fee_mult_bps mult (set_tranche_enabled True p))))"

section \<open>Handlers\<close>

definition process_update_config ::
  "pubkey \<Rightarrow> AccountInfo list \<Rightarrow> u64 option \<Rightarrow> u64 option \<Rightarrow> ledger \<Rightarrow> ledger result" where
  "process_update_config program_id accounts new_cooldown_slots new_deposit_cap L =
     require (2 \<le> length accounts) NotEnoughAccountKeys (
     let admin_ai = accounts ! 0; pool_ai = accounts ! 1 in
     bind_err (open_pool_as_admin program_id admin_ai pool_ai L) (\<lambda>p.
     bind_err (update_config_pool new_cooldown_slots new_deposit_cap p) (\<lambda>p'.
     Inr (write_pool pool_ai p' L))))"

definition process_propose_admin ::
  "pubkey \<Rightarrow> AccountInfo list \<Rightarrow> pubkey \<Rightarrow> ledger \<Rightarrow> ledger result" where
  "process_propose_admin program_id accounts new_admin L =
     require (2 \<le> length accounts) NotEnoughAccountKeys (
     let admin_ai = accounts ! 0; pool_ai = accounts ! 1 in
     bind_err (open_pool_as_admin program_id admin_ai pool_ai L) (\<lambda>p.
     Inr (write_pool pool_ai (p\<lparr>pending_admin := new_admin\<rparr>) L)))"

definition process_accept_admin :: "pubkey \<Rightarrow> AccountInfo list \<Rightarrow> ledger \<Rightarrow> ledger result" where
  "process_accept_admin program_id accounts L =
     require (2 \<le> length accounts) NotEnoughAccountKeys (
     let new_admin_ai = accounts ! 0; pool_ai = accounts ! 1 in
     require (is_signer new_admin_ai) MissingRequiredSignature (
     bind_err (owned_pool_account program_id pool_ai L) (\<lambda>_.
     bind_err (open_pool pool_ai L) (\<lambda>p.
     bind_err (accept_admin_pool (key new_admin_ai) p) (\<lambda>p'.
     Inr (write_pool pool_ai p' L))))))"

definition process_propose_cooldown_increase ::
  "env \<Rightarrow> pubkey \<Rightarrow> AccountInfo list \<Rightarrow> u64 \<Rightarrow> ledger \<Rightarrow> ledger result" where
  "process_propose_cooldown_increase E program_id accounts new_cooldown_slots L =
     require (3 \<le> length accounts) NotEnoughAccountKeys (
     let admin_ai = accounts ! 0; pool_ai = accounts ! 1; clock_ai = accounts ! 2 in
     require (is_signer admin_ai) MissingRequiredSignature (
     bind_err (owned_pool_account program_id pool_ai L) (\<lambda>_.
     bind_err (clock_from_account_info E clock_ai L) (\<lambda>clock.
     bind_err (open_pool pool_ai L) (\<lambda>p.
     require (admin p = key admin_ai) (stake_err Unauthorized) (
     bind_err (propose_cooldown_pool new_cooldown_slots (slot clock) p) (\<lambda>p'.
     Inr (write_pool pool_ai p' L))))))))"

definition process_commit_cooldown_increase ::
  "env \<Rightarrow> pubkey \<Rightarrow> AccountInfo list \<Rightarrow> ledger \<Rightarrow> ledger result" where
  "process_commit_cooldown_increase E program_id accounts L =
     require (3 \<le> length accounts) NotEnoughAccountKeys (
     let admin_ai = accounts ! 0; pool_ai = accounts ! 1; clock_ai = accounts ! 2 in
     require (is_signer admin_ai) MissingRequiredSignature (
     bind_err (owned_pool_account program_id pool_ai L) (\<lambda>_.
     bind_err (clock_from_account_info E clock_ai L) (\<lambda>clock.
     bind_err (open_pool pool_ai L) (\<lambda>p.
     require (admin p = key admin_ai) (stake_err Unauthorized) (
     bind_err (commit_cooldown_pool (slot clock) p) (\<lambda>p'.
     Inr (write_pool pool_ai p' L))))))))"

definition process_cancel_cooldown_increase ::
  "pubkey \<Rightarrow> AccountInfo list \<Rightarrow> ledger \<Rightarrow> ledger result" where
  "process_cancel_cooldown_increase program_id accounts L =
     require (2 \<le> length accounts) NotEnoughAccountKeys (
     let admin_ai = accounts ! 0; pool_ai = accounts ! 1 in
     bind_err (open_pool_as_admin program_id admin_ai pool_ai L) (\<lambda>p.
     bind_err (cancel_cooldown_pool p) (\<lambda>p'.
     Inr (write_pool pool_ai p' L))))"

definition process_admin_set_hwm_config ::
  "pubkey \<Rightarrow> AccountInfo list \<Rightarrow> bool \<Rightarrow> u16 \<Rightarrow> ledger \<Rightarrow> ledger result" where
  "process_admin_set_hwm_config program_id accounts enabled bps L =
     require (2 \<le> length accounts) NotEnoughAccountKeys (
     let admin_ai = accounts ! 0; pool_ai = accounts ! 1 in
     bind_err (open_pool_as_admin program_id admin_ai pool_ai L) (\<lambda>p.
     bind_err (if enabled then validate_hwm_floor_bps bps else Inr ()) (\<lambda>_.
     Inr (write_pool pool_ai (apply_hwm_config enabled bps p) L))))"

definition process_admin_set_tranche_config ::
  "pubkey \<Rightarrow> AccountInfo list \<Rightarrow> u16 \<Rightarrow> ledger \<Rightarrow> ledger result" where
  "process_admin_set_tranche_config program_id accounts mult L =
     require (2 \<le> length accounts) NotEnoughAccountKeys (
     let admin_ai = accounts ! 0; pool_ai = accounts ! 1 in
     bind_err (open_pool_as_admin program_id admin_ai pool_ai L) (\<lambda>p.
     bind_err (set_tranche_config_pool mult p) (\<lambda>p'.
     Inr (write_pool pool_ai p' L))))"

end
