(* ===== verification/Authorities.thy ===== *)
theory Authorities
  imports Guards
begin

text \<open>
  The handlers that sign for the pool's authorities towards the wrapper
  (\<open>src/processor.rs\<close>): binding and rotating the insurance authority and operator,
  burning the asset admin, and the fee-policy proxies.
\<close>

text \<open>
  The read-only prologue these handlers share: the pool opens under its admin (the borrow
  is released before the call into the wrapper).
\<close>

definition read_pool_as_admin :: "pubkey \<Rightarrow> AccountInfo \<Rightarrow> AccountInfo \<Rightarrow> ledger \<Rightarrow> StakePool result" where
  "read_pool_as_admin program_id admin_ai pool_ai L =
     bind_err (validate_account_owner pool_ai program_id L) (\<lambda>_.
     bind_err (validate_account_not_empty pool_ai L) (\<lambda>_.
     bind_err (open_pool pool_ai L) (\<lambda>p.
     require (admin p = key admin_ai) (stake_err Unauthorized) (Inr p))))"

text \<open>The market and the wrapper program must be the pool's own.\<close>

definition check_market :: "StakePool \<Rightarrow> AccountInfo \<Rightarrow> AccountInfo \<Rightarrow> unit result" where
  "check_market p slab_ai perc_ai =
     require (slab p = key slab_ai) (stake_err InvalidPda) (
     require (percolator_program p = key perc_ai) (stake_err InvalidPercolatorProgram) (Inr ()))"

definition check_vault_auth :: "env \<Rightarrow> pubkey \<Rightarrow> AccountInfo \<Rightarrow> AccountInfo \<Rightarrow> u8 result" where
  "check_vault_auth E program_id pool_ai vault_auth_ai =
     (let (expected_vault_auth, vault_auth_bump) =
            derive_vault_authority (find_program_address E) program_id (key pool_ai)
      in require (key vault_auth_ai = expected_vault_auth) (stake_err InvalidPda) (Inr vault_auth_bump))"

definition process_bind_insurance_authority ::
  "env \<Rightarrow> pubkey \<Rightarrow> AccountInfo list \<Rightarrow> ledger \<Rightarrow> ledger result" where
  "process_bind_insurance_authority E program_id accounts L =
     require (5 \<le> length accounts) NotEnoughAccountKeys (
     let admin_ai = accounts ! 0; pool_ai = accounts ! 1; vault_auth_ai = accounts ! 2;
         slab_ai = accounts ! 3; perc_ai = accounts ! 4 in
     require (is_signer admin_ai) MissingRequiredSignature (
     bind_err (read_pool_as_admin program_id admin_ai pool_ai L) (\<lambda>p.
     bind_err (check_market p slab_ai perc_ai) (\<lambda>_.
     bind_err (check_vault_auth E program_id pool_ai vault_auth_ai) (\<lambda>b.
     bind_err (cpi_bind_insurance_authority E [] perc_ai admin_ai vault_auth_ai slab_ai
                 (vault_auth_seeds pool_ai b) L) (\<lambda>L1.
     cpi_bind_insurance_operator E [] perc_ai admin_ai vault_auth_ai slab_ai
       (vault_auth_seeds pool_ai b) L1))))))"

definition process_burn_asset_admin ::
  "env \<Rightarrow> pubkey \<Rightarrow> AccountInfo list \<Rightarrow> ledger \<Rightarrow> ledger result" where
  "process_burn_asset_admin E program_id accounts L =
     require (5 \<le> length accounts) NotEnoughAccountKeys (
     let admin_ai = accounts ! 0; pool_ai = accounts ! 1; vault_auth_ai = accounts ! 2;
         slab_ai = accounts ! 3; perc_ai = accounts ! 4 in
     require (is_signer admin_ai) MissingRequiredSignature (
     bind_err (validate_account_writable pool_ai) (\<lambda>_.
     bind_err (read_pool_as_admin program_id admin_ai pool_ai L) (\<lambda>p.
     require (\<not> asset_admin_burned p) (stake_err Unauthorized) (
     bind_err (check_market p slab_ai perc_ai) (\<lambda>_.
     bind_err (check_vault_auth E program_id pool_ai vault_auth_ai) (\<lambda>_.
     bind_err (cpi_burn_asset_admin E [] perc_ai admin_ai vault_auth_ai slab_ai L) (\<lambda>L1.
     bind_err (try_borrow_data [] pool_ai L1) (\<lambda>d.
     require (STAKE_POOL_SIZE \<le> length d) Panic
       (Inr (write_pool pool_ai
               (set_asset_admin_burned True (pool_of_bytes (take STAKE_POOL_SIZE d))) L1)))))))))))"

definition process_rotate_insurance_operator ::
  "env \<Rightarrow> pubkey \<Rightarrow> AccountInfo list \<Rightarrow> ledger \<Rightarrow> ledger result" where
  "process_rotate_insurance_operator E program_id accounts L =
     require (6 \<le> length accounts) NotEnoughAccountKeys (
     let admin_ai = accounts ! 0; pool_ai = accounts ! 1; vault_auth_ai = accounts ! 2;
         target_ai = accounts ! 3; slab_ai = accounts ! 4; perc_ai = accounts ! 5 in
     require (is_signer admin_ai) MissingRequiredSignature (
     require (is_signer target_ai) MissingRequiredSignature (
     bind_err (read_pool_as_admin program_id admin_ai pool_ai L) (\<lambda>p.
     require (\<not> asset_admin_burned p) (stake_err Unauthorized) (
     bind_err (check_market p slab_ai perc_ai) (\<lambda>_.
     bind_err (check_vault_auth E program_id pool_ai vault_auth_ai) (\<lambda>b.
     cpi_rotate_insurance_operator E [] perc_ai vault_auth_ai target_ai slab_ai
       (vault_auth_seeds pool_ai b) L)))))))"

definition process_rotate_insurance_authority ::
  "env \<Rightarrow> pubkey \<Rightarrow> AccountInfo list \<Rightarrow> ledger \<Rightarrow> ledger result" where
  "process_rotate_insurance_authority E program_id accounts L =
     require (6 \<le> length accounts) NotEnoughAccountKeys (
     let admin_ai = accounts ! 0; pool_ai = accounts ! 1; vault_auth_ai = accounts ! 2;
         target_ai = accounts ! 3; slab_ai = accounts ! 4; perc_ai = accounts ! 5 in
     require (is_signer admin_ai) MissingRequiredSignature (
     require (is_signer target_ai) MissingRequiredSignature (
     bind_err (read_pool_as_admin program_id admin_ai pool_ai L) (\<lambda>p.
     require (\<not> asset_admin_burned p) (stake_err Unauthorized) (
     bind_err (check_market p slab_ai perc_ai) (\<lambda>_.
     bind_err (check_vault_auth E program_id pool_ai vault_auth_ai) (\<lambda>b.
     cpi_rotate_insurance_authority E [] perc_ai vault_auth_ai target_ai slab_ai
       (vault_auth_seeds pool_ai b) L)))))))"

section \<open>Fee-policy proxies\<close>

definition validate_group_a_proxy ::
  "pubkey \<Rightarrow> AccountInfo \<Rightarrow> AccountInfo \<Rightarrow> AccountInfo \<Rightarrow> AccountInfo \<Rightarrow> ledger \<Rightarrow> u8 result" where
  "validate_group_a_proxy program_id admin_ai pool_ai slab_ai perc_ai L =
     require (is_signer admin_ai) MissingRequiredSignature (
     bind_err (read_pool_as_admin program_id admin_ai pool_ai L) (\<lambda>p.
     bind_err (check_market p slab_ai perc_ai) (\<lambda>_.
     Inr (bump p))))"

definition validate_group_b_proxy ::
  "env \<Rightarrow> pubkey \<Rightarrow> AccountInfo \<Rightarrow> AccountInfo \<Rightarrow> AccountInfo \<Rightarrow> AccountInfo \<Rightarrow> AccountInfo \<Rightarrow> ledger \<Rightarrow> u8 result" where
  "validate_group_b_proxy E program_id admin_ai pool_ai vault_auth_ai slab_ai perc_ai L =
     bind_err (validate_group_a_proxy program_id admin_ai pool_ai slab_ai perc_ai L) (\<lambda>_.
     check_vault_auth E program_id pool_ai vault_auth_ai)"

definition process_admin_update_fee_split ::
  "env \<Rightarrow> pubkey \<Rightarrow> AccountInfo list \<Rightarrow> u16 \<Rightarrow> u16 \<Rightarrow> u16 \<Rightarrow> ledger \<Rightarrow> ledger result" where
  "process_admin_update_fee_split E program_id accounts creator_share_bps lp_share_bps insurance_share_bps L =
     require (4 \<le> length accounts) NotEnoughAccountKeys (
     let admin_ai = accounts ! 0; pool_ai = accounts ! 1; slab_ai = accounts ! 2; perc_ai = accounts ! 3 in
     bind_err (validate_group_a_proxy program_id admin_ai pool_ai slab_ai perc_ai L) (\<lambda>b.
     cpi_update_fee_split E [] perc_ai pool_ai slab_ai creator_share_bps lp_share_bps
       insurance_share_bps (pool_seeds slab_ai b) L))"

definition process_admin_update_maintenance_fee_per_slot ::
  "env \<Rightarrow> pubkey \<Rightarrow> AccountInfo list \<Rightarrow> u128 \<Rightarrow> ledger \<Rightarrow> ledger result" where
  "process_admin_update_maintenance_fee_per_slot E program_id accounts fee L =
     require (4 \<le> length accounts) NotEnoughAccountKeys (
     let admin_ai = accounts ! 0; pool_ai = accounts ! 1; slab_ai = accounts ! 2; perc_ai = accounts ! 3 in
     bind_err (validate_group_a_proxy program_id admin_ai pool_ai slab_ai perc_ai L) (\<lambda>b.
     cpi_update_maintenance_fee_per_slot E [] perc_ai pool_ai slab_ai fee (pool_seeds slab_ai b) L))"

definition process_admin_update_backing_fee_policy ::
  "env \<Rightarrow> pubkey \<Rightarrow> AccountInfo list \<Rightarrow> u16 \<Rightarrow> u16 \<Rightarrow> u16 \<Rightarrow> ledger \<Rightarrow> ledger result" where
  "process_admin_update_backing_fee_policy E program_id accounts domain fee_bps insurance_share_bps L =
     require (5 \<le> length accounts) NotEnoughAccountKeys (
     let admin_ai = accounts ! 0; pool_ai = accounts ! 1; vault_auth_ai = accounts ! 2;
         slab_ai = accounts ! 3; perc_ai = accounts ! 4 in
     bind_err (validate_group_b_proxy E program_id admin_ai pool_ai vault_auth_ai slab_ai perc_ai L) (\<lambda>b.
     cpi_update_backing_fee_policy E [] perc_ai vault_auth_ai slab_ai domain fee_bps
       insurance_share_bps (vault_auth_seeds pool_ai b) L))"

definition process_admin_update_trade_fee_policy ::
  "env \<Rightarrow> pubkey \<Rightarrow> AccountInfo list \<Rightarrow> u64 \<Rightarrow> ledger \<Rightarrow> ledger result" where
  "process_admin_update_trade_fee_policy E program_id accounts trade_fee_base_bps L =
     require (5 \<le> length accounts) NotEnoughAccountKeys (
     let admin_ai = accounts ! 0; pool_ai = accounts ! 1; vault_auth_ai = accounts ! 2;
         slab_ai = accounts ! 3; perc_ai = accounts ! 4 in
     bind_err (validate_group_b_proxy E program_id admin_ai pool_ai vault_auth_ai slab_ai perc_ai L) (\<lambda>b.
     cpi_update_trade_fee_policy E [] perc_ai vault_auth_ai slab_ai trade_fee_base_bps
       (vault_auth_seeds pool_ai b) L))"

end
