(* ===== verification/Insurance.thy ===== *)
theory Insurance
  imports Authorities
begin

text \<open>
  Insurance flow and resolution (\<open>src/processor.rs\<close>): flushing vault collateral into the
  wrapper's insurance fund, returning it from the admin's wallet or recovering it from the
  wrapper, and the two resolution steps that require a full recovery first.
\<close>

section \<open>Transitions of the pool\<close>

definition flush_pool :: "u64 \<Rightarrow> StakePool \<Rightarrow> StakePool result" where
  "flush_pool amount p =
     bind_err (ok_or (checked_add (total_flushed p) amount) (stake_err Overflow)) (\<lambda>f.
     let p1 = p\<lparr>total_flushed := f\<rparr> in
     Inr (set_epoch_high_water_tvl (saturating_sub (epoch_high_water_tvl p1) amount) p1))"

definition return_pool :: "u64 \<Rightarrow> StakePool \<Rightarrow> StakePool result" where
  "return_pool amount p =
     bind_err (ok_or (checked_add (total_returned p) amount) (stake_err Overflow)) (\<lambda>r.
     Inr (p\<lparr>total_returned := r\<rparr>))"

definition recover_pool :: "u64 \<Rightarrow> StakePool \<Rightarrow> StakePool result" where
  "recover_pool amount p =
     bind_err (ok_or (checked_add (total_returned p) amount) (stake_err Overflow)) (\<lambda>r.
     bind_err (ok_or (checked_add (total_recovered_from_wrapper p) amount) (stake_err Overflow)) (\<lambda>w.
     Inr (p\<lparr>total_returned := r, total_recovered_from_wrapper := w\<rparr>)))"

definition resolve_pool :: "StakePool \<Rightarrow> StakePool result" where
  "resolve_pool p =
     require (\<not> market_resolved p) (stake_err MarketResolved) (
     require (wrapper_fully_recovered p) (stake_err InsuranceLossOutstanding)
       (Inr (set_market_resolved True p)))"

section \<open>Handlers\<close>

text \<open>The pool-level checks of \<open>FlushToInsurance\<close>, after the pool is opened.\<close>

definition flush_checks ::
  "StakePool \<Rightarrow> AccountInfo \<Rightarrow> AccountInfo \<Rightarrow> AccountInfo \<Rightarrow> AccountInfo \<Rightarrow> unit result" where
  "flush_checks p caller_ai slab_ai vault_ai perc_ai =
     require (admin p = key caller_ai) (stake_err Unauthorized) (
     require (slab p = key slab_ai) (stake_err InvalidPda) (
     require (vault p = key vault_ai) (stake_err InvalidPda) (
     require (percolator_program p = key perc_ai) (stake_err InvalidPercolatorProgram) (
     require (pool_mode p = 0) (stake_err InvalidPoolMode) (
     require (\<not> market_resolved p) (stake_err MarketResolved) (Inr ()))))))"

definition process_flush_to_insurance ::
  "env \<Rightarrow> pubkey \<Rightarrow> AccountInfo list \<Rightarrow> u64 \<Rightarrow> ledger \<Rightarrow> ledger result" where
  "process_flush_to_insurance E program_id accounts amount L =
     require (amount \<noteq> 0) (stake_err ZeroAmount) (
     require (8 \<le> length accounts) NotEnoughAccountKeys (
     let caller_ai = accounts ! 0; pool_ai = accounts ! 1; vault_ai = accounts ! 2;
         vault_auth_ai = accounts ! 3; slab_ai = accounts ! 4; wrapper_vault_ai = accounts ! 5;
         perc_ai = accounts ! 6; token_ai = accounts ! 7; held = [key pool_ai] in
     require (is_signer caller_ai) MissingRequiredSignature (
     bind_err (owned_pool_account program_id pool_ai L) (\<lambda>_.
     bind_err (verify_token_program token_ai) (\<lambda>_.
     bind_err (open_pool pool_ai L) (\<lambda>p.
     bind_err (flush_checks p caller_ai slab_ai vault_ai perc_ai) (\<lambda>_.
     bind_err (validate_mint_of held wrapper_vault_ai (collateral_mint p) L) (\<lambda>_.
     bind_err (ok_or (total_pool_value p) (stake_err Overflow)) (\<lambda>available.
     require (\<not> amount > available) (stake_err InsufficientVaultBalance) (
     bind_err (check_vault_auth E program_id pool_ai vault_auth_ai) (\<lambda>b.
     bind_err (cpi_top_up_insurance E held perc_ai vault_auth_ai slab_ai vault_ai wrapper_vault_ai
                 token_ai amount (vault_auth_seeds pool_ai b) L) (\<lambda>L1.
     bind_err (flush_pool amount p) (\<lambda>p'.
     Inr (write_pool pool_ai p' L1))))))))))))))"

definition process_return_insurance ::
  "env \<Rightarrow> pubkey \<Rightarrow> AccountInfo list \<Rightarrow> u64 \<Rightarrow> ledger \<Rightarrow> ledger result" where
  "process_return_insurance E program_id accounts amount L =
     require (amount \<noteq> 0) (stake_err ZeroAmount) (
     require (5 \<le> length accounts) NotEnoughAccountKeys (
     let admin_ai = accounts ! 0; pool_ai = accounts ! 1; admin_ata_ai = accounts ! 2;
         vault_ai = accounts ! 3; token_ai = accounts ! 4; held = [key pool_ai] in
     require (is_signer admin_ai) MissingRequiredSignature (
     bind_err (verify_token_program token_ai) (\<lambda>_.
     bind_err (owned_pool_account program_id pool_ai L) (\<lambda>_.
     bind_err (validate_account_writable vault_ai) (\<lambda>_.
     bind_err (open_pool pool_ai L) (\<lambda>p.
     require (admin p = key admin_ai) (stake_err Unauthorized) (
     require (vault p = key vault_ai) (stake_err InvalidPda) (
     require (account_owner vault_ai L = spl_token_id) IllegalOwner (
     require (\<not> amount > saturating_sub (total_flushed p) (total_returned p)) InvalidArgument (
     bind_err (validate_source_ata held InvalidMint admin_ata_ai (collateral_mint p) (key admin_ai) L) (\<lambda>_.
     bind_err (spl_transfer (key token_ai) (key admin_ata_ai) (key vault_ai) (key admin_ai) [] amount) (\<lambda>ix.
     bind_err (runtime_invoke E held ix [admin_ata_ai, vault_ai, admin_ai] [] L) (\<lambda>L1.
     bind_err (return_pool amount p) (\<lambda>p'.
     Inr (write_pool pool_ai p' L1))))))))))))))))"

definition process_recover_flushed_insurance ::
  "env \<Rightarrow> pubkey \<Rightarrow> AccountInfo list \<Rightarrow> u64 \<Rightarrow> ledger \<Rightarrow> ledger result" where
  "process_recover_flushed_insurance E program_id accounts amount L =
     require (9 \<le> length accounts) NotEnoughAccountKeys (
     let pool_ai = accounts ! 1; vault_ai = accounts ! 2; vault_auth_ai = accounts ! 3;
         market_ai = accounts ! 4; wrapper_vault_ai = accounts ! 5; wrapper_auth_ai = accounts ! 6;
         token_ai = accounts ! 7; perc_ai = accounts ! 8; held = [key pool_ai] in
     bind_err (verify_token_program token_ai) (\<lambda>_.
     bind_err (owned_pool_account program_id pool_ai L) (\<lambda>_.
     bind_err (open_pool pool_ai L) (\<lambda>p.
     require (pool_mode p = 0) (stake_err InvalidPoolMode) (
     require (amount \<noteq> 0) (stake_err ZeroAmount) (
     let outstanding = wrapper_recoverable p in
     require (outstanding \<noteq> 0) (stake_err InsufficientVaultBalance) (
     require (\<not> (ucast amount :: u128) > ucast outstanding) (stake_err InsufficientVaultBalance) (
     require (percolator_program p = key perc_ai) (stake_err InvalidPercolatorProgram) (
     require (vault p = key vault_ai) (stake_err InvalidPda) (
     bind_err (check_vault_auth E program_id pool_ai vault_auth_ai) (\<lambda>b.
     bind_err (cpi_withdraw_insurance_asset E held perc_ai vault_auth_ai market_ai vault_ai
                 wrapper_vault_ai wrapper_auth_ai token_ai amount (vault_auth_seeds pool_ai b) L) (\<lambda>L1.
     bind_err (recover_pool amount p) (\<lambda>p'.
     Inr (write_pool pool_ai p' L1))))))))))))))"

definition process_set_market_resolved :: "pubkey \<Rightarrow> AccountInfo list \<Rightarrow> ledger \<Rightarrow> ledger result" where
  "process_set_market_resolved program_id accounts L =
     require (2 \<le> length accounts) NotEnoughAccountKeys (
     let admin_ai = accounts ! 0; pool_ai = accounts ! 1 in
     bind_err (open_pool_as_admin program_id admin_ai pool_ai L) (\<lambda>p.
     bind_err (resolve_pool p) (\<lambda>p'.
     Inr (write_pool pool_ai p' L))))"

definition process_admin_resolve_market ::
  "env \<Rightarrow> pubkey \<Rightarrow> AccountInfo list \<Rightarrow> ledger \<Rightarrow> ledger result" where
  "process_admin_resolve_market E program_id accounts L =
     require (4 \<le> length accounts) NotEnoughAccountKeys (
     let admin_ai = accounts ! 0; pool_ai = accounts ! 1; slab_ai = accounts ! 2; perc_ai = accounts ! 3 in
     require (is_signer admin_ai) MissingRequiredSignature (
     bind_err (read_pool_as_admin program_id admin_ai pool_ai L) (\<lambda>p.
     bind_err (check_market p slab_ai perc_ai) (\<lambda>_.
     require (wrapper_fully_recovered p) (stake_err InsuranceLossOutstanding) (
     cpi_resolve_market E [] perc_ai pool_ai slab_ai (pool_seeds slab_ai (bump p)) L)))))"

end
