(* ===== verification/Wide_Run.thy ===== *)
theory Wide_Run
  imports Wide_Arith "HOL-Library.Monad_Syntax"
begin

unbundle bit_operations_syntax

text \<open>
  The run of \<open>mul_div_floor\<close> with every operation that can panic made explicit: arithmetic that
  overflows, a shift by at least the width and a division by zero give \<open>None\<close>, and so does a loop
  that does not end.  \<open>mul_div_while\<close> is the loop as the source writes it, on a 32-bit counter;
  it always ends, no operation of it panics, and it computes \<open>mul_div_loop\<close>.
\<close>

section \<open>Operations that panic\<close>

definition shr_or_panic :: "u128 \<Rightarrow> u32 \<Rightarrow> u128 option" where
  "shr_or_panic x n = (if n < 128 then Some (drop_bit (unat n) x) else None)"

definition shl_or_panic :: "u128 \<Rightarrow> u32 \<Rightarrow> u128 option" where
  "shl_or_panic x n = (if n < 128 then Some (push_bit (unat n) x) else None)"

definition div_or_panic :: "u128 \<Rightarrow> u128 \<Rightarrow> u128 option" where
  "div_or_panic x y = (if y = 0 then None else Some (x div y))"

definition rem_or_panic :: "u128 \<Rightarrow> u128 \<Rightarrow> u128 option" where
  "rem_or_panic x y = (if y = 0 then None else Some (x mod y))"

section \<open>The loop\<close>

partial_function (option) mul_div_while ::
    "u128 \<Rightarrow> u128 \<Rightarrow> u128 \<Rightarrow> u32 \<Rightarrow> u128 \<Rightarrow> u128 \<Rightarrow> u128 option" where
  "mul_div_while hi lo d i rm quo =
     (if i > 0 then do {
        i1 \<leftarrow> checked_sub i 1;
        b \<leftarrow> (if i1 \<ge> 128
             then do { k \<leftarrow> checked_sub i1 128; x \<leftarrow> shr_or_panic hi k; Some (x AND 1) }
             else do { x \<leftarrow> shr_or_panic lo i1; Some (x AND 1) });
        rem_top \<leftarrow> shr_or_panic rm 127;
        up \<leftarrow> shl_or_panic rm 1;
        let rm1 = up OR b;
        (if rem_top = 1 \<or> rm1 \<ge> d
         then (if i1 < 128
               then do { one \<leftarrow> shl_or_panic 1 i1; mul_div_while hi lo d i1 (rm1 - d) (quo OR one) }
               else mul_div_while hi lo d i1 (rm1 - d) quo)
         else mul_div_while hi lo d i1 rm1 quo) }
      else Some quo)"

definition mul_div_run :: "u128 \<Rightarrow> u128 \<Rightarrow> u128 \<Rightarrow> u128 option" where
  "mul_div_run a b d =
     (case checked_mul a b of
        Some p \<Rightarrow> div_or_panic p d
      | None \<Rightarrow> do {
          let mask = ucast U64_MAX;
          let a0 = a AND mask; a1 \<leftarrow> shr_or_panic a 64;
          let b0 = b AND mask; b1 \<leftarrow> shr_or_panic b 64;
          m0 \<leftarrow> checked_mul a0 b0;
          m1 \<leftarrow> checked_mul a0 b1;
          m2 \<leftarrow> checked_mul a1 b0;
          m3 \<leftarrow> checked_mul a1 b1;
          let mid = fst (overflowing_add m1 m2);
          let mid_carry = (if snd (overflowing_add m1 m2) then 1 else 0 :: u128);
          mid_up \<leftarrow> shl_or_panic mid 64;
          let lo = fst (overflowing_add m0 mid_up);
          let c1 = (if snd (overflowing_add m0 mid_up) then 1 else 0 :: u128);
          mid_down \<leftarrow> shr_or_panic mid 64;
          carry_up \<leftarrow> shl_or_panic mid_carry 64;
          h1 \<leftarrow> checked_add m3 mid_down;
          h2 \<leftarrow> checked_add h1 carry_up;
          hi \<leftarrow> checked_add h2 c1;
          mul_div_while hi lo d 256 0 0 })"

section \<open>The loop ends and no operation panics\<close>

lemma shift_in_range [simp]:
  "n < 128 \<Longrightarrow> shr_or_panic x n = Some (drop_bit (unat n) x)"
  "n < 128 \<Longrightarrow> shl_or_panic x n = Some (push_bit (unat n) x)"
  by (simp_all add: shr_or_panic_def shl_or_panic_def)

lemma mul_div_while_step:
  assumes "unat i = Suc n" "n < 256"
  shows "mul_div_while hi lo d i rm quo =
    (let b = (if n \<ge> 128 then drop_bit (n - 128) hi AND 1 else drop_bit n lo AND 1);
         rm1 = push_bit 1 rm OR b
     in if drop_bit 127 rm = 1 \<or> rm1 \<ge> d
        then mul_div_while hi lo d (i - 1) (rm1 - d) (if n < 128 then quo OR push_bit n 1 else quo)
        else mul_div_while hi lo d (i - 1) rm1 quo)"
proof -
  have pos: "0 < i" "checked_sub i 1 = Some (i - 1)" "unat (i - 1) = n"
    using assms(1) by (auto simp: word_less_nat_alt checked_sub_def word_le_nat_alt unat_sub_if_size)
  have ge: "128 \<le> i - 1 \<longleftrightarrow> 128 \<le> n" "i - 1 < 128 \<longleftrightarrow> n < 128"
    using pos(3) by (simp_all add: word_le_nat_alt word_less_nat_alt)
  have k: "checked_sub (i - 1) 128 = Some (i - 1 - 128)" "shr_or_panic x (i - 129) = Some (drop_bit (n - 128) x)"
    if "128 \<le> n" for x
  proof -
    show "checked_sub (i - 1) 128 = Some (i - 1 - 128)" using that ge by (simp add: checked_sub_def)
    have u: "unat (i - 1 - 128) = n - 128" using that pos(3) by (simp only: unat_sub_if') simp
    then have "i - 1 - 128 < 128" using assms(2) that by (simp add: word_less_nat_alt)
    with u show "shr_or_panic x (i - 129) = Some (drop_bit (n - 128) x)" by simp
  qed
  show ?thesis
    by (subst mul_div_while.simps) (cases "128 \<le> n"; simp add: pos ge k Let_def)
qed

lemma mul_div_while_ends:
  assumes "unat i = n" "n \<le> 256"
  shows "mul_div_while hi lo d i rm quo = Some (mul_div_loop hi lo d n rm quo)"
  using assms
proof (induction n arbitrary: i rm quo)
  case 0
  then show ?case by (subst mul_div_while.simps) (simp add: unat_eq_0)
next
  case (Suc n)
  have "unat (i - 1) = n" using Suc.prems(1) by (simp add: unat_sub_if_size)
  moreover have "n < 256" "n \<le> 256" using Suc.prems(2) by simp_all
  ultimately show ?case using Suc.IH by (simp add: mul_div_while_step [OF Suc.prems(1)] Let_def)
qed

lemma mul_div_run_ends:
  assumes "d \<noteq> 0"
  shows "mul_div_run a b d = Some (mul_div_floor a b d)"
proof (cases "checked_mul a b")
  case (Some p)
  then show ?thesis using assms by (simp add: mul_div_run_def mul_div_floor_def div_or_panic_def)
next
  case None
  let ?a0 = "a AND ucast U64_MAX" and ?a1 = "drop_bit 64 a" and ?b0 = "b AND ucast U64_MAX" and ?b1 = "drop_bit 64 b"
  have lt: "unat ?a0 < 2 ^ 64" "unat ?a1 < 2 ^ 64" "unat ?b0 < 2 ^ 64" "unat ?b1 < 2 ^ 64"
    unfolding unat_low_limb unat_high_limb using unat_u128_less [of a] unat_u128_less [of b]
    by (simp_all add: less_mult_imp_div_less)
  have mul: "checked_mul x y = Some (x * y)" if "unat x < 2 ^ 64" "unat y < 2 ^ 64" for x y :: u128
    using unat_mult_limbs [OF that] by (simp add: checked_mul_eq_Some)
  note m = mul [OF lt(1,3)] mul [OF lt(1,4)] mul [OF lt(2,3)] mul [OF lt(2,4)]
  define mid where "mid = fst (overflowing_add (?a0 * ?b1) (?a1 * ?b0))"
  define mc where "mc = (if snd (overflowing_add (?a0 * ?b1) (?a1 * ?b0)) then 1 else 0 :: u128)"
  define lo where "lo = fst (overflowing_add (?a0 * ?b0) (push_bit 64 mid))"
  define lc where "lc = (if snd (overflowing_add (?a0 * ?b0) (push_bit 64 mid)) then 1 else 0 :: u128)"
  have sum: "unat (?a1 * ?b1) + unat (drop_bit 64 mid) + unat (push_bit 64 mc) + unat lc < 2 ^ 128"
    unfolding mid_def mc_def lc_def by (rule wide_product(2))
  have add: "checked_add x y = Some (x + y)" "unat (x + y) = unat x + unat y"
    if "unat x + unat y < 2 ^ 128" for x y :: u128
    using that by (simp_all add: checked_add_def unat_word_ariths)
  have s1: "unat (?a1 * ?b1) + unat (drop_bit 64 mid) < 2 ^ 128" using sum by linarith
  have s2: "unat (?a1 * ?b1 + drop_bit 64 mid) + unat (push_bit 64 mc) < 2 ^ 128"
    using sum add(2) [OF s1] by linarith
  have s3: "unat (?a1 * ?b1 + drop_bit 64 mid + push_bit 64 mc) + unat lc < 2 ^ 128"
    using sum add(2) [OF s1] add(2) [OF s2] by linarith
  have "mul_div_run a b d = mul_div_while (?a1 * ?b1 + drop_bit 64 mid + push_bit 64 mc + lc) lo d 256 0 0"
    unfolding mul_div_run_def None
    by (simp add: m Let_def mid_def [symmetric] mc_def [symmetric] lo_def [symmetric] lc_def [symmetric]
        add(1) [OF s1] add(1) [OF s2] add(1) [OF s3])
  moreover have "mul_div_floor a b d =
      mul_div_loop (?a1 * ?b1 + drop_bit 64 mid + push_bit 64 mc + lc) lo d 256 0 0"
    unfolding mul_div_floor_def None lo_def lc_def mid_def mc_def by (simp add: Let_def case_prod_beta)
  ultimately show ?thesis using mul_div_while_ends [of 256 256] by simp
qed

section \<open>The fee split\<close>

text \<open>\<open>distribute_fees\<close> with its additions, products and divisions checked in the same way.\<close>

definition distribute_fees_run :: "u64 \<Rightarrow> u64 \<Rightarrow> u16 \<Rightarrow> u64 \<Rightarrow> (u64 \<times> u64) option" where
  "distribute_fees_run junior_balance senior_balance junior_fee_mult_bps total_fee =
     (if total_fee = 0 then Some (0, 0)
      else do {
        total_balance \<leftarrow> checked_add (ucast junior_balance :: u128) (ucast senior_balance);
        if total_balance = 0 then Some (0, 0)
        else do {
          junior_weight \<leftarrow> checked_mul (ucast junior_balance :: u128) (ucast junior_fee_mult_bps);
          senior_weight \<leftarrow> checked_mul (ucast senior_balance :: u128) 10000;
          total_weight \<leftarrow> checked_add junior_weight senior_weight;
          if total_weight = 0 then Some (0, 0)
          else do {
            junior_fee_u128 \<leftarrow> (case checked_mul (ucast total_fee) junior_weight of
                Some product \<Rightarrow> div_or_panic product total_weight
              | None \<Rightarrow> do {
                  q \<leftarrow> div_or_panic (ucast total_fee) total_weight;
                  r \<leftarrow> rem_or_panic (ucast total_fee) total_weight;
                  part1 \<leftarrow> checked_mul q junior_weight;
                  part2 \<leftarrow> mul_div_run r junior_weight total_weight;
                  Some (saturating_add part1 part2) });
            let junior_fee = (ucast (min junior_fee_u128 (ucast total_fee)) :: u64);
            Some (junior_fee, saturating_sub total_fee junior_fee) } } })"

lemma fee_weights_fit:
  fixes jb sb :: u64 and m :: u16
  shows "checked_add (ucast jb :: u128) (ucast sb) = Some (ucast jb + ucast sb)"
    and "checked_mul (ucast jb :: u128) (ucast m) = Some (ucast jb * ucast m)"
    and "checked_mul (ucast sb :: u128) 10000 = Some (ucast sb * 10000)"
    and "checked_add (ucast jb * ucast m :: u128) (ucast sb * 10000) = Some (ucast jb * ucast m + ucast sb * 10000)"
proof -
  have j: "unat jb * unat m < 2 ^ 80" using mult_strict_mono [of "unat jb" "2 ^ 64" "unat m" "2 ^ 16"]
      unat_u64_less [of jb] unat_u16_less [of m] by simp
  have s: "unat sb * 10000 < 2 ^ 80" using unat_u64_less [of sb] by simp
  have u: "unat (ucast jb * ucast m :: u128) = unat jb * unat m" "unat (ucast sb * 10000 :: u128) = unat sb * 10000"
    using j s by (simp_all add: unat_word_ariths)
  show "checked_add (ucast jb :: u128) (ucast sb) = Some (ucast jb + ucast sb)"
    using unat_u64_less [of jb] unat_u64_less [of sb] by (simp add: checked_add_def)
  show "checked_mul (ucast jb :: u128) (ucast m) = Some (ucast jb * ucast m)"
    "checked_mul (ucast sb :: u128) 10000 = Some (ucast sb * 10000)"
    using j s by (simp_all add: checked_mul_def)
  show "checked_add (ucast jb * ucast m :: u128) (ucast sb * 10000) = Some (ucast jb * ucast m + ucast sb * 10000)"
    using j s by (simp add: checked_add_def u)
qed

lemma whole_part_fits:
  fixes fee jw tw :: u128
  assumes "jw \<le> tw"
  shows "checked_mul (fee div tw) jw = Some (fee div tw * jw)"
proof -
  have "unat (fee div tw) * unat jw \<le> unat fee div unat tw * unat tw"
    using assms by (simp add: unat_div word_le_nat_alt)
  also have "\<dots> \<le> unat fee" by simp
  also have "\<dots> < 2 ^ 128" using unat_u128_less [of fee] by simp
  finally show ?thesis by (simp add: checked_mul_def)
qed

lemma distribute_fees_run_ends: "distribute_fees_run jb sb m fee = Some (distribute_fees jb sb m fee)"
proof -
  let ?jw = "ucast jb * ucast m :: u128" and ?sw = "ucast sb * 10000 :: u128"
  have "?jw \<le> ?jw + ?sw"
    using fee_weights_fit(4) [of jb m sb] by (simp add: word_le_nat_alt checked_add_eq_Some)
  note part = whole_part_fits [OF this]
  show ?thesis
    unfolding distribute_fees_run_def distribute_fees_def fee_weights_fit Let_def
    by (auto simp: fee_weights_fit part div_or_panic_def rem_or_panic_def mul_div_run_ends split: option.split)
qed

section \<open>Termination\<close>

text \<open>
  C30 (the wide division ends).  For every divisor other than zero the run of
  \<open>mul_div_floor\<close> ends without a panic, in its fast path and in its 256-step loop, and
  returns what \<open>mul_div_floor\<close> computes: the exact floor of the 256-bit product over the
  divisor whenever that fits 128 bits.
\<close>

theorem mul_div_terminates:
  assumes "d \<noteq> 0"
  shows "mul_div_run a b d = Some (mul_div_floor a b d)
    \<and> (unat a * unat b div unat d < 2 ^ 128 \<longrightarrow> unat (mul_div_floor a b d) = unat a * unat b div unat d)"
  using mul_div_run_ends [OF assms] mul_div_floor_exact [OF assms] by blast

theorem mul_div_terminates_witness:
  "mul_div_run (2 ^ 127) 6 8 = Some (3 * 2 ^ 125)"
proof -
  have run: "mul_div_run (2 ^ 127) 6 8 = Some (mul_div_floor (2 ^ 127) 6 8)"
    and val: "unat (mul_div_floor (2 ^ 127) 6 8) = unat (3 * 2 ^ 125 :: u128)"
    using mul_div_terminates [of 8 "2 ^ 127" 6] by simp_all
  show ?thesis using run unat_eqD [OF val] by simp
qed

end
