(* ===== verification/Fees.thy ===== *)
theory Fees
  imports Guards Wide_Run
begin

text \<open>
  Fee accrual (\<open>src/processor.rs\<close>): the surplus of the vault over the pool's tracked value
  is folded into the share price, in \<open>AccrueFees\<close> and before every pricing path.
\<close>

text \<open>The split runs with its divisions checked; \<open>distribute_fees_run_ends\<close> shows that none panics.\<close>

definition accrue_fees_inner :: "u64 \<Rightarrow> StakePool \<Rightarrow> StakePool result" where
  "accrue_fees_inner current_balance p =
     bind_err (ok_or (total_pool_value p) (stake_err Overflow)) (\<lambda>pool_val.
     if current_balance > pool_val \<and> total_lp_supply p > 0 then
       bind_err (ok_or (checked_sub current_balance pool_val) Panic) (\<lambda>fee_delta.
        let distribute_to_junior = tranche_enabled p \<and> junior_total_lp p > 0 in
        bind_err (if distribute_to_junior
                  then bind_err (ok_or (senior_balance p) (stake_err Overflow)) (\<lambda>sb.
                       Inr (junior_balance p, sb))
                  else Inr (0, 0)) (\<lambda>(snapshot_junior_bal, snapshot_senior_bal).
        bind_err (ok_or (checked_add (total_fees_earned p) fee_delta) (stake_err Overflow)) (\<lambda>fees.
        let p1 = p\<lparr>total_fees_earned := fees\<rparr> in
        if distribute_to_junior then
          bind_err (ok_or (distribute_fees_run snapshot_junior_bal snapshot_senior_bal (junior_fee_mult_bps p1)
                             fee_delta) Panic) (\<lambda>(junior_fee, senior_fee).
           bind_err (ok_or (checked_add (junior_balance p1) junior_fee) (stake_err Overflow)) (\<lambda>jb.
           let p2 = set_junior_balance jb p1 in
           bind_err (ok_or (total_pool_value p2) (stake_err Overflow)) (\<lambda>pv.
           require (\<not> junior_balance p2 > pv) (stake_err Overflow) (Inr p2))))
        else Inr p1)))
     else Inr p)"

lemma accrue_fees_inner_eq:
  "accrue_fees_inner current_balance p =
     bind_err (ok_or (total_pool_value p) (stake_err Overflow)) (\<lambda>pool_val.
     if current_balance > pool_val \<and> total_lp_supply p > 0 then
       (let fee_delta = current_balance - pool_val;
            distribute_to_junior = tranche_enabled p \<and> junior_total_lp p > 0 in
        bind_err (if distribute_to_junior
                  then bind_err (ok_or (senior_balance p) (stake_err Overflow)) (\<lambda>sb.
                       Inr (junior_balance p, sb))
                  else Inr (0, 0)) (\<lambda>(snapshot_junior_bal, snapshot_senior_bal).
        bind_err (ok_or (checked_add (total_fees_earned p) fee_delta) (stake_err Overflow)) (\<lambda>fees.
        let p1 = p\<lparr>total_fees_earned := fees\<rparr> in
        if distribute_to_junior then
          (let (junior_fee, senior_fee) =
                 distribute_fees snapshot_junior_bal snapshot_senior_bal (junior_fee_mult_bps p1) fee_delta in
           bind_err (ok_or (checked_add (junior_balance p1) junior_fee) (stake_err Overflow)) (\<lambda>jb.
           let p2 = set_junior_balance jb p1 in
           bind_err (ok_or (total_pool_value p2) (stake_err Overflow)) (\<lambda>pv.
           require (\<not> junior_balance p2 > pv) (stake_err Overflow) (Inr p2))))
        else Inr p1)))
     else Inr p)"
proof (cases "total_pool_value p")
  case None
  then show ?thesis by (simp add: accrue_fees_inner_def)
next
  case (Some v)
  show ?thesis
  proof (cases "current_balance > v \<and> total_lp_supply p > 0")
    case True
    then have "checked_sub current_balance v = Some (current_balance - v)" by (auto simp: checked_sub_def)
    then show ?thesis
      unfolding accrue_fees_inner_def Some distribute_fees_run_ends ok_or_simps bind_err_simps Let_def
      by (simp only: ok_or_simps bind_err_simps)
  qed (auto simp: accrue_fees_inner_def Some)
qed

text \<open>The balance of the pool's vault, read from its token account.\<close>

definition vault_balance :: "pubkey list \<Rightarrow> AccountInfo \<Rightarrow> ledger \<Rightarrow> u64 result" where
  "vault_balance held vault_ai L =
     require (account_owner vault_ai L = spl_token_id) IllegalOwner (
     bind_err (try_borrow_data held vault_ai L) (\<lambda>d.
     bind_err (token_account_unpack d) (\<lambda>acct.
     require (tok_state acct = Initialized) InvalidAccountData (Inr (tok_amount acct)))))"

definition pre_accrue_fee_modes :: "pubkey list \<Rightarrow> AccountInfo \<Rightarrow> ledger \<Rightarrow> StakePool \<Rightarrow> StakePool result" where
  "pre_accrue_fee_modes held vault_ai L p =
     (if pool_mode p \<le> 1
      then bind_err (vault_balance held vault_ai L) (\<lambda>current_balance.
           accrue_fees_inner current_balance p)
      else Inr p)"

definition process_accrue_fees :: "env \<Rightarrow> pubkey \<Rightarrow> AccountInfo list \<Rightarrow> ledger \<Rightarrow> ledger result" where
  "process_accrue_fees E program_id accounts L =
     require (1 \<le> length accounts) NotEnoughAccountKeys (
     require (is_signer (accounts ! 0)) MissingRequiredSignature (
     require (4 \<le> length accounts) NotEnoughAccountKeys (
     let pool_ai = accounts ! 1; vault_ai = accounts ! 2; clock_ai = accounts ! 3;
         held = [key pool_ai] in
     bind_err (present_pool_account program_id pool_ai L) (\<lambda>_.
     bind_err (open_pool pool_ai L) (\<lambda>p.
     require (key pool_ai = fst (derive_pool_pda (find_program_address E) program_id (slab p)))
       (stake_err InvalidPda) (
     require (\<not> pool_mode p > 1) (stake_err InvalidPoolMode) (
     require (key vault_ai = vault p) InvalidAccountData (
     bind_err (vault_balance held vault_ai L) (\<lambda>current_balance.
     bind_err (clock_from_account_info E clock_ai L) (\<lambda>clock.
     bind_err (accrue_fees_inner current_balance p) (\<lambda>p1.
     Inr (write_pool pool_ai
            (p1\<lparr>last_fee_accrual_slot := slot clock, last_vault_snapshot := current_balance\<rparr>) L))))))))))))"

end
