(* ===== verification/Deposits.thy ===== *)
theory Deposits
  imports Fees
begin

text \<open>
  The two deposit paths (\<open>src/processor.rs\<close>): \<open>Deposit\<close> into the pool, or into the senior
  tranche when tranches are on, and \<open>DepositJunior\<close>.  Both price after fee accrual, lock
  the minimum liquidity at genesis, move the tokens, and credit the per-user record.
\<close>

section \<open>Pricing\<close>

definition apply_minimum_liquidity_lock :: "u64 \<Rightarrow> u64 \<Rightarrow> u64 result" where
  "apply_minimum_liquidity_lock total_lp_supply_before lp_to_mint =
     (if total_lp_supply_before \<noteq> 0 then Inr lp_to_mint
      else bind_err (ok_or (checked_sub lp_to_mint MINIMUM_LIQUIDITY)
                       (stake_err DepositBelowMinimumLiquidity)) (\<lambda>mint_amount.
           require (mint_amount \<noteq> 0) (stake_err DepositBelowMinimumLiquidity) (Inr mint_amount)))"

definition check_deposit_cap :: "u64 \<Rightarrow> StakePool \<Rightarrow> unit result" where
  "check_deposit_cap amount p =
     (if deposit_cap p > 0 then
        bind_err (ok_or (principal_tvl p) (stake_err Overflow)) (\<lambda>current_value.
        bind_err (ok_or (checked_add current_value amount) (stake_err Overflow)) (\<lambda>new_value.
        require (\<not> new_value > deposit_cap p) (stake_err DepositCapExceeded) (Inr ())))
      else Inr ())"

text \<open>
  The senior gate and the senior (or global) quote: the LP to credit, and the LP that is
  really minted once the genesis lock is taken off.
\<close>

definition price_deposit :: "u64 \<Rightarrow> StakePool \<Rightarrow> (u64 \<times> u64) result" where
  "price_deposit amount p =
     require (\<not> (tranche_enabled p \<and> saturating_sub (total_flushed p) (total_returned p) > junior_balance p))
       (stake_err InsuranceLossOutstanding) (
     bind_err (if tranche_enabled p then
                 bind_err (ok_or (senior_balance p) (stake_err Overflow)) (\<lambda>senior_bal.
                 ok_or (calc_senior_lp_for_deposit (senior_total_lp p) senior_bal amount) (stake_err Overflow))
               else ok_or (pool_calc_lp_for_deposit amount p) (stake_err Overflow)) (\<lambda>lp_to_mint.
     require (lp_to_mint \<noteq> 0) (stake_err ZeroSharesMinted) (
     bind_err (apply_minimum_liquidity_lock (total_lp_supply p) lp_to_mint) (\<lambda>mint_amount.
     Inr (lp_to_mint, mint_amount)))))"

definition price_deposit_junior :: "u64 \<Rightarrow> StakePool \<Rightarrow> (u64 \<times> u64) result" where
  "price_deposit_junior amount p =
     (let physical_net_loss =
            saturating_sub (total_flushed p) (saturating_sub (total_returned p) (realized_junior_loss p)) in
      require (\<not> physical_net_loss > 0) (stake_err InsuranceLossOutstanding) (
      bind_err (ok_or (calc_junior_lp_for_deposit (junior_total_lp p) (effective_junior_balance p) amount)
                  (stake_err Overflow)) (\<lambda>lp_to_mint.
      require (lp_to_mint \<noteq> 0) (stake_err ZeroSharesMinted) (
      bind_err (apply_minimum_liquidity_lock (total_lp_supply p) lp_to_mint) (\<lambda>mint_amount.
      Inr (lp_to_mint, mint_amount))))))"

section \<open>Pool totals\<close>

definition deposit_totals :: "u64 \<Rightarrow> u64 \<Rightarrow> StakePool \<Rightarrow> StakePool result" where
  "deposit_totals amount lp_to_mint p =
     bind_err (ok_or (checked_add (total_deposited p) amount) (stake_err Overflow)) (\<lambda>d.
     bind_err (ok_or (checked_add (total_lp_supply p) lp_to_mint) (stake_err Overflow)) (\<lambda>s.
     Inr (p\<lparr>total_deposited := d, total_lp_supply := s\<rparr>)))"

definition deposit_junior_totals :: "u64 \<Rightarrow> u64 \<Rightarrow> StakePool \<Rightarrow> StakePool result" where
  "deposit_junior_totals amount lp_to_mint p =
     bind_err (deposit_totals amount lp_to_mint p) (\<lambda>p1.
     bind_err (ok_or (checked_add (junior_total_lp p1) lp_to_mint) (stake_err Overflow)) (\<lambda>jl.
     let p2 = set_junior_total_lp jl p1 in
     bind_err (ok_or (checked_add (junior_balance p2) amount) (stake_err Overflow)) (\<lambda>jb.
     Inr (set_junior_balance jb p2))))"

definition deposit_refresh_hwm :: "u64 \<Rightarrow> StakePool \<Rightarrow> StakePool result" where
  "deposit_refresh_hwm current_epoch p =
     (if hwm_enabled p then
        bind_err (ok_or (total_pool_value p) (stake_err Overflow)) (\<lambda>current_tvl.
        Inr (snd (refresh_hwm current_epoch current_tvl p)))
      else Inr p)"

section \<open>The per-user record\<close>

definition credit_senior_record ::
  "pubkey \<Rightarrow> pubkey \<Rightarrow> u8 \<Rightarrow> u64 \<Rightarrow> u64 \<Rightarrow> StakeDeposit \<Rightarrow> StakeDeposit result" where
  "credit_senior_record pool_key user_key deposit_bump now lp_to_mint r =
     bind_err (if dep_is_initialized r \<noteq> 1 then Inr (deposit_set_discriminator r)
               else require (deposit_validate_discriminator r) (stake_err InvalidAccount) (Inr r)) (\<lambda>r1.
     require (\<not> is_junior_deposit r1) (stake_err WrongTranche) (
     bind_err (ok_or (checked_add (lp_amount r1) lp_to_mint) (stake_err Overflow)) (\<lambda>lp.
     Inr (r1\<lparr>dep_is_initialized := 1, dep_bump := deposit_bump, dep_pool := pool_key,
             dep_user := user_key, last_deposit_slot := now, lp_amount := lp\<rparr>))))"

definition credit_junior_record ::
  "pubkey \<Rightarrow> pubkey \<Rightarrow> u8 \<Rightarrow> u64 \<Rightarrow> u64 \<Rightarrow> StakeDeposit \<Rightarrow> StakeDeposit result" where
  "credit_junior_record pool_key user_key deposit_bump now lp_to_mint r =
     bind_err (if dep_is_initialized r \<noteq> 1 then Inr (deposit_set_discriminator r)
               else require (deposit_validate_discriminator r) (stake_err InvalidAccount) (Inr r)) (\<lambda>r1.
     require (\<not> (\<not> is_junior_deposit r1 \<and> dep_is_initialized r1 = 1)) (stake_err WrongTranche) (
     let r2 = set_junior_deposit True r1 in
     bind_err (ok_or (checked_add (lp_amount r2) lp_to_mint) (stake_err Overflow)) (\<lambda>lp.
     Inr (r2\<lparr>dep_is_initialized := 1, dep_bump := deposit_bump, dep_pool := pool_key,
             dep_user := user_key, last_deposit_slot := now, lp_amount := lp\<rparr>))))"

text \<open>Check the record's address and owner, create the account when it is empty.\<close>

definition open_or_create_deposit ::
  "env \<Rightarrow> pubkey \<Rightarrow> pubkey list \<Rightarrow> AccountInfo \<Rightarrow> AccountInfo \<Rightarrow> AccountInfo \<Rightarrow> AccountInfo \<Rightarrow> ledger \<Rightarrow>
   (u8 \<times> ledger) result" where
  "open_or_create_deposit E program_id held pool_ai user_ai dep_ai system_ai L =
     (let (expected_deposit_pda, deposit_bump) =
            derive_deposit_pda (find_program_address E) program_id (key pool_ai) (key user_ai) in
      require (key dep_ai = expected_deposit_pda) (stake_err InvalidPda) (
      bind_err (data_is_empty held dep_ai L) (\<lambda>empty.
      require (\<not> (\<not> empty \<and> account_owner dep_ai L \<noteq> program_id)) (stake_err InvalidAccount) (
      if empty then
        bind_err (create_or_adopt_pda E held dep_ai user_ai system_ai program_id STAKE_DEPOSIT_SIZE
                    (deposit_seeds pool_ai user_ai deposit_bump) L) (\<lambda>L1.
        Inr (deposit_bump, L1))
      else Inr (deposit_bump, L)))))"

definition credit_deposit ::
  "(pubkey \<Rightarrow> pubkey \<Rightarrow> u8 \<Rightarrow> u64 \<Rightarrow> u64 \<Rightarrow> StakeDeposit \<Rightarrow> StakeDeposit result) \<Rightarrow>
   env \<Rightarrow> pubkey \<Rightarrow> pubkey list \<Rightarrow> AccountInfo \<Rightarrow> AccountInfo \<Rightarrow> AccountInfo \<Rightarrow> AccountInfo \<Rightarrow>
   u64 \<Rightarrow> u64 \<Rightarrow> ledger \<Rightarrow> ledger result" where
  "credit_deposit credit E program_id held pool_ai user_ai dep_ai system_ai now lp_to_mint L =
     bind_err (open_or_create_deposit E program_id held pool_ai user_ai dep_ai system_ai L) (\<lambda>(b, L1).
     bind_err (try_borrow_data held dep_ai L1) (\<lambda>d.
     bind_err (deposit_from_data d) (\<lambda>r.
     bind_err (credit (key pool_ai) (key user_ai) b now lp_to_mint r) (\<lambda>r'.
     Inr (write_deposit dep_ai r' L1)))))"

text \<open>Collateral in, LP out: the two token-program calls.\<close>

definition deposit_transfers ::
  "env \<Rightarrow> pubkey \<Rightarrow> pubkey list \<Rightarrow> AccountInfo \<Rightarrow> AccountInfo \<Rightarrow> AccountInfo \<Rightarrow> AccountInfo \<Rightarrow> AccountInfo \<Rightarrow>
   AccountInfo \<Rightarrow> AccountInfo \<Rightarrow> AccountInfo \<Rightarrow> u64 \<Rightarrow> u64 \<Rightarrow> ledger \<Rightarrow> ledger result" where
  "deposit_transfers E program_id held pool_ai user_ai user_ata_ai vault_ai lp_mint_ai user_lp_ata_ai
       vault_auth_ai token_ai amount mint_amount L =
     bind_err (spl_transfer (key token_ai) (key user_ata_ai) (key vault_ai) (key user_ai) [] amount) (\<lambda>ix.
     bind_err (runtime_invoke E held ix [user_ata_ai, vault_ai, user_ai, token_ai] [] L) (\<lambda>L1.
     let (derived, vault_auth_bump) =
           derive_vault_authority (find_program_address E) program_id (key pool_ai) in
     bind_err (mint_to (key token_ai) (key lp_mint_ai) (key user_lp_ata_ai) (key vault_auth_ai) [] mint_amount) (\<lambda>ix2.
     runtime_invoke E held ix2 [lp_mint_ai, user_lp_ata_ai, vault_auth_ai, token_ai]
       [vault_auth_seeds pool_ai vault_auth_bump] L1)))"

section \<open>Handlers\<close>

text \<open>The pool-level checks of both deposit paths, after the pool is opened.\<close>

definition deposit_checks ::
  "env \<Rightarrow> pubkey \<Rightarrow> StakePool \<Rightarrow> AccountInfo \<Rightarrow> AccountInfo \<Rightarrow> AccountInfo \<Rightarrow> AccountInfo \<Rightarrow> u64 \<Rightarrow> unit result" where
  "deposit_checks E program_id p pool_ai vault_ai lp_mint_ai vault_auth_ai amount =
     require (lp_mint p = key lp_mint_ai) (stake_err InvalidMint) (
     require (vault p = key vault_ai) (stake_err InvalidPda) (
     require (\<not> market_resolved p) (stake_err MarketResolved) (
     require (key vault_auth_ai = fst (derive_vault_authority (find_program_address E) program_id (key pool_ai)))
       (stake_err InvalidAccount) (
     check_deposit_cap amount p))))"

definition process_deposit :: "env \<Rightarrow> pubkey \<Rightarrow> AccountInfo list \<Rightarrow> u64 \<Rightarrow> ledger \<Rightarrow> ledger result" where
  "process_deposit E program_id accounts amount L =
     require (amount \<noteq> 0) (stake_err ZeroAmount) (
     require (11 \<le> length accounts) NotEnoughAccountKeys (
     let user_ai = accounts ! 0; pool_ai = accounts ! 1; user_ata_ai = accounts ! 2;
         vault_ai = accounts ! 3; lp_mint_ai = accounts ! 4; user_lp_ata_ai = accounts ! 5;
         vault_auth_ai = accounts ! 6; dep_ai = accounts ! 7; token_ai = accounts ! 8;
         clock_ai = accounts ! 9; system_ai = accounts ! 10; held = [key pool_ai] in
     require (is_signer user_ai) MissingRequiredSignature (
     bind_err (present_pool_account program_id pool_ai L) (\<lambda>_.
     bind_err (open_pool pool_ai L) (\<lambda>p.
     bind_err (deposit_checks E program_id p pool_ai vault_ai lp_mint_ai vault_auth_ai amount) (\<lambda>_.
     bind_err (verify_token_program token_ai) (\<lambda>_.
     bind_err (validate_source_ata held InvalidMint user_ata_ai (collateral_mint p) (key user_ai) L) (\<lambda>_.
     bind_err (validate_lp_recipient_account held user_lp_ata_ai (lp_mint p) (key user_ai) L) (\<lambda>_.
     bind_err (pre_accrue_fee_modes held vault_ai L p) (\<lambda>p1.
     bind_err (price_deposit amount p1) (\<lambda>(lp_to_mint, mint_amount).
     bind_err (deposit_transfers E program_id held pool_ai user_ai user_ata_ai vault_ai lp_mint_ai
                 user_lp_ata_ai vault_auth_ai token_ai amount mint_amount L) (\<lambda>L1.
     bind_err (deposit_totals amount lp_to_mint p1) (\<lambda>p2.
     bind_err (clock_from_account_info E clock_ai L1) (\<lambda>clock.
     bind_err (deposit_refresh_hwm (epoch clock) p2) (\<lambda>p3.
     bind_err (credit_deposit credit_senior_record E program_id held pool_ai user_ai dep_ai system_ai
                 (slot clock) lp_to_mint L1) (\<lambda>L2.
     Inr (write_pool pool_ai p3 L2)))))))))))))))))"

definition process_deposit_junior :: "env \<Rightarrow> pubkey \<Rightarrow> AccountInfo list \<Rightarrow> u64 \<Rightarrow> ledger \<Rightarrow> ledger result" where
  "process_deposit_junior E program_id accounts amount L =
     require (amount \<noteq> 0) (stake_err ZeroAmount) (
     require (11 \<le> length accounts) NotEnoughAccountKeys (
     let user_ai = accounts ! 0; pool_ai = accounts ! 1; user_ata_ai = accounts ! 2;
         vault_ai = accounts ! 3; lp_mint_ai = accounts ! 4; user_lp_ata_ai = accounts ! 5;
         vault_auth_ai = accounts ! 6; dep_ai = accounts ! 7; token_ai = accounts ! 8;
         clock_ai = accounts ! 9; system_ai = accounts ! 10; held = [key pool_ai] in
     require (is_signer user_ai) MissingRequiredSignature (
     bind_err (present_pool_account program_id pool_ai L) (\<lambda>_.
     bind_err (open_pool pool_ai L) (\<lambda>p.
     require (tranche_enabled p) (stake_err TrancheNotEnabled) (
     bind_err (deposit_checks E program_id p pool_ai vault_ai lp_mint_ai vault_auth_ai amount) (\<lambda>_.
     bind_err (verify_token_program token_ai) (\<lambda>_.
     bind_err (validate_source_ata held InvalidAccount user_ata_ai (collateral_mint p) (key user_ai) L) (\<lambda>_.
     bind_err (validate_lp_recipient_account held user_lp_ata_ai (lp_mint p) (key user_ai) L) (\<lambda>_.
     bind_err (pre_accrue_fee_modes held vault_ai L p) (\<lambda>p1.
     bind_err (price_deposit_junior amount p1) (\<lambda>(lp_to_mint, mint_amount).
     bind_err (deposit_transfers E program_id held pool_ai user_ai user_ata_ai vault_ai lp_mint_ai
                 user_lp_ata_ai vault_auth_ai token_ai amount mint_amount L) (\<lambda>L1.
     bind_err (deposit_junior_totals amount lp_to_mint p1) (\<lambda>p2.
     bind_err (clock_from_account_info E clock_ai L1) (\<lambda>clock.
     bind_err (deposit_refresh_hwm (epoch clock) p2) (\<lambda>p3.
     bind_err (credit_deposit credit_junior_record E program_id held pool_ai user_ai dep_ai system_ai
                 (slot clock) lp_to_mint L1) (\<lambda>L2.
     Inr (write_pool pool_ai p3 L2))))))))))))))))))"

end
