(* ===== verification/Withdrawals.thy ===== *)
theory Withdrawals
  imports Fees
begin

text \<open>
  \<open>Withdraw\<close> (\<open>src/processor.rs\<close>): cooldown and ownership checks on the deposit record,
  pricing against the caller's tranche, the high-water-mark floor, the burn and the payout,
  and the settlement of the junior tranche.
\<close>

section \<open>Checks\<close>

text \<open>The LP account burned from: the user's own, of the pool's LP mint.\<close>

definition validate_burn_account ::
  "pubkey list \<Rightarrow> AccountInfo \<Rightarrow> pubkey \<Rightarrow> pubkey \<Rightarrow> ledger \<Rightarrow> unit result" where
  "validate_burn_account held lp_ata_ai mint own L =
     bind_err (try_borrow_data held lp_ata_ai L) (\<lambda>d.
     require (\<not> length d < ACCOUNT_LEN) (stake_err InvalidAccount) (
     bind_err (read_mint d) (\<lambda>mint_bytes.
     require (mint_bytes = mint) (stake_err InvalidMint) (
     bind_err (read_owner d) (\<lambda>owner_bytes.
     require (owner_bytes = own) (stake_err Unauthorized) (Inr ()))))))"

lemma validate_burn_account_eq:
  "validate_burn_account held lp_ata_ai mint own L =
     bind_err (try_borrow_data held lp_ata_ai L) (\<lambda>d.
     require (\<not> length d < ACCOUNT_LEN) (stake_err InvalidAccount) (
     require (token_mint d = mint) (stake_err InvalidMint) (
     require (token_owner d = own) (stake_err Unauthorized) (Inr ()))))"
  unfolding validate_burn_account_def by (simp add: token_checks_read cong: require_cong)

definition validate_deposit_account ::
  "env \<Rightarrow> pubkey \<Rightarrow> pubkey list \<Rightarrow> AccountInfo \<Rightarrow> AccountInfo \<Rightarrow> AccountInfo \<Rightarrow> ledger \<Rightarrow> unit result" where
  "validate_deposit_account E program_id held pool_ai user_ai dep_ai L =
     require (key dep_ai = fst (derive_deposit_pda (find_program_address E) program_id (key pool_ai) (key user_ai)))
       (stake_err InvalidPda) (
     require (account_owner dep_ai L = program_id) (stake_err InvalidAccount) (
     bind_err (data_len held dep_ai L) (\<lambda>n.
     require (\<not> n < STAKE_DEPOSIT_SIZE) (stake_err InvalidAccount) (
     validate_account_writable dep_ai))))"

text \<open>Cooldown and balance of the record; the result is its tranche flag.\<close>

definition check_deposit_record ::
  "pubkey \<Rightarrow> pubkey \<Rightarrow> u64 \<Rightarrow> u64 \<Rightarrow> u64 \<Rightarrow> StakeDeposit \<Rightarrow> bool result" where
  "check_deposit_record pool_key user_key cooldown now lp r =
     require (deposit_validate_discriminator r) (stake_err InvalidAccount) (
     require (\<not> (dep_is_initialized r \<noteq> 1 \<or> dep_user r \<noteq> user_key \<or> dep_pool r \<noteq> pool_key))
       (stake_err Unauthorized) (
     require (\<not> now < saturating_add (last_deposit_slot r) cooldown) (stake_err CooldownNotElapsed) (
     require (\<not> lp > lp_amount r) (stake_err InsufficientLpTokens)
       (Inr (is_junior_deposit r)))))"

section \<open>Pricing\<close>

definition price_withdrawal :: "bool \<Rightarrow> u64 \<Rightarrow> StakePool \<Rightarrow> u64 result" where
  "price_withdrawal is_junior lp p =
     (if tranche_enabled p \<and> is_junior then
        ok_or (calc_junior_collateral_for_withdraw (junior_total_lp p) (effective_junior_balance p) lp)
          (stake_err Overflow)
      else if tranche_enabled p then
        bind_err (ok_or (senior_balance p) (stake_err Overflow)) (\<lambda>senior_bal.
        ok_or (calc_senior_collateral_for_withdraw (senior_total_lp p) senior_bal lp) (stake_err Overflow))
      else ok_or (pool_calc_collateral_for_withdraw lp p) (stake_err Overflow))"

definition fully_wiped_junior_exit :: "bool \<Rightarrow> u64 \<Rightarrow> StakePool \<Rightarrow> bool" where
  "fully_wiped_junior_exit is_junior withdrawal_amount p \<longleftrightarrow>
     tranche_enabled p \<and> is_junior \<and> effective_junior_balance p = 0 \<and> withdrawal_amount = 0"

definition enforce_hwm_floor :: "u64 \<Rightarrow> u64 \<Rightarrow> bool \<Rightarrow> StakePool \<Rightarrow> StakePool result" where
  "enforce_hwm_floor current_epoch withdrawal_amount wiped p =
     (if hwm_enabled p \<and> \<not> wiped then
        bind_err (ok_or (total_pool_value p) (stake_err Overflow)) (\<lambda>current_tvl.
        let (hwm, p1) = refresh_hwm current_epoch current_tvl p in
        bind_err (ok_or (checked_sub current_tvl withdrawal_amount) (stake_err Overflow)) (\<lambda>post_tvl.
        require (hwm_withdrawal_allowed post_tvl hwm (hwm_floor_bps p1))
          (stake_err WithdrawalBelowHwmFloor) (Inr p1)))
      else Inr p)"

section \<open>Settlement\<close>

text \<open>
  The last junior leaves: the loss it absorbed is settled (\<open>total_returned\<close>) and booked as
  realised, and the raw junior balance is cleared.
\<close>

definition settle_last_junior :: "StakePool \<Rightarrow> StakePool result" where
  "settle_last_junior p =
     (let net_loss = saturating_sub (total_flushed p) (total_returned p) in
      bind_err
        (if net_loss > 0 then
           (let forfeited = min (saturating_sub (junior_balance p) (effective_junior_balance p)) net_loss in
            if forfeited > 0 then
              bind_err (ok_or (checked_add (total_returned p) forfeited) (stake_err Overflow)) (\<lambda>r.
              let p1 = p\<lparr>total_returned := r\<rparr> in
              bind_err (ok_or (checked_add (realized_junior_loss p1) forfeited) (stake_err Overflow)) (\<lambda>q.
              Inr (set_realized_junior_loss q p1)))
            else Inr p)
         else Inr p) (\<lambda>p2.
      Inr (set_junior_balance 0 p2)))"

definition withdraw_totals :: "bool \<Rightarrow> u64 \<Rightarrow> u64 \<Rightarrow> StakePool \<Rightarrow> StakePool result" where
  "withdraw_totals is_junior withdrawal_amount lp p =
     bind_err (ok_or (checked_add (total_withdrawn p) withdrawal_amount) (stake_err Overflow)) (\<lambda>w.
     bind_err (ok_or (checked_sub (total_lp_supply p) lp) (stake_err Overflow)) (\<lambda>s.
     let p1 = p\<lparr>total_withdrawn := w, total_lp_supply := s\<rparr> in
     if tranche_enabled p1 \<and> is_junior then
       bind_err (ok_or (checked_sub (junior_total_lp p1) lp) (stake_err Overflow)) (\<lambda>new_junior_lp.
       let p2 = set_junior_total_lp new_junior_lp p1 in
       if new_junior_lp = 0 then settle_last_junior p2
       else bind_err (ok_or (checked_sub (junior_balance p2) withdrawal_amount) (stake_err Overflow)) (\<lambda>jb.
            Inr (set_junior_balance jb p2)))
     else Inr p1))"

definition debit_deposit_record :: "u64 \<Rightarrow> StakeDeposit \<Rightarrow> StakeDeposit result" where
  "debit_deposit_record lp r =
     bind_err (ok_or (checked_sub (lp_amount r) lp) (stake_err InsufficientLpTokens)) (\<lambda>rest.
     let r1 = r\<lparr>lp_amount := rest\<rparr> in
     Inr (if rest = 0
          then r1\<lparr>dep_is_initialized := 0, dep_reserved := put_bytes 8 [0] (dep_reserved r1)\<rparr>
          else r1))"

text \<open>The burn of the LP and the payout from the vault, signed by its authority PDA.\<close>

definition withdraw_transfers ::
  "env \<Rightarrow> pubkey \<Rightarrow> pubkey list \<Rightarrow> StakePool \<Rightarrow> AccountInfo \<Rightarrow> AccountInfo \<Rightarrow> AccountInfo \<Rightarrow> AccountInfo \<Rightarrow>
   AccountInfo \<Rightarrow> AccountInfo \<Rightarrow> AccountInfo \<Rightarrow> AccountInfo \<Rightarrow> u64 \<Rightarrow> u64 \<Rightarrow> ledger \<Rightarrow> ledger result" where
  "withdraw_transfers E program_id held p pool_ai user_ai user_lp_ata_ai lp_mint_ai vault_ai user_ata_ai
       vault_auth_ai token_ai lp withdrawal_amount L =
     bind_err (spl_burn (key token_ai) (key user_lp_ata_ai) (key lp_mint_ai) (key user_ai) [] lp) (\<lambda>ix.
     bind_err (runtime_invoke E held ix [user_lp_ata_ai, lp_mint_ai, user_ai, token_ai] [] L) (\<lambda>L1.
     require (vault_authority_bump p =
                snd (derive_vault_authority (find_program_address E) program_id (key pool_ai)))
       (stake_err InvalidPda) (
     if withdrawal_amount > 0 then
       bind_err (spl_transfer (key token_ai) (key vault_ai) (key user_ata_ai) (key vault_auth_ai) []
                   withdrawal_amount) (\<lambda>ix2.
       runtime_invoke E held ix2 [vault_ai, user_ata_ai, vault_auth_ai, token_ai]
         [vault_auth_seeds pool_ai (vault_authority_bump p)] L1)
     else Inr L1)))"

section \<open>Handler\<close>

definition process_withdraw :: "env \<Rightarrow> pubkey \<Rightarrow> AccountInfo list \<Rightarrow> u64 \<Rightarrow> ledger \<Rightarrow> ledger result" where
  "process_withdraw E program_id accounts lp L =
     require (lp \<noteq> 0) (stake_err ZeroAmount) (
     require (10 \<le> length accounts) NotEnoughAccountKeys (
     let user_ai = accounts ! 0; pool_ai = accounts ! 1; user_lp_ata_ai = accounts ! 2;
         lp_mint_ai = accounts ! 3; vault_ai = accounts ! 4; user_ata_ai = accounts ! 5;
         vault_auth_ai = accounts ! 6; dep_ai = accounts ! 7; token_ai = accounts ! 8;
         clock_ai = accounts ! 9; held = [key pool_ai] in
     require (is_signer user_ai) MissingRequiredSignature (
     bind_err (present_pool_account program_id pool_ai L) (\<lambda>_.
     bind_err (open_pool pool_ai L) (\<lambda>p.
     require (lp_mint p = key lp_mint_ai) (stake_err InvalidMint) (
     require (vault p = key vault_ai) (stake_err InvalidPda) (
     bind_err (verify_token_program token_ai) (\<lambda>_.
     bind_err (validate_burn_account held user_lp_ata_ai (lp_mint p) (key user_ai) L) (\<lambda>_.
     require (key user_ata_ai \<noteq> key vault_ai) (stake_err InvalidAccount) (
     bind_err (validate_mint_of held user_ata_ai (collateral_mint p) L) (\<lambda>_.
     require (key vault_auth_ai = fst (derive_vault_authority (find_program_address E) program_id (key pool_ai)))
       (stake_err InvalidAccount) (
     bind_err (validate_deposit_account E program_id held pool_ai user_ai dep_ai L) (\<lambda>_.
     bind_err (clock_from_account_info E clock_ai L) (\<lambda>clock.
     bind_err (try_borrow_data held dep_ai L) (\<lambda>dd.
     bind_err (deposit_from_data dd) (\<lambda>r.
     bind_err (check_deposit_record (key pool_ai) (key user_ai) (cooldown_slots p) (slot clock) lp r) (\<lambda>is_junior.
     bind_err (pre_accrue_fee_modes held vault_ai L p) (\<lambda>p1.
     bind_err (price_withdrawal is_junior lp p1) (\<lambda>withdrawal_amount.
     let wiped = fully_wiped_junior_exit is_junior withdrawal_amount p1 in
     require (\<not> (withdrawal_amount = 0 \<and> \<not> wiped)) (stake_err ZeroAmount) (
     bind_err (enforce_hwm_floor (epoch clock) withdrawal_amount wiped p1) (\<lambda>p2.
     bind_err (withdraw_transfers E program_id held p2 pool_ai user_ai user_lp_ata_ai lp_mint_ai vault_ai
                 user_ata_ai vault_auth_ai token_ai lp withdrawal_amount L) (\<lambda>L1.
     bind_err (withdraw_totals is_junior withdrawal_amount lp p2) (\<lambda>p3.
     bind_err (try_borrow_data held dep_ai L1) (\<lambda>dd1.
     bind_err (deposit_from_data dd1) (\<lambda>r1.
     bind_err (debit_deposit_record lp r1) (\<lambda>r2.
     Inr (write_pool pool_ai p3 (write_deposit dep_ai r2 L1))))))))))))))))))))))))))))"

end
