(* ===== verification/Init_Pool.thy ===== *)
theory Init_Pool
  imports Guards
begin

text \<open>
  Pool creation (\<open>src/processor.rs\<close>): the checks, the accounts created, the hand-over of the
  wrapper's market authority to the pool PDA, and the genesis state.
\<close>

definition PERCOLATOR_MAINNET :: pubkey where
  "PERCOLATOR_MAINNET = array_of
     [0xC7, 0xB4, 0xE7, 0x1C, 0xA9, 0x7F, 0xDF, 0x06, 0x0D, 0x40, 0xDF, 0x1F, 0xE5, 0xED, 0xB7, 0x02,
      0xB6, 0xC9, 0x4E, 0x57, 0xEB, 0xB4, 0x28, 0xCD, 0x57, 0x3A, 0x26, 0x74, 0xF1, 0x1B, 0x2B, 0x29]"

definition PERCOLATOR_DEVNET :: pubkey where
  "PERCOLATOR_DEVNET = array_of
     [0xBC, 0xA8, 0x95, 0xF4, 0x50, 0x04, 0xBE, 0x77, 0xCA, 0xD9, 0xD4, 0x3C, 0x77, 0xAB, 0xB7, 0x1E,
      0xC8, 0x81, 0x41, 0x22, 0xED, 0x37, 0xAB, 0x97, 0xAE, 0xBF, 0x98, 0xCE, 0x73, 0xDF, 0x63, 0xB0]"

definition allowed_percolator :: "env \<Rightarrow> pubkey \<Rightarrow> bool" where
  "allowed_percolator E k \<longleftrightarrow>
     k = PERCOLATOR_MAINNET \<or> (devnet_feature E \<and> k = PERCOLATOR_DEVNET)"

definition init_pool_checks ::
  "env \<Rightarrow> pubkey \<Rightarrow> AccountInfo \<Rightarrow> AccountInfo \<Rightarrow> AccountInfo \<Rightarrow> AccountInfo \<Rightarrow> AccountInfo \<Rightarrow> AccountInfo \<Rightarrow>
   AccountInfo \<Rightarrow> AccountInfo \<Rightarrow> AccountInfo \<Rightarrow> u64 \<Rightarrow> ledger \<Rightarrow> (u8 \<times> u8) result" where
  "init_pool_checks E program_id admin_ai slab_ai pool_ai lp_mint_ai vault_auth_ai coll_ai perc_ai
       token_ai rent_ai cooldown L =
     require (is_signer admin_ai) MissingRequiredSignature (
     require (allowed_percolator E (key perc_ai)) (stake_err InvalidPercolatorProgram) (
     bind_err (validate_cooldown_slots cooldown) (\<lambda>_.
     let (expected_pool, pool_bump) = derive_pool_pda (find_program_address E) program_id (key slab_ai) in
     require (key pool_ai = expected_pool) (stake_err InvalidPda) (
     bind_err (data_is_empty [] pool_ai L) (\<lambda>empty.
     require empty (stake_err AlreadyInitialized) (
     let (expected_vault_auth, vault_auth_bump) =
           derive_vault_authority (find_program_address E) program_id expected_pool in
     require (key vault_auth_ai = expected_vault_auth) (stake_err InvalidPda) (
     require (key lp_mint_ai \<noteq> key coll_ai) (stake_err InvalidMint) (
     bind_err (verify_token_program token_ai) (\<lambda>_.
     require (account_owner slab_ai L = key perc_ai) (stake_err InvalidPercolatorProgram) (
     require (is_writable slab_ai) InvalidArgument (
     bind_err (rent_from_account_info E rent_ai L) (\<lambda>_.
     Inr (pool_bump, vault_auth_bump)))))))))))))"

text \<open>The wrapper hand-over, then the LP mint and the vault account.\<close>

definition init_pool_calls ::
  "env \<Rightarrow> AccountInfo \<Rightarrow> AccountInfo \<Rightarrow> AccountInfo \<Rightarrow> AccountInfo \<Rightarrow> AccountInfo \<Rightarrow> AccountInfo \<Rightarrow>
   AccountInfo \<Rightarrow> AccountInfo \<Rightarrow> AccountInfo \<Rightarrow> AccountInfo \<Rightarrow> u8 \<Rightarrow> u8 \<Rightarrow> ledger \<Rightarrow> ledger result" where
  "init_pool_calls E admin_ai slab_ai pool_ai lp_mint_ai vault_ai vault_auth_ai coll_ai perc_ai
       token_ai rent_ai pool_bump vault_auth_bump L =
     bind_err (cpi_update_authority E [] perc_ai admin_ai pool_ai slab_ai (pool_seeds slab_ai pool_bump) L) (\<lambda>L1.
     bind_err (try_borrow_data [] coll_ai L1) (\<lambda>md.
     require (\<not> length md < MINT_LEN) (stake_err InvalidAccount) (
     bind_err (mint_unpack md) (\<lambda>mint.
     bind_err (initialize_mint E (key token_ai) (key lp_mint_ai) (key vault_auth_ai) None
                 (mint_decimals mint)) (\<lambda>ix.
     bind_err (runtime_invoke E [] ix [lp_mint_ai, rent_ai] [vault_auth_seeds pool_ai vault_auth_bump] L1) (\<lambda>L2.
     bind_err (initialize_account E (key token_ai) (key vault_ai) (key coll_ai) (key vault_auth_ai)) (\<lambda>ix2.
     runtime_invoke E [] ix2 [vault_ai, coll_ai, vault_auth_ai, rent_ai]
       [vault_auth_seeds pool_ai vault_auth_bump] L2)))))))"

text \<open>The genesis state written over the freshly created account.\<close>

definition genesis_pool ::
  "u8 \<Rightarrow> u8 \<Rightarrow> pubkey \<Rightarrow> pubkey \<Rightarrow> pubkey \<Rightarrow> pubkey \<Rightarrow> pubkey \<Rightarrow> pubkey \<Rightarrow> u64 \<Rightarrow> u64 \<Rightarrow> StakePool \<Rightarrow> StakePool" where
  "genesis_pool pool_bump vault_auth_bump slab_key admin_key coll_key lp_mint_key vault_key perc_key
       cooldown cap p =
     set_discriminator
       (p\<lparr>is_initialized := 1, bump := pool_bump, vault_authority_bump := vault_auth_bump,
          admin_transferred := 0, slab := slab_key, admin := admin_key, collateral_mint := coll_key,
          lp_mint := lp_mint_key, vault := vault_key, total_deposited := 0, total_lp_supply := 0,
          cooldown_slots := cooldown, deposit_cap := cap, total_flushed := 0, total_returned := 0,
          total_withdrawn := 0, percolator_program := perc_key, total_fees_earned := 0,
          last_fee_accrual_slot := 0, last_vault_snapshot := 0, pool_mode := 0,
          pending_admin := fill 0\<rparr>)"

definition process_init_pool ::
  "env \<Rightarrow> pubkey \<Rightarrow> AccountInfo list \<Rightarrow> u64 \<Rightarrow> u64 \<Rightarrow> ledger \<Rightarrow> ledger result" where
  "process_init_pool E program_id accounts cooldown cap L =
     require (11 \<le> length accounts) NotEnoughAccountKeys (
     let admin_ai = accounts ! 0; slab_ai = accounts ! 1; pool_ai = accounts ! 2;
         lp_mint_ai = accounts ! 3; vault_ai = accounts ! 4; vault_auth_ai = accounts ! 5;
         coll_ai = accounts ! 6; perc_ai = accounts ! 7; token_ai = accounts ! 8;
         system_ai = accounts ! 9; rent_ai = accounts ! 10 in
     bind_err (init_pool_checks E program_id admin_ai slab_ai pool_ai lp_mint_ai vault_auth_ai coll_ai
                 perc_ai token_ai rent_ai cooldown L) (\<lambda>(pool_bump, vault_auth_bump).
     bind_err (create_or_adopt_pda E [] pool_ai admin_ai system_ai program_id STAKE_POOL_SIZE
                 (pool_seeds slab_ai pool_bump) L) (\<lambda>L1.
     bind_err (init_pool_calls E admin_ai slab_ai pool_ai lp_mint_ai vault_ai vault_auth_ai coll_ai
                 perc_ai token_ai rent_ai pool_bump vault_auth_bump L1) (\<lambda>L2.
     bind_err (try_borrow_data [] pool_ai L2) (\<lambda>d.
     bind_err (pool_from_data d) (\<lambda>p.
     Inr (write_pool pool_ai
            (genesis_pool pool_bump vault_auth_bump (key slab_ai) (key admin_ai) (key coll_ai)
               (key lp_mint_ai) (key vault_ai) (key perc_ai) cooldown cap p) L2)))))))"

definition process_init_trading_pool ::
  "env \<Rightarrow> pubkey \<Rightarrow> AccountInfo list \<Rightarrow> u64 \<Rightarrow> u64 \<Rightarrow> ledger \<Rightarrow> ledger result" where
  "process_init_trading_pool E program_id accounts cooldown cap L =
     bind_err (process_init_pool E program_id accounts cooldown cap L) (\<lambda>L1.
     bind_err (index_at INIT_POOL_POOL_PDA_INDEX accounts) (\<lambda>pool_ai.
     bind_err (validate_account_owner pool_ai program_id L1) (\<lambda>_.
     bind_err (try_borrow_data [] pool_ai L1) (\<lambda>d.
     bind_err (pool_from_data d) (\<lambda>p.
     require (validate_discriminator p) (stake_err InvalidAccount)
       (Inr (write_pool pool_ai (p\<lparr>pool_mode := 1\<rparr>) L1)))))))"

text \<open>The pool creation has checked that the account list is long enough.\<close>

lemma process_init_trading_pool_eq:
  "process_init_trading_pool E program_id accounts cooldown cap L =
     bind_err (process_init_pool E program_id accounts cooldown cap L) (\<lambda>L1.
     let pool_ai = accounts ! INIT_POOL_POOL_PDA_INDEX in
     bind_err (validate_account_owner pool_ai program_id L1) (\<lambda>_.
     bind_err (try_borrow_data [] pool_ai L1) (\<lambda>d.
     bind_err (pool_from_data d) (\<lambda>p.
     require (validate_discriminator p) (stake_err InvalidAccount)
       (Inr (write_pool pool_ai (p\<lparr>pool_mode := 1\<rparr>) L1))))))"
proof -
  have "process_init_pool E program_id accounts cooldown cap L = Inr L1 \<Longrightarrow> 11 \<le> length accounts" for L1
    by (simp add: process_init_pool_def)
  then show ?thesis
    unfolding process_init_trading_pool_def
    by (cases "process_init_pool E program_id accounts cooldown cap L") (simp_all add: INIT_POOL_POOL_PDA_INDEX_def Let_def)
qed

end
