(* ===== verification/Process.thy ===== *)
theory Process
  imports Instruction Admin Insurance Deposits Withdrawals Init_Pool
begin

text \<open>The entry point (\<open>processor::process\<close>): decode the instruction and run its handler.\<close>

definition process :: "env \<Rightarrow> pubkey \<Rightarrow> AccountInfo list \<Rightarrow> u8 list \<Rightarrow> ledger \<Rightarrow> ledger result" where
  "process E program_id accounts instruction_data L =
     bind_err (unpack instruction_data) (\<lambda>ins.
     case ins of
       InitPool c d \<Rightarrow> process_init_pool E program_id accounts c d L
     | Deposit a \<Rightarrow> process_deposit E program_id accounts a L
     | Withdraw l \<Rightarrow> process_withdraw E program_id accounts l L
     | FlushToInsurance a \<Rightarrow> process_flush_to_insurance E program_id accounts a L
     | UpdateConfig c d \<Rightarrow> process_update_config program_id accounts c d L
     | ProposeAdmin k \<Rightarrow> process_propose_admin program_id accounts k L
     | AcceptAdmin \<Rightarrow> process_accept_admin program_id accounts L
     | ProposeCooldownIncrease s \<Rightarrow> process_propose_cooldown_increase E program_id accounts s L
     | CommitCooldownIncrease \<Rightarrow> process_commit_cooldown_increase E program_id accounts L
     | CancelCooldownIncrease \<Rightarrow> process_cancel_cooldown_increase program_id accounts L
     | BindInsuranceAuthority \<Rightarrow> process_bind_insurance_authority E program_id accounts L
     | RotateInsuranceAuthority \<Rightarrow> process_rotate_insurance_authority E program_id accounts L
     | BurnAssetAdmin \<Rightarrow> process_burn_asset_admin E program_id accounts L
     | RotateInsuranceOperator \<Rightarrow> process_rotate_insurance_operator E program_id accounts L
     | ReturnInsurance a \<Rightarrow> process_return_insurance E program_id accounts a L
     | RecoverFlushedInsurance a \<Rightarrow> process_recover_flushed_insurance E program_id accounts a L
     | AccrueFees \<Rightarrow> process_accrue_fees E program_id accounts L
     | InitTradingPool c d \<Rightarrow> process_init_trading_pool E program_id accounts c d L
     | AdminSetHwmConfig b f \<Rightarrow> process_admin_set_hwm_config program_id accounts b f L
     | AdminSetTrancheConfig m \<Rightarrow> process_admin_set_tranche_config program_id accounts m L
     | DepositJunior a \<Rightarrow> process_deposit_junior E program_id accounts a L
     | SetMarketResolved \<Rightarrow> process_set_market_resolved program_id accounts L
     | AdminResolveMarket \<Rightarrow> process_admin_resolve_market E program_id accounts L
     | AdminUpdateFeeSplit a b c \<Rightarrow> process_admin_update_fee_split E program_id accounts a b c L
     | AdminUpdateMaintenanceFeePerSlot f \<Rightarrow>
         process_admin_update_maintenance_fee_per_slot E program_id accounts f L
     | AdminUpdateBackingFeePolicy a b c \<Rightarrow>
         process_admin_update_backing_fee_policy E program_id accounts a b c L
     | AdminUpdateTradeFeePolicy t \<Rightarrow> process_admin_update_trade_fee_policy E program_id accounts t L)"

text \<open>The entrypoint (\<open>src/entrypoint.rs\<close>) hands the instruction to \<open>process\<close>.\<close>

definition process_instruction :: "env \<Rightarrow> pubkey \<Rightarrow> AccountInfo list \<Rightarrow> u8 list \<Rightarrow> ledger \<Rightarrow> ledger result" where
  "process_instruction E program_id accounts instruction_data L = process E program_id accounts instruction_data L"

end
