(* ===== verification/Frame.thy ===== *)
theory Frame
  imports Process
begin

text \<open>
  The frame of cross-program calls.  A called program cannot write an account owned by this
  program, and an account handed to this program arrives zero-filled (Solana's ownership
  rules); the calls the handlers make go to the token, system and wrapper programs, never
  back into this one.  The system program's \<open>create_account\<close> and \<open>assign\<close> leave the account
  with the requested owner.  \<open>cpi_frame\<close> states those rules of the parameter; every call of
  the handlers then \<open>keeps\<close> the program's accounts.
\<close>

section \<open>What a cross-program call leaves alone\<close>

definition keeps :: "pubkey \<Rightarrow> ledger \<Rightarrow> ledger \<Rightarrow> bool" where
  "keeps pid L L' \<longleftrightarrow>
     (\<forall>k. if acc_owner (L k) = pid
          then acc_owner (L' k) = pid \<and> acc_data (L' k) = acc_data (L k)
          else acc_owner (L' k) = pid \<longrightarrow> set (acc_data (L' k)) \<subseteq> {0})"

definition cpi_frame :: "env \<Rightarrow> pubkey \<Rightarrow> bool" where
  "cpi_frame E pid \<longleftrightarrow>
     (\<forall>held ix infos seeds L L'. ix_program_id ix \<noteq> pid \<longrightarrow>
        runtime_invoke E held ix infos seeds L = Inr L' \<longrightarrow> keeps pid L L')
     \<and> spl_token_id \<noteq> pid \<and> \<not> allowed_percolator E pid
     \<and> (\<forall>a b c d e. ix_program_id (system_create_account E a b c d e) \<noteq> pid)
     \<and> (\<forall>a b c. ix_program_id (system_transfer E a b c) \<noteq> pid)
     \<and> (\<forall>a b. ix_program_id (system_allocate E a b) \<noteq> pid)
     \<and> (\<forall>a b. ix_program_id (system_assign E a b) \<noteq> pid)
     \<and> (\<forall>held a b c d e infos seeds L L'.
          runtime_invoke E held (system_create_account E a b c d e) infos seeds L = Inr L'
            \<longrightarrow> acc_owner (L' b) = e)
     \<and> (\<forall>held a b infos seeds L L'.
          runtime_invoke E held (system_assign E a b) infos seeds L = Inr L' \<longrightarrow> acc_owner (L' a) = b)"

lemma keeps_refl [simp]: "keeps pid L L"
  by (simp add: keeps_def)

lemma keeps_trans: "keeps pid L L1 \<Longrightarrow> keeps pid L1 L2 \<Longrightarrow> keeps pid L L2"
  unfolding keeps_def by (metis (no_types, lifting))

lemma keeps_pool:
  "keeps pid L L' \<Longrightarrow> acc_owner (L k) = pid \<Longrightarrow> pool_bytes_at L' k p = pool_bytes_at L k p"
  by (simp add: keeps_def pool_bytes_at_def)

lemma invoke_keeps:
  "cpi_frame E pid \<Longrightarrow> runtime_invoke E held ix infos seeds L = Inr L' \<Longrightarrow> ix_program_id ix \<noteq> pid
     \<Longrightarrow> keeps pid L L'"
  by (auto simp: cpi_frame_def)

lemma wrapper_call_keeps:
  assumes "cpi_frame E pid" and "key perc_ai \<noteq> pid"
  shows
    "cpi_top_up_insurance E held perc_ai a b c d e amt seeds L = Inr L' \<Longrightarrow> keeps pid L L'"
    "cpi_withdraw_insurance_asset E held perc_ai a b c d e f amt seeds L = Inr L' \<Longrightarrow> keeps pid L L'"
    "cpi_update_authority E held perc_ai a b c seeds L = Inr L' \<Longrightarrow> keeps pid L L'"
    "cpi_bind_insurance_authority E held perc_ai a b c seeds L = Inr L' \<Longrightarrow> keeps pid L L'"
    "cpi_bind_insurance_operator E held perc_ai a b c seeds L = Inr L' \<Longrightarrow> keeps pid L L'"
    "cpi_burn_asset_admin E held perc_ai a b c L = Inr L' \<Longrightarrow> keeps pid L L'"
    "cpi_rotate_insurance_operator E held perc_ai a b c seeds L = Inr L' \<Longrightarrow> keeps pid L L'"
    "cpi_rotate_insurance_authority E held perc_ai a b c seeds L = Inr L' \<Longrightarrow> keeps pid L L'"
    "cpi_resolve_market E held perc_ai a b seeds L = Inr L' \<Longrightarrow> keeps pid L L'"
    "cpi_update_fee_split E held perc_ai a b s1 s2 s3 seeds L = Inr L' \<Longrightarrow> keeps pid L L'"
    "cpi_update_maintenance_fee_per_slot E held perc_ai a b fee seeds L = Inr L' \<Longrightarrow> keeps pid L L'"
    "cpi_update_backing_fee_policy E held perc_ai a b s1 s2 s3 seeds L = Inr L' \<Longrightarrow> keeps pid L L'"
    "cpi_update_trade_fee_policy E held perc_ai a b tf seeds L = Inr L' \<Longrightarrow> keeps pid L L'"
  using assms
  by (auto simp: wrapper_calls top_up_insurance_ix_def withdraw_insurance_asset_ix_def
      update_authority_ix_def signed_market_ix_def elim!: invoke_keeps)

lemma frame_ids:
  assumes "cpi_frame E pid"
  shows "spl_token_id \<noteq> pid" "ix_program_id (system_create_account E a b c d e) \<noteq> pid"
    "ix_program_id (system_transfer E a b c) \<noteq> pid" "ix_program_id (system_allocate E a b') \<noteq> pid"
    "ix_program_id (system_assign E a b) \<noteq> pid"
  using assms by (auto simp: cpi_frame_def)

lemma known_call_keeps:
  assumes "cpi_frame E pid"
  shows
    "runtime_invoke E held (system_create_account E a b c d e) infos seeds L = Inr L' \<Longrightarrow> keeps pid L L'"
    "runtime_invoke E held (system_transfer E a b c) infos seeds L = Inr L' \<Longrightarrow> keeps pid L L'"
    "runtime_invoke E held (system_allocate E a c) infos seeds L = Inr L' \<Longrightarrow> keeps pid L L'"
    "runtime_invoke E held (system_assign E a b) infos seeds L = Inr L' \<Longrightarrow> keeps pid L L'"
    "runtime_invoke E held \<lparr>ix_program_id = spl_token_id, ix_accounts = ms, ix_data = dt\<rparr> infos seeds L
       = Inr L' \<Longrightarrow> keeps pid L L'"
  by (rule invoke_keeps [OF assms], assumption, simp add: frame_ids [OF assms])+

lemma create_or_adopt_keeps:
  assumes F: "cpi_frame E pid" and "create_or_adopt_pda E held t p s own space seeds L = Inr L'"
  shows "keeps pid L L'"
  using assms(2)
  by (auto simp: create_or_adopt_pda_eq Let_def dest!: known_call_keeps [OF F] intro: keeps_trans
      split: if_splits)

lemma create_or_adopt_owner:
  assumes F: "cpi_frame E pid" and "create_or_adopt_pda E held t p s own space seeds L = Inr L'"
  shows "acc_owner (L' (key t)) = own"
  using assms(2) F by (auto simp: create_or_adopt_pda_eq Let_def cpi_frame_def split: if_splits)

lemma deposit_transfers_keeps:
  assumes F: "cpi_frame E pid" and "deposit_transfers E pid held a b c d e f g h amt m L = Inr L'"
  shows "keeps pid L L'"
  using assms(2)
  by (auto simp: deposit_transfers_def spl_transfer_def mint_to_def Let_def case_prod_beta
      dest!: known_call_keeps [OF F] intro: keeps_trans)

lemma withdraw_transfers_keeps:
  assumes F: "cpi_frame E pid"
    and "withdraw_transfers E pid held p a b c d e f g h lp amt L = Inr L'"
  shows "keeps pid L L'"
  using assms(2)
  by (auto simp: withdraw_transfers_def spl_transfer_def spl_burn_def dest!: known_call_keeps [OF F]
      intro: keeps_trans split: if_splits)

end
