(* ===== verification/Transitions.thy ===== *)
theory Transitions
  imports Frame
begin

text \<open>
  The handlers as steps of an abstract state machine.  \<open>pool_step\<close> is the specification of
  one instruction's effect on one pool, free of accounts and bytes; the locales
  \<open>pool_handler\<close> and \<open>signing_handler\<close> are the contracts the handlers meet, and each
  handler interprets one of them.
\<close>

section \<open>The pool as a state machine\<close>

text \<open>
  What a step depends on besides the pool: the account that acts (the first of the
  instruction), the clock, the vault balance read from the ledger, and the tranche flag of
  the caller's deposit record.
\<close>

record step_ctx =
  actor :: pubkey
  clock_now :: Clock
  vault_bal :: u64
  junior_flag :: bool

definition pre_accrue_pool :: "u64 \<Rightarrow> StakePool \<Rightarrow> StakePool result" where
  "pre_accrue_pool bal p = (if pool_mode p \<le> 1 then accrue_fees_inner bal p else Inr p)"

inductive pool_step :: "step_ctx \<Rightarrow> StakeInstruction \<Rightarrow> StakePool \<Rightarrow> StakePool \<Rightarrow> bool" for c where
  step_deposit:
    "\<lbrakk>a \<noteq> 0; \<not> market_resolved p; check_deposit_cap a p = Inr ();
      pre_accrue_pool (vault_bal c) p = Inr p1; price_deposit a p1 = Inr (lp, minted);
      deposit_totals a lp p1 = Inr p2; deposit_refresh_hwm (epoch (clock_now c)) p2 = Inr p'\<rbrakk>
     \<Longrightarrow> pool_step c (Deposit a) p p'"
| step_deposit_junior:
    "\<lbrakk>a \<noteq> 0; tranche_enabled p; \<not> market_resolved p; check_deposit_cap a p = Inr ();
      pre_accrue_pool (vault_bal c) p = Inr p1; price_deposit_junior a p1 = Inr (lp, minted);
      deposit_junior_totals a lp p1 = Inr p2; deposit_refresh_hwm (epoch (clock_now c)) p2 = Inr p'\<rbrakk>
     \<Longrightarrow> pool_step c (DepositJunior a) p p'"
| step_withdraw:
    "\<lbrakk>lp \<noteq> 0; pre_accrue_pool (vault_bal c) p = Inr p1; price_withdrawal (junior_flag c) lp p1 = Inr w;
      w \<noteq> 0 \<or> fully_wiped_junior_exit (junior_flag c) w p1;
      enforce_hwm_floor (epoch (clock_now c)) w (fully_wiped_junior_exit (junior_flag c) w p1) p1 = Inr p2;
      withdraw_totals (junior_flag c) w lp p2 = Inr p'\<rbrakk>
     \<Longrightarrow> pool_step c (Withdraw lp) p p'"
| step_flush:
    "\<lbrakk>a \<noteq> 0; admin p = actor c; pool_mode p = 0; \<not> market_resolved p;
      total_pool_value p = Some v; a \<le> v; flush_pool a p = Inr p'\<rbrakk>
     \<Longrightarrow> pool_step c (FlushToInsurance a) p p'"
| step_return:
    "\<lbrakk>a \<noteq> 0; admin p = actor c; a \<le> saturating_sub (total_flushed p) (total_returned p);
      return_pool a p = Inr p'\<rbrakk>
     \<Longrightarrow> pool_step c (ReturnInsurance a) p p'"
| step_recover:
    "\<lbrakk>a \<noteq> 0; pool_mode p = 0; a \<le> wrapper_recoverable p; recover_pool a p = Inr p'\<rbrakk>
     \<Longrightarrow> pool_step c (RecoverFlushedInsurance a) p p'"
| step_resolve:
    "\<lbrakk>admin p = actor c; resolve_pool p = Inr p'\<rbrakk> \<Longrightarrow> pool_step c SetMarketResolved p p'"
| step_accrue:
    "\<lbrakk>pool_mode p \<le> 1; accrue_fees_inner (vault_bal c) p = Inr p1;
      p' = p1\<lparr>last_fee_accrual_slot := slot (clock_now c), last_vault_snapshot := vault_bal c\<rparr>\<rbrakk>
     \<Longrightarrow> pool_step c AccrueFees p p'"
| step_config:
    "\<lbrakk>admin p = actor c; update_config_pool x y p = Inr p'\<rbrakk> \<Longrightarrow> pool_step c (UpdateConfig x y) p p'"
| step_propose_admin:
    "\<lbrakk>admin p = actor c; p' = p\<lparr>pending_admin := k\<rparr>\<rbrakk> \<Longrightarrow> pool_step c (ProposeAdmin k) p p'"
| step_accept_admin:
    "accept_admin_pool (actor c) p = Inr p' \<Longrightarrow> pool_step c AcceptAdmin p p'"
| step_propose_cooldown:
    "\<lbrakk>admin p = actor c; propose_cooldown_pool s (slot (clock_now c)) p = Inr p'\<rbrakk>
     \<Longrightarrow> pool_step c (ProposeCooldownIncrease s) p p'"
| step_commit_cooldown:
    "\<lbrakk>admin p = actor c; commit_cooldown_pool (slot (clock_now c)) p = Inr p'\<rbrakk>
     \<Longrightarrow> pool_step c CommitCooldownIncrease p p'"
| step_cancel_cooldown:
    "\<lbrakk>admin p = actor c; cancel_cooldown_pool p = Inr p'\<rbrakk> \<Longrightarrow> pool_step c CancelCooldownIncrease p p'"
| step_hwm:
    "\<lbrakk>admin p = actor c; b \<Longrightarrow> validate_hwm_floor_bps f = Inr (); p' = apply_hwm_config b f p\<rbrakk>
     \<Longrightarrow> pool_step c (AdminSetHwmConfig b f) p p'"
| step_tranche:
    "\<lbrakk>admin p = actor c; set_tranche_config_pool m p = Inr p'\<rbrakk>
     \<Longrightarrow> pool_step c (AdminSetTrancheConfig m) p p'"
| step_burn:
    "\<lbrakk>admin p = actor c; \<not> asset_admin_burned p; p' = set_asset_admin_burned True p\<rbrakk>
     \<Longrightarrow> pool_step c BurnAssetAdmin p p'"

section \<open>Handlers of a pool\<close>

text \<open>
  The contract of a handler that updates the pool at account 1: on success that account held
  a live pool owned by the program, the pool took a step, calls kept the program's accounts,
  and apart from the pool only the deposit record at account 7 was rewritten.
\<close>

definition deposit_bytes_at :: "ledger \<Rightarrow> pubkey \<Rightarrow> StakeDeposit \<Rightarrow> bool" where
  "deposit_bytes_at L k r \<longleftrightarrow>
     STAKE_DEPOSIT_SIZE \<le> length (acc_data (L k))
     \<and> deposit_of_bytes (take STAKE_DEPOSIT_SIZE (acc_data (L k))) = r"

text \<open>The accounts from which an instruction reads the clock and the vault balance.\<close>

definition clock_index :: "StakeInstruction \<Rightarrow> nat option" where
  "clock_index ins =
     (case ins of Deposit a \<Rightarrow> Some 9 | DepositJunior a \<Rightarrow> Some 9 | Withdraw l \<Rightarrow> Some 9 | AccrueFees \<Rightarrow> Some 3
      | ProposeCooldownIncrease s \<Rightarrow> Some 2 | CommitCooldownIncrease \<Rightarrow> Some 2 | _ \<Rightarrow> None)"

definition vault_index :: "StakeInstruction \<Rightarrow> nat option" where
  "vault_index ins =
     (case ins of Deposit a \<Rightarrow> Some 3 | DepositJunior a \<Rightarrow> Some 3 | Withdraw l \<Rightarrow> Some 4 | AccrueFees \<Rightarrow> Some 2
      | _ \<Rightarrow> None)"

definition is_deposit :: "StakeInstruction \<Rightarrow> bool" where
  "is_deposit ins \<longleftrightarrow> (case ins of Deposit a \<Rightarrow> True | DepositJunior a \<Rightarrow> True | _ \<Rightarrow> False)"

definition rewrites_a_record :: "StakeInstruction \<Rightarrow> bool" where
  "rewrites_a_record ins \<longleftrightarrow>
     (case ins of Deposit a \<Rightarrow> True | DepositJunior a \<Rightarrow> True | Withdraw l \<Rightarrow> True | _ \<Rightarrow> False)"

text \<open>
  The context of a step is what the handler read: the acting key, the clock account (after
  the token transfers, in a deposit), the vault's token balance, and for a withdrawal the caller's deposit record, which passes its
  checks.
\<close>

definition reads ::
  "env \<Rightarrow> pubkey \<Rightarrow> AccountInfo list \<Rightarrow> StakeInstruction \<Rightarrow> StakePool \<Rightarrow> ledger \<Rightarrow> step_ctx \<Rightarrow> bool" where
  "reads E pid accs ins p L c \<longleftrightarrow>
     actor c = key (accs ! 0)
     \<and> (case clock_index ins of None \<Rightarrow> True
        | Some i \<Rightarrow> \<exists>L0. (if is_deposit ins then keeps pid L L0 else L0 = L)
            \<and> clock_from_account_info E (accs ! i) L0 = Inr (clock_now c))
     \<and> (case vault_index ins of None \<Rightarrow> True
        | Some i \<Rightarrow> key (accs ! i) = vault p
            \<and> (pool_mode p \<le> 1 \<longrightarrow> vault_balance [key (accs ! 1)] (accs ! i) L = Inr (vault_bal c)))
     \<and> (case ins of
          Withdraw lp \<Rightarrow> \<exists>r. acc_owner (L (key (accs ! 7))) = pid \<and> deposit_bytes_at L (key (accs ! 7)) r
            \<and> key (accs ! 7) = fst (derive_deposit_pda (find_program_address E) pid (key (accs ! 1)) (key (accs ! 0)))
            \<and> check_deposit_record (key (accs ! 1)) (key (accs ! 0)) (cooldown_slots p) (slot (clock_now c)) lp r
                = Inr (junior_flag c)
        | _ \<Rightarrow> True)"

definition record_update ::
  "StakeInstruction \<Rightarrow> pubkey \<Rightarrow> pubkey \<Rightarrow> u64 \<Rightarrow> u64 \<Rightarrow> StakeDeposit \<Rightarrow> StakeDeposit \<Rightarrow> bool" where
  "record_update ins pool user now minted r r' \<longleftrightarrow>
     (case ins of
        Deposit a \<Rightarrow> \<exists>b. credit_senior_record pool user b now minted r = Inr r'
      | DepositJunior a \<Rightarrow> \<exists>b. credit_junior_record pool user b now minted r = Inr r'
      | Withdraw lp \<Rightarrow> debit_deposit_record lp r = Inr r'
      | _ \<Rightarrow> False)"

definition rewrites_record ::
  "env \<Rightarrow> pubkey \<Rightarrow> AccountInfo list \<Rightarrow> StakeInstruction \<Rightarrow> u64 \<Rightarrow> u64 \<Rightarrow> ledger \<Rightarrow> ledger \<Rightarrow> bool" where
  "rewrites_record E pid accs ins now minted L L' \<longleftrightarrow>
     (if rewrites_a_record ins
      then \<exists>r r'. key (accs ! 7) = fst (derive_deposit_pda (find_program_address E) pid (key (accs ! 1)) (key (accs ! 0)))
             \<and> key (accs ! 7) \<noteq> key (accs ! 1) \<and> acc_owner (L (key (accs ! 7))) = pid
             \<and> deposit_bytes_at L (key (accs ! 7)) r
             \<and> record_update ins (key (accs ! 1)) (key (accs ! 0)) now minted r r'
             \<and> L' = write_deposit (accs ! 7) r' L
      else L' = L)"

definition pool_effect ::
  "env \<Rightarrow> pubkey \<Rightarrow> AccountInfo list \<Rightarrow> StakeInstruction \<Rightarrow> ledger \<Rightarrow> ledger \<Rightarrow> bool" where
  "pool_effect E pid accs ins L L' \<longleftrightarrow>
     (\<exists>p. ((\<forall>a. ins \<noteq> RecoverFlushedInsurance a) \<longrightarrow> is_signer (accs ! 0))
        \<and> acc_owner (L (key (accs ! 1))) = pid \<and> pool_bytes_at L (key (accs ! 1)) p \<and> live_pool p
        \<and> (percolator_program p \<noteq> pid \<longrightarrow>
             (\<exists>c p' L1 L2. reads E pid accs ins p L c \<and> pool_step c ins p p' \<and> keeps pid L L1
                \<and> rewrites_record E pid accs ins (slot (clock_now c)) (total_lp_supply p' - total_lp_supply p) L1 L2
                \<and> L' = write_pool (accs ! 1) p' L2)))"

lemma pool_effectI:
  assumes "acc_owner (L (key (accs ! 1))) = pid" and "pool_bytes_at L (key (accs ! 1)) p" and "live_pool p"
    and "(\<forall>a. ins \<noteq> RecoverFlushedInsurance a) \<Longrightarrow> is_signer (accs ! 0)"
    and "percolator_program p \<noteq> pid \<Longrightarrow> reads E pid accs ins p L c \<and> pool_step c ins p p' \<and> keeps pid L L1
      \<and> rewrites_record E pid accs ins (slot (clock_now c)) (total_lp_supply p' - total_lp_supply p) L1 L2
      \<and> L' = write_pool (accs ! 1) p' L2"
  shows "pool_effect E pid accs ins L L'"
  unfolding pool_effect_def using assms by blast

lemma no_record [simp]: "\<not> rewrites_a_record ins \<Longrightarrow> rewrites_record E pid accs ins now m L L"
  by (simp add: rewrites_record_def)

lemmas reads_defs = reads_def clock_index_def vault_index_def is_deposit_def

lemma reads_actor [simp]: "reads E pid accs ins p L c \<Longrightarrow> actor c = key (accs ! 0)"
  by (simp add: reads_def)

lemma reads_clock:
  assumes "reads E pid accs ins p L c" "clock_index ins = Some i" "\<not> is_deposit ins"
  shows "clock_from_account_info E (accs ! i) L = Inr (clock_now c)"
  using assms(1,3) unfolding reads_def assms(2) option.case by auto

lemma reads_vault:
  assumes "reads E pid accs ins p L c" "vault_index ins = Some i"
  shows "key (accs ! i) = vault p"
    and "pool_mode p \<le> 1 \<Longrightarrow> vault_balance [key (accs ! 1)] (accs ! i) L = Inr (vault_bal c)"
  using assms(1) unfolding reads_def assms(2) option.case by blast+

locale pool_handler =
  fixes run :: "env \<Rightarrow> pubkey \<Rightarrow> AccountInfo list \<Rightarrow> ledger \<Rightarrow> ledger result"
    and ins :: StakeInstruction
  assumes effect: "\<lbrakk>cpi_frame E pid; run E pid accs L = Inr L'\<rbrakk> \<Longrightarrow> pool_effect E pid accs ins L L'"

lemma validate_ok [simp]:
  "check_vault_auth E pid a b = Inr x \<longleftrightarrow>
     derive_vault_authority (find_program_address E) pid (key a) = (key b, x)"
  "check_market p a b = Inr u \<longleftrightarrow> slab p = key a \<and> percolator_program p = key b"
  by (auto simp: check_vault_auth_def check_market_def case_prod_beta prod_eq_iff)

lemmas open_ok = open_pool_as_admin_ok open_pool_ok Let_def

definition ctx :: "AccountInfo list \<Rightarrow> Clock \<Rightarrow> u64 \<Rightarrow> bool \<Rightarrow> step_ctx" where
  "ctx accs cl bal j = \<lparr>actor = key (accs ! 0), clock_now = cl, vault_bal = bal, junior_flag = j\<rparr>"

lemma ctx_simps [simp]:
  "actor (ctx accs cl bal j) = key (accs ! 0)" "clock_now (ctx accs cl bal j) = cl"
  "vault_bal (ctx accs cl bal j) = bal" "junior_flag (ctx accs cl bal j) = j"
  by (simp_all add: ctx_def)

text \<open>An admin handler: the pool opened under its admin, one step, the write-back.\<close>

lemma reads_plain:
  assumes "clock_index ins = None" "vault_index ins = None" "\<not> rewrites_a_record ins"
  shows "reads E pid accs ins p L c \<longleftrightarrow> actor c = key (accs ! 0)"
proof -
  have "(case ins of Withdraw lp \<Rightarrow> P lp | _ \<Rightarrow> True) = True" for P
    using assms(3) by (cases ins) (simp_all only: rewrites_a_record_def StakeInstruction.case simp_thms)
  then show ?thesis unfolding reads_def assms(1,2) by simp
qed

lemma admin_effect:
  assumes "open_pool_as_admin pid (accs ! 0) (accs ! 1) L = Inr p"
    and "\<And>c. actor c = admin p \<Longrightarrow> pool_step c ins p p'"
    and "clock_index ins = None" "vault_index ins = None" "\<not> rewrites_a_record ins"
    and "L' = write_pool (accs ! 1) p' L"
  shows "pool_effect E pid accs ins L L'"
  by (rule pool_effectI [where c = "ctx accs undefined 0 False" and p = p and p' = p' and ?L1.0 = L and ?L2.0 = L])
     (use assms in \<open>auto simp: open_pool_as_admin_ok reads_plain\<close>)

lemma step_shape [simp]:
  "clock_index (UpdateConfig x y) = None" "clock_index (ProposeAdmin k) = None"
  "clock_index CancelCooldownIncrease = None" "clock_index (AdminSetHwmConfig b f) = None"
  "clock_index (AdminSetTrancheConfig m) = None" "clock_index SetMarketResolved = None"
  "vault_index (UpdateConfig x y) = None" "vault_index (ProposeAdmin k) = None"
  "vault_index CancelCooldownIncrease = None" "vault_index (AdminSetHwmConfig b f) = None"
  "vault_index (AdminSetTrancheConfig m) = None" "vault_index SetMarketResolved = None"
  by (simp_all add: clock_index_def vault_index_def)

lemma record_shape [simp]:
  "\<not> rewrites_a_record (UpdateConfig x y)" "\<not> rewrites_a_record (ProposeAdmin k)" "\<not> rewrites_a_record AcceptAdmin"
  "\<not> rewrites_a_record CancelCooldownIncrease" "\<not> rewrites_a_record (AdminSetHwmConfig b f)"
  "\<not> rewrites_a_record (AdminSetTrancheConfig m)" "\<not> rewrites_a_record SetMarketResolved"
  "\<not> rewrites_a_record (ProposeCooldownIncrease s)" "\<not> rewrites_a_record CommitCooldownIncrease"
  "\<not> rewrites_a_record AccrueFees" "\<not> rewrites_a_record (FlushToInsurance a)"
  "\<not> rewrites_a_record (ReturnInsurance a)" "\<not> rewrites_a_record (RecoverFlushedInsurance a)"
  "\<not> rewrites_a_record BurnAssetAdmin"
  "rewrites_a_record (Deposit a)" "rewrites_a_record (DepositJunior a)" "rewrites_a_record (Withdraw a)"
  by (simp_all add: rewrites_a_record_def)

interpretation update_config: pool_handler "\<lambda>E pid accs. process_update_config pid accs x y" "UpdateConfig x y"
  for x y
  by unfold_locales (auto simp: process_update_config_def Let_def intro!: admin_effect pool_step.intros)

interpretation propose_admin: pool_handler "\<lambda>E pid accs. process_propose_admin pid accs k" "ProposeAdmin k"
  for k
  by unfold_locales (auto simp: process_propose_admin_def Let_def intro!: admin_effect pool_step.intros)

interpretation cancel_cooldown:
  pool_handler "\<lambda>E pid accs. process_cancel_cooldown_increase pid accs" CancelCooldownIncrease
  by unfold_locales (auto simp: process_cancel_cooldown_increase_def Let_def intro!: admin_effect pool_step.intros)

interpretation set_hwm_config:
  pool_handler "\<lambda>E pid accs. process_admin_set_hwm_config pid accs b f" "AdminSetHwmConfig b f" for b f
  by unfold_locales
    (auto simp: process_admin_set_hwm_config_def Let_def split: if_splits intro!: admin_effect pool_step.intros)

interpretation set_tranche_config:
  pool_handler "\<lambda>E pid accs. process_admin_set_tranche_config pid accs m" "AdminSetTrancheConfig m" for m
  by unfold_locales (auto simp: process_admin_set_tranche_config_def Let_def intro!: admin_effect pool_step.intros)

interpretation set_market_resolved:
  pool_handler "\<lambda>E pid accs. process_set_market_resolved pid accs" SetMarketResolved
  by unfold_locales (auto simp: process_set_market_resolved_def Let_def intro!: admin_effect pool_step.intros)

text \<open>A handler that makes at most some calls and writes the pool back.\<close>

lemma plain_effect:
  assumes "pool_step c ins p p'" and "reads E pid accs ins p L c" and "\<not> rewrites_a_record ins"
    and "acc_owner (L (key (accs ! 1))) = pid" and "pool_bytes_at L (key (accs ! 1)) p" and "live_pool p"
    and "(\<forall>a. ins \<noteq> RecoverFlushedInsurance a) \<Longrightarrow> is_signer (accs ! 0)"
    and "percolator_program p \<noteq> pid \<Longrightarrow> keeps pid L L1"
  shows "pool_effect E pid accs ins L (write_pool (accs ! 1) p' L1)"
  by (rule pool_effectI [where c = c and p = p and p' = p' and ?L1.0 = L1 and ?L2.0 = L1]) (use assms in auto)

interpretation accept_admin: pool_handler "\<lambda>E pid accs. process_accept_admin pid accs" AcceptAdmin
proof
  fix E pid accs L L'
  assume "process_accept_admin pid accs L = Inr L'"
  then obtain p p' where "is_signer (accs ! 0)" "acc_owner (L (key (accs ! 1))) = pid"
    "pool_bytes_at L (key (accs ! 1)) p" "live_pool p"
    "accept_admin_pool (key (accs ! 0)) p = Inr p'" and L': "L' = write_pool (accs ! 1) p' L"
    by (auto simp: process_accept_admin_def open_ok)
  then show "pool_effect E pid accs AcceptAdmin L L'"
    unfolding L' by (intro plain_effect [where c = "ctx accs undefined 0 False"] step_accept_admin)
       (auto simp: reads_defs)
qed

interpretation propose_cooldown:
  pool_handler "\<lambda>E pid accs. process_propose_cooldown_increase E pid accs s" "ProposeCooldownIncrease s" for s
proof
  fix E pid accs L L'
  assume "process_propose_cooldown_increase E pid accs s L = Inr L'"
  then obtain p p' and cl :: Clock where "is_signer (accs ! 0)" "acc_owner (L (key (accs ! 1))) = pid"
    "pool_bytes_at L (key (accs ! 1)) p" "live_pool p" "admin p = key (accs ! 0)"
    "clock_from_account_info E (accs ! 2) L = Inr cl"
    "propose_cooldown_pool s (slot cl) p = Inr p'" and L': "L' = write_pool (accs ! 1) p' L"
    by (auto simp: process_propose_cooldown_increase_def open_ok)
  then show "pool_effect E pid accs (ProposeCooldownIncrease s) L L'"
    unfolding L' by (intro plain_effect [where c = "ctx accs cl 0 False"] step_propose_cooldown)
       (auto simp: reads_defs intro!: exI [of _ L])
qed

interpretation commit_cooldown:
  pool_handler process_commit_cooldown_increase CommitCooldownIncrease
proof
  fix E pid accs L L'
  assume "process_commit_cooldown_increase E pid accs L = Inr L'"
  then obtain p p' and cl :: Clock where "is_signer (accs ! 0)" "acc_owner (L (key (accs ! 1))) = pid"
    "pool_bytes_at L (key (accs ! 1)) p" "live_pool p" "admin p = key (accs ! 0)"
    "clock_from_account_info E (accs ! 2) L = Inr cl"
    "commit_cooldown_pool (slot cl) p = Inr p'" and L': "L' = write_pool (accs ! 1) p' L"
    by (auto simp: process_commit_cooldown_increase_def open_ok)
  then show "pool_effect E pid accs CommitCooldownIncrease L L'"
    unfolding L' by (intro plain_effect [where c = "ctx accs cl 0 False"] step_commit_cooldown)
       (auto simp: reads_defs intro!: exI [of _ L])
qed

interpretation accrue_fees: pool_handler process_accrue_fees AccrueFees
proof
  fix E pid accs L L'
  assume "process_accrue_fees E pid accs L = Inr L'"
  then obtain p p1 bal and cl :: Clock where "is_signer (accs ! 0)" "acc_owner (L (key (accs ! 1))) = pid"
    "pool_bytes_at L (key (accs ! 1)) p" "live_pool p" "\<not> pool_mode p > 1"
    "key (accs ! 2) = vault p" "vault_balance [key (accs ! 1)] (accs ! 2) L = Inr bal"
    "clock_from_account_info E (accs ! 3) L = Inr cl" "accrue_fees_inner bal p = Inr p1"
    and L': "L' = write_pool (accs ! 1)
      (p1\<lparr>last_fee_accrual_slot := slot cl, last_vault_snapshot := bal\<rparr>) L"
    by (auto simp: process_accrue_fees_def open_ok)
  then show "pool_effect E pid accs AccrueFees L L'"
    unfolding L' by (intro plain_effect [where c = "ctx accs cl bal False"] step_accrue)
       (auto simp: reads_defs intro!: exI [of _ L])
qed

interpretation flush: 
  pool_handler "\<lambda>E pid accs. process_flush_to_insurance E pid accs a" "FlushToInsurance a" for a
proof
  fix E pid accs L L'
  assume F: "cpi_frame E pid" and "process_flush_to_insurance E pid accs a L = Inr L'"
  then obtain p p' v b L1 where "is_signer (accs ! 0)" "acc_owner (L (key (accs ! 1))) = pid"
    "pool_bytes_at L (key (accs ! 1)) p" "live_pool p" "a \<noteq> 0" "admin p = key (accs ! 0)"
    "percolator_program p = key (accs ! 6)" "pool_mode p = 0" "\<not> market_resolved p"
    "total_pool_value p = Some v" "\<not> a > v" "flush_pool a p = Inr p'"
    "cpi_top_up_insurance E [key (accs ! 1)] (accs ! 6) (accs ! 3) (accs ! 4) (accs ! 2) (accs ! 5)
       (accs ! 7) a (vault_auth_seeds (accs ! 1) b) L = Inr L1"
    and L': "L' = write_pool (accs ! 1) p' L1"
    by (auto simp: process_flush_to_insurance_def flush_checks_def open_ok)
  then show "pool_effect E pid accs (FlushToInsurance a) L L'"
    unfolding L' using wrapper_call_keeps(1) [OF F]
    by (intro plain_effect [where c = "ctx accs undefined 0 False"] step_flush) (auto simp: reads_defs)
qed

interpretation return_insurance:
  pool_handler "\<lambda>E pid accs. process_return_insurance E pid accs a" "ReturnInsurance a" for a
proof
  fix E pid accs L L'
  assume F: "cpi_frame E pid" and "process_return_insurance E pid accs a L = Inr L'"
  then obtain p p' L1 where "is_signer (accs ! 0)" "acc_owner (L (key (accs ! 1))) = pid"
    "pool_bytes_at L (key (accs ! 1)) p" "live_pool p" "a \<noteq> 0" "admin p = key (accs ! 0)"
    "\<not> a > saturating_sub (total_flushed p) (total_returned p)" "return_pool a p = Inr p'"
    "keeps pid L L1" and L': "L' = write_pool (accs ! 1) p' L1"
    by (auto simp: process_return_insurance_def open_ok spl_transfer_def dest: known_call_keeps [OF F])
  then show "pool_effect E pid accs (ReturnInsurance a) L L'"
    unfolding L' by (intro plain_effect [where c = "ctx accs undefined 0 False"] step_return) (auto simp: reads_defs)
qed

interpretation recover_insurance:
  pool_handler "\<lambda>E pid accs. process_recover_flushed_insurance E pid accs a" "RecoverFlushedInsurance a"
  for a
proof
  fix E pid accs L L'
  assume F: "cpi_frame E pid" and "process_recover_flushed_insurance E pid accs a L = Inr L'"
  then obtain p p' b L1 where "acc_owner (L (key (accs ! 1))) = pid"
    "pool_bytes_at L (key (accs ! 1)) p" "live_pool p" "a \<noteq> 0" "pool_mode p = 0"
    "\<not> (ucast a :: u128) > ucast (wrapper_recoverable p)" "percolator_program p = key (accs ! 8)"
    "recover_pool a p = Inr p'"
    "cpi_withdraw_insurance_asset E [key (accs ! 1)] (accs ! 8) (accs ! 3) (accs ! 4) (accs ! 2) (accs ! 5)
       (accs ! 6) (accs ! 7) a (vault_auth_seeds (accs ! 1) b) L = Inr L1"
    and L': "L' = write_pool (accs ! 1) p' L1"
    by (auto simp: process_recover_flushed_insurance_def open_ok)
  then show "pool_effect E pid accs (RecoverFlushedInsurance a) L L'"
    unfolding L' using wrapper_call_keeps(2) [OF F]
    by (intro plain_effect [where c = "ctx accs undefined 0 False"] step_recover)
       (auto simp: reads_defs word_le_nat_alt word_less_nat_alt)
qed


interpretation burn_asset_admin: pool_handler process_burn_asset_admin BurnAssetAdmin
proof
  fix E pid accs L L'
  assume F: "cpi_frame E pid" and "process_burn_asset_admin E pid accs L = Inr L'"
  then obtain p L1 where sg: "is_signer (accs ! 0)" and ow: "acc_owner (L (key (accs ! 1))) = pid"
    and p: "pool_bytes_at L (key (accs ! 1)) p" "live_pool p" "admin p = key (accs ! 0)" "\<not> asset_admin_burned p"
    and perc: "percolator_program p = key (accs ! 4)"
    and call: "cpi_burn_asset_admin E [] (accs ! 4) (accs ! 0) (accs ! 2) (accs ! 3) L = Inr L1"
    and L': "L' = write_pool (accs ! 1) (set_asset_admin_burned True
               (pool_of_bytes (take STAKE_POOL_SIZE (acc_data (L1 (key (accs ! 1))))))) L1"
    by (auto simp: process_burn_asset_admin_def read_pool_as_admin_def try_borrow_data_def open_ok)
  have "L' = write_pool (accs ! 1) (set_asset_admin_burned True p) L1 \<and> keeps pid L L1"
    if "percolator_program p \<noteq> pid"
  proof -
    have k: "keeps pid L L1" using wrapper_call_keeps(6) [OF F _ call] perc that by simp
    then have "pool_bytes_at L1 (key (accs ! 1)) p" using keeps_pool ow p(1) by blast
    with k show ?thesis by (simp add: L' pool_bytes_at_def)
  qed
  then show "pool_effect E pid accs BurnAssetAdmin L L'"
    using sg ow p
    by (intro pool_effectI [where c = "ctx accs undefined 0 False" and p' = "set_asset_admin_burned True p"
          and ?L1.0 = L1 and ?L2.0 = L1]) (auto simp: reads_defs intro: step_burn)
qed


section \<open>Handlers that rewrite the deposit record\<close>

lemma pre_accrue_ok:
  assumes "pre_accrue_fee_modes held v L p = Inr p1"
  obtains bal where "pre_accrue_pool bal p = Inr p1" "pool_mode p \<le> 1 \<longrightarrow> vault_balance held v L = Inr bal"
  using assms by (auto simp: pre_accrue_fee_modes_def pre_accrue_pool_def split: if_splits)

lemma deposit_from_data_ok:
  "deposit_from_data d = Inr r \<longleftrightarrow>
     STAKE_DEPOSIT_SIZE \<le> length d \<and> r = deposit_of_bytes (take STAKE_DEPOSIT_SIZE d)"
  by (auto simp: deposit_from_data_eq not_less)

lemma credit_deposit_ok:
  assumes F: "cpi_frame E pid"
    and "credit_deposit credit E pid [key pool_ai] pool_ai user_ai dep_ai sys_ai now lp L = Inr L'"
  obtains L0 b r r' where "keeps pid L L0" "acc_owner (L0 (key dep_ai)) = pid"
    "derive_deposit_pda (find_program_address E) pid (key pool_ai) (key user_ai) = (key dep_ai, b)"
    "key dep_ai \<noteq> key pool_ai" "deposit_bytes_at L0 (key dep_ai) r"
    "credit (key pool_ai) (key user_ai) b now lp r = Inr r'" "L' = write_deposit dep_ai r' L0"
proof -
  obtain b L0 r r' where oc: "open_or_create_deposit E pid [key pool_ai] pool_ai user_ai dep_ai sys_ai L = Inr (b, L0)"
    and rest: "key dep_ai \<noteq> key pool_ai" "deposit_from_data (acc_data (L0 (key dep_ai))) = Inr r"
      "credit (key pool_ai) (key user_ai) b now lp r = Inr r'" "L' = write_deposit dep_ai r' L0"
    using assms(2) by (auto simp: credit_deposit_def try_borrow_data_def)
  have "keeps pid L L0" "acc_owner (L0 (key dep_ai)) = pid"
    "derive_deposit_pda (find_program_address E) pid (key pool_ai) (key user_ai) = (key dep_ai, b)"
    using oc
    by (auto simp: open_or_create_deposit_def case_prod_beta prod_eq_iff data_is_empty_def account_owner_def
        split: if_splits dest: create_or_adopt_keeps [OF F] create_or_adopt_owner [OF F])
  then show thesis using rest by (intro that) (auto simp: deposit_from_data_ok deposit_bytes_at_def)
qed

text \<open>Both deposits add the credited LP to the supply.\<close>

lemma accrue_lp_supply: "accrue_fees_inner bal p = Inr p' \<Longrightarrow> total_lp_supply p' = total_lp_supply p"
  by (auto simp: accrue_fees_inner_eq Let_def case_prod_beta split: if_splits)

lemma pre_accrue_lp_supply: "pre_accrue_pool bal p = Inr p' \<Longrightarrow> total_lp_supply p' = total_lp_supply p"
  by (auto simp: pre_accrue_pool_def dest: accrue_lp_supply split: if_splits)

lemma deposit_lp_supply:
  "deposit_totals a lp p = Inr p' \<Longrightarrow> total_lp_supply p' = total_lp_supply p + lp"
  "deposit_junior_totals a lp p = Inr p' \<Longrightarrow> total_lp_supply p' = total_lp_supply p + lp"
  "deposit_refresh_hwm e p = Inr p' \<Longrightarrow> total_lp_supply p' = total_lp_supply p"
  by (auto simp: deposit_totals_def deposit_junior_totals_def deposit_refresh_hwm_def refresh_hwm_def Let_def
      checked_add_def split: if_splits)

lemma deposit_effect:
  assumes F: "cpi_frame E pid" and step: "pool_step c ins p p'"
    and rd: "\<And>L1. keeps pid L L1 \<Longrightarrow> clock_from_account_info E (accs ! 9) L1 = Inr (clock_now c) \<Longrightarrow> reads E pid accs ins p L c"
    and ck: "clock_from_account_info E (accs ! 9) L1 = Inr (clock_now c)"
    and a: "is_signer (accs ! 0)" "acc_owner (L (key (accs ! 1))) = pid"
      "pool_bytes_at L (key (accs ! 1)) p" "live_pool p"
    and tr: "deposit_transfers E pid held (accs ! 1) u ua v lm ul va t amt m L = Inr L1"
    and cr: "credit_deposit credit E pid [key (accs ! 1)] (accs ! 1) (accs ! 0) (accs ! 7) sys (slot (clock_now c)) lp L1
      = Inr L2"
    and rec: "rewrites_a_record ins" "lp = total_lp_supply p' - total_lp_supply p"
      "\<And>b r r'. credit (key (accs ! 1)) (key (accs ! 0)) b (slot (clock_now c)) lp r = Inr r'
         \<Longrightarrow> record_update ins (key (accs ! 1)) (key (accs ! 0)) (slot (clock_now c)) lp r r'"
  shows "pool_effect E pid accs ins L (write_pool (accs ! 1) p' L2)"
proof -
  obtain L0 b r r' where c: "keeps pid L1 L0" "acc_owner (L0 (key (accs ! 7))) = pid"
    "derive_deposit_pda (find_program_address E) pid (key (accs ! 1)) (key (accs ! 0)) = (key (accs ! 7), b)"
    "key (accs ! 7) \<noteq> key (accs ! 1)" "deposit_bytes_at L0 (key (accs ! 7)) r"
    "credit (key (accs ! 1)) (key (accs ! 0)) b (slot (clock_now c)) lp r = Inr r'" "L2 = write_deposit (accs ! 7) r' L0"
    by (rule credit_deposit_ok [OF F cr]) blast
  have k: "keeps pid L L1" by (rule deposit_transfers_keeps [OF F tr])
  then have "keeps pid L L0" using keeps_trans c(1) by blast
  moreover have "rewrites_record E pid accs ins (slot (clock_now c)) lp L0 L2"
    unfolding rewrites_record_def using rec(1) rec(3) [OF c(6)] c(2-5,7) by (simp, metis fst_conv)
  ultimately show ?thesis
    using a step rd [OF k ck] rec(2) by (intro pool_effectI [where c = c]) auto
qed

interpretation deposit: pool_handler "\<lambda>E pid accs. process_deposit E pid accs a" "Deposit a" for a
proof
  fix E pid accs L L'
  assume F: "cpi_frame E pid" and "process_deposit E pid accs a L = Inr L'"
  then obtain p p1 p2 p3 lp mi L1 L2 and cl :: Clock where
    a: "is_signer (accs ! 0)" "acc_owner (L (key (accs ! 1))) = pid"
      "pool_bytes_at L (key (accs ! 1)) p" "live_pool p" and z: "a \<noteq> 0" 
    and ck: "deposit_checks E pid p (accs ! 1) (accs ! 3) (accs ! 4) (accs ! 6) a = Inr ()"
    and pre: "pre_accrue_fee_modes [key (accs ! 1)] (accs ! 3) L p = Inr p1"
    and st: "price_deposit a p1 = Inr (lp, mi)" "deposit_totals a lp p1 = Inr p2" "deposit_refresh_hwm (epoch cl) p2 = Inr p3"
    and tr: "deposit_transfers E pid [key (accs ! 1)] (accs ! 1) (accs ! 0) (accs ! 2) (accs ! 3) (accs ! 4)
        (accs ! 5) (accs ! 6) (accs ! 8) a mi L = Inr L1"
    and cl: "clock_from_account_info E (accs ! 9) L1 = Inr cl"
    and cr: "credit_deposit credit_senior_record E pid [key (accs ! 1)] (accs ! 1) (accs ! 0) (accs ! 7)
        (accs ! 10) (slot cl) lp L1 = Inr L2"
    and L': "L' = write_pool (accs ! 1) p3 L2"
    unfolding process_deposit_def by (auto simp: open_ok case_prod_beta)
  obtain bal where bal: "pre_accrue_pool bal p = Inr p1"
    "pool_mode p \<le> 1 \<longrightarrow> vault_balance [key (accs ! 1)] (accs ! 3) L = Inr bal"
    by (rule pre_accrue_ok [OF pre])
  have lp: "total_lp_supply p3 - total_lp_supply p = lp"
    using pre_accrue_lp_supply [OF bal(1)] deposit_lp_supply st by simp
  have "pool_step (ctx accs cl bal False) (Deposit a) p p3"
    using z ck st bal by (intro step_deposit) (auto simp: deposit_checks_def)
  then show "pool_effect E pid accs (Deposit a) L L'"
    unfolding L' using a tr cr cl ck bal(2) lp
    by (intro deposit_effect [where c = "ctx accs cl bal False", OF F])
       (auto simp: reads_defs record_update_def deposit_checks_def)
qed

interpretation deposit_junior: pool_handler "\<lambda>E pid accs. process_deposit_junior E pid accs a" "DepositJunior a" for a
proof
  fix E pid accs L L'
  assume F: "cpi_frame E pid" and "process_deposit_junior E pid accs a L = Inr L'"
  then obtain p p1 p2 p3 lp mi L1 L2 and cl :: Clock where
    a: "is_signer (accs ! 0)" "acc_owner (L (key (accs ! 1))) = pid"
      "pool_bytes_at L (key (accs ! 1)) p" "live_pool p" and z: "a \<noteq> 0" "tranche_enabled p"
    and ck: "deposit_checks E pid p (accs ! 1) (accs ! 3) (accs ! 4) (accs ! 6) a = Inr ()"
    and pre: "pre_accrue_fee_modes [key (accs ! 1)] (accs ! 3) L p = Inr p1"
    and st: "price_deposit_junior a p1 = Inr (lp, mi)" "deposit_junior_totals a lp p1 = Inr p2" "deposit_refresh_hwm (epoch cl) p2 = Inr p3"
    and tr: "deposit_transfers E pid [key (accs ! 1)] (accs ! 1) (accs ! 0) (accs ! 2) (accs ! 3) (accs ! 4)
        (accs ! 5) (accs ! 6) (accs ! 8) a mi L = Inr L1"
    and cl: "clock_from_account_info E (accs ! 9) L1 = Inr cl"
    and cr: "credit_deposit credit_junior_record E pid [key (accs ! 1)] (accs ! 1) (accs ! 0) (accs ! 7)
        (accs ! 10) (slot cl) lp L1 = Inr L2"
    and L': "L' = write_pool (accs ! 1) p3 L2"
    unfolding process_deposit_junior_def by (auto simp: open_ok case_prod_beta)
  obtain bal where bal: "pre_accrue_pool bal p = Inr p1"
    "pool_mode p \<le> 1 \<longrightarrow> vault_balance [key (accs ! 1)] (accs ! 3) L = Inr bal"
    by (rule pre_accrue_ok [OF pre])
  have lp: "total_lp_supply p3 - total_lp_supply p = lp"
    using pre_accrue_lp_supply [OF bal(1)] deposit_lp_supply st by simp
  have "pool_step (ctx accs cl bal False) (DepositJunior a) p p3"
    using z ck st bal by (intro step_deposit_junior) (auto simp: deposit_checks_def)
  then show "pool_effect E pid accs (DepositJunior a) L L'"
    unfolding L' using a tr cr cl ck bal(2) lp
    by (intro deposit_effect [where c = "ctx accs cl bal False", OF F])
       (auto simp: reads_defs record_update_def deposit_checks_def)
qed

interpretation withdraw: pool_handler "\<lambda>E pid accs. process_withdraw E pid accs lp" "Withdraw lp" for lp
proof
  fix E pid accs L L'
  assume F: "cpi_frame E pid" and "process_withdraw E pid accs lp L = Inr L'"
  then obtain p p1 p2 p3 w r0 r r2 j L1 and cl :: Clock where
    a: "lp \<noteq> 0" "is_signer (accs ! 0)" "acc_owner (L (key (accs ! 1))) = pid"
      "pool_bytes_at L (key (accs ! 1)) p" "live_pool p" and v: "vault p = key (accs ! 4)"
    and dep: "validate_deposit_account E pid [key (accs ! 1)] (accs ! 1) (accs ! 0) (accs ! 7) L = Inr ()"
    and cl: "clock_from_account_info E (accs ! 9) L = Inr cl"
    and r0: "deposit_from_data (acc_data (L (key (accs ! 7)))) = Inr r0"
      "check_deposit_record (key (accs ! 1)) (key (accs ! 0)) (cooldown_slots p) (slot cl) lp r0 = Inr j"
    and pre: "pre_accrue_fee_modes [key (accs ! 1)] (accs ! 4) L p = Inr p1"
    and price: "price_withdrawal j lp p1 = Inr w" "\<not> (w = 0 \<and> \<not> fully_wiped_junior_exit j w p1)"
    and hwm: "enforce_hwm_floor (epoch cl) w (fully_wiped_junior_exit j w p1) p1 = Inr p2"
    and tr: "withdraw_transfers E pid [key (accs ! 1)] p2 (accs ! 1) (accs ! 0) (accs ! 2) (accs ! 3) (accs ! 4)
        (accs ! 5) (accs ! 6) (accs ! 8) lp w L = Inr L1"
    and tot: "withdraw_totals j w lp p2 = Inr p3"
    and bor: "try_borrow_data [key (accs ! 1)] (accs ! 7) L1 = Inr (acc_data (L1 (key (accs ! 7))))"
    and r: "deposit_from_data (acc_data (L1 (key (accs ! 7)))) = Inr r" "debit_deposit_record lp r = Inr r2"
    and L': "L' = write_pool (accs ! 1) p3 (write_deposit (accs ! 7) r2 L1)"
    unfolding process_withdraw_def by (auto simp: open_ok try_borrow_data_def)
  obtain bal where bal: "pre_accrue_pool bal p = Inr p1"
    "pool_mode p \<le> 1 \<longrightarrow> vault_balance [key (accs ! 1)] (accs ! 4) L = Inr bal"
    by (rule pre_accrue_ok [OF pre])
  have own: "acc_owner (L (key (accs ! 7))) = pid"
    "key (accs ! 7) = fst (derive_deposit_pda (find_program_address E) pid (key (accs ! 1)) (key (accs ! 0)))"
    using dep by (auto simp: validate_deposit_account_def account_owner_def)
  have k: "keeps pid L L1" using withdraw_transfers_keeps [OF F tr] .
  then have "acc_owner (L1 (key (accs ! 7))) = pid" using own by (simp add: keeps_def)
  then have "rewrites_record E pid accs (Withdraw lp) now m L1 (write_deposit (accs ! 7) r2 L1)" for now m
    using dep bor r
    by (auto simp: rewrites_record_def record_update_def validate_deposit_account_def try_borrow_data_def
        deposit_from_data_ok deposit_bytes_at_def)
  moreover have "reads E pid accs (Withdraw lp) p L (ctx accs cl bal j)"
    using cl r0 own v bal(2)
    by (auto simp: reads_defs deposit_from_data_ok deposit_bytes_at_def intro!: exI [of _ L])
  moreover have "pool_step (ctx accs cl bal j) (Withdraw lp) p p3"
    using a(1) bal price hwm tot by (intro step_withdraw) auto
  ultimately show "pool_effect E pid accs (Withdraw lp) L L'"
    using a(2-) L' k by (intro pool_effectI [where c = "ctx accs cl bal j"]) auto
qed

section \<open>Handlers that only call\<close>

text \<open>
  The contract of a handler that signs a wrapper call for the pool at account 1 and changes
  nothing of its own: it ran for the pool's admin.
\<close>

definition call_effect :: "pubkey \<Rightarrow> AccountInfo list \<Rightarrow> ledger \<Rightarrow> ledger \<Rightarrow> bool" where
  "call_effect pid accs L L' \<longleftrightarrow>
     (\<exists>p. is_signer (accs ! 0) \<and> acc_owner (L (key (accs ! 1))) = pid
        \<and> pool_bytes_at L (key (accs ! 1)) p \<and> live_pool p \<and> admin p = key (accs ! 0)
        \<and> (percolator_program p \<noteq> pid \<longrightarrow> keeps pid L L'))"

locale signing_handler =
  fixes run :: "env \<Rightarrow> pubkey \<Rightarrow> AccountInfo list \<Rightarrow> ledger \<Rightarrow> ledger result"
  assumes effect: "\<lbrakk>cpi_frame E pid; run E pid accs L = Inr L'\<rbrakk> \<Longrightarrow> call_effect pid accs L L'"

lemmas proxy_defs = validate_group_a_proxy_def validate_group_b_proxy_def read_pool_as_admin_def

lemma call_effectI:
  assumes "is_signer (accs ! 0)" "acc_owner (L (key (accs ! 1))) = pid"
    "pool_bytes_at L (key (accs ! 1)) p" "live_pool p" "admin p = key (accs ! 0)"
    "percolator_program p \<noteq> pid \<Longrightarrow> keeps pid L L'"
  shows "call_effect pid accs L L'"
  unfolding call_effect_def using assms by blast

interpretation bind_insurance: signing_handler process_bind_insurance_authority
proof
  fix E pid accs L L'
  assume F: "cpi_frame E pid" and "process_bind_insurance_authority E pid accs L = Inr L'"
  then obtain p b L1 where "is_signer (accs ! 0)" "acc_owner (L (key (accs ! 1))) = pid"
    "pool_bytes_at L (key (accs ! 1)) p" "live_pool p" "admin p = key (accs ! 0)"
    "percolator_program p = key (accs ! 4)"
    "cpi_bind_insurance_authority E [] (accs ! 4) (accs ! 0) (accs ! 2) (accs ! 3) (vault_auth_seeds (accs ! 1) b) L = Inr L1"
    "cpi_bind_insurance_operator E [] (accs ! 4) (accs ! 0) (accs ! 2) (accs ! 3) (vault_auth_seeds (accs ! 1) b) L1 = Inr L'"
    by (auto simp: process_bind_insurance_authority_def read_pool_as_admin_def open_ok)
  then show "call_effect pid accs L L'"
    using wrapper_call_keeps(4,5) [OF F] by (intro call_effectI) (auto, meson keeps_trans)
qed

interpretation rotate_operator: signing_handler process_rotate_insurance_operator
proof
  fix E pid accs L L'
  assume F: "cpi_frame E pid" and "process_rotate_insurance_operator E pid accs L = Inr L'"
  then show "call_effect pid accs L L'"
    using wrapper_call_keeps(7) [OF F] by (auto simp: process_rotate_insurance_operator_def proxy_defs open_ok call_effect_def)
qed

interpretation rotate_authority: signing_handler process_rotate_insurance_authority
proof
  fix E pid accs L L'
  assume F: "cpi_frame E pid" and "process_rotate_insurance_authority E pid accs L = Inr L'"
  then show "call_effect pid accs L L'"
    using wrapper_call_keeps(8) [OF F] by (auto simp: process_rotate_insurance_authority_def proxy_defs open_ok call_effect_def)
qed

interpretation resolve_market: signing_handler process_admin_resolve_market
proof
  fix E pid accs L L'
  assume F: "cpi_frame E pid" and "process_admin_resolve_market E pid accs L = Inr L'"
  then show "call_effect pid accs L L'"
    using wrapper_call_keeps(9) [OF F] by (auto simp: process_admin_resolve_market_def proxy_defs open_ok call_effect_def)
qed

interpretation fee_split: signing_handler "\<lambda>E pid accs. process_admin_update_fee_split E pid accs s1 s2 s3" for s1 s2 s3
proof
  fix E pid accs L L'
  assume F: "cpi_frame E pid" and "process_admin_update_fee_split E pid accs s1 s2 s3 L = Inr L'"
  then show "call_effect pid accs L L'"
    using wrapper_call_keeps(10) [OF F] by (auto simp: process_admin_update_fee_split_def proxy_defs open_ok call_effect_def)
qed

interpretation maintenance_fee: signing_handler "\<lambda>E pid accs. process_admin_update_maintenance_fee_per_slot E pid accs fee" for fee
proof
  fix E pid accs L L'
  assume F: "cpi_frame E pid" and "process_admin_update_maintenance_fee_per_slot E pid accs fee L = Inr L'"
  then show "call_effect pid accs L L'"
    using wrapper_call_keeps(11) [OF F] by (auto simp: process_admin_update_maintenance_fee_per_slot_def proxy_defs open_ok call_effect_def)
qed

interpretation backing_fee: signing_handler "\<lambda>E pid accs. process_admin_update_backing_fee_policy E pid accs s1 s2 s3" for s1 s2 s3
proof
  fix E pid accs L L'
  assume F: "cpi_frame E pid" and "process_admin_update_backing_fee_policy E pid accs s1 s2 s3 L = Inr L'"
  then show "call_effect pid accs L L'"
    using wrapper_call_keeps(12) [OF F] by (auto simp: process_admin_update_backing_fee_policy_def proxy_defs open_ok call_effect_def)
qed

interpretation trade_fee: signing_handler "\<lambda>E pid accs. process_admin_update_trade_fee_policy E pid accs tf" for tf
proof
  fix E pid accs L L'
  assume F: "cpi_frame E pid" and "process_admin_update_trade_fee_policy E pid accs tf L = Inr L'"
  then show "call_effect pid accs L L'"
    using wrapper_call_keeps(13) [OF F] by (auto simp: process_admin_update_trade_fee_policy_def proxy_defs open_ok call_effect_def)
qed

end
