(* ===== verification/Ledger.thy ===== *)
theory Ledger
  imports Transitions
begin

text \<open>
  Handlers on the whole ledger.  \<open>ledger_ok\<close> is the invariant of the program's accounts:
  whatever carries a pool's discriminator sits at a pool address and names a foreign wrapper
  program.  Every instruction keeps it, and every instruction is one of three shapes
  (\<open>process_shape\<close>): a step of the pool at account 1, a call that leaves the program's
  accounts alone, or the creation of a pool.
\<close>

section \<open>Well-formed ledgers\<close>

definition pda_separation :: "env \<Rightarrow> pubkey \<Rightarrow> bool" where
  "pda_separation E pid \<longleftrightarrow>
     (\<forall>s pool u. fst (derive_pool_pda (find_program_address E) pid s)
                \<noteq> fst (derive_deposit_pda (find_program_address E) pid pool u))"

definition ledger_ok :: "env \<Rightarrow> pubkey \<Rightarrow> ledger \<Rightarrow> bool" where
  "ledger_ok E pid L \<longleftrightarrow>
     (\<forall>k p. acc_owner (L k) = pid \<longrightarrow> pool_bytes_at L k p \<longrightarrow> validate_discriminator p \<longrightarrow>
        percolator_program p \<noteq> pid \<and> (\<exists>s. k = fst (derive_pool_pda (find_program_address E) pid s)))"

lemma ledger_okD:
  assumes "ledger_ok E pid L" "acc_owner (L k) = pid" "pool_bytes_at L k p" "validate_discriminator p"
  shows "percolator_program p \<noteq> pid" "\<exists>s. k = fst (derive_pool_pda (find_program_address E) pid s)"
  using assms unfolding ledger_ok_def by blast+

lemma reserved_of_bytes:
  "reserved (pool_of_bytes (take STAKE_POOL_SIZE d)) = array_of (slice 320 64 d)"
  by (simp add: pool_of_bytes_def STAKE_POOL_SIZE_def slice_def drop_take min_def)

lemma discriminator_bytes:
  assumes "STAKE_POOL_SIZE \<le> length d"
  shows "validate_discriminator (pool_of_bytes (take STAKE_POOL_SIZE d))
     \<longleftrightarrow> slice 320 8 d = STAKE_POOL_DISCRIMINATOR"
proof -
  have "length (slice 320 64 d) = 64" using assms by (simp add: slice_def STAKE_POOL_SIZE_def)
  then have "list_of_bytes (array_of (slice 320 64 d) :: 64 bytes) = slice 320 64 d"
    by (intro array_of_inverse) simp
  then show ?thesis
    unfolding validate_discriminator_def reserved_of_bytes get_bytes_def by (simp add: slice_def)
qed

lemma zeroed_not_pool:
  assumes "set (acc_data (L k)) \<subseteq> {0}" "pool_bytes_at L k p"
  shows "\<not> validate_discriminator p"
proof
  assume v: "validate_discriminator p"
  have len: "STAKE_POOL_SIZE \<le> length (acc_data (L k))"
    and p: "p = pool_of_bytes (take STAKE_POOL_SIZE (acc_data (L k)))"
    using assms(2) by (auto simp: pool_bytes_at_def)
  have "slice 320 8 (acc_data (L k)) = STAKE_POOL_DISCRIMINATOR"
    using v discriminator_bytes [OF len] p by simp
  then have "set STAKE_POOL_DISCRIMINATOR \<subseteq> set (acc_data (L k))"
    by (metis slice_def set_take_subset set_drop_subset subset_trans)
  then have "(0x53 :: u8) = 0" using assms(1) by (auto simp: STAKE_POOL_DISCRIMINATOR_def)
  then show False by simp
qed

text \<open>A deposit image is shorter than the offset of a pool's discriminator.\<close>

lemma write_deposit_discriminator:
  assumes "pool_bytes_at (write_deposit ai r L) (key ai) q" "validate_discriminator q"
    "STAKE_DEPOSIT_SIZE \<le> length (acc_data (L (key ai)))"
  obtains p where "pool_bytes_at L (key ai) p" "validate_discriminator p"
proof -
  let ?d = "acc_data (L (key ai))" and ?e = "patch 0 (bytes_of_deposit r) (acc_data (L (key ai)))"
  have el: "length (bytes_of_deposit r) = 152"
    using deposit_layout.enc_length [of r] by (simp add: STAKE_DEPOSIT_SIZE_def)
  have len: "length ?e = length ?d"
    using assms(3) el by (simp add: length_patch STAKE_DEPOSIT_SIZE_def)
  have e: "STAKE_POOL_SIZE \<le> length ?e" "q = pool_of_bytes (take STAKE_POOL_SIZE ?e)"
    using assms(1) by (auto simp: pool_bytes_at_def write_deposit_def)
  have "slice 320 8 ?e = slice 320 8 ?d"
    using assms(3) el by (intro slice_patch_after) (auto simp: STAKE_DEPOSIT_SIZE_def)
  then have "validate_discriminator (pool_of_bytes (take STAKE_POOL_SIZE ?d))"
    using assms(2) e len discriminator_bytes by metis
  then show thesis using e(1) len by (intro that) (auto simp: pool_bytes_at_def)
qed

lemma keeps_ledger_ok:
  assumes "keeps pid L L'" "ledger_ok E pid L"
  shows "ledger_ok E pid L'"
  unfolding ledger_ok_def
proof (intro allI impI)
  fix k p
  assume a: "acc_owner (L' k) = pid" "pool_bytes_at L' k p" "validate_discriminator p"
  have "acc_owner (L k) = pid"
    using assms(1) a zeroed_not_pool [of L' k p] unfolding keeps_def by metis
  moreover from this have "pool_bytes_at L k p" using keeps_pool assms(1) a(2) by blast
  ultimately show "percolator_program p \<noteq> pid \<and> (\<exists>s. k = fst (derive_pool_pda (find_program_address E) pid s))"
    using assms(2) a(3) unfolding ledger_ok_def by blast
qed

lemma rewrites_record_ledger_ok:
  assumes "rewrites_record E pid accs ins now m L L'" "ledger_ok E pid L" "pda_separation E pid"
  shows "ledger_ok E pid L'"
proof (cases "rewrites_a_record ins")
  case False
  then show ?thesis using assms by (simp add: rewrites_record_def)
next
  case True
  then obtain r where dep: "key (accs ! 7) = fst (derive_deposit_pda (find_program_address E) pid (key (accs ! 1)) (key (accs ! 0)))"
    and len: "STAKE_DEPOSIT_SIZE \<le> length (acc_data (L (key (accs ! 7))))" and L': "L' = write_deposit (accs ! 7) r L"
    using assms(1) by (auto simp: rewrites_record_def deposit_bytes_at_def)
  show ?thesis
    unfolding ledger_ok_def
  proof (intro allI impI)
    fix k p
    assume a: "acc_owner (L' k) = pid" "pool_bytes_at L' k p" "validate_discriminator p"
    have ow: "acc_owner (L k) = pid" using a(1) by (simp add: L')
    have "k \<noteq> key (accs ! 7)"
    proof
      assume k: "k = key (accs ! 7)"
      obtain q where q: "pool_bytes_at L k q" "validate_discriminator q"
        using write_deposit_discriminator [where ai = "accs ! 7" and r = r and L = L, OF _ a(3) len] a(2) k L'
        by blast
      then show False
        using ledger_okD(2) [OF assms(2) ow q] assms(3) dep k unfolding pda_separation_def by metis
    qed
    then have "pool_bytes_at L k p" using a(2) by (simp add: L' pool_bytes_at_def)
    with ow a(3) show "percolator_program p \<noteq> pid \<and> (\<exists>s. k = fst (derive_pool_pda (find_program_address E) pid s))"
      using assms(2) unfolding ledger_ok_def by blast
  qed
qed

section \<open>Steps keep the identity of the pool\<close>

text \<open>What \<open>InitPool\<close> fixes for the life of a pool.\<close>

definition identity ::
  "StakePool \<Rightarrow> u8 \<times> u8 \<times> u8 \<times> pubkey \<times> pubkey \<times> pubkey \<times> pubkey \<times> pubkey \<times> u8 \<times> bool \<times> u8" where
  "identity p =
     (is_initialized p, bump p, vault_authority_bump p, slab p, collateral_mint p, lp_mint p, vault p,
      percolator_program p, pool_mode p, validate_discriminator p, version p)"

lemma identity_setters [simp]:
  "identity (set_market_resolved b p) = identity p" "identity (set_hwm_enabled b p) = identity p"
  "identity (set_hwm_floor_bps w p) = identity p" "identity (set_epoch_high_water_tvl v p) = identity p"
  "identity (set_hwm_last_epoch v p) = identity p" "identity (set_tranche_enabled b p) = identity p"
  "identity (set_junior_balance v p) = identity p" "identity (set_junior_total_lp v p) = identity p"
  "identity (set_junior_fee_mult_bps w p) = identity p"
  "identity (set_realized_junior_loss v p) = identity p"
  "identity (set_asset_admin_burned b p) = identity p"
  "identity (set_pending_cooldown_slots v p) = identity p"
  "identity (set_cooldown_proposed_at_slot v p) = identity p"
  by (simp_all add: identity_def set_pending_cooldown_slots_def set_cooldown_proposed_at_slot_def)

lemma identity_fields [simp]:
  "identity (p\<lparr>total_deposited := x_total_deposited\<rparr>) = identity p"
  "identity (p\<lparr>total_lp_supply := x_total_lp_supply\<rparr>) = identity p"
  "identity (p\<lparr>cooldown_slots := x_cooldown_slots\<rparr>) = identity p"
  "identity (p\<lparr>deposit_cap := x_deposit_cap\<rparr>) = identity p"
  "identity (p\<lparr>total_flushed := x_total_flushed\<rparr>) = identity p"
  "identity (p\<lparr>total_returned := x_total_returned\<rparr>) = identity p"
  "identity (p\<lparr>total_withdrawn := x_total_withdrawn\<rparr>) = identity p"
  "identity (p\<lparr>total_fees_earned := x_total_fees_earned\<rparr>) = identity p"
  "identity (p\<lparr>last_fee_accrual_slot := x_last_fee_accrual_slot\<rparr>) = identity p"
  "identity (p\<lparr>last_vault_snapshot := x_last_vault_snapshot\<rparr>) = identity p"
  "identity (p\<lparr>admin := x_admin\<rparr>) = identity p"
  "identity (p\<lparr>pending_admin := x_pending_admin\<rparr>) = identity p"
  "identity (p\<lparr>total_recovered_from_wrapper := x_total_recovered_from_wrapper\<rparr>) = identity p"
  "identity (p\<lparr>pending_cooldown_slots := x_pending_cooldown_slots\<rparr>) = identity p"
  "identity (p\<lparr>cooldown_proposed_at_slot := x_cooldown_proposed_at_slot\<rparr>) = identity p"
  by (simp_all add: identity_def)

lemma identity_live: "identity p' = identity p \<Longrightarrow> live_pool p' = live_pool p"
  by (auto simp: identity_def live_pool_def)

lemma refresh_hwm_identity [simp]: "identity (snd (refresh_hwm e t p)) = identity p"
  by (simp add: refresh_hwm_def Let_def)

lemma accrue_identity: "accrue_fees_inner bal p = Inr p' \<Longrightarrow> identity p' = identity p"
  by (auto simp: accrue_fees_inner_eq Let_def case_prod_beta split: if_splits)

lemma pre_accrue_identity: "pre_accrue_pool bal p = Inr p' \<Longrightarrow> identity p' = identity p"
  by (auto simp: pre_accrue_pool_def dest: accrue_identity split: if_splits)

lemma settle_identity: "settle_last_junior p = Inr p' \<Longrightarrow> identity p' = identity p"
  by (auto simp: settle_last_junior_def Let_def split: if_splits)

lemma withdraw_totals_identity: "withdraw_totals j w lp p = Inr p' \<Longrightarrow> identity p' = identity p"
  by (auto simp: withdraw_totals_def Let_def dest!: settle_identity split: if_splits)

lemma hwm_floor_identity: "enforce_hwm_floor e w b p = Inr p' \<Longrightarrow> identity p' = identity p"
  by (auto simp: enforce_hwm_floor_def case_prod_beta split: if_splits)

lemma deposit_identity:
  "deposit_totals a lp p = Inr p' \<Longrightarrow> identity p' = identity p"
  "deposit_junior_totals a lp p = Inr p' \<Longrightarrow> identity p' = identity p"
  "deposit_refresh_hwm e p = Inr p' \<Longrightarrow> identity p' = identity p"
  by (auto simp: deposit_totals_def deposit_junior_totals_def deposit_refresh_hwm_def Let_def split: if_splits)

lemmas admin_step_defs =
  flush_pool_def return_pool_def recover_pool_def resolve_pool_def update_config_pool_def
  accept_admin_pool_def propose_cooldown_pool_def commit_cooldown_pool_def cancel_cooldown_pool_def
  set_tranche_config_pool_def apply_hwm_config_def Let_def

lemma pool_step_identity: "pool_step c ins p p' \<Longrightarrow> identity p' = identity p"
proof (induction rule: pool_step.induct)
  case (step_deposit a p p1 lp m p2 p')
  then show ?case by (metis pre_accrue_identity deposit_identity(1,3))
next
  case (step_deposit_junior a p p1 lp m p2 p')
  then show ?case by (metis pre_accrue_identity deposit_identity(2,3))
next
  case (step_withdraw lp p p1 w p2 p')
  then show ?case by (metis pre_accrue_identity hwm_floor_identity withdraw_totals_identity)
next
  case (step_accrue p p1 p')
  then show ?case by (auto dest: accrue_identity)
qed (auto simp: admin_step_defs split: option.splits if_splits)


section \<open>Handlers on a well-formed ledger\<close>

lemma live_validates: "live_pool p \<Longrightarrow> validate_discriminator p"
  by (simp add: live_pool_def)

lemma record_other:
  "rewrites_record E pid accs ins now m L1 L2 \<Longrightarrow> k \<noteq> key (accs ! 7) \<or> \<not> rewrites_a_record ins \<Longrightarrow> L2 k = L1 k"
  by (auto simp: rewrites_record_def split: if_splits)

lemma record_pool:
  "rewrites_record E pid accs ins now m L1 L2 \<Longrightarrow> L2 (key (accs ! 1)) = L1 (key (accs ! 1))"
  by (cases "rewrites_a_record ins") (auto simp: rewrites_record_def)

lemma record_owner: "rewrites_record E pid accs ins now m L1 L2 \<Longrightarrow> acc_owner (L2 k) = acc_owner (L1 k)"
  by (auto simp: rewrites_record_def split: if_splits)

text \<open>One pool effect, unfolded on a ledger whose pools are well-formed.\<close>

lemma pool_effect_cases:
  assumes "pool_effect E pid accs ins L L'" "ledger_ok E pid L"
  obtains c p p' L1 L2 where
    "acc_owner (L (key (accs ! 1))) = pid" "pool_bytes_at L (key (accs ! 1)) p" "live_pool p"
    "(\<forall>a. ins \<noteq> RecoverFlushedInsurance a) \<longrightarrow> is_signer (accs ! 0)" "reads E pid accs ins p L c"
    "pool_step c ins p p'" "keeps pid L L1"
    "rewrites_record E pid accs ins (slot (clock_now c)) (total_lp_supply p' - total_lp_supply p) L1 L2"
    "L' = write_pool (accs ! 1) p' L2" "pool_bytes_at L' (key (accs ! 1)) p'"
proof -
  obtain p where p: "acc_owner (L (key (accs ! 1))) = pid" "pool_bytes_at L (key (accs ! 1)) p" "live_pool p"
    "(\<forall>a. ins \<noteq> RecoverFlushedInsurance a) \<longrightarrow> is_signer (accs ! 0)"
    and more: "percolator_program p \<noteq> pid \<longrightarrow>
      (\<exists>c p' L1 L2. reads E pid accs ins p L c \<and> pool_step c ins p p' \<and> keeps pid L L1
         \<and> rewrites_record E pid accs ins (slot (clock_now c)) (total_lp_supply p' - total_lp_supply p) L1 L2
         \<and> L' = write_pool (accs ! 1) p' L2)"
    using assms(1) unfolding pool_effect_def by blast
  have "percolator_program p \<noteq> pid"
    using ledger_okD(1) [OF assms(2) p(1,2)] p(3) live_validates by blast
  then obtain c p' L1 L2 where s: "reads E pid accs ins p L c" "pool_step c ins p p'" "keeps pid L L1"
    "rewrites_record E pid accs ins (slot (clock_now c)) (total_lp_supply p' - total_lp_supply p) L1 L2"
    "L' = write_pool (accs ! 1) p' L2"
    using more by blast
  have "acc_data (L2 (key (accs ! 1))) = acc_data (L (key (accs ! 1)))"
    using record_pool [OF s(4)] s(3) p(1) by (simp add: keeps_def)
  then have "pool_bytes_at L' (key (accs ! 1)) p'"
    unfolding s(5) using p(2) by (intro write_pool_at) (simp add: pool_bytes_at_def)
  then show thesis using that p s by blast
qed

text \<open>What one pool effect does to any live pool of the ledger.\<close>

definition steps_pool ::
  "env \<Rightarrow> pubkey \<Rightarrow> AccountInfo list \<Rightarrow> StakeInstruction \<Rightarrow> pubkey \<Rightarrow> StakePool \<Rightarrow> StakePool \<Rightarrow> ledger \<Rightarrow> bool" where
  "steps_pool E pid accs ins k q q' L \<longleftrightarrow>
     k = key (accs ! 1) \<and> ((\<forall>a. ins \<noteq> RecoverFlushedInsurance a) \<longrightarrow> is_signer (accs ! 0))
     \<and> (\<exists>c. reads E pid accs ins q L c \<and> pool_step c ins q q')"

lemma pool_effect_refines:
  assumes eff: "pool_effect E pid accs ins L L'" and ok: "ledger_ok E pid L" and sep: "pda_separation E pid"
    and k: "acc_owner (L k) = pid" "pool_bytes_at L k q" "live_pool q"
  shows "acc_owner (L' k) = pid"
    and "if k = key (accs ! 1) then \<exists>q'. steps_pool E pid accs ins k q q' L \<and> pool_bytes_at L' k q'
         else pool_bytes_at L' k q"
proof -
  obtain c p p' L1 L2 where s:
    "acc_owner (L (key (accs ! 1))) = pid" "pool_bytes_at L (key (accs ! 1)) p"
    "(\<forall>a. ins \<noteq> RecoverFlushedInsurance a) \<longrightarrow> is_signer (accs ! 0)"
    "reads E pid accs ins p L c" "pool_step c ins p p'" "keeps pid L L1"
    "rewrites_record E pid accs ins (slot (clock_now c)) (total_lp_supply p' - total_lp_supply p) L1 L2"
    "L' = write_pool (accs ! 1) p' L2" "pool_bytes_at L' (key (accs ! 1)) p'"
    by (rule pool_effect_cases [OF eff ok]) blast
  show "acc_owner (L' k) = pid"
    using k(1) s(6) record_owner [OF s(7), of k] by (simp add: s(8) keeps_def)
  show "if k = key (accs ! 1) then \<exists>q'. steps_pool E pid accs ins k q q' L \<and> pool_bytes_at L' k q'
         else pool_bytes_at L' k q"
  proof (cases "k = key (accs ! 1)")
    case True
    then have "q = p" using k(2) s(2) by (auto dest: pool_bytes_at_unique)
    then show ?thesis using True s(3,4,5,9) unfolding steps_pool_def by auto
  next
    case False
    have "\<not> (rewrites_a_record ins \<and> k = key (accs ! 7))"
    proof
      assume "rewrites_a_record ins \<and> k = key (accs ! 7)"
      then have "k = fst (derive_deposit_pda (find_program_address E) pid (key (accs ! 1)) (key (accs ! 0)))"
        using s(7) by (auto simp: rewrites_record_def)
      then show False
        using ledger_okD(2) [OF ok k(1,2)] k(3) live_validates sep unfolding pda_separation_def by metis
    qed
    then have "L2 k = L1 k" using record_other [OF s(7)] by blast
    then have "acc_data (L' k) = acc_data (L k)"
      using False s(6) k(1) by (simp add: s(8) keeps_def)
    then show ?thesis using False k(2) by (simp add: pool_bytes_at_def)
  qed
qed

lemma write_pool_ledger_ok:
  assumes "ledger_ok E pid L" "pool_bytes_at L (key ai) p" "validate_discriminator p"
    "acc_owner (L (key ai)) = pid" "identity p' = identity p"
  shows "ledger_ok E pid (write_pool ai p' L)"
  unfolding ledger_ok_def
proof (intro allI impI)
  fix k q
  assume a: "acc_owner (write_pool ai p' L k) = pid" "pool_bytes_at (write_pool ai p' L) k q" "validate_discriminator q"
  show "percolator_program q \<noteq> pid \<and> (\<exists>s. k = fst (derive_pool_pda (find_program_address E) pid s))"
  proof (cases "k = key ai")
    case True
    have "pool_bytes_at (write_pool ai p' L) (key ai) p'"
      using assms(2) by (intro write_pool_at) (simp add: pool_bytes_at_def)
    then have "q = p'" using a(2) True by (auto dest: pool_bytes_at_unique)
    then have "percolator_program q = percolator_program p" using assms(5) by (simp add: identity_def)
    then show ?thesis using ledger_okD [OF assms(1,4,2,3)] True by simp
  next
    case False
    then have "pool_bytes_at L k q" "acc_owner (L k) = pid" using a by (simp_all add: pool_bytes_at_def)
    then show ?thesis using assms(1) a(3) unfolding ledger_ok_def by blast
  qed
qed

lemma pool_effect_ledger_ok:
  assumes eff: "pool_effect E pid accs ins L L'" and ok: "ledger_ok E pid L" and sep: "pda_separation E pid"
  shows "ledger_ok E pid L'"
proof -
  obtain c p p' L1 L2 where s:
    "acc_owner (L (key (accs ! 1))) = pid" "pool_bytes_at L (key (accs ! 1)) p" "live_pool p"
    "pool_step c ins p p'" "keeps pid L L1"
    "rewrites_record E pid accs ins (slot (clock_now c)) (total_lp_supply p' - total_lp_supply p) L1 L2"
    "L' = write_pool (accs ! 1) p' L2"
    by (rule pool_effect_cases [OF eff ok]) blast
  have ok2: "ledger_ok E pid L2"
    by (rule rewrites_record_ledger_ok [OF s(6) keeps_ledger_ok [OF s(5) ok] sep])
  have "L2 (key (accs ! 1)) = L1 (key (accs ! 1))" by (rule record_pool [OF s(6)])
  then have "pool_bytes_at L2 (key (accs ! 1)) p" "acc_owner (L2 (key (accs ! 1))) = pid"
    using s(1,2,5) by (simp_all add: keeps_def pool_bytes_at_def)
  then show ?thesis
    unfolding s(7) using ok2 live_validates [OF s(3)] pool_step_identity [OF s(4)]
    by (intro write_pool_ledger_ok) auto
qed


section \<open>Pool creation on a well-formed ledger\<close>

definition init_effect ::
  "env \<Rightarrow> pubkey \<Rightarrow> AccountInfo list \<Rightarrow> u64 \<Rightarrow> u64 \<Rightarrow> u8 \<Rightarrow> ledger \<Rightarrow> ledger \<Rightarrow> bool" where
  "init_effect E pid accs cooldown cap md L L' \<longleftrightarrow>
     (\<exists>L2 pb vb q0. is_signer (accs ! 0) \<and> acc_data (L (key (accs ! 2))) = []
        \<and> derive_pool_pda (find_program_address E) pid (key (accs ! 1)) = (key (accs ! 2), pb)
        \<and> derive_vault_authority (find_program_address E) pid (key (accs ! 2)) = (key (accs ! 5), vb)
        \<and> allowed_percolator E (key (accs ! 7)) \<and> cooldown \<noteq> 0 \<and> cooldown \<le> MAX_COOLDOWN_SLOTS
        \<and> key (accs ! 3) \<noteq> key (accs ! 6)
        \<and> keeps pid L L2 \<and> acc_owner (L2 (key (accs ! 2))) = pid \<and> pool_bytes_at L2 (key (accs ! 2)) q0
        \<and> L' = write_pool (accs ! 2)
            ((genesis_pool pb vb (key (accs ! 1)) (key (accs ! 0)) (key (accs ! 6)) (key (accs ! 3))
               (key (accs ! 4)) (key (accs ! 7)) cooldown cap q0)\<lparr>pool_mode := md\<rparr>) L2)"

lemma allowed_not_self: "cpi_frame E pid \<Longrightarrow> allowed_percolator E k \<Longrightarrow> k \<noteq> pid"
  by (auto simp: cpi_frame_def)

lemma init_calls_keep:
  assumes F: "cpi_frame E pid" and "key perc_ai \<noteq> pid"
    and "init_pool_calls E a s p l v va co perc_ai t r pb vb L = Inr L'"
  shows "keeps pid L L'"
proof -
  obtain L1 L2 where "keeps pid L L1" "keeps pid L1 L2" "keeps pid L2 L'"
    using assms(3) wrapper_call_keeps(3) [OF F assms(2)]
    by (auto simp: init_pool_calls_def initialize_mint_def initialize_account_def
        dest!: known_call_keeps [OF F]) blast
  then show ?thesis by (meson keeps_trans)
qed

lemma genesis_mode: "(genesis_pool pb vb a b c d e f g h q0)\<lparr>pool_mode := 0\<rparr> = genesis_pool pb vb a b c d e f g h q0"
  by (simp add: genesis_pool_def set_discriminator_def Let_def)

lemma init_pool_effect:
  assumes F: "cpi_frame E pid" and run: "process_init_pool E pid accs cooldown cap L = Inr L'"
  shows "init_effect E pid accs cooldown cap 0 L L'"
proof -
  obtain pb vb L1 L2 q0 where ck: "init_pool_checks E pid (accs ! 0) (accs ! 1) (accs ! 2) (accs ! 3) (accs ! 5)
      (accs ! 6) (accs ! 7) (accs ! 8) (accs ! 10) cooldown L = Inr (pb, vb)"
    and cr: "create_or_adopt_pda E [] (accs ! 2) (accs ! 0) (accs ! 9) pid STAKE_POOL_SIZE
      (pool_seeds (accs ! 1) pb) L = Inr L1"
    and calls: "init_pool_calls E (accs ! 0) (accs ! 1) (accs ! 2) (accs ! 3) (accs ! 4) (accs ! 5) (accs ! 6)
      (accs ! 7) (accs ! 8) (accs ! 10) pb vb L1 = Inr L2"
    and q0: "pool_from_data (acc_data (L2 (key (accs ! 2)))) = Inr q0"
    and L': "L' = write_pool (accs ! 2) (genesis_pool pb vb (key (accs ! 1)) (key (accs ! 0)) (key (accs ! 6))
        (key (accs ! 3)) (key (accs ! 4)) (key (accs ! 7)) cooldown cap q0) L2"
    using run by (auto simp: process_init_pool_def Let_def try_borrow_data_def)
  have facts: "is_signer (accs ! 0)" "acc_data (L (key (accs ! 2))) = []"
    "derive_pool_pda (find_program_address E) pid (key (accs ! 1)) = (key (accs ! 2), pb)"
    "derive_vault_authority (find_program_address E) pid (key (accs ! 2)) = (key (accs ! 5), vb)"
    "allowed_percolator E (key (accs ! 7))" "cooldown \<noteq> 0" "cooldown \<le> MAX_COOLDOWN_SLOTS"
    "key (accs ! 3) \<noteq> key (accs ! 6)"
    using ck by (auto simp: init_pool_checks_def case_prod_beta data_is_empty_def prod_eq_iff)
  have k: "keeps pid L1 L2"
    using init_calls_keep [OF F _ calls] allowed_not_self [OF F facts(5)] by blast
  then have "keeps pid L L2" using keeps_trans create_or_adopt_keeps [OF F cr] by blast
  moreover have "acc_owner (L2 (key (accs ! 2))) = pid"
    using k create_or_adopt_owner [OF F cr] by (simp add: keeps_def)
  moreover have "pool_bytes_at L2 (key (accs ! 2)) q0"
    using q0 by (auto simp: pool_from_data_eq pool_bytes_at_def not_less)
  ultimately show ?thesis
    unfolding init_effect_def genesis_mode using facts L' by blast
qed

lemma write_pool_twice:
  assumes "STAKE_POOL_SIZE \<le> length (acc_data (L (key ai)))"
  shows "write_pool ai q (write_pool ai p L) = write_pool ai q L"
  using assms
  by (auto simp: write_pool_def set_data_def patch_def pool_layout.enc_length)

lemma init_trading_pool_effect:
  assumes F: "cpi_frame E pid" and run: "process_init_trading_pool E pid accs cooldown cap L = Inr L'"
  shows "init_effect E pid accs cooldown cap 1 L L'"
proof -
  obtain L1 q where i: "process_init_pool E pid accs cooldown cap L = Inr L1"
    and q: "pool_from_data (acc_data (L1 (key (accs ! 2)))) = Inr q"
    and L': "L' = write_pool (accs ! 2) (q\<lparr>pool_mode := 1\<rparr>) L1"
    using run by (auto simp: process_init_trading_pool_eq Let_def try_borrow_data_def INIT_POOL_POOL_PDA_INDEX_def)
  obtain L2 pb vb q0 where e: "is_signer (accs ! 0)" "acc_data (L (key (accs ! 2))) = []"
    "derive_pool_pda (find_program_address E) pid (key (accs ! 1)) = (key (accs ! 2), pb)"
    "derive_vault_authority (find_program_address E) pid (key (accs ! 2)) = (key (accs ! 5), vb)"
    "allowed_percolator E (key (accs ! 7))" "cooldown \<noteq> 0" "cooldown \<le> MAX_COOLDOWN_SLOTS"
    "key (accs ! 3) \<noteq> key (accs ! 6)" "keeps pid L L2"
    "acc_owner (L2 (key (accs ! 2))) = pid" "pool_bytes_at L2 (key (accs ! 2)) q0"
    "L1 = write_pool (accs ! 2)
            (genesis_pool pb vb (key (accs ! 1)) (key (accs ! 0)) (key (accs ! 6)) (key (accs ! 3))
               (key (accs ! 4)) (key (accs ! 7)) cooldown cap q0) L2"
    using init_pool_effect [OF F i] unfolding init_effect_def genesis_mode by blast
  have len: "STAKE_POOL_SIZE \<le> length (acc_data (L2 (key (accs ! 2))))"
    using e(11) by (simp add: pool_bytes_at_def)
  have "pool_bytes_at L1 (key (accs ! 2)) q"
    using q by (auto simp: pool_from_data_eq pool_bytes_at_def not_less)
  then have "q = genesis_pool pb vb (key (accs ! 1)) (key (accs ! 0)) (key (accs ! 6)) (key (accs ! 3))
               (key (accs ! 4)) (key (accs ! 7)) cooldown cap q0"
    using write_pool_at [of L2 "accs ! 2", OF len] e(12) by (auto dest: pool_bytes_at_unique)
  then show ?thesis
    unfolding init_effect_def L' using e write_pool_twice [of L2 "accs ! 2", OF len] by blast
qed


lemma genesis_identity:
  "identity ((genesis_pool pb vb sl ad co lp va pe g h q0)\<lparr>pool_mode := md\<rparr>) =
     (1, pb, vb, sl, co, lp, va, pe, md, True, CURRENT_VERSION)"
  by (simp add: genesis_pool_def set_discriminator_def Let_def identity_def version_def
      validate_discriminator_def STAKE_POOL_DISCRIMINATOR_def)

lemma init_effect_refines:
  assumes "init_effect E pid accs c d md L L'" "acc_owner (L k) = pid" "pool_bytes_at L k p"
  shows "acc_owner (L' k) = pid" "pool_bytes_at L' k p"
proof -
  obtain L2 q where e: "acc_data (L (key (accs ! 2))) = []" "keeps pid L L2" "L' = write_pool (accs ! 2) q L2"
    using assms(1) unfolding init_effect_def by blast
  have "k \<noteq> key (accs ! 2)" using assms(3) e(1) pool_bytes_nonempty by blast
  then show "acc_owner (L' k) = pid" "pool_bytes_at L' k p"
    using e(2,3) assms(2,3) by (simp_all add: keeps_def pool_bytes_at_def)
qed

lemma init_effect_ledger_ok:
  assumes F: "cpi_frame E pid" and "init_effect E pid accs c d md L L'" "ledger_ok E pid L"
  shows "ledger_ok E pid L'"
proof -
  obtain L2 pb vb q q0 where d: "derive_pool_pda (find_program_address E) pid (key (accs ! 1)) = (key (accs ! 2), pb)"
    "allowed_percolator E (key (accs ! 7))" "keeps pid L L2" "pool_bytes_at L2 (key (accs ! 2)) q0"
    "L' = write_pool (accs ! 2) q L2"
    and q: "q = (genesis_pool pb vb (key (accs ! 1)) (key (accs ! 0)) (key (accs ! 6)) (key (accs ! 3))
               (key (accs ! 4)) (key (accs ! 7)) c d q0)\<lparr>pool_mode := md\<rparr>"
    using assms(2) unfolding init_effect_def by blast
  have "percolator_program q = key (accs ! 7)"
    using genesis_identity unfolding q identity_def by simp
  with d have e: "derive_pool_pda (find_program_address E) pid (key (accs ! 1)) = (key (accs ! 2), pb)"
    "allowed_percolator E (percolator_program q)" "keeps pid L L2" "pool_bytes_at L2 (key (accs ! 2)) q0"
    "L' = write_pool (accs ! 2) q L2"
    by simp_all
  have at: "pool_bytes_at L' (key (accs ! 2)) q"
    unfolding e(5) using e(4) by (intro write_pool_at) (simp add: pool_bytes_at_def)
  have ok2: "ledger_ok E pid L2" by (rule keeps_ledger_ok [OF e(3) assms(3)])
  show ?thesis
    unfolding ledger_ok_def
  proof (intro allI impI)
    fix k p
    assume a: "acc_owner (L' k) = pid" "pool_bytes_at L' k p" "validate_discriminator p"
    show "percolator_program p \<noteq> pid \<and> (\<exists>s. k = fst (derive_pool_pda (find_program_address E) pid s))"
    proof (cases "k = key (accs ! 2)")
      case True
      then have "p = q" using a(2) at by (auto dest: pool_bytes_at_unique)
      then show ?thesis using allowed_not_self [OF F e(2)] e(1) True by (metis fst_conv)
    next
      case False
      then have "acc_owner (L2 k) = pid" "pool_bytes_at L2 k p"
        using a by (simp_all add: e(5) pool_bytes_at_def)
      then show ?thesis using ok2 a(3) unfolding ledger_ok_def by blast
    qed
  qed
qed

section \<open>Every instruction is a step of at most one pool\<close>

lemma process_shape:
  assumes F: "cpi_frame E pid" and run: "process E pid accs dt L = Inr L'"
  obtains ins where "unpack dt = Inr ins"
    "pool_effect E pid accs ins L L' \<or> call_effect pid accs L L'
     \<or> (\<exists>c d. ins = InitPool c d \<and> init_effect E pid accs c d 0 L L')
     \<or> (\<exists>c d. ins = InitTradingPool c d \<and> init_effect E pid accs c d 1 L L')"
proof -
  obtain ins where u: "unpack dt = Inr ins" using run by (auto simp: process_def)
  note pool_effects =
    deposit.effect [OF F] deposit_junior.effect [OF F] withdraw.effect [OF F] flush.effect [OF F]
    return_insurance.effect [OF F] recover_insurance.effect [OF F] set_market_resolved.effect [OF F]
    accrue_fees.effect [OF F] update_config.effect [OF F] propose_admin.effect [OF F] accept_admin.effect [OF F]
    propose_cooldown.effect [OF F] commit_cooldown.effect [OF F] cancel_cooldown.effect [OF F]
    set_hwm_config.effect [OF F] set_tranche_config.effect [OF F] burn_asset_admin.effect [OF F]
  note call_effects =
    bind_insurance.effect [OF F] rotate_operator.effect [OF F] rotate_authority.effect [OF F]
    resolve_market.effect [OF F] fee_split.effect [OF F] maintenance_fee.effect [OF F]
    backing_fee.effect [OF F] trade_fee.effect [OF F]
  show thesis
    using run u pool_effects call_effects init_pool_effect [OF F] init_trading_pool_effect [OF F]
    by (intro that [OF u]) (cases ins; simp add: process_def)
qed

text \<open>The instructions whose handler takes a step of the pool at account 1.\<close>

definition acts_on_pool :: "StakeInstruction \<Rightarrow> bool" where
  "acts_on_pool ins \<longleftrightarrow>
     (case ins of InitPool c d \<Rightarrow> False | InitTradingPool c d \<Rightarrow> False | BindInsuranceAuthority \<Rightarrow> False
      | RotateInsuranceAuthority \<Rightarrow> False | RotateInsuranceOperator \<Rightarrow> False | AdminResolveMarket \<Rightarrow> False
      | AdminUpdateFeeSplit a b c \<Rightarrow> False | AdminUpdateMaintenanceFeePerSlot f \<Rightarrow> False
      | AdminUpdateBackingFeePolicy a b c \<Rightarrow> False | AdminUpdateTradeFeePolicy t \<Rightarrow> False | _ \<Rightarrow> True)"

lemma process_acts:
  assumes F: "cpi_frame E pid" and run: "process E pid accs dt L = Inr L'" and u: "unpack dt = Inr ins"
    and "acts_on_pool ins"
  shows "pool_effect E pid accs ins L L'"
proof -
  note pool_effects =
    deposit.effect [OF F] deposit_junior.effect [OF F] withdraw.effect [OF F] flush.effect [OF F]
    return_insurance.effect [OF F] recover_insurance.effect [OF F] set_market_resolved.effect [OF F]
    accrue_fees.effect [OF F] update_config.effect [OF F] propose_admin.effect [OF F] accept_admin.effect [OF F]
    propose_cooldown.effect [OF F] commit_cooldown.effect [OF F] cancel_cooldown.effect [OF F]
    set_hwm_config.effect [OF F] set_tranche_config.effect [OF F] burn_asset_admin.effect [OF F]
  show ?thesis
    using run u assms(4) by (cases ins) (simp_all add: process_def acts_on_pool_def, (erule pool_effects)+)
qed

lemma process_steps:
  assumes "cpi_frame E pid" "process E pid accs dt L = Inr L'" "unpack dt = Inr ins" "acts_on_pool ins"
    and ok: "ledger_ok E pid L" and p: "pool_bytes_at L (key (accs ! 1)) p"
  obtains c p' where "reads E pid accs ins p L c" "pool_step c ins p p'"
proof -
  obtain c p1 p' where "pool_bytes_at L (key (accs ! 1)) p1" "reads E pid accs ins p1 L c" "pool_step c ins p1 p'"
    by (rule pool_effect_cases [OF process_acts [OF assms(1-4)] ok]) blast
  then show thesis using that p pool_bytes_at_unique by blast
qed

end
