(* ===== verification/Refinement.thy ===== *)
theory Refinement
  imports Ledger "HOL-Library.Sublist"
begin

text \<open>
  From the ledger to pools.  A \<open>world\<close> is any interleaving of successful instructions of this
  program with changes other programs may make.  \<open>process_refines\<close> and \<open>pool_history\<close> show
  that every pool of the ledger evolves by \<open>pool_step\<close>s from a state in which \<open>InitPool\<close> left
  it; \<open>pool_invariant\<close> lifts an invariant of \<open>pool_step\<close> to every reachable ledger.
\<close>

section \<open>The state a pool is born in\<close>

definition born :: "StakePool \<Rightarrow> bool" where
  "born p \<longleftrightarrow>
     live_pool p \<and> pool_mode p \<le> 1 \<and> cooldown_slots p \<noteq> 0 \<and> cooldown_slots p \<le> MAX_COOLDOWN_SLOTS
     \<and> pending_admin p = fill 0 \<and> pending_cooldown_slots p = 0 \<and> cooldown_proposed_at_slot p = 0
     \<and> total_deposited p = 0 \<and> total_lp_supply p = 0 \<and> total_flushed p = 0 \<and> total_returned p = 0
     \<and> total_withdrawn p = 0 \<and> total_fees_earned p = 0 \<and> total_recovered_from_wrapper p = 0
     \<and> \<not> market_resolved p \<and> \<not> hwm_enabled p \<and> epoch_high_water_tvl p = 0 \<and> \<not> tranche_enabled p
     \<and> junior_balance p = 0 \<and> junior_total_lp p = 0 \<and> realized_junior_loss p = 0 \<and> \<not> asset_admin_burned p"

lemma zero_pool:
  assumes "set d \<subseteq> {0}" "STAKE_POOL_SIZE \<le> length d" "q = pool_of_bytes (take STAKE_POOL_SIZE d)"
  shows "reserved q = fill 0" "total_recovered_from_wrapper q = 0" "pending_cooldown_slots q = 0"
    "cooldown_proposed_at_slot q = 0"
proof -
  obtain n where d: "d = replicate n 0" using zero_bytes [OF assms(1)] by blast
  then show "reserved q = fill 0" "total_recovered_from_wrapper q = 0" "pending_cooldown_slots q = 0"
    "cooldown_proposed_at_slot q = 0"
    using assms(2,3) by (simp_all add: pool_of_bytes_def slice_def STAKE_POOL_SIZE_def fill_def min_def)
qed

lemma genesis_born:
  assumes "reserved q = fill 0" "total_recovered_from_wrapper q = 0" "pending_cooldown_slots q = 0"
    "cooldown_proposed_at_slot q = 0" "c \<noteq> 0" "c \<le> MAX_COOLDOWN_SLOTS" "md \<le> 1"
  shows "born ((genesis_pool pb vb sl ad co lp va pe c h q)\<lparr>pool_mode := md\<rparr>)"
proof -
  let ?p = "(genesis_pool pb vb sl ad co lp va pe c h q)\<lparr>pool_mode := md\<rparr>"
  have r: "reserved ?p = put_bytes 8 [CURRENT_VERSION] (put_bytes 0 STAKE_POOL_DISCRIMINATOR (fill 0))"
    using assms(1) by (simp add: genesis_pool_def set_discriminator_def Let_def)
  have "identity ?p = (1, pb, vb, sl, co, lp, va, pe, md, True, CURRENT_VERSION)" by (rule genesis_identity)
  then have "live_pool ?p" unfolding identity_def live_pool_def by simp
  moreover have "\<not> market_resolved ?p \<and> \<not> hwm_enabled ?p \<and> epoch_high_water_tvl ?p = 0 \<and> \<not> tranche_enabled ?p
     \<and> junior_balance ?p = 0 \<and> junior_total_lp ?p = 0 \<and> realized_junior_loss ?p = 0 \<and> \<not> asset_admin_burned ?p"
    unfolding slot_defs r by (simp add: STAKE_POOL_DISCRIMINATOR_def)
  ultimately show ?thesis
    using assms by (simp add: born_def) (simp add: genesis_pool_def set_discriminator_def Let_def)
qed

text \<open>An account handed over during \<open>InitPool\<close> arrives zeroed, so the pool is born clean.\<close>

lemma init_effect_born:
  assumes "init_effect E pid accs c d md L L'" "md \<le> 1"
  obtains p L2 where "pool_bytes_at L' (key (accs ! 2)) p" "born p" "acc_owner (L' (key (accs ! 2))) = pid"
    "admin p = key (accs ! 0)" "slab p = key (accs ! 1)" "is_signer (accs ! 0)"
    "acc_data (L (key (accs ! 2))) = []" "keeps pid L L2" "L' = write_pool (accs ! 2) p L2"
    "key (accs ! 2) = fst (derive_pool_pda (find_program_address E) pid (key (accs ! 1)))"
proof -
  obtain L2 pb vb q0 p where e: "is_signer (accs ! 0)" "acc_data (L (key (accs ! 2))) = []"
    "derive_pool_pda (find_program_address E) pid (key (accs ! 1)) = (key (accs ! 2), pb)"
    "c \<noteq> 0" "c \<le> MAX_COOLDOWN_SLOTS"
    "keeps pid L L2" "acc_owner (L2 (key (accs ! 2))) = pid" "pool_bytes_at L2 (key (accs ! 2)) q0"
    "L' = write_pool (accs ! 2) p L2"
    and p: "p = (genesis_pool pb vb (key (accs ! 1)) (key (accs ! 0)) (key (accs ! 6)) (key (accs ! 3))
               (key (accs ! 4)) (key (accs ! 7)) c d q0)\<lparr>pool_mode := md\<rparr>"
    using assms(1) unfolding init_effect_def by blast
  have len: "STAKE_POOL_SIZE \<le> length (acc_data (L2 (key (accs ! 2))))"
    and q0: "q0 = pool_of_bytes (take STAKE_POOL_SIZE (acc_data (L2 (key (accs ! 2)))))"
    using e(8) by (simp_all add: pool_bytes_at_def)
  have "acc_data (L2 (key (accs ! 2))) \<noteq> acc_data (L (key (accs ! 2)))"
    using e(2) len by (auto simp: STAKE_POOL_SIZE_def)
  then have "set (acc_data (L2 (key (accs ! 2)))) \<subseteq> {0}"
    using e(6,7) unfolding keeps_def by metis
  then have "born p" unfolding p using zero_pool [OF _ len q0] e(4,5) assms(2) by (intro genesis_born)
  moreover have "pool_bytes_at L' (key (accs ! 2)) p" unfolding e(9) by (rule write_pool_at) (rule len)
  moreover have "admin p = key (accs ! 0)" "slab p = key (accs ! 1)"
    by (simp_all add: p genesis_pool_def set_discriminator_def Let_def)
  ultimately show thesis using that e by (metis fst_conv write_pool_owner)
qed

section \<open>One instruction\<close>

definition live_at :: "pubkey \<Rightarrow> ledger \<Rightarrow> pubkey \<Rightarrow> StakePool \<Rightarrow> bool" where
  "live_at pid L k p \<longleftrightarrow> acc_owner (L k) = pid \<and> pool_bytes_at L k p \<and> live_pool p"

lemma live_at_unique: "live_at pid L k p \<Longrightarrow> live_at pid L k q \<Longrightarrow> p = q"
  by (auto simp: live_at_def dest: pool_bytes_at_unique)

lemma steps_pool_live: "steps_pool E pid accs ins k q q' L \<Longrightarrow> live_pool q \<Longrightarrow> live_pool q'"
  unfolding steps_pool_def using identity_live pool_step_identity by blast

lemma keeps_live_at: "keeps pid L L' \<Longrightarrow> live_at pid L k p \<Longrightarrow> live_at pid L' k p"
  unfolding live_at_def by (metis keeps_pool keeps_def)

lemma keeps_live_at_rev:
  assumes "keeps pid L L'" "live_at pid L' k p"
  shows "live_at pid L k p"
proof -
  have "acc_owner (L k) = pid"
    using assms zeroed_not_pool [of L' k p] live_validates unfolding keeps_def live_at_def by metis
  then show ?thesis using assms keeps_pool unfolding live_at_def by blast
qed

lemma process_refines_aux:
  assumes F: "cpi_frame E pid" and sep: "pda_separation E pid" and ok: "ledger_ok E pid L"
    and run: "process E pid accs dt L = Inr L'" and q: "live_at pid L k q"
  shows "live_at pid L' k q \<or>
         (\<exists>ins q'. unpack dt = Inr ins \<and> steps_pool E pid accs ins k q q' L \<and> live_at pid L' k q')"
proof -
  have ow: "acc_owner (L k) = pid" "pool_bytes_at L k q" "live_pool q" using q by (auto simp: live_at_def)
  obtain ins where u: "unpack dt = Inr ins" and shape:
    "pool_effect E pid accs ins L L' \<or> call_effect pid accs L L'
     \<or> (\<exists>c d. ins = InitPool c d \<and> init_effect E pid accs c d 0 L L')
     \<or> (\<exists>c d. ins = InitTradingPool c d \<and> init_effect E pid accs c d 1 L L')"
    by (rule process_shape [OF F run])
  from shape consider "pool_effect E pid accs ins L L'" | "call_effect pid accs L L'"
    | c d md where "init_effect E pid accs c d md L L'" by blast
  then show ?thesis
  proof cases
    case 1
    show ?thesis
      using pool_effect_refines [OF 1 ok sep ow] u steps_pool_live ow(3)
      by (cases "k = key (accs ! 1)") (auto simp: live_at_def)
  next
    case 2
    then obtain p where p: "acc_owner (L (key (accs ! 1))) = pid" "pool_bytes_at L (key (accs ! 1)) p" "live_pool p"
      "percolator_program p \<noteq> pid \<longrightarrow> keeps pid L L'"
      unfolding call_effect_def by blast
    then have "keeps pid L L'" using ledger_okD(1) [OF ok p(1,2)] live_validates by blast
    then show ?thesis using keeps_live_at q by blast
  next
    case 3
    then show ?thesis using init_effect_refines [OF 3 ow(1,2)] ow(3) by (auto simp: live_at_def)
  qed
qed

text \<open>One successful instruction seen from a pool that is live before and after it.\<close>

lemma process_pool_cases:
  assumes "cpi_frame E pid" "pda_separation E pid" "ledger_ok E pid L" "process E pid accs dt L = Inr L'"
    "live_at pid L k p" "live_at pid L' k p'"
  obtains (same) "p' = p"
  | (step) ins c where "unpack dt = Inr ins" "k = key (accs ! 1)" "reads E pid accs ins p L c"
      "(\<forall>a. ins \<noteq> RecoverFlushedInsurance a) \<longrightarrow> is_signer (accs ! 0)" "pool_step c ins p p'"
  using process_refines_aux [OF assms(1-5)] assms(6) live_at_unique unfolding steps_pool_def by metis

text \<open>An acting instruction always steps the pool it names.\<close>

lemma process_acting:
  assumes "cpi_frame E pid" "ledger_ok E pid L" "process E pid accs dt L = Inr L'" "unpack dt = Inr ins" "acts_on_pool ins"
    "live_at pid L (key (accs ! 1)) p" "live_at pid L' (key (accs ! 1)) p'"
  obtains c where "reads E pid accs ins p L c" "pool_step c ins p p'"
    "(\<forall>a. ins \<noteq> RecoverFlushedInsurance a) \<longrightarrow> is_signer (accs ! 0)"
proof -
  obtain q q' and c :: step_ctx where e: "pool_bytes_at L (key (accs ! 1)) q" "reads E pid accs ins q L c"
    "pool_step c ins q q'" "pool_bytes_at L' (key (accs ! 1)) q'"
    "(\<forall>a. ins \<noteq> RecoverFlushedInsurance a) \<longrightarrow> is_signer (accs ! 0)"
    by (rule pool_effect_cases [OF process_acts [OF assms(1,3-5)] assms(2)]) blast
  have "q = p" "q' = p'" using e(1,4) assms(6,7) pool_bytes_at_unique unfolding live_at_def by blast+
  then show thesis using that e by blast
qed

lemma process_ledger_ok:
  assumes F: "cpi_frame E pid" and sep: "pda_separation E pid" and ok: "ledger_ok E pid L"
    and run: "process E pid accs dt L = Inr L'"
  shows "ledger_ok E pid L'"
proof -
  obtain ins where shape:
    "pool_effect E pid accs ins L L' \<or> call_effect pid accs L L'
     \<or> (\<exists>c d. ins = InitPool c d \<and> init_effect E pid accs c d 0 L L')
     \<or> (\<exists>c d. ins = InitTradingPool c d \<and> init_effect E pid accs c d 1 L L')"
    by (rule process_shape [OF F run])
  have "ledger_ok E pid L'" if "call_effect pid accs L L'"
    using that keeps_ledger_ok [OF _ ok] ledger_okD(1) [OF ok] live_validates unfolding call_effect_def by blast
  then show ?thesis
    using shape pool_effect_ledger_ok [OF _ ok sep] init_effect_ledger_ok [OF F _ ok] by blast
qed

text \<open>A pool that is live afterwards was live before, or was just born.\<close>

lemma pool_effect_live_back:
  assumes e: "pool_effect E pid accs ins L L'" and ok: "ledger_ok E pid L" and sep: "pda_separation E pid"
    and q: "live_at pid L' k q'"
  shows "\<exists>q. live_at pid L k q"
proof -
  obtain p p' L1 L2 and c :: step_ctx where s:
    "acc_owner (L (key (accs ! 1))) = pid" "pool_bytes_at L (key (accs ! 1)) p" "live_pool p"
    "keeps pid L L1"
    "rewrites_record E pid accs ins (slot (clock_now c)) (total_lp_supply p' - total_lp_supply p) L1 L2"
    "L' = write_pool (accs ! 1) p' L2"
    by (rule pool_effect_cases [OF e ok]) blast
  show ?thesis
  proof (cases "k = key (accs ! 1)")
    case True
    then show ?thesis using s(1-3) by (auto simp: live_at_def)
  next
    case False
    then have L2: "live_at pid L2 k q'" using q by (simp add: s(6) live_at_def pool_bytes_at_def)
    have ok2: "ledger_ok E pid L2"
      by (rule rewrites_record_ledger_ok [OF s(5) keeps_ledger_ok [OF s(4) ok] sep])
    have "L2 k = L1 k"
    proof (rule ccontr)
      assume "L2 k \<noteq> L1 k"
      then have "rewrites_a_record ins \<and> k = key (accs ! 7)" using record_other [OF s(5)] by blast
      then have "k = fst (derive_deposit_pda (find_program_address E) pid (key (accs ! 1)) (key (accs ! 0)))"
        using s(5) by (auto simp: rewrites_record_def)
      then show False
        using ledger_okD(2) [OF ok2] L2 live_validates sep unfolding pda_separation_def live_at_def by metis
    qed
    then have "live_at pid L1 k q'" using L2 by (simp add: live_at_def pool_bytes_at_def)
    then show ?thesis using keeps_live_at_rev [OF s(4)] by blast
  qed
qed

lemma process_live_back:
  assumes F: "cpi_frame E pid" and sep: "pda_separation E pid" and ok: "ledger_ok E pid L"
    and run: "process E pid accs dt L = Inr L'" and q: "live_at pid L' k q'"
  shows "(\<exists>q. live_at pid L k q) \<or> (born q' \<and> k = key (accs ! 2) \<and> acc_data (L k) = []
    \<and> (\<exists>c d. unpack dt = Inr (InitPool c d) \<or> unpack dt = Inr (InitTradingPool c d)))"
proof -
  obtain ins where u: "unpack dt = Inr ins" and shape:
    "pool_effect E pid accs ins L L' \<or> call_effect pid accs L L'
     \<or> (\<exists>c d. ins = InitPool c d \<and> init_effect E pid accs c d 0 L L')
     \<or> (\<exists>c d. ins = InitTradingPool c d \<and> init_effect E pid accs c d 1 L L')"
    by (rule process_shape [OF F run])
  then consider "pool_effect E pid accs ins L L'" | "call_effect pid accs L L'"
    | c d and md :: u8 where "init_effect E pid accs c d md L L'" "md \<le> 1" "ins = InitPool c d \<or> ins = InitTradingPool c d"
    by fastforce
  then show ?thesis
  proof cases
    case 1
    then show ?thesis using pool_effect_live_back [OF 1 ok sep q] by blast
  next
    case 2
    then have "keeps pid L L'"
      using ledger_okD(1) [OF ok] live_validates unfolding call_effect_def by blast
    then show ?thesis using keeps_live_at_rev q by blast
  next
    case 3
    then obtain p L2 where e: "pool_bytes_at L' (key (accs ! 2)) p" "born p" "acc_data (L (key (accs ! 2))) = []"
      "keeps pid L L2" "L' = write_pool (accs ! 2) p L2"
      by (elim init_effect_born) blast
    show ?thesis
    proof (cases "k = key (accs ! 2)")
      case True
      then show ?thesis using e q u 3(3) by (auto simp: live_at_def dest: pool_bytes_at_unique)
    next
      case False
      then have "live_at pid L2 k q'" using q by (simp add: e(5) live_at_def pool_bytes_at_def)
      then show ?thesis using keeps_live_at_rev [OF e(4)] by blast
    qed
  qed
qed

section \<open>Worlds and histories\<close>

text \<open>
  The ledgers reachable from \<open>L0\<close>: successful instructions of this program, logged with their
  accounts, data and the ledger they ran on, interleaved with whatever other programs do within Solana's ownership
  rules (a failed instruction changes nothing, a case of \<open>world_foreign\<close>).
\<close>

type_synonym call = "AccountInfo list \<times> u8 list \<times> ledger"

inductive world :: "env \<Rightarrow> pubkey \<Rightarrow> ledger \<Rightarrow> call list \<Rightarrow> ledger \<Rightarrow> bool"
  for E pid L0 where
  world_start: "world E pid L0 [] L0"
| world_call: "world E pid L0 es L \<Longrightarrow> process E pid accs dt L = Inr L' \<Longrightarrow> world E pid L0 (es @ [(accs, dt, L)]) L'"
| world_foreign: "world E pid L0 es L \<Longrightarrow> keeps pid L L' \<Longrightarrow> world E pid L0 es L'"

text \<open>The history of one pool: the contexts and instructions of its steps, oldest first.\<close>

inductive pool_trace :: "StakePool \<Rightarrow> (step_ctx \<times> StakeInstruction) list \<Rightarrow> StakePool \<Rightarrow> bool"
  for p where
  trace_start: "pool_trace p [] p"
| trace_step: "pool_trace p tr q \<Longrightarrow> pool_step c ins q r \<Longrightarrow> pool_trace p (tr @ [(c, ins)]) r"

inductive_cases trace_snocE: "pool_trace p (tr @ [e]) r"

text \<open>
  A step of pool \<open>k\<close> comes from a call that named \<open>k\<close> when it was live, signed by the acting
  key, and its context is what that call read from its ledger.
\<close>

fun event_of :: "env \<Rightarrow> pubkey \<Rightarrow> pubkey \<Rightarrow> call \<Rightarrow> step_ctx \<times> StakeInstruction \<Rightarrow> bool" where
  "event_of E pid k (accs, dt, L) (c, ins) \<longleftrightarrow>
     unpack dt = Inr ins \<and> k = key (accs ! 1)
     \<and> ((\<forall>a. ins \<noteq> RecoverFlushedInsurance a) \<longrightarrow> is_signer (accs ! 0))
     \<and> (\<exists>q. live_at pid L k q \<and> reads E pid accs ins q L c)"

declare event_of.simps [simp del]

lemma steps_pool_event:
  assumes "unpack dt = Inr ins" "steps_pool E pid accs ins k q q' L" "live_at pid L k q"
  obtains c where "pool_step c ins q q'" "event_of E pid k (accs, dt, L) (c, ins)"
  using assms unfolding steps_pool_def event_of.simps by blast

lemma world_ledger_ok:
  assumes "world E pid L0 es L" "cpi_frame E pid" "pda_separation E pid" "ledger_ok E pid L0"
  shows "ledger_ok E pid L"
  using assms by (induction rule: world.induct) (auto intro: process_ledger_ok keeps_ledger_ok)

lemma unowned_ledger_ok: "(\<forall>k. acc_owner (L0 k) \<noteq> pid) \<Longrightarrow> ledger_ok E pid L0"
  by (simp add: ledger_ok_def)

lemma world_history:
  assumes "world E pid L0 es L" and F: "cpi_frame E pid" and sep: "pda_separation E pid"
    and fresh: "\<forall>k. acc_owner (L0 k) \<noteq> pid" and "live_at pid L k p"
  shows "\<exists>p0 es' tr. born p0 \<and> pool_trace p0 tr p \<and> subseq es' es \<and> list_all2 (event_of E pid k) es' tr"
  using assms(1,5)
proof (induction arbitrary: p rule: world.induct)
  case world_start
  then show ?case using fresh by (simp add: live_at_def)
next
  case (world_foreign es L L')
  then show ?case using keeps_live_at_rev by blast
next
  case (world_call es L accs dt L')
  have ok: "ledger_ok E pid L"
    by (rule world_ledger_ok [OF world_call(1) F sep unowned_ledger_ok [OF fresh]])
  consider q where "live_at pid L k q" | "born p"
    using process_live_back [OF F sep ok world_call(2,4)] by blast
  then show ?case
  proof cases
    case 1
    obtain p0 es' tr where h: "born p0" "pool_trace p0 tr q" "subseq es' es" "list_all2 (event_of E pid k) es' tr"
      using world_call.IH [OF 1] by blast
    consider "live_at pid L' k q"
      | ins q' where "unpack dt = Inr ins" "steps_pool E pid accs ins k q q' L" "live_at pid L' k q'"
      using process_refines_aux [OF F sep ok world_call(2) 1] by blast
    then show ?thesis
    proof cases
      case 1
      then have "p = q" using world_call(4) live_at_unique by blast
      then show ?thesis using h by (metis subseq_rev_drop_many)
    next
      case 2
      then have "q' = p" using world_call(4) live_at_unique by blast
      with 2 \<open>live_at pid L k q\<close> obtain c where "pool_step c ins q p" "event_of E pid k (accs, dt, L) (c, ins)"
        by (metis steps_pool_event)
      then have "pool_trace p0 (tr @ [(c, ins)]) p" "list_all2 (event_of E pid k) (es' @ [(accs, dt, L)]) (tr @ [(c, ins)])"
        using h by (auto intro: trace_step list_all2_appendI)
      then show ?thesis using h(1,3) by (metis list_emb_append_mono subseq_order.order_refl)
    qed
  next
    case 2
    then show ?thesis by (intro exI [of _ p] exI [of _ "[]"]) (auto intro: trace_start)
  qed
qed

section \<open>Invariants of pools\<close>

text \<open>
  The interface between the state machine and the ledger: what holds at birth and is kept by
  every step of a live pool holds of every pool of every world.
\<close>

locale pool_invariant =
  fixes I :: "StakePool \<Rightarrow> bool"
  assumes at_birth: "born p \<Longrightarrow> I p"
    and kept: "pool_step c ins p p' \<Longrightarrow> live_pool p \<Longrightarrow> I p \<Longrightarrow> I p'"
begin

lemma trace_kept: "pool_trace p tr q \<Longrightarrow> live_pool p \<Longrightarrow> I p \<Longrightarrow> live_pool q \<and> I q"
proof (induction rule: pool_trace.induct)
  case (trace_step tr q c ins r)
  then show ?case using kept identity_live pool_step_identity by blast
qed simp

lemma trace_from_birth: "born p \<Longrightarrow> pool_trace p tr q \<Longrightarrow> I q"
  using trace_kept at_birth by (simp add: born_def)

lemma holds_in_world:
  assumes "world E pid L0 es L" "cpi_frame E pid" "pda_separation E pid"
    "\<forall>k. acc_owner (L0 k) \<noteq> pid" "live_at pid L k p"
  shows "I p"
  using world_history [OF assms] trace_from_birth by blast

end

end
