(* ===== verification/Governance.thy ===== *)
theory Governance
  imports Refinement
begin

text \<open>
  Governance of a pool.  Deposits, withdrawals, fee accrual and the insurance flow leave the
  configuration alone; what the admin instructions do to it is collected as step lemmas, and
  lifted by \<open>pool_invariant\<close> and the history of a pool to statements about every reachable
  ledger: who can become admin, how the cooldown can grow, which bounds the configuration
  keeps, and that resolution and the burn are final.
\<close>

section \<open>The configuration of a pool\<close>

definition settings ::
  "StakePool \<Rightarrow> pubkey \<times> pubkey \<times> u64 \<times> u64 \<times> u64 \<times> u64 \<times> bool \<times> bool \<times> u16 \<times> bool \<times> u16 \<times> bool" where
  "settings p =
     (admin p, pending_admin p, cooldown_slots p, deposit_cap p, pending_cooldown_slots p,
      cooldown_proposed_at_slot p, market_resolved p, hwm_enabled p, hwm_floor_bps p, tranche_enabled p,
      junior_fee_mult_bps p, asset_admin_burned p)"

lemma settings_kept [simp]:
  "settings (set_epoch_high_water_tvl v p) = settings p" "settings (set_hwm_last_epoch v p) = settings p"
  "settings (set_junior_balance v p) = settings p" "settings (set_junior_total_lp v p) = settings p"
  "settings (set_realized_junior_loss v p) = settings p"
  "settings (p\<lparr>total_deposited := a\<rparr>) = settings p" "settings (p\<lparr>total_lp_supply := a\<rparr>) = settings p"
  "settings (p\<lparr>total_flushed := a\<rparr>) = settings p" "settings (p\<lparr>total_returned := a\<rparr>) = settings p"
  "settings (p\<lparr>total_withdrawn := a\<rparr>) = settings p" "settings (p\<lparr>total_fees_earned := a\<rparr>) = settings p"
  "settings (p\<lparr>last_fee_accrual_slot := a\<rparr>) = settings p" "settings (p\<lparr>last_vault_snapshot := a\<rparr>) = settings p"
  "settings (p\<lparr>total_recovered_from_wrapper := a\<rparr>) = settings p"
  by (simp_all add: settings_def)

lemma accrue_settings: "accrue_fees_inner bal p = Inr p' \<Longrightarrow> settings p' = settings p"
  by (auto simp: accrue_fees_inner_eq Let_def case_prod_beta split: if_splits)

lemma pre_accrue_settings: "pre_accrue_pool bal p = Inr p' \<Longrightarrow> settings p' = settings p"
  by (auto simp: pre_accrue_pool_def dest: accrue_settings split: if_splits)

lemma refresh_hwm_settings [simp]: "settings (snd (refresh_hwm e t p)) = settings p"
  by (simp add: refresh_hwm_def Let_def)

lemma settle_settings: "settle_last_junior p = Inr p' \<Longrightarrow> settings p' = settings p"
  by (auto simp: settle_last_junior_def Let_def split: if_splits)

lemma withdraw_settings:
  "withdraw_totals j w lp p = Inr p' \<Longrightarrow> settings p' = settings p"
  "enforce_hwm_floor e w b p = Inr p' \<Longrightarrow> settings p' = settings p"
  by (auto simp: withdraw_totals_def enforce_hwm_floor_def Let_def case_prod_beta dest!: settle_settings
      split: if_splits)

lemma deposit_settings:
  "deposit_totals a lp p = Inr p' \<Longrightarrow> settings p' = settings p"
  "deposit_junior_totals a lp p = Inr p' \<Longrightarrow> settings p' = settings p"
  "deposit_refresh_hwm e p = Inr p' \<Longrightarrow> settings p' = settings p"
  by (auto simp: deposit_totals_def deposit_junior_totals_def deposit_refresh_hwm_def Let_def split: if_splits)

definition moves_money :: "StakeInstruction \<Rightarrow> bool" where
  "moves_money ins \<longleftrightarrow>
     (case ins of Deposit a \<Rightarrow> True | DepositJunior a \<Rightarrow> True | Withdraw l \<Rightarrow> True | FlushToInsurance a \<Rightarrow> True
      | ReturnInsurance a \<Rightarrow> True | RecoverFlushedInsurance a \<Rightarrow> True | AccrueFees \<Rightarrow> True | _ \<Rightarrow> False)"

lemma money_step_settings: "pool_step c ins p p' \<Longrightarrow> moves_money ins \<Longrightarrow> settings p' = settings p"
proof (induction rule: pool_step.induct)
  case (step_deposit a p p1 lp m p2 p')
  then show ?case by (metis pre_accrue_settings deposit_settings(1,3))
next
  case (step_deposit_junior a p p1 lp m p2 p')
  then show ?case by (metis pre_accrue_settings deposit_settings(2,3))
next
  case (step_withdraw lp p p1 w p2 p')
  then show ?case by (metis pre_accrue_settings withdraw_settings)
next
  case (step_accrue p p1 p')
  then show ?case by (auto dest: accrue_settings)
qed (auto simp: moves_money_def flush_pool_def return_pool_def recover_pool_def Let_def)

text \<open>Every step is a money step or one of the ten admin steps, with its guard and its update.\<close>

lemma step_cases:
  assumes "pool_step c ins p p'"
  obtains (money) "moves_money ins" "settings p' = settings p"
  | (config) x y where "ins = UpdateConfig x y" "admin p = actor c" "update_config_pool x y p = Inr p'"
  | (nominate) k where "ins = ProposeAdmin k" "admin p = actor c" "p' = p\<lparr>pending_admin := k\<rparr>"
  | (accept) "ins = AcceptAdmin" "accept_admin_pool (actor c) p = Inr p'"
  | (propose) s where "ins = ProposeCooldownIncrease s" "admin p = actor c"
      "propose_cooldown_pool s (slot (clock_now c)) p = Inr p'"
  | (commit) "ins = CommitCooldownIncrease" "admin p = actor c" "commit_cooldown_pool (slot (clock_now c)) p = Inr p'"
  | (cancel) "ins = CancelCooldownIncrease" "admin p = actor c" "cancel_cooldown_pool p = Inr p'"
  | (hwm) b f where "ins = AdminSetHwmConfig b f" "admin p = actor c" "b \<longrightarrow> validate_hwm_floor_bps f = Inr ()"
      "p' = apply_hwm_config b f p"
  | (tranche) m where "ins = AdminSetTrancheConfig m" "admin p = actor c" "set_tranche_config_pool m p = Inr p'"
  | (resolve) "ins = SetMarketResolved" "admin p = actor c" "resolve_pool p = Inr p'"
  | (burn) "ins = BurnAssetAdmin" "admin p = actor c" "\<not> asset_admin_burned p" "p' = set_asset_admin_burned True p"
proof -
  have m: "moves_money ins \<Longrightarrow> thesis" using money money_step_settings [OF assms] by blast
  from assms show thesis by cases (use m that(2-) in \<open>simp_all add: moves_money_def\<close>)
qed

section \<open>What a step can change\<close>

lemmas admin_defs =
  update_config_pool_def accept_admin_pool_def propose_cooldown_pool_def commit_cooldown_pool_def
  cancel_cooldown_pool_def set_tranche_config_pool_def apply_hwm_config_def resolve_pool_def Let_def
  set_pending_cooldown_slots_def set_cooldown_proposed_at_slot_def

lemma admin_step:
  assumes "pool_step c ins p p'" "admin p' \<noteq> admin p"
  shows "ins = AcceptAdmin \<and> actor c = pending_admin p \<and> admin p' = pending_admin p
     \<and> pending_admin p \<noteq> fill 0 \<and> pending_admin p' = fill 0"
  using assms(1) by (cases rule: step_cases)
    (use assms(2) in \<open>auto simp: settings_def admin_defs split: if_splits option.splits\<close>)

lemma pending_admin_step:
  assumes "pool_step c ins p p'" "pending_admin p' \<noteq> pending_admin p"
  shows "(ins = ProposeAdmin (pending_admin p') \<and> actor c = admin p \<and> admin p' = admin p)
     \<or> (ins = AcceptAdmin \<and> actor c = pending_admin p \<and> pending_admin p' = fill 0)"
  using assms(1) by (cases rule: step_cases)
    (use assms(2) in \<open>auto simp: settings_def admin_defs split: if_splits option.splits\<close>)

lemma flags_monotone:
  assumes "pool_step c ins p p'"
  shows "market_resolved p \<Longrightarrow> market_resolved p'" and "asset_admin_burned p \<Longrightarrow> asset_admin_burned p'"
    and "tranche_enabled p \<Longrightarrow> tranche_enabled p'"
  using assms by (cases rule: step_cases; auto simp: settings_def admin_defs split: if_splits option.splits)+

lemma resolve_step:
  assumes "pool_step c ins p p'" "market_resolved p'" "\<not> market_resolved p"
  shows "ins = SetMarketResolved \<and> actor c = admin p \<and> wrapper_recoverable p = 0"
  using assms(1) by (cases rule: step_cases)
    (use assms(2,3) in \<open>auto simp: settings_def admin_defs wrapper_fully_recovered_def split: if_splits option.splits\<close>)

lemma cooldown_step:
  assumes "pool_step c ins p p'" "cooldown_slots p < cooldown_slots p'"
  shows "ins = CommitCooldownIncrease \<and> actor c = admin p \<and> cooldown_slots p' = pending_cooldown_slots p
     \<and> cooldown_proposed_at_slot p \<noteq> 0
     \<and> unat (cooldown_proposed_at_slot p) + unat TIMELOCK_SLOTS \<le> unat (slot (clock_now c))"
  using assms(1) by (cases rule: step_cases)
    (use assms(2) in \<open>auto simp: settings_def admin_defs timelock_window_elapsed_ok split: if_splits option.splits\<close>)

definition touches_timelock :: "StakeInstruction \<Rightarrow> bool" where
  "touches_timelock ins \<longleftrightarrow>
     (case ins of ProposeCooldownIncrease s \<Rightarrow> True | CommitCooldownIncrease \<Rightarrow> True | CancelCooldownIncrease \<Rightarrow> True
      | _ \<Rightarrow> False)"

lemma timelock_step:
  assumes "pool_step c ins p p'"
  shows "(\<not> touches_timelock ins \<and> pending_cooldown_slots p' = pending_cooldown_slots p
            \<and> cooldown_proposed_at_slot p' = cooldown_proposed_at_slot p)
       \<or> (\<exists>s. ins = ProposeCooldownIncrease s \<and> actor c = admin p \<and> pending_cooldown_slots p' = s
            \<and> cooldown_proposed_at_slot p' = slot (clock_now c))
       \<or> cooldown_proposed_at_slot p' = 0"
  using assms by (cases rule: step_cases)
    (auto simp: settings_def admin_defs touches_timelock_def moves_money_def split: if_splits option.splits
        StakeInstruction.splits)

text \<open>A pending proposal was made by the last timelock instruction of the pool's history.\<close>

lemma proposal_origin:
  assumes "pool_trace p0 tr p" "born p0" "cooldown_proposed_at_slot p \<noteq> 0"
  shows "\<exists>tr1 c tr2. tr = tr1 @ (c, ProposeCooldownIncrease (pending_cooldown_slots p)) # tr2
           \<and> cooldown_proposed_at_slot p = slot (clock_now c) \<and> (\<forall>e \<in> set tr2. \<not> touches_timelock (snd e))"
  using assms
proof (induction rule: pool_trace.induct)
  case trace_start
  then show ?case by (simp add: born_def)
next
  case (trace_step tr q c ins r)
  from timelock_step [OF trace_step(2)] consider
    (same) "\<not> touches_timelock ins" "pending_cooldown_slots r = pending_cooldown_slots q"
      "cooldown_proposed_at_slot r = cooldown_proposed_at_slot q"
    | (new) "ins = ProposeCooldownIncrease (pending_cooldown_slots r)" "cooldown_proposed_at_slot r = slot (clock_now c)"
    using trace_step.prems by blast
  then show ?case
  proof cases
    case same
    then obtain tr1 c0 tr2 where "tr = tr1 @ (c0, ProposeCooldownIncrease (pending_cooldown_slots r)) # tr2"
      "cooldown_proposed_at_slot r = slot (clock_now c0)" "\<forall>e \<in> set tr2. \<not> touches_timelock (snd e)"
      using trace_step by auto
    then show ?thesis
      using same(1) by (intro exI [of _ tr1] exI [of _ c0] exI [of _ "tr2 @ [(c, ins)]"]) auto
  next
    case new
    then show ?thesis by (intro exI [of _ tr] exI [of _ c] exI [of _ "[]"]) auto
  qed
qed

section \<open>Bounds of the configuration\<close>

definition config_ok :: "StakePool \<Rightarrow> bool" where
  "config_ok p \<longleftrightarrow>
     pool_mode p \<le> 1 \<and> cooldown_slots p \<noteq> 0 \<and> cooldown_slots p \<le> MAX_COOLDOWN_SLOTS
     \<and> (hwm_enabled p \<longrightarrow> hwm_floor_bps p \<noteq> 0 \<and> hwm_floor_bps p \<le> MAX_HWM_FLOOR_BPS)
     \<and> (tranche_enabled p \<longrightarrow> 10000 \<le> junior_fee_mult_bps p \<and> junior_fee_mult_bps p \<le> 50000)"

lemma config_ok_step:
  assumes "pool_step c ins p p'" "config_ok p"
  shows "config_ok p'"
proof -
  have "pool_mode p' = pool_mode p" using pool_step_identity [OF assms(1)] by (simp add: identity_def)
  with assms show ?thesis
    by (cases rule: step_cases [OF assms(1)])
       (auto simp: settings_def config_ok_def admin_defs split: if_splits option.splits)
qed

interpretation configuration: pool_invariant config_ok
proof
  show "config_ok p" if "born p" for p using that by (simp add: born_def config_ok_def)
qed (rule config_ok_step)

end
