(* ===== verification/Sample_Chain.thy ===== *)
theory Sample_Chain
  imports Refinement
begin

text \<open>
  A concrete chain, for instances of the theorems: a system program that creates and assigns
  accounts, a token program that keeps balances, a wrapper that takes and pays insurance, a
  clock read from its account, and a ledger on which one pool is created.  It shows that the
  rules the theorems assume of the runtime can hold together.
\<close>

definition sample_pid :: pubkey where "sample_pid = fill 9"

definition sample_pda :: pda_fn where
  "sample_pda seeds program_id =
     (if hd seeds = ascii ''stake_pool'' then fill 42
      else if hd seeds = ascii ''vault_auth'' then fill 43 else fill 77, 254)"

definition sample_system :: "Instruction \<Rightarrow> ledger \<Rightarrow> ledger result" where
  "sample_system ix L =
     (case ix_data ix of
        [] \<Rightarrow> Inl InvalidInstructionData
      | tag # args \<Rightarrow>
          (let target = meta_pubkey (last (ix_accounts ix)) in
           if tag = 0 then
             require (acc_owner (L target) = fill 0 \<and> acc_data (L target) = []) InvalidArgument
               (Inr (L(target := \<lparr>acc_lamports = 1, acc_owner = array_of (take 32 args),
                                  acc_data = replicate (unat (from_le_bytes (drop 32 args) :: u64)) 0\<rparr>)))
           else if tag = 1 then
             require (acc_owner (L target) = fill 0 \<and> set (acc_data (L target)) \<subseteq> {0}) InvalidArgument
               (Inr (L(target := (L target)\<lparr>acc_owner := array_of (take 32 args)\<rparr>)))
           else if tag = 8 then
             require (acc_owner (L target) = fill 0 \<and> acc_data (L target) = []) InvalidArgument
               (Inr (L(target := (L target)\<lparr>acc_data := replicate (unat (from_le_bytes args :: u64)) 0\<rparr>)))
           else Inr L))"

text \<open>The token program: balances at byte 64 of the 165-byte token accounts.\<close>

definition token_account :: "pubkey \<Rightarrow> pubkey \<Rightarrow> u64 \<Rightarrow> u8 list" where
  "token_account mint own x =
     list_of_bytes mint @ list_of_bytes own @ to_le_bytes x @ replicate 36 0 @ [1] @ replicate 56 0"

definition is_token :: "ledger \<Rightarrow> pubkey \<Rightarrow> bool" where
  "is_token L a \<longleftrightarrow> acc_owner (L a) = spl_token_id \<and> length (acc_data (L a)) = 165"

definition amount_at :: "ledger \<Rightarrow> pubkey \<Rightarrow> u64" where
  "amount_at L a = from_le_bytes (slice 64 8 (acc_data (L a)))"

definition put_amount :: "pubkey \<Rightarrow> u64 \<Rightarrow> ledger \<Rightarrow> ledger" where
  "put_amount a x L = set_data a (patch 64 (to_le_bytes x) (acc_data (L a))) L"

definition sample_add :: "pubkey \<Rightarrow> u64 \<Rightarrow> ledger \<Rightarrow> ledger result" where
  "sample_add a x L =
     require (is_token L a) InvalidArgument (
     bind_err (ok_or (checked_add (amount_at L a) x) InvalidArgument) (\<lambda>y. Inr (put_amount a y L)))"

definition sample_sub :: "pubkey \<Rightarrow> u64 \<Rightarrow> ledger \<Rightarrow> ledger result" where
  "sample_sub a x L =
     require (is_token L a) InvalidArgument (
     bind_err (ok_or (checked_sub (amount_at L a) x) InvalidArgument) (\<lambda>y. Inr (put_amount a y L)))"

definition sample_move :: "pubkey \<Rightarrow> pubkey \<Rightarrow> u64 \<Rightarrow> ledger \<Rightarrow> ledger result" where
  "sample_move a b x L = require (a \<noteq> b) InvalidArgument (bind_err (sample_sub a x L) (sample_add b x))"

definition sample_token :: "Instruction \<Rightarrow> ledger \<Rightarrow> ledger result" where
  "sample_token ix L =
     (let acct = (\<lambda>i. meta_pubkey (ix_accounts ix ! i)); tag = hd (ix_data ix);
          x = from_le_bytes (tl (ix_data ix)) :: u64 in
      if tag = IX_TRANSFER then sample_move (acct 0) (acct 1) x L
      else if tag = IX_MINT_TO then sample_add (acct 1) x L
      else if tag = IX_BURN then sample_sub (acct 0) x L
      else if tag = IX_INITIALIZE_ACCOUNT then
        require (is_token L (acct 0) \<and> acc_data (L (acct 0)) ! 108 = 0) InvalidArgument
          (Inr (set_data (acct 0) (token_account (acct 1) (acct 2) 0) L))
      else Inr L)"

definition sample_wrapper :: "Instruction \<Rightarrow> ledger \<Rightarrow> ledger result" where
  "sample_wrapper ix L =
     (let acct = (\<lambda>i. meta_pubkey (ix_accounts ix ! i)); tag = hd (ix_data ix) in
      if tag = TAG_TOP_UP_INSURANCE then
        sample_move (acct 2) (acct 3) (ucast (from_le_bytes (tl (ix_data ix)) :: u128)) L
      else if tag = TAG_WITHDRAW_INSURANCE_ASSET then
        require (acct 4 = fill 99 \<and> token_owner (acc_data (L (acct 3))) = acct 4) InvalidArgument
          (sample_move (acct 3) (acct 2) (ucast (from_le_bytes (drop 3 (ix_data ix)) :: u128)) L)
      else Inr L)"

definition sample_invoke :: "Instruction \<Rightarrow> ledger \<Rightarrow> ledger result" where
  "sample_invoke ix =
     (if ix_program_id ix = fill 0 then sample_system ix
      else if ix_program_id ix = spl_token_id then sample_token ix
      else if ix_program_id ix = PERCOLATOR_MAINNET then sample_wrapper ix
      else Inr)"

definition sample_env :: env where
  "sample_env =
     \<lparr>find_program_address = sample_pda,
      runtime_invoke = (\<lambda>held ix infos seeds. sample_invoke ix),
      clock_from_account_info = (\<lambda>ai L. Inr \<lparr>slot = from_le_bytes (slice 0 8 (acc_data (L (key ai)))),
                                             epoch = from_le_bytes (slice 16 8 (acc_data (L (key ai))))\<rparr>),
      rent_from_account_info = (\<lambda>ai L. Inr ()), rent_minimum_balance = (\<lambda>n. Inr 1), rent_sysvar_id = fill 6,
      system_create_account = (\<lambda>a b lamports space own.
        \<lparr>ix_program_id = fill 0, ix_accounts = [meta_new a True, meta_new b True],
         ix_data = 0 # list_of_bytes own @ to_le_bytes space\<rparr>),
      system_transfer = (\<lambda>a b lamports.
        \<lparr>ix_program_id = fill 0, ix_accounts = [meta_new a True, meta_new b False], ix_data = [2]\<rparr>),
      system_allocate = (\<lambda>a space.
        \<lparr>ix_program_id = fill 0, ix_accounts = [meta_new a True], ix_data = 8 # to_le_bytes space\<rparr>),
      system_assign = (\<lambda>a own.
        \<lparr>ix_program_id = fill 0, ix_accounts = [meta_new a True], ix_data = 1 # list_of_bytes own\<rparr>),
      devnet_feature = False\<rparr>"

lemma sample_env_sel [simp]:
  "find_program_address sample_env = sample_pda"
  "runtime_invoke sample_env held ix infos seeds = sample_invoke ix"
  "rent_from_account_info sample_env ai L = Inr ()" "rent_minimum_balance sample_env n = Inr 1"
  "devnet_feature sample_env = False"
  by (simp_all add: sample_env_def)

lemma sample_system_ids [simp]:
  "ix_program_id (system_create_account sample_env a b c d e) = fill 0" "ix_program_id (system_transfer sample_env a b c) = fill 0"
  "ix_program_id (system_allocate sample_env a c) = fill 0" "ix_program_id (system_assign sample_env a b) = fill 0"
  by (simp_all add: sample_env_def)

lemma program_ids [simp]: "PERCOLATOR_MAINNET \<noteq> fill b" "fill b \<noteq> PERCOLATOR_MAINNET"
proof -
  show "PERCOLATOR_MAINNET \<noteq> fill b" by (rule not_fill) (simp add: PERCOLATOR_MAINNET_def array_of_inverse)
  then show "fill b \<noteq> PERCOLATOR_MAINNET" by metis
qed

lemma programs_distinct [simp]: "PERCOLATOR_MAINNET \<noteq> spl_token_id" "spl_token_id \<noteq> PERCOLATOR_MAINNET"
proof -
  have "list_of_bytes PERCOLATOR_MAINNET ! 0 \<noteq> list_of_bytes spl_token_id ! 0"
    by (simp add: PERCOLATOR_MAINNET_def spl_token_id_def array_of_inverse)
  then show "PERCOLATOR_MAINNET \<noteq> spl_token_id" "spl_token_id \<noteq> PERCOLATOR_MAINNET" by metis+
qed

lemma sample_system_keeps:
  assumes "sample_system ix L = Inr L'"
  shows "keeps sample_pid L L'"
  using assms
  by (auto simp: sample_system_def Let_def keeps_def sample_pid_def split: list.splits if_splits)

lemma sample_amounts_keep:
  assumes "spl_token_id \<noteq> pid"
  shows "sample_add a x L = Inr L' \<Longrightarrow> keeps pid L L'" "sample_sub a x L = Inr L' \<Longrightarrow> keeps pid L L'"
    "sample_move a b x L = Inr L' \<Longrightarrow> keeps pid L L'"
proof -
  have put: "is_token L a \<Longrightarrow> keeps pid L (put_amount a y L)" for L a y
    using assms by (auto simp: keeps_def put_amount_def set_data_def is_token_def)
  show a: "sample_add a x L = Inr L' \<Longrightarrow> keeps pid L L'" for a x L L' using put by (auto simp: sample_add_def)
  show b: "sample_sub a x L = Inr L' \<Longrightarrow> keeps pid L L'" for a x L L' using put by (auto simp: sample_sub_def)
  show "sample_move a b x L = Inr L' \<Longrightarrow> keeps pid L L'"
    unfolding sample_move_def by (auto dest!: a b intro: keeps_trans)
qed

lemma sample_invoke_keeps:
  assumes "sample_invoke ix L = Inr L'"
  shows "keeps sample_pid L L'"
proof -
  have t: "spl_token_id \<noteq> sample_pid" by (simp add: sample_pid_def)
  have "sample_token ix L = Inr L' \<Longrightarrow> keeps sample_pid L L'"
    using t sample_amounts_keep [OF t]
    by (auto simp: sample_token_def Let_def is_token_def keeps_def set_data_def split: if_splits)
  moreover have "sample_wrapper ix L = Inr L' \<Longrightarrow> keeps sample_pid L L'"
    using sample_amounts_keep(3) [OF t] by (auto simp: sample_wrapper_def Let_def split: if_splits)
  ultimately show ?thesis
    using assms sample_system_keeps by (auto simp: sample_invoke_def split: if_splits)
qed

lemma sample_frame: "cpi_frame sample_env sample_pid"
proof -
  have ids: "spl_token_id \<noteq> sample_pid" "\<not> allowed_percolator sample_env sample_pid" "fill 0 \<noteq> sample_pid"
    by (simp_all add: sample_pid_def allowed_percolator_def)
  have "keeps sample_pid L L'" if "runtime_invoke sample_env held ix infos seeds L = Inr L'" for held ix infos seeds L L'
    using that sample_invoke_keeps by simp
  moreover have "acc_owner (L' b) = e"
    if "runtime_invoke sample_env held (system_create_account sample_env a b c d e) infos seeds L = Inr L'"
    for held a b c d e infos seeds L L'
    using that by (auto simp: sample_env_def sample_invoke_def sample_system_def meta_new_def Let_def)
  moreover have "acc_owner (L' a) = b"
    if "runtime_invoke sample_env held (system_assign sample_env a b) infos seeds L = Inr L'"
    for held a b infos seeds L L'
    using that by (auto simp: sample_env_def sample_invoke_def sample_system_def meta_new_def Let_def)
  ultimately show ?thesis unfolding cpi_frame_def using ids by (metis sample_system_ids)
qed

lemma ascii_seeds [simp]:
  "ascii ''stake_deposit'' \<noteq> ascii ''stake_pool''" "ascii ''stake_deposit'' \<noteq> ascii ''vault_auth''"
  "ascii ''vault_auth'' \<noteq> ascii ''stake_pool''"
  by (simp_all add: ascii_def)

lemma sample_addresses [simp]:
  "derive_pool_pda sample_pda pid s = (fill 42, 254)" "derive_vault_authority sample_pda pid k = (fill 43, 254)"
  "derive_deposit_pda sample_pda pid k u = (fill 77, 254)"
  by (simp_all add: derive_pool_pda_def derive_vault_authority_def derive_deposit_pda_def sample_pda_def)

lemma sample_separation: "pda_separation sample_env sample_pid"
  by (simp add: pda_separation_def)

section \<open>A ledger with one pool\<close>

definition ai :: "u8 \<Rightarrow> bool \<Rightarrow> AccountInfo" where
  "ai b s = \<lparr>key = fill b, is_signer = s, is_writable = True\<rparr>"

lemma ai_sel [simp]: "key (ai b s) = fill b" "is_signer (ai b s) = s" "is_writable (ai b s)"
  by (simp_all add: ai_def)

definition program_ai :: "pubkey \<Rightarrow> AccountInfo" where
  "program_ai k = \<lparr>key = k, is_signer = False, is_writable = False\<rparr>"

lemma program_ai_sel [simp]: "key (program_ai k) = k" by (simp add: program_ai_def)

definition sample_genesis :: ledger where
  "sample_genesis =
     (\<lambda>k. \<lparr>acc_lamports = 0, acc_owner = fill 0, acc_data = []\<rparr>)
       (fill 2 := \<lparr>acc_lamports = 1, acc_owner = PERCOLATOR_MAINNET, acc_data = []\<rparr>,
        fill 3 := \<lparr>acc_lamports = 1, acc_owner = spl_token_id, acc_data = replicate 82 0\<rparr>,
        fill 4 := \<lparr>acc_lamports = 1, acc_owner = spl_token_id, acc_data = replicate 165 0\<rparr>,
        fill 5 := \<lparr>acc_lamports = 1, acc_owner = spl_token_id, acc_data = replicate 82 6\<rparr>,
        fill 11 := \<lparr>acc_lamports = 1, acc_owner = spl_token_id, acc_data = token_account (fill 5) (fill 1) 9000\<rparr>,
        fill 12 := \<lparr>acc_lamports = 1, acc_owner = spl_token_id, acc_data = token_account (fill 3) (fill 1) 0\<rparr>)"

lemma sample_unowned: "\<forall>k. acc_owner (sample_genesis k) \<noteq> sample_pid"
  by (simp add: sample_genesis_def sample_pid_def)

definition sample_init_accounts :: "AccountInfo list" where
  "sample_init_accounts =
     [ai 1 True, ai 2 False, ai 42 False, ai 3 False, ai 4 False, ai 43 False, ai 5 False,
      program_ai PERCOLATOR_MAINNET, program_ai spl_token_id, ai 0 False, ai 6 False]"

definition sample_pool :: StakePool where
  "sample_pool =
     genesis_pool 254 254 (fill 2) (fill 1) (fill 5) (fill 3) (fill 4) PERCOLATOR_MAINNET 1000 0
       (pool_of_bytes (replicate STAKE_POOL_SIZE 0))"

definition sample_accounts :: ledger where
  "sample_accounts = sample_genesis
     (fill 4 := \<lparr>acc_lamports = 1, acc_owner = spl_token_id, acc_data = token_account (fill 5) (fill 43) 0\<rparr>,
      fill 42 := \<lparr>acc_lamports = 1, acc_owner = sample_pid, acc_data = replicate STAKE_POOL_SIZE 0\<rparr>)"

definition sample_ledger :: ledger where
  "sample_ledger = write_pool (ai 42 False) sample_pool sample_accounts"

lemma process_pack:
  "process E pid accs (pack (InitPool c d)) L = process_init_pool E pid accs c d L"
  "process E pid accs (pack (ProposeAdmin k)) L = process_propose_admin pid accs k L"
  "process E pid accs (pack AcceptAdmin) L = process_accept_admin pid accs L"
  "process E pid accs (pack (ProposeCooldownIncrease s)) L = process_propose_cooldown_increase E pid accs s L"
  "process E pid accs (pack CommitCooldownIncrease) L = process_commit_cooldown_increase E pid accs L"
  "process E pid accs (pack (AdminSetTrancheConfig m)) L = process_admin_set_tranche_config pid accs m L"
  "process E pid accs (pack SetMarketResolved) L = process_set_market_resolved pid accs L"
  "process E pid accs (pack (Deposit a)) L = process_deposit E pid accs a L"
  "process E pid accs (pack (Withdraw l)) L = process_withdraw E pid accs l L"
  "process E pid accs (pack (DepositJunior a)) L = process_deposit_junior E pid accs a L"
  "process E pid accs (pack (FlushToInsurance a)) L = process_flush_to_insurance E pid accs a L"
  "process E pid accs (pack (ReturnInsurance a)) L = process_return_insurance E pid accs a L"
  "process E pid accs (pack (RecoverFlushedInsurance a)) L = process_recover_flushed_insurance E pid accs a L"
  by (simp_all only: process_def unpack_pack bind_err_simps StakeInstruction.case)

lemmas token_tags =
  IX_TRANSFER_def IX_MINT_TO_def IX_BURN_def IX_INITIALIZE_ACCOUNT_def IX_INITIALIZE_MINT_def

lemmas wrapper_tags =
  TAG_TOP_UP_INSURANCE_def TAG_WITHDRAW_INSURANCE_ASSET_def TAG_UPDATE_AUTHORITY_def

lemma sample_init:
  "process sample_env sample_pid sample_init_accounts (pack (InitPool 1000 0)) sample_genesis = Inr sample_ledger"
proof -
  let ?L = "sample_genesis(fill 42 := \<lparr>acc_lamports = 1, acc_owner = sample_pid, acc_data = replicate STAKE_POOL_SIZE 0\<rparr>)"
  have ck: "init_pool_checks sample_env sample_pid (ai 1 True) (ai 2 False) (ai 42 False) (ai 3 False) (ai 43 False)
      (ai 5 False) (program_ai PERCOLATOR_MAINNET) (program_ai spl_token_id) (ai 6 False) 1000 sample_genesis
      = Inr (254, 254)"
    by (simp add: init_pool_checks_def allowed_percolator_def MAX_COOLDOWN_SLOTS_def data_is_empty_def
        account_owner_def sample_genesis_def)
  have cr: "create_or_adopt_pda sample_env [] (ai 42 False) (ai 1 True) (ai 0 False) sample_pid STAKE_POOL_SIZE
      seeds sample_genesis = Inr ?L" for seeds
    by (simp add: create_or_adopt_pda_eq account_lamports_def sample_genesis_def sample_env_def sample_invoke_def
        sample_system_def meta_new_def Let_def STAKE_POOL_SIZE_def)
  have calls: "init_pool_calls sample_env (ai 1 True) (ai 2 False) (ai 42 False) (ai 3 False) (ai 4 False) (ai 43 False)
      (ai 5 False) (program_ai PERCOLATOR_MAINNET) (program_ai spl_token_id) (ai 6 False) pb vb ?L = Inr sample_accounts" for pb vb
  proof -
    have "set_data (fill 4) (token_account (fill 5) (fill 43) 0) ?L = sample_accounts"
      by (simp add: fun_eq_iff set_data_def sample_accounts_def sample_genesis_def)
    moreover have "is_token ?L (fill 4)" "acc_data (?L (fill 4)) ! 108 = 0" "acc_data (?L (fill 5)) = replicate 82 6"
      by (simp_all add: is_token_def sample_genesis_def)
    ultimately show ?thesis
      by (simp add: init_pool_calls_def cpi_update_authority_def update_authority_ix_def try_borrow_data_def
          mint_unpack_eq initialize_mint_def initialize_account_def MINT_LEN_def sample_invoke_def
          sample_token_def sample_wrapper_def wrapper_tags token_tags meta_new_def meta_new_readonly_def del: fun_upd_apply)
  qed
  show ?thesis
    unfolding process_pack
    by (simp add: process_init_pool_def sample_init_accounts_def ck cr calls Let_def
        try_borrow_data_def pool_from_data_eq sample_ledger_def sample_pool_def sample_accounts_def)
qed

lemma sample_world:
  "world sample_env sample_pid sample_genesis [(sample_init_accounts, pack (InitPool 1000 0), sample_genesis)]
     sample_ledger"
  using world_call [OF world_start sample_init] by simp

lemma zero_image [simp]:
  "cooldown_proposed_at_slot (pool_of_bytes (replicate STAKE_POOL_SIZE 0)) = 0"
  by (rule zero_pool(4) [of "replicate STAKE_POOL_SIZE 0"]) (simp_all add: STAKE_POOL_SIZE_def)

lemma sample_pool_sel [simp]: "admin sample_pool = fill 1" "pending_admin sample_pool = fill 0"
  "slab sample_pool = fill 2" "cooldown_slots sample_pool = 1000" "vault sample_pool = fill 4"
  "cooldown_proposed_at_slot sample_pool = 0"
  by (simp_all add: sample_pool_def genesis_pool_def set_discriminator_def Let_def)

lemma sample_born: "born sample_pool"
proof -
  have z: "set (replicate STAKE_POOL_SIZE (0 :: u8)) \<subseteq> {0}" "STAKE_POOL_SIZE \<le> length (replicate STAKE_POOL_SIZE (0 :: u8))"
    by auto
  have "born (sample_pool\<lparr>pool_mode := 0\<rparr>)"
    unfolding sample_pool_def using zero_pool [OF z, of "pool_of_bytes (replicate STAKE_POOL_SIZE 0)"]
    by (intro genesis_born) (simp_all add: MAX_COOLDOWN_SLOTS_def)
  then show ?thesis unfolding sample_pool_def genesis_mode .
qed

lemma sample_live_pool: "live_pool sample_pool"
  unfolding sample_pool_def live_pool_def using genesis_identity genesis_mode unfolding identity_def by (metis prod.inject)

lemma sample_at: "pool_bytes_at sample_ledger (fill 42) sample_pool"
  using write_pool_at [of sample_accounts "ai 42 False" sample_pool]
  by (simp add: sample_ledger_def sample_accounts_def)

lemma sample_owner: "acc_owner (sample_ledger (fill 42)) = sample_pid"
  by (simp add: sample_ledger_def sample_accounts_def)

lemma sample_live: "live_at sample_pid sample_ledger (fill 42) sample_pool"
  by (simp add: live_at_def sample_owner sample_at sample_live_pool)

lemma sample_ledger_ok: "ledger_ok sample_env sample_pid sample_ledger"
  by (rule world_ledger_ok [OF sample_world sample_frame sample_separation unowned_ledger_ok [OF sample_unowned]])

section \<open>Running instructions\<close>

text \<open>The clock account moves on between instructions.\<close>

definition sample_clock :: "u64 \<Rightarrow> ledger \<Rightarrow> ledger" where
  "sample_clock s L = L(fill 10 := \<lparr>acc_lamports = 1, acc_owner = fill 6, acc_data = to_le_bytes s @ replicate 16 0\<rparr>)"

lemma sample_clock_keeps:
  "acc_owner (L (fill 10)) \<noteq> sample_pid \<Longrightarrow> keeps sample_pid L (sample_clock s L)"
  by (auto simp: keeps_def sample_clock_def sample_pid_def)

lemma sample_clock_slot:
  "clock_from_account_info sample_env (ai 10 b) (sample_clock s L) = Inr \<lparr>slot = s, epoch = 0\<rparr>"
  by (simp add: sample_env_def sample_clock_def slice_def)

lemma live_open:
  assumes "live_at pid L (key a) p" "is_writable a"
  shows "owned_pool_account pid a L = Inr ()" "open_pool a L = Inr p"
  using assms pool_bytes_nonempty by (auto simp: live_at_def open_pool_ok)

lemma write_live:
  assumes "live_at pid L (key a) p" "identity p' = identity p"
  shows "live_at pid (write_pool a p' L) (key a) p'"
  using assms identity_live [OF assms(2)] write_pool_at [where L = L and ai = a and p = p']
  by (auto simp: live_at_def pool_bytes_at_def)

end
