(* ===== verification/Governance_Properties.thy ===== *)
theory Governance_Properties
  imports Governance Sample_Chain
begin

text \<open>
  The properties of the program on the ledger as a whole and of its governance, with an
  instance of each on the sample chain.
\<close>

section \<open>Instances\<close>

lemma sample_write:
  assumes "identity p' = identity sample_pool"
  shows "live_at sample_pid (write_pool (ai 42 s) p' sample_ledger) (fill 42) p'"
    and "ledger_ok sample_env sample_pid (write_pool (ai 42 s) p' sample_ledger)"
proof -
  have "pool_bytes_at (write_pool (ai 42 s) p' sample_ledger) (key (ai 42 s)) p'"
    using sample_at by (intro write_pool_at) (simp add: pool_bytes_at_def)
  then show "live_at sample_pid (write_pool (ai 42 s) p' sample_ledger) (fill 42) p'"
    using identity_live [OF assms] sample_live_pool by (simp add: live_at_def sample_owner)
  show "ledger_ok sample_env sample_pid (write_pool (ai 42 s) p' sample_ledger)"
    by (rule write_pool_ledger_ok [OF sample_ledger_ok])
       (use assms sample_at sample_owner sample_live_pool live_validates in auto)
qed

definition sample_call :: "AccountInfo list" where
  "sample_call = [ai 1 True, ai 42 False, ai 10 False]"

lemma sample_open:
  "open_pool_as_admin sample_pid (ai 1 True) (ai 42 False) sample_ledger = Inr sample_pool"
  using sample_at pool_bytes_nonempty [OF sample_at]
  by (simp add: open_pool_as_admin_ok sample_owner sample_live_pool)

lemma sample_propose:
  "process sample_env sample_pid sample_call (pack (ProposeAdmin (fill 8))) sample_ledger
   = Inr (write_pool (ai 42 False) (sample_pool\<lparr>pending_admin := fill 8\<rparr>) sample_ledger)"
  unfolding process_pack by (simp add: process_propose_admin_def sample_call_def sample_open)

section \<open>Refinement of the ledger\<close>

text \<open>
  C5 (refinement).  On a well-formed ledger, a successful instruction leaves every live pool
  live, at its address and with its identity; the pool is unchanged, or the instruction named
  it as account 1, was signed (recovery aside), and the pool took the abstract step
  \<open>pool_step\<close> in the context the handler read from the ledger.  The ledger stays well-formed.
\<close>

theorem process_refines:
  assumes "cpi_frame E pid" "pda_separation E pid" "ledger_ok E pid L"
    and "process E pid accs dt L = Inr L'" and "live_at pid L k q"
  shows "ledger_ok E pid L' \<and>
    (\<exists>q'. live_at pid L' k q' \<and> identity q' = identity q \<and>
       (q' = q \<or>
        (\<exists>ins c. unpack dt = Inr ins \<and> k = key (accs ! 1)
           \<and> ((\<forall>a. ins \<noteq> RecoverFlushedInsurance a) \<longrightarrow> is_signer (accs ! 0))
           \<and> reads E pid accs ins q L c \<and> pool_step c ins q q')))"
proof -
  from process_refines_aux [OF assms]
  consider "live_at pid L' k q"
    | ins q' where "unpack dt = Inr ins" "steps_pool E pid accs ins k q q' L" "live_at pid L' k q'" by blast
  then show ?thesis
  proof cases
    case 1
    then show ?thesis using process_ledger_ok [OF assms(1-4)] by blast
  next
    case 2
    then show ?thesis
      using process_ledger_ok [OF assms(1-4)] pool_step_identity unfolding steps_pool_def by blast
  qed
qed

theorem process_refines_witness:
  "\<exists>L' q'. process sample_env sample_pid sample_call (pack (ProposeAdmin (fill 8))) sample_ledger = Inr L'
     \<and> ledger_ok sample_env sample_pid L' \<and> live_at sample_pid L' (fill 42) q' \<and> identity q' = identity sample_pool"
  using process_refines [OF sample_frame sample_separation sample_ledger_ok sample_propose sample_live] sample_propose
  by blast

text \<open>
  C18 (history).  In every world grown from a ledger without accounts of this program, each
  live pool is the end of a trace of \<open>pool_step\<close>s from a newborn pool, and the trace is, in
  order, what the logged calls that stepped this pool did.
\<close>

theorem pool_history:
  assumes "world E pid L0 es L" "cpi_frame E pid" "pda_separation E pid"
    and "\<forall>k. acc_owner (L0 k) \<noteq> pid" and "live_at pid L k p"
  shows "\<exists>p0 es' tr. born p0 \<and> pool_trace p0 tr p \<and> subseq es' es \<and> list_all2 (event_of E pid k) es' tr"
  by (rule world_history [OF assms])

theorem pool_history_witness:
  "\<exists>p0 es' tr. born p0 \<and> pool_trace p0 tr sample_pool
     \<and> subseq es' [(sample_init_accounts, pack (InitPool 1000 0), sample_genesis)]
     \<and> list_all2 (event_of sample_env sample_pid (fill 42)) es' tr"
  by (rule pool_history [OF sample_world sample_frame sample_separation sample_unowned sample_live])

lemma world_persists:
  assumes "world E pid L es L'" "cpi_frame E pid" "pda_separation E pid" "ledger_ok E pid L" "live_at pid L k p"
  shows "\<exists>p' tr. live_at pid L' k p' \<and> pool_trace p tr p'"
  using assms(1)
proof (induction rule: world.induct)
  case world_start
  then show ?case using assms(5) trace_start by blast
next
  case (world_call es L1 accs dt L2)
  obtain p1 tr where p1: "live_at pid L1 k p1" "pool_trace p tr p1" using world_call.IH by blast
  have "ledger_ok E pid L1" by (rule world_ledger_ok [OF world_call(1) assms(2-4)])
  from process_refines_aux [OF assms(2,3) this world_call(2) p1(1)] show ?case
    using p1(2) trace_step unfolding steps_pool_def by blast
next
  case (world_foreign es L1 L2)
  then show ?case using keeps_live_at by blast
qed

lemma trace_identity: "pool_trace p tr q \<Longrightarrow> identity q = identity p"
  by (induction rule: pool_trace.induct) (auto dest: pool_step_identity)

text \<open>
  C19 (immutability).  A live pool is never destroyed, replaced or re-initialised: in every
  later ledger the same address holds a live pool with the same market, mints, vault, bumps,
  wrapper program, mode and layout version.
\<close>

theorem pool_immutable:
  assumes "world E pid L es L'" "cpi_frame E pid" "pda_separation E pid" "ledger_ok E pid L" "live_at pid L k p"
  shows "\<exists>p'. live_at pid L' k p' \<and> slab p' = slab p \<and> collateral_mint p' = collateral_mint p
      \<and> lp_mint p' = lp_mint p \<and> vault p' = vault p \<and> percolator_program p' = percolator_program p
      \<and> bump p' = bump p \<and> vault_authority_bump p' = vault_authority_bump p \<and> pool_mode p' = pool_mode p
      \<and> version p' = version p"
proof -
  obtain p' tr where p': "live_at pid L' k p'" "pool_trace p tr p'" using world_persists [OF assms] by blast
  from trace_identity [OF p'(2)] show ?thesis by (intro exI [of _ p']) (simp add: p'(1) identity_def)
qed

theorem pool_immutable_witness:
  "\<exists>p'. live_at sample_pid (write_pool (ai 42 False) (sample_pool\<lparr>pending_admin := fill 8\<rparr>) sample_ledger) (fill 42) p'
     \<and> vault p' = fill 4"
  using pool_immutable [OF world_call [OF world_start sample_propose] sample_frame sample_separation
      sample_ledger_ok sample_live] by auto

section \<open>Governance\<close>

text \<open>
  C20 (two-step admin rotation).  The admin of a pool changes only by \<open>AcceptAdmin\<close>, signed by
  the account that was pending and is then the admin, which clears the nomination; the
  pending admin changes only so or by \<open>ProposeAdmin\<close>, signed by the current admin.
\<close>

theorem admin_two_step:
  assumes "cpi_frame E pid" "pda_separation E pid" "ledger_ok E pid L" "process E pid accs dt L = Inr L'"
    "live_at pid L k p" "live_at pid L' k p'"
  shows "(admin p' \<noteq> admin p \<longrightarrow>
            unpack dt = Inr AcceptAdmin \<and> k = key (accs ! 1) \<and> is_signer (accs ! 0)
            \<and> key (accs ! 0) = pending_admin p \<and> admin p' = pending_admin p \<and> pending_admin p \<noteq> fill 0
            \<and> pending_admin p' = fill 0)
       \<and> (pending_admin p' \<noteq> pending_admin p \<longrightarrow>
            is_signer (accs ! 0) \<and> k = key (accs ! 1) \<and>
            (unpack dt = Inr (ProposeAdmin (pending_admin p')) \<and> key (accs ! 0) = admin p \<and> admin p' = admin p
             \<or> unpack dt = Inr AcceptAdmin \<and> key (accs ! 0) = pending_admin p \<and> pending_admin p' = fill 0))"
proof (rule process_pool_cases [OF assms])
  assume "p' = p"
  then show ?thesis by simp
next
  fix ins c
  assume step: "unpack dt = Inr ins" "k = key (accs ! 1)" "reads E pid accs ins p L c"
    "(\<forall>a. ins \<noteq> RecoverFlushedInsurance a) \<longrightarrow> is_signer (accs ! 0)" "pool_step c ins p p'"
  have a: "actor c = key (accs ! 0)" using reads_actor [OF step(3)] .
  show ?thesis
    using step a admin_step [OF step(5)] pending_admin_step [OF step(5)] by auto
qed

theorem admin_two_step_witness:
  "(let p' = sample_pool\<lparr>pending_admin := fill 8\<rparr> in
    pending_admin p' \<noteq> pending_admin sample_pool \<and> is_signer (sample_call ! 0)
    \<and> key (sample_call ! 0) = admin sample_pool)"
  using admin_two_step [OF sample_frame sample_separation sample_ledger_ok sample_propose sample_live
      sample_write(1) [of "sample_pool\<lparr>pending_admin := fill 8\<rparr>"]]
  by (simp add: sample_call_def)

text \<open>
  C21 (cooldown timelock).  If an instruction raises a pool's cooldown in a world grown from a
  ledger without accounts of this program, it is \<open>CommitCooldownIncrease\<close> signed by the
  admin, and the new value is the one proposed for this very pool by an earlier signed
  \<open>ProposeCooldownIncrease\<close> whose clock lies at least 432000 slots before the commit's clock.
  No other path, \<open>UpdateConfig\<close> included, raises it.
\<close>

theorem cooldown_timelock:
  assumes "world E pid L0 es L" "cpi_frame E pid" "pda_separation E pid" "\<forall>k. acc_owner (L0 k) \<noteq> pid"
    "process E pid accs dt L = Inr L'" "live_at pid L k p" "live_at pid L' k p'"
    "cooldown_slots p < cooldown_slots p'"
  shows "unpack dt = Inr CommitCooldownIncrease \<and> k = key (accs ! 1) \<and> is_signer (accs ! 0)
    \<and> key (accs ! 0) = admin p
    \<and> (\<exists>accs0 dt0 M now0 now. (accs0, dt0, M) \<in> set es
         \<and> unpack dt0 = Inr (ProposeCooldownIncrease (cooldown_slots p'))
         \<and> k = key (accs0 ! 1) \<and> is_signer (accs0 ! 0)
         \<and> clock_from_account_info E (accs0 ! 2) M = Inr now0 \<and> clock_from_account_info E (accs ! 2) L = Inr now
         \<and> unat (slot now0) + 432000 \<le> unat (slot now))"
proof -
  have ok: "ledger_ok E pid L" by (rule world_ledger_ok [OF assms(1-3) unowned_ledger_ok [OF assms(4)]])
  from assms(8) have "p' \<noteq> p" by auto
  then obtain ins c where s: "unpack dt = Inr ins" "k = key (accs ! 1)" "reads E pid accs ins p L c"
    "(\<forall>a. ins \<noteq> RecoverFlushedInsurance a) \<longrightarrow> is_signer (accs ! 0)" "pool_step c ins p p'"
    by (cases rule: process_pool_cases [OF assms(2,3) ok assms(5,6,7)]) blast+
  have st: "ins = CommitCooldownIncrease" "actor c = admin p" "cooldown_slots p' = pending_cooldown_slots p"
    "cooldown_proposed_at_slot p \<noteq> 0"
    "unat (cooldown_proposed_at_slot p) + unat TIMELOCK_SLOTS \<le> unat (slot (clock_now c))"
    using cooldown_step [OF s(5) assms(8)] by blast+
  obtain p0 es' tr where h: "born p0" "pool_trace p0 tr p" "subseq es' es" "list_all2 (event_of E pid k) es' tr"
    using world_history [OF assms(1-4,6)] by blast
  obtain tr1 c0 tr2 where tr: "tr = tr1 @ (c0, ProposeCooldownIncrease (pending_cooldown_slots p)) # tr2"
    and at: "cooldown_proposed_at_slot p = slot (clock_now c0)"
    using proposal_origin [OF h(2,1) st(4)] by blast
  obtain e where e: "e \<in> set es'" "event_of E pid k e (c0, ProposeCooldownIncrease (pending_cooldown_slots p))"
    using h(4) unfolding tr by (auto simp: list_all2_append2 list_all2_Cons2) blast
  obtain accs0 dt0 M where acc: "e = (accs0, dt0, M)" by (metis prod_cases3)
  have "e \<in> set es" using e(1) h(3) by (blast elim: list_emb_set)
  moreover obtain q where q: "unpack dt0 = Inr (ProposeCooldownIncrease (cooldown_slots p'))"
    "k = key (accs0 ! 1)" "is_signer (accs0 ! 0)"
    "reads E pid accs0 (ProposeCooldownIncrease (cooldown_slots p')) q M c0"
    using e(2) st(3) unfolding acc event_of.simps by auto
  moreover have "clock_from_account_info E (accs0 ! 2) M = Inr (clock_now c0)"
    using reads_clock [OF q(4)] by (simp add: clock_index_def is_deposit_def)
  moreover have "clock_from_account_info E (accs ! 2) L = Inr (clock_now c)"
    using reads_clock [OF s(3)] st(1) by (simp add: clock_index_def is_deposit_def)
  ultimately show ?thesis
    using s st(1,2,5) at acc reads_actor [OF s(3)] by (auto simp: TIMELOCK_SLOTS_def)
qed

text \<open>The instance: a proposal at slot 5, the clock advanced by the window, the commit.\<close>

lemma sample_run_timelock:
  assumes "live_at sample_pid (sample_clock n L) (fill 42) p" "admin p = fill 1"
  shows "propose_cooldown_pool v n p = Inr p' \<Longrightarrow>
      process sample_env sample_pid sample_call (pack (ProposeCooldownIncrease v)) (sample_clock n L)
        = Inr (write_pool (ai 42 False) p' (sample_clock n L))"
    and "commit_cooldown_pool n p = Inr p' \<Longrightarrow>
      process sample_env sample_pid sample_call (pack CommitCooldownIncrease) (sample_clock n L)
        = Inr (write_pool (ai 42 False) p' (sample_clock n L))"
  unfolding process_pack
  using live_open [of sample_pid "sample_clock n L" "ai 42 False" p] assms
  by (simp_all add: process_propose_cooldown_increase_def process_commit_cooldown_increase_def sample_call_def
      sample_clock_slot owned_pool_account_def Let_def)

definition sample_proposed :: StakePool where
  "sample_proposed = sample_pool\<lparr>pending_cooldown_slots := 2000, cooldown_proposed_at_slot := 5\<rparr>"

definition sample_committed :: StakePool where
  "sample_committed = sample_proposed\<lparr>cooldown_slots := 2000, pending_cooldown_slots := 0, cooldown_proposed_at_slot := 0\<rparr>"

lemma sample_timelock_steps:
  "propose_cooldown_pool 2000 5 sample_pool = Inr sample_proposed"
  "commit_cooldown_pool 432005 sample_proposed = Inr sample_committed"
  by (simp_all add: propose_cooldown_pool_def commit_cooldown_pool_def sample_proposed_def sample_committed_def
      MAX_COOLDOWN_SLOTS_def TIMELOCK_SLOTS_def timelock_window_elapsed_def checked_add_def
      set_pending_cooldown_slots_def set_cooldown_proposed_at_slot_def Let_def)

lemma sample_timelock_identity:
  "identity sample_proposed = identity sample_pool" "identity sample_committed = identity sample_proposed"
  by (simp_all add: sample_proposed_def sample_committed_def)

theorem cooldown_timelock_witness:
  "\<exists>L L' es. process sample_env sample_pid sample_call (pack CommitCooldownIncrease) L = Inr L'
     \<and> live_at sample_pid L' (fill 42) sample_committed
     \<and> (\<exists>accs0 dt0 M now0. (accs0, dt0, M) \<in> set es
          \<and> unpack dt0 = Inr (ProposeCooldownIncrease 2000)
          \<and> clock_from_account_info sample_env (accs0 ! 2) M = Inr now0 \<and> unat (slot now0) + 432000 \<le> 432005)"
proof -
  let ?La = "sample_clock 5 sample_ledger"
  let ?Lb = "write_pool (ai 42 False) sample_proposed ?La"
  let ?Lc = "sample_clock 432005 ?Lb"
  let ?Ld = "write_pool (ai 42 False) sample_committed ?Lc"
  have ne: "acc_owner (sample_ledger (fill 10)) \<noteq> sample_pid" "acc_owner (?Lb (fill 10)) \<noteq> sample_pid"
    by (simp_all add: sample_ledger_def sample_accounts_def sample_genesis_def sample_clock_def sample_pid_def)
  have k: "keeps sample_pid sample_ledger ?La" "keeps sample_pid ?Lb ?Lc"
    using sample_clock_keeps [of sample_ledger] sample_clock_keeps [of ?Lb] ne by blast+
  have la: "live_at sample_pid ?La (fill 42) sample_pool"
    using keeps_live_at [OF k(1) sample_live] .
  note run1 = sample_run_timelock(1) [OF la _ sample_timelock_steps(1)]
  have lb: "live_at sample_pid ?Lb (fill 42) sample_proposed"
    using write_live [of sample_pid ?La "ai 42 False"] la sample_timelock_identity by simp
  have lc: "live_at sample_pid ?Lc (fill 42) sample_proposed"
    using keeps_live_at [OF k(2) lb] .
  have "admin sample_proposed = fill 1" by (simp add: sample_proposed_def)
  note run2 = sample_run_timelock(2) [OF lc this sample_timelock_steps(2)]
  have ld: "live_at sample_pid ?Ld (fill 42) sample_committed"
    using write_live [of sample_pid ?Lc "ai 42 False"] lc sample_timelock_identity by simp
  have w: "world sample_env sample_pid sample_genesis
      ([(sample_init_accounts, pack (InitPool 1000 0), sample_genesis)]
       @ [(sample_call, pack (ProposeCooldownIncrease 2000), ?La)]) ?Lc"
    using world_foreign [OF world_call [OF world_foreign [OF sample_world k(1)] run1] k(2)] by simp
  have lt: "cooldown_slots sample_proposed < cooldown_slots sample_committed"
    by (simp add: sample_proposed_def sample_committed_def)
  have now: "clock_from_account_info sample_env (sample_call ! 2) ?Lc = Inr \<lparr>slot = 432005, epoch = 0\<rparr>"
    by (simp add: sample_call_def sample_clock_slot)
  have "cooldown_slots sample_committed = 2000" by (simp add: sample_committed_def)
  with cooldown_timelock [OF w sample_frame sample_separation sample_unowned run2 lc ld lt] now ld run2
  show ?thesis by fastforce
qed

text \<open>
  C22 (configuration bounds).  In every such world each pool has a cooldown between 1 and the
  maximum, a known mode, a high-water-mark floor between 1 and 9000 basis points when the
  mark is on, and a junior fee multiplier between one and five when tranches are on.
\<close>

theorem configuration_bounds:
  assumes "world E pid L0 es L" "cpi_frame E pid" "pda_separation E pid" "\<forall>k. acc_owner (L0 k) \<noteq> pid"
    "live_at pid L k p"
  shows "pool_mode p \<le> 1 \<and> 1 \<le> cooldown_slots p \<and> cooldown_slots p \<le> 78840000
    \<and> (hwm_enabled p \<longrightarrow> 1 \<le> hwm_floor_bps p \<and> hwm_floor_bps p \<le> 9000)
    \<and> (tranche_enabled p \<longrightarrow> 10000 \<le> junior_fee_mult_bps p \<and> junior_fee_mult_bps p \<le> 50000)"
  using configuration.holds_in_world [OF assms]
  by (simp add: config_ok_def MAX_COOLDOWN_SLOTS_def MAX_HWM_FLOOR_BPS_def word_one_le)

theorem configuration_bounds_witness:
  "1 \<le> cooldown_slots sample_pool \<and> cooldown_slots sample_pool \<le> 78840000"
  using configuration_bounds [OF sample_world sample_frame sample_separation sample_unowned sample_live] by simp

section \<open>Irreversible decisions\<close>

lemma trace_flags:
  assumes "pool_trace p tr q"
  shows "market_resolved p \<Longrightarrow> market_resolved q" "asset_admin_burned p \<Longrightarrow> asset_admin_burned q"
  using assms by (induction rule: pool_trace.induct) (auto dest: flags_monotone)

lemma resolved_blocks:
  assumes "pool_step c ins p p'" "market_resolved p"
  shows "ins \<noteq> Deposit a" "ins \<noteq> DepositJunior a" "ins \<noteq> FlushToInsurance a" "ins \<noteq> SetMarketResolved"
  using assms by (auto elim: pool_step.cases simp: resolve_pool_def)

text \<open>
  C23 (resolution is final).  A resolved pool stays resolved in every later ledger, and there no
  instruction on it succeeds in depositing, flushing or resolving again.
\<close>

theorem resolution_final:
  assumes "world E pid L es L'" "cpi_frame E pid" "pda_separation E pid" "ledger_ok E pid L"
    "live_at pid L k p" "market_resolved p"
  shows "\<exists>p'. live_at pid L' k p' \<and> market_resolved p'
    \<and> (\<forall>accs dt L'' a. key (accs ! 1) = k \<longrightarrow> process E pid accs dt L' = Inr L'' \<longrightarrow>
         unpack dt \<noteq> Inr (Deposit a) \<and> unpack dt \<noteq> Inr (DepositJunior a)
         \<and> unpack dt \<noteq> Inr (FlushToInsurance a) \<and> unpack dt \<noteq> Inr SetMarketResolved)"
proof -
  obtain p' tr where p': "live_at pid L' k p'" "pool_trace p tr p'" using world_persists [OF assms(1-5)] by blast
  have r: "market_resolved p'" using trace_flags(1) [OF p'(2) assms(6)] .
  have ok: "ledger_ok E pid L'" by (rule world_ledger_ok [OF assms(1-4)])
  have "\<not> acts_on_pool ins \<or> (\<forall>a. ins \<noteq> Deposit a \<and> ins \<noteq> DepositJunior a \<and> ins \<noteq> FlushToInsurance a \<and> ins \<noteq> SetMarketResolved)"
    if "key (accs ! 1) = k" "process E pid accs dt L' = Inr L''" "unpack dt = Inr ins" for accs dt L'' ins
  proof (rule disjCI)
    assume "\<not> (\<forall>a. ins \<noteq> Deposit a \<and> ins \<noteq> DepositJunior a \<and> ins \<noteq> FlushToInsurance a \<and> ins \<noteq> SetMarketResolved)"
    then show "\<not> acts_on_pool ins"
      using process_steps [OF assms(2) that(2,3) _ ok] p'(1) that(1) resolved_blocks [OF _ r]
      unfolding live_at_def by metis
  qed
  moreover have "acts_on_pool (Deposit a)" "acts_on_pool (DepositJunior a)" "acts_on_pool (FlushToInsurance a)"
    "acts_on_pool SetMarketResolved" for a
    by (simp_all add: acts_on_pool_def)
  ultimately show ?thesis using p'(1) r by (metis (no_types, opaque_lifting))
qed

definition sample_resolved :: ledger where
  "sample_resolved = write_pool (ai 42 False) (set_market_resolved True sample_pool) sample_ledger"

theorem resolution_final_witness:
  "\<exists>p'. live_at sample_pid sample_resolved (fill 42) p' \<and> market_resolved p'"
  using resolution_final [OF world_start sample_frame sample_separation
      sample_write(2) [of "set_market_resolved True sample_pool"] sample_write(1) [of "set_market_resolved True sample_pool"],
      of False]
  by (auto simp: sample_resolved_def)

text \<open>
  C24 (resolution needs recovery).  A pool becomes resolved only by \<open>SetMarketResolved\<close>.  Both that
  and \<open>AdminResolveMarket\<close>, which resolves the wrapper's market, succeed only for the signing admin
  of the pool and only when nothing flushed is left to recover: all that was flushed has been
  recovered from the wrapper or settled as loss of the junior tranche.
\<close>

theorem resolution_needs_recovery:
  assumes "cpi_frame E pid" "pda_separation E pid" "ledger_ok E pid L" "process E pid accs dt L = Inr L'"
    "live_at pid L k p" "live_at pid L' k p'" "k = key (accs ! 1)"
    "\<not> market_resolved p \<and> market_resolved p' \<or> unpack dt = Inr AdminResolveMarket"
  shows "(\<not> market_resolved p \<and> market_resolved p' \<longrightarrow> unpack dt = Inr SetMarketResolved)
    \<and> is_signer (accs ! 0) \<and> key (accs ! 0) = admin p
    \<and> unat (total_flushed p) \<le> unat (realized_junior_loss p) + unat (total_recovered_from_wrapper p)"
proof -
  have flag: "unpack dt = Inr SetMarketResolved \<and> is_signer (accs ! 0) \<and> key (accs ! 0) = admin p \<and> wrapper_recoverable p = 0"
    if r: "\<not> market_resolved p" "market_resolved p'"
  proof -
    obtain ins c where s: "unpack dt = Inr ins" "reads E pid accs ins p L c"
      "(\<forall>a. ins \<noteq> RecoverFlushedInsurance a) \<longrightarrow> is_signer (accs ! 0)" "pool_step c ins p p'"
      using r by (cases rule: process_pool_cases [OF assms(1-6)]) blast+
    have "ins = SetMarketResolved" "actor c = admin p" "wrapper_recoverable p = 0"
      using resolve_step [OF s(4) r(2,1)] by blast+
    then show ?thesis using s(1,3) reads_actor [OF s(2)] by simp
  qed
  have call: "is_signer (accs ! 0) \<and> key (accs ! 0) = admin p \<and> wrapper_recoverable p = 0"
    if "unpack dt = Inr AdminResolveMarket"
  proof -
    have "process_admin_resolve_market E pid accs L = Inr L'" using that assms(4) by (simp add: process_def)
    then show ?thesis
      using assms(5,7)
      by (auto simp: process_admin_resolve_market_def read_pool_as_admin_def open_ok live_at_def
          wrapper_fully_recovered_def dest: pool_bytes_at_unique)
  qed
  show ?thesis using assms(8) flag call wrapper_recoverable_unat [of p] by auto
qed

text \<open>A pool that flushed 300, of which 200 came back and 100 is settled loss, can be resolved.\<close>

definition sample_settled :: StakePool where
  "sample_settled = set_realized_junior_loss 100
     (sample_pool\<lparr>total_flushed := 300, total_returned := 300, total_recovered_from_wrapper := 200\<rparr>)"

lemma sample_settled_identity [simp]: "identity sample_settled = identity sample_pool"
  by (simp add: sample_settled_def)

lemma sample_resolve:
  "process sample_env sample_pid sample_call (pack SetMarketResolved) (write_pool (ai 42 False) sample_settled sample_ledger)
   = Inr (write_pool (ai 42 False) (set_market_resolved True sample_settled) (write_pool (ai 42 False) sample_settled sample_ledger))"
proof -
  note l = sample_write(1) [of sample_settled False, OF sample_settled_identity]
  have f: "admin sample_settled = fill 1" "\<not> market_resolved sample_settled" "wrapper_fully_recovered sample_settled"
    using sample_born by (simp_all add: sample_settled_def born_def wrapper_fully_recovered_def wrapper_recoverable_def saturating_sub_def)
  have "open_pool_as_admin sample_pid (ai 1 True) (ai 42 False) (write_pool (ai 42 False) sample_settled sample_ledger) = Inr sample_settled"
    using l pool_bytes_nonempty f(1) by (auto simp: open_pool_as_admin_ok live_at_def)
  then show ?thesis
    unfolding process_pack by (simp add: process_set_market_resolved_def sample_call_def resolve_pool_def f Let_def)
qed

theorem resolution_needs_recovery_witness:
  "total_flushed sample_settled = 300
   \<and> unat (total_flushed sample_settled) \<le> unat (realized_junior_loss sample_settled)
      + unat (total_recovered_from_wrapper sample_settled)"
proof -
  note l = sample_write [of sample_settled False, OF sample_settled_identity]
  have live: "live_at sample_pid (write_pool (ai 42 False) (set_market_resolved True sample_settled)
      (write_pool (ai 42 False) sample_settled sample_ledger)) (fill 42) (set_market_resolved True sample_settled)"
    using write_live [of sample_pid _ "ai 42 False" sample_settled "set_market_resolved True sample_settled"] l(1) by simp
  have "\<not> market_resolved sample_settled" "total_flushed sample_settled = 300"
    using sample_born by (simp_all add: sample_settled_def born_def)
  then show ?thesis
    using resolution_needs_recovery [OF sample_frame sample_separation l(2) sample_resolve l(1) live]
    by (simp add: sample_call_def)
qed

text \<open>
  C25 (the burn is final).  Once the asset admin of a pool is burned it stays burned in every
  later ledger, and there no instruction on the pool succeeds in burning it again or in
  rotating the insurance authority or the insurance operator away from the vault authority.
\<close>

theorem burn_final:
  assumes "world E pid L es L'" "cpi_frame E pid" "pda_separation E pid" "ledger_ok E pid L"
    "live_at pid L k p" "asset_admin_burned p"
  shows "\<exists>p'. live_at pid L' k p' \<and> asset_admin_burned p'
    \<and> (\<forall>accs dt L''. key (accs ! 1) = k \<longrightarrow> process E pid accs dt L' = Inr L'' \<longrightarrow>
         unpack dt \<noteq> Inr BurnAssetAdmin \<and> unpack dt \<noteq> Inr RotateInsuranceAuthority
         \<and> unpack dt \<noteq> Inr RotateInsuranceOperator)"
proof -
  obtain p' tr where p': "live_at pid L' k p'" "pool_trace p tr p'" using world_persists [OF assms(1-5)] by blast
  have b: "asset_admin_burned p'" using trace_flags(2) [OF p'(2) assms(6)] .
  have u: "pool_bytes_at L' k q \<longleftrightarrow> q = p'" for q
    using p'(1) pool_bytes_at_unique unfolding live_at_def by blast
  have "process_burn_asset_admin E pid accs L' \<noteq> Inr L''" "process_rotate_insurance_authority E pid accs L' \<noteq> Inr L''"
    "process_rotate_insurance_operator E pid accs L' \<noteq> Inr L''" if "key (accs ! 1) = k" for accs L''
    using u b that
    by (auto simp: process_burn_asset_admin_def process_rotate_insurance_authority_def
        process_rotate_insurance_operator_def read_pool_as_admin_def open_ok)
  then have "unpack dt \<noteq> Inr BurnAssetAdmin \<and> unpack dt \<noteq> Inr RotateInsuranceAuthority
      \<and> unpack dt \<noteq> Inr RotateInsuranceOperator"
    if "key (accs ! 1) = k" "process E pid accs dt L' = Inr L''" for accs dt L''
    using that by (auto simp: process_def)
  then show ?thesis using p'(1) b by blast
qed

theorem burn_final_witness:
  "\<exists>p'. live_at sample_pid (write_pool (ai 42 False) (set_asset_admin_burned True sample_pool) sample_ledger) (fill 42) p'
     \<and> asset_admin_burned p'"
  using burn_final [OF world_start sample_frame sample_separation
      sample_write(2) [of "set_asset_admin_burned True sample_pool"]
      sample_write(1) [of "set_asset_admin_burned True sample_pool"], of False]
  by auto

end
