(* ===== verification/Lp_Supply.thy ===== *)
theory Lp_Supply
  imports Governance
begin

text \<open>
  Conservation of LP.  A pool's \<open>total_lp_supply\<close> is the sum of the \<open>lp_amount\<close>s of the
  deposit records at its record addresses, and its \<open>junior_total_lp\<close> the sum over those that
  carry the junior flag.  The sums range over addresses, so the invariant needs only that
  record addresses of different pools differ (\<open>pda_injective\<close>).
\<close>

section \<open>Stored records\<close>

definition stored :: "pubkey \<Rightarrow> ledger \<Rightarrow> pubkey \<Rightarrow> StakeDeposit option" where
  "stored pid L k =
     (if acc_owner (L k) = pid \<and> STAKE_DEPOSIT_SIZE \<le> length (acc_data (L k))
      then Some (deposit_of_bytes (take STAKE_DEPOSIT_SIZE (acc_data (L k)))) else None)"

definition lp_of :: "StakeDeposit option \<Rightarrow> nat" where
  "lp_of s = (case s of None \<Rightarrow> 0 | Some r \<Rightarrow> unat (lp_amount r))"

definition junior_lp_of :: "StakeDeposit option \<Rightarrow> nat" where
  "junior_lp_of s = (case s of None \<Rightarrow> 0 | Some r \<Rightarrow> if is_junior_deposit r then unat (lp_amount r) else 0)"

text \<open>A closed or never opened record holds no LP.\<close>

definition record_ok :: "StakeDeposit option \<Rightarrow> bool" where
  "record_ok s \<longleftrightarrow> (case s of None \<Rightarrow> True | Some r \<Rightarrow> dep_is_initialized r \<noteq> 1 \<longrightarrow> lp_amount r = 0)"

lemmas stored_views = lp_of_def junior_lp_of_def record_ok_def

lemma stored_SomeD: "acc_owner (L k) = pid \<Longrightarrow> deposit_bytes_at L k r \<Longrightarrow> stored pid L k = Some r"
  by (simp add: stored_def deposit_bytes_at_def)

lemma zero_record:
  assumes "set (acc_data (L k)) \<subseteq> {0}" "stored pid L k = Some r"
  shows "lp_amount r = 0"
proof -
  obtain n where "acc_data (L k) = replicate n 0" using zero_bytes [OF assms(1)] by blast
  then show ?thesis
    using assms(2) by (auto simp: stored_def deposit_of_bytes_def slice_def split: if_splits)
qed

lemma keeps_stored:
  assumes "keeps pid L L'"
  shows "lp_of (stored pid L' k) = lp_of (stored pid L k)" "junior_lp_of (stored pid L' k) = junior_lp_of (stored pid L k)"
    "record_ok (stored pid L k) \<Longrightarrow> record_ok (stored pid L' k)"
proof -
  have own: "acc_owner (L k) = pid \<Longrightarrow> stored pid L' k = stored pid L k"
    using assms unfolding keeps_def stored_def by metis
  have new: "stored pid L k = None \<and> (stored pid L' k = None \<or> (\<exists>r. stored pid L' k = Some r \<and> lp_amount r = 0))"
    if "acc_owner (L k) \<noteq> pid"
  proof -
    have "set (acc_data (L' k)) \<subseteq> {0}" if "acc_owner (L' k) = pid"
      using assms \<open>acc_owner (L k) \<noteq> pid\<close> that unfolding keeps_def by metis
    moreover have "acc_owner (L' k) = pid" if "stored pid L' k = Some r" for r
      using that by (simp add: stored_def split: if_splits)
    moreover have "stored pid L k = None" using that by (simp add: stored_def)
    ultimately show ?thesis using zero_record [of L' k pid] by (cases "stored pid L' k") auto
  qed
  show "lp_of (stored pid L' k) = lp_of (stored pid L k)" "junior_lp_of (stored pid L' k) = junior_lp_of (stored pid L k)"
    "record_ok (stored pid L k) \<Longrightarrow> record_ok (stored pid L' k)"
    using own new by (cases "acc_owner (L k) = pid"; auto simp: stored_views)+
qed

section \<open>What an instruction does to the record\<close>

lemma junior_flag_kept [simp]:
  "is_junior_deposit (deposit_set_discriminator r) = is_junior_deposit r" "is_junior_deposit (set_junior_deposit True r)"
  by (simp_all add: is_junior_deposit_def deposit_set_discriminator_def set_junior_deposit_def
      STAKE_DEPOSIT_DISCRIMINATOR_def)

lemma record_fields_kept [simp]:
  "lp_amount (deposit_set_discriminator r) = lp_amount r" "lp_amount (set_junior_deposit b r) = lp_amount r"
  "dep_is_initialized (deposit_set_discriminator r) = dep_is_initialized r"
  by (simp_all add: deposit_set_discriminator_def set_junior_deposit_def)

lemma is_junior_fields [simp]:
  "is_junior_deposit (r\<lparr>dep_is_initialized := a\<rparr>) = is_junior_deposit r"
  "is_junior_deposit (r\<lparr>dep_bump := a\<rparr>) = is_junior_deposit r" "is_junior_deposit (r\<lparr>dep_pool := k\<rparr>) = is_junior_deposit r"
  "is_junior_deposit (r\<lparr>dep_user := k\<rparr>) = is_junior_deposit r" "is_junior_deposit (r\<lparr>last_deposit_slot := v\<rparr>) = is_junior_deposit r"
  "is_junior_deposit (r\<lparr>lp_amount := v\<rparr>) = is_junior_deposit r"
  by (simp_all add: is_junior_deposit_def)

lemma credit_views:
  assumes "record_ok (Some r)"
  shows "credit_senior_record pl u b now m r = Inr r' \<Longrightarrow>
       lp_of (Some r') = lp_of (Some r) + unat m \<and> junior_lp_of (Some r') = junior_lp_of (Some r) \<and> record_ok (Some r')"
    and "credit_junior_record pl u b now m r = Inr r' \<Longrightarrow>
       lp_of (Some r') = lp_of (Some r) + unat m \<and> junior_lp_of (Some r') = junior_lp_of (Some r) + unat m
       \<and> record_ok (Some r')"
  using assms
  by (auto simp: credit_senior_record_def credit_junior_record_def stored_views checked_add_eq_Some Let_def
      split: if_splits)

lemma debit_views:
  assumes "debit_deposit_record lp r = Inr r'" "record_ok (Some r)"
  shows "lp_of (Some r) = lp_of (Some r') + unat lp" "record_ok (Some r')"
    "junior_lp_of (Some r) = junior_lp_of (Some r') + (if is_junior_deposit r then unat lp else 0)"
  using assms
  by (auto simp: debit_deposit_record_def stored_views checked_sub_eq_Some unat_eq_0 Let_def split: if_splits)

section \<open>What a step does to the supply\<close>

definition supply_step :: "step_ctx \<Rightarrow> StakeInstruction \<Rightarrow> StakePool \<Rightarrow> StakePool \<Rightarrow> bool" where
  "supply_step c ins p p' \<longleftrightarrow>
     (let S = unat (total_lp_supply p); S' = unat (total_lp_supply p');
          J = unat (junior_total_lp p); J' = unat (junior_total_lp p');
          m = unat (total_lp_supply p' - total_lp_supply p) in
      case ins of
        Deposit a \<Rightarrow> S' = S + m \<and> J' = J
      | DepositJunior a \<Rightarrow> S' = S + m \<and> J' = J + m \<and> tranche_enabled p
      | Withdraw lp \<Rightarrow> lp \<noteq> 0 \<and> S = S' + unat lp
          \<and> J = J' + (if tranche_enabled p \<and> junior_flag c then unat lp else 0)
      | _ \<Rightarrow> S' = S \<and> J' = J)"

text \<open>The LP counters of a pool, and the operations that leave them alone.\<close>

definition lp_counters :: "StakePool \<Rightarrow> u64 \<times> u64" where
  "lp_counters p = (total_lp_supply p, junior_total_lp p)"

lemma lp_counters_kept [simp]:
  "lp_counters (set_epoch_high_water_tvl v p) = lp_counters p" "lp_counters (set_hwm_last_epoch v p) = lp_counters p"
  "lp_counters (set_junior_balance v p) = lp_counters p" "lp_counters (set_realized_junior_loss v p) = lp_counters p"
  "lp_counters (set_market_resolved b p) = lp_counters p" "lp_counters (set_hwm_enabled b p) = lp_counters p"
  "lp_counters (set_hwm_floor_bps w p) = lp_counters p" "lp_counters (set_tranche_enabled b p) = lp_counters p"
  "lp_counters (set_junior_fee_mult_bps w p) = lp_counters p" "lp_counters (set_asset_admin_burned b p) = lp_counters p"
  "lp_counters (p\<lparr>total_returned := a\<rparr>) = lp_counters p" "lp_counters (p\<lparr>total_fees_earned := a\<rparr>) = lp_counters p"
  by (simp_all add: lp_counters_def)

lemma accrue_lp_counters: "accrue_fees_inner bal p = Inr p' \<Longrightarrow> lp_counters p' = lp_counters p"
  by (auto simp: accrue_fees_inner_eq Let_def case_prod_beta split: if_splits)

lemma pre_accrue_lp_counters: "pre_accrue_pool bal p = Inr p' \<Longrightarrow> lp_counters p' = lp_counters p"
  by (auto simp: pre_accrue_pool_def dest: accrue_lp_counters split: if_splits)

lemma refresh_lp_counters [simp]: "lp_counters (snd (refresh_hwm e t p)) = lp_counters p"
  by (simp add: refresh_hwm_def Let_def)

lemma hwm_lp_counters:
  "enforce_hwm_floor e w b p = Inr p' \<Longrightarrow> lp_counters p' = lp_counters p"
  "deposit_refresh_hwm e p = Inr p' \<Longrightarrow> lp_counters p' = lp_counters p"
  by (auto simp: enforce_hwm_floor_def deposit_refresh_hwm_def case_prod_beta split: if_splits)

lemma settle_lp_counters: "settle_last_junior p = Inr p' \<Longrightarrow> lp_counters p' = lp_counters p"
  by (auto simp: settle_last_junior_def Let_def split: if_splits)

lemma withdraw_lp_counters:
  assumes "withdraw_totals j w lp p = Inr p'"
  shows "unat (total_lp_supply p) = unat (total_lp_supply p') + unat lp"
    and "unat (junior_total_lp p) = unat (junior_total_lp p') + (if tranche_enabled p \<and> j then unat lp else 0)"
proof -
  have "unat (total_lp_supply p) = unat (total_lp_supply p') + unat lp
    \<and> unat (junior_total_lp p) = unat (junior_total_lp p') + (if tranche_enabled p \<and> j then unat lp else 0)"
  proof (cases "tranche_enabled p \<and> j")
    case True
    then obtain s n where "unat (total_lp_supply p) = unat s + unat lp" "unat (junior_total_lp p) = unat n + unat lp"
      "lp_counters p' = (s, n)"
      using assms
      by (auto simp: withdraw_totals_def Let_def checked_sub_eq_Some lp_counters_def dest!: settle_lp_counters
          split: if_splits)
    then show ?thesis using True by (simp add: lp_counters_def)
  next
    case False
    then show ?thesis using assms by (auto simp: withdraw_totals_def Let_def checked_sub_eq_Some)
  qed
  then show "unat (total_lp_supply p) = unat (total_lp_supply p') + unat lp"
    "unat (junior_total_lp p) = unat (junior_total_lp p') + (if tranche_enabled p \<and> j then unat lp else 0)"
    by blast+
qed

lemma deposit_lp_counters:
  "deposit_totals a lp p = Inr p' \<Longrightarrow>
     unat (total_lp_supply p') = unat (total_lp_supply p) + unat lp \<and> junior_total_lp p' = junior_total_lp p"
  "deposit_junior_totals a lp p = Inr p' \<Longrightarrow>
     unat (total_lp_supply p') = unat (total_lp_supply p) + unat lp
     \<and> unat (junior_total_lp p') = unat (junior_total_lp p) + unat lp"
  by (auto simp: deposit_totals_def deposit_junior_totals_def checked_add_eq_Some Let_def)

lemma minted_unat: "unat (a :: u64) = unat b + unat lp \<Longrightarrow> unat (a - b) = unat lp"
  by (metis add_diff_cancel_left' le_add1 unat_sub_le word_le_nat_alt)

lemma pool_step_supply: "pool_step c ins p p' \<Longrightarrow> supply_step c ins p p'"
proof (induction rule: pool_step.induct)
  case (step_deposit a p p1 lp m p2 p')
  have "lp_counters p1 = lp_counters p" "lp_counters p' = lp_counters p2"
    using step_deposit pre_accrue_lp_counters hwm_lp_counters(2) by blast+
  moreover from this have s: "unat (total_lp_supply p') = unat (total_lp_supply p) + unat lp"
    using deposit_lp_counters(1) [OF step_deposit(6)] by (simp add: lp_counters_def)
  ultimately show ?case
    using deposit_lp_counters(1) [OF step_deposit(6)] minted_unat [OF s]
    by (simp add: supply_step_def lp_counters_def)
next
  case (step_deposit_junior a p p1 lp m p2 p')
  have "lp_counters p1 = lp_counters p" "lp_counters p' = lp_counters p2"
    using step_deposit_junior pre_accrue_lp_counters hwm_lp_counters(2) by blast+
  moreover from this have s: "unat (total_lp_supply p') = unat (total_lp_supply p) + unat lp"
    using deposit_lp_counters(2) [OF step_deposit_junior(7)] by (simp add: lp_counters_def)
  ultimately show ?case
    using deposit_lp_counters(2) [OF step_deposit_junior(7)] minted_unat [OF s] step_deposit_junior(2)
    by (simp add: supply_step_def lp_counters_def)
next
  case (step_withdraw lp p p1 w p2 p')
  have "lp_counters p1 = lp_counters p" "lp_counters p2 = lp_counters p1"
    using step_withdraw pre_accrue_lp_counters hwm_lp_counters(1) by blast+
  moreover have "settings p1 = settings p" "settings p2 = settings p1"
    using step_withdraw pre_accrue_settings withdraw_settings(2) by blast+
  ultimately show ?case
    using withdraw_lp_counters [OF step_withdraw(6)] step_withdraw(1)
    by (simp add: supply_step_def lp_counters_def settings_def)
next
  case (step_accrue p p1 p')
  then show ?case using accrue_lp_counters by (auto simp: supply_step_def lp_counters_def)
qed (auto simp: supply_step_def admin_defs flush_pool_def return_pool_def recover_pool_def split: option.splits if_splits)

section \<open>Conservation\<close>

definition pda_injective :: "env \<Rightarrow> pubkey \<Rightarrow> bool" where
  "pda_injective E pid \<longleftrightarrow>
     (\<forall>s s' u u'. let k = fst (derive_pool_pda (find_program_address E) pid s);
                     k' = fst (derive_pool_pda (find_program_address E) pid s') in
        fst (derive_deposit_pda (find_program_address E) pid k u)
          = fst (derive_deposit_pda (find_program_address E) pid k' u') \<longrightarrow> k = k')"

definition deposit_addresses :: "env \<Rightarrow> pubkey \<Rightarrow> pubkey \<Rightarrow> pubkey set" where
  "deposit_addresses E pid k = range (\<lambda>u. fst (derive_deposit_pda (find_program_address E) pid k u))"

definition lp_sum :: "env \<Rightarrow> pubkey \<Rightarrow> ledger \<Rightarrow> pubkey \<Rightarrow> nat" where
  "lp_sum E pid L k = (\<Sum>a \<in> deposit_addresses E pid k. lp_of (stored pid L a))"

definition junior_lp_sum :: "env \<Rightarrow> pubkey \<Rightarrow> ledger \<Rightarrow> pubkey \<Rightarrow> nat" where
  "junior_lp_sum E pid L k = (\<Sum>a \<in> deposit_addresses E pid k. junior_lp_of (stored pid L a))"

definition conserved :: "env \<Rightarrow> pubkey \<Rightarrow> ledger \<Rightarrow> pubkey \<Rightarrow> bool" where
  "conserved E pid L k \<longleftrightarrow>
     (\<forall>a \<in> deposit_addresses E pid k. record_ok (stored pid L a))
     \<and> (\<forall>p. live_at pid L k p \<longrightarrow> lp_sum E pid L k = unat (total_lp_supply p)
          \<and> junior_lp_sum E pid L k = unat (junior_total_lp p) \<and> (tranche_enabled p \<or> junior_total_lp p = 0))
     \<and> ((\<forall>p. \<not> live_at pid L k p) \<longrightarrow> lp_sum E pid L k = 0)"

definition lp_conserved :: "env \<Rightarrow> pubkey \<Rightarrow> ledger \<Rightarrow> bool" where
  "lp_conserved E pid L \<longleftrightarrow> (\<forall>s. conserved E pid L (fst (derive_pool_pda (find_program_address E) pid s)))"

lemma finite_addresses [simp]: "finite (deposit_addresses E pid k)" by simp

lemma junior_sum_le: "junior_lp_sum E pid L k \<le> lp_sum E pid L k"
  unfolding junior_lp_sum_def lp_sum_def
  by (rule sum_mono) (simp add: junior_lp_of_def lp_of_def split: option.split)

lemma conserved_cong:
  assumes "conserved E pid L k" "\<And>p. live_at pid L' k p \<longleftrightarrow> live_at pid L k p"
    and "\<And>a. a \<in> deposit_addresses E pid k \<Longrightarrow> lp_of (stored pid L' a) = lp_of (stored pid L a)
      \<and> junior_lp_of (stored pid L' a) = junior_lp_of (stored pid L a)
      \<and> (record_ok (stored pid L a) \<longrightarrow> record_ok (stored pid L' a))"
  shows "conserved E pid L' k"
proof -
  have "lp_sum E pid L' k = lp_sum E pid L k" "junior_lp_sum E pid L' k = junior_lp_sum E pid L k"
    unfolding lp_sum_def junior_lp_sum_def using assms(3) by (auto intro: sum.cong)
  then show ?thesis using assms unfolding conserved_def by simp
qed

lemma keeps_conserved:
  assumes "keeps pid L L'" "conserved E pid L k"
  shows "conserved E pid L' k"
  using assms(2)
proof (rule conserved_cong)
  show "live_at pid L' k p \<longleftrightarrow> live_at pid L k p" for p
    using assms(1) keeps_live_at keeps_live_at_rev by blast
qed (simp add: keeps_stored [OF assms(1)])

text \<open>Changing one record changes the sums by that record.\<close>

lemma sum_update:
  assumes "finite A" "a \<in> A" "\<And>x. x \<in> A \<Longrightarrow> x \<noteq> a \<Longrightarrow> g x = f x"
  shows "(\<Sum>x\<in>A. g x) + f a = (\<Sum>x\<in>A. f x) + (g a :: nat)"
proof -
  have "(\<Sum>x\<in>A. g x) = g a + (\<Sum>x\<in>A - {a}. g x)" "(\<Sum>x\<in>A. f x) = f a + (\<Sum>x\<in>A - {a}. f x)"
    using assms(1,2) by (simp_all add: sum.remove)
  moreover have "(\<Sum>x\<in>A - {a}. g x) = (\<Sum>x\<in>A - {a}. f x)" using assms(3) by (intro sum.cong) auto
  ultimately show ?thesis by simp
qed

lemma sum_member:
  assumes "finite A" "a \<in> A"
  shows "f a \<le> (\<Sum>x\<in>A. f x :: nat)"
  using assms by (simp add: member_le_sum)

lemma write_pool_stored [simp]: "k \<noteq> key b \<Longrightarrow> stored pid (write_pool b p L) k = stored pid L k"
  by (simp add: stored_def)

lemma write_deposit_stored:
  assumes "acc_owner (L (key b)) = pid" "deposit_bytes_at L (key b) r"
  shows "stored pid (write_deposit b r' L) (key b) = Some r'"
    and "k \<noteq> key b \<Longrightarrow> stored pid (write_deposit b r' L) k = stored pid L k"
proof -
  have "STAKE_DEPOSIT_SIZE \<le> length (acc_data (L (key b)))" using assms(2) by (simp add: deposit_bytes_at_def)
  moreover have "deposit_of_bytes (bytes_of_deposit r') = r'" using deposit_layout.dec_enc [of r' "[]"] by simp
  ultimately show "stored pid (write_deposit b r' L) (key b) = Some r'"
    using assms(1)
    by (simp add: stored_def write_deposit_def take_patch_front deposit_layout.enc_length length_patch)
  show "k \<noteq> key b \<Longrightarrow> stored pid (write_deposit b r' L) k = stored pid L k" by (simp add: stored_def)
qed

text \<open>The record moves with the pool's counters.\<close>

lemma record_moves:
  assumes "record_update ins pl u now (total_lp_supply p' - total_lp_supply p) r r'" "record_ok (Some r)"
    "supply_step c ins p p'" "\<forall>lp. ins = Withdraw lp \<longrightarrow> junior_flag c = is_junior_deposit r"
    "is_junior_deposit r \<and> (\<exists>lp. ins = Withdraw lp) \<longrightarrow> tranche_enabled p"
  shows "unat (total_lp_supply p') + lp_of (Some r) = unat (total_lp_supply p) + lp_of (Some r')
    \<and> unat (junior_total_lp p') + junior_lp_of (Some r) = unat (junior_total_lp p) + junior_lp_of (Some r')
    \<and> record_ok (Some r')"
proof (cases ins)
  case (Deposit a)
  then obtain b where "credit_senior_record pl u b now (total_lp_supply p' - total_lp_supply p) r = Inr r'"
    using assms(1) by (auto simp: record_update_def)
  from credit_views(1) [OF assms(2) this] show ?thesis using assms(3) Deposit by (simp add: supply_step_def Let_def)
next
  case (DepositJunior a)
  then obtain b where "credit_junior_record pl u b now (total_lp_supply p' - total_lp_supply p) r = Inr r'"
    using assms(1) by (auto simp: record_update_def)
  from credit_views(2) [OF assms(2) this] show ?thesis
    using assms(3) DepositJunior by (simp add: supply_step_def Let_def)
next
  case (Withdraw lp)
  then have "debit_deposit_record lp r = Inr r'" using assms(1) by (simp add: record_update_def)
  from debit_views [OF this assms(2)] show ?thesis
    using assms(3,4,5) Withdraw by (auto simp: supply_step_def Let_def split: if_splits)
qed (use assms(1) in \<open>simp_all add: record_update_def\<close>)

text \<open>A pool write at a pool address touches no record.\<close>

lemma pool_not_record:
  assumes "pda_separation E pid"
  shows "fst (derive_pool_pda (find_program_address E) pid s) \<notin> deposit_addresses E pid k"
  using assms unfolding pda_separation_def deposit_addresses_def by auto

lemma other_pool_record:
  assumes "pda_injective E pid" "k = fst (derive_pool_pda (find_program_address E) pid s)"
    "k' = fst (derive_pool_pda (find_program_address E) pid s')" "k \<noteq> k'"
  shows "fst (derive_deposit_pda (find_program_address E) pid k u) \<notin> deposit_addresses E pid k'"
  using assms unfolding pda_injective_def deposit_addresses_def Let_def by blast

lemma write_pool_live:
  "k \<noteq> key b \<Longrightarrow> live_at pid (write_pool b p L) k q \<longleftrightarrow> live_at pid L k q"
  by (simp add: live_at_def pool_bytes_at_def)

lemma write_deposit_live:
  "k \<noteq> key b \<Longrightarrow> live_at pid (write_deposit b r L) k q \<longleftrightarrow> live_at pid L k q"
  by (simp add: live_at_def pool_bytes_at_def)

lemma write_pool_lp_sums:
  assumes "key b \<notin> deposit_addresses E pid k"
  shows "lp_sum E pid (write_pool b p L) k = lp_sum E pid L k"
    "junior_lp_sum E pid (write_pool b p L) k = junior_lp_sum E pid L k"
  unfolding lp_sum_def junior_lp_sum_def using assms by (auto intro!: sum.cong arg_cong [where f = lp_of] arg_cong [where f = junior_lp_of] write_pool_stored)

text \<open>A new pool has no records yet.\<close>

lemma init_conserved:
  assumes eff: "init_effect E pid accs c d md L L'" "md \<le> 1" and sep: "pda_separation E pid"
    and con: "lp_conserved E pid L"
  shows "lp_conserved E pid L'"
  unfolding lp_conserved_def
proof
  fix s
  let ?k = "fst (derive_pool_pda (find_program_address E) pid s)"
  obtain p L2 where e: "pool_bytes_at L' (key (accs ! 2)) p" "born p" "acc_data (L (key (accs ! 2))) = []"
    "keeps pid L L2" "L' = write_pool (accs ! 2) p L2"
    "key (accs ! 2) = fst (derive_pool_pda (find_program_address E) pid (key (accs ! 1)))"
    by (rule init_effect_born [OF eff]) blast
  have k2: "conserved E pid L2 ?k" using keeps_conserved [OF e(4)] con unfolding lp_conserved_def by blast
  have na: "key (accs ! 2) \<notin> deposit_addresses E pid ?k" unfolding e(6) by (rule pool_not_record [OF sep])
  have ok: "record_ok (stored pid L' a)" if "a \<in> deposit_addresses E pid ?k" for a
    using k2 that na unfolding conserved_def e(5) by (metis write_pool_stored)
  show "conserved E pid L' ?k"
  proof (cases "?k = key (accs ! 2)")
    case False
    then show ?thesis
      using k2 ok unfolding conserved_def e(5) write_pool_lp_sums [OF na] write_pool_live [OF False] by blast
  next
    case True
    have "\<not> live_at pid L ?k q" for q
      using e(3) pool_bytes_nonempty unfolding True live_at_def by blast
    then have "\<not> live_at pid L2 ?k q" for q using keeps_live_at_rev [OF e(4)] by blast
    then have z: "lp_sum E pid L' ?k = 0" using k2 unfolding conserved_def e(5) write_pool_lp_sums [OF na] by blast
    then have j: "junior_lp_sum E pid L' ?k = 0" using junior_sum_le [of E pid L' ?k] by simp
    have "q = p" if "live_at pid L' ?k q" for q
      using that e(1) True pool_bytes_at_unique unfolding live_at_def by metis
    then show ?thesis using ok z j e(2) unfolding conserved_def by (auto simp: born_def)
  qed
qed

text \<open>The record a withdrawal read, and what its checks establish.\<close>

lemma check_record_ok:
  assumes "check_deposit_record pk uk cd now lp r = Inr j"
  shows "j = is_junior_deposit r" "lp \<le> lp_amount r" "unat (last_deposit_slot r) + unat cd \<le> unat now \<or> now = U64_MAX"
    "dep_user r = uk" "dep_pool r = pk"
proof -
  show "j = is_junior_deposit r" "lp \<le> lp_amount r" "dep_user r = uk" "dep_pool r = pk"
    using assms by (auto simp: check_deposit_record_def)
  have "saturating_add (last_deposit_slot r) cd \<le> now" using assms by (auto simp: check_deposit_record_def)
  then have "min (unat (last_deposit_slot r) + unat cd) (2 ^ 64 - 1) \<le> unat now"
    by (simp add: word_le_nat_alt unat_saturating_add)
  moreover have "unat now \<le> 2 ^ 64 - 1" using unat_u64_le_max [of now] by simp
  moreover have "unat now = 2 ^ 64 - 1 \<Longrightarrow> now = U64_MAX"
    by (simp add: U64_MAX_def word_unat_eq_iff unsigned_minus_1_eq_mask mask_eq_exp_minus_1)
  ultimately show "unat (last_deposit_slot r) + unat cd \<le> unat now \<or> now = U64_MAX" by linarith
qed

lemma reads_record:
  assumes "reads E pid accs (Withdraw lp) p L c" "keeps pid L L1" "deposit_bytes_at L1 (key (accs ! 7)) r"
  shows "junior_flag c = is_junior_deposit r" "lp \<le> lp_amount r"
    "unat (last_deposit_slot r) + unat (cooldown_slots p) \<le> unat (slot (clock_now c))
       \<or> slot (clock_now c) = U64_MAX"
    "dep_user r = key (accs ! 0)" "dep_pool r = key (accs ! 1)"
proof -
  obtain r0 where r0: "acc_owner (L (key (accs ! 7))) = pid" "deposit_bytes_at L (key (accs ! 7)) r0"
    "check_deposit_record (key (accs ! 1)) (key (accs ! 0)) (cooldown_slots p) (slot (clock_now c)) lp r0
       = Inr (junior_flag c)"
    using assms(1) unfolding reads_def StakeInstruction.case by blast
  have "deposit_bytes_at L1 (key (accs ! 7)) r0"
    using r0(1,2) assms(2) by (simp add: keeps_def deposit_bytes_at_def)
  then have "r0 = r" using assms(3) by (simp add: deposit_bytes_at_def)
  from check_record_ok [OF r0(3) [unfolded this]]
  show "junior_flag c = is_junior_deposit r" "lp \<le> lp_amount r"
    "unat (last_deposit_slot r) + unat (cooldown_slots p) \<le> unat (slot (clock_now c)) \<or> slot (clock_now c) = U64_MAX"
    "dep_user r = key (accs ! 0)" "dep_pool r = key (accs ! 1)" by blast+
qed

lemma idle_supply: "\<not> rewrites_a_record ins \<Longrightarrow> supply_step c ins p p' \<Longrightarrow>
    total_lp_supply p' = total_lp_supply p \<and> junior_total_lp p' = junior_total_lp p"
  by (cases ins) (auto simp: supply_step_def rewrites_a_record_def Let_def intro: unat_eqD)

text \<open>The sums of one pool after its record at address 7 was rewritten.\<close>

lemma record_conserved:
  assumes L: "conserved E pid L1 k" "live_at pid L1 k p" and k: "k = key (accs ! 1)"
    and rd: "reads E pid accs ins p L c" "keeps pid L L1" and st: "pool_step c ins p p'"
    and rw: "rewrites_record E pid accs ins now (total_lp_supply p' - total_lp_supply p) L1 L2"
  shows "(\<forall>a \<in> deposit_addresses E pid k. record_ok (stored pid L2 a))
     \<and> lp_sum E pid L2 k = unat (total_lp_supply p') \<and> junior_lp_sum E pid L2 k = unat (junior_total_lp p')
     \<and> (tranche_enabled p' \<or> junior_total_lp p' = 0)"
proof (cases "rewrites_a_record ins")
  case False
  then have "L2 = L1" using rw by (simp add: rewrites_record_def)
  then show ?thesis
    using L idle_supply [OF False pool_step_supply [OF st]] flags_monotone(3) [OF st] unfolding conserved_def by auto
next
  case True
  let ?a = "key (accs ! 7)" and ?A = "deposit_addresses E pid k"
  obtain r r' where r: "?a = fst (derive_deposit_pda (find_program_address E) pid (key (accs ! 1)) (key (accs ! 0)))"
    "acc_owner (L1 ?a) = pid" "deposit_bytes_at L1 ?a r"
    "record_update ins (key (accs ! 1)) (key (accs ! 0)) now (total_lp_supply p' - total_lp_supply p) r r'"
    and L2: "L2 = write_deposit (accs ! 7) r' L1"
    using rw True by (auto simp: rewrites_record_def)
  have a: "?a \<in> ?A" unfolding deposit_addresses_def k r(1) by simp
  have s1: "stored pid L1 ?a = Some r" by (rule stored_SomeD [OF r(2,3)])
  have s2: "stored pid L2 ?a = Some r'" "\<And>x. x \<noteq> ?a \<Longrightarrow> stored pid L2 x = stored pid L1 x"
    unfolding L2 using write_deposit_stored r(2,3) by blast+
  have rok: "record_ok (Some r)" using L(1) a s1 unfolding conserved_def by metis
  have sums: "lp_sum E pid L1 k = unat (total_lp_supply p)" "junior_lp_sum E pid L1 k = unat (junior_total_lp p)"
    "tranche_enabled p \<or> junior_total_lp p = 0"
    using L unfolding conserved_def by blast+
  have tr: "is_junior_deposit r \<and> (\<exists>lp. ins = Withdraw lp) \<longrightarrow> tranche_enabled p"
  proof (intro impI)
    assume w: "is_junior_deposit r \<and> (\<exists>lp. ins = Withdraw lp)"
    then obtain lp where lp: "ins = Withdraw lp" by blast
    then have "lp \<noteq> 0" using pool_step_supply [OF st] by (simp add: supply_step_def Let_def)
    moreover have "lp \<le> lp_amount r" using reads_record(2) [OF _ rd(2) r(3)] rd(1) lp by blast
    ultimately have "0 < junior_lp_of (Some r)"
      using w by (auto simp: junior_lp_of_def unat_gt_0)
    then have "junior_total_lp p \<noteq> 0"
      using sum_member [of ?A ?a "\<lambda>x. junior_lp_of (stored pid L1 x)"] a s1 sums(2)
      unfolding junior_lp_sum_def by auto
    then show "tranche_enabled p" using sums(3) by blast
  qed
  have fl: "\<forall>lp. ins = Withdraw lp \<longrightarrow> junior_flag c = is_junior_deposit r"
    using reads_record(1) [OF _ rd(2) r(3)] rd(1) by blast
  note mv = record_moves [OF r(4) rok pool_step_supply [OF st] fl tr]
  have "lp_sum E pid L2 k + lp_of (Some r) = lp_sum E pid L1 k + lp_of (Some r')"
    using sum_update [of ?A ?a "\<lambda>x. lp_of (stored pid L2 x)" "\<lambda>x. lp_of (stored pid L1 x)"] a s1 s2
    unfolding lp_sum_def by simp
  moreover have "junior_lp_sum E pid L2 k + junior_lp_of (Some r) = junior_lp_sum E pid L1 k + junior_lp_of (Some r')"
    using sum_update [of ?A ?a "\<lambda>x. junior_lp_of (stored pid L2 x)" "\<lambda>x. junior_lp_of (stored pid L1 x)"] a s1 s2
    unfolding junior_lp_sum_def by simp
  moreover have "\<forall>x \<in> ?A. record_ok (stored pid L2 x)" using L(1) s2 mv unfolding conserved_def by metis
  moreover have "tranche_enabled p' \<or> junior_total_lp p' = 0"
    using sums(3) flags_monotone(3) [OF st] pool_step_supply [OF st] True
    by (cases ins) (auto simp: supply_step_def rewrites_a_record_def Let_def unat_eq_0 split: if_splits)
  ultimately show ?thesis using mv sums by auto
qed

lemma pool_effect_conserved:
  assumes eff: "pool_effect E pid accs ins L L'" and ok: "ledger_ok E pid L" and sep: "pda_separation E pid"
    and inj: "pda_injective E pid" and con: "lp_conserved E pid L"
  shows "lp_conserved E pid L'"
  unfolding lp_conserved_def
proof
  fix s
  let ?k = "fst (derive_pool_pda (find_program_address E) pid s)" and ?P = "key (accs ! 1)"
  obtain p p' L1 L2 and c :: step_ctx where e:
    "acc_owner (L ?P) = pid" "pool_bytes_at L ?P p" "live_pool p" "reads E pid accs ins p L c" "pool_step c ins p p'"
    "keeps pid L L1"
    "rewrites_record E pid accs ins (slot (clock_now c)) (total_lp_supply p' - total_lp_supply p) L1 L2"
    "L' = write_pool (accs ! 1) p' L2" "pool_bytes_at L' ?P p'"
    by (rule pool_effect_cases [OF eff ok]) blast
  obtain s0 where P: "?P = fst (derive_pool_pda (find_program_address E) pid s0)"
    using ledger_okD(2) [OF ok e(1,2)] live_validates [OF e(3)] by blast
  have c1: "conserved E pid L1 ?k" using keeps_conserved [OF e(6)] con unfolding lp_conserved_def by blast
  have na: "?P \<notin> deposit_addresses E pid ?k" unfolding P by (rule pool_not_record [OF sep])
  note sums = write_pool_lp_sums [OF na]
  show "conserved E pid L' ?k"
  proof (cases "?k = ?P")
    case True
    have l1: "live_at pid L1 ?k p" using keeps_live_at [OF e(6)] e(1-3) unfolding True live_at_def by blast
    note rc = record_conserved [OF c1 l1 True e(4,6,5,7)]
    have "q = p'" if "live_at pid L' ?k q" for q
      using that e(9) pool_bytes_at_unique unfolding True live_at_def by blast
    moreover have "live_at pid L' ?k p'"
      using e(1,6,9) record_owner [OF e(7)] identity_live [OF pool_step_identity [OF e(5)]] e(3)
      unfolding True live_at_def e(8) by (simp add: keeps_def)
    moreover have "\<forall>a \<in> deposit_addresses E pid ?k. record_ok (stored pid L' a)"
      using rc na unfolding e(8) by (metis write_pool_stored)
    ultimately show ?thesis using rc unfolding conserved_def e(8) sums by blast
  next
    case False
    have other: "stored pid L2 a = stored pid L1 a" if "a \<in> deposit_addresses E pid ?k" for a
      using that record_other [OF e(7), of a] e(7) other_pool_record [OF inj P refl] False
      unfolding stored_def rewrites_record_def by (metis (no_types))
    have k7: "?k \<noteq> key (accs ! 7)" if "rewrites_a_record ins"
      using e(7) that sep unfolding rewrites_record_def pda_separation_def by (metis (no_types))
    have "live_at pid L2 ?k q \<longleftrightarrow> live_at pid L1 ?k q" for q
      using record_other [OF e(7), of ?k] k7 unfolding live_at_def pool_bytes_at_def by metis
    then have "conserved E pid L2 ?k" using c1 other by (intro conserved_cong [OF c1]) auto
    moreover have "stored pid L' a = stored pid L2 a" if "a \<in> deposit_addresses E pid ?k" for a
      using that na unfolding e(8) by (metis write_pool_stored)
    moreover have "live_at pid L' ?k q \<longleftrightarrow> live_at pid L2 ?k q" for q
      unfolding e(8) by (rule write_pool_live [OF False])
    ultimately show ?thesis by (intro conserved_cong [of E pid L2 ?k L']) simp_all
  qed
qed

lemma process_conserved:
  assumes F: "cpi_frame E pid" and sep: "pda_separation E pid" and inj: "pda_injective E pid"
    and ok: "ledger_ok E pid L" and run: "process E pid accs dt L = Inr L'" and con: "lp_conserved E pid L"
  shows "lp_conserved E pid L'"
proof -
  obtain ins where shape:
    "pool_effect E pid accs ins L L' \<or> call_effect pid accs L L'
     \<or> (\<exists>c d. ins = InitPool c d \<and> init_effect E pid accs c d 0 L L')
     \<or> (\<exists>c d. ins = InitTradingPool c d \<and> init_effect E pid accs c d 1 L L')"
    by (rule process_shape [OF F run])
  have "lp_conserved E pid L'" if "call_effect pid accs L L'"
  proof -
    have "keeps pid L L'" using that ledger_okD(1) [OF ok] live_validates unfolding call_effect_def by blast
    then show ?thesis using con keeps_conserved unfolding lp_conserved_def by blast
  qed
  then show ?thesis
    using shape pool_effect_conserved [OF _ ok sep inj con] init_conserved [OF _ _ sep con] by fastforce
qed

lemma unowned_conserved:
  assumes "\<forall>k. acc_owner (L0 k) \<noteq> pid"
  shows "lp_conserved E pid L0"
  using assms by (simp add: lp_conserved_def conserved_def stored_def lp_sum_def live_at_def stored_views)

lemma world_conserved:
  assumes "world E pid L0 es L" and F: "cpi_frame E pid" and sep: "pda_separation E pid"
    and inj: "pda_injective E pid" and fresh: "\<forall>k. acc_owner (L0 k) \<noteq> pid"
  shows "lp_conserved E pid L"
  using assms(1)
proof (induction rule: world.induct)
  case world_start
  then show ?case by (rule unowned_conserved [OF fresh])
next
  case (world_call es L accs dt L')
  have "ledger_ok E pid L" by (rule world_ledger_ok [OF world_call(1) F sep unowned_ledger_ok [OF fresh]])
  then show ?case using process_conserved [OF F sep inj _ world_call(2)] world_call.IH by blast
next
  case (world_foreign es L L')
  then show ?case using keeps_conserved unfolding lp_conserved_def by blast
qed

end
