(* ===== verification/Books.thy ===== *)
theory Books
  imports Lp_Supply
begin

text \<open>
  The books of a pool: its counters as natural numbers, and \<open>book_step\<close>, the specification
  of every movement of value in those terms.  A step of a pool is a sequence of book steps
  (\<open>pool_step_books\<close>, for withdrawals backed by the supply of their tranche), so the
  accounting invariants are proved once, by case analysis on \<open>book_step\<close>.
\<close>

section \<open>Books\<close>

record books =
  b_deposited :: nat
  b_withdrawn :: nat
  b_flushed :: nat
  b_returned :: nat
  b_fees :: nat
  b_realized :: nat
  b_recovered :: nat
  b_supply :: nat
  b_junior_lp :: nat
  b_junior :: nat
  b_tranched :: bool

definition books :: "StakePool \<Rightarrow> books" where
  "books p =
     \<lparr>b_deposited = unat (total_deposited p), b_withdrawn = unat (total_withdrawn p),
      b_flushed = unat (total_flushed p), b_returned = unat (total_returned p),
      b_fees = unat (total_fees_earned p), b_realized = unat (realized_junior_loss p),
      b_recovered = unat (total_recovered_from_wrapper p), b_supply = unat (total_lp_supply p),
      b_junior_lp = unat (junior_total_lp p), b_junior = unat (junior_balance p), b_tranched = tranche_enabled p\<rparr>"

definition book_value :: "books \<Rightarrow> int" where
  "book_value b = int (b_deposited b) - int (b_withdrawn b) - int (b_flushed b) + int (b_returned b)
     + int (b_fees b) - int (b_realized b)"

definition book_effective :: "books \<Rightarrow> nat" where
  "book_effective b = b_junior b - (b_flushed b - b_returned b)"

lemma books_kept [simp]:
  "books (set_epoch_high_water_tvl v p) = books p" "books (set_hwm_last_epoch v p) = books p"
  "books (set_market_resolved c p) = books p" "books (set_hwm_enabled c p) = books p"
  "books (set_hwm_floor_bps w p) = books p" "books (set_junior_fee_mult_bps w p) = books p"
  "books (set_asset_admin_burned c p) = books p"
  "books (p\<lparr>last_fee_accrual_slot := a\<rparr>) = books p" "books (p\<lparr>last_vault_snapshot := a\<rparr>) = books p"
  "books (p\<lparr>cooldown_slots := a\<rparr>) = books p" "books (p\<lparr>deposit_cap := a\<rparr>) = books p"
  "books (p\<lparr>pending_cooldown_slots := a\<rparr>) = books p" "books (p\<lparr>cooldown_proposed_at_slot := a\<rparr>) = books p"
  "books (p\<lparr>admin := k\<rparr>) = books p" "books (p\<lparr>pending_admin := k\<rparr>) = books p"
  by (simp_all add: books_def)

lemma books_moved [simp]:
  "books (p\<lparr>total_deposited := a\<rparr>) = (books p)\<lparr>b_deposited := unat a\<rparr>"
  "books (p\<lparr>total_withdrawn := a\<rparr>) = (books p)\<lparr>b_withdrawn := unat a\<rparr>"
  "books (p\<lparr>total_flushed := a\<rparr>) = (books p)\<lparr>b_flushed := unat a\<rparr>"
  "books (p\<lparr>total_returned := a\<rparr>) = (books p)\<lparr>b_returned := unat a\<rparr>"
  "books (p\<lparr>total_fees_earned := a\<rparr>) = (books p)\<lparr>b_fees := unat a\<rparr>"
  "books (p\<lparr>total_recovered_from_wrapper := a\<rparr>) = (books p)\<lparr>b_recovered := unat a\<rparr>"
  "books (p\<lparr>total_lp_supply := a\<rparr>) = (books p)\<lparr>b_supply := unat a\<rparr>"
  "books (set_realized_junior_loss a p) = (books p)\<lparr>b_realized := unat a\<rparr>"
  "books (set_junior_total_lp a p) = (books p)\<lparr>b_junior_lp := unat a\<rparr>"
  "books (set_junior_balance a p) = (books p)\<lparr>b_junior := unat a\<rparr>"
  "books (set_tranche_enabled c p) = (books p)\<lparr>b_tranched := c\<rparr>"
  by (simp_all add: books_def)

lemma books_sel [simp]:
  "b_deposited (books p) = unat (total_deposited p)" "b_withdrawn (books p) = unat (total_withdrawn p)"
  "b_flushed (books p) = unat (total_flushed p)" "b_returned (books p) = unat (total_returned p)"
  "b_fees (books p) = unat (total_fees_earned p)" "b_realized (books p) = unat (realized_junior_loss p)"
  "b_recovered (books p) = unat (total_recovered_from_wrapper p)" "b_supply (books p) = unat (total_lp_supply p)"
  "b_junior_lp (books p) = unat (junior_total_lp p)" "b_junior (books p) = unat (junior_balance p)"
  "b_tranched (books p) = tranche_enabled p"
  by (simp_all add: books_def)

lemma book_value_pool: "book_value (books p) = pool_value_int p"
  by (simp only: book_value_def pool_value_int_def books_sel uint_nat)

lemma book_effective_pool: "book_effective (books p) = unat (effective_junior_balance p)"
  by (simp add: book_effective_def unat_effective_junior_balance net_loss_def)

lemma total_pool_value_books: "total_pool_value p = Some v \<longleftrightarrow> book_value (books p) = int (unat v)"
  unfolding total_pool_value_eq_Some book_value_pool by (simp only: uint_nat)

section \<open>Movements\<close>

text \<open>
  The movements of value.  The flags say whether the two ways of bringing flushed insurance
  back are in use: \<open>ret\<close> the admin's own transfer, \<open>rec\<close> the recovery from the wrapper.
\<close>

inductive book_step :: "bool \<Rightarrow> bool \<Rightarrow> books \<Rightarrow> books \<Rightarrow> bool" for ret rec where
  bk_fees: "\<lbrakk>j \<le> d; j = 0 \<or> 0 < b_junior_lp b\<rbrakk> \<Longrightarrow>
     book_step ret rec b (b\<lparr>b_fees := b_fees b + d, b_junior := b_junior b + j\<rparr>)"
| bk_deposit: "0 < a \<Longrightarrow>
     book_step ret rec b (b\<lparr>b_deposited := b_deposited b + a, b_supply := b_supply b + l\<rparr>)"
| bk_deposit_junior: "\<lbrakk>0 < a; 0 < l; b_tranched b\<rbrakk> \<Longrightarrow>
     book_step ret rec b (b\<lparr>b_deposited := b_deposited b + a, b_supply := b_supply b + l,
       b_junior_lp := b_junior_lp b + l, b_junior := b_junior b + a\<rparr>)"
| bk_withdraw: "\<lbrakk>int w \<le> book_value b - (if b_tranched b then int (book_effective b) else 0); l \<le> b_supply b\<rbrakk> \<Longrightarrow>
     book_step ret rec b (b\<lparr>b_withdrawn := b_withdrawn b + w, b_supply := b_supply b - l\<rparr>)"
| bk_withdraw_junior: "\<lbrakk>w \<le> book_effective b; w \<le> b_junior b; l \<le> b_supply b; l < b_junior_lp b\<rbrakk> \<Longrightarrow>
     book_step ret rec b (b\<lparr>b_withdrawn := b_withdrawn b + w, b_supply := b_supply b - l,
       b_junior_lp := b_junior_lp b - l, b_junior := b_junior b - w\<rparr>)"
| bk_last_junior: "\<lbrakk>w \<le> book_effective b; b_junior_lp b \<le> b_supply b; f = min (b_junior b) (b_flushed b - b_returned b)\<rbrakk> \<Longrightarrow>
     book_step ret rec b (b\<lparr>b_withdrawn := b_withdrawn b + w, b_supply := b_supply b - b_junior_lp b,
       b_junior_lp := 0, b_junior := 0, b_returned := b_returned b + f, b_realized := b_realized b + f\<rparr>)"
| bk_flush: "int a \<le> book_value b \<Longrightarrow> book_step ret rec b (b\<lparr>b_flushed := b_flushed b + a\<rparr>)"
| bk_return: "\<lbrakk>ret; a \<le> b_flushed b - b_returned b\<rbrakk> \<Longrightarrow> book_step ret rec b (b\<lparr>b_returned := b_returned b + a\<rparr>)"
| bk_recover: "\<lbrakk>rec; a \<le> b_flushed b - b_realized b - b_recovered b\<rbrakk> \<Longrightarrow>
     book_step ret rec b (b\<lparr>b_returned := b_returned b + a, b_recovered := b_recovered b + a\<rparr>)"
| bk_tranche: "book_step ret rec b (b\<lparr>b_tranched := True\<rparr>)"

section \<open>The steps of a pool as movements\<close>

abbreviation book_steps :: "bool \<Rightarrow> bool \<Rightarrow> books \<Rightarrow> books \<Rightarrow> bool" where
  "book_steps ret rec \<equiv> (book_step ret rec)\<^sup>*\<^sup>*"

lemma junior_fee_le: "distribute_fees jb sb m fee = (jf, sf) \<Longrightarrow> unat jf \<le> unat fee"
  using distribute_fees_exact(1) weighted_floor_le by metis

text \<open>Fee accrual brings the value up to the vault balance, and books the difference.\<close>

lemma accrue_books:
  assumes "accrue_fees_inner bal p = Inr p'"
  obtains (same) "p' = p" "total_lp_supply p = 0 \<or> (\<exists>v. total_pool_value p = Some v \<and> bal \<le> v)"
  | (fees) d j where "j \<le> d" "j = 0 \<or> 0 < b_junior_lp (books p)"
      "books p' = (books p)\<lparr>b_fees := b_fees (books p) + d, b_junior := b_junior (books p) + j\<rparr>"
      "int d = int (unat bal) - book_value (books p)" "0 < d" "total_lp_supply p \<noteq> 0"
proof -
  obtain v where v: "total_pool_value p = Some v" using assms by (auto simp: accrue_fees_inner_eq)
  show thesis
  proof (cases "bal > v \<and> total_lp_supply p > 0")
    case False
    then show thesis using assms v by (intro same) (auto simp: accrue_fees_inner_eq word_gt_0)
  next
    case True
    let ?d = "bal - v"
    have d: "int (unat ?d) = int (unat bal) - book_value (books p)" "0 < unat ?d"
      using True v by (auto simp: total_pool_value_books unat_sub_le word_less_nat_alt word_le_nat_alt)
    have s: "total_lp_supply p \<noteq> 0" using True by auto
    show thesis
    proof (cases "tranche_enabled p \<and> junior_total_lp p > 0")
      case nj: False
      then obtain fees where "unat fees = unat (total_fees_earned p) + unat ?d" "p' = p\<lparr>total_fees_earned := fees\<rparr>"
        using assms v True by (auto simp: accrue_fees_inner_eq Let_def checked_add_eq_Some)
      then show thesis using d s by (intro fees [of 0 "unat ?d"]) simp_all
    next
      case tj: True
      then obtain fe jb jf sf sb where f: "unat fe = unat (total_fees_earned p) + unat ?d"
        "unat jb = unat (junior_balance p) + unat jf"
        "distribute_fees (junior_balance p) sb (junior_fee_mult_bps p) ?d = (jf, sf)"
        "p' = set_junior_balance jb (p\<lparr>total_fees_earned := fe\<rparr>)"
        using assms v True
        by (auto simp: accrue_fees_inner_eq Let_def checked_add_eq_Some case_prod_beta prod_eq_iff) 
      then show thesis
        using d s tj junior_fee_le [OF f(3)] by (intro fees [of "unat jf" "unat ?d"]) (auto simp: unat_gt_0)
    qed
  qed
qed

lemma accrue_book_steps: "accrue_fees_inner bal p = Inr p' \<Longrightarrow> book_steps ret rec (books p) (books p')"
proof (erule accrue_books)
  fix d j
  assume f: "j \<le> d" "j = 0 \<or> 0 < b_junior_lp (books p)"
    "books p' = (books p)\<lparr>b_fees := b_fees (books p) + d, b_junior := b_junior (books p) + j\<rparr>"
  show ?thesis unfolding f(3) using bk_fees [OF f(1,2)] by (rule r_into_rtranclp)
qed simp

lemma pre_accrue_book_steps: "pre_accrue_pool bal p = Inr p' \<Longrightarrow> book_steps ret rec (books p) (books p')"
  by (auto simp: pre_accrue_pool_def intro: accrue_book_steps split: if_splits)

lemma hwm_books:
  "enforce_hwm_floor e w b p = Inr p' \<Longrightarrow> books p' = books p"
  "deposit_refresh_hwm e p = Inr p' \<Longrightarrow> books p' = books p"
  by (auto simp: enforce_hwm_floor_def deposit_refresh_hwm_def refresh_hwm_def Let_def case_prod_beta split: if_splits)

lemma deposit_books:
  assumes "a \<noteq> 0"
  shows "deposit_totals a lp p = Inr p' \<Longrightarrow> book_step ret rec (books p) (books p')"
    and "lp \<noteq> 0 \<Longrightarrow> tranche_enabled p \<Longrightarrow> deposit_junior_totals a lp p = Inr p' \<Longrightarrow> book_step ret rec (books p) (books p')"
proof -
  have a: "0 < unat a" using assms by (simp add: unat_gt_0)
  show "deposit_totals a lp p = Inr p' \<Longrightarrow> book_step ret rec (books p) (books p')"
    using bk_deposit [OF a, of ret rec "books p" "unat lp"] by (auto simp: deposit_totals_def checked_add_eq_Some)
  show "lp \<noteq> 0 \<Longrightarrow> tranche_enabled p \<Longrightarrow> deposit_junior_totals a lp p = Inr p' \<Longrightarrow> book_step ret rec (books p) (books p')"
    using bk_deposit_junior [OF a, of "unat lp" "books p" ret rec]
    by (auto simp: deposit_junior_totals_def deposit_totals_def checked_add_eq_Some unat_gt_0 Let_def)
qed

lemma price_deposit_books: "price_deposit_junior a p = Inr (lp, m) \<Longrightarrow> lp \<noteq> 0"
  by (auto simp: price_deposit_junior_def Let_def)

lemma withdraw_totals_books:
  assumes "withdraw_totals j w lp p = Inr p'"
  shows "unat (total_withdrawn p') = unat (total_withdrawn p) + unat w"
proof -
  have kept: "settle_last_junior q = Inr q' \<Longrightarrow> total_withdrawn q' = total_withdrawn q" for q q'
    by (auto simp: settle_last_junior_def Let_def split: if_splits)
  show ?thesis
    using assms by (auto simp: withdraw_totals_def Let_def checked_add_eq_Some dest!: kept split: if_splits)
qed

lemma pre_accrue_books:
  assumes "pre_accrue_pool bal p = Inr p'"
  obtains d j where "books p' = (books p)\<lparr>b_fees := b_fees (books p) + d, b_junior := b_junior (books p) + j\<rparr>"
proof (cases "pool_mode p \<le> 1")
  case True
  then have "accrue_fees_inner bal p = Inr p'" using assms by (simp add: pre_accrue_pool_def)
  then show thesis by (rule accrue_books) (use that [of 0 0] that in auto)
next
  case False
  then show thesis using assms that [of 0 0] by (simp add: pre_accrue_pool_def)
qed

text \<open>A withdrawal backed by the LP of its tranche pays at most the tranche's value.\<close>

lemma price_withdrawal_bounds:
  assumes "price_withdrawal j lp p = Inr w"
  shows "\<lbrakk>tranche_enabled p; j; lp \<le> junior_total_lp p\<rbrakk> \<Longrightarrow> unat w \<le> book_effective (books p)"
    and "\<lbrakk>tranche_enabled p; \<not> j; lp \<le> senior_total_lp p\<rbrakk> \<Longrightarrow>
      int (unat w) \<le> book_value (books p) - int (book_effective (books p))"
    and "\<lbrakk>\<not> tranche_enabled p; lp \<le> total_lp_supply p\<rbrakk> \<Longrightarrow> int (unat w) \<le> book_value (books p)"
proof -
  show "unat w \<le> book_effective (books p)" if "tranche_enabled p" "j" "lp \<le> junior_total_lp p"
  proof -
    have "calc_junior_collateral_for_withdraw (junior_total_lp p) (effective_junior_balance p) lp = Some w"
      using assms that by (auto simp: price_withdrawal_def)
    then have "w \<le> effective_junior_balance p" using that(3) by (rule junior_quote.burn_le_value)
    then show ?thesis by (simp add: book_effective_pool word_le_nat_alt)
  qed
  show "int (unat w) \<le> book_value (books p) - int (book_effective (books p))"
    if t: "tranche_enabled p" "\<not> j" "lp \<le> senior_total_lp p"
  proof -
    obtain sb where sb: "senior_balance p = Some sb" and
      q: "calc_senior_collateral_for_withdraw (senior_total_lp p) sb lp = Some w"
      using assms t by (auto simp: price_withdrawal_def)
    have "w \<le> sb" using q t(3) by (rule senior_quote.burn_le_value)
    moreover obtain v where "total_pool_value p = Some v" "unat v = unat sb + unat (effective_junior_balance p)"
      using sb by (auto simp: senior_balance_def checked_sub_eq_Some)
    ultimately show ?thesis by (simp add: total_pool_value_books book_effective_pool word_le_def)
  qed
  show "int (unat w) \<le> book_value (books p)" if t: "\<not> tranche_enabled p" "lp \<le> total_lp_supply p"
  proof -
    obtain v where v: "total_pool_value p = Some v" and
      q: "calc_collateral_for_withdraw (total_lp_supply p) v lp = Some w"
      using assms t by (auto simp: price_withdrawal_def pool_calc_collateral_for_withdraw_def)
    have "w \<le> v" using q t(2) by (rule global_quote.burn_le_value)
    with v show ?thesis by (simp add: total_pool_value_books word_le_def)
  qed
qed

lemma settle_books:
  assumes "settle_last_junior p = Inr p'"
  shows "books p' = (let f = min (b_junior (books p)) (b_flushed (books p) - b_returned (books p)) in
     (books p)\<lparr>b_junior := 0, b_returned := b_returned (books p) + f, b_realized := b_realized (books p) + f\<rparr>)"
proof -
  let ?nl = "saturating_sub (total_flushed p) (total_returned p)"
    and ?f = "min (saturating_sub (junior_balance p) (effective_junior_balance p)) (saturating_sub (total_flushed p) (total_returned p))"
  have f: "unat ?f = min (unat (junior_balance p)) (unat (total_flushed p) - unat (total_returned p))"
    by (simp add: min_def word_le_nat_alt unat_effective_junior_balance net_loss_def)
  show ?thesis
  proof (cases "?nl > 0 \<and> ?f > 0")
    case True
    then obtain r q where "unat r = unat (total_returned p) + unat ?f" "unat q = unat (realized_junior_loss p) + unat ?f"
      "p' = set_junior_balance 0 (set_realized_junior_loss q (p\<lparr>total_returned := r\<rparr>))"
      using assms by (auto simp: settle_last_junior_def Let_def checked_add_eq_Some)
    then show ?thesis using f by (simp add: Let_def)
  next
    case False
    then have "p' = set_junior_balance 0 p" using assms by (auto simp: settle_last_junior_def Let_def split: if_splits)
    moreover have "min (unat (junior_balance p)) (unat (total_flushed p) - unat (total_returned p)) = 0"
      using False f by (auto simp: word_gt_0 unat_eq_0 simp flip: unat_saturating_sub)
    ultimately show ?thesis by (simp add: Let_def)
  qed
qed

text \<open>The junior part of \<open>withdraw_totals\<close>: the last holder settles the tranche.\<close>

abbreviation junior_exit_pool :: "u64 \<Rightarrow> u64 \<Rightarrow> StakePool \<Rightarrow> StakePool result" where
  "junior_exit_pool w n q \<equiv>
     (if n = 0 then settle_last_junior (set_junior_total_lp n q)
      else bind_err (ok_or (checked_sub (junior_balance (set_junior_total_lp n q)) w) (stake_err Overflow)) (\<lambda>jb.
           Inr (set_junior_balance jb (set_junior_total_lp n q))))"

lemma junior_exit_books:
  assumes c: "junior_exit_pool w n (p\<lparr>total_withdrawn := wd, total_lp_supply := s\<rparr>) = Inr p'"
    and w: "unat w \<le> book_effective (books p)" and n: "checked_sub (junior_total_lp p) lp = Some n"
    and t: "unat wd = unat (total_withdrawn p) + unat w" and s: "unat s = unat (total_lp_supply p) - unat lp"
    and le: "unat lp \<le> unat (total_lp_supply p)"
  shows "book_step ret rec (books p) (books p')"
proof -
  have jl: "unat (junior_total_lp p) = unat n + unat lp" using n by (simp add: checked_sub_eq_Some)
  show ?thesis
  proof (cases "n = 0")
    case True
    then have lpj: "unat lp = unat (junior_total_lp p)" using jl by simp
    have "books p' = (books p)\<lparr>b_withdrawn := b_withdrawn (books p) + unat w,
        b_supply := b_supply (books p) - b_junior_lp (books p), b_junior_lp := 0, b_junior := 0,
        b_returned := b_returned (books p) + min (b_junior (books p)) (b_flushed (books p) - b_returned (books p)),
        b_realized := b_realized (books p) + min (b_junior (books p)) (b_flushed (books p) - b_returned (books p))\<rparr>"
      using c True t s lpj settle_books by (auto simp: Let_def)
    then show ?thesis
      using bk_last_junior [OF w _ refl, of ret rec] le lpj by (simp only:) simp
  next
    case False
    then obtain jb where "unat (junior_balance p) = unat jb + unat w"
      "p' = set_junior_balance jb (set_junior_total_lp n (p\<lparr>total_withdrawn := wd, total_lp_supply := s\<rparr>))"
      using c by (auto simp: checked_sub_eq_Some)
    then have p': "books p' = (books p)\<lparr>b_withdrawn := b_withdrawn (books p) + unat w, b_supply := b_supply (books p) - unat lp,
        b_junior_lp := b_junior_lp (books p) - unat lp, b_junior := b_junior (books p) - unat w\<rparr>"
      using jl s t by simp
    show ?thesis
      unfolding p' using w le jl False
      by (intro bk_withdraw_junior) (auto simp: book_effective_def unat_gt_0)
  qed
qed

lemma withdraw_books:
  assumes tot: "withdraw_totals j w lp p = Inr p'" and pr: "price_withdrawal j lp p1 = Inr w"
    and same: "books p = books p1" and lp: "tranche_enabled p1 \<and> \<not> j \<Longrightarrow> lp \<le> senior_total_lp p1"
  shows "book_step ret rec (books p) (books p')"
proof -
  have le: "unat lp \<le> unat (total_lp_supply p)" using withdraw_lp_counters(1) [OF tot] by simp
  have eq: "tranche_enabled p = tranche_enabled p1" "junior_total_lp p = junior_total_lp p1"
    "total_lp_supply p = total_lp_supply p1"
    using same by (auto simp: books_def intro: unat_eqD)
  obtain wd s where t: "unat wd = unat (total_withdrawn p) + unat w" "unat (total_lp_supply p) = unat s + unat lp"
    and cont: "(let q = p\<lparr>total_withdrawn := wd, total_lp_supply := s\<rparr> in
      if tranche_enabled q \<and> j then
        bind_err (ok_or (checked_sub (junior_total_lp q) lp) (stake_err Overflow)) (\<lambda>n.
        let p2 = set_junior_total_lp n q in
        if n = 0 then settle_last_junior p2
        else bind_err (ok_or (checked_sub (junior_balance p2) w) (stake_err Overflow)) (\<lambda>jb.
             Inr (set_junior_balance jb p2)))
      else Inr q) = Inr p'"
    using tot unfolding withdraw_totals_def by (auto simp: checked_add_eq_Some checked_sub_eq_Some Let_def)
  have s: "unat s = unat (total_lp_supply p) - unat lp" using t(2) by simp
  show ?thesis
  proof (cases "tranche_enabled p \<and> j")
    case False
    then have p': "books p' = (books p)\<lparr>b_withdrawn := b_withdrawn (books p) + unat w, b_supply := b_supply (books p) - unat lp\<rparr>"
      using cont t(1) s by (auto simp: Let_def)
    have "int (unat w) \<le> book_value (books p) - (if b_tranched (books p) then int (book_effective (books p)) else 0)"
      using price_withdrawal_bounds(2,3) [OF pr] False lp le eq
      unfolding same by (auto simp: word_le_nat_alt)
    then show ?thesis unfolding p' using le by (intro bk_withdraw) simp_all
  next
    case True
    then obtain n where n: "checked_sub (junior_total_lp p) lp = Some n"
      and c2: "junior_exit_pool w n (p\<lparr>total_withdrawn := wd, total_lp_supply := s\<rparr>) = Inr p'"
      using cont by (auto simp: Let_def)
    have "unat w \<le> book_effective (books p)"
      using price_withdrawal_bounds(1) [OF pr] True n eq unfolding same by (auto simp: word_le_nat_alt checked_sub_eq_Some)
    then show ?thesis using junior_exit_books [OF c2 _ n t(1) s le] by blast
  qed
qed

text \<open>A withdrawal is backed when the LP it burns is part of the supply of its tranche.\<close>

definition backed :: "step_ctx \<Rightarrow> StakeInstruction \<Rightarrow> StakePool \<Rightarrow> bool" where
  "backed c ins p \<longleftrightarrow>
     (\<forall>lp. ins = Withdraw lp \<longrightarrow> tranche_enabled p \<longrightarrow> \<not> junior_flag c \<longrightarrow> lp \<le> senior_total_lp p)"

lemma idle_books: "p' = q \<Longrightarrow> books q = books p \<Longrightarrow> book_steps ret rec (books p) (books p')" by simp

lemma pool_step_books:
  assumes "pool_step c ins p p'" "backed c ins p"
    "ret \<or> (\<forall>a. ins \<noteq> ReturnInsurance a)" "rec \<or> (\<forall>a. ins \<noteq> RecoverFlushedInsurance a)"
  shows "book_steps ret rec (books p) (books p')"
  using assms
proof (induction rule: pool_step.induct)
  case (step_deposit a p p1 lp m p2 p')
  then have "book_step ret rec (books p1) (books p')" using deposit_books(1) hwm_books(2) by metis
  then show ?case using pre_accrue_book_steps step_deposit(4) by (metis rtranclp.rtrancl_into_rtrancl)
next
  case (step_deposit_junior a p p1 lp m p2 p')
  have "tranche_enabled p1"
    using step_deposit_junior(2) pre_accrue_settings [OF step_deposit_junior(5)] by (simp add: settings_def)
  then have "book_step ret rec (books p1) (books p2)"
    using deposit_books(2) step_deposit_junior(1,7) price_deposit_books [OF step_deposit_junior(6)] by blast
  then show ?case
    using pre_accrue_book_steps [OF step_deposit_junior(5)] hwm_books(2) [OF step_deposit_junior(8)]
    by (metis rtranclp.rtrancl_into_rtrancl)
next
  case (step_withdraw lp p p1 w p2 p')
  have "tranche_enabled p1 = tranche_enabled p" "senior_total_lp p1 = senior_total_lp p"
    using pre_accrue_settings [OF step_withdraw(2)] pre_accrue_lp_counters [OF step_withdraw(2)]
    by (simp_all add: settings_def lp_counters_def senior_total_lp_def)
  then have "book_step ret rec (books p2) (books p')"
    using withdraw_books [OF step_withdraw(6,3) hwm_books(1) [OF step_withdraw(5)]] step_withdraw(7)
    by (auto simp: backed_def)
  then show ?case
    using pre_accrue_book_steps [OF step_withdraw(2)] hwm_books(1) [OF step_withdraw(5)]
    by (metis rtranclp.rtrancl_into_rtrancl)
next
  case (step_flush a p v p')
  have "int (unat a) \<le> book_value (books p)"
    using step_flush(5,6) unfolding total_pool_value_books by (simp add: word_le_def)
  from bk_flush [OF this, of ret rec] show ?case
    using step_flush(7) by (auto simp: flush_pool_def checked_add_eq_Some Let_def intro: r_into_rtranclp)
next
  case (step_return a p p')
  have "unat a \<le> b_flushed (books p) - b_returned (books p)" using step_return(3) by (simp add: word_le_nat_alt)
  from bk_return [OF _ this, of ret rec] show ?case
    using step_return(4,6) by (auto simp: return_pool_def checked_add_eq_Some intro: r_into_rtranclp)
next
  case (step_recover a p p')
  have "unat a \<le> b_flushed (books p) - b_realized (books p) - b_recovered (books p)"
    using step_recover(3) by (simp add: word_le_nat_alt wrapper_recoverable_unat)
  from bk_recover [OF _ this, of rec ret] show ?case
    using step_recover(4,7) by (auto simp: recover_pool_def checked_add_eq_Some intro: r_into_rtranclp)
next
  case (step_accrue p p1 p')
  then show ?case by (auto intro: accrue_book_steps)
next
  case (step_tranche p m p')
  then show ?case
    using bk_tranche [of ret rec "books p"] by (auto simp: set_tranche_config_pool_def intro: r_into_rtranclp)
qed (auto simp: admin_defs split: option.splits if_splits)

section \<open>Invariants of the books\<close>

text \<open>
  What holds whatever the admin does: what was settled as junior loss or recovered from the
  wrapper is part of what was returned and of what was flushed, and the junior tranche owns
  nothing without LP or before tranches are on.
\<close>

definition books_ok :: "books \<Rightarrow> bool" where
  "books_ok b \<longleftrightarrow> b_realized b + b_recovered b \<le> b_returned b \<and> b_realized b + b_recovered b \<le> b_flushed b
     \<and> (b_junior_lp b = 0 \<longrightarrow> b_junior b = 0) \<and> (\<not> b_tranched b \<longrightarrow> b_junior_lp b = 0)"

lemma book_step_ok:
  assumes "book_step ret rec b b'" "books_ok b"
  shows "books_ok b'"
  using assms by (induction rule: book_step.induct) (auto simp: books_ok_def min_def split: if_splits)

text \<open>
  What holds while flushed insurance comes back one way only: never more than was flushed,
  the pool's value is not negative, and the junior balance is covered by the value and the
  outstanding loss.
\<close>

definition books_sound :: "bool \<Rightarrow> books \<Rightarrow> bool" where
  "books_sound ret b \<longleftrightarrow>
     books_ok b \<and> (\<not> ret \<longrightarrow> b_returned b = b_realized b + b_recovered b)
     \<and> b_returned b \<le> b_flushed b \<and> 0 \<le> book_value b
     \<and> int (b_junior b) \<le> book_value b + int (b_flushed b - b_returned b)"

lemma book_step_sound:
  assumes "book_step ret rec b b'" "books_sound ret b" "\<not> (ret \<and> rec)"
  shows "books_sound ret b'"
  using assms
proof (induction rule: book_step.induct)
  case (bk_last_junior w b f)
  then show ?case
    by (auto simp: books_sound_def books_ok_def book_value_def book_effective_def min_def split: if_splits)
qed (auto simp: books_sound_def books_ok_def book_value_def book_effective_def split: if_splits)

lemma sound_effective: "books_sound ret b \<Longrightarrow> int (book_effective b) \<le> book_value b"
  by (auto simp: books_sound_def book_effective_def)

text \<open>On sound books, as long as the value fits its word, the valuation and the split succeed.\<close>

lemma sound_valuation:
  assumes s: "books_sound ret (books p)" and b: "pool_value_int p < 2 ^ 64"
  shows "\<exists>v s. total_pool_value p = Some v \<and> senior_balance p = Some s
    \<and> unat v = unat s + unat (effective_junior_balance p)"
proof -
  have eff: "int (unat (effective_junior_balance p)) \<le> pool_value_int p"
    using sound_effective [OF s] unfolding book_value_pool book_effective_pool .
  obtain v where v: "total_pool_value p = Some v"
    using s b total_pool_value_eq_None [of p] by (cases "total_pool_value p") (auto simp: books_sound_def book_value_pool)
  then have le: "effective_junior_balance p \<le> v"
    using eff unfolding total_pool_value_eq_Some by (simp add: word_le_def)
  then have "senior_balance p = Some (v - effective_junior_balance p)"
    using v by (simp add: senior_balance_def checked_sub_def)
  then show ?thesis using v le by (auto simp: unat_sub_le word_le_nat_alt)
qed

section \<open>Books in every world\<close>

lemma junior_le: "junior_lp_of s \<le> lp_of s"
  by (simp add: junior_lp_of_def lp_of_def split: option.split)

lemma reads_backed:
  assumes con: "conserved E pid L k" and p: "live_at pid L k p" and k: "k = key (accs ! 1)"
    and rd: "reads E pid accs ins p L c"
  shows "backed c ins p"
  unfolding backed_def
proof (intro allI impI)
  fix lp
  assume ins: "ins = Withdraw lp" and "tranche_enabled p" and j: "\<not> junior_flag c"
  let ?a = "key (accs ! 7)" and ?A = "deposit_addresses E pid k"
  obtain r where r: "acc_owner (L ?a) = pid" "deposit_bytes_at L ?a r"
    "?a = fst (derive_deposit_pda (find_program_address E) pid (key (accs ! 1)) (key (accs ! 0)))"
    using rd unfolding ins reads_def StakeInstruction.case by blast
  have lp: "junior_flag c = is_junior_deposit r" "lp \<le> lp_amount r"
    using reads_record [OF rd [unfolded ins] keeps_refl r(2)] by blast+
  have a: "?a \<in> ?A" unfolding deposit_addresses_def k r(3) by simp
  have s: "stored pid L ?a = Some r" by (rule stored_SomeD [OF r(1,2)])
  have "unat lp \<le> lp_of (stored pid L ?a) - junior_lp_of (stored pid L ?a)"
    using lp j s by (simp add: lp_of_def junior_lp_of_def word_le_nat_alt)
  also have "\<dots> \<le> (\<Sum>x\<in>?A. lp_of (stored pid L x) - junior_lp_of (stored pid L x))"
    using sum_member [OF finite_addresses a] .
  also have "\<dots> = lp_sum E pid L k - junior_lp_sum E pid L k"
    unfolding lp_sum_def junior_lp_sum_def by (rule sum_subtractf_nat) (rule junior_le)
  finally show "lp \<le> senior_total_lp p"
    using con p unfolding conserved_def by (simp add: senior_total_lp_def word_le_nat_alt)
qed

definition newborn_books :: "books \<Rightarrow> bool" where
  "newborn_books b \<longleftrightarrow> b_deposited b = 0 \<and> b_withdrawn b = 0 \<and> b_flushed b = 0 \<and> b_returned b = 0 \<and> b_fees b = 0
     \<and> b_realized b = 0 \<and> b_recovered b = 0 \<and> b_supply b = 0 \<and> b_junior_lp b = 0 \<and> b_junior b = 0"

lemma born_books: "born p \<Longrightarrow> newborn_books (books p)"
  by (simp add: born_def newborn_books_def)

text \<open>No logged call on pool \<open>k\<close> is an instruction with the property \<open>P\<close>.\<close>

definition never :: "(StakeInstruction \<Rightarrow> bool) \<Rightarrow> pubkey \<Rightarrow> call list \<Rightarrow> bool" where
  "never P k es \<longleftrightarrow> (\<forall>(accs, dt, M) \<in> set es. k = key (accs ! 1) \<longrightarrow> (\<forall>ins. unpack dt = Inr ins \<longrightarrow> \<not> P ins))"

definition is_return :: "StakeInstruction \<Rightarrow> bool" where
  "is_return ins \<longleftrightarrow> (\<exists>a. ins = ReturnInsurance a)"

definition is_recover :: "StakeInstruction \<Rightarrow> bool" where
  "is_recover ins \<longleftrightarrow> (\<exists>a. ins = RecoverFlushedInsurance a)"

lemma world_books:
  assumes "world E pid L0 es L" and F: "cpi_frame E pid" and sep: "pda_separation E pid"
    and inj: "pda_injective E pid" and fresh: "\<forall>k. acc_owner (L0 k) \<noteq> pid"
    and "live_at pid L k p" and "ret \<or> never is_return k es" and "rec \<or> never is_recover k es"
  shows "\<exists>b0. newborn_books b0 \<and> book_steps ret rec b0 (books p)"
  using assms(1,6-)
proof (induction arbitrary: p rule: world.induct)
  case world_start
  then show ?case using fresh by (simp add: live_at_def)
next
  case (world_foreign es L L')
  then show ?case using keeps_live_at_rev by blast
next
  case (world_call es L accs dt L')
  have ok: "ledger_ok E pid L"
    by (rule world_ledger_ok [OF world_call(1) F sep unowned_ledger_ok [OF fresh]])
  consider q where "live_at pid L k q" | "born p" using process_live_back [OF F sep ok world_call(2,4)] by blast
  then show ?case
  proof cases
    case 2
    then show ?thesis using born_books by blast
  next
    case (1 q)
    have pre: "ret \<or> never is_return k es" "rec \<or> never is_recover k es"
      using world_call.prems by (auto simp: never_def)
    then obtain b0 where b0: "newborn_books b0" "book_steps ret rec b0 (books q)"
      using world_call.IH [OF 1] by blast
    have "book_steps ret rec (books q) (books p)"
    proof (rule process_pool_cases [OF F sep ok world_call(2) 1 world_call(4)])
      fix ins c
      assume s: "unpack dt = Inr ins" "k = key (accs ! 1)" "reads E pid accs ins q L c" "pool_step c ins q p"
      obtain s0 where "k = fst (derive_pool_pda (find_program_address E) pid s0)"
        using ledger_okD(2) [OF ok] 1 live_validates unfolding live_at_def by blast
      then have "conserved E pid L k"
        using world_conserved [OF world_call(1) F sep inj fresh] unfolding lp_conserved_def by blast
      then have "backed c ins q" using reads_backed 1 s(2,3) by blast
      moreover have "ret \<or> (\<forall>a. ins \<noteq> ReturnInsurance a)" "rec \<or> (\<forall>a. ins \<noteq> RecoverFlushedInsurance a)"
        using world_call.prems(2,3) s(1,2) unfolding never_def is_return_def is_recover_def by auto
      ultimately show ?thesis using pool_step_books [OF s(4)] by blast
    qed simp
    then show ?thesis using b0 by (metis rtranclp_trans)
  qed
qed

lemma book_steps_ok: "book_steps ret rec b b' \<Longrightarrow> books_ok b \<Longrightarrow> books_ok b'"
  by (induction rule: rtranclp_induct) (auto intro: book_step_ok)

lemma book_steps_sound:
  "book_steps ret rec b b' \<Longrightarrow> books_sound ret b \<Longrightarrow> \<not> (ret \<and> rec) \<Longrightarrow> books_sound ret b'"
  by (induction rule: rtranclp_induct) (auto intro: book_step_sound)

lemma newborn_ok: "newborn_books b \<Longrightarrow> books_ok b" "newborn_books b \<Longrightarrow> books_sound ret b"
  by (auto simp: newborn_books_def books_ok_def books_sound_def book_value_def)

end
