(* ===== verification/Custody.thy ===== *)
theory Custody
  imports Books
begin

text \<open>
  Custody of the collateral.  A pool's tokens sit in a token account owned by its vault
  authority, a program-derived address.  \<open>token_laws\<close> states what the token program, the
  system program and the wrapper do to such accounts; each handler then moves exactly the
  tokens its instruction accounts for (\<open>custody_handler\<close>).
\<close>

section \<open>Token accounts under an authority\<close>

text \<open>
  An initialised token account in the token program's layout, owned by \<open>A\<close>, without a delegate
  and without a separate close authority: only \<open>A\<close> can take tokens out of it.
\<close>

definition sealed :: "pubkey \<Rightarrow> account \<Rightarrow> bool" where
  "sealed A acc \<longleftrightarrow>
     acc_owner acc = spl_token_id \<and> length (acc_data acc) = ACCOUNT_LEN \<and> token_owner (acc_data acc) = A
     \<and> acc_data acc ! 108 \<noteq> 0 \<and> slice 72 4 (acc_data acc) = replicate 4 0 \<and> slice 129 4 (acc_data acc) = replicate 4 0"

definition tokens :: "ledger \<Rightarrow> pubkey \<Rightarrow> int" where
  "tokens L a = uint (from_le_bytes (slice 64 8 (acc_data (L a))) :: u64)"

text \<open>
  \<open>moves S d L L'\<close>: accounts sealed by an authority in \<open>S\<close> stay sealed, and the tokens of each
  grow by at least \<open>d\<close> (shrink by at most \<open>-d\<close>).
\<close>

definition moves :: "pubkey set \<Rightarrow> (pubkey \<Rightarrow> int) \<Rightarrow> ledger \<Rightarrow> ledger \<Rightarrow> bool" where
  "moves S d L L' \<longleftrightarrow>
     (\<forall>A \<in> S. \<forall>a. sealed A (L a) \<longrightarrow> sealed A (L' a) \<and> tokens L a + d a \<le> tokens L' a)"

definition credit :: "pubkey \<Rightarrow> u64 \<Rightarrow> pubkey \<Rightarrow> int" where
  "credit k x a = (if a = k then uint x else 0)"

lemma moves_refl [simp]: "moves S (\<lambda>a. 0) L L"
  by (simp add: moves_def)

lemma moves_trans: "moves S d L L1 \<Longrightarrow> moves S d' L1 L2 \<Longrightarrow> moves S (\<lambda>a. d a + d' a) L L2"
  unfolding moves_def by (smt (verit))

lemma moves_mono:
  assumes "moves T d L L'" "S \<subseteq> T" "\<And>A a. A \<in> S \<Longrightarrow> sealed A (L a) \<Longrightarrow> d' a \<le> d a"
  shows "moves S d' L L'"
  unfolding moves_def
proof (intro ballI allI impI conjI)
  fix A a
  assume "A \<in> S" "sealed A (L a)"
  then have "sealed A (L' a)" "tokens L a + d a \<le> tokens L' a" "d' a \<le> d a"
    using assms by (auto simp: moves_def)
  then show "sealed A (L' a)" "tokens L a + d' a \<le> tokens L' a" by auto
qed

lemma moves_subset: "moves (- {w}) d L L' \<Longrightarrow> w \<notin> S \<Longrightarrow> moves S d L L'"
  by (auto simp: moves_def)

lemma sealed_unique: "sealed A acc \<Longrightarrow> sealed B acc \<Longrightarrow> A = B"
  by (simp add: sealed_def)

text \<open>Writes of this program's own accounts leave token accounts alone.\<close>

lemma write_moves:
  assumes "pid \<noteq> spl_token_id"
  shows "acc_owner (L (key ai)) = pid \<Longrightarrow> moves S (\<lambda>a. 0) L (write_pool ai p L)"
    and "acc_owner (L (key ai)) = pid \<Longrightarrow> moves S (\<lambda>a. 0) L (write_deposit ai r L)"
proof -
  have "sealed A (L a) \<Longrightarrow> acc_owner (L (key ai)) = pid \<Longrightarrow> a \<noteq> key ai" for A a using assms by (auto simp: sealed_def)
  then show "acc_owner (L (key ai)) = pid \<Longrightarrow> moves S (\<lambda>a. 0) L (write_pool ai p L)"
    "acc_owner (L (key ai)) = pid \<Longrightarrow> moves S (\<lambda>a. 0) L (write_deposit ai r L)"
    by (auto simp: moves_def tokens_def)
qed

section \<open>The laws of the other programs\<close>

definition vault_authority :: "env \<Rightarrow> pubkey \<Rightarrow> pubkey \<Rightarrow> pubkey" where
  "vault_authority E pid k = fst (derive_vault_authority (find_program_address E) pid k)"

definition pool_addresses :: "env \<Rightarrow> pubkey \<Rightarrow> pubkey set" where
  "pool_addresses E pid = range (\<lambda>s. fst (derive_pool_pda (find_program_address E) pid s))"

text \<open>The vault authorities of all pool addresses.\<close>

definition authorities :: "env \<Rightarrow> pubkey \<Rightarrow> pubkey set" where
  "authorities E pid = vault_authority E pid ` pool_addresses E pid"

text \<open>
  What the called programs do to sealed accounts.  The token program: a transfer moves its
  amount from source to destination, a burn takes its amount from the burned account, minting
  and initialisation take from nobody, and an account just initialised is sealed by its owner.
  The system program touches no token account.  The wrapper: \<open>TopUpInsurance\<close> takes its amount
  from the given account, \<open>WithdrawInsuranceAsset\<close> pays its amount into the given account out of
  accounts of its own vault authority (a derived address of the wrapper, never one of this
  program's), and its configuration calls touch no token account.
\<close>

definition called :: "env \<Rightarrow> Instruction \<Rightarrow> ledger \<Rightarrow> ledger \<Rightarrow> bool" where
  "called E ix L L' \<longleftrightarrow> (\<exists>held infos seeds. runtime_invoke E held ix infos seeds L = Inr L')"

lemma calledI: "runtime_invoke E held ix infos seeds L = Inr L' \<Longrightarrow> called E ix L L'"
  unfolding called_def by blast

definition transfer_law :: "env \<Rightarrow> bool" where
  "transfer_law E \<longleftrightarrow>
     (\<forall>t src dst auth x ix L L'. spl_transfer t src dst auth [] x = Inr ix \<longrightarrow> called E ix L L' \<longrightarrow>
        moves UNIV (\<lambda>a. credit dst x a - credit src x a) L L')"

definition mint_law :: "env \<Rightarrow> bool" where
  "mint_law E \<longleftrightarrow>
     (\<forall>t mint dst auth x ix L L'. mint_to t mint dst auth [] x = Inr ix \<longrightarrow> called E ix L L' \<longrightarrow>
        moves UNIV (\<lambda>a. 0) L L')"

definition burn_law :: "env \<Rightarrow> bool" where
  "burn_law E \<longleftrightarrow>
     (\<forall>t acct mint auth x ix L L'. spl_burn t acct mint auth [] x = Inr ix \<longrightarrow> called E ix L L' \<longrightarrow>
        moves UNIV (\<lambda>a. - credit acct x a) L L')"

definition initialize_law :: "env \<Rightarrow> bool" where
  "initialize_law E \<longleftrightarrow>
     (\<forall>t mint auth fr dc ix L L'. initialize_mint E t mint auth fr dc = Inr ix \<longrightarrow> called E ix L L' \<longrightarrow>
        moves UNIV (\<lambda>a. 0) L L')
     \<and> (\<forall>t acct mint own ix L L'. initialize_account E t acct mint own = Inr ix \<longrightarrow> called E ix L L' \<longrightarrow>
        moves UNIV (\<lambda>a. 0) L L' \<and> sealed own (L' acct))"

definition system_law :: "env \<Rightarrow> bool" where
  "system_law E \<longleftrightarrow>
     (\<forall>ix L L'. (\<exists>a b c d e. ix = system_create_account E a b c d e) \<or> (\<exists>a b c. ix = system_transfer E a b c)
        \<or> (\<exists>a c. ix = system_allocate E a c) \<or> (\<exists>a b. ix = system_assign E a b) \<longrightarrow> called E ix L L' \<longrightarrow>
        moves UNIV (\<lambda>a. 0) L L')"

definition top_up_law :: "env \<Rightarrow> bool" where
  "top_up_law E \<longleftrightarrow>
     (\<forall>perc s m src v t x L L'. allowed_percolator E (key perc) \<longrightarrow>
        called E (top_up_insurance_ix perc s m src v t x) L L' \<longrightarrow> moves UNIV (\<lambda>a. - credit (key src) x a) L L')"

definition insurance_payout_law :: "env \<Rightarrow> pubkey \<Rightarrow> bool" where
  "insurance_payout_law E pid \<longleftrightarrow>
     (\<forall>perc s m dst v w t x L L'. allowed_percolator E (key perc) \<longrightarrow>
        called E (withdraw_insurance_asset_ix perc s m dst v w t x) L L' \<longrightarrow>
        key w \<notin> authorities E pid \<and> moves (- {key w}) (credit (key dst) x) L L')"

text \<open>
  The wrapper's configuration calls are the seven this program issues; nothing is said of the
  wrapper's other instructions, of which some (\<open>WithdrawInsuranceReserveToStake\<close>, tag 87) move tokens.
\<close>

definition configuration_tags :: "u8 set" where
  "configuration_tags =
     {TAG_UPDATE_AUTHORITY, TAG_UPDATE_ASSET_AUTHORITY, TAG_RESOLVE_MARKET, TAG_UPDATE_FEE_SPLIT,
      TAG_UPDATE_MAINTENANCE_FEE_PER_SLOT, TAG_UPDATE_BACKING_FEE_POLICY, TAG_UPDATE_TRADE_FEE_POLICY}"

definition wrapper_config_law :: "env \<Rightarrow> bool" where
  "wrapper_config_law E \<longleftrightarrow>
     (\<forall>ix L L'. allowed_percolator E (ix_program_id ix) \<longrightarrow> hd (ix_data ix) \<in> configuration_tags \<longrightarrow>
        called E ix L L' \<longrightarrow> moves UNIV (\<lambda>a. 0) L L')"

definition token_laws :: "env \<Rightarrow> pubkey \<Rightarrow> bool" where
  "token_laws E pid \<longleftrightarrow> transfer_law E \<and> mint_law E \<and> burn_law E \<and> initialize_law E \<and> system_law E
     \<and> top_up_law E \<and> insurance_payout_law E pid \<and> wrapper_config_law E"

lemma moves_all: "moves UNIV d L L' \<Longrightarrow> moves S d L L'"
  by (auto simp: moves_def)

lemmas laws =
  transfer_law_def [THEN iffD1, rule_format, THEN moves_all] mint_law_def [THEN iffD1, rule_format, THEN moves_all]
  burn_law_def [THEN iffD1, rule_format, THEN moves_all]
  initialize_law_def [THEN iffD1, THEN conjunct1, rule_format, THEN moves_all]
  initialize_law_def [THEN iffD1, THEN conjunct2, rule_format, THEN conjunct1, THEN moves_all]
  top_up_law_def [THEN iffD1, rule_format, THEN moves_all]
  wrapper_config_law_def [THEN iffD1, rule_format, THEN moves_all]

lemma token_calls:
  assumes "token_laws E pid" "runtime_invoke E held ix infos seeds L = Inr L'"
  shows "spl_transfer t src dst auth [] x = Inr ix \<Longrightarrow> moves S (\<lambda>a. credit dst x a - credit src x a) L L'"
    and "mint_to t mint dst auth [] x = Inr ix \<Longrightarrow> moves S (\<lambda>a. 0) L L'"
    and "spl_burn t acct mint auth [] x = Inr ix \<Longrightarrow> moves S (\<lambda>a. - credit acct x a) L L'"
    and "initialize_mint E t mint auth fr dc = Inr ix \<Longrightarrow> moves S (\<lambda>a. 0) L L'"
    and "initialize_account E t acct mint own = Inr ix \<Longrightarrow> moves S (\<lambda>a. 0) L L'"
    and "initialize_account E t acct mint own = Inr ix \<Longrightarrow> sealed own (L' acct)"
proof -
  note T = assms(1) [unfolded token_laws_def] and c = calledI [OF assms(2)]
  show "spl_transfer t src dst auth [] x = Inr ix \<Longrightarrow> moves S (\<lambda>a. credit dst x a - credit src x a) L L'"
    using T by (intro laws(1) [OF _ _ c]) blast+
  show "mint_to t mint dst auth [] x = Inr ix \<Longrightarrow> moves S (\<lambda>a. 0) L L'"
    using T by (intro laws(2) [OF _ _ c]) blast+
  show "spl_burn t acct mint auth [] x = Inr ix \<Longrightarrow> moves S (\<lambda>a. - credit acct x a) L L'"
    using T by (intro laws(3) [OF _ _ c]) blast+
  show "initialize_mint E t mint auth fr dc = Inr ix \<Longrightarrow> moves S (\<lambda>a. 0) L L'"
    using T by (intro laws(4) [OF _ _ c]) blast+
  show "initialize_account E t acct mint own = Inr ix \<Longrightarrow> moves S (\<lambda>a. 0) L L'"
    using T by (intro laws(5) [OF _ _ c]) blast+
  show "initialize_account E t acct mint own = Inr ix \<Longrightarrow> sealed own (L' acct)"
    using T c unfolding initialize_law_def by blast
qed

lemma wrapper_calls_move:
  assumes "token_laws E pid" "allowed_percolator E (key perc)"
  shows "runtime_invoke E held (top_up_insurance_ix perc s m src v t x) infos seeds L = Inr L'
      \<Longrightarrow> moves S (\<lambda>a. - credit (key src) x a) L L'"
    and "runtime_invoke E held (withdraw_insurance_asset_ix perc s m dst v w t x) infos seeds L = Inr L'
      \<Longrightarrow> moves (authorities E pid) (credit (key dst) x) L L'"
    and "\<lbrakk>runtime_invoke E held ix infos seeds L = Inr L'; ix_program_id ix = key perc;
        hd (ix_data ix) \<in> configuration_tags\<rbrakk>
      \<Longrightarrow> moves S (\<lambda>a. 0) L L'"
proof -
  have T: "top_up_law E" "insurance_payout_law E pid" "wrapper_config_law E" using assms(1) by (auto simp: token_laws_def)
  show "runtime_invoke E held (top_up_insurance_ix perc s m src v t x) infos seeds L = Inr L'
      \<Longrightarrow> moves S (\<lambda>a. - credit (key src) x a) L L'"
    by (rule laws(6) [OF T(1) assms(2) calledI])
  show "runtime_invoke E held (withdraw_insurance_asset_ix perc s m dst v w t x) infos seeds L = Inr L'
      \<Longrightarrow> moves (authorities E pid) (credit (key dst) x) L L'"
    using T(2) assms(2) calledI unfolding insurance_payout_law_def by (blast intro: moves_subset)
  show "\<lbrakk>runtime_invoke E held ix infos seeds L = Inr L'; ix_program_id ix = key perc;
        hd (ix_data ix) \<in> configuration_tags\<rbrakk>
      \<Longrightarrow> moves S (\<lambda>a. 0) L L'"
    using T(3) assms(2) by (intro laws(7) [OF _ _ _ calledI]) simp_all
qed

lemma system_calls:
  assumes "token_laws E pid"
  shows "runtime_invoke E held (system_create_account E a b c d e) infos seeds L = Inr L' \<Longrightarrow> moves S (\<lambda>a. 0) L L'"
    and "runtime_invoke E held (system_transfer E a b c) infos seeds L = Inr L' \<Longrightarrow> moves S (\<lambda>a. 0) L L'"
    and "runtime_invoke E held (system_allocate E a c) infos seeds L = Inr L' \<Longrightarrow> moves S (\<lambda>a. 0) L L'"
    and "runtime_invoke E held (system_assign E a b) infos seeds L = Inr L' \<Longrightarrow> moves S (\<lambda>a. 0) L L'"
proof -
  have sys: "system_law E" using assms by (simp add: token_laws_def)
  have law: "moves S (\<lambda>a. 0) L L'" if "runtime_invoke E held ix infos seeds L = Inr L'"
    "(\<exists>a b c d e. ix = system_create_account E a b c d e) \<or> (\<exists>a b c. ix = system_transfer E a b c)
        \<or> (\<exists>a c. ix = system_allocate E a c) \<or> (\<exists>a b. ix = system_assign E a b)" for ix
    by (rule moves_all) (use sys calledI [OF that(1)] that(2) in \<open>simp only: system_law_def\<close>)
  show "runtime_invoke E held (system_create_account E a b c d e) infos seeds L = Inr L' \<Longrightarrow> moves S (\<lambda>a. 0) L L'"
    by (erule law) blast
  show "runtime_invoke E held (system_transfer E a b c) infos seeds L = Inr L' \<Longrightarrow> moves S (\<lambda>a. 0) L L'"
    by (erule law) blast
  show "runtime_invoke E held (system_allocate E a c) infos seeds L = Inr L' \<Longrightarrow> moves S (\<lambda>a. 0) L L'"
    by (erule law) blast
  show "runtime_invoke E held (system_assign E a b) infos seeds L = Inr L' \<Longrightarrow> moves S (\<lambda>a. 0) L L'"
    by (erule law) blast
qed

lemma still_trans: "moves S (\<lambda>a. 0) L L1 \<Longrightarrow> moves S (\<lambda>a. 0) L1 L2 \<Longrightarrow> moves S (\<lambda>a. 0) L L2"
  using moves_trans [of S "\<lambda>a. 0" L L1 "\<lambda>a. 0" L2] by simp

lemma create_moves:
  assumes "token_laws E pid" "create_or_adopt_pda E held t p s own space seeds L = Inr L'"
  shows "moves S (\<lambda>a. 0) L L'"
  using assms(2)
  by (auto simp: create_or_adopt_pda_eq Let_def dest!: system_calls [OF assms(1), where S = S] intro: still_trans
      split: if_splits)

lemma wrapper_call_moves:
  assumes T: "token_laws E pid" and P: "allowed_percolator E (key perc_ai)"
  shows
    "cpi_top_up_insurance E held perc_ai a b c d e amt seeds L = Inr L' \<Longrightarrow> moves S (\<lambda>k. - credit (key c) amt k) L L'"
    "cpi_withdraw_insurance_asset E held perc_ai a b c d e f amt seeds L = Inr L' \<Longrightarrow> moves (authorities E pid) (credit (key c) amt) L L'"
    "cpi_update_authority E held perc_ai a b c seeds L = Inr L' \<Longrightarrow> moves S (\<lambda>a. 0) L L'"
    "cpi_bind_insurance_authority E held perc_ai a b c seeds L = Inr L' \<Longrightarrow> moves S (\<lambda>a. 0) L L'"
    "cpi_bind_insurance_operator E held perc_ai a b c seeds L = Inr L' \<Longrightarrow> moves S (\<lambda>a. 0) L L'"
    "cpi_burn_asset_admin E held perc_ai a b c L = Inr L' \<Longrightarrow> moves S (\<lambda>a. 0) L L'"
    "cpi_rotate_insurance_operator E held perc_ai a b c seeds L = Inr L' \<Longrightarrow> moves S (\<lambda>a. 0) L L'"
    "cpi_rotate_insurance_authority E held perc_ai a b c seeds L = Inr L' \<Longrightarrow> moves S (\<lambda>a. 0) L L'"
    "cpi_resolve_market E held perc_ai a b seeds L = Inr L' \<Longrightarrow> moves S (\<lambda>a. 0) L L'"
    "cpi_update_fee_split E held perc_ai a b s1 s2 s3 seeds L = Inr L' \<Longrightarrow> moves S (\<lambda>a. 0) L L'"
    "cpi_update_maintenance_fee_per_slot E held perc_ai a b fee seeds L = Inr L' \<Longrightarrow> moves S (\<lambda>a. 0) L L'"
    "cpi_update_backing_fee_policy E held perc_ai a b s1 s2 s3 seeds L = Inr L' \<Longrightarrow> moves S (\<lambda>a. 0) L L'"
    "cpi_update_trade_fee_policy E held perc_ai a b tf seeds L = Inr L' \<Longrightarrow> moves S (\<lambda>a. 0) L L'"
proof -
  note w = wrapper_calls_move [OF T P]
  show "cpi_top_up_insurance E held perc_ai a b c d e amt seeds L = Inr L' \<Longrightarrow> moves S (\<lambda>k. - credit (key c) amt k) L L'"
    unfolding cpi_top_up_insurance_def by (rule w(1))
  show "cpi_withdraw_insurance_asset E held perc_ai a b c d e f amt seeds L = Inr L' \<Longrightarrow> moves (authorities E pid) (credit (key c) amt) L L'"
    unfolding cpi_withdraw_insurance_asset_def by (rule w(2))
qed (auto simp: wrapper_calls update_authority_ix_def asset_authority_data_def signed_market_ix_def configuration_tags_def
      elim!: wrapper_calls_move(3) [OF T P])

end
