(* ===== verification/Custody_Handlers.thy ===== *)
theory Custody_Handlers
  imports Custody
begin

text \<open>
  Every handler against the token laws: the tokens of the vault move by at least what the
  instruction books (\<open>flow\<close>), and no other sealed account loses tokens, as long as the signing
  account is not itself one of the authorities.
\<close>

definition flow :: "StakeInstruction \<Rightarrow> StakePool \<Rightarrow> StakePool \<Rightarrow> int" where
  "flow ins p p' =
     (case ins of
        Deposit a \<Rightarrow> uint a | DepositJunior a \<Rightarrow> uint a
      | Withdraw lp \<Rightarrow> uint (total_withdrawn p) - uint (total_withdrawn p')
      | FlushToInsurance a \<Rightarrow> - uint a | ReturnInsurance a \<Rightarrow> uint a | RecoverFlushedInsurance a \<Rightarrow> uint a
      | _ \<Rightarrow> 0)"

definition at_vault :: "StakePool \<Rightarrow> int \<Rightarrow> pubkey \<Rightarrow> int" where
  "at_vault p d a = (if a = vault p then d else 0)"

lemma at_vault_zero [simp]: "at_vault p 0 = (\<lambda>a. 0)"
  by (auto simp: at_vault_def)

lemma credit_vault: "key v = vault p \<Longrightarrow> credit (key v) x = at_vault p (uint x)"
  by (auto simp: credit_def at_vault_def)

lemma debit_vault: "key v = vault p \<Longrightarrow> (\<lambda>a. - credit (key v) x a) = at_vault p (- uint x)"
  by (auto simp: credit_def at_vault_def)

locale custody_handler =
  fixes run :: "env \<Rightarrow> pubkey \<Rightarrow> AccountInfo list \<Rightarrow> ledger \<Rightarrow> ledger result"
    and ins :: StakeInstruction
  assumes custody: "\<lbrakk>cpi_frame E pid; token_laws E pid; run E pid accs L = Inr L';
    pool_bytes_at L (key (accs ! 1)) p; allowed_percolator E (percolator_program p);
    is_signer (accs ! 0) \<longrightarrow> key (accs ! 0) \<notin> authorities E pid; pool_bytes_at L' (key (accs ! 1)) p'\<rbrakk>
    \<Longrightarrow> moves (authorities E pid) (at_vault p (flow ins p p')) L L'"

lemma pool_written: "pool_bytes_at (write_pool ai q L) (key ai) p \<Longrightarrow> p = q"
  by (simp add: pool_bytes_at_def write_pool_def take_patch_front pool_layout.enc_length)

lemma not_token: "cpi_frame E pid \<Longrightarrow> pid \<noteq> spl_token_id"
  using frame_ids(1) by metis

lemma moves_then_still: "moves S d L L1 \<Longrightarrow> moves S (\<lambda>a. 0) L1 L2 \<Longrightarrow> moves S d L L2"
  using moves_trans [of S d L L1 "\<lambda>a. 0" L2] by simp

lemma still_then_moves: "moves S (\<lambda>a. 0) L L1 \<Longrightarrow> moves S d L1 L2 \<Longrightarrow> moves S d L L2"
  using moves_trans [of S "\<lambda>a. 0" L L1 d L2] by simp

lemma write_pool_still:
  assumes "cpi_frame E pid" "moves S d L L1" "keeps pid L L1" "acc_owner (L (key a)) = pid"
  shows "moves S d L (write_pool a q L1)"
  using assms write_moves(1) [OF not_token [OF assms(1)], of L1 a S q]
  by (intro moves_then_still [OF assms(2)]) (simp add: keeps_def)

section \<open>Administration\<close>

lemma own_write_still:
  "cpi_frame E (acc_owner (L (key a))) \<Longrightarrow> moves S (\<lambda>a. 0) L (write_pool a q L)"
  by (rule write_pool_still [OF _ moves_refl keeps_refl]) simp_all

interpretation c_update_config: custody_handler "\<lambda>E pid accs. process_update_config pid accs x y" "UpdateConfig x y" for x y
  by unfold_locales (auto simp: process_update_config_def open_ok flow_def intro: own_write_still)

interpretation c_propose_admin: custody_handler "\<lambda>E pid accs. process_propose_admin pid accs k" "ProposeAdmin k" for k
  by unfold_locales (auto simp: process_propose_admin_def open_ok flow_def intro: own_write_still)

interpretation c_cancel_cooldown:
  custody_handler "\<lambda>E pid accs. process_cancel_cooldown_increase pid accs" CancelCooldownIncrease
  by unfold_locales (auto simp: process_cancel_cooldown_increase_def open_ok flow_def intro: own_write_still)

interpretation c_set_hwm_config:
  custody_handler "\<lambda>E pid accs. process_admin_set_hwm_config pid accs b f" "AdminSetHwmConfig b f" for b f
  by unfold_locales
    (auto simp: process_admin_set_hwm_config_def open_ok flow_def split: if_splits intro: own_write_still)

interpretation c_set_tranche_config:
  custody_handler "\<lambda>E pid accs. process_admin_set_tranche_config pid accs m" "AdminSetTrancheConfig m" for m
  by unfold_locales (auto simp: process_admin_set_tranche_config_def open_ok flow_def intro: own_write_still)

interpretation c_set_market_resolved:
  custody_handler "\<lambda>E pid accs. process_set_market_resolved pid accs" SetMarketResolved
  by unfold_locales (auto simp: process_set_market_resolved_def open_ok flow_def intro: own_write_still)

interpretation c_propose_cooldown:
  custody_handler "\<lambda>E pid accs. process_propose_cooldown_increase E pid accs s" "ProposeCooldownIncrease s" for s
  by unfold_locales (auto simp: process_propose_cooldown_increase_def open_ok flow_def intro: own_write_still)

interpretation c_commit_cooldown: custody_handler process_commit_cooldown_increase CommitCooldownIncrease
  by unfold_locales (auto simp: process_commit_cooldown_increase_def open_ok flow_def intro: own_write_still)

interpretation c_accept_admin: custody_handler "\<lambda>E pid accs. process_accept_admin pid accs" AcceptAdmin
  by unfold_locales
    (auto simp: process_accept_admin_def open_ok flow_def intro: own_write_still)

interpretation c_accrue_fees: custody_handler process_accrue_fees AccrueFees
  by unfold_locales
    (auto simp: process_accrue_fees_def open_ok flow_def intro: own_write_still)

section \<open>Insurance\<close>

interpretation c_flush:
  custody_handler "\<lambda>E pid accs. process_flush_to_insurance E pid accs a" "FlushToInsurance a" for a
proof
  fix E pid accs L L' p p'
  assume F: "cpi_frame E pid" and T: "token_laws E pid" and run: "process_flush_to_insurance E pid accs a L = Inr L'"
    and p: "pool_bytes_at L (key (accs ! 1)) p" and ap: "allowed_percolator E (percolator_program p)"
  obtain q q' b L1 where q: "acc_owner (L (key (accs ! 1))) = pid" "pool_bytes_at L (key (accs ! 1)) q"
    "vault q = key (accs ! 2)" "percolator_program q = key (accs ! 6)"
    "cpi_top_up_insurance E [key (accs ! 1)] (accs ! 6) (accs ! 3) (accs ! 4) (accs ! 2) (accs ! 5)
       (accs ! 7) a (vault_auth_seeds (accs ! 1) b) L = Inr L1" "L' = write_pool (accs ! 1) q' L1"
    using run by (auto simp: process_flush_to_insurance_def flush_checks_def open_ok)
  have "q = p" using p q(2) pool_bytes_at_unique by blast
  then have P: "allowed_percolator E (key (accs ! 6))" "key (accs ! 2) = vault p" using ap q by simp_all
  have "keeps pid L L1" using wrapper_call_keeps(1) [OF F allowed_not_self [OF F P(1)] q(5)] .
  then show "moves (authorities E pid) (at_vault p (flow (FlushToInsurance a) p p')) L L'"
    unfolding q(6) flow_def StakeInstruction.case debit_vault [OF P(2), symmetric]
    by (intro write_pool_still [OF F wrapper_call_moves(1) [OF T P(1) q(5)]]) (use q in auto)
qed

interpretation c_recover:
  custody_handler "\<lambda>E pid accs. process_recover_flushed_insurance E pid accs a" "RecoverFlushedInsurance a" for a
proof
  fix E pid accs L L' p p'
  assume F: "cpi_frame E pid" and T: "token_laws E pid" and run: "process_recover_flushed_insurance E pid accs a L = Inr L'"
    and p: "pool_bytes_at L (key (accs ! 1)) p" and ap: "allowed_percolator E (percolator_program p)"
  obtain q q' b L1 where q: "acc_owner (L (key (accs ! 1))) = pid" "pool_bytes_at L (key (accs ! 1)) q"
    "vault q = key (accs ! 2)" "percolator_program q = key (accs ! 8)"
    "cpi_withdraw_insurance_asset E [key (accs ! 1)] (accs ! 8) (accs ! 3) (accs ! 4) (accs ! 2) (accs ! 5)
       (accs ! 6) (accs ! 7) a (vault_auth_seeds (accs ! 1) b) L = Inr L1" "L' = write_pool (accs ! 1) q' L1"
    using run by (auto simp: process_recover_flushed_insurance_def open_ok)
  have "q = p" using p q(2) pool_bytes_at_unique by blast
  then have P: "allowed_percolator E (key (accs ! 8))" "key (accs ! 2) = vault p" using ap q by simp_all
  have "keeps pid L L1" using wrapper_call_keeps(2) [OF F allowed_not_self [OF F P(1)] q(5)] .
  then show "moves (authorities E pid) (at_vault p (flow (RecoverFlushedInsurance a) p p')) L L'"
    unfolding q(6) flow_def StakeInstruction.case credit_vault [OF P(2), symmetric]
    by (intro write_pool_still [OF F wrapper_call_moves(2) [OF T P(1) q(5)]]) (use q in auto)
qed

text \<open>A transfer out of the signer's own token account into the vault.\<close>

lemma paid_in:
  assumes T: "token_laws E pid" and call: "spl_transfer t (key src) (key v) auth [] x = Inr ix"
      "runtime_invoke E held ix infos seeds L = Inr L1"
    and own: "validate_source_ata held' err src mint user L = Inr ()" "user \<notin> S" and v: "key v = vault p"
  shows "moves S (at_vault p (uint x)) L L1"
proof -
  have "token_owner (acc_data (L (key src))) = user"
    using own(1) by (auto simp: validate_source_ata_eq try_borrow_data_def)
  then have "a \<noteq> key src" if "sealed A (L a)" "A \<in> S" for A a using that own(2) by (auto simp: sealed_def)
  then show ?thesis
    by (intro moves_mono [OF token_calls(1) [OF T call(2,1), where S = S]]) (auto simp: credit_def at_vault_def v)
qed

interpretation c_return:
  custody_handler "\<lambda>E pid accs. process_return_insurance E pid accs a" "ReturnInsurance a" for a
proof
  fix E pid accs L L' p p'
  assume F: "cpi_frame E pid" and T: "token_laws E pid" and run: "process_return_insurance E pid accs a L = Inr L'"
    and p: "pool_bytes_at L (key (accs ! 1)) p" and sg: "is_signer (accs ! 0) \<longrightarrow> key (accs ! 0) \<notin> authorities E pid"
  obtain q q' ix infos L1 where q: "is_signer (accs ! 0)" "acc_owner (L (key (accs ! 1))) = pid" "pool_bytes_at L (key (accs ! 1)) q"
    "vault q = key (accs ! 3)"
    "validate_source_ata [key (accs ! 1)] InvalidMint (accs ! 2) (collateral_mint q) (key (accs ! 0)) L = Inr ()"
    "spl_transfer (key (accs ! 4)) (key (accs ! 2)) (key (accs ! 3)) (key (accs ! 0)) [] a = Inr ix"
    "runtime_invoke E [key (accs ! 1)] ix infos [] L = Inr L1" "L' = write_pool (accs ! 1) q' L1"
    using run by (auto simp: process_return_insurance_def open_ok)
  have v: "key (accs ! 3) = vault p" using p q(3,4) pool_bytes_at_unique by metis
  have "keeps pid L L1" using q(6,7) by (auto simp: spl_transfer_def dest: known_call_keeps [OF F])
  then show "moves (authorities E pid) (at_vault p (flow (ReturnInsurance a) p p')) L L'"
    unfolding q(8) flow_def StakeInstruction.case using sg q(1,2)
    by (intro write_pool_still [OF F paid_in [OF T q(6,7,5) _ v]]) auto
qed

interpretation c_burn_asset_admin: custody_handler process_burn_asset_admin BurnAssetAdmin
proof
  fix E pid accs L L' p p'
  assume F: "cpi_frame E pid" and T: "token_laws E pid" and run: "process_burn_asset_admin E pid accs L = Inr L'"
    and p: "pool_bytes_at L (key (accs ! 1)) p" and ap: "allowed_percolator E (percolator_program p)"
  obtain q q' L1 where q: "acc_owner (L (key (accs ! 1))) = pid" "pool_bytes_at L (key (accs ! 1)) q"
    "percolator_program q = key (accs ! 4)"
    "cpi_burn_asset_admin E [] (accs ! 4) (accs ! 0) (accs ! 2) (accs ! 3) L = Inr L1" "L' = write_pool (accs ! 1) q' L1"
    using run by (auto simp: process_burn_asset_admin_def read_pool_as_admin_def try_borrow_data_def open_ok)
  have P: "allowed_percolator E (key (accs ! 4))" using p q(2,3) ap pool_bytes_at_unique by metis
  have "keeps pid L L1" using wrapper_call_keeps(6) [OF F allowed_not_self [OF F P] q(4)] .
  then show "moves (authorities E pid) (at_vault p (flow BurnAssetAdmin p p')) L L'"
    unfolding q(5) flow_def StakeInstruction.case at_vault_zero
    by (intro write_pool_still [OF F wrapper_call_moves(6) [OF T P q(4)]]) (use q in auto)
qed

section \<open>Deposits and withdrawals\<close>

lemma deposit_custody:
  assumes F: "cpi_frame E pid" and T: "token_laws E pid"
    and own: "validate_source_ata held' err ua mint user L = Inr ()" "user \<notin> S" and v: "key v = vault p"
    and tr: "deposit_transfers E pid held pool u ua v lm ul va t amt m L = Inr L1"
    and cr: "credit_deposit upd E pid [key pool] pool us dep sys now lp L1 = Inr L2"
    and pid: "acc_owner (L (key pool)) = pid"
  shows "moves S (at_vault p (uint amt)) L (write_pool pool q L2)"
proof -
  obtain ix ix2 M infos infos2 sd where t: "spl_transfer (key t) (key ua) (key v) (key u) [] amt = Inr ix"
    "runtime_invoke E held ix infos [] L = Inr M" "mint_to (key t) (key lm) (key ul) (key va) [] m = Inr ix2"
    "runtime_invoke E held ix2 infos2 sd M = Inr L1"
    using tr by (auto simp: deposit_transfers_def case_prod_beta)
  have m: "moves S (at_vault p (uint amt)) L L1"
    by (rule moves_then_still [OF paid_in [OF T t(1,2) own v] token_calls(2) [OF T t(4,3)]])
  obtain b L3 where oc: "open_or_create_deposit E pid [key pool] pool us dep sys L1 = Inr (b, L3)"
    using cr by (auto simp: credit_deposit_def)
  have st: "moves S (\<lambda>a. 0) L1 L3"
    using oc create_moves [OF T, where S = S]
    by (auto simp: open_or_create_deposit_def case_prod_beta data_is_empty_def split: if_splits)
  obtain L0 r b' r0 where c: "keeps pid L1 L0" "acc_owner (L0 (key dep)) = pid" "L2 = write_deposit dep r L0"
    "upd (key pool) (key us) b' now lp r0 = Inr r"
    by (rule credit_deposit_ok [OF F cr]) blast
  obtain r3 where r3: "L2 = write_deposit dep r3 L3"
    using cr oc by (auto simp: credit_deposit_def)
  have ow: "acc_owner (L2 k) = acc_owner (L3 k)" "acc_owner (L2 k) = acc_owner (L0 k)" for k
    by (simp add: r3) (simp add: c(3))
  have "acc_owner (L3 (key dep)) = pid" using ow c(2) by metis
  then have m2: "moves S (\<lambda>a. 0) L1 L2"
    unfolding r3 by (rule still_trans [OF st write_moves(2) [OF not_token [OF F]]])
  have "acc_owner (L2 (key pool)) = pid"
    using pid deposit_transfers_keeps [OF F tr] c(1) ow(2) by (simp add: keeps_def)
  then show ?thesis
    using moves_then_still [OF m m2] write_moves(1) [OF not_token [OF F]] moves_then_still by blast
qed

interpretation c_deposit: custody_handler "\<lambda>E pid accs. process_deposit E pid accs a" "Deposit a" for a
proof
  fix E pid accs L L' p p'
  assume F: "cpi_frame E pid" and T: "token_laws E pid" and run: "process_deposit E pid accs a L = Inr L'"
    and p: "pool_bytes_at L (key (accs ! 1)) p" and sg: "is_signer (accs ! 0) \<longrightarrow> key (accs ! 0) \<notin> authorities E pid"
  obtain q q' lp m sl L1 L2 where q: "is_signer (accs ! 0)" "acc_owner (L (key (accs ! 1))) = pid"
    "pool_bytes_at L (key (accs ! 1)) q" "deposit_checks E pid q (accs ! 1) (accs ! 3) (accs ! 4) (accs ! 6) a = Inr ()"
    "validate_source_ata [key (accs ! 1)] InvalidMint (accs ! 2) (collateral_mint q) (key (accs ! 0)) L = Inr ()"
    "deposit_transfers E pid [key (accs ! 1)] (accs ! 1) (accs ! 0) (accs ! 2) (accs ! 3) (accs ! 4)
        (accs ! 5) (accs ! 6) (accs ! 8) a m L = Inr L1"
    "credit_deposit credit_senior_record E pid [key (accs ! 1)] (accs ! 1) (accs ! 0) (accs ! 7) (accs ! 10) sl lp L1 = Inr L2"
    "L' = write_pool (accs ! 1) q' L2"
    using run unfolding process_deposit_def by (auto simp: open_ok case_prod_beta)
  have "q = p" using p q(3) pool_bytes_at_unique by blast
  then have v: "key (accs ! 3) = vault p" using q(4) by (auto simp: deposit_checks_def)
  show "moves (authorities E pid) (at_vault p (flow (Deposit a) p p')) L L'"
    unfolding q(8) flow_def StakeInstruction.case using sg q(1)
    by (intro deposit_custody [OF F T q(5) _ v q(6,7,2)]) blast
qed

interpretation c_deposit_junior: custody_handler "\<lambda>E pid accs. process_deposit_junior E pid accs a" "DepositJunior a" for a
proof
  fix E pid accs L L' p p'
  assume F: "cpi_frame E pid" and T: "token_laws E pid" and run: "process_deposit_junior E pid accs a L = Inr L'"
    and p: "pool_bytes_at L (key (accs ! 1)) p" and sg: "is_signer (accs ! 0) \<longrightarrow> key (accs ! 0) \<notin> authorities E pid"
  obtain q q' lp m sl L1 L2 where q: "is_signer (accs ! 0)" "acc_owner (L (key (accs ! 1))) = pid"
    "pool_bytes_at L (key (accs ! 1)) q" "deposit_checks E pid q (accs ! 1) (accs ! 3) (accs ! 4) (accs ! 6) a = Inr ()"
    "validate_source_ata [key (accs ! 1)] InvalidAccount (accs ! 2) (collateral_mint q) (key (accs ! 0)) L = Inr ()"
    "deposit_transfers E pid [key (accs ! 1)] (accs ! 1) (accs ! 0) (accs ! 2) (accs ! 3) (accs ! 4)
        (accs ! 5) (accs ! 6) (accs ! 8) a m L = Inr L1"
    "credit_deposit credit_junior_record E pid [key (accs ! 1)] (accs ! 1) (accs ! 0) (accs ! 7) (accs ! 10) sl lp L1 = Inr L2"
    "L' = write_pool (accs ! 1) q' L2"
    using run unfolding process_deposit_junior_def by (auto simp: open_ok case_prod_beta)
  have "q = p" using p q(3) pool_bytes_at_unique by blast
  then have v: "key (accs ! 3) = vault p" using q(4) by (auto simp: deposit_checks_def)
  show "moves (authorities E pid) (at_vault p (flow (DepositJunior a) p p')) L L'"
    unfolding q(8) flow_def StakeInstruction.case using sg q(1)
    by (intro deposit_custody [OF F T q(5) _ v q(6,7,2)]) blast
qed

lemma withdraw_custody:
  assumes T: "token_laws E pid" and own: "validate_burn_account held' ul mint user L = Inr ()" "user \<notin> S"
    and v: "key v = vault p" "key ua \<noteq> key v"
    and tr: "withdraw_transfers E pid held q pool u ul lm v ua va t lp w L = Inr L1"
  shows "moves S (at_vault p (- uint w)) L L1"
proof -
  obtain ix M where b: "spl_burn (key t) (key ul) (key lm) (key u) [] lp = Inr ix"
    "runtime_invoke E held ix [ul, lm, u, t] [] L = Inr M"
    and rest: "(if w > 0 then
       bind_err (spl_transfer (key t) (key v) (key ua) (key va) [] w) (\<lambda>ix2.
       runtime_invoke E held ix2 [v, ua, va, t] [vault_auth_seeds pool (vault_authority_bump q)] M)
     else Inr M) = Inr L1"
    using tr unfolding withdraw_transfers_def by auto
  have "token_owner (acc_data (L (key ul))) = user"
    using own(1) by (auto simp: validate_burn_account_eq try_borrow_data_def)
  then have "a \<noteq> key ul" if "sealed A (L a)" "A \<in> S" for A a using that own(2) by (auto simp: sealed_def)
  then have burn: "moves S (\<lambda>a. 0) L M"
    by (intro moves_mono [OF token_calls(3) [OF T b(2,1), where S = S]]) (auto simp: credit_def)
  have "moves S (at_vault p (- uint w)) M L1"
  proof (cases "w = 0")
    case True
    then show ?thesis using rest by simp
  next
    case False
    then obtain ix2 where c: "spl_transfer (key t) (key v) (key ua) (key va) [] w = Inr ix2"
      "runtime_invoke E held ix2 [v, ua, va, t] [vault_auth_seeds pool (vault_authority_bump q)] M = Inr L1"
      using rest by (auto simp: word_gt_0)
    show ?thesis
      by (rule moves_mono [OF token_calls(1) [OF T c(2,1), where S = S]]) (use v in \<open>auto simp: credit_def at_vault_def\<close>)
  qed
  with burn show ?thesis by (rule still_then_moves)
qed

interpretation c_withdraw: custody_handler "\<lambda>E pid accs. process_withdraw E pid accs lp" "Withdraw lp" for lp
proof
  fix E pid accs L L' p p'
  assume F: "cpi_frame E pid" and T: "token_laws E pid" and run: "process_withdraw E pid accs lp L = Inr L'"
    and p: "pool_bytes_at L (key (accs ! 1)) p" and sg: "is_signer (accs ! 0) \<longrightarrow> key (accs ! 0) \<notin> authorities E pid"
    and p': "pool_bytes_at L' (key (accs ! 1)) p'"
  obtain q q1 q2 q3 j w e b r L1 where q: "is_signer (accs ! 0)" "acc_owner (L (key (accs ! 1))) = pid"
    "pool_bytes_at L (key (accs ! 1)) q" "vault q = key (accs ! 4)" "key (accs ! 5) \<noteq> key (accs ! 4)"
    "validate_burn_account [key (accs ! 1)] (accs ! 2) (lp_mint q) (key (accs ! 0)) L = Inr ()"
    "validate_deposit_account E pid [key (accs ! 1)] (accs ! 1) (accs ! 0) (accs ! 7) L = Inr ()"
    "pre_accrue_fee_modes [key (accs ! 1)] (accs ! 4) L q = Inr q1" "enforce_hwm_floor e w b q1 = Inr q2"
    "withdraw_transfers E pid [key (accs ! 1)] q2 (accs ! 1) (accs ! 0) (accs ! 2) (accs ! 3) (accs ! 4)
        (accs ! 5) (accs ! 6) (accs ! 8) lp w L = Inr L1" "withdraw_totals j w lp q2 = Inr q3"
    "L' = write_pool (accs ! 1) q3 (write_deposit (accs ! 7) r L1)"
    using run unfolding process_withdraw_def by (auto simp: open_ok)
  have qp: "q = p" "p' = q3" using p q(3) pool_bytes_at_unique p' pool_written unfolding q(12) by blast+
  obtain bal where "pre_accrue_pool bal q = Inr q1" by (rule pre_accrue_ok [OF q(8)])
  then obtain d jj where "books q1 = (books q)\<lparr>b_fees := b_fees (books q) + d, b_junior := b_junior (books q) + jj\<rparr>"
    by (rule pre_accrue_books)
  then have "b_withdrawn (books q2) = b_withdrawn (books q)" using hwm_books(1) [OF q(9)] by simp
  then have w: "uint (total_withdrawn p) - uint (total_withdrawn p') = - uint w"
    using withdraw_totals_books [OF q(11)] unfolding qp by (simp only: uint_nat books_sel)
  have k: "keeps pid L L1" by (rule withdraw_transfers_keeps [OF F q(10)])
  have own: "acc_owner (L1 (key (accs ! 7))) = pid" "acc_owner (L1 (key (accs ! 1))) = pid"
    using k q(2,7) by (auto simp: keeps_def validate_deposit_account_def account_owner_def)
  have "moves (authorities E pid) (at_vault p (- uint w)) L L1"
    using sg q(1,4) qp(1) by (intro withdraw_custody [OF T q(6) _ _ q(5,10)]) auto
  moreover have "moves (authorities E pid) (\<lambda>a. 0) L1 (write_deposit (accs ! 7) r L1)"
    by (rule write_moves(2) [OF not_token [OF F]]) (rule own(1))
  moreover have "moves (authorities E pid) (\<lambda>a. 0) (write_deposit (accs ! 7) r L1) L'"
    unfolding q(12) using own(2) by (intro write_moves(1) [OF not_token [OF F]]) simp
  ultimately show "moves (authorities E pid) (at_vault p (flow (Withdraw lp) p p')) L L'"
    unfolding flow_def StakeInstruction.case w using moves_then_still by blast
qed

section \<open>Calls and creation\<close>

text \<open>The handlers that only sign wrapper calls move nothing.\<close>

locale still_handler =
  fixes run :: "env \<Rightarrow> pubkey \<Rightarrow> AccountInfo list \<Rightarrow> ledger \<Rightarrow> ledger result"
  assumes still: "\<lbrakk>cpi_frame E pid; token_laws E pid; run E pid accs L = Inr L';
    \<And>p. live_at pid L (key (accs ! 1)) p \<Longrightarrow> allowed_percolator E (percolator_program p)\<rbrakk>
    \<Longrightarrow> moves S (\<lambda>a. 0) L L'"

interpretation s_bind_insurance: still_handler process_bind_insurance_authority
proof
  fix E pid accs L L' S
  assume T: "token_laws E pid" and "process_bind_insurance_authority E pid accs L = Inr L'"
    and ap: "\<And>p. live_at pid L (key (accs ! 1)) p \<Longrightarrow> allowed_percolator E (percolator_program p)"
  then obtain p b L1 where "live_at pid L (key (accs ! 1)) p" "percolator_program p = key (accs ! 4)"
    and c: "cpi_bind_insurance_authority E [] (accs ! 4) (accs ! 0) (accs ! 2) (accs ! 3) (vault_auth_seeds (accs ! 1) b) L = Inr L1"
    "cpi_bind_insurance_operator E [] (accs ! 4) (accs ! 0) (accs ! 2) (accs ! 3) (vault_auth_seeds (accs ! 1) b) L1 = Inr L'"
    by (auto simp: process_bind_insurance_authority_def read_pool_as_admin_def open_ok live_at_def)
  then have P: "allowed_percolator E (key (accs ! 4))" using ap by metis
  show "moves S (\<lambda>a. 0) L L'"
    using wrapper_call_moves(4,5) [OF T P] c by (blast intro: still_trans)
qed

lemmas still_defs = proxy_defs open_ok live_at_def

interpretation s_rotate_operator: still_handler process_rotate_insurance_operator
  by unfold_locales
    (auto simp: process_rotate_insurance_operator_def still_defs elim!: wrapper_call_moves(7) [rotated 2], metis)

interpretation s_rotate_authority: still_handler process_rotate_insurance_authority
  by unfold_locales
    (auto simp: process_rotate_insurance_authority_def still_defs elim!: wrapper_call_moves(8) [rotated 2], metis)

interpretation s_resolve_market: still_handler process_admin_resolve_market
  by unfold_locales (auto simp: process_admin_resolve_market_def still_defs elim!: wrapper_call_moves(9) [rotated 2], metis)

interpretation s_fee_split: still_handler "\<lambda>E pid accs. process_admin_update_fee_split E pid accs s1 s2 s3" for s1 s2 s3
  by unfold_locales (auto simp: process_admin_update_fee_split_def still_defs elim!: wrapper_call_moves(10) [rotated 2], metis)

interpretation s_maintenance_fee:
  still_handler "\<lambda>E pid accs. process_admin_update_maintenance_fee_per_slot E pid accs fee" for fee
  by unfold_locales
    (auto simp: process_admin_update_maintenance_fee_per_slot_def still_defs elim!: wrapper_call_moves(11) [rotated 2], metis)

interpretation s_backing_fee:
  still_handler "\<lambda>E pid accs. process_admin_update_backing_fee_policy E pid accs s1 s2 s3" for s1 s2 s3
  by unfold_locales
    (auto simp: process_admin_update_backing_fee_policy_def still_defs elim!: wrapper_call_moves(12) [rotated 2], metis)

interpretation s_trade_fee:
  still_handler "\<lambda>E pid accs. process_admin_update_trade_fee_policy E pid accs tf" for tf
  by unfold_locales
    (auto simp: process_admin_update_trade_fee_policy_def still_defs elim!: wrapper_call_moves(13) [rotated 2], metis)

end
