(* ===== verification/Solvency.thy ===== *)
theory Solvency
  imports Custody_Handlers
begin

text \<open>
  Solvency: the value a pool tracks never exceeds the tokens in its vault.  The value follows
  the flow of tokens at every step (\<open>step_value\<close>), the tokens follow the flow by the custody of
  the handlers, and the two are joined over every \<open>custody_world\<close>, a world in which nobody else
  signs for a vault authority.
\<close>

section \<open>The value follows the flow\<close>

lemma accrue_value:
  assumes "accrue_fees_inner bal p = Inr p'"
  shows "pool_value_int p' \<le> max (pool_value_int p) (uint bal)"
  using assms
proof (cases rule: accrue_books)
  case (fees d j)
  have "book_value (books p') = book_value (books p) + int d" unfolding fees(3) by (simp add: book_value_def)
  then show ?thesis using fees(4) unfolding book_value_pool by (simp only: uint_nat)
qed simp

lemma pre_accrue_value:
  "pre_accrue_pool bal p = Inr p' \<Longrightarrow> pool_value_int p' \<le> max (pool_value_int p) (if pool_mode p \<le> 1 then uint bal else pool_value_int p)"
  by (auto simp: pre_accrue_pool_def dest: accrue_value split: if_splits)

lemma value_books_eq: "books q = books p \<Longrightarrow> pool_value_int q = pool_value_int p"
  by (simp add: book_value_pool [symmetric])

lemma checked_uint:
  "checked_add x y = Some z \<longleftrightarrow> uint z = uint x + uint y" "checked_sub x y = Some z \<longleftrightarrow> uint x = uint z + uint y"
  for x y z :: u64
  unfolding checked_add_eq_Some checked_sub_eq_Some uint_nat by linarith+

lemma deposit_value:
  "deposit_totals a lp p = Inr p' \<Longrightarrow> pool_value_int p' = pool_value_int p + uint a"
  "deposit_junior_totals a lp p = Inr p' \<Longrightarrow> pool_value_int p' = pool_value_int p + uint a"
  by (auto simp: deposit_totals_def deposit_junior_totals_def checked_uint Let_def
      book_value_pool [symmetric] book_value_def)

lemma withdraw_value:
  assumes "withdraw_totals j w lp p = Inr p'"
  shows "pool_value_int p' = pool_value_int p - uint w" "uint (total_withdrawn p) - uint (total_withdrawn p') = - uint w"
proof -
  have settle: "book_value (books q') = book_value (books q)" if "settle_last_junior q = Inr q'" for q q'
    unfolding settle_books [OF that] by (simp add: book_value_def Let_def)
  show "pool_value_int p' = pool_value_int p - uint w"
    using assms
    by (auto simp: withdraw_totals_def checked_uint Let_def
        book_value_pool [symmetric] book_value_def dest!: settle split: if_splits)
  show "uint (total_withdrawn p) - uint (total_withdrawn p') = - uint w"
    using withdraw_totals_books [OF assms] by (simp only: uint_nat)
qed

lemma insurance_value:
  "flush_pool a p = Inr p' \<Longrightarrow> pool_value_int p' = pool_value_int p - uint a"
  "return_pool a p = Inr p' \<Longrightarrow> pool_value_int p' = pool_value_int p + uint a"
  "recover_pool a p = Inr p' \<Longrightarrow> pool_value_int p' = pool_value_int p + uint a"
  by (auto simp: flush_pool_def return_pool_def recover_pool_def checked_uint Let_def
      book_value_pool [symmetric] book_value_def)

text \<open>
  A pool backed by \<open>bal\<close> tokens is, after any step, backed by \<open>bal\<close> and the step's flow: fee
  accrual books at most what the vault really holds.
\<close>

lemma step_value:
  assumes "pool_step c ins p p'" "pool_value_int p \<le> bal"
    and "\<lbrakk>vault_index ins \<noteq> None; pool_mode p \<le> 1\<rbrakk> \<Longrightarrow> uint (vault_bal c) \<le> bal"
  shows "pool_value_int p' \<le> bal + flow ins p p'"
  using assms
proof (induction rule: pool_step.induct)
  case (step_deposit a p p1 lp m p2 p')
  then have "pool_value_int p1 \<le> bal" using pre_accrue_value by (fastforce simp: vault_index_def split: if_splits)
  then show ?case
    using deposit_value(1) [OF step_deposit(6)] value_books_eq [OF hwm_books(2) [OF step_deposit(7)]]
    by (simp add: flow_def)
next
  case (step_deposit_junior a p p1 lp m p2 p')
  then have "pool_value_int p1 \<le> bal" using pre_accrue_value by (fastforce simp: vault_index_def split: if_splits)
  then show ?case
    using deposit_value(2) [OF step_deposit_junior(7)] value_books_eq [OF hwm_books(2) [OF step_deposit_junior(8)]]
    by (simp add: flow_def)
next
  case (step_withdraw lp p p1 w p2 p')
  then have "pool_value_int p1 \<le> bal" using pre_accrue_value by (fastforce simp: vault_index_def split: if_splits)
  moreover obtain d j where "books p1 = (books p)\<lparr>b_fees := b_fees (books p) + d, b_junior := b_junior (books p) + j\<rparr>"
    by (rule pre_accrue_books [OF step_withdraw(2)])
  then have "b_withdrawn (books p2) = b_withdrawn (books p)" using hwm_books(1) [OF step_withdraw(5)] by simp
  then have "total_withdrawn p2 = total_withdrawn p" by (simp add: word_unat_eq_iff)
  ultimately show ?case
    using withdraw_value [OF step_withdraw(6)] value_books_eq [OF hwm_books(1) [OF step_withdraw(5)]]
    by (simp add: flow_def)
next
  case (step_accrue p p1 p')
  then have "pool_value_int p1 \<le> bal" using accrue_value by (fastforce simp: vault_index_def split: if_splits)
  moreover have "pool_value_int p' = pool_value_int p1" unfolding step_accrue(3) by (intro value_books_eq) simp
  ultimately show ?case by (simp add: flow_def)
next
  case (step_flush a p v p')
  then show ?case using insurance_value(1) [OF step_flush(7)] by (simp add: flow_def)
next
  case (step_return a p p')
  then show ?case using insurance_value(2) [OF step_return(4)] by (simp add: flow_def)
next
  case (step_recover a p p')
  then show ?case using insurance_value(3) [OF step_recover(4)] by (simp add: flow_def)
qed (auto simp: flow_def value_books_eq admin_defs book_value_pool [symmetric] book_value_def
      split: option.splits if_splits)

section \<open>One instruction\<close>

text \<open>No two pools share a vault authority.\<close>

definition authorities_distinct :: "env \<Rightarrow> pubkey \<Rightarrow> bool" where
  "authorities_distinct E pid \<longleftrightarrow> inj_on (vault_authority E pid) (pool_addresses E pid)"

lemma live_address:
  assumes "ledger_ok E pid L" "live_at pid L k p"
  shows "k \<in> pool_addresses E pid" "vault_authority E pid k \<in> authorities E pid"
proof -
  show k: "k \<in> pool_addresses E pid"
    using ledger_okD(2) [OF assms(1)] assms(2) live_validates unfolding live_at_def pool_addresses_def by blast
  then show "vault_authority E pid k \<in> authorities E pid" by (simp add: authorities_def)
qed

lemma step_acts: "pool_step c ins p p' \<Longrightarrow> acts_on_pool ins"
  by (induction rule: pool_step.induct) (simp_all add: acts_on_pool_def)

lemma process_custody:
  assumes F: "cpi_frame E pid" and T: "token_laws E pid" and run: "process E pid accs dt L = Inr L'"
    and u: "unpack dt = Inr ins" and acts: "acts_on_pool ins"
    and p: "pool_bytes_at L (key (accs ! 1)) p" "pool_bytes_at L' (key (accs ! 1)) p'"
    and ap: "allowed_percolator E (percolator_program p)" and sg: "is_signer (accs ! 0) \<longrightarrow> key (accs ! 0) \<notin> authorities E pid"
  shows "moves (authorities E pid) (at_vault p (flow ins p p')) L L'"
proof -
  note custody =
    c_deposit.custody c_deposit_junior.custody c_withdraw.custody c_flush.custody c_return.custody c_recover.custody
    c_set_market_resolved.custody c_accrue_fees.custody c_update_config.custody c_propose_admin.custody
    c_accept_admin.custody c_propose_cooldown.custody c_commit_cooldown.custody c_cancel_cooldown.custody
    c_set_hwm_config.custody c_set_tranche_config.custody c_burn_asset_admin.custody
  note c = custody [OF F T _ p(1) ap sg p(2)]
  show ?thesis using run u acts by (cases ins) (simp_all add: process_def acts_on_pool_def, (erule c)+)
qed

lemma init_custody:
  assumes F: "cpi_frame E pid" and T: "token_laws E pid" and run: "process_init_pool E pid accs cd cap L = Inr L'"
  shows "moves S (\<lambda>a. 0) L L'" "sealed (vault_authority E pid (key (accs ! 2))) (L' (key (accs ! 4)))"
proof -
  obtain pb vb L1 L2 q where ck: "init_pool_checks E pid (accs ! 0) (accs ! 1) (accs ! 2) (accs ! 3) (accs ! 5)
      (accs ! 6) (accs ! 7) (accs ! 8) (accs ! 10) cd L = Inr (pb, vb)"
    and cr: "create_or_adopt_pda E [] (accs ! 2) (accs ! 0) (accs ! 9) pid STAKE_POOL_SIZE
      (pool_seeds (accs ! 1) pb) L = Inr L1"
    and calls: "init_pool_calls E (accs ! 0) (accs ! 1) (accs ! 2) (accs ! 3) (accs ! 4) (accs ! 5) (accs ! 6)
      (accs ! 7) (accs ! 8) (accs ! 10) pb vb L1 = Inr L2"
    and L': "L' = write_pool (accs ! 2) q L2"
    using run by (auto simp: process_init_pool_def Let_def)
  have k: "key (accs ! 5) = vault_authority E pid (key (accs ! 2))" and P: "allowed_percolator E (key (accs ! 7))"
    using ck by (auto simp: init_pool_checks_def case_prod_beta vault_authority_def)
  obtain M1 M2 ix ix2 infos infos2 sd sd2 dc where c:
    "cpi_update_authority E [] (accs ! 7) (accs ! 0) (accs ! 2) (accs ! 1) (pool_seeds (accs ! 1) pb) L1 = Inr M1"
    "initialize_mint E (key (accs ! 8)) (key (accs ! 3)) (key (accs ! 5)) None dc = Inr ix"
    "runtime_invoke E [] ix infos sd M1 = Inr M2"
    "initialize_account E (key (accs ! 8)) (key (accs ! 4)) (key (accs ! 6)) (key (accs ! 5)) = Inr ix2"
    "runtime_invoke E [] ix2 infos2 sd2 M2 = Inr L2"
    using calls unfolding init_pool_calls_def by (auto simp: mint_unpack_eq)
  have "moves S (\<lambda>a. 0) L L1" "moves S (\<lambda>a. 0) L1 M1" "moves S (\<lambda>a. 0) M1 M2" "moves S (\<lambda>a. 0) M2 L2"
    using create_moves [OF T cr] wrapper_call_moves(3) [OF T P c(1)] token_calls(4) [OF T c(3,2)]
      token_calls(5) [OF T c(5,4)] by blast+
  then have m: "moves S (\<lambda>a. 0) L L2" by (blast intro: still_trans)
  have own: "acc_owner (L2 (key (accs ! 2))) = pid"
    using create_or_adopt_owner [OF F cr] init_calls_keep [OF F allowed_not_self [OF F P] calls] by (simp add: keeps_def)
  then show "moves S (\<lambda>a. 0) L L'"
    unfolding L' by (intro still_trans [OF m] write_moves(1) [OF not_token [OF F]])
  have sl: "sealed (key (accs ! 5)) (L2 (key (accs ! 4)))" by (rule token_calls(6) [OF T c(5,4)])
  then have "key (accs ! 4) \<noteq> key (accs ! 2)" using own not_token [OF F] by (auto simp: sealed_def)
  then show "sealed (vault_authority E pid (key (accs ! 2))) (L' (key (accs ! 4)))"
    using sl unfolding L' k by simp
qed

lemma init_trading_custody:
  assumes F: "cpi_frame E pid" and T: "token_laws E pid" and run: "process_init_trading_pool E pid accs cd cap L = Inr L'"
  shows "moves S (\<lambda>a. 0) L L'" "sealed (vault_authority E pid (key (accs ! 2))) (L' (key (accs ! 4)))"
proof -
  obtain L1 q where i: "process_init_pool E pid accs cd cap L = Inr L1" "acc_owner (L1 (key (accs ! 2))) = pid"
    and L': "L' = write_pool (accs ! 2) q L1"
    using run by (auto simp: process_init_trading_pool_eq Let_def INIT_POOL_POOL_PDA_INDEX_def)
  note j = init_custody [OF F T i(1)]
  show "moves S (\<lambda>a. 0) L L'"
    unfolding L' by (rule still_trans [OF j(1) write_moves(1) [OF not_token [OF F]]]) (rule i(2))
  have "key (accs ! 4) \<noteq> key (accs ! 2)" using j(2) i(2) not_token [OF F] by (auto simp: sealed_def)
  then show "sealed (vault_authority E pid (key (accs ! 2))) (L' (key (accs ! 4)))"
    using j(2) unfolding L' by simp
qed

lemma process_other_custody:
  assumes F: "cpi_frame E pid" and T: "token_laws E pid" and run: "process E pid accs dt L = Inr L'"
    and u: "unpack dt = Inr ins" and acts: "\<not> acts_on_pool ins"
    and ap: "\<And>p. live_at pid L (key (accs ! 1)) p \<Longrightarrow> allowed_percolator E (percolator_program p)"
  shows "moves S (\<lambda>a. 0) L L'"
proof -
  note still =
    s_bind_insurance.still s_rotate_operator.still s_rotate_authority.still s_resolve_market.still s_fee_split.still
    s_maintenance_fee.still s_backing_fee.still s_trade_fee.still
  note s = still [OF F T _ ap] init_custody(1) [OF F T] init_trading_custody(1) [OF F T]
  show ?thesis using run u acts by (cases ins) (simp_all add: process_def acts_on_pool_def, (erule s | assumption)+)
qed

section \<open>Solvent ledgers\<close>

definition solvent :: "env \<Rightarrow> pubkey \<Rightarrow> ledger \<Rightarrow> bool" where
  "solvent E pid L \<longleftrightarrow>
     (\<forall>k p. live_at pid L k p \<longrightarrow> allowed_percolator E (percolator_program p)
        \<and> sealed (vault_authority E pid k) (L (vault p)) \<and> pool_value_int p \<le> tokens L (vault p))"

lemma solventD:
  assumes "solvent E pid L" "live_at pid L k p"
  shows "allowed_percolator E (percolator_program p)" "sealed (vault_authority E pid k) (L (vault p))"
    "pool_value_int p \<le> tokens L (vault p)"
  using assms unfolding solvent_def by blast+

lemma vault_balance_tokens: "vault_balance held v L = Inr bal \<Longrightarrow> uint bal = tokens L (key v)"
  by (auto simp: vault_balance_def try_borrow_data_def token_account_unpack_eq tokens_def)

lemma identity_vault:
  "identity p' = identity p \<Longrightarrow> vault p' = vault p \<and> percolator_program p' = percolator_program p"
  by (simp add: identity_def)

text \<open>Two live pools with the same vault are the same pool.\<close>

lemma vaults_distinct:
  assumes "solvent E pid L" "ledger_ok E pid L" "authorities_distinct E pid"
    "live_at pid L k p" "live_at pid L j q" "vault p = vault q"
  shows "k = j"
proof -
  have "vault_authority E pid k = vault_authority E pid j"
    using solventD(2) [OF assms(1,4)] solventD(2) [OF assms(1,5)] sealed_unique unfolding assms(6) by blast
  then show ?thesis
    using assms(3) live_address(1) [OF assms(2,4)] live_address(1) [OF assms(2,5)]
    unfolding authorities_distinct_def inj_on_def by blast
qed

text \<open>The pool an instruction steps stays backed.\<close>

lemma step_solvent:
  assumes F: "cpi_frame E pid" and T: "token_laws E pid" and ok: "ledger_ok E pid L" and sol: "solvent E pid L"
    and run: "process E pid accs dt L = Inr L'" and u: "unpack dt = Inr ins" and acts: "acts_on_pool ins"
    and sg: "is_signer (accs ! 0) \<longrightarrow> key (accs ! 0) \<notin> authorities E pid"
    and p: "live_at pid L (key (accs ! 1)) p" and p': "live_at pid L' (key (accs ! 1)) p'"
  shows "pool_value_int p' \<le> tokens L' (vault p)"
proof -
  obtain c where c: "reads E pid accs ins p L c" "pool_step c ins p p'"
    by (rule process_acting [OF F ok run u acts p p'])
  have "uint (vault_bal c) \<le> tokens L (vault p)" if "vault_index ins \<noteq> None" "pool_mode p \<le> 1"
    using that reads_vault [OF c(1)] vault_balance_tokens by force
  then have v: "pool_value_int p' \<le> tokens L (vault p) + flow ins p p'"
    using step_value [OF c(2) solventD(3) [OF sol p]] by blast
  have "moves (authorities E pid) (at_vault p (flow ins p p')) L L'"
    using process_custody [OF F T run u acts _ _ solventD(1) [OF sol p] sg] p p' unfolding live_at_def by blast
  then have "tokens L (vault p) + flow ins p p' \<le> tokens L' (vault p)"
    using solventD(2) [OF sol p] live_address(2) [OF ok p] unfolding moves_def at_vault_def by fastforce
  with v show ?thesis by simp
qed

text \<open>No instruction takes tokens from the vault of another pool.\<close>

lemma process_others:
  assumes F: "cpi_frame E pid" and sep: "pda_separation E pid" and T: "token_laws E pid" and ok: "ledger_ok E pid L"
    and sol: "solvent E pid L" and dis: "authorities_distinct E pid"
    and run: "process E pid accs dt L = Inr L'" and u: "unpack dt = Inr ins"
    and sg: "is_signer (accs ! 0) \<longrightarrow> key (accs ! 0) \<notin> authorities E pid"
    and p: "live_at pid L k p"
  shows "sealed (vault_authority E pid k) (L' (vault p))"
    and "\<not> acts_on_pool ins \<or> k \<noteq> key (accs ! 1) \<Longrightarrow> tokens L (vault p) \<le> tokens L' (vault p)"
proof -
  have s: "sealed (vault_authority E pid k) (L (vault p))" "vault_authority E pid k \<in> authorities E pid"
    using solventD(2) [OF sol p] live_address(2) [OF ok p] by blast+
  obtain d where m: "moves (authorities E pid) d L L'" "\<not> acts_on_pool ins \<or> k \<noteq> key (accs ! 1) \<longrightarrow> d (vault p) = 0"
  proof (cases "acts_on_pool ins")
    case False
    have "moves (authorities E pid) (\<lambda>a. 0) L L'"
      by (rule process_other_custody [OF F T run u False solventD(1) [OF sol]])
    then show ?thesis by (rule that) simp
  next
    case True
    obtain q q' where e: "acc_owner (L (key (accs ! 1))) = pid" "pool_bytes_at L (key (accs ! 1)) q" "live_pool q"
      "pool_bytes_at L' (key (accs ! 1)) q'"
      by (rule pool_effect_cases [OF process_acts [OF F run u True] ok]) blast
    then have q: "live_at pid L (key (accs ! 1)) q" by (simp add: live_at_def)
    have "moves (authorities E pid) (at_vault q (flow ins q q')) L L'"
      using process_custody [OF F T run u True e(2,4) solventD(1) [OF sol q] sg] .
    then show ?thesis
      using that vaults_distinct [OF sol ok dis p q] True by (auto simp: at_vault_def)
  qed
  show "sealed (vault_authority E pid k) (L' (vault p))" using m(1) s unfolding moves_def by blast
  show "tokens L (vault p) \<le> tokens L' (vault p)" if "\<not> acts_on_pool ins \<or> k \<noteq> key (accs ! 1)"
    using m s that unfolding moves_def by fastforce
qed

text \<open>A pool is born with its vault sealed and nothing to back.\<close>

lemma init_vault:
  assumes "init_effect E pid accs c d md L L'" "live_at pid L' (key (accs ! 2)) p"
  shows "vault p = key (accs ! 4)" "allowed_percolator E (percolator_program p)"
proof -
  obtain L2 pb vb q0 where e: "allowed_percolator E (key (accs ! 7))" "L' = write_pool (accs ! 2)
      ((genesis_pool pb vb (key (accs ! 1)) (key (accs ! 0)) (key (accs ! 6)) (key (accs ! 3))
         (key (accs ! 4)) (key (accs ! 7)) c d q0)\<lparr>pool_mode := md\<rparr>) L2"
    using assms(1) unfolding init_effect_def by blast
  have "pool_bytes_at L' (key (accs ! 2)) p" using assms(2) by (simp add: live_at_def)
  then have p: "p = (genesis_pool pb vb (key (accs ! 1)) (key (accs ! 0)) (key (accs ! 6)) (key (accs ! 3))
         (key (accs ! 4)) (key (accs ! 7)) c d q0)\<lparr>pool_mode := md\<rparr>"
    unfolding e(2) by (rule pool_written)
  have "identity p = (1, pb, vb, key (accs ! 1), key (accs ! 6), key (accs ! 3), key (accs ! 4), key (accs ! 7),
      md, True, CURRENT_VERSION)"
    unfolding p by (rule genesis_identity)
  with e(1) show "vault p = key (accs ! 4)" "allowed_percolator E (percolator_program p)"
    by (auto simp: identity_def)
qed

lemma born_solvent:
  assumes F: "cpi_frame E pid" and T: "token_laws E pid" and run: "process E pid accs dt L = Inr L'"
    and u: "unpack dt = Inr (InitPool c d) \<or> unpack dt = Inr (InitTradingPool c d)"
    and p: "live_at pid L' (key (accs ! 2)) p" "born p"
  shows "allowed_percolator E (percolator_program p)" "sealed (vault_authority E pid (key (accs ! 2))) (L' (vault p))"
    "pool_value_int p \<le> tokens L' (vault p)"
proof -
  have r: "process_init_pool E pid accs c d L = Inr L' \<or> process_init_trading_pool E pid accs c d L = Inr L'"
    using run u by (auto simp: process_def)
  then obtain md where "init_effect E pid accs c d md L L'"
    using init_pool_effect [OF F] init_trading_pool_effect [OF F] by blast
  note v = init_vault [OF this p(1)]
  show "allowed_percolator E (percolator_program p)" by (rule v(2))
  show "sealed (vault_authority E pid (key (accs ! 2))) (L' (vault p))"
    using r init_custody(2) [OF F T] init_trading_custody(2) [OF F T] unfolding v(1) by blast
  show "pool_value_int p \<le> tokens L' (vault p)"
    using p(2) by (simp add: born_def pool_value_int_def tokens_def)
qed

lemma process_solvent:
  assumes F: "cpi_frame E pid" and sep: "pda_separation E pid" and T: "token_laws E pid" and ok: "ledger_ok E pid L"
    and sol: "solvent E pid L" and dis: "authorities_distinct E pid" and run: "process E pid accs dt L = Inr L'"
    and sg: "is_signer (accs ! 0) \<longrightarrow> key (accs ! 0) \<notin> authorities E pid"
  shows "solvent E pid L'"
  unfolding solvent_def
proof (intro allI impI)
  fix k p'
  assume p': "live_at pid L' k p'"
  obtain ins where u: "unpack dt = Inr ins" using run by (auto simp: process_def)
  consider p where "live_at pid L k p" | "born p'" "k = key (accs ! 2)"
      "\<exists>c d. unpack dt = Inr (InitPool c d) \<or> unpack dt = Inr (InitTradingPool c d)"
    using process_live_back [OF F sep ok run p'] by blast
  then show "allowed_percolator E (percolator_program p') \<and> sealed (vault_authority E pid k) (L' (vault p'))
      \<and> pool_value_int p' \<le> tokens L' (vault p')"
  proof cases
    case 2
    then show ?thesis using born_solvent [OF F T run] p' by blast
  next
    case (1 p)
    have step: "p' = p \<or> (k = key (accs ! 1) \<and> acts_on_pool ins \<and> identity p' = identity p)"
      by (rule process_pool_cases [OF F sep ok run 1 p']) (use u step_acts pool_step_identity in auto)
    then have v: "vault p' = vault p" "percolator_program p' = percolator_program p" using identity_vault by blast+
    note o = process_others [OF F sep T ok sol dis run u sg 1]
    have "pool_value_int p' \<le> tokens L' (vault p)"
    proof (cases "acts_on_pool ins \<and> k = key (accs ! 1)")
      case True
      then show ?thesis using step_solvent [OF F T ok sol run u _ sg] 1 p' by blast
    next
      case False
      then have "p' = p" "tokens L (vault p) \<le> tokens L' (vault p)" using step o(2) by blast+
      then show ?thesis using solventD(3) [OF sol 1] by simp
    qed
    then show ?thesis using v o(1) solventD(1) [OF sol 1] by simp
  qed
qed

section \<open>Worlds\<close>

text \<open>
  The worlds in which only this program signs for its vault authorities: a program-derived
  address has no private key, so no transaction carries its signature, and other programs take
  nothing out of the accounts it seals.
\<close>

inductive custody_world :: "env \<Rightarrow> pubkey \<Rightarrow> ledger \<Rightarrow> call list \<Rightarrow> ledger \<Rightarrow> bool"
  for E pid L0 where
  custody_start: "custody_world E pid L0 [] L0"
| custody_call: "\<lbrakk>custody_world E pid L0 es L; process E pid accs dt L = Inr L';
    is_signer (accs ! 0) \<longrightarrow> key (accs ! 0) \<notin> authorities E pid\<rbrakk>
    \<Longrightarrow> custody_world E pid L0 (es @ [(accs, dt, L)]) L'"
| custody_foreign: "\<lbrakk>custody_world E pid L0 es L; keeps pid L L'; moves (authorities E pid) (\<lambda>a. 0) L L'\<rbrakk>
    \<Longrightarrow> custody_world E pid L0 es L'"

lemma custody_world_world: "custody_world E pid L0 es L \<Longrightarrow> world E pid L0 es L"
  by (induction rule: custody_world.induct) (auto intro: world.intros)

lemma foreign_solvent:
  assumes "solvent E pid L" "ledger_ok E pid L" "keeps pid L L'" "moves (authorities E pid) (\<lambda>a. 0) L L'"
  shows "solvent E pid L'"
  unfolding solvent_def
proof (intro allI impI)
  fix k p
  assume "live_at pid L' k p"
  then have p: "live_at pid L k p" by (rule keeps_live_at_rev [OF assms(3)])
  note s = solventD [OF assms(1) p]
  have "sealed (vault_authority E pid k) (L' (vault p)) \<and> tokens L (vault p) \<le> tokens L' (vault p)"
    using assms(4) s(2) live_address(2) [OF assms(2) p] unfolding moves_def by fastforce
  with s show "allowed_percolator E (percolator_program p) \<and> sealed (vault_authority E pid k) (L' (vault p))
      \<and> pool_value_int p \<le> tokens L' (vault p)" by simp
qed

lemma world_solvent:
  assumes "custody_world E pid L0 es L" and F: "cpi_frame E pid" and sep: "pda_separation E pid"
    and T: "token_laws E pid" and dis: "authorities_distinct E pid" and fresh: "\<forall>k. acc_owner (L0 k) \<noteq> pid"
  shows "solvent E pid L"
  using assms(1)
proof (induction rule: custody_world.induct)
  case custody_start
  then show ?case using fresh by (simp add: solvent_def live_at_def)
next
  case (custody_call es L accs dt L')
  have "ledger_ok E pid L"
    by (rule world_ledger_ok [OF custody_world_world [OF custody_call(1)] F sep unowned_ledger_ok [OF fresh]])
  then show ?case by (rule process_solvent [OF F sep T _ custody_call.IH dis custody_call(2,3)])
next
  case (custody_foreign es L L')
  have "ledger_ok E pid L"
    by (rule world_ledger_ok [OF custody_world_world [OF custody_foreign(1)] F sep unowned_ledger_ok [OF fresh]])
  then show ?case by (rule foreign_solvent [OF custody_foreign.IH _ custody_foreign(2,3)])
qed

end
