(* ===== verification/Sample_Custody.thy ===== *)
theory Sample_Custody
  imports Solvency Sample_Chain
begin

text \<open>
  The token laws on the sample chain, and a deposit and a withdrawal run there: the user of
  account 1 pays 5000 tokens into the pool's vault and takes 2000 out again after the cooldown.
\<close>

section \<open>The laws hold of the sample programs\<close>

lemma put_amount_moves:
  assumes "is_token L a"
  shows "moves UNIV (\<lambda>k. if k = a then uint y - tokens L a else 0) L (put_amount a y L)"
proof -
  let ?d = "acc_data (L a)" and ?d' = "patch 64 (to_le_bytes y) (acc_data (L a))"
  have len: "length ?d = 165" using assms by (simp add: is_token_def)
  have sl: "slice 64 8 ?d' = to_le_bytes y" "slice 32 32 ?d' = slice 32 32 ?d" "slice 72 4 ?d' = slice 72 4 ?d"
    "slice 129 4 ?d' = slice 129 4 ?d" "?d' ! 108 = ?d ! 108" "length ?d' = 165"
    using len slice_patch_same [of 64 "to_le_bytes y" ?d] slice_patch_before [of 32 32 64 "to_le_bytes y" ?d]
      slice_patch_after [of 64 "to_le_bytes y" 72 ?d 4] slice_patch_after [of 64 "to_le_bytes y" 129 ?d 4]
    by (simp_all add: patch_def nth_append)
  show ?thesis
    unfolding moves_def
  proof (intro ballI allI impI)
    fix A k
    assume s: "sealed A (L k)"
    show "sealed A (put_amount a y L k) \<and>
        tokens L k + (if k = a then uint y - tokens L a else 0) \<le> tokens (put_amount a y L) k"
    proof (cases "k = a")
      case True
      then show ?thesis using s sl by (simp add: sealed_def token_owner_def tokens_def put_amount_def ACCOUNT_LEN_def)
    next
      case False
      then show ?thesis using s by (simp add: tokens_def put_amount_def)
    qed
  qed
qed

lemma tokens_amount: "tokens L a = uint (amount_at L a)"
  by (simp add: tokens_def amount_at_def)

lemma sample_amounts_move:
  "sample_add a x L = Inr L' \<Longrightarrow> moves UNIV (credit a x) L L'"
  "sample_sub a x L = Inr L' \<Longrightarrow> moves UNIV (\<lambda>k. - credit a x k) L L'"
proof -
  show "moves UNIV (credit a x) L L'" if t: "sample_add a x L = Inr L'"
  proof -
    obtain y where y: "is_token L a" "uint y = tokens L a + uint x" "L' = put_amount a y L"
      using t by (auto simp: sample_add_def checked_uint tokens_amount)
    then have "credit a x = (\<lambda>k. if k = a then uint y - tokens L a else 0)" by (auto simp: credit_def)
    then show ?thesis using put_amount_moves [OF y(1), of y] y(3) by simp
  qed
  show "moves UNIV (\<lambda>k. - credit a x k) L L'" if t: "sample_sub a x L = Inr L'"
  proof -
    obtain y where y: "is_token L a" "tokens L a = uint y + uint x" "L' = put_amount a y L"
      using t by (auto simp: sample_sub_def checked_uint tokens_amount)
    then have "(\<lambda>k. - credit a x k) = (\<lambda>k. if k = a then uint y - tokens L a else 0)" by (auto simp: credit_def)
    then show ?thesis using put_amount_moves [OF y(1), of y] y(3) by simp
  qed
qed

lemma sample_move_moves:
  assumes "sample_move a b x L = Inr L'"
  shows "moves UNIV (\<lambda>k. credit b x k - credit a x k) L L'"
proof -
  obtain M where "sample_sub a x L = Inr M" "sample_add b x M = Inr L'"
    using assms by (auto simp: sample_move_def)
  from moves_trans [OF sample_amounts_move(2) [OF this(1)] sample_amounts_move(1) [OF this(2)]]
  show ?thesis by (simp add: algebra_simps)
qed

lemma credit_nonneg: "0 \<le> credit a x k"
  by (simp add: credit_def)

lemma sample_calls [simp]: "called sample_env ix L L' \<longleftrightarrow> sample_invoke ix L = Inr L'"
  by (simp add: called_def)

lemma sealed_fresh: "sealed own \<lparr>acc_lamports = l, acc_owner = spl_token_id, acc_data = token_account mint own x\<rparr>"
  by (simp add: sealed_def token_account_def token_owner_def slice_def ACCOUNT_LEN_def nth_append)

lemma sample_initialize:
  assumes "sample_token \<lparr>ix_program_id = spl_token_id, ix_accounts = [meta_new acct s, meta_new_readonly mint s', meta_new_readonly own s'', r],
      ix_data = [IX_INITIALIZE_ACCOUNT]\<rparr> L = Inr L'"
  shows "moves UNIV (\<lambda>a. 0) L L'" "sealed own (L' acct)"
proof -
  have i: "is_token L acct" "acc_data (L acct) ! 108 = 0" "L' = set_data acct (token_account mint own 0) L"
    using assms by (auto simp: sample_token_def token_tags meta_new_def meta_new_readonly_def)
  then have "sealed A (L a) \<Longrightarrow> a \<noteq> acct" for A a by (auto simp: sealed_def)
  then show "moves UNIV (\<lambda>a. 0) L L'" by (auto simp: moves_def i(3) tokens_def)
  have "sealed own \<lparr>acc_lamports = acc_lamports (L acct), acc_owner = spl_token_id, acc_data = token_account mint own 0\<rparr>"
    by (rule sealed_fresh)
  then show "sealed own (L' acct)" using i(1,3) by (simp add: sealed_def is_token_def set_data_def)
qed

lemma sample_token_laws: "transfer_law sample_env" "mint_law sample_env" "burn_law sample_env" "initialize_law sample_env"
proof -
  show "transfer_law sample_env"
    unfolding transfer_law_def
    by (auto simp: spl_transfer_def sample_invoke_def sample_token_def token_tags meta_new_def intro: sample_move_moves)
  show "mint_law sample_env"
    unfolding mint_law_def mint_to_def
    by (auto simp: sample_invoke_def sample_token_def token_tags meta_new_def credit_nonneg
        intro!: moves_mono [OF sample_amounts_move(1) subset_refl])
  show "burn_law sample_env"
    unfolding burn_law_def
    by (auto simp: spl_burn_def sample_invoke_def sample_token_def token_tags meta_new_def intro: sample_amounts_move(2))
  show "initialize_law sample_env"
    unfolding initialize_law_def
    by (auto simp: initialize_account_def sample_invoke_def initialize_mint_def intro: sample_initialize)
       (auto simp: sample_token_def token_tags split: option.splits)
qed

lemma sample_system_moves:
  assumes "sample_system ix L = Inr L'"
  shows "moves UNIV (\<lambda>a. 0) L L'"
  using assms
  by (auto simp: sample_system_def Let_def moves_def sealed_def tokens_def split: list.splits if_splits)

lemma sample_system_law: "system_law sample_env"
  unfolding system_law_def
  by (auto simp: sample_invoke_def intro!: sample_system_moves)

lemma widen_amount [simp]: "ucast (ucast (x :: u64) :: u128) = x"
  by (rule ucast_up_ucast_id) (simp add: is_up)

lemma sample_authorities [simp]: "authorities sample_env pid = {fill 43}" "pool_addresses sample_env pid = {fill 42}"
  by (auto simp: authorities_def pool_addresses_def vault_authority_def)

lemma sample_wrapper_laws:
  "top_up_law sample_env" "insurance_payout_law sample_env sample_pid" "wrapper_config_law sample_env"
proof -
  have m: "allowed_percolator sample_env k \<longleftrightarrow> k = PERCOLATOR_MAINNET" for k by (simp add: allowed_percolator_def)
  show "top_up_law sample_env"
    unfolding top_up_law_def
    by (auto simp: m top_up_insurance_ix_def sample_invoke_def sample_wrapper_def wrapper_tags meta_new_def
        meta_new_readonly_def credit_nonneg intro!: moves_mono [OF sample_move_moves subset_refl])
  show "insurance_payout_law sample_env sample_pid"
    unfolding insurance_payout_law_def
  proof (intro allI impI)
    fix perc s m' dst v w t x L L'
    assume "allowed_percolator sample_env (key perc)" "called sample_env (withdraw_insurance_asset_ix perc s m' dst v w t x) L L'"
    then have c: "sample_move (key v) (key dst) x L = Inr L'" "key w = fill 99"
        "token_owner (acc_data (L (key v))) = key w"
      by (auto simp: m withdraw_insurance_asset_ix_def sample_invoke_def sample_wrapper_def wrapper_tags meta_new_def
          meta_new_readonly_def)
    have "moves (- {key w}) (credit (key dst) x) L L'"
      by (rule moves_mono [OF sample_move_moves [OF c(1)]]) (use c(3) in \<open>auto simp: credit_def sealed_def\<close>)
    then show "key w \<notin> authorities sample_env sample_pid \<and> moves (- {key w}) (credit (key dst) x) L L'"
      using c(2) by simp
  qed
  show "wrapper_config_law sample_env"
    unfolding wrapper_config_law_def
    by (auto simp: m sample_invoke_def sample_wrapper_def configuration_tags_def wrapper_tags TAG_UPDATE_AUTHORITY_def
        TAG_UPDATE_ASSET_AUTHORITY_def TAG_RESOLVE_MARKET_def TAG_UPDATE_FEE_SPLIT_def
        TAG_UPDATE_MAINTENANCE_FEE_PER_SLOT_def TAG_UPDATE_BACKING_FEE_POLICY_def TAG_UPDATE_TRADE_FEE_POLICY_def)
qed

lemma sample_laws: "token_laws sample_env sample_pid"
  unfolding token_laws_def using sample_token_laws sample_system_law sample_wrapper_laws by blast

lemma sample_injective: "pda_injective sample_env sample_pid"
  by (simp add: pda_injective_def)

lemma sample_distinct: "authorities_distinct sample_env sample_pid"
  by (simp add: authorities_distinct_def)

section \<open>A deposit\<close>

lemma token_account_fields [simp]:
  "length (token_account m u x) = 165" "token_mint (token_account m u x) = m" "token_owner (token_account m u x) = u"
  "slice 64 8 (token_account m u x) = to_le_bytes x" "token_account m u x ! 108 = 1"
  by (simp_all add: token_account_def token_mint_def token_owner_def slice_def nth_append)

lemma put_token_account:
  "patch 64 (to_le_bytes y) (token_account m u x) = token_account m u y"
  by (simp add: token_account_def patch_def)

definition sample_deposit_accounts :: "AccountInfo list" where
  "sample_deposit_accounts =
     [ai 1 True, ai 42 False, ai 11 False, ai 4 False, ai 3 False, ai 12 False, ai 43 False, ai 77 False,
      program_ai spl_token_id, ai 10 False, ai 0 False]"

definition sample_funded :: StakePool where
  "sample_funded = sample_pool\<lparr>total_deposited := 5000, total_lp_supply := 5000\<rparr>"

definition with_tokens :: "u8 \<Rightarrow> u8 \<Rightarrow> u8 \<Rightarrow> u64 \<Rightarrow> ledger \<Rightarrow> ledger" where
  "with_tokens a m u x L =
     L(fill a := \<lparr>acc_lamports = 1, acc_owner = spl_token_id, acc_data = token_account (fill m) (fill u) x\<rparr>)"

definition sample_paid :: ledger where
  "sample_paid = with_tokens 12 3 1 4000 (with_tokens 4 5 43 5000 (with_tokens 11 5 1 4000 sample_ledger))"

definition sample_record :: StakeDeposit where
  "sample_record =
     (deposit_set_discriminator (deposit_of_bytes (replicate STAKE_DEPOSIT_SIZE 0)))
       \<lparr>dep_is_initialized := 1, dep_bump := 254, dep_pool := fill 42, dep_user := fill 1,
        last_deposit_slot := 0, lp_amount := 5000\<rparr>"

definition sample_deposited :: ledger where
  "sample_deposited = write_pool (ai 42 False) sample_funded (write_deposit (ai 77 False) sample_record
     (sample_paid(fill 77 := \<lparr>acc_lamports = 1, acc_owner = sample_pid, acc_data = replicate STAKE_DEPOSIT_SIZE 0\<rparr>)))"

lemma sample_ledger_at:
  "sample_ledger (fill 11) = \<lparr>acc_lamports = 1, acc_owner = spl_token_id, acc_data = token_account (fill 5) (fill 1) 9000\<rparr>"
  "sample_ledger (fill 12) = \<lparr>acc_lamports = 1, acc_owner = spl_token_id, acc_data = token_account (fill 3) (fill 1) 0\<rparr>"
  "sample_ledger (fill 4) = \<lparr>acc_lamports = 1, acc_owner = spl_token_id, acc_data = token_account (fill 5) (fill 43) 0\<rparr>"
  "sample_ledger (fill 77) = \<lparr>acc_lamports = 0, acc_owner = fill 0, acc_data = []\<rparr>"
  "sample_ledger (fill 10) = \<lparr>acc_lamports = 0, acc_owner = fill 0, acc_data = []\<rparr>"
  by (simp_all add: sample_ledger_def sample_accounts_def sample_genesis_def)

lemma sample_pool_more [simp]:
  "lp_mint sample_pool = fill 3" "collateral_mint sample_pool = fill 5" "deposit_cap sample_pool = 0"
  "pool_mode sample_pool = 0" "vault_authority_bump sample_pool = 254"
  by (simp_all add: sample_pool_def genesis_pool_def set_discriminator_def Let_def)

lemma sample_fresh [simp]:
  "total_deposited sample_pool = 0" "total_lp_supply sample_pool = 0" "total_flushed sample_pool = 0"
  "total_returned sample_pool = 0" "total_withdrawn sample_pool = 0" "total_fees_earned sample_pool = 0"
  "\<not> market_resolved sample_pool" "\<not> hwm_enabled sample_pool" "\<not> tranche_enabled sample_pool"
  "junior_balance sample_pool = 0" "realized_junior_loss sample_pool = 0"
  using sample_born by (simp_all add: born_def)

lemma sample_price:
  "total_pool_value sample_pool = Some 0" "price_deposit 5000 sample_pool = Inr (5000, 4000)"
  by (simp_all add: total_pool_value_def pool_value_int_def price_deposit_def pool_calc_lp_for_deposit_def calc_lp_for_deposit_def
      apply_minimum_liquidity_lock_def MINIMUM_LIQUIDITY_def checked_sub_def)

lemma sample_transfers:
  "deposit_transfers sample_env sample_pid [fill 42] (ai 42 False) (ai 1 True) (ai 11 False) (ai 4 False) (ai 3 False)
     (ai 12 False) (ai 43 False) (program_ai spl_token_id) 5000 4000 sample_ledger = Inr sample_paid"
  by (simp add: deposit_transfers_def spl_transfer_def mint_to_def sample_invoke_def sample_token_def token_tags
      meta_new_def meta_new_readonly_def sample_move_def sample_sub_def sample_add_def is_token_def amount_at_def
      sample_ledger_at put_amount_def set_data_def put_token_account checked_add_def checked_sub_def
      sample_paid_def with_tokens_def)

abbreviation zero_deposit :: StakeDeposit where
  "zero_deposit \<equiv> deposit_of_bytes (replicate STAKE_DEPOSIT_SIZE 0)"

lemma zero_deposit_fields [simp]:
  "dep_is_initialized zero_deposit = 0" "lp_amount zero_deposit = 0" "dep_reserved zero_deposit = fill 0"
  by (simp_all add: deposit_of_bytes_def STAKE_DEPOSIT_SIZE_def slice_def from_le_bytes_zeros fill_def)

lemma sample_credit:
  "credit_deposit credit_senior_record sample_env sample_pid [fill 42] (ai 42 False) (ai 1 True) (ai 77 False) (ai 0 False)
     0 5000 sample_paid = Inr (write_deposit (ai 77 False) sample_record
       (sample_paid(fill 77 := \<lparr>acc_lamports = 1, acc_owner = sample_pid, acc_data = replicate STAKE_DEPOSIT_SIZE 0\<rparr>)))"
proof -
  have at: "sample_paid (fill 77) = \<lparr>acc_lamports = 0, acc_owner = fill 0, acc_data = []\<rparr>"
    by (simp add: sample_paid_def with_tokens_def sample_ledger_at)
  have "create_or_adopt_pda sample_env [fill 42] (ai 77 False) (ai 1 True) (ai 0 False) sample_pid STAKE_DEPOSIT_SIZE sd sample_paid
      = Inr (sample_paid(fill 77 := \<lparr>acc_lamports = 1, acc_owner = sample_pid, acc_data = replicate STAKE_DEPOSIT_SIZE 0\<rparr>))" for sd
    by (simp add: create_or_adopt_pda_eq account_lamports_def at sample_env_def sample_invoke_def sample_system_def
        meta_new_def Let_def STAKE_DEPOSIT_SIZE_def)
  then have "open_or_create_deposit sample_env sample_pid [fill 42] (ai 42 False) (ai 1 True) (ai 77 False) (ai 0 False) sample_paid
      = Inr (254, sample_paid(fill 77 := \<lparr>acc_lamports = 1, acc_owner = sample_pid, acc_data = replicate STAKE_DEPOSIT_SIZE 0\<rparr>))"
    by (simp add: open_or_create_deposit_def data_is_empty_def at)
  moreover have "credit_senior_record (fill 42) (fill 1) 254 0 5000 zero_deposit = Inr sample_record"
    by (simp add: credit_senior_record_def sample_record_def deposit_set_discriminator_def is_junior_deposit_def
        checked_add_def STAKE_DEPOSIT_DISCRIMINATOR_def)
  ultimately show ?thesis
    by (simp add: credit_deposit_def try_borrow_data_def deposit_from_data_eq)
qed

lemma sample_deposit:
  "process sample_env sample_pid sample_deposit_accounts (pack (Deposit 5000)) sample_ledger = Inr sample_deposited"
proof -
  note op = live_open [of sample_pid sample_ledger "ai 42 False" sample_pool, simplified, OF sample_live]
  have ck: "deposit_checks sample_env sample_pid sample_pool (ai 42 False) (ai 4 False) (ai 3 False) (ai 43 False) 5000 = Inr ()"
    by (simp add: deposit_checks_def check_deposit_cap_def)
  have src: "validate_source_ata [fill 42] InvalidMint (ai 11 False) (fill 5) (fill 1) sample_ledger = Inr ()"
    "validate_lp_recipient_account [fill 42] (ai 12 False) (fill 3) (fill 1) sample_ledger = Inr ()"
    by (simp_all add: validate_source_ata_eq validate_lp_recipient_account_eq account_owner_def try_borrow_data_def
        sample_ledger_at ACCOUNT_LEN_def)
  have pre: "pre_accrue_fee_modes [fill 42] (ai 4 False) sample_ledger sample_pool = Inr sample_pool"
    by (simp add: pre_accrue_fee_modes_def vault_balance_def account_owner_def try_borrow_data_def sample_ledger_at
        token_account_unpack_eq ACCOUNT_LEN_def accrue_fees_inner_eq sample_price)
  have tot: "deposit_totals 5000 5000 sample_pool = Inr sample_funded"
    by (simp add: deposit_totals_def checked_add_def sample_funded_def)
  have clk: "clock_from_account_info sample_env (ai 10 False) sample_paid = Inr \<lparr>slot = 0, epoch = 0\<rparr>"
    by (simp add: sample_env_def sample_paid_def with_tokens_def sample_ledger_at slice_def from_le_bytes_def)
  have hwm: "deposit_refresh_hwm 0 sample_funded = Inr sample_funded"
    by (simp add: deposit_refresh_hwm_def sample_funded_def)
  have pres: "present_pool_account sample_pid (ai 42 False) sample_ledger = Inr ()"
    using op(1) by simp
  show ?thesis
    unfolding process_pack sample_deposit_accounts_def process_deposit_def
    by (simp add: pres op(2) ck src pre sample_price sample_transfers tot clk hwm sample_credit sample_deposited_def Let_def)
qed

lemma sample_funded_identity [simp]: "identity sample_funded = identity sample_pool"
  by (simp add: sample_funded_def)

lemma sample_deposited_live: "live_at sample_pid sample_deposited (fill 42) sample_funded"
proof -
  let ?L = "write_deposit (ai 77 False) sample_record
     (sample_paid(fill 77 := \<lparr>acc_lamports = 1, acc_owner = sample_pid, acc_data = replicate STAKE_DEPOSIT_SIZE 0\<rparr>))"
  have "?L (fill 42) = sample_ledger (fill 42)"
    by (simp add: sample_paid_def with_tokens_def)
  then have "live_at sample_pid ?L (fill 42) sample_pool"
    using sample_live by (simp add: live_at_def pool_bytes_at_def)
  then show ?thesis
    using write_live [of sample_pid ?L "ai 42 False" sample_pool sample_funded] by (simp add: sample_deposited_def)
qed

lemma sample_custody:
  "custody_world sample_env sample_pid sample_genesis
     [(sample_init_accounts, pack (InitPool 1000 0), sample_genesis),
      (sample_deposit_accounts, pack (Deposit 5000), sample_ledger)] sample_deposited"
proof -
  have "custody_world sample_env sample_pid sample_genesis
      ([] @ [(sample_init_accounts, pack (InitPool 1000 0), sample_genesis)]) sample_ledger"
    by (rule custody_call [OF custody_start sample_init]) (simp add: sample_init_accounts_def)
  from custody_call [OF this sample_deposit] show ?thesis by (simp add: sample_deposit_accounts_def)
qed

section \<open>A withdrawal\<close>

definition sample_withdraw_accounts :: "AccountInfo list" where
  "sample_withdraw_accounts =
     [ai 1 True, ai 42 False, ai 12 False, ai 3 False, ai 4 False, ai 11 False, ai 43 False, ai 77 False,
      program_ai spl_token_id, ai 10 False]"

definition sample_matured :: ledger where
  "sample_matured = sample_clock 1000 sample_deposited"

definition sample_reduced :: StakePool where
  "sample_reduced = sample_pool\<lparr>total_deposited := 5000, total_withdrawn := 2000, total_lp_supply := 3000\<rparr>"

definition sample_draw :: "ledger \<Rightarrow> ledger" where
  "sample_draw L = with_tokens 11 5 1 6000 (with_tokens 4 5 43 3000 (with_tokens 12 3 1 2000 L))"

definition sample_withdrawn :: ledger where
  "sample_withdrawn = write_pool (ai 42 False) sample_reduced
     (write_deposit (ai 77 False) (sample_record\<lparr>lp_amount := 3000\<rparr>) (sample_draw sample_matured))"

lemma sample_matured_keeps: "keeps sample_pid sample_deposited sample_matured"
  unfolding sample_matured_def
  by (rule sample_clock_keeps)
     (simp add: sample_deposited_def sample_paid_def with_tokens_def sample_ledger_at sample_pid_def)

lemma sample_matured_live: "live_at sample_pid sample_matured (fill 42) sample_funded"
  by (rule keeps_live_at [OF sample_matured_keeps sample_deposited_live])

lemma sample_matured_at:
  "sample_matured (fill 11) = \<lparr>acc_lamports = 1, acc_owner = spl_token_id, acc_data = token_account (fill 5) (fill 1) 4000\<rparr>"
  "sample_matured (fill 12) = \<lparr>acc_lamports = 1, acc_owner = spl_token_id, acc_data = token_account (fill 3) (fill 1) 4000\<rparr>"
  "sample_matured (fill 4) = \<lparr>acc_lamports = 1, acc_owner = spl_token_id, acc_data = token_account (fill 5) (fill 43) 5000\<rparr>"
  "sample_matured (fill 77) = \<lparr>acc_lamports = 1, acc_owner = sample_pid, acc_data = bytes_of_deposit sample_record\<rparr>"
  by (simp_all add: sample_matured_def sample_clock_def sample_deposited_def sample_paid_def with_tokens_def
      write_deposit_def set_data_def patch_def deposit_layout.enc_length)

lemma sample_funded_sel [simp]:
  "total_deposited sample_funded = 5000" "total_lp_supply sample_funded = 5000" "total_flushed sample_funded = 0"
  "total_returned sample_funded = 0" "total_withdrawn sample_funded = 0" "total_fees_earned sample_funded = 0"
  "\<not> market_resolved sample_funded" "\<not> hwm_enabled sample_funded" "\<not> tranche_enabled sample_funded"
  "realized_junior_loss sample_funded = 0" "pool_mode sample_funded = 0" "lp_mint sample_funded = fill 3"
  "collateral_mint sample_funded = fill 5" "vault sample_funded = fill 4" "cooldown_slots sample_funded = 1000"
  "vault_authority_bump sample_funded = 254"
  by (simp_all add: sample_funded_def)

lemma sample_payout: "total_pool_value sample_funded = Some 5000" "price_withdrawal j 2000 sample_funded = Inr 2000"
  by (simp_all add: total_pool_value_def pool_value_int_def price_withdrawal_def pool_calc_collateral_for_withdraw_def
      calc_collateral_for_withdraw_def VIRTUAL_ASSETS_def VIRTUAL_SHARES_def checked_add_def checked_mul_def checked_div_def
      U64_MAX_def unsigned_minus_1_eq_mask mask_eq_exp_minus_1)

lemma sample_record_fields [simp]:
  "deposit_validate_discriminator sample_record" "dep_is_initialized sample_record = 1" "dep_user sample_record = fill 1"
  "dep_pool sample_record = fill 42" "last_deposit_slot sample_record = 0" "lp_amount sample_record = 5000"
  "\<not> is_junior_deposit sample_record"
  by (simp_all add: sample_record_def deposit_validate_discriminator_def deposit_set_discriminator_def is_junior_deposit_def
      STAKE_DEPOSIT_DISCRIMINATOR_def)

text \<open>A withdrawal of 2000 LP from any pool state with the sample's accounts.\<close>

lemma sample_withdraw_transfers:
  assumes "\<And>a. a \<noteq> fill 42 \<Longrightarrow> L a = sample_matured a" "vault_authority_bump p = 254"
  shows "withdraw_transfers sample_env sample_pid [fill 42] p (ai 42 False) (ai 1 True) (ai 12 False) (ai 3 False)
     (ai 4 False) (ai 11 False) (ai 43 False) (program_ai spl_token_id) 2000 2000 L = Inr (sample_draw L)"
  by (simp add: withdraw_transfers_def spl_transfer_def spl_burn_def sample_invoke_def sample_token_def token_tags
      meta_new_def meta_new_readonly_def sample_move_def sample_sub_def sample_add_def is_token_def amount_at_def
      sample_matured_at put_amount_def set_data_def put_token_account checked_add_def checked_sub_def
      sample_draw_def with_tokens_def assms)

lemma sample_withdraw_run:
  assumes L: "live_at sample_pid L (fill 42) p" "\<And>a. a \<noteq> fill 42 \<Longrightarrow> L a = sample_matured a"
    and p: "identity p = identity sample_pool" "cooldown_slots p = 1000" "total_pool_value p = Some 5000"
      "price_withdrawal False 2000 p = Inr 2000"
    and t: "enforce_hwm_floor 0 2000 False p = Inr p2" "withdraw_totals False 2000 2000 p2 = Inr p3"
  shows "process sample_env sample_pid sample_withdraw_accounts (pack (Withdraw 2000)) L
    = Inr (write_pool (ai 42 False) p3 (write_deposit (ai 77 False) (sample_record\<lparr>lp_amount := 3000\<rparr>) (sample_draw L)))"
proof -
  note op = live_open [of sample_pid L "ai 42 False" p, simplified, OF L(1)]
  have f: "lp_mint p = fill 3" "vault p = fill 4" "collateral_mint p = fill 5" "pool_mode p = 0" "vault_authority_bump p = 254"
    using p(1) by (simp_all add: identity_def)
  have f2: "vault_authority_bump p2 = 254"
    using f(5) hwm_floor_identity [OF t(1)] by (simp add: identity_def)
  note at = sample_matured_at L(2)
  have v: "validate_burn_account [fill 42] (ai 12 False) (fill 3) (fill 1) L = Inr ()"
    "validate_mint_of [fill 42] (ai 11 False) (fill 5) L = Inr ()"
    "validate_deposit_account sample_env sample_pid [fill 42] (ai 42 False) (ai 1 True) (ai 77 False) L = Inr ()"
    by (simp_all add: validate_burn_account_eq validate_mint_of_eq validate_deposit_account_def account_owner_def
        try_borrow_data_def data_len_def at ACCOUNT_LEN_def deposit_layout.enc_length)
  have "clock_from_account_info sample_env (ai 10 False) sample_matured = Inr \<lparr>slot = 1000, epoch = 0\<rparr>"
    unfolding sample_matured_def by (rule sample_clock_slot)
  then have clk: "clock_from_account_info sample_env (ai 10 False) L = Inr \<lparr>slot = 1000, epoch = 0\<rparr>"
    by (simp add: sample_env_def L(2))
  have dep: "deposit_from_data (bytes_of_deposit r) = Inr r" for r
    using deposit_layout.dec_enc [of r "[]"] by (simp add: deposit_from_data_eq deposit_layout.enc_length)
  have rec: "check_deposit_record (fill 42) (fill 1) 1000 1000 2000 sample_record = Inr False"
    by (simp add: check_deposit_record_def saturating_add_def)
  have pre: "pre_accrue_fee_modes [fill 42] (ai 4 False) L p = Inr p"
    by (simp add: pre_accrue_fee_modes_def vault_balance_def account_owner_def try_borrow_data_def at
        token_account_unpack_eq ACCOUNT_LEN_def accrue_fees_inner_eq p(3) f(4))
  have deb: "debit_deposit_record 2000 sample_record = Inr (sample_record\<lparr>lp_amount := 3000\<rparr>)"
    by (simp add: debit_deposit_record_def checked_sub_def Let_def)
  have drawn: "acc_data (sample_draw L (fill 77)) = bytes_of_deposit sample_record"
    by (simp add: sample_draw_def with_tokens_def at)
  have wiped: "\<not> fully_wiped_junior_exit False 2000 p" by (simp add: fully_wiped_junior_exit_def)
  note tr = sample_withdraw_transfers [OF L(2) f2]
  show ?thesis
    unfolding process_pack sample_withdraw_accounts_def process_withdraw_def
    by (simp add: op v clk dep rec pre p t wiped f tr deb drawn at try_borrow_data_def Let_def)
qed

lemma sample_withdraw:
  "process sample_env sample_pid sample_withdraw_accounts (pack (Withdraw 2000)) sample_matured = Inr sample_withdrawn"
  unfolding sample_withdrawn_def
proof (rule sample_withdraw_run [OF sample_matured_live refl])
  show "withdraw_totals False 2000 2000 sample_funded = Inr sample_reduced"
    by (simp add: withdraw_totals_def checked_add_def checked_sub_def sample_funded_def sample_reduced_def Let_def)
qed (simp_all add: sample_payout enforce_hwm_floor_def)

lemma sample_matured_world:
  "world sample_env sample_pid sample_genesis
     [(sample_init_accounts, pack (InitPool 1000 0), sample_genesis),
      (sample_deposit_accounts, pack (Deposit 5000), sample_ledger)] sample_matured"
  by (rule world_foreign [OF custody_world_world [OF sample_custody] sample_matured_keeps])

lemma sample_matured_ok: "ledger_ok sample_env sample_pid sample_matured"
  by (rule world_ledger_ok [OF sample_matured_world sample_frame sample_separation unowned_ledger_ok [OF sample_unowned]])

end
