(* ===== verification/Accounting_Properties.thy ===== *)
theory Accounting_Properties
  imports Books Sample_Custody
begin

text \<open>
  The accounting properties of the program on every reachable ledger: conservation of LP
  and soundness of the insurance books.
\<close>

section \<open>Conservation\<close>

text \<open>
  C10 (LP conservation).  In every world grown from a ledger without accounts of this program,
  a pool's LP supply is the sum of the LP of its deposit records, its junior LP supply is the
  sum over the records flagged junior, and junior LP exists only once tranches are on.
\<close>

theorem lp_supply_conserved:
  assumes "world E pid L0 es L" "cpi_frame E pid" "pda_separation E pid" "pda_injective E pid"
    and "\<forall>k. acc_owner (L0 k) \<noteq> pid" and "live_at pid L k p"
  shows "(\<Sum>a \<in> deposit_addresses E pid k. lp_of (stored pid L a)) = unat (total_lp_supply p)
    \<and> (\<Sum>a \<in> deposit_addresses E pid k. junior_lp_of (stored pid L a)) = unat (junior_total_lp p)
    \<and> junior_total_lp p \<le> total_lp_supply p \<and> (junior_total_lp p \<noteq> 0 \<longrightarrow> tranche_enabled p)"
proof -
  have ok: "ledger_ok E pid L" by (rule world_ledger_ok [OF assms(1-3) unowned_ledger_ok [OF assms(5)]])
  obtain s where "k = fst (derive_pool_pda (find_program_address E) pid s)"
    using ledger_okD(2) [OF ok] assms(6) live_validates unfolding live_at_def by blast
  then have "conserved E pid L k"
    using world_conserved [OF assms(1-5)] unfolding lp_conserved_def by blast
  then show ?thesis
    using assms(6) junior_sum_le [of E pid L k]
    unfolding conserved_def lp_sum_def junior_lp_sum_def by (auto simp: word_le_nat_alt)
qed

theorem lp_supply_conserved_witness:
  "(\<Sum>a \<in> deposit_addresses sample_env sample_pid (fill 42). lp_of (stored sample_pid sample_ledger a))
     = unat (total_lp_supply sample_pool)"
  using lp_supply_conserved [OF sample_world sample_frame sample_separation sample_injective sample_unowned sample_live]
  by blast

text \<open>
  C12 (insurance books).  In every such world, what a pool has settled as junior loss plus what
  it has recovered from the wrapper is at most what it counts as returned and at most what it
  flushed; and a junior tranche without LP has no balance.
\<close>

theorem insurance_books:
  assumes "world E pid L0 es L" "cpi_frame E pid" "pda_separation E pid" "pda_injective E pid"
    and "\<forall>k. acc_owner (L0 k) \<noteq> pid" and "live_at pid L k p"
  shows "unat (realized_junior_loss p) + unat (total_recovered_from_wrapper p) \<le> unat (total_returned p)
    \<and> unat (realized_junior_loss p) + unat (total_recovered_from_wrapper p) \<le> unat (total_flushed p)
    \<and> (junior_total_lp p = 0 \<longrightarrow> junior_balance p = 0)"
proof -
  obtain b0 where "newborn_books b0" "book_steps True True b0 (books p)"
    using world_books [OF assms, of True True] by blast
  then have "books_ok (books p)" using book_steps_ok newborn_ok(1) by blast
  then show ?thesis by (auto simp: books_ok_def unat_eq_0)
qed

theorem insurance_books_witness:
  "unat (realized_junior_loss sample_pool) + unat (total_recovered_from_wrapper sample_pool)
     \<le> unat (total_flushed sample_pool)"
  using insurance_books [OF sample_world sample_frame sample_separation sample_injective sample_unowned sample_live]
  by blast

text \<open>
  C11 (sound books).  While the flushed insurance of a pool comes back one way only, by the
  admin's \<open>ReturnInsurance\<close> or by \<open>RecoverFlushedInsurance\<close>, the pool never counts more as
  returned than it flushed, its value is never negative, and junior and senior partition it:
  no subtraction of the valuation can fail.
\<close>

theorem books_stay_sound:
  assumes "world E pid L0 es L" "cpi_frame E pid" "pda_separation E pid" "pda_injective E pid"
    and "\<forall>k. acc_owner (L0 k) \<noteq> pid" and "live_at pid L k p"
    and "never is_return k es \<or> never is_recover k es"
  shows "total_returned p \<le> total_flushed p \<and> 0 \<le> pool_value_int p
    \<and> (pool_value_int p < 2 ^ 64 \<longrightarrow>
         (\<exists>v s. total_pool_value p = Some v \<and> senior_balance p = Some s
            \<and> unat v = unat s + unat (effective_junior_balance p)))"
proof -
  obtain ret rec where f: "\<not> (ret \<and> rec)" "ret \<or> never is_return k es" "rec \<or> never is_recover k es"
    using assms(7) by blast
  obtain b0 where "newborn_books b0" "book_steps ret rec b0 (books p)"
    using world_books [OF assms(1-6) f(2,3)] by blast
  then have s: "books_sound ret (books p)" using book_steps_sound newborn_ok(2) f(1) by blast
  then show ?thesis
    using sound_valuation [OF s] by (auto simp: books_sound_def book_value_pool word_le_nat_alt)
qed

theorem books_stay_sound_witness:
  "total_returned sample_pool \<le> total_flushed sample_pool \<and> 0 \<le> pool_value_int sample_pool"
  using books_stay_sound [OF sample_world sample_frame sample_separation sample_injective sample_unowned sample_live]
  by (simp add: never_def sample_init_accounts_def)

end
