(* ===== verification/Solvency_Properties.thy ===== *)
theory Solvency_Properties
  imports Sample_Custody Tranche_Math
begin

text \<open>
  What holders of LP can rely on: the pool's value is in the vault, valuations never fail, and
  every LP can be priced and paid.
\<close>

section \<open>Solvency\<close>

text \<open>
  C1 (solvency).  In every world in which only this program signs for its vault authorities,
  each pool's vault is an initialised token account of the pool's own authority, without
  delegate, and holds at least the value the pool tracks.
\<close>

theorem vault_solvency:
  assumes "custody_world E pid L0 es L" "cpi_frame E pid" "pda_separation E pid" "token_laws E pid"
    and "authorities_distinct E pid" and "\<forall>k. acc_owner (L0 k) \<noteq> pid" and "live_at pid L k p"
  shows "sealed (fst (derive_vault_authority (find_program_address E) pid k)) (L (vault p))
    \<and> pool_value_int p \<le> tokens L (vault p)"
  using solventD [OF world_solvent [OF assms(1-6)] assms(7)] unfolding vault_authority_def by blast

theorem vault_solvency_witness:
  "pool_value_int sample_funded = 5000 \<and> tokens sample_deposited (fill 4) \<ge> 5000"
  using vault_solvency [OF sample_custody sample_frame sample_separation sample_laws sample_distinct sample_unowned
      sample_deposited_live] by (simp add: pool_value_int_def)

text \<open>The supply a withdrawal of a tranche is priced against.\<close>

definition tranche_supply :: "bool \<Rightarrow> StakePool \<Rightarrow> u64" where
  "tranche_supply j p =
     (if \<not> tranche_enabled p then total_lp_supply p else if j then junior_total_lp p else senior_total_lp p)"

lemma burn_quote_exists:
  assumes "lp \<le> S" "S \<noteq> 0"
  obtains c where "calc_collateral_for_withdraw S V lp = Some c"
proof -
  let ?q = "unat lp * (unat V + 1) div (unat S + 1)"
  have "unat lp * (unat V + 1) \<le> (unat S + 1) * (unat V + 1)"
    using assms(1) by (intro mult_le_mono) (simp_all add: word_le_nat_alt)
  then have "?q \<le> unat V + 1" by (metis div_le_mono nonzero_mult_div_cancel_left Suc_eq_plus1 nat.distinct(1))
  moreover have "?q \<noteq> unat V + 1"
  proof
    assume "?q = unat V + 1"
    then have "(unat S + 1) * (unat V + 1) \<le> unat lp * (unat V + 1)"
      by (metis div_times_less_eq_dividend mult.commute)
    then have "unat S + 1 \<le> unat lp" unfolding mult_le_cancel2 by simp
    with assms(1) show False by (simp add: word_le_nat_alt)
  qed
  ultimately have "?q < 2 ^ 64" using unat_u64_less [of V] by simp
  then have "unat (of_nat ?q :: u64) = ?q" by (intro unat_of_nat_lt) simp
  then show thesis using that [of "of_nat ?q"] assms(2) by (simp add: calc_collateral_for_withdraw_eq_Some)
qed

lemma price_exists:
  assumes v: "total_pool_value p = Some v" "senior_balance p = Some s" and lp: "lp \<le> tranche_supply j p" "lp \<noteq> 0"
  obtains w where "price_withdrawal j lp p = Inr w"
proof -
  have nz: "tranche_supply j p \<noteq> 0" using lp by auto
  obtain c where "calc_collateral_for_withdraw (tranche_supply j p)
      (if \<not> tranche_enabled p then v else if j then effective_junior_balance p else s) lp = Some c"
    by (rule burn_quote_exists [OF lp(1) nz])
  then have "price_withdrawal j lp p = Inr c"
    using v by (auto simp: price_withdrawal_def tranche_supply_def quote_defs pool_calc_collateral_for_withdraw_def)
  then show thesis by (rule that)
qed

text \<open>
  C2 (redeemability).  In every such world where flushed insurance comes back one way only,
  the valuation of a pool and of its tranches succeeds, and any LP up to a tranche's supply is
  quoted a payout, which the vault holds.
\<close>

theorem lp_redeemable:
  assumes "custody_world E pid L0 es L" "cpi_frame E pid" "pda_separation E pid" "token_laws E pid"
    and "authorities_distinct E pid" "pda_injective E pid" and "\<forall>k. acc_owner (L0 k) \<noteq> pid" and "live_at pid L k p"
    and "never is_return k es \<or> never is_recover k es"
    and "lp \<noteq> 0" "lp \<le> tranche_supply j p"
  shows "\<exists>v s w. total_pool_value p = Some v \<and> senior_balance p = Some s
    \<and> price_withdrawal j lp p = Inr w \<and> uint w \<le> tokens L (vault p)"
proof -
  note w = custody_world_world [OF assms(1)]
  obtain ret rec where f: "\<not> (ret \<and> rec)" "ret \<or> never is_return k es" "rec \<or> never is_recover k es"
    using assms(9) by blast
  obtain b0 where "newborn_books b0" "book_steps ret rec b0 (books p)"
    using world_books [OF w assms(2,3,6-8) f(2,3)] by blast
  then have snd: "books_sound ret (books p)" using book_steps_sound newborn_ok(2) f(1) by blast
  have sol: "pool_value_int p \<le> tokens L (vault p)"
    using solventD(3) [OF world_solvent [OF assms(1-5,7)] assms(8)] .
  moreover have "tokens L (vault p) < 2 ^ 64" unfolding tokens_def using uint_lt2p [where 'a = 64] by simp
  ultimately obtain v s where v: "total_pool_value p = Some v" "senior_balance p = Some s"
    using sound_valuation [OF snd] by force
  obtain x where x: "price_withdrawal j lp p = Inr x" by (rule price_exists [OF v assms(11,10)])
  have "uint x \<le> book_value (books p)"
  proof (cases "tranche_enabled p \<and> j")
    case True
    then have "unat x \<le> book_effective (books p)"
      using price_withdrawal_bounds(1) [OF x] assms(11) by (simp add: tranche_supply_def)
    then show ?thesis using sound_effective [OF snd] unfolding uint_nat by linarith
  next
    case False
    then show ?thesis
      using price_withdrawal_bounds(2,3) [OF x] assms(11) unfolding uint_nat
      by (cases "tranche_enabled p") (auto simp: tranche_supply_def)
  qed
  then have "uint x \<le> tokens L (vault p)" using sol unfolding book_value_pool by simp
  then show ?thesis using v x by blast
qed

theorem lp_redeemable_witness:
  "\<exists>w. price_withdrawal False 5000 sample_funded = Inr w \<and> uint w \<le> tokens sample_deposited (fill 4)"
proof -
  have "never is_return (fill 42) [(sample_init_accounts, pack (InitPool 1000 0), sample_genesis),
      (sample_deposit_accounts, pack (Deposit 5000), sample_ledger)]"
    by (simp add: never_def is_return_def unpack_pack del: pack.simps)
  then show ?thesis
    using lp_redeemable [OF sample_custody sample_frame sample_separation sample_laws sample_distinct sample_injective
        sample_unowned sample_deposited_live, of 5000 False]
    by (auto simp: tranche_supply_def simp del: pack.simps)
qed

end
