(* ===== verification/Sample_Tranches.thy ===== *)
theory Sample_Tranches
  imports Sample_Custody
begin

text \<open>
  The sample pool with its two tranches: the stages of its accounts as the admin enables the
  tranches and senior and junior depositors arrive, and a junior deposit run on the sample chain.
\<close>

section \<open>Stages of the pool\<close>

definition sample_tranched :: StakePool where
  "sample_tranched = set_junior_fee_mult_bps 10000 (set_tranche_enabled True sample_pool)"

definition sample_senior :: StakePool where
  "sample_senior = sample_tranched\<lparr>total_deposited := 5000, total_lp_supply := 5000\<rparr>"

definition sample_both :: StakePool where
  "sample_both = set_junior_balance 6000 (set_junior_total_lp 6000
     (sample_senior\<lparr>total_deposited := 11000, total_lp_supply := 11000\<rparr>))"

lemmas sample_stages = sample_tranched_def sample_senior_def sample_both_def

lemma sample_stage_values:
  "total_pool_value sample_tranched = Some 0" "total_pool_value sample_senior = Some 5000"
  "total_pool_value sample_both = Some 11000"
  "effective_junior_balance sample_tranched = 0" "effective_junior_balance sample_senior = 0"
  "senior_balance sample_tranched = Some 0"
proof -
  show v: "total_pool_value sample_tranched = Some 0" "total_pool_value sample_senior = Some 5000"
    "total_pool_value sample_both = Some 11000"
    by (simp_all add: total_pool_value_eq_Some pool_value_int_def sample_stages)
  show e: "effective_junior_balance sample_tranched = 0" "effective_junior_balance sample_senior = 0"
    by (simp_all add: effective_junior_balance_def sample_stages saturating_sub_def)
  show "senior_balance sample_tranched = Some 0" by (simp add: senior_balance_def v e checked_sub_def)
qed

lemmas stage_values = sample_stage_values sample_stage_values [unfolded sample_stages]

lemma sample_junior_supply [simp]: "junior_total_lp sample_pool = 0"
  using sample_born by (simp add: born_def)

lemma sample_both_sel [simp]:
  "tranche_enabled sample_both" "junior_total_lp sample_both = 6000" "junior_balance sample_both = 6000"
  "junior_fee_mult_bps sample_both = 10000" "total_lp_supply sample_both = 11000" "total_fees_earned sample_both = 0"
  by (simp_all add: sample_stages)

lemma sample_both_values:
  "effective_junior_balance sample_both = 6000" "senior_balance sample_both = Some 5000"
proof -
  show e: "effective_junior_balance sample_both = 6000"
    by (simp add: effective_junior_balance_def saturating_sub_def) (simp add: sample_stages)
  show "senior_balance sample_both = Some 5000"
    by (simp add: senior_balance_def sample_stage_values(3) e checked_sub_def)
qed

lemma sample_first_lock:
  "price_deposit 5000 sample_tranched = Inr (5000, 4000)" "price_deposit_junior 6000 sample_senior = Inr (6000, 6000)"
proof -
  have "\<not> tranche_enabled sample_tranched \<or> saturating_sub (total_flushed sample_tranched) (total_returned sample_tranched) = 0"
    "senior_total_lp sample_tranched = 0" "total_lp_supply sample_tranched = 0"
    by (simp_all add: sample_tranched_def senior_total_lp_def saturating_sub_def)
  then show "price_deposit 5000 sample_tranched = Inr (5000, 4000)"
    by (auto simp: price_deposit_def stage_values quote_defs calc_lp_for_deposit_def
        apply_minimum_liquidity_lock_def MINIMUM_LIQUIDITY_def checked_sub_def sample_tranched_def pool_calc_lp_for_deposit_def)
  have "junior_total_lp sample_senior = 0" "total_lp_supply sample_senior = 5000"
    "saturating_sub (total_flushed sample_senior) (saturating_sub (total_returned sample_senior) (realized_junior_loss sample_senior)) = 0"
    by (simp_all add: sample_stages saturating_sub_def)
  then show "price_deposit_junior 6000 sample_senior = Inr (6000, 6000)"
    by (simp add: price_deposit_junior_def stage_values quote_defs calc_lp_for_deposit_def
        apply_minimum_liquidity_lock_def)
qed

section \<open>A junior deposit\<close>

text \<open>The first deposit into the freshly tranched pool is a junior one of 5000 tokens.\<close>

definition sample_tranched_ledger :: ledger where
  "sample_tranched_ledger = write_pool (ai 42 False) sample_tranched sample_ledger"

definition sample_junior :: StakePool where
  "sample_junior = set_junior_balance 5000 (set_junior_total_lp 5000
     (sample_tranched\<lparr>total_deposited := 5000, total_lp_supply := 5000\<rparr>))"

definition sample_junior_record :: StakeDeposit where
  "sample_junior_record =
     (set_junior_deposit True (deposit_set_discriminator zero_deposit))
       \<lparr>dep_is_initialized := 1, dep_bump := 254, dep_pool := fill 42, dep_user := fill 1,
        last_deposit_slot := 0, lp_amount := 5000\<rparr>"

definition sample_junior_paid :: ledger where
  "sample_junior_paid =
     with_tokens 12 3 1 4000 (with_tokens 4 5 43 5000 (with_tokens 11 5 1 4000 sample_tranched_ledger))"

definition sample_junior_deposited :: ledger where
  "sample_junior_deposited = write_pool (ai 42 False) sample_junior (write_deposit (ai 77 False) sample_junior_record
     (sample_junior_paid(fill 77 := \<lparr>acc_lamports = 1, acc_owner = sample_pid, acc_data = replicate STAKE_DEPOSIT_SIZE 0\<rparr>)))"

lemma sample_tranched_identity [simp]:
  "identity sample_tranched = identity sample_pool" "identity sample_junior = identity sample_pool"
  by (simp_all add: sample_tranched_def sample_junior_def)

lemma sample_tranched_live: "live_at sample_pid sample_tranched_ledger (fill 42) sample_tranched"
  unfolding sample_tranched_ledger_def
  using write_live [of sample_pid sample_ledger "ai 42 False" sample_pool sample_tranched] sample_live by simp

lemma sample_tranched_ok: "ledger_ok sample_env sample_pid sample_tranched_ledger"
  unfolding sample_tranched_ledger_def
  by (rule write_pool_ledger_ok [OF sample_ledger_ok, where p = sample_pool])
     (use sample_live live_validates in \<open>auto simp: live_at_def\<close>)

lemma sample_tranched_at: "a \<noteq> fill 42 \<Longrightarrow> sample_tranched_ledger a = sample_ledger a"
  by (simp add: sample_tranched_ledger_def)

lemma sample_tranched_sel [simp]:
  "tranche_enabled sample_tranched" "\<not> market_resolved sample_tranched" "\<not> hwm_enabled sample_junior"
  "lp_mint sample_tranched = fill 3" "collateral_mint sample_tranched = fill 5" "vault sample_tranched = fill 4"
  "deposit_cap sample_tranched = 0" "pool_mode sample_tranched = 0" "total_lp_supply sample_tranched = 0"
  "total_deposited sample_tranched = 0" "junior_total_lp sample_tranched = 0" "junior_balance sample_tranched = 0"
  by (simp_all add: sample_tranched_def sample_junior_def)

lemma sample_junior_price: "price_deposit_junior 5000 sample_tranched = Inr (5000, 4000)"
proof -
  have "saturating_sub (total_flushed sample_tranched)
      (saturating_sub (total_returned sample_tranched) (realized_junior_loss sample_tranched)) = 0"
    by (simp add: sample_tranched_def saturating_sub_def)
  then show ?thesis
    by (simp add: price_deposit_junior_def stage_values quote_defs calc_lp_for_deposit_def
        apply_minimum_liquidity_lock_def MINIMUM_LIQUIDITY_def checked_sub_def Let_def)
qed

lemma sample_junior_transfers:
  "deposit_transfers sample_env sample_pid [fill 42] (ai 42 False) (ai 1 True) (ai 11 False) (ai 4 False) (ai 3 False)
     (ai 12 False) (ai 43 False) (program_ai spl_token_id) 5000 4000 sample_tranched_ledger = Inr sample_junior_paid"
  by (simp add: deposit_transfers_def spl_transfer_def mint_to_def sample_invoke_def sample_token_def token_tags
      meta_new_def meta_new_readonly_def sample_move_def sample_sub_def sample_add_def is_token_def amount_at_def
      sample_tranched_at sample_ledger_at put_amount_def set_data_def put_token_account checked_add_def checked_sub_def
      sample_junior_paid_def with_tokens_def)

lemma sample_junior_credit:
  "credit_deposit credit_junior_record sample_env sample_pid [fill 42] (ai 42 False) (ai 1 True) (ai 77 False) (ai 0 False)
     0 5000 sample_junior_paid = Inr (write_deposit (ai 77 False) sample_junior_record
       (sample_junior_paid(fill 77 := \<lparr>acc_lamports = 1, acc_owner = sample_pid, acc_data = replicate STAKE_DEPOSIT_SIZE 0\<rparr>)))"
proof -
  have at: "sample_junior_paid (fill 77) = \<lparr>acc_lamports = 0, acc_owner = fill 0, acc_data = []\<rparr>"
    by (simp add: sample_junior_paid_def with_tokens_def sample_tranched_at sample_ledger_at)
  have "open_or_create_deposit sample_env sample_pid [fill 42] (ai 42 False) (ai 1 True) (ai 77 False) (ai 0 False) sample_junior_paid
      = Inr (254, sample_junior_paid(fill 77 := \<lparr>acc_lamports = 1, acc_owner = sample_pid, acc_data = replicate STAKE_DEPOSIT_SIZE 0\<rparr>))"
    by (simp add: open_or_create_deposit_def data_is_empty_def at create_or_adopt_pda_eq account_lamports_def
        sample_invoke_def sample_system_def meta_new_def Let_def STAKE_DEPOSIT_SIZE_def) (simp add: sample_env_def meta_new_def at Let_def)
  moreover have "credit_junior_record (fill 42) (fill 1) 254 0 5000 zero_deposit = Inr sample_junior_record"
    by (simp add: credit_junior_record_def sample_junior_record_def deposit_set_discriminator_def set_junior_deposit_def
        checked_add_def STAKE_DEPOSIT_DISCRIMINATOR_def Let_def)
  ultimately show ?thesis
    by (simp add: credit_deposit_def try_borrow_data_def deposit_from_data_eq)
qed

lemma sample_junior_deposit:
  "process sample_env sample_pid sample_deposit_accounts (pack (DepositJunior 5000)) sample_tranched_ledger
     = Inr sample_junior_deposited"
proof -
  note op = live_open [of sample_pid sample_tranched_ledger "ai 42 False" sample_tranched, simplified, OF sample_tranched_live]
  have ck: "deposit_checks sample_env sample_pid sample_tranched (ai 42 False) (ai 4 False) (ai 3 False) (ai 43 False) 5000 = Inr ()"
    by (simp add: deposit_checks_def check_deposit_cap_def)
  have src: "validate_source_ata [fill 42] InvalidAccount (ai 11 False) (fill 5) (fill 1) sample_tranched_ledger = Inr ()"
    "validate_lp_recipient_account [fill 42] (ai 12 False) (fill 3) (fill 1) sample_tranched_ledger = Inr ()"
    by (simp_all add: validate_source_ata_eq validate_lp_recipient_account_eq account_owner_def try_borrow_data_def
        sample_tranched_at sample_ledger_at ACCOUNT_LEN_def)
  have pre: "pre_accrue_fee_modes [fill 42] (ai 4 False) sample_tranched_ledger sample_tranched = Inr sample_tranched"
    by (simp add: pre_accrue_fee_modes_def vault_balance_def account_owner_def try_borrow_data_def sample_tranched_at
        sample_ledger_at token_account_unpack_eq ACCOUNT_LEN_def accrue_fees_inner_eq stage_values)
  have tot: "deposit_junior_totals 5000 5000 sample_tranched = Inr sample_junior"
    by (simp add: deposit_junior_totals_def deposit_totals_def checked_add_def sample_junior_def sample_tranched_def Let_def)
  have clk: "clock_from_account_info sample_env (ai 10 False) sample_junior_paid = Inr \<lparr>slot = 0, epoch = 0\<rparr>"
    by (simp add: sample_env_def sample_junior_paid_def with_tokens_def sample_tranched_at sample_ledger_at slice_def
        from_le_bytes_def)
  have hwm: "deposit_refresh_hwm 0 sample_junior = Inr sample_junior" by (simp add: deposit_refresh_hwm_def)
  have pres: "present_pool_account sample_pid (ai 42 False) sample_tranched_ledger = Inr ()" using op(1) by simp
  show ?thesis
    unfolding process_pack sample_deposit_accounts_def process_deposit_junior_def
    by (simp add: pres op(2) ck src pre sample_junior_price sample_junior_transfers tot clk hwm sample_junior_credit
        sample_junior_deposited_def Let_def)
qed

lemma sample_junior_live: "live_at sample_pid sample_junior_deposited (fill 42) sample_junior"
proof -
  let ?L = "write_deposit (ai 77 False) sample_junior_record
     (sample_junior_paid(fill 77 := \<lparr>acc_lamports = 1, acc_owner = sample_pid, acc_data = replicate STAKE_DEPOSIT_SIZE 0\<rparr>))"
  have "?L (fill 42) = sample_tranched_ledger (fill 42)" by (simp add: sample_junior_paid_def with_tokens_def)
  then have "live_at sample_pid ?L (fill 42) sample_tranched"
    using sample_tranched_live by (simp add: live_at_def pool_bytes_at_def)
  then show ?thesis
    using write_live [of sample_pid ?L "ai 42 False" sample_tranched sample_junior] by (simp add: sample_junior_deposited_def)
qed

end
