(* ===== verification/Value_Properties.thy ===== *)
theory Value_Properties
  imports Sample_Tranches
begin

text \<open>
  How the value behind an LP moves: fee accrual brings it up to the vault balance and nothing
  more, trades never lower the share price, and the high-water mark limits withdrawals.
\<close>

section \<open>Fee accrual\<close>

text \<open>The junior tranche's part of a fee: the floor of its weighted share.\<close>

definition junior_share :: "StakePool \<Rightarrow> u64 \<Rightarrow> nat \<Rightarrow> nat" where
  "junior_share p sb fee =
     fee * (unat (junior_balance p) * unat (junior_fee_mult_bps p))
       div (unat (junior_balance p) * unat (junior_fee_mult_bps p) + unat sb * 10000)"

lemma accrual_cases:
  assumes "accrue_fees_inner bal p = Inr p'" "total_pool_value p = Some v"
  obtains (idle) "total_lp_supply p = 0 \<or> bal \<le> v" "p' = p"
  | (single) fees where "total_lp_supply p \<noteq> 0" "v < bal" "\<not> (tranche_enabled p \<and> junior_total_lp p \<noteq> 0)"
      "unat fees = unat (total_fees_earned p) + (unat bal - unat v)" "p' = p\<lparr>total_fees_earned := fees\<rparr>"
  | (split) fees sb jb where "total_lp_supply p \<noteq> 0" "v < bal" "tranche_enabled p" "junior_total_lp p \<noteq> 0"
      "unat fees = unat (total_fees_earned p) + (unat bal - unat v)" "senior_balance p = Some sb"
      "unat jb = unat (junior_balance p) + junior_share p sb (unat bal - unat v)"
      "p' = set_junior_balance jb (p\<lparr>total_fees_earned := fees\<rparr>)" "\<exists>pv. total_pool_value p' = Some pv \<and> jb \<le> pv"
proof (cases "bal > v \<and> total_lp_supply p > 0")
  case False
  then show thesis using assms by (intro idle) (auto simp: accrue_fees_inner_eq word_gt_0)
next
  case True
  then have d: "unat (bal - v) = unat bal - unat v" by (simp add: unat_sub_le order_less_imp_le)
  show thesis
  proof (cases "tranche_enabled p \<and> junior_total_lp p > 0")
    case nj: False
    then show thesis
      using assms True d single by (auto simp: accrue_fees_inner_eq Let_def checked_add_eq_Some word_gt_0)
  next
    case tj: True
    then obtain fe jb jf sf sb where f: "unat fe = unat (total_fees_earned p) + unat (bal - v)"
      "unat jb = unat (junior_balance p) + unat jf" "senior_balance p = Some sb"
      "distribute_fees (junior_balance p) sb (junior_fee_mult_bps p) (bal - v) = (jf, sf)"
      "p' = set_junior_balance jb (p\<lparr>total_fees_earned := fe\<rparr>)" "\<exists>pv. total_pool_value p' = Some pv \<and> jb \<le> pv"
      using assms True
      by (auto simp: accrue_fees_inner_eq Let_def checked_add_eq_Some case_prod_beta prod_eq_iff not_less)
    then show thesis
      using True tj d distribute_fees_exact(1) [OF f(4)] by (intro split) (auto simp: junior_share_def word_gt_0)
  qed
qed

text \<open>
  C17 (fee accrual).  A successful accrual against a vault balance changes nothing when there is no
  LP or no surplus over the pool's value.  Otherwise it adds exactly the surplus to the fees earned,
  and, with a junior tranche, exactly the floor of junior's weighted share to the junior balance,
  which stays within the pool's value; every other byte of the pool keeps its value, the pool is
  then worth the vault balance, and accruing again against the same balance changes nothing.
\<close>

theorem fee_accrual_exact:
  assumes "accrue_fees_inner bal p = Inr p'"
  shows "\<exists>v. total_pool_value p = Some v \<and> accrue_fees_inner bal p' = Inr p' \<and>
    (if total_lp_supply p = 0 \<or> bal \<le> v then p' = p
     else total_pool_value p' = Some bal \<and>
       (\<exists>fees. unat fees = unat (total_fees_earned p) + (unat bal - unat v) \<and>
          (if tranche_enabled p \<and> junior_total_lp p \<noteq> 0
           then \<exists>sb jb. senior_balance p = Some sb \<and> jb \<le> bal
                  \<and> unat jb = unat (junior_balance p)
                      + (unat bal - unat v) * (unat (junior_balance p) * unat (junior_fee_mult_bps p))
                          div (unat (junior_balance p) * unat (junior_fee_mult_bps p) + unat sb * 10000)
                  \<and> p' = set_junior_balance jb (p\<lparr>total_fees_earned := fees\<rparr>)
           else p' = p\<lparr>total_fees_earned := fees\<rparr>)))"
proof -
  obtain v where v: "total_pool_value p = Some v" using assms by (auto simp: accrue_fees_inner_eq)
  have again: "accrue_fees_inner bal q = Inr q" if t: "total_pool_value q = Some x" "total_lp_supply q = 0 \<or> bal \<le> x" for q x
    using t by (auto simp: accrue_fees_inner_eq)
  have worth: "total_pool_value q = Some bal"
    if "b_fees (books q) = b_fees (books p) + (unat bal - unat v)" "v < bal"
      "books q = (books p)\<lparr>b_fees := b_fees (books q), b_junior := b_junior (books q)\<rparr>" for q
  proof -
    have "book_value (books q) = book_value (books p) + int (unat bal - unat v)"
      using that(1) by (subst that(3)) (simp add: book_value_def)
    also have "\<dots> = int (unat bal)"
      using v that(2) by (simp add: total_pool_value_books word_less_nat_alt of_nat_diff)
    finally show ?thesis by (simp add: total_pool_value_books)
  qed
  show ?thesis
    using assms v
  proof (cases rule: accrual_cases)
    case idle
    then show ?thesis using v again [OF v] by (intro exI [of _ v]) auto
  next
    case (single fees)
    have "total_pool_value p' = Some bal" by (rule worth) (use single in simp_all)
    moreover from again [OF this] have "accrue_fees_inner bal p' = Inr p'" by simp
    moreover have g: "(total_lp_supply p = 0 \<or> bal \<le> v) = False" "(tranche_enabled p \<and> junior_total_lp p \<noteq> 0) = False"
      using single(1-3) by auto
    ultimately show ?thesis by (intro exI [of _ v], unfold g if_False) (use v single(4,5) in blast)
  next
    case (split fees sb jb)
    have w: "total_pool_value p' = Some bal" by (rule worth) (use split in simp_all)
    moreover from again [OF this] have "accrue_fees_inner bal p' = Inr p'" by simp
    moreover have "jb \<le> bal" using split(9) w by auto
    moreover have g: "(total_lp_supply p = 0 \<or> bal \<le> v) = False" "(tranche_enabled p \<and> junior_total_lp p \<noteq> 0) = True"
      using split(1-4) by auto
    ultimately show ?thesis
      by (intro exI [of _ v], unfold g if_False if_True) (use v split(5-8) [unfolded junior_share_def] in blast)
  qed
qed

text \<open>A surplus of 1100 in the pool with both tranches: 600 of it is junior's.\<close>

lemma sample_accrual:
  "accrue_fees_inner 12100 sample_both
     = Inr (set_junior_balance 6600 (sample_both\<lparr>total_fees_earned := 1100\<rparr>))"
proof -
  let ?q = "set_junior_balance 6600 (sample_both\<lparr>total_fees_earned := 1100\<rparr>)"
  have d: "distribute_fees 6000 5000 10000 1100 = (600, 500)"
    by (simp add: distribute_fees_def checked_mul_def saturating_sub_def Let_def)
  have v: "total_pool_value ?q = Some 12100" by (simp add: total_pool_value_eq_Some pool_value_int_def sample_stages)
  show ?thesis by (simp add: accrue_fees_inner_eq sample_stage_values(3) sample_both_values d v checked_add_def Let_def)
qed

theorem fee_accrual_exact_witness:
  "\<exists>fees jb. unat fees = 1100 \<and> unat jb = 6600
     \<and> accrue_fees_inner 12100 sample_both = Inr (set_junior_balance jb (sample_both\<lparr>total_fees_earned := fees\<rparr>))"
  using fee_accrual_exact [OF sample_accrual] sample_accrual
  by (auto simp: sample_stage_values(3) sample_both_values)

section \<open>Share price\<close>

lemma pre_accrue_grows: "pre_accrue_pool bal p = Inr p' \<Longrightarrow> pool_value_int p \<le> pool_value_int p'"
proof (cases "pool_mode p \<le> 1")
  case True
  assume "pre_accrue_pool bal p = Inr p'"
  then have a: "accrue_fees_inner bal p = Inr p'" using True by (simp add: pre_accrue_pool_def)
  from a show ?thesis
  proof (cases rule: accrue_books)
    case (fees d j)
    then show ?thesis unfolding book_value_pool [symmetric] fees(3) by (simp add: book_value_def)
  qed simp
qed (simp add: pre_accrue_pool_def)

lemma price_step_trans:
  fixes V V1 V' S S' :: int
  assumes "V \<le> V1" "(V1 + 1) * (S' + 1) \<le> (V' + 1) * (S + 1)" "0 \<le> S'"
  shows "(V + 1) * (S' + 1) \<le> (V' + 1) * (S + 1)"
proof -
  have "(V + 1) * (S' + 1) \<le> (V1 + 1) * (S' + 1)" using assms(1,3) by (intro mult_right_mono) auto
  then show ?thesis using assms(2) by simp
qed

text \<open>The two trades at the global price.\<close>

lemma deposit_price:
  assumes "price_deposit a p = Inr (lp, m)" "\<not> tranche_enabled p" "deposit_totals a lp p = Inr p'"
  shows "(pool_value_int p + 1) * (uint (total_lp_supply p') + 1) \<le> (pool_value_int p' + 1) * (uint (total_lp_supply p) + 1)"
proof -
  obtain v where v: "total_pool_value p = Some v" "calc_lp_for_deposit (total_lp_supply p) v a = Some lp"
    using assms(1,2) by (auto simp: price_deposit_def pool_calc_lp_for_deposit_def)
  have V: "pool_value_int p = uint v" "pool_value_int p' = uint v + uint a"
    using v(1) deposit_value(1) [OF assms(3)] unfolding total_pool_value_eq_Some by simp_all
  have S: "uint (total_lp_supply p') = uint (total_lp_supply p) + uint lp"
    using assms(3) by (auto simp: deposit_totals_def checked_uint)
  have "int ((unat v + 1) * (unat (total_lp_supply p) + unat lp + 1))
      \<le> int ((unat v + unat a + 1) * (unat (total_lp_supply p) + 1))"
    using global_quote.mint_price [OF v(2)] by (simp only: of_nat_le_iff)
  then show ?thesis by (simp add: V S algebra_simps)
qed

lemma withdraw_price:
  assumes "price_withdrawal j lp p = Inr w" "\<not> tranche_enabled p" "withdraw_totals j w lp q = Inr p'" "books q = books p"
  shows "(pool_value_int p + 1) * (uint (total_lp_supply p') + 1) \<le> (pool_value_int p' + 1) * (uint (total_lp_supply p) + 1)"
proof -
  obtain v where v: "total_pool_value p = Some v" "calc_collateral_for_withdraw (total_lp_supply p) v lp = Some w"
    using assms(1,2) by (auto simp: price_withdrawal_def pool_calc_collateral_for_withdraw_def)
  have q: "tranche_enabled q = tranche_enabled p" "total_lp_supply q = total_lp_supply p"
    using arg_cong [OF assms(4), of b_tranched] arg_cong [OF assms(4), of b_supply] by (simp_all add: word_unat_eq_iff)
  have S: "unat (total_lp_supply p) = unat (total_lp_supply p') + unat lp"
    using assms(2,3) q by (auto simp: withdraw_totals_def checked_sub_eq_Some Let_def)
  then have le: "lp \<le> total_lp_supply p" by (simp add: word_le_nat_alt)
  have wv: "unat w \<le> unat v" using global_quote.burn_le_value [OF v(2) le] by (simp add: word_le_nat_alt)
  have V: "pool_value_int p = int (unat v)" "pool_value_int p' = int (unat v - unat w)"
    using v(1) withdraw_value(1) [OF assms(3)] value_books_eq [OF assms(4)] wv
    unfolding total_pool_value_eq_Some uint_nat by auto
  have "int ((unat v + 1) * (unat (total_lp_supply p) - unat lp + 1))
      \<le> int ((unat v - unat w + 1) * (unat (total_lp_supply p) + 1))"
    using global_quote.burn_price [OF v(2) le] by (simp only: of_nat_le_iff)
  moreover have "unat (total_lp_supply p) - unat lp = unat (total_lp_supply p')" using S by simp
  ultimately show ?thesis unfolding V uint_nat by (simp only: of_nat_mult of_nat_add of_nat_1)
qed

lemma trade_price:
  assumes "pool_step c ins p p'" "ins \<in> {Deposit a, Withdraw a, AccrueFees}" "\<not> tranche_enabled p"
  shows "(pool_value_int p + 1) * (uint (total_lp_supply p') + 1) \<le> (pool_value_int p' + 1) * (uint (total_lp_supply p) + 1)"
  using assms
proof (induction rule: pool_step.induct)
  case (step_deposit a p p1 lp m p2 p')
  have t: "\<not> tranche_enabled p1" using step_deposit pre_accrue_settings [OF step_deposit(4)] by (simp add: settings_def)
  note b = hwm_books(2) [OF step_deposit(7)]
  have p': "pool_value_int p' = pool_value_int p2" by (rule value_books_eq [OF b])
  have s': "total_lp_supply p' = total_lp_supply p2"
    using arg_cong [OF b, of b_supply] by (simp add: word_unat_eq_iff)
  show ?case
    using price_step_trans [OF pre_accrue_grows [OF step_deposit(4)] deposit_price [OF step_deposit(5) t step_deposit(6)]]
    by (simp add: p' s' pre_accrue_lp_supply [OF step_deposit(4)])
next
  case (step_withdraw lp p p1 w p2 p')
  have t: "\<not> tranche_enabled p1" using step_withdraw pre_accrue_settings [OF step_withdraw(2)] by (simp add: settings_def)
  show ?case
    using price_step_trans [OF pre_accrue_grows [OF step_withdraw(2)]
        withdraw_price [OF step_withdraw(3) t step_withdraw(6) hwm_books(1) [OF step_withdraw(5)]]]
    by (simp add: pre_accrue_lp_supply [OF step_withdraw(2)])
next
  case (step_accrue p p1 p')
  have "pre_accrue_pool (vault_bal c) p = Inr p1" using step_accrue(1,2) by (simp add: pre_accrue_pool_def)
  then have "pool_value_int p \<le> pool_value_int p1" "total_lp_supply p1 = total_lp_supply p"
    using pre_accrue_grows pre_accrue_lp_supply by blast+
  moreover have "pool_value_int p' = pool_value_int p1" unfolding step_accrue(3) by (intro value_books_eq) simp
  ultimately show ?case using step_accrue(3) by (simp add: mult_right_mono)
qed auto

text \<open>
  C15 (no dilution).  On a pool without tranches, no deposit, withdrawal or fee accrual lowers
  the share price \<open>(value + 1) / (supply + 1)\<close>, whoever makes it and whatever the vault holds.
\<close>

theorem share_price_monotone:
  assumes "cpi_frame E pid" "ledger_ok E pid L" "process E pid accs dt L = Inr L'" "unpack dt = Inr ins"
    "ins \<in> {Deposit a, Withdraw a, AccrueFees}"
    "live_at pid L (key (accs ! 1)) p" "live_at pid L' (key (accs ! 1)) p'" "\<not> tranche_enabled p"
  shows "(pool_value_int p + 1) * (uint (total_lp_supply p') + 1) \<le> (pool_value_int p' + 1) * (uint (total_lp_supply p) + 1)"
proof -
  have "acts_on_pool ins" using assms(5) by (auto simp: acts_on_pool_def)
  then obtain c where "pool_step c ins p p'" by (rule process_acting [OF assms(1-4) _ assms(6,7)])
  then show ?thesis by (rule trade_price [OF _ assms(5,8)])
qed

theorem share_price_monotone_witness:
  "(pool_value_int sample_pool + 1) * (uint (total_lp_supply sample_funded) + 1)
     \<le> (pool_value_int sample_funded + 1) * (uint (total_lp_supply sample_pool) + 1)"
  by (rule share_price_monotone [OF sample_frame sample_ledger_ok sample_deposit unpack_pack, of 5000])
     (use sample_live sample_deposited_live in \<open>simp_all add: sample_deposit_accounts_def\<close>)

section \<open>The high-water mark\<close>

lemma withdraw_keeps_mark:
  assumes "withdraw_totals j w lp p = Inr p'"
  shows "epoch_high_water_tvl p' = epoch_high_water_tvl p"
proof -
  have "settle_last_junior q = Inr q' \<Longrightarrow> epoch_high_water_tvl q' = epoch_high_water_tvl q" for q q'
    by (auto simp: settle_last_junior_def Let_def split: if_splits)
  then show ?thesis using assms by (auto simp: withdraw_totals_def Let_def split: if_splits)
qed

text \<open>
  C16 (high-water mark).  With the mark on, a successful withdrawal that pays anything leaves at
  least the floor fraction of the mark in the pool, and the mark is at least the value the
  pool had before the payout.
\<close>

theorem hwm_enforced:
  assumes "cpi_frame E pid" "ledger_ok E pid L" "process E pid accs dt L = Inr L'" "unpack dt = Inr (Withdraw lp)"
    "live_at pid L (key (accs ! 1)) p" "live_at pid L' (key (accs ! 1)) p'" "hwm_enabled p"
    "total_withdrawn p' \<noteq> total_withdrawn p"
  shows "int (unat (epoch_high_water_tvl p') * unat (hwm_floor_bps p) div 10000) \<le> pool_value_int p'
    \<and> pool_value_int p' + (uint (total_withdrawn p') - uint (total_withdrawn p)) \<le> uint (epoch_high_water_tvl p')"
proof -
  have "acts_on_pool (Withdraw lp)" by (simp add: acts_on_pool_def)
  then obtain c where "pool_step c (Withdraw lp) p p'" by (rule process_acting [OF assms(1-4) _ assms(5,6)])
  then show ?thesis
  proof (cases rule: pool_step.cases)
    case (step_withdraw p1 w p2)
    let ?wiped = "fully_wiped_junior_exit (junior_flag c) w p1"
    note wt = withdraw_value [OF step_withdraw(6)]
    have se: "hwm_enabled p1" "hwm_floor_bps p1 = hwm_floor_bps p"
      using assms(7) pre_accrue_settings [OF step_withdraw(2)] by (simp_all add: settings_def)
    obtain d jj where "books p1 = (books p)\<lparr>b_fees := b_fees (books p) + d, b_junior := b_junior (books p) + jj\<rparr>"
      by (rule pre_accrue_books [OF step_withdraw(2)])
    then have "b_withdrawn (books p2) = b_withdrawn (books p)" using hwm_books(1) [OF step_withdraw(5)] by simp
    then have tw: "total_withdrawn p2 = total_withdrawn p" by (simp add: word_unat_eq_iff)
    then have "w \<noteq> 0" using wt(2) assms(8) by (auto simp: word_uint_eq_iff)
    then have nw: "\<not> ?wiped" by (simp add: fully_wiped_junior_exit_def)
    obtain tvl post where e: "total_pool_value p1 = Some tvl" "p2 = snd (refresh_hwm (epoch (clock_now c)) tvl p1)"
      "unat tvl = unat post + unat w"
      "hwm_withdrawal_allowed post (fst (refresh_hwm (epoch (clock_now c)) tvl p1)) (hwm_floor_bps p2)"
      using step_withdraw(5) se(1) nw by (auto simp: enforce_hwm_floor_def case_prod_beta checked_sub_eq_Some Let_def)
    have mark: "epoch_high_water_tvl p2 = fst (refresh_hwm (epoch (clock_now c)) tvl p1)" "tvl \<le> epoch_high_water_tvl p2"
      "hwm_floor_bps p2 = hwm_floor_bps p1"
      unfolding e(2) by (auto simp: refresh_hwm_def Let_def)
    have v2: "pool_value_int p2 = uint tvl"
      using value_books_eq [OF hwm_books(1) [OF step_withdraw(5)]] e(1) unfolding total_pool_value_eq_Some by simp
    then have v': "pool_value_int p' = int (unat post)" using wt(1) e(3) by (simp only: uint_nat)
    obtain f where "hwm_floor (epoch_high_water_tvl p2) (hwm_floor_bps p2) = Some f" "f \<le> post"
      using e(4) unfolding mark(1) by (auto simp: hwm_withdrawal_allowed_def split: option.splits)
    then have "unat (epoch_high_water_tvl p2) * unat (hwm_floor_bps p2) div 10000 \<le> unat post"
      by (simp add: hwm_floor_eq_Some word_le_nat_alt)
    then have "int (unat (epoch_high_water_tvl p2) * unat (hwm_floor_bps p2) div 10000) \<le> pool_value_int p'"
      unfolding v' of_nat_le_iff .
    moreover have "pool_value_int p' + uint w \<le> uint (epoch_high_water_tvl p2)"
      using wt(1) v2 mark(2) by (simp add: word_le_def)
    ultimately show ?thesis
      using withdraw_keeps_mark [OF step_withdraw(6)] wt(2) unfolding tw mark(3) se(2) by simp
  qed
qed

definition sample_marked :: StakePool where
  "sample_marked = set_hwm_floor_bps 5000 (set_hwm_enabled True (set_epoch_high_water_tvl 5000 (set_hwm_last_epoch 0 sample_funded)))"

definition sample_marked_after :: StakePool where
  "sample_marked_after = sample_marked\<lparr>total_withdrawn := 2000, total_lp_supply := 3000\<rparr>"

lemma sample_marked_sel [simp]:
  "total_withdrawn sample_marked = 0" "hwm_enabled sample_marked" "hwm_floor_bps sample_marked = 5000"
  "epoch_high_water_tvl sample_marked = 5000" "hwm_last_epoch sample_marked = 0" "\<not> tranche_enabled sample_marked"
  "cooldown_slots sample_marked = 1000" "identity sample_marked = identity sample_pool"
  "total_lp_supply sample_marked = 5000" "books sample_marked = books sample_funded"
  by (simp_all add: sample_marked_def)

lemma sample_marked_value:
  "total_pool_value sample_marked = Some 5000" "price_withdrawal False 2000 sample_marked = Inr 2000"
proof -
  show v: "total_pool_value sample_marked = Some 5000"
    using sample_payout(1) unfolding total_pool_value_books by simp
  show "price_withdrawal False 2000 sample_marked = Inr 2000"
    using sample_payout(2) [of False] by (simp add: price_withdrawal_def pool_calc_collateral_for_withdraw_def v sample_payout)
qed

theorem hwm_enforced_witness:
  "\<exists>L L'. process sample_env sample_pid sample_withdraw_accounts (pack (Withdraw 2000)) L = Inr L'
     \<and> live_at sample_pid L' (fill 42) sample_marked_after
     \<and> int (unat (epoch_high_water_tvl sample_marked_after) * 5000 div 10000) \<le> pool_value_int sample_marked_after"
proof -
  let ?L = "write_pool (ai 42 False) sample_marked sample_matured"
  let ?M = "write_deposit (ai 77 False) (sample_record\<lparr>lp_amount := 3000\<rparr>) (sample_draw ?L)"
  have id: "identity sample_marked = identity sample_funded" "identity sample_marked_after = identity sample_marked"
    by (simp_all add: sample_marked_after_def)
  have live: "live_at sample_pid ?L (fill 42) sample_marked"
    using write_live [of sample_pid sample_matured "ai 42 False" sample_funded sample_marked] sample_matured_live id by simp
  have ok: "ledger_ok sample_env sample_pid ?L"
    by (rule write_pool_ledger_ok [OF sample_matured_ok, where p = sample_funded])
       (use id sample_matured_live live_validates in \<open>auto simp: live_at_def\<close>)
  have floor: "hwm_floor 5000 5000 = Some 2500" by (simp add: hwm_floor_eq_Some)
  have e: "enforce_hwm_floor 0 2000 False sample_marked = Inr sample_marked"
    by (simp add: enforce_hwm_floor_def sample_marked_value refresh_hwm_def checked_sub_def hwm_withdrawal_allowed_def floor)
  have t: "withdraw_totals False 2000 2000 sample_marked = Inr sample_marked_after"
    by (simp add: withdraw_totals_def checked_add_def checked_sub_def sample_marked_after_def Let_def)
  have run: "process sample_env sample_pid sample_withdraw_accounts (pack (Withdraw 2000)) ?L
      = Inr (write_pool (ai 42 False) sample_marked_after ?M)"
    by (rule sample_withdraw_run [OF live _ _ _ sample_marked_value e t]) simp_all
  have "?M (fill 42) = ?L (fill 42)" by (simp add: sample_draw_def with_tokens_def)
  then have "live_at sample_pid ?M (fill 42) sample_marked" using live by (simp add: live_at_def pool_bytes_at_def)
  then have after: "live_at sample_pid (write_pool (ai 42 False) sample_marked_after ?M) (fill 42) sample_marked_after"
    using write_live [of sample_pid ?M "ai 42 False" sample_marked sample_marked_after] id by simp
  have "int (unat (epoch_high_water_tvl sample_marked_after) * unat (hwm_floor_bps sample_marked) div 10000)
      \<le> pool_value_int sample_marked_after"
    using hwm_enforced [OF sample_frame ok run unpack_pack, of sample_marked sample_marked_after] live after
    by (simp add: sample_withdraw_accounts_def sample_marked_after_def)
  then show ?thesis using run after by auto
qed

end
