(* ===== verification/Trades.thy ===== *)
theory Trades
  imports Books Sample_Tranches
begin

text \<open>
  What one deposit and one withdrawal do, to the last counter: who may make it, the price it is
  made at, the token-program calls it issues, and the books of the pool afterwards.
\<close>

section \<open>Token calls\<close>

text \<open>
  A transfer (tag 3), mint (tag 7) or burn (tag 8) in the token program's wire format: two writable
  accounts, the signing authority, and the amount behind the tag.
\<close>

definition token_call :: "u8 \<Rightarrow> pubkey \<Rightarrow> pubkey \<Rightarrow> pubkey \<Rightarrow> u64 \<Rightarrow> Instruction" where
  "token_call tag a b auth x =
     \<lparr>ix_program_id = spl_token_id,
      ix_accounts = [meta_new a False, meta_new b False, meta_new_readonly auth True],
      ix_data = tag # to_le_bytes x\<rparr>"

lemma token_call_builders:
  "spl_transfer t a b auth ms x = Inr (token_call 3 a b auth x)"
  "mint_to t a b auth ms x = Inr (token_call 7 a b auth x)"
  "spl_burn t a b auth ms x = Inr (token_call 8 a b auth x)"
  by (simp_all add: spl_transfer_def mint_to_def spl_burn_def token_call_def IX_TRANSFER_def IX_MINT_TO_def IX_BURN_def)

lemma read_balance:
  assumes "pool_mode p \<le> 1 \<longrightarrow> vault_balance h v L = Inr bal" "key v = vault p"
  shows "pool_mode p \<le> 1 \<longrightarrow> uint bal = tokens L (vault p)"
  using assms vault_balance_tokens [of h v L] by metis

section \<open>Withdrawals\<close>

text \<open>
  The books after a payout of \<open>w\<close> for \<open>lp\<close>: a junior exit takes the payout out of the junior balance,
  and the last one settles the loss the tranche still bears and clears the balance.
\<close>

definition withdraw_books :: "bool \<Rightarrow> nat \<Rightarrow> nat \<Rightarrow> books \<Rightarrow> books" where
  "withdraw_books j w lp b =
     (let b1 = b\<lparr>b_withdrawn := b_withdrawn b + w, b_supply := b_supply b - lp\<rparr>;
          forfeited = min (b_junior b) (b_flushed b - b_returned b) in
      if \<not> (b_tranched b \<and> j) then b1
      else if b_junior_lp b = lp
      then b1\<lparr>b_junior_lp := 0, b_junior := 0, b_returned := b_returned b + forfeited,
              b_realized := b_realized b + forfeited\<rparr>
      else b1\<lparr>b_junior_lp := b_junior_lp b - lp, b_junior := b_junior b - w\<rparr>)"

lemma withdraw_books_supply [simp]: "b_supply (withdraw_books j w lp b) = b_supply b - lp"
  by (simp add: withdraw_books_def Let_def)

lemma settle_last_junior_books:
  assumes "settle_last_junior p = Inr p'"
  shows "books p' = (let f = min (b_junior (books p)) (b_flushed (books p) - b_returned (books p)) in
    (books p)\<lparr>b_junior := 0, b_returned := b_returned (books p) + f, b_realized := b_realized (books p) + f\<rparr>)"
proof -
  let ?n = "saturating_sub (total_flushed p) (total_returned p)"
  let ?f = "min (saturating_sub (junior_balance p) (effective_junior_balance p)) ?n"
  have f: "unat ?f = min (unat (junior_balance p)) (unat (total_flushed p) - unat (total_returned p))"
    by (simp add: min_def word_le_nat_alt unat_effective_junior_balance net_loss_def)
  have z: "?n > 0 \<and> ?f > 0 \<longleftrightarrow> unat ?f \<noteq> 0" by (auto simp: word_gt_0 unat_eq_0 min_def)
  show ?thesis
  proof (cases "unat ?f = 0")
    case True
    then have "p' = set_junior_balance 0 p" using assms z by (auto simp: settle_last_junior_def Let_def split: if_splits)
    then show ?thesis using True unfolding f by (simp add: Let_def)
  next
    case False
    then have "?n > 0" "?f > 0" using z by blast+
    then obtain r q where "unat r = unat (total_returned p) + unat ?f"
      "unat q = unat (realized_junior_loss p) + unat ?f"
      "p' = set_junior_balance 0 (set_realized_junior_loss q (p\<lparr>total_returned := r\<rparr>))"
      using assms by (auto simp: settle_last_junior_def Let_def checked_add_eq_Some)
    then show ?thesis unfolding f by (simp add: Let_def)
  qed
qed

lemma withdraw_totals_exact:
  assumes "withdraw_totals j w lp p = Inr p'"
  shows "books p' = withdraw_books j (unat w) (unat lp) (books p)"
    and "lp \<le> total_lp_supply p"
    and "tranche_enabled p \<and> j \<longrightarrow> lp \<le> junior_total_lp p \<and> (lp \<noteq> junior_total_lp p \<longrightarrow> w \<le> junior_balance p)"
proof -
  obtain tw s where t: "unat tw = unat (total_withdrawn p) + unat w" "unat (total_lp_supply p) = unat s + unat lp"
    "(let p1 = p\<lparr>total_withdrawn := tw, total_lp_supply := s\<rparr> in
     if tranche_enabled p1 \<and> j then
       bind_err (ok_or (checked_sub (junior_total_lp p1) lp) (stake_err Overflow)) (\<lambda>new_junior_lp.
       let p2 = set_junior_total_lp new_junior_lp p1 in
       if new_junior_lp = 0 then settle_last_junior p2
       else bind_err (ok_or (checked_sub (junior_balance p2) w) (stake_err Overflow)) (\<lambda>jb.
            Inr (set_junior_balance jb p2)))
     else Inr p1) = Inr p'"
    using assms by (auto simp: withdraw_totals_def checked_add_eq_Some checked_sub_eq_Some)
  let ?p1 = "p\<lparr>total_withdrawn := tw, total_lp_supply := s\<rparr>"
  show "lp \<le> total_lp_supply p" using t(2) by (simp add: word_le_nat_alt)
  have "books p' = withdraw_books j (unat w) (unat lp) (books p)
    \<and> (tranche_enabled p \<and> j \<longrightarrow> lp \<le> junior_total_lp p \<and> (lp \<noteq> junior_total_lp p \<longrightarrow> w \<le> junior_balance p))"
  proof (cases "tranche_enabled p \<and> j")
    case False
    then have "p' = ?p1" using t(3) by (auto simp: Let_def)
    then show ?thesis using False t(1,2) by (auto simp: withdraw_books_def Let_def)
  next
    case True
    then obtain jl where "checked_sub (junior_total_lp p) lp = Some jl" and ex: "junior_exit_pool w jl ?p1 = Inr p'"
      using t(3) by (auto simp: Let_def)
    then have jl: "unat (junior_total_lp p) = unat jl + unat lp" by (simp add: checked_sub_eq_Some)
    have le: "lp \<le> junior_total_lp p" using jl by (simp add: word_le_nat_alt)
    show ?thesis
    proof (cases "jl = 0")
      case last: True
      then have "junior_total_lp p = lp" using jl by (simp add: word_unat_eq_iff)
      moreover have "settle_last_junior (set_junior_total_lp 0 ?p1) = Inr p'" using ex last by simp
      ultimately show ?thesis
        using settle_last_junior_books True t(1,2) by (fastforce simp: withdraw_books_def Let_def)
    next
      case more: False
      then obtain jb where "unat (junior_balance p) = unat jb + unat w"
        "p' = set_junior_balance jb (set_junior_total_lp jl ?p1)"
        using ex by (auto simp: checked_sub_eq_Some)
      moreover have "unat (junior_total_lp p) \<noteq> unat lp" using more jl by (simp add: unat_eq_0)
      ultimately show ?thesis
        using True t(1,2) jl le by (auto simp: withdraw_books_def Let_def word_le_nat_alt)
    qed
  qed
  then show "books p' = withdraw_books j (unat w) (unat lp) (books p)"
    "tranche_enabled p \<and> j \<longrightarrow> lp \<le> junior_total_lp p \<and> (lp \<noteq> junior_total_lp p \<longrightarrow> w \<le> junior_balance p)"
    by blast+
qed

lemma debit_record:
  assumes "debit_deposit_record lp r = Inr r'"
  shows "unat (lp_amount r) = unat (lp_amount r') + unat lp"
    and "lp_amount r' = 0 \<Longrightarrow> dep_is_initialized r' = 0 \<and> \<not> is_junior_deposit r'"
proof -
  obtain rest where rest: "unat (lp_amount r) = unat rest + unat lp"
    "r' = (if rest = 0 then r\<lparr>lp_amount := rest, dep_is_initialized := 0, dep_reserved := put_bytes 8 [0] (dep_reserved r)\<rparr>
           else r\<lparr>lp_amount := rest\<rparr>)"
    using assms by (auto simp: debit_deposit_record_def checked_sub_eq_Some Let_def)
  then show "unat (lp_amount r) = unat (lp_amount r') + unat lp" by simp
  show "lp_amount r' = 0 \<Longrightarrow> dep_is_initialized r' = 0 \<and> \<not> is_junior_deposit r'"
    using rest(2) by (auto simp: is_junior_deposit_def split: if_splits)
qed

text \<open>What a successful run of the handler has checked, read and called.\<close>

lemma withdraw_run:
  assumes "process E pid accs dt L = Inr L'" "unpack dt = Inr (Withdraw lp)" "pool_bytes_at L (key (accs ! 1)) p"
  obtains cl r0 bal p1 w p2 M1 M2 p3 r r' where
    "is_signer (accs ! 0)" "lp \<noteq> 0" "acc_owner (L (key (accs ! 7))) = pid" "deposit_bytes_at L (key (accs ! 7)) r0"
    "clock_from_account_info E (accs ! 9) L = Inr cl"
    "check_deposit_record (key (accs ! 1)) (key (accs ! 0)) (cooldown_slots p) (slot cl) lp r0 = Inr (is_junior_deposit r0)"
    "pool_mode p \<le> 1 \<longrightarrow> uint bal = tokens L (vault p)" "pre_accrue_pool bal p = Inr p1"
    "price_withdrawal (is_junior_deposit r0) lp p1 = Inr w" "w \<noteq> 0 \<or> fully_wiped_junior_exit (is_junior_deposit r0) w p1"
    "enforce_hwm_floor (epoch cl) w (fully_wiped_junior_exit (is_junior_deposit r0) w p1) p1 = Inr p2"
    "runtime_invoke E [key (accs ! 1)] (token_call 8 (key (accs ! 2)) (lp_mint p) (key (accs ! 0)) lp)
       [accs ! 2, accs ! 3, accs ! 0, accs ! 8] [] L = Inr M1"
    "if w = 0 then M2 = M1
     else runtime_invoke E [key (accs ! 1)] (token_call 3 (vault p) (key (accs ! 5)) (vault_authority E pid (key (accs ! 1))) w)
       [accs ! 4, accs ! 5, accs ! 6, accs ! 8] [vault_auth_seeds (accs ! 1) (vault_authority_bump p2)] M1 = Inr M2"
    "key (accs ! 5) \<noteq> vault p" "withdraw_totals (is_junior_deposit r0) w lp p2 = Inr p3"
    "deposit_bytes_at M2 (key (accs ! 7)) r" "debit_deposit_record lp r = Inr r'" "key (accs ! 7) \<noteq> key (accs ! 1)"
    "L' = write_pool (accs ! 1) p3 (write_deposit (accs ! 7) r' M2)"
proof -
  have "process_withdraw E pid accs lp L = Inr L'" using assms(1,2) by (simp add: process_def)
  then obtain q p1 p2 p3 w r0 r r' j M2 and cl :: Clock where
    a: "lp \<noteq> 0" "is_signer (accs ! 0)" "pool_bytes_at L (key (accs ! 1)) q"
    and k: "lp_mint q = key (accs ! 3)" "vault q = key (accs ! 4)" "key (accs ! 5) \<noteq> key (accs ! 4)"
      "key (accs ! 6) = fst (derive_vault_authority (find_program_address E) pid (key (accs ! 1)))"
    and dep: "validate_deposit_account E pid [key (accs ! 1)] (accs ! 1) (accs ! 0) (accs ! 7) L = Inr ()"
    and cl: "clock_from_account_info E (accs ! 9) L = Inr cl"
    and r0: "deposit_from_data (acc_data (L (key (accs ! 7)))) = Inr r0"
      "check_deposit_record (key (accs ! 1)) (key (accs ! 0)) (cooldown_slots q) (slot cl) lp r0 = Inr j"
    and pre: "pre_accrue_fee_modes [key (accs ! 1)] (accs ! 4) L q = Inr p1"
    and price: "price_withdrawal j lp p1 = Inr w" "\<not> (w = 0 \<and> \<not> fully_wiped_junior_exit j w p1)"
    and hwm: "enforce_hwm_floor (epoch cl) w (fully_wiped_junior_exit j w p1) p1 = Inr p2"
    and tr: "withdraw_transfers E pid [key (accs ! 1)] p2 (accs ! 1) (accs ! 0) (accs ! 2) (accs ! 3) (accs ! 4)
        (accs ! 5) (accs ! 6) (accs ! 8) lp w L = Inr M2"
    and tot: "withdraw_totals j w lp p2 = Inr p3" and ne: "key (accs ! 7) \<noteq> key (accs ! 1)"
    and r: "deposit_from_data (acc_data (M2 (key (accs ! 7)))) = Inr r" "debit_deposit_record lp r = Inr r'"
    and L': "L' = write_pool (accs ! 1) p3 (write_deposit (accs ! 7) r' M2)"
    unfolding process_withdraw_def by (auto simp: open_ok try_borrow_data_def)
  have qp: "q = p" using a(3) assms(3) pool_bytes_at_unique by blast
  obtain bal where bal: "pre_accrue_pool bal q = Inr p1"
    "pool_mode q \<le> 1 \<longrightarrow> vault_balance [key (accs ! 1)] (accs ! 4) L = Inr bal"
    by (rule pre_accrue_ok [OF pre])
  have j: "j = is_junior_deposit r0" using r0(2) by (simp add: check_deposit_record_def)
  have own: "acc_owner (L (key (accs ! 7))) = pid" using dep by (auto simp: validate_deposit_account_def account_owner_def)
  obtain M1 where b: "runtime_invoke E [key (accs ! 1)] (token_call 8 (key (accs ! 2)) (lp_mint q) (key (accs ! 0)) lp)
       [accs ! 2, accs ! 3, accs ! 0, accs ! 8] [] L = Inr M1"
    and t: "if w = 0 then M2 = M1
     else runtime_invoke E [key (accs ! 1)] (token_call 3 (vault q) (key (accs ! 5)) (vault_authority E pid (key (accs ! 1))) w)
       [accs ! 4, accs ! 5, accs ! 6, accs ! 8] [vault_auth_seeds (accs ! 1) (vault_authority_bump p2)] M1 = Inr M2"
    using tr k by (auto simp: withdraw_transfers_def token_call_builders vault_authority_def word_gt_0 split: if_splits)
  have pr: "w \<noteq> 0 \<or> fully_wiped_junior_exit j w p1" "key (accs ! 5) \<noteq> vault q" using price(2) k(2,3) by auto
  show thesis
  proof (rule that [of r0 cl bal p1 w p2 M1 M2 p3 r r'])
    show "deposit_bytes_at L (key (accs ! 7)) r0" "deposit_bytes_at M2 (key (accs ! 7)) r"
      using r0(1) r(1) by (auto simp: deposit_from_data_ok deposit_bytes_at_def)
    show "pool_mode p \<le> 1 \<longrightarrow> uint bal = tokens L (vault p)" using read_balance [OF bal(2) k(2) [symmetric]] qp by simp
  qed (use a cl r0(2) price(1) pr hwm tot r(2) L' own bal(1) b t ne in \<open>simp_all only: qp j not_False_eq_True\<close>)
qed

lemma token_calls_keep:
  assumes F: "cpi_frame E pid"
  shows "runtime_invoke E h (token_call t a b c x) infos sd L = Inr M \<Longrightarrow> keeps pid L M"
    and "if c0 then M = L else runtime_invoke E h (token_call t a b c x) infos sd L = Inr M \<Longrightarrow> keeps pid L M"
proof -
  show k: "runtime_invoke E h (token_call t a b c x) infos sd L = Inr M \<Longrightarrow> keeps pid L M" for L M
    using known_call_keeps [OF F] by (simp add: token_call_def)
  show "if c0 then M = L else runtime_invoke E h (token_call t a b c x) infos sd L = Inr M \<Longrightarrow> keeps pid L M"
    using k by (cases c0) auto
qed

lemma stored_keeps:
  assumes "keeps pid L M" "acc_owner (L k) = pid" "deposit_bytes_at L k r0" "deposit_bytes_at M k r"
  shows "r = r0" "acc_owner (M k) = pid"
  using assms by (simp_all add: keeps_def deposit_bytes_at_def)

text \<open>
  C13 (withdrawals).  A successful \<open>Withdraw\<close> is signed by the owner of the deposit record at
  account 7, which belongs to this pool, holds at least the burned LP, and is past its
  cooldown (or the clock is at its last slot).  The payout \<open>w\<close> is the quote of the record's tranche on the pool after fee accrual
  against the tokens the pool's own vault holds; it is nothing only for a wiped-out junior tranche.
  The program burns exactly \<open>lp\<close> of the owner's LP tokens and, signing as the vault authority,
  transfers exactly \<open>w\<close> out of the vault into another account; the record loses exactly that LP (and
  is closed when empty), and the books of the pool change as \<open>withdraw_books\<close> says and not otherwise.
\<close>

theorem withdraw_correct:
  assumes "cpi_frame E pid" "ledger_ok E pid L" "process E pid accs dt L = Inr L'" "unpack dt = Inr (Withdraw lp)"
    "live_at pid L k p" "live_at pid L' k p'" "k = key (accs ! 1)"
  shows "\<exists>r r' now bal p1 w M1 M2.
      is_signer (accs ! 0) \<and> stored pid L (key (accs ! 7)) = Some r \<and> dep_user r = key (accs ! 0) \<and> dep_pool r = k
    \<and> lp \<noteq> 0 \<and> lp \<le> lp_amount r
    \<and> clock_from_account_info E (accs ! 9) L = Inr now
    \<and> (unat (last_deposit_slot r) + unat (cooldown_slots p) \<le> unat (slot now) \<or> slot now = U64_MAX)
    \<and> (pool_mode p \<le> 1 \<longrightarrow> uint bal = tokens L (vault p))
    \<and> pre_accrue_pool bal p = Inr p1 \<and> price_withdrawal (is_junior_deposit r) lp p1 = Inr w
    \<and> (w = 0 \<longrightarrow> tranche_enabled p1 \<and> is_junior_deposit r \<and> effective_junior_balance p1 = 0)
    \<and> runtime_invoke E [k] (token_call 8 (key (accs ! 2)) (lp_mint p) (key (accs ! 0)) lp)
         [accs ! 2, accs ! 3, accs ! 0, accs ! 8] [] L = Inr M1
    \<and> (if w = 0 then M2 = M1
       else key (accs ! 5) \<noteq> vault p
         \<and> runtime_invoke E [k] (token_call 3 (vault p) (key (accs ! 5)) (vault_authority E pid k) w)
             [accs ! 4, accs ! 5, accs ! 6, accs ! 8] [vault_auth_seeds (accs ! 1) (vault_authority_bump p)] M1 = Inr M2)
    \<and> L' = write_pool (accs ! 1) p' (write_deposit (accs ! 7) r' M2)
    \<and> stored pid L' (key (accs ! 7)) = Some r' \<and> unat (lp_amount r) = unat (lp_amount r') + unat lp
    \<and> (lp_amount r' = 0 \<longrightarrow> dep_is_initialized r' = 0 \<and> \<not> is_junior_deposit r')
    \<and> books p' = withdraw_books (is_junior_deposit r) (unat w) (unat lp) (books p1)
    \<and> unat (total_lp_supply p) = unat (total_lp_supply p') + unat lp
    \<and> (tranche_enabled p1 \<and> is_junior_deposit r \<longrightarrow>
         lp \<le> junior_total_lp p1 \<and> (lp \<noteq> junior_total_lp p1 \<longrightarrow> w \<le> junior_balance p1))"
proof -
  have pb: "pool_bytes_at L (key (accs ! 1)) p" "pool_bytes_at L' (key (accs ! 1)) p'"
    using assms(5-7) by (simp_all add: live_at_def)
  obtain now r0 bal p1 w p2 M1 M2 p3 r r' where
    a: "is_signer (accs ! 0)" "lp \<noteq> 0" "acc_owner (L (key (accs ! 7))) = pid" "deposit_bytes_at L (key (accs ! 7)) r0"
    and cl: "clock_from_account_info E (accs ! 9) L = Inr now"
      "check_deposit_record (key (accs ! 1)) (key (accs ! 0)) (cooldown_slots p) (slot now) lp r0 = Inr (is_junior_deposit r0)"
    and pr: "pool_mode p \<le> 1 \<longrightarrow> uint bal = tokens L (vault p)" "pre_accrue_pool bal p = Inr p1"
      "price_withdrawal (is_junior_deposit r0) lp p1 = Inr w" "w \<noteq> 0 \<or> fully_wiped_junior_exit (is_junior_deposit r0) w p1"
      "enforce_hwm_floor (epoch now) w (fully_wiped_junior_exit (is_junior_deposit r0) w p1) p1 = Inr p2"
    and b: "runtime_invoke E [key (accs ! 1)] (token_call 8 (key (accs ! 2)) (lp_mint p) (key (accs ! 0)) lp)
       [accs ! 2, accs ! 3, accs ! 0, accs ! 8] [] L = Inr M1"
    and t: "if w = 0 then M2 = M1
     else runtime_invoke E [key (accs ! 1)] (token_call 3 (vault p) (key (accs ! 5)) (vault_authority E pid (key (accs ! 1))) w)
       [accs ! 4, accs ! 5, accs ! 6, accs ! 8] [vault_auth_seeds (accs ! 1) (vault_authority_bump p2)] M1 = Inr M2"
    and e: "key (accs ! 5) \<noteq> vault p" "withdraw_totals (is_junior_deposit r0) w lp p2 = Inr p3"
      "deposit_bytes_at M2 (key (accs ! 7)) r" "debit_deposit_record lp r = Inr r'" "key (accs ! 7) \<noteq> key (accs ! 1)"
      "L' = write_pool (accs ! 1) p3 (write_deposit (accs ! 7) r' M2)"
    by (rule withdraw_run [OF assms(3,4) pb(1)])
  have "keeps pid L M2"
    by (rule keeps_trans [OF token_calls_keep(1) [OF assms(1) b] token_calls_keep(2) [OF assms(1) t]])
  note rr = stored_keeps [OF this a(3,4) e(3)]
  have p3: "p3 = p'" using pb(2) pool_written unfolding e(6) by blast
  have st: "stored pid L (key (accs ! 7)) = Some r0" by (rule stored_SomeD [OF a(3,4)])
  have st': "stored pid L' (key (accs ! 7)) = Some r'"
    unfolding e(6) write_pool_stored [OF e(5)] by (rule write_deposit_stored(1) [OF rr(2) e(3)])
  have id: "vault_authority_bump p2 = vault_authority_bump p"
    using pre_accrue_identity [OF pr(2)] hwm_floor_identity [OF pr(5)] by (simp add: identity_def)
  note wt = withdraw_totals_exact [OF e(2), unfolded p3]
  have b2: "books p2 = books p1" by (rule hwm_books(1) [OF pr(5)])
  then have f: "tranche_enabled p2 = tranche_enabled p1" "junior_total_lp p2 = junior_total_lp p1"
    "junior_balance p2 = junior_balance p1" "total_lp_supply p2 = total_lp_supply p1"
    unfolding books_def by (simp_all add: word_unat_eq_iff)
  have s: "total_lp_supply p1 = total_lp_supply p" by (rule pre_accrue_lp_supply [OF pr(2)])
  have sup: "unat (total_lp_supply p) = unat (total_lp_supply p') + unat lp"
    using wt(2) f(4) s arg_cong [OF wt(1), of b_supply] by (simp add: word_le_nat_alt)
  have cd: "unat (last_deposit_slot r0) + unat (cooldown_slots p) \<le> unat (slot now) \<or> slot now = U64_MAX"
    "dep_user r0 = key (accs ! 0)" "dep_pool r0 = k" "lp \<le> lp_amount r0"
    using check_record_ok [OF cl(2)] assms(7) by auto
  have wz: "w = 0 \<longrightarrow> tranche_enabled p1 \<and> is_junior_deposit r0 \<and> effective_junior_balance p1 = 0"
    using pr(4) by (simp add: fully_wiped_junior_exit_def)
  show ?thesis
    by (intro exI [of _ r0] exI [of _ r'] exI [of _ now] exI [of _ bal] exI [of _ p1] exI [of _ w] exI [of _ M1] exI [of _ M2])
       (use a(1,2) cl(1) pr(1-3) b t e(1,6) st st' cd wz wt(1,3) [unfolded b2 f] sup debit_record [OF e(4) [unfolded rr(1)]]
         id p3 assms(7) in \<open>simp split: if_splits\<close>)
qed

lemma sample_reduced_live: "live_at sample_pid sample_withdrawn (fill 42) sample_reduced"
proof -
  let ?L = "write_deposit (ai 77 False) (sample_record\<lparr>lp_amount := 3000\<rparr>) (sample_draw sample_matured)"
  have "?L (fill 42) = sample_matured (fill 42)" by (simp add: sample_draw_def with_tokens_def)
  then have "live_at sample_pid ?L (fill 42) sample_funded"
    using sample_matured_live by (simp add: live_at_def pool_bytes_at_def)
  moreover have "identity sample_reduced = identity sample_funded" by (simp add: sample_reduced_def)
  ultimately show ?thesis
    using write_live [of sample_pid ?L "ai 42 False" sample_funded sample_reduced] by (simp add: sample_withdrawn_def)
qed

theorem withdraw_correct_witness:
  "\<exists>r' w M1 M2. runtime_invoke sample_env [fill 42] (token_call 3 (fill 4) (fill 11) (fill 43) w)
       [ai 4 False, ai 11 False, ai 43 False, program_ai spl_token_id] [vault_auth_seeds (ai 42 False) 254] M1 = Inr M2
     \<and> price_withdrawal False 2000 sample_funded = Inr w \<and> w \<noteq> 0
     \<and> stored sample_pid sample_withdrawn (fill 77) = Some r' \<and> unat (lp_amount r') = 3000
     \<and> books sample_reduced = withdraw_books False (unat w) 2000 (books sample_funded)"
proof -
  have st: "stored sample_pid sample_matured (fill 77) = Some sample_record"
    using deposit_layout.dec_enc [of sample_record "[]"]
    by (intro stored_SomeD) (simp_all add: sample_matured_at deposit_bytes_at_def deposit_layout.enc_length)
  have t: "tokens sample_matured (fill 4) = 5000" by (simp add: tokens_def sample_matured_at)
  have acc: "pre_accrue_pool bal sample_funded = Inr p1 \<Longrightarrow> uint bal = 5000 \<Longrightarrow> p1 = sample_funded" for bal p1
    using sample_payout(1) by (auto simp: pre_accrue_pool_def accrue_fees_inner_eq word_less_def)
  have pay: "price_withdrawal False 2000 sample_funded = Inr 2000" by (rule sample_payout(2))
  show ?thesis
    using withdraw_correct [OF sample_frame sample_matured_ok sample_withdraw unpack_pack sample_matured_live sample_reduced_live]
    by (auto simp: sample_withdraw_accounts_def st t pay vault_authority_def dest!: acc) blast+
qed

section \<open>Deposits\<close>

lemma credit_fields:
  "credit_senior_record pl u b now m r = Inr r' \<Longrightarrow>
     dep_user r' = u \<and> dep_pool r' = pl \<and> dep_is_initialized r' = 1 \<and> last_deposit_slot r' = now
     \<and> \<not> is_junior_deposit r' \<and> unat (lp_amount r') = unat (lp_amount r) + unat m"
  "credit_junior_record pl u b now m r = Inr r' \<Longrightarrow>
     dep_user r' = u \<and> dep_pool r' = pl \<and> dep_is_initialized r' = 1 \<and> last_deposit_slot r' = now
     \<and> is_junior_deposit r' \<and> unat (lp_amount r') = unat (lp_amount r) + unat m"
  by (auto simp: credit_senior_record_def credit_junior_record_def checked_add_eq_Some Let_def split: if_splits)

lemma cap_respected:
  "check_deposit_cap a p = Inr () \<Longrightarrow> deposit_cap p > 0 \<Longrightarrow>
     \<exists>v. principal_tvl p = Some v \<and> unat v + unat a \<le> unat (deposit_cap p)"
  by (auto simp: check_deposit_cap_def checked_add_eq_Some not_less word_le_nat_alt)

text \<open>The quote of the deposit's tranche.\<close>

definition deposit_quote :: "bool \<Rightarrow> u64 \<Rightarrow> StakePool \<Rightarrow> (u64 \<times> u64) result" where
  "deposit_quote j a p = (if j then price_deposit_junior a p else price_deposit a p)"

definition deposit_of :: "bool \<Rightarrow> u64 \<Rightarrow> StakeInstruction" where
  "deposit_of j a = (if j then DepositJunior a else Deposit a)"

text \<open>The books after a deposit of \<open>a\<close> for \<open>lp\<close>, senior or junior.\<close>

definition deposit_books :: "bool \<Rightarrow> nat \<Rightarrow> nat \<Rightarrow> books \<Rightarrow> books" where
  "deposit_books j a lp b =
     b\<lparr>b_deposited := b_deposited b + a, b_supply := b_supply b + lp,
       b_junior_lp := b_junior_lp b + (if j then lp else 0), b_junior := b_junior b + (if j then a else 0)\<rparr>"

lemma deposit_totals_exact:
  "deposit_totals a lp p = Inr p' \<Longrightarrow> books p' = deposit_books False (unat a) (unat lp) (books p)"
  "deposit_junior_totals a lp p = Inr p' \<Longrightarrow> books p' = deposit_books True (unat a) (unat lp) (books p)"
  by (auto simp: deposit_totals_def deposit_junior_totals_def deposit_books_def checked_add_eq_Some Let_def)

text \<open>All quoted LP is credited; only the very first deposit locks 1000 of it away.\<close>

lemma quote_lock:
  assumes "deposit_quote j a p = Inr (lp, m)"
  shows "m \<noteq> 0" "unat lp = unat m + (if total_lp_supply p = 0 then 1000 else 0)"
proof -
  have "apply_minimum_liquidity_lock (total_lp_supply p) lp = Inr m" "lp \<noteq> 0"
    using assms by (auto simp: deposit_quote_def price_deposit_def price_deposit_junior_def Let_def split: if_splits)
  then show "m \<noteq> 0" "unat lp = unat m + (if total_lp_supply p = 0 then 1000 else 0)"
    by (auto simp: apply_minimum_liquidity_lock_def MINIMUM_LIQUIDITY_def checked_sub_eq_Some split: if_splits)
qed

lemma deposit_run:
  assumes "process E pid accs dt L = Inr L'" "unpack dt = Inr (deposit_of j a)" "pool_bytes_at L (key (accs ! 1)) p"
  obtains bal p1 lp m M1 M2 p2 cl p3 L2 where
    "is_signer (accs ! 0)" "a \<noteq> 0" "\<not> market_resolved p" "j \<longrightarrow> tranche_enabled p" "check_deposit_cap a p = Inr ()"
    "pool_mode p \<le> 1 \<longrightarrow> uint bal = tokens L (vault p)" "pre_accrue_pool bal p = Inr p1" "deposit_quote j a p1 = Inr (lp, m)"
    "runtime_invoke E [key (accs ! 1)] (token_call 3 (key (accs ! 2)) (vault p) (key (accs ! 0)) a)
       [accs ! 2, accs ! 3, accs ! 0, accs ! 8] [] L = Inr M1"
    "runtime_invoke E [key (accs ! 1)] (token_call 7 (lp_mint p) (key (accs ! 5)) (vault_authority E pid (key (accs ! 1))) m)
       [accs ! 4, accs ! 5, accs ! 6, accs ! 8]
       [vault_auth_seeds (accs ! 1) (snd (derive_vault_authority (find_program_address E) pid (key (accs ! 1))))] M1 = Inr M2"
    "books p2 = deposit_books j (unat a) (unat lp) (books p1)" "clock_from_account_info E (accs ! 9) M2 = Inr cl"
    "deposit_refresh_hwm (epoch cl) p2 = Inr p3"
    "credit_deposit (if j then credit_junior_record else credit_senior_record) E pid [key (accs ! 1)] (accs ! 1) (accs ! 0)
       (accs ! 7) (accs ! 10) (slot cl) lp M2 = Inr L2"
    "L' = write_pool (accs ! 1) p3 L2"
proof -
  have "(if j then process_deposit_junior E pid accs a L else process_deposit E pid accs a L) = Inr L'"
    using assms(1,2) by (simp add: process_def deposit_of_def split: if_splits)
  then obtain q p1 p2 p3 lp m M2 L2 and cl :: Clock where
    a: "is_signer (accs ! 0)" "a \<noteq> 0" "j \<longrightarrow> tranche_enabled q" "pool_bytes_at L (key (accs ! 1)) q"
    and ck: "deposit_checks E pid q (accs ! 1) (accs ! 3) (accs ! 4) (accs ! 6) a = Inr ()"
    and pre: "pre_accrue_fee_modes [key (accs ! 1)] (accs ! 3) L q = Inr p1"
    and st: "deposit_quote j a p1 = Inr (lp, m)"
      "(if j then deposit_junior_totals a lp p1 else deposit_totals a lp p1) = Inr p2" "deposit_refresh_hwm (epoch cl) p2 = Inr p3"
    and tr: "deposit_transfers E pid [key (accs ! 1)] (accs ! 1) (accs ! 0) (accs ! 2) (accs ! 3) (accs ! 4)
        (accs ! 5) (accs ! 6) (accs ! 8) a m L = Inr M2"
    and cl: "clock_from_account_info E (accs ! 9) M2 = Inr cl"
    and cr: "credit_deposit (if j then credit_junior_record else credit_senior_record) E pid [key (accs ! 1)] (accs ! 1) (accs ! 0)
       (accs ! 7) (accs ! 10) (slot cl) lp M2 = Inr L2"
    and L': "L' = write_pool (accs ! 1) p3 L2"
    unfolding process_deposit_def process_deposit_junior_def
    by (cases j) (auto simp: open_ok case_prod_beta deposit_quote_def)
  have qp: "q = p" using a(4) assms(3) pool_bytes_at_unique by blast
  have k: "lp_mint q = key (accs ! 4)" "vault q = key (accs ! 3)" "\<not> market_resolved q" "check_deposit_cap a q = Inr ()"
    "key (accs ! 6) = fst (derive_vault_authority (find_program_address E) pid (key (accs ! 1)))"
    using ck by (auto simp: deposit_checks_def)
  obtain bal where bal: "pre_accrue_pool bal q = Inr p1"
    "pool_mode q \<le> 1 \<longrightarrow> vault_balance [key (accs ! 1)] (accs ! 3) L = Inr bal"
    by (rule pre_accrue_ok [OF pre])
  have b2: "books p2 = deposit_books j (unat a) (unat lp) (books p1)"
    using st(2) deposit_totals_exact by (cases j) auto
  obtain M1 where t: "runtime_invoke E [key (accs ! 1)] (token_call 3 (key (accs ! 2)) (vault q) (key (accs ! 0)) a)
       [accs ! 2, accs ! 3, accs ! 0, accs ! 8] [] L = Inr M1"
    "runtime_invoke E [key (accs ! 1)] (token_call 7 (lp_mint q) (key (accs ! 5)) (vault_authority E pid (key (accs ! 1))) m)
       [accs ! 4, accs ! 5, accs ! 6, accs ! 8]
       [vault_auth_seeds (accs ! 1) (snd (derive_vault_authority (find_program_address E) pid (key (accs ! 1))))] M1 = Inr M2"
    using tr k by (auto simp: deposit_transfers_def token_call_builders vault_authority_def case_prod_beta)
  show thesis
  proof (rule that [of bal p1 lp m M1 M2 p2 cl p3 L2])
    show "pool_mode p \<le> 1 \<longrightarrow> uint bal = tokens L (vault p)" using read_balance [OF bal(2) k(2) [symmetric]] qp by simp
  qed (use a k(3,4) bal(1) st(1,3) b2 t cl cr L' in \<open>simp_all only: qp not_False_eq_True\<close>)
qed

text \<open>
  C14 (deposits).  A successful \<open>Deposit\<close> or \<open>DepositJunior\<close> is signed by the depositor, on a
  pool that is not resolved, within its cap.  The LP issued is the quote of the tranche on the pool
  after fee accrual against the tokens the pool's own vault holds.  The program transfers exactly
  the amount from the named account into the vault and mints that LP (less the 1000 the first
  deposit of a pool locks) to account 5; the books of the pool gain the amount, the LP and, for a
  junior deposit, both in the junior tranche, and nothing else; the depositor's record, of that
  tranche, is credited with the LP and its cooldown restarts at the current slot.
\<close>

theorem deposit_correct:
  assumes "cpi_frame E pid" "ledger_ok E pid L" "process E pid accs dt L = Inr L'" "unpack dt = Inr (deposit_of j a)"
    "live_at pid L k p" "live_at pid L' k p'" "k = key (accs ! 1)"
  shows "\<exists>bal p1 lp m r' now M1 M2.
      is_signer (accs ! 0) \<and> a \<noteq> 0 \<and> \<not> market_resolved p \<and> (j \<longrightarrow> tranche_enabled p)
    \<and> (deposit_cap p > 0 \<longrightarrow> (\<exists>v. principal_tvl p = Some v \<and> unat v + unat a \<le> unat (deposit_cap p)))
    \<and> (pool_mode p \<le> 1 \<longrightarrow> uint bal = tokens L (vault p))
    \<and> pre_accrue_pool bal p = Inr p1 \<and> deposit_quote j a p1 = Inr (lp, m)
    \<and> m \<noteq> 0 \<and> unat lp = unat m + (if total_lp_supply p = 0 then 1000 else 0)
    \<and> runtime_invoke E [k] (token_call 3 (key (accs ! 2)) (vault p) (key (accs ! 0)) a)
         [accs ! 2, accs ! 3, accs ! 0, accs ! 8] [] L = Inr M1
    \<and> runtime_invoke E [k] (token_call 7 (lp_mint p) (key (accs ! 5)) (vault_authority E pid k) m)
         [accs ! 4, accs ! 5, accs ! 6, accs ! 8]
         [vault_auth_seeds (accs ! 1) (snd (derive_vault_authority (find_program_address E) pid k))] M1 = Inr M2
    \<and> books p' = deposit_books j (unat a) (unat lp) (books p1)
    \<and> stored pid L' (key (accs ! 7)) = Some r' \<and> dep_user r' = key (accs ! 0) \<and> dep_pool r' = k
    \<and> dep_is_initialized r' = 1 \<and> is_junior_deposit r' = j
    \<and> unat (lp_amount r') = lp_of (stored pid L (key (accs ! 7))) + unat lp
    \<and> clock_from_account_info E (accs ! 9) M2 = Inr now \<and> last_deposit_slot r' = slot now"
proof -
  have pb: "pool_bytes_at L (key (accs ! 1)) p" "pool_bytes_at L' (key (accs ! 1)) p'"
    using assms(5-7) by (simp_all add: live_at_def)
  obtain bal p1 lp m M1 M2 p2 cl p3 L2 where
    a: "is_signer (accs ! 0)" "a \<noteq> 0" "\<not> market_resolved p" "j \<longrightarrow> tranche_enabled p" "check_deposit_cap a p = Inr ()"
    and q: "pool_mode p \<le> 1 \<longrightarrow> uint bal = tokens L (vault p)" "pre_accrue_pool bal p = Inr p1" "deposit_quote j a p1 = Inr (lp, m)"
    and t: "runtime_invoke E [key (accs ! 1)] (token_call 3 (key (accs ! 2)) (vault p) (key (accs ! 0)) a)
       [accs ! 2, accs ! 3, accs ! 0, accs ! 8] [] L = Inr M1"
      "runtime_invoke E [key (accs ! 1)] (token_call 7 (lp_mint p) (key (accs ! 5)) (vault_authority E pid (key (accs ! 1))) m)
       [accs ! 4, accs ! 5, accs ! 6, accs ! 8]
       [vault_auth_seeds (accs ! 1) (snd (derive_vault_authority (find_program_address E) pid (key (accs ! 1))))] M1 = Inr M2"
    and c: "books p2 = deposit_books j (unat a) (unat lp) (books p1)" "clock_from_account_info E (accs ! 9) M2 = Inr cl"
      "deposit_refresh_hwm (epoch cl) p2 = Inr p3"
      "credit_deposit (if j then credit_junior_record else credit_senior_record) E pid [key (accs ! 1)] (accs ! 1) (accs ! 0)
       (accs ! 7) (accs ! 10) (slot cl) lp M2 = Inr L2"
      "L' = write_pool (accs ! 1) p3 L2"
    by (rule deposit_run [OF assms(3,4) pb(1)])
  obtain L0 b r r' where d: "keeps pid M2 L0" "acc_owner (L0 (key (accs ! 7))) = pid" "key (accs ! 7) \<noteq> key (accs ! 1)"
    "deposit_bytes_at L0 (key (accs ! 7)) r"
    "(if j then credit_junior_record else credit_senior_record) (key (accs ! 1)) (key (accs ! 0)) b (slot cl) lp r = Inr r'"
    "L2 = write_deposit (accs ! 7) r' L0"
    by (rule credit_deposit_ok [OF assms(1) c(4)])
  have p3: "p3 = p'" using pb(2) pool_written unfolding c(5) by blast
  have "keeps pid L L0"
    by (intro keeps_trans [OF token_calls_keep(1) [OF assms(1) t(1)]] keeps_trans [OF token_calls_keep(1) [OF assms(1) t(2)]] d(1))
  then have "lp_of (stored pid L (key (accs ! 7))) = unat (lp_amount r)"
    using keeps_stored(1) [of pid L L0 "key (accs ! 7)"] stored_SomeD [OF d(2,4)] by (simp add: lp_of_def)
  moreover have "stored pid L' (key (accs ! 7)) = Some r'"
    unfolding c(5) d(6) write_pool_stored [OF d(3)] by (rule write_deposit_stored(1) [OF d(2,4)])
  moreover have "dep_user r' = key (accs ! 0) \<and> dep_pool r' = k \<and> dep_is_initialized r' = 1 \<and> last_deposit_slot r' = slot cl
     \<and> is_junior_deposit r' = j \<and> unat (lp_amount r') = unat (lp_amount r) + unat lp"
    using d(5) credit_fields assms(7) by (cases j) auto
  moreover have "books p' = deposit_books j (unat a) (unat lp) (books p1)" using hwm_books(2) [OF c(3)] c(1) p3 by simp
  moreover note quote_lock [OF q(3)] pre_accrue_lp_supply [OF q(2)] cap_respected [OF a(5)]
  ultimately show ?thesis
    by (intro exI [of _ bal] exI [of _ p1] exI [of _ lp] exI [of _ m] exI [of _ r'] exI [of _ cl] exI [of _ M1] exI [of _ M2])
       (use a(1-4) q t c(2) assms(7) in simp)
qed

text \<open>The first deposit of the sample pool, and the first junior deposit of the tranched one.\<close>

theorem deposit_correct_witness:
  "(\<exists>lp r'. deposit_quote False 5000 sample_pool = Inr lp \<and> stored sample_pid sample_deposited (fill 77) = Some r'
      \<and> \<not> is_junior_deposit r' \<and> books sample_funded = deposit_books False 5000 (unat (fst lp)) (books sample_pool))
   \<and> (\<exists>lp r'. deposit_quote True 5000 sample_tranched = Inr lp \<and> stored sample_pid sample_junior_deposited (fill 77) = Some r'
      \<and> is_junior_deposit r' \<and> books sample_junior = deposit_books True 5000 (unat (fst lp)) (books sample_tranched))"
proof
  have u: "unpack (pack (Deposit 5000)) = Inr (deposit_of False 5000)" unfolding deposit_of_def by (simp only: unpack_pack if_False)
  have acc: "pre_accrue_pool bal sample_pool = Inr p1 \<Longrightarrow> p1 = sample_pool" for bal p1
    by (auto simp: pre_accrue_pool_def accrue_fees_inner_eq sample_price)
  show "\<exists>lp r'. deposit_quote False 5000 sample_pool = Inr lp \<and> stored sample_pid sample_deposited (fill 77) = Some r'
      \<and> \<not> is_junior_deposit r' \<and> books sample_funded = deposit_books False 5000 (unat (fst lp)) (books sample_pool)"
    using deposit_correct [OF sample_frame sample_ledger_ok sample_deposit u sample_live sample_deposited_live]
    by (auto simp: sample_deposit_accounts_def dest!: acc)
next
  have u: "unpack (pack (DepositJunior 5000)) = Inr (deposit_of True 5000)" unfolding deposit_of_def by (simp only: unpack_pack if_True)
  have acc: "pre_accrue_pool bal sample_tranched = Inr p1 \<Longrightarrow> p1 = sample_tranched" for bal p1
    by (auto simp: pre_accrue_pool_def accrue_fees_inner_eq stage_values split: if_splits)
  show "\<exists>lp r'. deposit_quote True 5000 sample_tranched = Inr lp \<and> stored sample_pid sample_junior_deposited (fill 77) = Some r'
      \<and> is_junior_deposit r' \<and> books sample_junior = deposit_books True 5000 (unat (fst lp)) (books sample_tranched)"
    using deposit_correct [OF sample_frame sample_tranched_ok sample_junior_deposit u sample_tranched_live sample_junior_live]
    by (auto simp: sample_deposit_accounts_def dest!: acc)
qed

end
