(* ===== verification/Insurance_Flow.thy ===== *)
theory Insurance_Flow
  imports Trades
begin

text \<open>
  What one flush, return or recovery of insurance does, to the last counter: who may make it, how
  much, the call it issues, and the pool afterwards.
\<close>

section \<open>Calls into the wrapper\<close>

text \<open>The top-up of the market's insurance out of a vault, and the payout of its asset 0 into a vault.\<close>

definition top_up_call :: "pubkey \<Rightarrow> pubkey \<Rightarrow> pubkey \<Rightarrow> pubkey \<Rightarrow> pubkey \<Rightarrow> u64 \<Rightarrow> Instruction" where
  "top_up_call program auth market from to x =
     \<lparr>ix_program_id = program,
      ix_accounts = [meta_new_readonly auth True, meta_new market False, meta_new from False, meta_new to False,
                     meta_new_readonly spl_token_id False],
      ix_data = 9 # to_le_bytes (ucast x :: u128)\<rparr>"

definition payout_call :: "pubkey \<Rightarrow> pubkey \<Rightarrow> pubkey \<Rightarrow> pubkey \<Rightarrow> pubkey \<Rightarrow> pubkey \<Rightarrow> u64 \<Rightarrow> Instruction" where
  "payout_call program auth market to from owner x =
     \<lparr>ix_program_id = program,
      ix_accounts = [meta_new_readonly auth True, meta_new market False, meta_new to False, meta_new from False,
                     meta_new_readonly owner False, meta_new_readonly spl_token_id False],
      ix_data = 57 # to_le_bytes (0 :: u16) @ to_le_bytes (ucast x :: u128)\<rparr>"

lemma wrapper_call_builders:
  assumes "key t = spl_token_id"
  shows "top_up_insurance_ix pr s m a v t x = top_up_call (key pr) (key s) (key m) (key a) (key v) x"
    and "withdraw_insurance_asset_ix pr s m a v w t x = payout_call (key pr) (key s) (key m) (key a) (key v) (key w) x"
  using assms by (simp_all add: top_up_insurance_ix_def withdraw_insurance_asset_ix_def top_up_call_def payout_call_def
      wrapper_tags ASSET_INDEX_ZERO_def)

section \<open>The outcomes\<close>

text \<open>A flush of \<open>a\<close> out of the pool \<open>p\<close> at \<open>k\<close>: who asked for it, within which limits, the top-up called, and the pool written back.\<close>

definition flush_outcome ::
  "env \<Rightarrow> pubkey \<Rightarrow> AccountInfo list \<Rightarrow> u64 \<Rightarrow> pubkey \<Rightarrow> StakePool \<Rightarrow> ledger \<Rightarrow> ledger \<Rightarrow> bool" where
  "flush_outcome E pid accs a k p L L' \<longleftrightarrow> (\<exists>v M p'.
        is_signer (accs ! 0) \<and> admin p = key (accs ! 0) \<and> pool_mode p = 0 \<and> \<not> market_resolved p
      \<and> a \<noteq> 0 \<and> total_pool_value p = Some v \<and> a \<le> v
      \<and> token_mint (acc_data (L (key (accs ! 5)))) = collateral_mint p
      \<and> runtime_invoke E [k] (top_up_call (percolator_program p) (vault_authority E pid k) (slab p) (vault p) (key (accs ! 5)) a)
          [accs ! 3, accs ! 4, accs ! 2, accs ! 5, accs ! 7]
          [vault_auth_seeds (accs ! 1) (snd (derive_vault_authority (find_program_address E) pid k))] L = Inr M
      \<and> L' = write_pool (accs ! 1) p' M
      \<and> unat (total_flushed p') = unat (total_flushed p) + unat a
      \<and> unat (epoch_high_water_tvl p') = unat (epoch_high_water_tvl p) - unat a
      \<and> p' = set_epoch_high_water_tvl (epoch_high_water_tvl p') (p\<lparr>total_flushed := total_flushed p'\<rparr>))"

text \<open>A return of \<open>a\<close> out of the admin's own token account.\<close>

definition return_outcome ::
  "env \<Rightarrow> pubkey \<Rightarrow> AccountInfo list \<Rightarrow> u64 \<Rightarrow> pubkey \<Rightarrow> StakePool \<Rightarrow> ledger \<Rightarrow> ledger \<Rightarrow> bool" where
  "return_outcome E pid accs a k p L L' \<longleftrightarrow> (\<exists>M p'.
        is_signer (accs ! 0) \<and> admin p = key (accs ! 0)
      \<and> a \<noteq> 0 \<and> unat a \<le> unat (total_flushed p) - unat (total_returned p)
      \<and> token_mint (acc_data (L (key (accs ! 2)))) = collateral_mint p \<and> token_owner (acc_data (L (key (accs ! 2)))) = admin p
      \<and> runtime_invoke E [k] (token_call 3 (key (accs ! 2)) (vault p) (admin p) a) [accs ! 2, accs ! 3, accs ! 0] [] L = Inr M
      \<and> L' = write_pool (accs ! 1) p' M
      \<and> unat (total_returned p') = unat (total_returned p) + unat a
      \<and> p' = p\<lparr>total_returned := total_returned p'\<rparr>)"

text \<open>A recovery of \<open>a\<close> from the wrapper.\<close>

definition recover_outcome ::
  "env \<Rightarrow> pubkey \<Rightarrow> AccountInfo list \<Rightarrow> u64 \<Rightarrow> pubkey \<Rightarrow> StakePool \<Rightarrow> ledger \<Rightarrow> ledger \<Rightarrow> bool" where
  "recover_outcome E pid accs a k p L L' \<longleftrightarrow> (\<exists>M p'.
        pool_mode p = 0 \<and> a \<noteq> 0
      \<and> unat a \<le> unat (total_flushed p) - unat (realized_junior_loss p) - unat (total_recovered_from_wrapper p)
      \<and> runtime_invoke E [k]
          (payout_call (percolator_program p) (vault_authority E pid k) (key (accs ! 4)) (vault p) (key (accs ! 5)) (key (accs ! 6)) a)
          [accs ! 3, accs ! 4, accs ! 2, accs ! 5, accs ! 6, accs ! 7]
          [vault_auth_seeds (accs ! 1) (snd (derive_vault_authority (find_program_address E) pid k))] L = Inr M
      \<and> L' = write_pool (accs ! 1) p' M
      \<and> unat (total_returned p') = unat (total_returned p) + unat a
      \<and> unat (total_recovered_from_wrapper p') = unat (total_recovered_from_wrapper p) + unat a
      \<and> p' = p\<lparr>total_returned := total_returned p', total_recovered_from_wrapper := total_recovered_from_wrapper p'\<rparr>)"

section \<open>The three handlers\<close>

lemma flush_pool_exact:
  assumes "flush_pool a p = Inr p'"
  shows "unat (total_flushed p') = unat (total_flushed p) + unat a"
    and "unat (epoch_high_water_tvl p') = unat (epoch_high_water_tvl p) - unat a"
    and "p' = set_epoch_high_water_tvl (epoch_high_water_tvl p') (p\<lparr>total_flushed := total_flushed p'\<rparr>)"
  using assms by (auto simp: flush_pool_def checked_add_eq_Some Let_def)

lemma recover_pool_exact:
  assumes "recover_pool a p = Inr p'"
  shows "unat (total_returned p') = unat (total_returned p) + unat a"
    and "unat (total_recovered_from_wrapper p') = unat (total_recovered_from_wrapper p) + unat a"
    and "p' = p\<lparr>total_returned := total_returned p', total_recovered_from_wrapper := total_recovered_from_wrapper p'\<rparr>"
  using assms by (auto simp: recover_pool_def checked_add_eq_Some)

lemma return_pool_exact:
  assumes "return_pool a p = Inr p'"
  shows "unat (total_returned p') = unat (total_returned p) + unat a" and "p' = p\<lparr>total_returned := total_returned p'\<rparr>"
  using assms by (auto simp: return_pool_def checked_add_eq_Some)

lemma flush_run:
  assumes "process E pid accs dt L = Inr L'" "unpack dt = Inr (FlushToInsurance a)" "live_at pid L k p" "k = key (accs ! 1)"
  shows "flush_outcome E pid accs a k p L L'"
proof -
  obtain q q' v M b where q: "pool_bytes_at L (key (accs ! 1)) q"
    "is_signer (accs ! 0)" "admin q = key (accs ! 0)" "pool_mode q = 0" "\<not> market_resolved q" "a \<noteq> 0"
    "total_pool_value q = Some v" "\<not> a > v" "token_mint (acc_data (L (key (accs ! 5)))) = collateral_mint q"
    and k: "key (accs ! 7) = spl_token_id" "slab q = key (accs ! 4)" "vault q = key (accs ! 2)" "percolator_program q = key (accs ! 6)"
      "derive_vault_authority (find_program_address E) pid (key (accs ! 1)) = (key (accs ! 3), b)"
    and call: "cpi_top_up_insurance E [key (accs ! 1)] (accs ! 6) (accs ! 3) (accs ! 4) (accs ! 2) (accs ! 5)
       (accs ! 7) a (vault_auth_seeds (accs ! 1) b) L = Inr M"
    and q': "flush_pool a q = Inr q'" "L' = write_pool (accs ! 1) q' M"
    using assms(1,2) by (auto simp: process_def process_flush_to_insurance_def flush_checks_def open_ok validate_mint_of_eq
        try_borrow_data_def verify_token_program_def)
  have qp: "q = p" using q(1) assms(3,4) pool_bytes_at_unique by (auto simp: live_at_def)
  show ?thesis
    unfolding flush_outcome_def
    by (intro exI [of _ v] exI [of _ M] exI [of _ q'])
       (use q(2-) k call q'(2) flush_pool_exact [OF q'(1)] assms(4) in
         \<open>simp add: qp cpi_top_up_insurance_def wrapper_call_builders vault_authority_def not_less\<close>)
qed

lemma return_run:
  assumes "process E pid accs dt L = Inr L'" "unpack dt = Inr (ReturnInsurance a)" "live_at pid L k p" "k = key (accs ! 1)"
  shows "return_outcome E pid accs a k p L L'"
proof -
  obtain q q' M where q: "pool_bytes_at L (key (accs ! 1)) q"
    "is_signer (accs ! 0)" "admin q = key (accs ! 0)" "a \<noteq> 0" "\<not> a > saturating_sub (total_flushed q) (total_returned q)"
    "token_mint (acc_data (L (key (accs ! 2)))) = collateral_mint q" "token_owner (acc_data (L (key (accs ! 2)))) = key (accs ! 0)"
    and k: "vault q = key (accs ! 3)"
    and call: "runtime_invoke E [key (accs ! 1)] (token_call 3 (key (accs ! 2)) (key (accs ! 3)) (key (accs ! 0)) a)
       [accs ! 2, accs ! 3, accs ! 0] [] L = Inr M"
    and q': "return_pool a q = Inr q'" "L' = write_pool (accs ! 1) q' M"
    using assms(1,2) by (auto simp: process_def process_return_insurance_def open_ok validate_source_ata_eq
        try_borrow_data_def token_call_builders)
  have qp: "q = p" using q(1) assms(3,4) pool_bytes_at_unique by (auto simp: live_at_def)
  show ?thesis
    unfolding return_outcome_def
    by (intro exI [of _ M] exI [of _ q'])
       (use q(2-) k call q'(2) return_pool_exact [OF q'(1)] assms(4) in \<open>simp add: qp not_less word_le_nat_alt\<close>)
qed

lemma recover_run:
  assumes "process E pid accs dt L = Inr L'" "unpack dt = Inr (RecoverFlushedInsurance a)" "live_at pid L k p" "k = key (accs ! 1)"
  shows "recover_outcome E pid accs a k p L L'"
proof -
  obtain q q' M b where q: "pool_bytes_at L (key (accs ! 1)) q" "pool_mode q = 0" "a \<noteq> 0"
    "\<not> (ucast a :: u128) > ucast (wrapper_recoverable q)"
    and k: "key (accs ! 7) = spl_token_id" "vault q = key (accs ! 2)" "percolator_program q = key (accs ! 8)"
      "derive_vault_authority (find_program_address E) pid (key (accs ! 1)) = (key (accs ! 3), b)"
    and call: "cpi_withdraw_insurance_asset E [key (accs ! 1)] (accs ! 8) (accs ! 3) (accs ! 4) (accs ! 2) (accs ! 5)
       (accs ! 6) (accs ! 7) a (vault_auth_seeds (accs ! 1) b) L = Inr M"
    and q': "recover_pool a q = Inr q'" "L' = write_pool (accs ! 1) q' M"
    using assms(1,2) by (auto simp: process_def process_recover_flushed_insurance_def open_ok verify_token_program_def)
  have qp: "q = p" using q(1) assms(3,4) pool_bytes_at_unique by (auto simp: live_at_def)
  have "unat a \<le> unat (wrapper_recoverable q)"
    using q(4) unat_ucast_widen [where 'b = 128, of a] unat_ucast_widen [where 'b = 128, of "wrapper_recoverable q"]
    by (simp add: not_less word_le_nat_alt)
  then show ?thesis
    unfolding recover_outcome_def
    by (intro exI [of _ M] exI [of _ q'])
       (use q(2,3) k call q'(2) recover_pool_exact [OF q'(1)] assms(4) in
         \<open>simp add: qp cpi_withdraw_insurance_asset_def wrapper_call_builders vault_authority_def wrapper_recoverable_unat\<close>)
qed

text \<open>
  C38 (insurance flow).  A successful \<open>FlushToInsurance\<close> is signed by the admin, on an unresolved
  insurance pool, for a positive amount up to the pool's value; the program calls the pool's own
  wrapper, signing as the vault authority, to top up the pool's own market with exactly that amount
  out of the vault, into an account of the pool's collateral.  The pool books the amount as flushed
  and its high-water mark falls with it.  \<open>ReturnInsurance\<close> is signed by the admin and limited to what
  is flushed and not returned; it transfers exactly the amount from the admin's own account into the vault.
  \<open>RecoverFlushedInsurance\<close> needs no signature and is limited to what the wrapper can still owe; it asks
  the pool's wrapper to pay exactly the amount into the vault.  Each pool afterwards is the pool
  before with just these counters changed, none of which wraps around.
\<close>

theorem insurance_flow_correct:
  assumes "process E pid accs dt L = Inr L'" "unpack dt = Inr ins" "live_at pid L k p" "k = key (accs ! 1)"
  shows "(ins = FlushToInsurance a \<longrightarrow> flush_outcome E pid accs a k p L L')
    \<and> (ins = ReturnInsurance a \<longrightarrow> return_outcome E pid accs a k p L L')
    \<and> (ins = RecoverFlushedInsurance a \<longrightarrow> recover_outcome E pid accs a k p L L')"
  using assms(2) by (auto intro: flush_run [OF assms(1) _ assms(3,4)] return_run [OF assms(1) _ assms(3,4)]
      recover_run [OF assms(1) _ assms(3,4)])

section \<open>Insurance out of the sample pool and back\<close>

text \<open>
  300 of the sample pool's 5000 go to the wrapper's insurance account, 200 are recovered from
  there, and the admin returns the other 100.
\<close>

definition sample_covered :: ledger where
  "sample_covered = with_tokens 13 5 99 500 sample_matured"

definition sample_out :: StakePool where
  "sample_out = set_epoch_high_water_tvl (saturating_sub (epoch_high_water_tvl sample_funded) 300) (sample_funded\<lparr>total_flushed := 300\<rparr>)"

definition sample_back :: StakePool where
  "sample_back = sample_out\<lparr>total_returned := 200, total_recovered_from_wrapper := 200\<rparr>"

definition sample_flushed :: ledger where
  "sample_flushed = write_pool (ai 42 False) sample_out (with_tokens 13 5 99 800 (with_tokens 4 5 43 4700 sample_covered))"

definition sample_recovered :: ledger where
  "sample_recovered = write_pool (ai 42 False) sample_back (with_tokens 4 5 43 4900 (with_tokens 13 5 99 600 sample_flushed))"

definition sample_restored :: ledger where
  "sample_restored = write_pool (ai 42 False) (sample_back\<lparr>total_returned := 300\<rparr>)
     (with_tokens 4 5 43 5000 (with_tokens 11 5 1 3900 sample_recovered))"

definition sample_flush_accounts :: "AccountInfo list" where
  "sample_flush_accounts =
     [ai 1 True, ai 42 False, ai 4 False, ai 43 False, ai 2 False, ai 13 False,
      program_ai PERCOLATOR_MAINNET, program_ai spl_token_id]"

definition sample_recover_accounts :: "AccountInfo list" where
  "sample_recover_accounts =
     [ai 1 False, ai 42 False, ai 4 False, ai 43 False, ai 2 False, ai 13 False, ai 99 False,
      program_ai spl_token_id, program_ai PERCOLATOR_MAINNET]"

definition sample_return_accounts :: "AccountInfo list" where
  "sample_return_accounts = [ai 1 True, ai 42 False, ai 11 False, ai 4 False, program_ai spl_token_id]"

lemma sample_insurance_sel [simp]:
  "identity sample_out = identity sample_pool" "identity sample_back = identity sample_pool"
  "total_flushed sample_out = 300" "total_returned sample_out = 0" "realized_junior_loss sample_out = 0"
  "total_recovered_from_wrapper sample_out = 0" "total_flushed sample_back = 300" "total_returned sample_back = 200"
  "admin sample_funded = fill 1" "admin sample_back = fill 1"
  using sample_born by (simp_all add: sample_out_def sample_back_def sample_funded_def born_def)

lemma sample_identity:
  assumes "identity p = identity sample_pool"
  shows "slab p = fill 2" "vault p = fill 4" "collateral_mint p = fill 5" "percolator_program p = PERCOLATOR_MAINNET"
    "pool_mode p = 0"
  using assms by (simp_all add: identity_def sample_pool_def genesis_pool_def set_discriminator_def Let_def)

lemma sample_insurance_at:
  "sample_covered (fill 4) = \<lparr>acc_lamports = 1, acc_owner = spl_token_id, acc_data = token_account (fill 5) (fill 43) 5000\<rparr>"
  "sample_covered (fill 13) = \<lparr>acc_lamports = 1, acc_owner = spl_token_id, acc_data = token_account (fill 5) (fill 99) 500\<rparr>"
  "sample_flushed (fill 4) = \<lparr>acc_lamports = 1, acc_owner = spl_token_id, acc_data = token_account (fill 5) (fill 43) 4700\<rparr>"
  "sample_flushed (fill 13) = \<lparr>acc_lamports = 1, acc_owner = spl_token_id, acc_data = token_account (fill 5) (fill 99) 800\<rparr>"
  "sample_recovered (fill 4) = \<lparr>acc_lamports = 1, acc_owner = spl_token_id, acc_data = token_account (fill 5) (fill 43) 4900\<rparr>"
  "sample_recovered (fill 11) = \<lparr>acc_lamports = 1, acc_owner = spl_token_id, acc_data = token_account (fill 5) (fill 1) 4000\<rparr>"
  by (simp_all add: sample_recovered_def sample_flushed_def sample_covered_def with_tokens_def sample_matured_at)

lemma sample_insurance_live:
  "live_at sample_pid sample_covered (fill 42) sample_funded" "live_at sample_pid sample_flushed (fill 42) sample_out"
  "live_at sample_pid sample_recovered (fill 42) sample_back"
proof -
  have w: "live_at sample_pid (with_tokens a m u x L) (fill 42) p \<longleftrightarrow> live_at sample_pid L (fill 42) p" if "fill 42 \<noteq> fill a" for a m u x L p
    using that by (simp add: live_at_def pool_bytes_at_def with_tokens_def)
  show c: "live_at sample_pid sample_covered (fill 42) sample_funded"
    unfolding sample_covered_def using sample_matured_live by (simp add: w)
  show f: "live_at sample_pid sample_flushed (fill 42) sample_out"
    unfolding sample_flushed_def using c
      write_live [of sample_pid "with_tokens 13 5 99 800 (with_tokens 4 5 43 4700 sample_covered)" "ai 42 False" sample_funded sample_out]
    by (simp add: w)
  show "live_at sample_pid sample_recovered (fill 42) sample_back"
    unfolding sample_recovered_def using f
      write_live [of sample_pid "with_tokens 4 5 43 4900 (with_tokens 13 5 99 600 sample_flushed)" "ai 42 False" sample_out sample_back]
    by (simp add: w)
qed

lemmas run_insurance =
  sample_invoke_def sample_wrapper_def sample_token_def sample_move_def sample_sub_def sample_add_def is_token_def amount_at_def
  put_amount_def set_data_def put_token_account checked_add_def checked_sub_def with_tokens_def wrapper_tags token_tags
  meta_new_def meta_new_readonly_def sample_insurance_at spl_transfer_def

lemma sample_flush:
  "process sample_env sample_pid sample_flush_accounts (pack (FlushToInsurance 300)) sample_covered = Inr sample_flushed"
proof -
  note op = live_open [of sample_pid sample_covered "ai 42 False" sample_funded, simplified, OF sample_insurance_live(1)]
  note id = sample_identity [of sample_funded, simplified]
  have ck: "flush_checks sample_funded (ai 1 True) (ai 2 False) (ai 4 False) (program_ai PERCOLATOR_MAINNET) = Inr ()"
    by (simp add: flush_checks_def id)
  have mint: "validate_mint_of [fill 42] (ai 13 False) (fill 5) sample_covered = Inr ()"
    by (simp add: validate_mint_of_eq account_owner_def try_borrow_data_def sample_insurance_at ACCOUNT_LEN_def)
  have call: "cpi_top_up_insurance sample_env [fill 42] (program_ai PERCOLATOR_MAINNET) (ai 43 False) (ai 2 False) (ai 4 False)
      (ai 13 False) (program_ai spl_token_id) 300 sd sample_covered
      = Inr (with_tokens 13 5 99 800 (with_tokens 4 5 43 4700 sample_covered))" for sd
    by (simp add: cpi_top_up_insurance_def top_up_insurance_ix_def run_insurance Let_def)
  have fl: "flush_pool 300 sample_funded = Inr sample_out"
    by (simp add: flush_pool_def checked_add_def sample_out_def Let_def)
  show ?thesis
    unfolding process_pack sample_flush_accounts_def process_flush_to_insurance_def
    by (simp add: op ck mint sample_payout call fl sample_flushed_def Let_def)
qed

lemma sample_recover:
  "process sample_env sample_pid sample_recover_accounts (pack (RecoverFlushedInsurance 200)) sample_flushed
     = Inr sample_recovered"
proof -
  note op = live_open [of sample_pid sample_flushed "ai 42 False" sample_out, simplified, OF sample_insurance_live(2)]
  note id = sample_identity [of sample_out, simplified]
  have w: "wrapper_recoverable sample_out = 300"
    by (simp add: word_unat_eq_iff wrapper_recoverable_unat)
  have call: "cpi_withdraw_insurance_asset sample_env [fill 42] (program_ai PERCOLATOR_MAINNET) (ai 43 False) (ai 2 False)
      (ai 4 False) (ai 13 False) (ai 99 False) (program_ai spl_token_id) 200 sd sample_flushed
      = Inr (with_tokens 4 5 43 4900 (with_tokens 13 5 99 600 sample_flushed))" for sd
    by (simp add: cpi_withdraw_insurance_asset_def withdraw_insurance_asset_ix_def run_insurance Let_def)
  have re: "recover_pool 200 sample_out = Inr sample_back"
    by (simp add: recover_pool_def checked_add_def sample_back_def)
  show ?thesis
    unfolding process_pack sample_recover_accounts_def process_recover_flushed_insurance_def
    by (simp add: op w id call re sample_recovered_def Let_def)
qed

lemma sample_return:
  "process sample_env sample_pid sample_return_accounts (pack (ReturnInsurance 100)) sample_recovered = Inr sample_restored"
proof -
  note op = live_open [of sample_pid sample_recovered "ai 42 False" sample_back, simplified, OF sample_insurance_live(3)]
  note id = sample_identity [of sample_back, simplified]
  have src: "validate_source_ata [fill 42] InvalidMint (ai 11 False) (fill 5) (fill 1) sample_recovered = Inr ()"
    by (simp add: validate_source_ata_eq account_owner_def try_borrow_data_def sample_insurance_at ACCOUNT_LEN_def)
  have cap: "saturating_sub 300 200 = (100 :: u64)"
    by (simp add: saturating_sub_def)
  show ?thesis
    unfolding process_pack sample_return_accounts_def process_return_insurance_def
    by (simp add: op id src cap validate_account_writable_def account_owner_def return_pool_def run_insurance
        sample_restored_def Let_def)
qed

theorem insurance_flow_correct_witness:
  "flush_outcome sample_env sample_pid sample_flush_accounts 300 (fill 42) sample_funded sample_covered sample_flushed
   \<and> recover_outcome sample_env sample_pid sample_recover_accounts 200 (fill 42) sample_out sample_flushed sample_recovered
   \<and> return_outcome sample_env sample_pid sample_return_accounts 100 (fill 42) sample_back sample_recovered sample_restored"
  using insurance_flow_correct [OF sample_flush unpack_pack sample_insurance_live(1), of 300]
    insurance_flow_correct [OF sample_recover unpack_pack sample_insurance_live(2), of 200]
    insurance_flow_correct [OF sample_return unpack_pack sample_insurance_live(3), of 100]
  by (simp add: sample_flush_accounts_def sample_recover_accounts_def sample_return_accounts_def)

end
