(* ===== verification/Kani_Mirror.thy ===== *)
theory Kani_Mirror
  imports Tranche_Math State_Lemmas
begin

text \<open>
  The reduced-width copy of the arithmetic in \<open>kani-proofs/src/lib.rs\<close>, which the Kani
  harnesses run in place of \<open>src/math.rs\<close> and of the valuations of \<open>src/state.rs\<close>: \<open>u32\<close>
  arguments, \<open>u64\<close> intermediates.  The names carry the suffix \<open>_u32\<close>.  A plain \<open>+\<close>, \<open>-\<close> or \<open>*\<close> that
  can leave its type is a failed check under Kani; \<open>distribute_fees_u32\<close> is the one function of
  the mirror where it can, and it is \<open>None\<close> there.

  The second half compares the copy with the production code: where the crate's documentation
  argues informally that the formulas are the same at both widths, the lemmas here say on which
  inputs the two really agree.
\<close>

section \<open>The mirror\<close>

definition VIRTUAL_SHARES_u32 :: u64 where
  "VIRTUAL_SHARES_u32 = 1"

definition VIRTUAL_ASSETS_u32 :: u64 where
  "VIRTUAL_ASSETS_u32 = 1"

definition U32_MAX :: u32 where
  "U32_MAX = - 1"

definition calc_lp_for_deposit_u32 :: "u32 \<Rightarrow> u32 \<Rightarrow> u32 \<Rightarrow> u32 option" where
  "calc_lp_for_deposit_u32 supply pv deposit =
     (if supply = 0 \<and> pv = 0 then Some deposit
      else if supply = 0 \<or> pv = 0 then None
      else
        Option.bind (checked_add (ucast supply) VIRTUAL_SHARES_u32) (\<lambda>shares.
        Option.bind (checked_mul (ucast deposit) shares) (\<lambda>product.
        Option.bind (checked_add (ucast pv) VIRTUAL_ASSETS_u32) (\<lambda>assets.
        Option.bind (checked_div product assets) (\<lambda>lp.
        if lp > ucast U32_MAX then None else Some (ucast lp))))))"

definition calc_collateral_for_withdraw_u32 :: "u32 \<Rightarrow> u32 \<Rightarrow> u32 \<Rightarrow> u32 option" where
  "calc_collateral_for_withdraw_u32 supply pv lp =
     (if supply = 0 then None
      else
        Option.bind (checked_add (ucast pv) VIRTUAL_ASSETS_u32) (\<lambda>assets.
        Option.bind (checked_mul (ucast lp) assets) (\<lambda>product.
        Option.bind (checked_add (ucast supply) VIRTUAL_SHARES_u32) (\<lambda>shares.
        Option.bind (checked_div product shares) (\<lambda>col.
        if col > ucast U32_MAX then None else Some (ucast col))))))"

definition pool_value_u32 :: "u32 \<Rightarrow> u32 \<Rightarrow> u32 option" where
  "pool_value_u32 deposited withdrawn = checked_sub deposited withdrawn"

definition pool_value_with_flush_u32 :: "u32 \<Rightarrow> u32 \<Rightarrow> u32 \<Rightarrow> u32 \<Rightarrow> u32 option" where
  "pool_value_with_flush_u32 deposited withdrawn flushed returned =
     Option.bind (checked_sub deposited withdrawn) (\<lambda>v.
     Option.bind (checked_sub v flushed) (\<lambda>w. checked_add w returned))"

definition flush_available_u32 :: "u32 \<Rightarrow> u32 \<Rightarrow> u32 \<Rightarrow> u32" where
  "flush_available_u32 deposited withdrawn flushed =
     saturating_sub (saturating_sub deposited withdrawn) flushed"

definition cooldown_elapsed_u32 :: "u32 \<Rightarrow> u32 \<Rightarrow> u32 \<Rightarrow> bool" where
  "cooldown_elapsed_u32 current_slot deposit_slot cooldown =
     (current_slot \<ge> saturating_add deposit_slot cooldown)"

definition exceeds_cap_u32 :: "u32 \<Rightarrow> u32 \<Rightarrow> u32 \<Rightarrow> bool" where
  "exceeds_cap_u32 deposited new_deposit cap =
     (if cap = 0 then False
      else case checked_add deposited new_deposit of Some tot \<Rightarrow> tot > cap | None \<Rightarrow> True)"

definition pool_inv_u32 :: "u32 \<Rightarrow> u32 \<Rightarrow> bool" where
  "pool_inv_u32 supply pv = ((supply = 0) = (pv = 0))"

definition calc_subpool_lp_for_deposit_u32 :: "u32 \<Rightarrow> u32 \<Rightarrow> u32 \<Rightarrow> u32 option" where
  "calc_subpool_lp_for_deposit_u32 sub_lp sub_balance deposit = calc_lp_for_deposit_u32 sub_lp sub_balance deposit"

definition calc_subpool_collateral_for_withdraw_u32 :: "u32 \<Rightarrow> u32 \<Rightarrow> u32 \<Rightarrow> u32 option" where
  "calc_subpool_collateral_for_withdraw_u32 sub_lp sub_balance lp =
     calc_collateral_for_withdraw_u32 sub_lp sub_balance lp"

definition distribute_loss_u32 :: "u32 \<Rightarrow> u32 \<Rightarrow> u32 \<Rightarrow> u32 \<times> u32" where
  "distribute_loss_u32 junior senior loss =
     (let total = saturating_add (ucast junior) (ucast senior) :: u64;
          capped = min (ucast loss) total
      in if capped \<le> ucast junior then (ucast capped, 0)
         else (junior, ucast (capped - ucast junior)))"

text \<open>\<open>None\<close>: an intermediate product or sum leaves \<open>u64\<close>.\<close>

definition distribute_fees_u32 :: "u32 \<Rightarrow> u32 \<Rightarrow> u32 \<Rightarrow> u32 \<Rightarrow> (u32 \<times> u32) option" where
  "distribute_fees_u32 junior senior mult_bps total_fee =
     (if total_fee = 0 then Some (0, 0)
      else
        Option.bind (checked_add (ucast junior :: u64) (ucast senior)) (\<lambda>balance.
        if balance = 0 then Some (0, 0)
        else
          Option.bind (checked_mul (ucast junior :: u64) (ucast mult_bps)) (\<lambda>junior_weight.
          Option.bind (checked_mul (ucast senior :: u64) 10000) (\<lambda>senior_weight.
          Option.bind (checked_add junior_weight senior_weight) (\<lambda>total_weight.
          if total_weight = 0 then Some (0, 0)
          else
            Option.bind (checked_mul (ucast total_fee) junior_weight) (\<lambda>product.
            let junior_fee = min (product div total_weight) (ucast total_fee);
                senior_fee = saturating_sub (ucast total_fee) junior_fee
            in Some (ucast junior_fee, ucast senior_fee)))))))"

definition total_pool_value_mode0_u32 :: "u32 \<Rightarrow> u32 \<Rightarrow> u32 \<Rightarrow> u32 \<Rightarrow> u32 option" where
  "total_pool_value_mode0_u32 deposited withdrawn flushed returned =
     Option.bind (checked_sub deposited withdrawn) (\<lambda>v.
     Option.bind (checked_sub v flushed) (\<lambda>w. checked_add w returned))"

definition effective_junior_balance_u32 :: "u32 \<Rightarrow> u32 \<Rightarrow> u32 \<Rightarrow> u32 \<Rightarrow> u32 \<Rightarrow> u32" where
  "effective_junior_balance_u32 deposited withdrawn flushed returned jb =
     (let net_loss = saturating_sub flushed returned
      in if net_loss = 0 then jb
         else let gross_pool = saturating_sub deposited withdrawn;
                  gross_senior = saturating_sub gross_pool jb;
                  (junior_loss, senior_loss) = distribute_loss_u32 jb gross_senior net_loss
              in saturating_sub jb junior_loss)"

definition senior_balance_u32 :: "u32 \<Rightarrow> u32 \<Rightarrow> u32 \<Rightarrow> u32 \<Rightarrow> u32 \<Rightarrow> u32 option" where
  "senior_balance_u32 deposited withdrawn flushed returned jb =
     Option.bind (total_pool_value_mode0_u32 deposited withdrawn flushed returned) (\<lambda>pv.
     checked_sub pv (effective_junior_balance_u32 deposited withdrawn flushed returned jb))"

definition total_pool_value_mode0_rl_u32 :: "u32 \<Rightarrow> u32 \<Rightarrow> u32 \<Rightarrow> u32 \<Rightarrow> u32 \<Rightarrow> u32 option" where
  "total_pool_value_mode0_rl_u32 deposited withdrawn flushed returned realized =
     Option.bind (total_pool_value_mode0_u32 deposited withdrawn flushed returned) (\<lambda>v. checked_sub v realized)"

definition senior_balance_rl_u32 :: "u32 \<Rightarrow> u32 \<Rightarrow> u32 \<Rightarrow> u32 \<Rightarrow> u32 \<Rightarrow> u32 \<Rightarrow> u32 option" where
  "senior_balance_rl_u32 deposited withdrawn flushed returned jb realized =
     Option.bind (total_pool_value_mode0_rl_u32 deposited withdrawn flushed returned realized) (\<lambda>pv.
     checked_sub pv (effective_junior_balance_u32 deposited withdrawn flushed returned jb))"

text \<open>The signed sum: six \<open>u32\<close> values cannot leave \<open>i64\<close>.\<close>

definition total_pool_value_mode1_rl_i128_u32 :: "u32 \<Rightarrow> u32 \<Rightarrow> u32 \<Rightarrow> u32 \<Rightarrow> u32 \<Rightarrow> u32 \<Rightarrow> u32 option" where
  "total_pool_value_mode1_rl_i128_u32 deposited withdrawn flushed returned fees realized =
     (let v = uint deposited - uint withdrawn - uint flushed + uint returned + uint fees - uint realized
      in if v < 0 \<or> v > uint U32_MAX then None else Some (word_of_int v))"

section \<open>The mirror as arithmetic on natural numbers\<close>

lemma unat_u32_less: "unat (a :: u32) < 4294967296"
  using unat_lt_2p [of a] by simp

lemma unat_ucast_u32_u64 [simp]: "unat (ucast (a :: u32) :: u64) = unat a"
  by (rule unat_ucast_widen) simp

lemma U32_MAX_unat [simp]: "unat U32_MAX = 2 ^ 32 - 1"
  by (simp add: U32_MAX_def unsigned_minus_1_eq_mask mask_eq_exp_minus_1)

lemma unat_ucast_u64_u32: "unat (a :: u64) < 2 ^ 32 \<Longrightarrow> unat (ucast a :: u32) = unat a"
  by (simp add: unsigned_ucast_eq take_bit_nat_eq_self)

lemma ucast_u32_u64_0 [simp]: "(ucast (a :: u32) :: u64) = 0 \<longleftrightarrow> a = 0"
  by (simp flip: unat_eq_0)

lemma calc_lp_for_deposit_u32_eq_Some:
  "calc_lp_for_deposit_u32 S V a = Some lp \<longleftrightarrow>
     (S = 0 \<and> V = 0 \<and> lp = a) \<or>
     (S \<noteq> 0 \<and> V \<noteq> 0 \<and> unat lp = unat a * (unat S + 1) div (unat V + 1))"
  by (auto simp: calc_lp_for_deposit_u32_def VIRTUAL_SHARES_u32_def VIRTUAL_ASSETS_u32_def U32_MAX_def
      quote_eq_Some simp del: bind_eq_Some)

lemma calc_collateral_for_withdraw_u32_eq_Some:
  "calc_collateral_for_withdraw_u32 S V lp = Some c \<longleftrightarrow>
     S \<noteq> 0 \<and> unat c = unat lp * (unat V + 1) div (unat S + 1)"
  by (simp add: calc_collateral_for_withdraw_u32_def VIRTUAL_SHARES_u32_def VIRTUAL_ASSETS_u32_def U32_MAX_def
      quote_eq_Some del: bind_eq_Some)

lemmas mirror_quote_iff = calc_lp_for_deposit_u32_eq_Some calc_collateral_for_withdraw_u32_eq_Some

text \<open>The mirror's quotes keep the same contract as the production quotes.\<close>

interpretation mirror_quote: share_pricing calc_lp_for_deposit_u32 calc_collateral_for_withdraw_u32
proof
  fix S V a lp
  assume "calc_lp_for_deposit_u32 S V a = Some lp"
  then show "unat lp * (unat V + 1) \<le> unat a * (unat S + 1)"
    unfolding mirror_quote_iff by (elim disjE conjE; intro floor_quote_bound) simp_all
next
  fix S V l c
  assume "calc_collateral_for_withdraw_u32 S V l = Some c"
  then show "unat c * (unat S + 1) \<le> unat l * (unat V + 1)"
    unfolding mirror_quote_iff by (elim conjE; intro floor_quote_bound) simp
qed

lemma distribute_loss_u32_exact:
  assumes "distribute_loss_u32 jb sb loss = (jl, sl)"
  shows "unat jl = min (unat loss) (unat jb)" "unat sl = min (unat loss - unat jb) (unat sb)"
proof -
  define t :: u64 where "t = saturating_add (ucast jb) (ucast sb)"
  have t: "unat t = unat jb + unat sb"
    using unat_u32_less [of jb] unat_u32_less [of sb] by (simp add: t_def unat_saturating_add)
  define c :: u64 where "c = min (ucast loss) t"
  have c: "unat c = min (unat loss) (unat jb + unat sb)"
    by (simp add: c_def min_def word_le_nat_alt t)
  have lt: "unat c < 2 ^ 32" using c unat_u32_less [of loss] by simp
  have eq: "(jl, sl) = (if unat c \<le> unat jb then (ucast c, 0) else (jb, ucast (c - ucast jb)))"
    using assms unfolding distribute_loss_u32_def Let_def t_def [symmetric] c_def [symmetric] word_le_nat_alt
    by simp
  have sub: "unat (ucast (c - ucast jb) :: u32) = unat c - unat jb" if "unat jb < unat c"
  proof -
    have "unat (c - ucast jb) = unat c - unat jb"
      using unat_sub_le [of "ucast jb" c] that by (simp add: word_le_nat_alt)
    then show ?thesis using lt by (simp add: unat_ucast_u64_u32)
  qed
  have "unat jl = min (unat c) (unat jb) \<and> unat sl = unat c - unat jb"
    using eq lt sub by (auto simp: unat_ucast_u64_u32 split: if_splits)
  then show "unat jl = min (unat loss) (unat jb)" "unat sl = min (unat loss - unat jb) (unat sb)"
    unfolding c by linarith+
qed

lemma unat_effective_junior_balance_u32:
  "unat (effective_junior_balance_u32 d w f r jb) = unat jb - (unat f - unat r)"
proof -
  obtain jl sl where d: "distribute_loss_u32 jb (saturating_sub (saturating_sub d w) jb) (saturating_sub f r) = (jl, sl)"
    by fastforce
  have "saturating_sub f r = 0 \<longleftrightarrow> unat f - unat r = 0" by (simp flip: unat_eq_0)
  then show ?thesis
    using distribute_loss_u32_exact(1) [OF d] by (auto simp: effective_junior_balance_u32_def d Let_def)
qed

lemma total_pool_value_mode0_u32_eq_Some:
  "total_pool_value_mode0_u32 d w f r = Some v \<longleftrightarrow>
     unat w + unat f \<le> unat d \<and> unat v + unat w + unat f = unat d + unat r"
proof
  assume "total_pool_value_mode0_u32 d w f r = Some v"
  then show "unat w + unat f \<le> unat d \<and> unat v + unat w + unat f = unat d + unat r"
    by (auto simp: total_pool_value_mode0_u32_def rust_arith)
next
  assume a: "unat w + unat f \<le> unat d \<and> unat v + unat w + unat f = unat d + unat r"
  define x y where "x = d - w" and "y = x - f"
  have x: "unat x = unat d - unat w" unfolding x_def by (rule unat_sub_le) (use a in \<open>simp add: word_le_nat_alt\<close>)
  have y: "unat y = unat x - unat f"
    unfolding y_def by (rule unat_sub_le) (unfold word_le_nat_alt x, use a in linarith)
  have "checked_sub d w = Some x" "checked_sub x f = Some y" "checked_add y r = Some v"
    unfolding rust_arith using a x y by linarith+
  then show "total_pool_value_mode0_u32 d w f r = Some v" by (simp add: total_pool_value_mode0_u32_def)
qed

lemma mode0_with_flush: "pool_value_with_flush_u32 = total_pool_value_mode0_u32"
  by (simp add: fun_eq_iff pool_value_with_flush_u32_def total_pool_value_mode0_u32_def)


lemma distribute_fees_u32_eq_Some:
  assumes small: "unat fee * (unat jb * unat mult) < 2 ^ 64" "unat jb * unat mult + unat sb * 10000 < 2 ^ 64"
  obtains jf sf where "distribute_fees_u32 jb sb mult fee = Some (jf, sf)"
    "unat jf = unat fee * (unat jb * unat mult) div (unat jb * unat mult + unat sb * 10000)"
    "unat jb * unat mult + unat sb * 10000 \<noteq> 0 \<Longrightarrow> unat jf + unat sf = unat fee"
    "unat jb * unat mult + unat sb * 10000 = 0 \<Longrightarrow> sf = 0"
proof -
  let ?j = "unat jb * unat mult" and ?s = "unat sb * 10000"
  let ?q = "unat fee * ?j div (?j + ?s)"
  have qle: "?q \<le> unat fee" by (rule weighted_floor_le)
  define b J S T P :: u64 where "b = of_nat (unat jb + unat sb)" and "J = of_nat ?j" and "S = of_nat ?s"
    and "T = of_nat (?j + ?s)" and "P = of_nat (unat fee * ?j)"
  have u: "unat b = unat jb + unat sb" "unat J = ?j" "unat S = ?s" "unat T = ?j + ?s" "unat P = unat fee * ?j"
    unfolding b_def J_def S_def T_def P_def
    by (rule unat_of_nat_lt; use small unat_u32_less [of jb] unat_u32_less [of sb] in simp)+
  have c: "checked_add (ucast jb :: u64) (ucast sb) = Some b" "checked_mul (ucast jb :: u64) (ucast mult) = Some J"
    "checked_mul (ucast sb :: u64) 10000 = Some S" "checked_add J S = Some T" "checked_mul (ucast fee) J = Some P"
    by (simp_all add: rust_arith u)
  have T0: "T = 0 \<longleftrightarrow> ?j + ?s = 0" "b = 0 \<longleftrightarrow> unat jb + unat sb = 0" by (simp_all add: u flip: unat_eq_0)
  have div: "unat (P div T) = ?q" by (simp add: unat_div u)
  then have mn: "min (P div T) (ucast fee) = P div T" using qle by (simp add: min_def word_le_nat_alt)
  have fee: "unat fee < 2 ^ 32" using unat_u32_less [of fee] by simp
  have jf: "unat (ucast (P div T) :: u32) = ?q" using div qle fee by (simp add: unat_ucast_u64_u32)
  have sf: "unat (ucast (saturating_sub (ucast fee) (P div T)) :: u32) = unat fee - ?q"
    using div fee by (simp add: unat_ucast_u64_u32)
  show thesis
  proof (cases "fee = 0 \<or> ?j + ?s = 0")
    case True
    then have z: "distribute_fees_u32 jb sb mult fee = Some (0, 0)"
      by (auto simp: distribute_fees_u32_def c T0)
    then show ?thesis by (rule that) (use True in auto)
  next
    case False
    then have "distribute_fees_u32 jb sb mult fee =
        Some (ucast (P div T), ucast (saturating_sub (ucast fee) (P div T)))"
      by (auto simp: distribute_fees_u32_def c T0 mn Let_def)
    then show ?thesis by (rule that) (use jf sf qle False in auto)
  qed
qed

section \<open>The mirror against the production code\<close>

text \<open>The mirror's final guard: a result above \<open>u32::MAX\<close> is \<open>None\<close>.\<close>

definition narrow :: "u64 option \<Rightarrow> u32 option" where
  "narrow x = Option.bind x (\<lambda>v. if v > ucast U32_MAX then None else Some (ucast v))"

lemma narrow_eq_Some: "narrow x = Some r \<longleftrightarrow> x = Some (ucast r)"
proof -
  have m: "v > ucast U32_MAX \<longleftrightarrow> 2 ^ 32 \<le> unat v" for v :: u64
    by (auto simp: word_less_nat_alt)
  have "\<not> v > ucast U32_MAX \<and> ucast v = r \<longleftrightarrow> v = ucast r" for v :: u64
    unfolding m using unat_u32_less [of r] by (auto simp: unat_ucast_u64_u32 word_unat_eq_iff)
  then show ?thesis by (auto simp: narrow_def split: if_splits)
qed

lemma option_eqI: "(\<And>r. x = Some r \<longleftrightarrow> y = Some r) \<Longrightarrow> x = y"
  by (cases x; cases y) auto

lemma mirror_calc_lp:
  "calc_lp_for_deposit_u32 S V a = narrow (calc_lp_for_deposit (ucast S) (ucast V) (ucast a))"
  by (rule option_eqI) (auto simp: narrow_eq_Some mirror_quote_iff calc_lp_for_deposit_eq_Some word_unat_eq_iff)

lemma mirror_calc_collateral:
  "calc_collateral_for_withdraw_u32 S V l = narrow (calc_collateral_for_withdraw (ucast S) (ucast V) (ucast l))"
  by (rule option_eqI) (auto simp: narrow_eq_Some mirror_quote_iff calc_collateral_for_withdraw_eq_Some)

lemma mirror_distribute_loss:
  "distribute_loss (ucast jb) (ucast sb) (ucast l) = map_prod ucast ucast (distribute_loss_u32 jb sb l)"
proof -
  obtain a b where m: "distribute_loss_u32 jb sb l = (a, b)" by fastforce
  obtain c d where p: "distribute_loss (ucast jb) (ucast sb) (ucast l) = (c, d)" by fastforce
  have "unat (ucast jb :: u64) + unat (ucast sb :: u64) < 2 ^ 64"
    using unat_u32_less [of jb] unat_u32_less [of sb] by simp
  then show ?thesis
    using distribute_loss_u32_exact [OF m] distribute_loss_junior_first(1,2) [OF p]
    by (simp add: m p word_unat_eq_iff)
qed

lemma mirror_distribute_fees:
  fixes mult :: u16
  assumes "unat fee * (unat jb * unat mult) < 2 ^ 64"
  obtains jf sf where "distribute_fees_u32 jb sb (ucast mult) fee = Some (jf, sf)"
    "distribute_fees (ucast jb) (ucast sb) mult (ucast fee) = (ucast jf, ucast sf)"
proof -
  have cast: "unat (ucast mult :: u32) = unat mult" by (rule unat_ucast_widen) simp
  have "unat jb * unat mult \<le> 4294967295 * 65535"
    using unat_u32_less [of jb] unat_u16_less [of mult] by (intro mult_le_mono) linarith+
  then have "unat jb * unat mult + unat sb * 10000 < 2 ^ 64" using unat_u32_less [of sb] by simp
  with assms obtain jf sf where m: "distribute_fees_u32 jb sb (ucast mult) fee = Some (jf, sf)"
    "unat jf = unat fee * (unat jb * unat mult) div (unat jb * unat mult + unat sb * 10000)"
    "unat jb * unat mult + unat sb * 10000 \<noteq> 0 \<Longrightarrow> unat jf + unat sf = unat fee"
    "unat jb * unat mult + unat sb * 10000 = 0 \<Longrightarrow> sf = 0"
    using distribute_fees_u32_eq_Some [of fee jb "ucast mult" sb] unfolding cast by metis
  obtain c d where p: "distribute_fees (ucast jb) (ucast sb) mult (ucast fee) = (c, d)" by fastforce
  have zero: "d = 0" if "unat jb * unat mult + unat sb * 10000 = 0"
  proof -
    have "(jb = 0 \<or> mult = 0) \<and> sb = 0"
      using that by (auto simp: unat_eq_0)
    then show ?thesis using p by (auto simp: distribute_fees_def Let_def split: if_splits)
  qed
  have "c = ucast jf" using distribute_fees_exact(1) [OF p] m(2) by (simp add: word_unat_eq_iff)
  moreover have "d = ucast sf"
  proof (cases "unat jb * unat mult + unat sb * 10000 = 0")
    case False
    then show ?thesis
      using distribute_fees_exact(2) [OF p] m(2,3) \<open>c = ucast jf\<close> by (simp add: word_unat_eq_iff)
  qed (use zero m(4) in simp)
  ultimately show thesis using that m(1) p by blast
qed


text \<open>A pool whose counters are the widened arguments of the mirror.\<close>

definition counts :: "StakePool \<Rightarrow> u32 \<Rightarrow> u32 \<Rightarrow> u32 \<Rightarrow> u32 \<Rightarrow> u32 \<Rightarrow> u32 \<Rightarrow> u32 \<Rightarrow> bool" where
  "counts p d w f r e rl jb \<longleftrightarrow>
     total_deposited p = ucast d \<and> total_withdrawn p = ucast w \<and> total_flushed p = ucast f
   \<and> total_returned p = ucast r \<and> total_fees_earned p = ucast e \<and> realized_junior_loss p = ucast rl
   \<and> junior_balance p = ucast jb"

lemma uint_ucast_u32: "uint (ucast (a :: u32) :: u64) = uint a"
  by (simp only: uint_nat unat_ucast_u32_u64)

lemma counts_value:
  "counts p d w f r e rl jb \<Longrightarrow>
     pool_value_int p = int (unat d) - int (unat w) - int (unat f) + int (unat r) + int (unat e) - int (unat rl)"
  unfolding counts_def pool_value_int_def by (simp only: uint_nat unat_ucast_u32_u64)

lemma mirror_value_signed:
  assumes "counts p d w f r e rl jb"
  shows "total_pool_value_mode1_rl_i128_u32 d w f r e rl = narrow (total_pool_value p)"
proof (rule option_eqI)
  fix v
  have "total_pool_value_mode1_rl_i128_u32 d w f r e rl = Some v \<longleftrightarrow> pool_value_int p = int (unat v)"
  proof -
    define x where "x = pool_value_int p"
    have "total_pool_value_mode1_rl_i128_u32 d w f r e rl = (if x < 0 \<or> x > 4294967295 then None else Some (word_of_int x))"
      unfolding x_def counts_value [OF assms] total_pool_value_mode1_rl_i128_u32_def Let_def uint_nat U32_MAX_unat
      by simp
    moreover have "word_of_int x = v \<longleftrightarrow> x = int (unat v)" if "0 \<le> x" "x \<le> 4294967295"
      using that by (auto simp: word_uint_eq_iff uint_word_of_int_eq take_bit_int_eq_self)
    moreover have "int (unat v) \<le> 4294967295" using unat_u32_less [of v] by linarith
    ultimately show ?thesis unfolding x_def by auto
  qed
  then show "total_pool_value_mode1_rl_i128_u32 d w f r e rl = Some v \<longleftrightarrow> narrow (total_pool_value p) = Some v"
    unfolding narrow_eq_Some total_pool_value_eq_Some uint_nat unat_ucast_u32_u64 .
qed

lemma mirror_value_ordered:
  assumes "counts p d w f r 0 rl jb"
  shows "total_pool_value_mode0_rl_u32 d w f r rl = Some v \<longleftrightarrow>
     unat w + unat f \<le> unat d \<and> unat d + unat r < 4294967296 + unat w + unat f \<and> total_pool_value p = Some (ucast v)"
proof -
  have "total_pool_value p = Some (ucast v) \<longleftrightarrow> unat v + unat w + unat f + unat rl = unat d + unat r"
    unfolding total_pool_value_eq_Some counts_value [OF assms] uint_nat unsigned_0 unat_ucast_u32_u64
    by linarith
  moreover have "total_pool_value_mode0_rl_u32 d w f r rl = Some v \<longleftrightarrow>
     unat w + unat f \<le> unat d \<and> unat d + unat r < 4294967296 + unat w + unat f
     \<and> unat v + unat w + unat f + unat rl = unat d + unat r" (is "?L \<longleftrightarrow> ?R")
  proof
    assume ?L
    then obtain x where "total_pool_value_mode0_u32 d w f r = Some x" "unat x = unat v + unat rl"
      by (auto simp: total_pool_value_mode0_rl_u32_def checked_sub_eq_Some)
    then show ?R using unat_u32_less [of x] by (auto simp: total_pool_value_mode0_u32_eq_Some)
  next
    assume R: ?R
    define x :: u32 where "x = of_nat (unat v + unat rl)"
    have "unat x = unat v + unat rl" unfolding x_def by (rule unat_of_nat_lt) (use R in auto)
    then have "total_pool_value_mode0_u32 d w f r = Some x" "checked_sub x rl = Some v"
      using R by (auto simp: total_pool_value_mode0_u32_eq_Some checked_sub_eq_Some)
    then show ?L by (simp add: total_pool_value_mode0_rl_u32_def)
  qed
  ultimately show ?thesis by simp
qed

lemma mirror_effective_junior:
  assumes "counts p d w f r e rl jb"
  shows "effective_junior_balance p = ucast (effective_junior_balance_u32 d w f r jb)"
  using assms by (simp add: word_unat_eq_iff unat_effective_junior_balance unat_effective_junior_balance_u32
      net_loss_def counts_def)

lemma mirror_senior_balance:
  assumes "counts p d w f r 0 rl jb"
  shows "senior_balance_rl_u32 d w f r jb rl = Some s \<longleftrightarrow>
     unat w + unat f \<le> unat d \<and> unat d + unat r < 4294967296 + unat w + unat f \<and> senior_balance p = Some (ucast s)"
proof -
  let ?j = "effective_junior_balance_u32 d w f r jb"
  have "(\<exists>v :: u32. total_pool_value p = Some (ucast v) \<and> unat v = unat s + unat ?j)
      \<longleftrightarrow> (\<exists>v. total_pool_value p = Some v \<and> unat v = unat s + unat ?j)"
    if "unat d + unat r < 4294967296 + unat w + unat f"
  proof
    assume "\<exists>v. total_pool_value p = Some v \<and> unat v = unat s + unat ?j"
    then obtain v where v: "total_pool_value p = Some v" "unat v = unat s + unat ?j" by blast
    have "unat v < 4294967296"
      using v(1) that unfolding total_pool_value_eq_Some counts_value [OF assms] uint_nat unsigned_0 by linarith
    then have "v = ucast (ucast v :: u32)" by (simp add: word_unat_eq_iff unat_ucast_u64_u32)
    moreover from this have "unat (ucast v :: u32) = unat v" by (metis unat_ucast_u32_u64)
    ultimately show "\<exists>v :: u32. total_pool_value p = Some (ucast v) \<and> unat v = unat s + unat ?j" using v by metis
  qed auto
  then show ?thesis
    unfolding senior_balance_rl_u32_def senior_balance_def bind_eq_Some mirror_effective_junior [OF assms]
      checked_sub_eq_Some mirror_value_ordered [OF assms] by auto
qed

end
