(* ===== verification/Kani_Harness.thy ===== *)
theory Kani_Harness
  imports Kani_Mirror
begin

text \<open>
  The 56 proof harnesses of \<open>kani-proofs/src/lib.rs\<close> as programs over their symbolic inputs
  (\<open>kani::any()\<close> values are the arguments).  A run ends \<open>Pruned\<close> when a \<open>kani::assume\<close> is false,
  \<open>Failed\<close> when an assertion, an \<open>unwrap\<close> or an arithmetic check fails, and otherwise \<open>Passed\<close>
  with the numbers of the \<open>kani::cover!\<close> goals it met.  Kani verifies a harness when no input
  makes it fail, and reports the cover goals that some input meets.
\<close>

section \<open>Harness programs\<close>

datatype verdict = Pruned | Failed | Passed "nat list"

abbreviation finished :: verdict where
  "finished \<equiv> Passed []"

definition kani_assume :: "bool \<Rightarrow> verdict \<Rightarrow> verdict" where
  "kani_assume c k = (if c then k else Pruned)"

definition kani_assert :: "bool \<Rightarrow> verdict \<Rightarrow> verdict" where
  "kani_assert c k = (if c then k else Failed)"

definition kani_cover :: "nat \<Rightarrow> bool \<Rightarrow> verdict \<Rightarrow> verdict" where
  "kani_cover n c k = (case k of Passed hits \<Rightarrow> Passed (if c then n # hits else hits) | r \<Rightarrow> r)"

text \<open>\<open>match r { Some(v) => v, None => return }\<close>, and \<open>r.unwrap()\<close> or a checked plain operation.\<close>

definition or_return :: "'a option \<Rightarrow> ('a \<Rightarrow> verdict) \<Rightarrow> verdict" where
  "or_return r k = (case r of None \<Rightarrow> finished | Some v \<Rightarrow> k v)"

definition unwrapped :: "'a option \<Rightarrow> ('a \<Rightarrow> verdict) \<Rightarrow> verdict" where
  "unwrapped r k = (case r of None \<Rightarrow> Failed | Some v \<Rightarrow> k v)"

text \<open>The pattern \<open>Some(v) if v > 0\<close>.\<close>

definition positive :: "u32 option \<Rightarrow> u32 option" where
  "positive r = Option.bind r (\<lambda>v. if v > 0 then Some v else None)"

text \<open>\<open>(x as u64) * ((s as u64) + OFFSET)\<close>.\<close>

definition offset_product :: "u32 \<Rightarrow> u32 \<Rightarrow> u64 \<Rightarrow> u64 option" where
  "offset_product x s offset = Option.bind (checked_add (ucast s) offset) (checked_mul (ucast x))"

text \<open>A plain addition of \<open>i32\<close> values, kept as words and read signed.\<close>

definition i32_add :: "u32 \<Rightarrow> u32 \<Rightarrow> u32 option" where
  "i32_add a b = (if - 0x80000000 \<le> sint a + sint b \<and> sint a + sint b < 0x80000000 then Some (a + b) else None)"

section \<open>Conservation\<close>

definition proof_deposit_withdraw_no_inflation :: "u32 \<Rightarrow> u32 \<Rightarrow> u32 \<Rightarrow> verdict" where
  "proof_deposit_withdraw_no_inflation supply pv deposit =
     kani_assume (deposit > 0 \<and> deposit \<le> 0xFFFF) (
     kani_assume (supply > 0 \<and> supply \<le> 0xFFFF) (
     kani_assume (pv > 0 \<and> pv \<le> 0xFFFF) (
     or_return (positive (calc_lp_for_deposit_u32 supply pv deposit)) (\<lambda>lp.
     unwrapped (checked_add supply lp) (\<lambda>ns.
     unwrapped (checked_add pv deposit) (\<lambda>np.
     or_return (calc_collateral_for_withdraw_u32 ns np lp) (\<lambda>back.
     kani_cover 0 (back \<le> deposit) (
     kani_assert (back \<le> deposit) finished))))))))"

definition proof_first_depositor_exact :: "u32 \<Rightarrow> verdict" where
  "proof_first_depositor_exact amount =
     kani_assume (amount > 0 \<and> amount < 100) (
     unwrapped (calc_lp_for_deposit_u32 0 0 amount) (\<lambda>lp.
     kani_assert (lp = amount) (
     unwrapped (calc_collateral_for_withdraw_u32 lp amount lp) (\<lambda>back.
     kani_cover 0 (back = amount) (
     kani_assert (back = amount) finished)))))"

definition proof_two_depositors_conservation :: "u32 \<Rightarrow> u32 \<Rightarrow> u32 \<Rightarrow> verdict" where
  "proof_two_depositors_conservation a b appreciation =
     kani_assume (a > 0 \<and> a \<le> 0xFFFF) (
     kani_assume (b > 0 \<and> b \<le> 0xFFFF) (
     kani_assume (appreciation \<le> 0xFFFF) (
     unwrapped (calc_lp_for_deposit_u32 0 0 a) (\<lambda>a_lp.
     unwrapped (checked_add a appreciation) (\<lambda>pv_after_appreciation.
     or_return (positive (calc_lp_for_deposit_u32 a_lp pv_after_appreciation b)) (\<lambda>b_lp.
     unwrapped (checked_add a_lp b_lp) (\<lambda>s2.
     unwrapped (checked_add pv_after_appreciation b) (\<lambda>pv2.
     or_return (calc_collateral_for_withdraw_u32 s2 pv2 a_lp) (\<lambda>a_back.
     unwrapped (checked_sub s2 a_lp) (\<lambda>s_rem.
     unwrapped (checked_sub pv2 a_back) (\<lambda>pv_rem.
     or_return (calc_collateral_for_withdraw_u32 s_rem pv_rem b_lp) (\<lambda>b_back.
     unwrapped (checked_add (ucast a_back :: u64) (ucast b_back)) (\<lambda>total_out.
     unwrapped (checked_add (ucast a :: u64) (ucast b)) (\<lambda>both.
     unwrapped (checked_add both (ucast appreciation)) (\<lambda>total_in.
     kani_cover 0 (total_out \<le> total_in) (
     kani_assert (total_out \<le> total_in) finished))))))))))))))))"

definition proof_no_dilution :: "u32 \<Rightarrow> u32 \<Rightarrow> u32 \<Rightarrow> u32 \<Rightarrow> verdict" where
  "proof_no_dilution init_s init_pv a_dep b_dep =
     kani_assume (init_s > 0 \<and> init_s \<le> 0xFFFF) (
     kani_assume (init_pv > 0 \<and> init_pv \<le> 0xFFFF) (
     kani_assume (a_dep > 0 \<and> a_dep \<le> 0xFFFF) (
     kani_assume (b_dep > 0 \<and> b_dep \<le> 0xFFFF) (
     or_return (positive (calc_lp_for_deposit_u32 init_s init_pv a_dep)) (\<lambda>a_lp.
     unwrapped (checked_add init_s a_lp) (\<lambda>s_after_a.
     unwrapped (checked_add init_pv a_dep) (\<lambda>pv_after_a.
     or_return (calc_collateral_for_withdraw_u32 s_after_a pv_after_a a_lp) (\<lambda>a_value_before.
     or_return (positive (calc_lp_for_deposit_u32 s_after_a pv_after_a b_dep)) (\<lambda>b_lp.
     unwrapped (checked_add s_after_a b_lp) (\<lambda>s_after_b.
     unwrapped (checked_add pv_after_a b_dep) (\<lambda>pv_after_b.
     or_return (calc_collateral_for_withdraw_u32 s_after_b pv_after_b a_lp) (\<lambda>a_value_after.
     kani_cover 0 (a_value_after \<ge> a_value_before) (
     kani_assert (a_value_after \<ge> a_value_before) finished)))))))))))))"

definition proof_flush_full_return_conservation :: "u32 \<Rightarrow> u32 \<Rightarrow> u32 \<Rightarrow> verdict" where
  "proof_flush_full_return_conservation dep wd flush =
     kani_assume (dep < 100 \<and> wd < 100 \<and> flush < 100) (
     kani_assume (wd \<le> dep) (
     unwrapped (checked_sub dep wd) (\<lambda>net.
     kani_assume (flush \<le> net) (
     unwrapped (pool_value_u32 dep wd) (\<lambda>pv_original.
     unwrapped (pool_value_with_flush_u32 dep wd flush 0) (\<lambda>pv_after_flush.
     unwrapped (checked_sub pv_original flush) (\<lambda>expected.
     kani_assert (pv_after_flush = expected) (
     unwrapped (pool_value_with_flush_u32 dep wd flush flush) (\<lambda>pv_after_return.
     kani_cover 0 (pv_after_return = pv_original) (
     kani_assert (pv_after_return = pv_original) finished))))))))))"

section \<open>Arithmetic safety\<close>

definition proof_lp_deposit_no_panic :: "u32 \<Rightarrow> u32 \<Rightarrow> u32 \<Rightarrow> verdict" where
  "proof_lp_deposit_no_panic s pv dep =
     kani_assume (s \<le> 0xFFFF) (
     kani_assume (pv \<le> 0xFFFF) (
     kani_assume (dep \<le> 0xFFFF) (
     let result = calc_lp_for_deposit_u32 s pv dep in
     kani_cover 0 True finished)))"

definition proof_lp_deposit_overflow_guard :: "u32 \<Rightarrow> u32 \<Rightarrow> u32 \<Rightarrow> verdict" where
  "proof_lp_deposit_overflow_guard supply pv deposit =
     kani_assume (supply \<le> 0xFF) (
     kani_assume (pv \<le> 0xFF) (
     kani_assume (deposit \<le> 0xFF) (
     or_return (calc_lp_for_deposit_u32 supply pv deposit) (\<lambda>lp.
     kani_assert (lp \<le> U32_MAX) (
     if pv > 0 then
       unwrapped (offset_product lp pv VIRTUAL_ASSETS_u32) (\<lambda>minted.
       unwrapped (offset_product deposit supply VIRTUAL_SHARES_u32) (\<lambda>paid.
       kani_cover 0 (minted \<le> paid) (
       kani_assert (minted \<le> paid) finished)))
     else finished)))))"

definition proof_overflow_guard_fires_concrete :: verdict where
  "proof_overflow_guard_fires_concrete =
     kani_assert (calc_lp_for_deposit_u32 100000 1 100000 = None) (
     kani_assert (calc_lp_for_deposit_u32 2 1 100000 = Some 150000) (
     kani_assert (calc_lp_for_deposit_u32 1 1 1 = Some 1) (
     kani_assert (calc_collateral_for_withdraw_u32 1 100000 100000 = None) finished)))"

definition proof_collateral_withdraw_no_panic :: "u32 \<Rightarrow> u32 \<Rightarrow> u32 \<Rightarrow> verdict" where
  "proof_collateral_withdraw_no_panic s pv lp =
     kani_assume (s \<le> 0xFFFF) (
     kani_assume (pv \<le> 0xFFFF) (
     kani_assume (lp \<le> 0xFFFF) (
     let result = calc_collateral_for_withdraw_u32 s pv lp in
     kani_cover 0 True finished)))"

definition proof_pool_value_no_panic :: "u32 \<Rightarrow> u32 \<Rightarrow> verdict" where
  "proof_pool_value_no_panic d w =
     (let result = pool_value_u32 d w in kani_cover 0 True finished)"

definition proof_flush_available_no_panic :: "u32 \<Rightarrow> u32 \<Rightarrow> u32 \<Rightarrow> verdict" where
  "proof_flush_available_no_panic d w f =
     (let result = flush_available_u32 d w f in kani_cover 0 True finished)"

section \<open>Fairness and monotonicity\<close>

definition proof_lp_rounding_favors_pool :: "u32 \<Rightarrow> u32 \<Rightarrow> u32 \<Rightarrow> verdict" where
  "proof_lp_rounding_favors_pool s pv dep =
     kani_assume (s > 0 \<and> s < 100) (
     kani_assume (pv > 0 \<and> pv < 100) (
     kani_assume (dep > 0 \<and> dep < 100) (
     or_return (calc_lp_for_deposit_u32 s pv dep) (\<lambda>lp.
     unwrapped (offset_product lp pv VIRTUAL_ASSETS_u32) (\<lambda>minted.
     unwrapped (offset_product dep s VIRTUAL_SHARES_u32) (\<lambda>paid.
     kani_cover 0 (minted \<le> paid) (
     kani_assert (minted \<le> paid) finished)))))))"

definition proof_larger_deposit_more_lp :: "u32 \<Rightarrow> u32 \<Rightarrow> u32 \<Rightarrow> u32 \<Rightarrow> verdict" where
  "proof_larger_deposit_more_lp s pv sm lg =
     kani_assume (s > 0 \<and> s < 100) (
     kani_assume (pv > 0 \<and> pv < 100) (
     kani_assume (sm > 0 \<and> sm < 50) (
     kani_assume (lg > sm \<and> lg < 100) (
     or_return (calc_lp_for_deposit_u32 s pv sm) (\<lambda>ls.
     or_return (calc_lp_for_deposit_u32 s pv lg) (\<lambda>ll.
     kani_cover 0 (ll \<ge> ls) (
     kani_assert (ll \<ge> ls) finished)))))))"

definition proof_larger_burn_more_collateral :: "u32 \<Rightarrow> u32 \<Rightarrow> u32 \<Rightarrow> u32 \<Rightarrow> verdict" where
  "proof_larger_burn_more_collateral s pv sm lg =
     kani_assume (s > 0 \<and> s < 100) (
     kani_assume (pv > 0 \<and> pv < 100) (
     kani_assume (sm > 0 \<and> sm < 50) (
     kani_assume (lg > sm \<and> lg \<le> s) (
     or_return (calc_collateral_for_withdraw_u32 s pv sm) (\<lambda>cs.
     or_return (calc_collateral_for_withdraw_u32 s pv lg) (\<lambda>cl.
     kani_cover 0 (cl \<ge> cs) (
     kani_assert (cl \<ge> cs) finished)))))))"

definition proof_equal_deposits_equal_lp :: "u32 \<Rightarrow> verdict" where
  "proof_equal_deposits_equal_lp amount =
     kani_assume (amount > 0 \<and> amount < 50) (
     or_return (calc_lp_for_deposit_u32 0 0 amount) (\<lambda>lp1.
     kani_assert (lp1 = amount) (
     or_return (calc_lp_for_deposit_u32 lp1 amount amount) (\<lambda>lp2.
     kani_cover 0 (lp2 = lp1) (
     kani_assert (lp2 = lp1) finished)))))"

section \<open>Withdrawal bounds\<close>

definition proof_full_burn_bounded :: "u32 \<Rightarrow> u32 \<Rightarrow> verdict" where
  "proof_full_burn_bounded s pv =
     kani_assume (s > 0 \<and> s < 100) (
     kani_assume (pv < 100) (
     or_return (calc_collateral_for_withdraw_u32 s pv s) (\<lambda>col.
     kani_cover 0 (col \<le> pv) (
     kani_assert (col \<le> pv) finished))))"

definition proof_partial_less_than_full :: "u32 \<Rightarrow> u32 \<Rightarrow> u32 \<Rightarrow> verdict" where
  "proof_partial_less_than_full s pv p =
     kani_assume (s > 1 \<and> s < 100) (
     kani_assume (pv > 0 \<and> pv < 100) (
     kani_assume (p > 0 \<and> p < s) (
     or_return (calc_collateral_for_withdraw_u32 s pv s) (\<lambda>f.
     or_return (calc_collateral_for_withdraw_u32 s pv p) (\<lambda>pp.
     kani_cover 0 (pp \<le> f) (
     kani_assert (pp \<le> f) finished))))))"


section \<open>Flush bounds\<close>

definition proof_flush_preserves_value :: "u32 \<Rightarrow> u32 \<Rightarrow> u32 \<Rightarrow> u32 \<Rightarrow> u32 \<Rightarrow> verdict" where
  "proof_flush_preserves_value dep wd flushed returned flush_amount =
     kani_assume (dep < 100 \<and> wd < 100 \<and> flushed < 100 \<and> returned < 100 \<and> flush_amount < 100) (
     kani_assume (wd \<le> dep) (
     unwrapped (checked_sub dep wd) (\<lambda>net.
     kani_assume (flushed \<le> net) (
     kani_assume (returned \<le> flushed) (
     unwrapped (checked_sub net flushed) (\<lambda>available.
     kani_assume (flush_amount \<le> available) (
     or_return (pool_value_with_flush_u32 dep wd flushed returned) (\<lambda>pv_before.
     unwrapped (checked_add flushed flush_amount) (\<lambda>flushed'.
     or_return (pool_value_with_flush_u32 dep wd flushed' returned) (\<lambda>pv_after.
     unwrapped (checked_sub pv_before flush_amount) (\<lambda>expected.
     kani_cover 0 (expected = pv_after) (
     kani_assert (expected = pv_after) finished))))))))))))"

definition proof_flush_bounded :: "u32 \<Rightarrow> u32 \<Rightarrow> u32 \<Rightarrow> verdict" where
  "proof_flush_bounded d w f =
     kani_assume (d < 100 \<and> w < 100 \<and> f < 100) (
     let avail = flush_available_u32 d w f in
     kani_cover 0 (avail \<le> d) (
     kani_assert (avail \<le> d) finished))"

definition proof_flush_max_then_zero :: "u32 \<Rightarrow> u32 \<Rightarrow> u32 \<Rightarrow> verdict" where
  "proof_flush_max_then_zero d w f =
     kani_assume (d < 100 \<and> w < 100 \<and> f < 100) (
     kani_assume (w \<le> d) (
     kani_assume (f \<le> saturating_sub d w) (
     let avail = flush_available_u32 d w f in
     unwrapped (checked_add f avail) (\<lambda>all_flushed.
     let remaining = flush_available_u32 d w all_flushed in
     kani_cover 0 (remaining = 0) (
     kani_assert (remaining = 0) finished)))))"

section \<open>Pool value\<close>

definition proof_pool_value_correctness :: "u32 \<Rightarrow> u32 \<Rightarrow> verdict" where
  "proof_pool_value_correctness d w =
     kani_assume (d < 100 \<and> w < 100) (
     let r = pool_value_u32 d w in
     if w > d then kani_assert (r = None) finished
     else
       unwrapped (checked_sub d w) (\<lambda>net.
       kani_cover 0 (r = Some net) (
       kani_assert (r = Some net) finished)))"

definition proof_deposit_increases_value :: "u32 \<Rightarrow> u32 \<Rightarrow> u32 \<Rightarrow> verdict" where
  "proof_deposit_increases_value d w extra =
     kani_assume (d < 100 \<and> w < 100 \<and> extra < 100) (
     kani_assume (w \<le> d \<and> extra > 0) (
     unwrapped (pool_value_u32 d w) (\<lambda>old.
     or_return (checked_add d extra) (\<lambda>new_d.
     unwrapped (pool_value_u32 new_d w) (\<lambda>new.
     kani_cover 0 (new > old) (
     kani_assert (new > old) finished))))))"

definition proof_flush_return_conservation :: "u32 \<Rightarrow> u32 \<Rightarrow> u32 \<Rightarrow> u32 \<Rightarrow> verdict" where
  "proof_flush_return_conservation d w f r =
     kani_assume (d < 100 \<and> w < 100 \<and> f < 100 \<and> r < 100) (
     kani_assume (w \<le> d) (
     unwrapped (checked_sub d w) (\<lambda>net.
     kani_assume (f \<le> net) (
     kani_assume (r \<le> f) (
     or_return (pool_value_with_flush_u32 d w f r) (\<lambda>pv.
     kani_assert (pv \<le> net) (
     if r = f then kani_cover 0 (pv = net) (kani_assert (pv = net) finished)
     else if r < f then kani_cover 1 (pv < net) (kani_assert (pv < net) finished)
     else finished)))))))"

definition proof_returns_increase_value :: "u32 \<Rightarrow> u32 \<Rightarrow> u32 \<Rightarrow> u32 \<Rightarrow> verdict" where
  "proof_returns_increase_value d w f r =
     kani_assume (d < 50 \<and> w < 50 \<and> f < 50 \<and> r < 50) (
     kani_assume (w \<le> d) (
     unwrapped (checked_sub d w) (\<lambda>net.
     kani_assume (f \<le> net \<and> r < f) (
     let before = pool_value_with_flush_u32 d w f r in
     unwrapped (checked_add r 1) (\<lambda>r'.
     let after = pool_value_with_flush_u32 d w f r' in
     or_return before (\<lambda>b.
     or_return after (\<lambda>a.
     kani_cover 0 (a > b) (
     kani_assert (a > b) finished))))))))"

section \<open>Zero inputs\<close>

definition proof_zero_deposit_zero_lp :: "u32 \<Rightarrow> u32 \<Rightarrow> verdict" where
  "proof_zero_deposit_zero_lp s pv =
     kani_assume (s < 100 \<and> pv < 100) (
     or_return (calc_lp_for_deposit_u32 s pv 0) (\<lambda>lp.
     kani_cover 0 (lp = 0) (
     kani_assert (lp = 0) finished)))"

definition proof_zero_burn_zero_col :: "u32 \<Rightarrow> u32 \<Rightarrow> verdict" where
  "proof_zero_burn_zero_col s pv =
     kani_assume (s < 100 \<and> pv < 100) (
     or_return (calc_collateral_for_withdraw_u32 s pv 0) (\<lambda>col.
     kani_cover 0 (col = 0) (
     kani_assert (col = 0) finished)))"

section \<open>Cooldown\<close>

definition proof_cooldown_no_panic :: "u32 \<Rightarrow> u32 \<Rightarrow> u32 \<Rightarrow> verdict" where
  "proof_cooldown_no_panic now slot cd =
     (let result = cooldown_elapsed_u32 now slot cd in kani_cover 0 True finished)"

definition proof_cooldown_not_immediate :: "u32 \<Rightarrow> u32 \<Rightarrow> verdict" where
  "proof_cooldown_not_immediate slot cd =
     kani_assume (cd > 0 \<and> cd < 100) (
     kani_assume (slot < U32_MAX - 100) (
     kani_cover 0 (\<not> cooldown_elapsed_u32 slot slot cd) (
     kani_assert (\<not> cooldown_elapsed_u32 slot slot cd) finished)))"

definition proof_cooldown_exact_boundary :: "u32 \<Rightarrow> u32 \<Rightarrow> verdict" where
  "proof_cooldown_exact_boundary dep_slot cd =
     kani_assume (cd < 100) (
     kani_assume (dep_slot < U32_MAX - 100) (
     let check_slot = saturating_add dep_slot cd in
     kani_cover 0 (cooldown_elapsed_u32 check_slot dep_slot cd) (
     kani_assert (cooldown_elapsed_u32 check_slot dep_slot cd) finished)))"

section \<open>Deposit cap\<close>

definition proof_cap_zero_uncapped :: "u32 \<Rightarrow> u32 \<Rightarrow> verdict" where
  "proof_cap_zero_uncapped tot dep =
     kani_cover 0 (\<not> exceeds_cap_u32 tot dep 0) (
     kani_assert (\<not> exceeds_cap_u32 tot dep 0) finished)"

definition proof_cap_at_boundary :: "u32 \<Rightarrow> u32 \<Rightarrow> verdict" where
  "proof_cap_at_boundary cap existing =
     kani_assume (cap > 0 \<and> cap < 100) (
     kani_assume (existing \<le> cap) (
     unwrapped (checked_sub cap existing) (\<lambda>dep.
     kani_cover 0 (\<not> exceeds_cap_u32 existing dep cap) (
     kani_assert (\<not> exceeds_cap_u32 existing dep cap) finished))))"

definition proof_cap_above_boundary :: "u32 \<Rightarrow> u32 \<Rightarrow> verdict" where
  "proof_cap_above_boundary cap existing =
     kani_assume (cap > 0 \<and> cap < 100) (
     kani_assume (existing < cap) (
     unwrapped (checked_sub cap existing) (\<lambda>room.
     unwrapped (checked_add room 1) (\<lambda>dep.
     kani_cover 0 (exceeds_cap_u32 existing dep cap) (
     kani_assert (exceeds_cap_u32 existing dep cap) finished)))))"

section \<open>Orphaned value\<close>

definition proof_c9_orphaned_value_blocked :: "u32 \<Rightarrow> u32 \<Rightarrow> verdict" where
  "proof_c9_orphaned_value_blocked pv dep =
     kani_assume (pv > 0 \<and> pv < 100) (
     kani_assume (dep > 0 \<and> dep < 100) (
     kani_cover 0 (calc_lp_for_deposit_u32 0 pv dep = None) (
     kani_assert (calc_lp_for_deposit_u32 0 pv dep = None) finished)))"

definition proof_c9_valueless_lp_blocked :: "u32 \<Rightarrow> u32 \<Rightarrow> verdict" where
  "proof_c9_valueless_lp_blocked supply dep =
     kani_assume (supply > 0 \<and> supply < 100) (
     kani_assume (dep > 0 \<and> dep < 100) (
     kani_cover 0 (calc_lp_for_deposit_u32 supply 0 dep = None) (
     kani_assert (calc_lp_for_deposit_u32 supply 0 dep = None) finished)))"

definition proof_c9_true_first_depositor :: "u32 \<Rightarrow> verdict" where
  "proof_c9_true_first_depositor dep =
     kani_assume (dep > 0 \<and> dep < 100) (
     kani_cover 0 (calc_lp_for_deposit_u32 0 0 dep = Some dep) (
     kani_assert (calc_lp_for_deposit_u32 0 0 dep = Some dep) finished))"

section \<open>Flush mechanics and determinism\<close>

definition proof_flush_reduces_value_exactly :: "u32 \<Rightarrow> u32 \<Rightarrow> u32 \<Rightarrow> verdict" where
  "proof_flush_reduces_value_exactly dep wd flush =
     kani_assume (dep < 100 \<and> wd < 100 \<and> flush < 100) (
     kani_assume (wd \<le> dep) (
     unwrapped (checked_sub dep wd) (\<lambda>net.
     kani_assume (flush \<le> net) (
     unwrapped (pool_value_u32 dep wd) (\<lambda>before.
     unwrapped (pool_value_with_flush_u32 dep wd flush 0) (\<lambda>after.
     unwrapped (checked_sub before after) (\<lambda>diff.
     kani_cover 0 (diff = flush) (
     kani_assert (diff = flush) finished))))))))"

definition proof_determinism_across_states :: "u32 \<Rightarrow> verdict" where
  "proof_determinism_across_states amount =
     kani_assume (amount > 0 \<and> amount < 50) (
     unwrapped (calc_lp_for_deposit_u32 0 0 amount) (\<lambda>lp1.
     unwrapped (calc_lp_for_deposit_u32 amount amount amount) (\<lambda>lp2.
     kani_cover 0 (lp1 = lp2) (
     kani_assert (lp1 = lp2) finished))))"

definition proof_pool_value_with_flush_no_panic :: "u32 \<Rightarrow> u32 \<Rightarrow> u32 \<Rightarrow> u32 \<Rightarrow> verdict" where
  "proof_pool_value_with_flush_no_panic d w f r =
     (let result = pool_value_with_flush_u32 d w f r in kani_cover 0 True finished)"

definition proof_exceeds_cap_no_panic :: "u32 \<Rightarrow> u32 \<Rightarrow> u32 \<Rightarrow> verdict" where
  "proof_exceeds_cap_no_panic tot dep cap =
     (let result = exceeds_cap_u32 tot dep cap in kani_cover 0 True finished)"


section \<open>Defence in depth\<close>

definition proof_roundtrip_under_pool_value_change :: "u32 \<Rightarrow> u32 \<Rightarrow> u32 \<Rightarrow> u32 \<Rightarrow> verdict" where
  "proof_roundtrip_under_pool_value_change supply pv deposit pv_delta =
     kani_assume (supply > 0 \<and> supply \<le> 0xFF) (
     kani_assume (pv > 0 \<and> pv \<le> 0xFF) (
     kani_assume (deposit > 0 \<and> deposit \<le> 0xFF) (
     kani_assume (sint pv_delta > - 0xFF \<and> sint pv_delta < 0xFF) (
     or_return (positive (calc_lp_for_deposit_u32 supply pv deposit)) (\<lambda>lp.
     unwrapped (checked_add supply lp) (\<lambda>new_supply.
     unwrapped (i32_add pv deposit) (\<lambda>grown.
     unwrapped (i32_add grown pv_delta) (\<lambda>new_pv.
     kani_assume (sint new_pv > 0) (
     or_return (calc_collateral_for_withdraw_u32 new_supply new_pv lp) (\<lambda>back.
     if sint pv_delta \<le> 0 then
       kani_cover 0 (back \<le> deposit) (
       kani_assert (back \<le> deposit) finished)
     else finished))))))))))"

definition proof_no_inflation_attack :: "u32 \<Rightarrow> u32 \<Rightarrow> u32 \<Rightarrow> verdict" where
  "proof_no_inflation_attack attacker_deposit victim_deposit donation =
     kani_assume (attacker_deposit > 0 \<and> attacker_deposit \<le> 0xFFFF) (
     kani_assume (victim_deposit > 0 \<and> victim_deposit \<le> 0xFFFF) (
     kani_assume (donation \<le> 0xFFFF) (
     unwrapped (calc_lp_for_deposit_u32 0 0 attacker_deposit) (\<lambda>attacker_lp.
     unwrapped (checked_add attacker_deposit donation) (\<lambda>inflated_pv.
     or_return (positive (calc_lp_for_deposit_u32 attacker_lp inflated_pv victim_deposit)) (\<lambda>vlp.
     unwrapped (checked_add attacker_lp vlp) (\<lambda>total_supply.
     unwrapped (checked_add inflated_pv victim_deposit) (\<lambda>total_pv.
     or_return (calc_collateral_for_withdraw_u32 total_supply total_pv vlp) (\<lambda>vb.
     kani_cover 0 (vb > 0 \<or> victim_deposit = 0) (
     kani_assert (vb > 0 \<or> victim_deposit = 0) finished))))))))))"

definition proof_cooldown_boundary_iff :: "u32 \<Rightarrow> u32 \<Rightarrow> u32 \<Rightarrow> verdict" where
  "proof_cooldown_boundary_iff deposit_slot cooldown check_slot =
     kani_assume (cooldown > 0 \<and> cooldown < 1000) (
     kani_assume (deposit_slot < U32_MAX - 1000) (
     unwrapped (checked_add deposit_slot cooldown) (\<lambda>deadline.
     let elapsed = cooldown_elapsed_u32 check_slot deposit_slot cooldown in
     if check_slot \<ge> deadline then kani_cover 0 elapsed (kani_assert elapsed finished)
     else kani_cover 1 (\<not> elapsed) (kani_assert (\<not> elapsed) finished))))"

definition proof_flush_conservation_lp_value :: "u32 \<Rightarrow> u32 \<Rightarrow> u32 \<Rightarrow> u32 \<Rightarrow> verdict" where
  "proof_flush_conservation_lp_value supply dep wd flush =
     kani_assume (supply > 0 \<and> supply \<le> 0xFF) (
     kani_assume (dep > 0 \<and> dep \<le> 0xFF) (
     kani_assume (wd < dep) (
     unwrapped (checked_sub dep wd) (\<lambda>net.
     kani_assume (flush > 0 \<and> flush < net) (
     unwrapped (pool_value_with_flush_u32 dep wd 0 0) (\<lambda>pv_before.
     unwrapped (pool_value_with_flush_u32 dep wd flush 0) (\<lambda>pv_after.
     or_return (calc_collateral_for_withdraw_u32 supply pv_before supply) (\<lambda>before.
     or_return (calc_collateral_for_withdraw_u32 supply pv_after supply) (\<lambda>after.
     unwrapped (checked_sub before after) (\<lambda>diff.
     kani_cover 0 (diff \<le> flush) (
     kani_assert (before \<ge> after) (
     kani_assert (diff \<le> flush) finished))))))))))))"

section \<open>Inductive harnesses\<close>

definition proof_deposit_withdraw_no_inflation_inductive :: "u32 \<Rightarrow> u32 \<Rightarrow> u32 \<Rightarrow> verdict" where
  "proof_deposit_withdraw_no_inflation_inductive supply pv deposit =
     kani_assume (supply > 0 \<and> pv > 0) (
     kani_assume (pool_inv_u32 supply pv) (
     kani_assume (supply \<le> 0xFFFF) (
     kani_assume (pv \<le> 0xFFFF) (
     kani_assume (deposit > 0 \<and> deposit \<le> 0xFFFF) (
     or_return (positive (calc_lp_for_deposit_u32 supply pv deposit)) (\<lambda>lp.
     or_return (checked_add supply lp) (\<lambda>ns.
     or_return (checked_add pv deposit) (\<lambda>np.
     kani_assert (ns > 0 \<and> np > 0) (
     kani_assert (pool_inv_u32 ns np) (
     or_return (calc_collateral_for_withdraw_u32 ns np lp) (\<lambda>back.
     kani_cover 0 (back \<le> deposit) (
     kani_assert (back \<le> deposit) finished))))))))))))"

definition proof_two_depositors_conservation_inductive ::
  "u32 \<Rightarrow> u32 \<Rightarrow> u32 \<Rightarrow> u32 \<Rightarrow> u32 \<Rightarrow> verdict" where
  "proof_two_depositors_conservation_inductive supply pv a b appreciation =
     kani_assume (supply > 0 \<and> pv > 0) (
     kani_assume (pool_inv_u32 supply pv) (
     kani_assume (supply \<le> 0xFFFF \<and> pv \<le> 0xFFFF) (
     kani_assume (a > 0 \<and> a \<le> 0xFFFF) (
     kani_assume (b > 0 \<and> b \<le> 0xFFFF) (
     kani_assume (appreciation \<le> 0xFFFF) (
     or_return (positive (calc_lp_for_deposit_u32 supply pv a)) (\<lambda>a_lp.
     or_return (checked_add supply a_lp) (\<lambda>s1.
     or_return (checked_add pv a) (\<lambda>pv1.
     or_return (checked_add pv1 appreciation) (\<lambda>pv_after_appreciation.
     or_return (positive (calc_lp_for_deposit_u32 s1 pv_after_appreciation b)) (\<lambda>b_lp.
     or_return (checked_add s1 b_lp) (\<lambda>s2.
     or_return (checked_add pv_after_appreciation b) (\<lambda>pv2.
     or_return (calc_collateral_for_withdraw_u32 s2 pv2 a_lp) (\<lambda>a_back.
     or_return (positive (checked_sub s2 a_lp)) (\<lambda>s_rem.
     or_return (checked_sub pv2 a_back) (\<lambda>pv_rem.
     or_return (calc_collateral_for_withdraw_u32 s_rem pv_rem b_lp) (\<lambda>b_back.
     or_return (checked_add a b) (\<lambda>total_new_in.
     or_return (checked_add total_new_in appreciation) (\<lambda>total_new_in_with_appr.
     or_return (checked_add a_back b_back) (\<lambda>total_out.
     kani_cover 0 (total_out \<le> total_new_in_with_appr) (
     kani_assert (total_out \<le> total_new_in_with_appr) finished)))))))))))))))))))))"

section \<open>Tranches\<close>

definition proof_distribute_loss_conservation :: "u32 \<Rightarrow> u32 \<Rightarrow> u32 \<Rightarrow> verdict" where
  "proof_distribute_loss_conservation jb sb loss =
     kani_assume (jb \<le> 0xFFFF \<and> sb \<le> 0xFFFF \<and> loss \<le> 0xFFFF) (
     let (jl, sl) = distribute_loss_u32 jb sb loss in
     unwrapped (checked_add (ucast jb :: u64) (ucast sb)) (\<lambda>held.
     let capped = min (ucast loss) held in
     kani_cover 0 (sl > 0) (
     unwrapped (checked_add (ucast jl :: u64) (ucast sl)) (\<lambda>lost.
     kani_assert (lost = capped) (
     kani_assert (jl \<le> jb) (
     kani_assert (sl \<le> sb) finished))))))"

definition proof_distribute_loss_junior_first :: "u32 \<Rightarrow> u32 \<Rightarrow> u32 \<Rightarrow> verdict" where
  "proof_distribute_loss_junior_first jb sb loss =
     kani_assume (jb \<le> 0xFFFF \<and> sb \<le> 0xFFFF \<and> loss \<le> 0xFFFF) (
     kani_assume (loss \<le> jb) (
     let (jl, sl) = distribute_loss_u32 jb sb loss in
     kani_cover 0 (sl = 0) (
     kani_assert (sl = 0) (
     kani_assert (jl = loss) finished))))"

definition proof_distribute_fees_conservation :: "u32 \<Rightarrow> u32 \<Rightarrow> u32 \<Rightarrow> u32 \<Rightarrow> verdict" where
  "proof_distribute_fees_conservation jb sb mult fee =
     kani_assume (jb \<le> 0xFFFF \<and> sb \<le> 0xFFFF \<and> fee \<le> 0xFFFF) (
     kani_assume (mult > 0 \<and> mult \<le> 50000) (
     unwrapped (distribute_fees_u32 jb sb mult fee) (\<lambda>(jf, sf).
     kani_assert (jf \<le> fee) (
     kani_assert (sf \<le> fee) (
     unwrapped (checked_add (ucast jf :: u64) (ucast sf)) (\<lambda>paid.
     kani_assert (paid \<le> ucast fee) (
     if fee > 0 \<and> (jb > 0 \<or> sb > 0) then
       unwrapped (checked_add jf sf) (\<lambda>both.
       kani_cover 0 (both = fee) (
       kani_assert (paid = ucast fee) finished))
     else finished)))))))"

definition proof_distribute_fees_no_senior_all_to_junior :: "u32 \<Rightarrow> u32 \<Rightarrow> u32 \<Rightarrow> verdict" where
  "proof_distribute_fees_no_senior_all_to_junior jb mult fee =
     kani_assume (jb > 0 \<and> jb \<le> 0xFFFF) (
     kani_assume (fee > 0 \<and> fee \<le> 0xFFFF) (
     kani_assume (mult > 0 \<and> mult \<le> 50000) (
     unwrapped (distribute_fees_u32 jb 0 mult fee) (\<lambda>(jf, sf).
     kani_cover 0 (jf = fee) (
     kani_assert (jf = fee \<and> sf = 0) finished)))))"

definition proof_subpool_deposit_orphan_blocked :: "u32 \<Rightarrow> u32 \<Rightarrow> verdict" where
  "proof_subpool_deposit_orphan_blocked bal dep =
     kani_assume (bal > 0 \<and> bal \<le> 0xFFFF) (
     kani_assume (dep > 0 \<and> dep \<le> 0xFFFF) (
     kani_assert (calc_subpool_lp_for_deposit_u32 0 bal dep = None) finished))"

definition proof_subpool_first_deposit_one_to_one :: "u32 \<Rightarrow> verdict" where
  "proof_subpool_first_deposit_one_to_one dep =
     kani_assume (dep > 0 \<and> dep \<le> 0xFFFF) (
     kani_cover 0 (calc_subpool_lp_for_deposit_u32 0 0 dep = Some dep) (
     kani_assert (calc_subpool_lp_for_deposit_u32 0 0 dep = Some dep) finished))"

definition proof_subpool_deposit_withdraw_no_profit :: "u32 \<Rightarrow> u32 \<Rightarrow> u32 \<Rightarrow> verdict" where
  "proof_subpool_deposit_withdraw_no_profit sub_lp sub_bal dep =
     kani_assume (sub_lp > 0 \<and> sub_lp \<le> 0xFFFF) (
     kani_assume (sub_bal > 0 \<and> sub_bal \<le> 0xFFFF) (
     kani_assume (dep > 0 \<and> dep \<le> 0xFFFF) (
     or_return (positive (calc_subpool_lp_for_deposit_u32 sub_lp sub_bal dep)) (\<lambda>lp.
     unwrapped (checked_add sub_lp lp) (\<lambda>ns.
     unwrapped (checked_add sub_bal dep) (\<lambda>nb.
     or_return (calc_subpool_collateral_for_withdraw_u32 ns nb lp) (\<lambda>back.
     kani_cover 0 (back \<le> dep) (
     kani_assert (back \<le> dep) finished))))))))"

definition proof_senior_balance_never_underflows :: "u32 \<Rightarrow> u32 \<Rightarrow> u32 \<Rightarrow> u32 \<Rightarrow> u32 \<Rightarrow> verdict" where
  "proof_senior_balance_never_underflows dep wd flush ret jb =
     kani_assume (dep \<le> 0xFFFF \<and> wd \<le> 0xFFFF \<and> flush \<le> 0xFFFF \<and> ret \<le> 0xFFFF \<and> jb \<le> 0xFFFF) (
     or_return (total_pool_value_mode0_u32 dep wd flush ret) (\<lambda>pv.
     or_return (checked_sub dep wd) (\<lambda>gross_pool.
     kani_assume (ret \<le> flush) (
     kani_assume (jb \<le> gross_pool) (
     let ejb = effective_junior_balance_u32 dep wd flush ret jb in
     kani_cover 0 (ejb \<le> pv) (
     kani_assert (ejb \<le> pv) (
     kani_assert (senior_balance_u32 dep wd flush ret jb \<noteq> None) finished)))))))"

definition proof_tranche_decomposition :: "u32 \<Rightarrow> u32 \<Rightarrow> u32 \<Rightarrow> u32 \<Rightarrow> u32 \<Rightarrow> verdict" where
  "proof_tranche_decomposition dep wd flush ret jb =
     kani_assume (dep \<le> 0xFFFF \<and> wd \<le> 0xFFFF \<and> flush \<le> 0xFFFF \<and> ret \<le> 0xFFFF \<and> jb \<le> 0xFFFF) (
     kani_assume (ret \<le> flush) (
     kani_assume (jb \<le> saturating_sub dep wd) (
     or_return (total_pool_value_mode0_u32 dep wd flush ret) (\<lambda>pv.
     let ejb = effective_junior_balance_u32 dep wd flush ret jb in
     or_return (senior_balance_u32 dep wd flush ret jb) (\<lambda>sb.
     unwrapped (checked_add sb ejb) (\<lambda>both.
     kani_cover 0 (both = pv) (
     unwrapped (checked_add (ucast sb :: u64) (ucast ejb)) (\<lambda>sum.
     kani_assert (sum = ucast pv) finished))))))))"

definition proof_169_mode1_no_false_underflow_brick :: "u32 \<Rightarrow> u32 \<Rightarrow> u32 \<Rightarrow> u32 \<Rightarrow> u32 \<Rightarrow> u32 \<Rightarrow> verdict" where
  "proof_169_mode1_no_false_underflow_brick dep wd flush ret fees rl =
     kani_assume (dep \<le> 0xFFFF \<and> wd \<le> 0xFFFF \<and> flush \<le> 0xFFFF \<and> ret \<le> 0xFFFF \<and> fees \<le> 0xFFFF \<and> rl \<le> 0xFFFF) (
     let true_value = uint dep - uint wd - uint flush + uint ret + uint fees - uint rl;
         got = total_pool_value_mode1_rl_i128_u32 dep wd flush ret fees rl in
     if 0 \<le> true_value \<and> true_value \<le> uint U32_MAX then
       kani_cover 0 (wd > dep) (
       kani_assert (got = Some (word_of_int true_value)) finished)
     else if true_value < 0 then kani_assert (got = None) finished
     else finished)"

definition proof_161_recovery_never_windfalls_protected_senior :: "u32 \<Rightarrow> u32 \<Rightarrow> u32 \<Rightarrow> u32 \<Rightarrow> verdict" where
  "proof_161_recovery_never_windfalls_protected_senior sp jb0 nl r =
     kani_assume (sp \<le> 0xFFFF \<and> jb0 \<le> 0xFFFF \<and> nl \<le> 0xFFFF) (
     or_return (checked_add sp jb0) (\<lambda>deposited.
     kani_assume (nl \<le> deposited) (
     let (junior_loss, senior_loss) = distribute_loss_u32 jb0 sp nl;
         junior_payout = saturating_sub jb0 junior_loss;
         l = min junior_loss nl;
         withdrawn = junior_payout;
         returned_after_book = l;
         rl = l;
         outstanding = saturating_sub nl returned_after_book in
     kani_assume (r \<le> outstanding) (
     or_return (checked_add returned_after_book r) (\<lambda>returned_final.
     or_return (senior_balance_rl_u32 deposited withdrawn nl returned_final 0 rl) (\<lambda>senior.
     kani_cover 0 (senior = sp) (
     kani_cover 1 (r > 0) (
     kani_assert (senior \<le> sp) finished))))))))"

end
