(* ===== verification/Kani_Verified.thy ===== *)
theory Kani_Verified
  imports Kani_Harness
begin

text \<open>
  Every harness is verified: no input makes it fail.  The proofs go through the natural-number
  reading of the mirror; the pricing harnesses are consequences of the \<open>share_pricing\<close> contract,
  which the mirror's quotes keep.
\<close>

definition verified :: "verdict \<Rightarrow> bool" where
  "verified v \<longleftrightarrow> v \<noteq> Failed"

named_theorems kani \<open>how a harness statement is verified\<close>

lemma verified_finished [kani]: "verified (Passed hits)"
  by (simp add: verified_def)

lemma verified_assume [kani]: "(c \<Longrightarrow> verified k) \<Longrightarrow> verified (kani_assume c k)"
  by (simp add: verified_def kani_assume_def)

lemma verified_assert [kani]: "c \<Longrightarrow> verified k \<Longrightarrow> verified (kani_assert c k)"
  by (simp add: verified_def kani_assert_def)

lemma verified_cover [kani]: "verified k \<Longrightarrow> verified (kani_cover n c k)"
  by (simp add: verified_def kani_cover_def split: verdict.split)

lemma verified_or_return [kani]: "(\<And>x. r = Some x \<Longrightarrow> verified (k x)) \<Longrightarrow> verified (or_return r k)"
  by (auto simp: verified_def or_return_def split: option.split)

lemma verified_if [kani]: "(c \<Longrightarrow> verified a) \<Longrightarrow> (\<not> c \<Longrightarrow> verified b) \<Longrightarrow> verified (if c then a else b)"
  by simp

lemma verified_unwrapped: "r = Some x \<Longrightarrow> verified (k x) \<Longrightarrow> verified (unwrapped r k)"
  by (simp add: unwrapped_def)

text \<open>A plain addition or subtraction passes its check when it stays in the type.\<close>

lemma verified_add [kani]:
  fixes a b :: "'w::len word"
  assumes "unat a + unat b < 2 ^ LENGTH('w)" "\<And>c. unat c = unat a + unat b \<Longrightarrow> verified (k c)"
  shows "verified (unwrapped (checked_add a b) k)"
  using assms by (auto simp: unwrapped_def rust_arith split: option.split)

lemma verified_sub [kani]:
  fixes a b :: "'w::len word"
  assumes "unat b \<le> unat a" "\<And>c. unat a = unat c + unat b \<Longrightarrow> verified (k c)"
  shows "verified (unwrapped (checked_sub a b) k)"
  using assms by (auto simp: unwrapped_def rust_arith split: option.split)

lemma verified_offset_product [kani]:
  assumes "\<And>c. unat c = unat x * (unat s + 1) \<Longrightarrow> verified (k c)"
  shows "verified (unwrapped (offset_product x s 1) k)"
proof -
  define a b :: u64 where "a = of_nat (unat s + 1)" and "b = of_nat (unat x * (unat s + 1))"
  have a: "unat a = unat s + 1" unfolding a_def by (rule unat_of_nat_lt) (use unat_u32_less [of s] in simp)
  have "unat x * (unat s + 1) \<le> 4294967295 * 4294967296"
    using unat_u32_less [of x] unat_u32_less [of s] by (intro mult_le_mono) linarith+
  then have b: "unat b = unat x * (unat s + 1)" unfolding b_def by (intro unat_of_nat_lt) simp
  have "checked_add (ucast s) 1 = Some a" "checked_mul (ucast x) a = Some b" by (simp_all add: rust_arith a b)
  then have "offset_product x s 1 = Some b" by (simp add: offset_product_def)
  then show ?thesis using assms [OF b] by (simp add: unwrapped_def)
qed

lemma positive_eq_Some: "positive r = Some v \<longleftrightarrow> r = Some v \<and> v > 0"
  by (auto simp: positive_def split: if_splits)

lemma pool_value_u32_eq_Some: "pool_value_u32 d w = Some v \<longleftrightarrow> unat d = unat v + unat w"
  by (simp add: pool_value_u32_def rust_arith)

lemma flush_available_unat [simp]: "unat (flush_available_u32 d w f) = unat d - unat w - unat f"
  by (simp add: flush_available_u32_def)

lemma verified_pool_value [kani]:
  assumes "unat w \<le> unat d" "\<And>v. unat d = unat v + unat w \<Longrightarrow> verified (k v)"
  shows "verified (unwrapped (pool_value_u32 d w) k)"
  unfolding pool_value_u32_def using assms by (rule verified_sub)

lemma verified_flushed_value [kani]:
  assumes "unat w + unat f \<le> unat d" "unat d + unat r < 4294967296 + unat w + unat f"
    "\<And>v. unat v + unat w + unat f = unat d + unat r \<Longrightarrow> verified (k v)"
  shows "verified (unwrapped (pool_value_with_flush_u32 d w f r) k)"
proof -
  define v :: u32 where "v = of_nat (unat d + unat r - (unat w + unat f))"
  have "unat v = unat d + unat r - (unat w + unat f)" unfolding v_def by (rule unat_of_nat_lt) (use assms(1,2) in simp)
  then have v: "unat v + unat w + unat f = unat d + unat r" using assms(1) by linarith
  show ?thesis
    by (rule verified_unwrapped [where x = v])
       (use v assms in \<open>simp_all add: mode0_with_flush total_pool_value_mode0_u32_eq_Some\<close>)
qed

lemma first_deposit [simp]: "calc_lp_for_deposit_u32 0 0 a = Some a"
  by (simp add: mirror_quote_iff)

lemma orphaned [simp]: "(S = 0) \<noteq> (V = 0) \<Longrightarrow> calc_lp_for_deposit_u32 S V a = None"
  by (auto simp: calc_lp_for_deposit_u32_def)

lemma cooldown_elapsed_iff: "cooldown_elapsed_u32 now slot cd \<longleftrightarrow> min (unat slot + unat cd) 4294967295 \<le> unat now"
  by (simp add: cooldown_elapsed_u32_def word_le_nat_alt unat_saturating_add)

lemma exceeds_cap_iff: "exceeds_cap_u32 t d c \<longleftrightarrow> c \<noteq> 0 \<and> unat c < unat t + unat d"
  using unat_u32_less [of c]
  by (auto simp: exceeds_cap_u32_def rust_arith word_less_nat_alt split: option.split)

lemma near_max: "unat (U32_MAX - 100) = 4294967195" "unat (U32_MAX - 1000) = 4294966295"
  by (simp_all add: unat_sub_le word_le_nat_alt)

lemmas word_nat = word_le_nat_alt word_less_nat_alt word_unat_eq_iff

lemmas mirror_nat = word_nat mode0_with_flush total_pool_value_mode0_u32_eq_Some pool_value_u32_def
  calc_subpool_lp_for_deposit_u32_def calc_subpool_collateral_for_withdraw_u32_def
  cooldown_elapsed_iff exceeds_cap_iff near_max rust_arith unat_saturating_add

section \<open>Counters\<close>

lemma v_flush_full_return_conservation: "verified (proof_flush_full_return_conservation dep wd flush)"
  unfolding proof_flush_full_return_conservation_def Let_def by (intro kani; simp add: mirror_nat; linarith?)

lemma v_pool_value_no_panic: "verified (proof_pool_value_no_panic d w)"
  unfolding proof_pool_value_no_panic_def Let_def by (intro kani; simp add: mirror_nat; linarith?)

lemma v_flush_available_no_panic: "verified (proof_flush_available_no_panic d w f)"
  unfolding proof_flush_available_no_panic_def Let_def by (intro kani; simp add: mirror_nat; linarith?)

lemma v_flush_preserves_value: "verified (proof_flush_preserves_value dep wd flushed returned amount)"
  unfolding proof_flush_preserves_value_def Let_def by (intro kani; simp add: mirror_nat; linarith?)

lemma v_flush_bounded: "verified (proof_flush_bounded d w f)"
  unfolding proof_flush_bounded_def Let_def by (intro kani; simp add: mirror_nat; linarith?)

lemma v_flush_max_then_zero: "verified (proof_flush_max_then_zero d w f)"
  unfolding proof_flush_max_then_zero_def Let_def by (intro kani; simp add: mirror_nat; linarith?)

lemma v_pool_value_correctness: "verified (proof_pool_value_correctness d w)"
  unfolding proof_pool_value_correctness_def Let_def by (intro kani; simp add: mirror_nat; linarith?)

lemma v_deposit_increases_value: "verified (proof_deposit_increases_value d w extra)"
  unfolding proof_deposit_increases_value_def Let_def by (intro kani; simp add: mirror_nat; linarith?)

lemma v_flush_return_conservation: "verified (proof_flush_return_conservation d w f r)"
  unfolding proof_flush_return_conservation_def Let_def by (intro kani; simp add: mirror_nat; linarith?)

lemma v_returns_increase_value: "verified (proof_returns_increase_value d w f r)"
  unfolding proof_returns_increase_value_def Let_def by (intro kani; simp add: mirror_nat; linarith?)

lemma v_cooldown_no_panic: "verified (proof_cooldown_no_panic now slot cd)"
  unfolding proof_cooldown_no_panic_def Let_def by (intro kani; simp add: mirror_nat; linarith?)

lemma v_cooldown_not_immediate: "verified (proof_cooldown_not_immediate slot cd)"
  unfolding proof_cooldown_not_immediate_def Let_def by (intro kani; simp add: mirror_nat; linarith?)

lemma v_cooldown_exact_boundary: "verified (proof_cooldown_exact_boundary slot cd)"
  unfolding proof_cooldown_exact_boundary_def Let_def by (intro kani; simp add: mirror_nat; linarith?)

lemma v_cooldown_boundary_iff: "verified (proof_cooldown_boundary_iff slot cd now)"
  unfolding proof_cooldown_boundary_iff_def Let_def by (intro kani; simp add: mirror_nat; linarith?)

lemma v_cap_zero_uncapped: "verified (proof_cap_zero_uncapped tot dep)"
  unfolding proof_cap_zero_uncapped_def Let_def by (intro kani; simp add: mirror_nat; linarith?)

lemma v_cap_at_boundary: "verified (proof_cap_at_boundary cap existing)"
  unfolding proof_cap_at_boundary_def Let_def by (intro kani; simp add: mirror_nat; linarith?)

lemma v_cap_above_boundary: "verified (proof_cap_above_boundary cap existing)"
  unfolding proof_cap_above_boundary_def Let_def by (intro kani; simp add: mirror_nat; linarith?)

lemma v_flush_reduces_value_exactly: "verified (proof_flush_reduces_value_exactly dep wd flush)"
  unfolding proof_flush_reduces_value_exactly_def Let_def by (intro kani; simp add: mirror_nat; linarith?)

lemma v_pool_value_with_flush_no_panic: "verified (proof_pool_value_with_flush_no_panic d w f r)"
  unfolding proof_pool_value_with_flush_no_panic_def Let_def by (intro kani; simp add: mirror_nat; linarith?)

lemma v_exceeds_cap_no_panic: "verified (proof_exceeds_cap_no_panic tot dep cap)"
  unfolding proof_exceeds_cap_no_panic_def Let_def by (intro kani; simp add: mirror_nat; linarith?)

section \<open>Quotes at their boundaries\<close>

lemma v_lp_deposit_no_panic: "verified (proof_lp_deposit_no_panic s pv dep)"
  unfolding proof_lp_deposit_no_panic_def Let_def by (intro kani; simp add: mirror_nat; linarith?)

lemma v_collateral_withdraw_no_panic: "verified (proof_collateral_withdraw_no_panic s pv lp)"
  unfolding proof_collateral_withdraw_no_panic_def Let_def by (intro kani; simp add: mirror_nat; linarith?)

lemma v_c9_orphaned_value_blocked: "verified (proof_c9_orphaned_value_blocked pv dep)"
  unfolding proof_c9_orphaned_value_blocked_def Let_def by (intro kani; simp add: mirror_nat; linarith?)

lemma v_c9_valueless_lp_blocked: "verified (proof_c9_valueless_lp_blocked supply dep)"
  unfolding proof_c9_valueless_lp_blocked_def Let_def by (intro kani; simp add: mirror_nat; linarith?)

lemma v_c9_true_first_depositor: "verified (proof_c9_true_first_depositor dep)"
  unfolding proof_c9_true_first_depositor_def Let_def by (intro kani; simp add: mirror_nat; linarith?)

lemma v_subpool_deposit_orphan_blocked: "verified (proof_subpool_deposit_orphan_blocked bal dep)"
  unfolding proof_subpool_deposit_orphan_blocked_def Let_def by (intro kani; simp add: mirror_nat; linarith?)

lemma v_subpool_first_deposit_one_to_one: "verified (proof_subpool_first_deposit_one_to_one dep)"
  unfolding proof_subpool_first_deposit_one_to_one_def Let_def by (intro kani; simp add: mirror_nat; linarith?)

lemma v_zero_deposit_zero_lp: "verified (proof_zero_deposit_zero_lp s pv)"
  unfolding proof_zero_deposit_zero_lp_def by (intro kani; auto simp: mirror_quote_iff word_unat_eq_iff)

lemma v_zero_burn_zero_col: "verified (proof_zero_burn_zero_col s pv)"
  unfolding proof_zero_burn_zero_col_def by (intro kani; auto simp: mirror_quote_iff word_unat_eq_iff)

lemma deposit_overflows:
  assumes "S \<noteq> 0" "V \<noteq> 0" "4294967296 \<le> unat a * (unat S + 1) div (unat V + 1)"
  shows "calc_lp_for_deposit_u32 S V a = None"
proof (rule ccontr)
  assume "calc_lp_for_deposit_u32 S V a \<noteq> None"
  then obtain r :: u32 where "unat r = unat a * (unat S + 1) div (unat V + 1)"
    using assms(1,2) by (auto simp: mirror_quote_iff)
  then show False using assms(3) unat_u32_less [of r] by simp
qed

lemma burn_overflows:
  assumes "4294967296 \<le> unat l * (unat V + 1) div (unat S + 1)"
  shows "calc_collateral_for_withdraw_u32 S V l = None"
proof (rule ccontr)
  assume "calc_collateral_for_withdraw_u32 S V l \<noteq> None"
  then obtain r :: u32 where "unat r = unat l * (unat V + 1) div (unat S + 1)" by (auto simp: mirror_quote_iff)
  then show False using assms unat_u32_less [of r] by simp
qed

lemma v_overflow_guard_fires_concrete: "verified proof_overflow_guard_fires_concrete"
  unfolding proof_overflow_guard_fires_concrete_def
  by (intro kani; (rule deposit_overflows burn_overflows)?; simp add: mirror_quote_iff flip: numeral_2_eq_2)

section \<open>Pricing\<close>

text \<open>Bounds that keep the plain additions of the harnesses in their type.\<close>

lemma small_mint:
  assumes "calc_lp_for_deposit_u32 S V a = Some lp" "S \<noteq> 0" "V \<noteq> 0" "unat a \<le> 65535" "unat S \<le> 65535"
  shows "unat lp \<le> 2147450880"
proof -
  have "unat a * (unat S + 1) \<le> 65535 * 65536" using assms(4,5) by (intro mult_le_mono) linarith+
  moreover have "2 \<le> unat V + 1" using assms(3) by (simp add: Suc_le_eq unat_gt_0)
  ultimately have "unat a * (unat S + 1) div (unat V + 1) \<le> 65535 * 65536 div 2"
    using div_le_mono2 [of 2 "unat V + 1" "unat a * (unat S + 1)"] div_le_mono [of _ _ 2] by (meson le_trans zero_less_numeral)
  then show ?thesis using assms(1-3) by (auto simp: mirror_quote_iff)
qed

lemma v_deposit_withdraw_no_inflation: "verified (proof_deposit_withdraw_no_inflation s v d)"
  unfolding proof_deposit_withdraw_no_inflation_def
  apply (intro kani)
  subgoal for lp using small_mint [of s v d lp] by (auto simp: positive_eq_Some word_nat)
  subgoal by (auto simp: word_nat)
  subgoal for lp ns np bk
    using mirror_quote.mint_burn_no_profit [of s v d lp ns np bk] by (auto simp: positive_eq_Some)
  done

lemma v_subpool_deposit_withdraw_no_profit: "verified (proof_subpool_deposit_withdraw_no_profit sub_lp sub_bal dep)"
  using v_deposit_withdraw_no_inflation [of sub_lp sub_bal dep]
  unfolding proof_deposit_withdraw_no_inflation_def proof_subpool_deposit_withdraw_no_profit_def
    calc_subpool_lp_for_deposit_u32_def calc_subpool_collateral_for_withdraw_u32_def
  by (auto simp: kani_assume_def split: if_splits)

lemma v_deposit_withdraw_no_inflation_inductive:
  "verified (proof_deposit_withdraw_no_inflation_inductive s v d)"
  unfolding proof_deposit_withdraw_no_inflation_inductive_def
  apply (intro kani)
  subgoal by (auto simp: positive_eq_Some rust_arith word_nat)
  subgoal by (auto simp: positive_eq_Some rust_arith word_nat pool_inv_u32_def)
  subgoal for lp ns np bk
    using mirror_quote.mint_burn_no_profit [of s v d lp ns np bk]
    by (auto simp: positive_eq_Some rust_arith)
  done

lemma v_first_depositor_exact: "verified (proof_first_depositor_exact amount)"
proof -
  have "calc_collateral_for_withdraw_u32 amount amount amount = Some amount" if "amount \<noteq> 0"
    using that unfolding mirror_quote_iff by (simp del: mult_Suc_right)
  then show ?thesis
    unfolding proof_first_depositor_exact_def by (auto intro!: kani verified_unwrapped)
qed

lemma even_price: "a \<noteq> 0 \<Longrightarrow> calc_lp_for_deposit_u32 a a a = Some a"
  unfolding mirror_quote_iff by (simp del: mult_Suc_right)

lemma v_equal_deposits_equal_lp: "verified (proof_equal_deposits_equal_lp amount)"
  unfolding proof_equal_deposits_equal_lp_def by (intro kani) (auto simp: even_price)

lemma v_determinism_across_states: "verified (proof_determinism_across_states amount)"
  unfolding proof_determinism_across_states_def
  by (intro kani verified_unwrapped [where x = amount]) (auto simp: even_price)

lemma v_lp_deposit_overflow_guard: "verified (proof_lp_deposit_overflow_guard s v d)"
  unfolding proof_lp_deposit_overflow_guard_def VIRTUAL_ASSETS_u32_def VIRTUAL_SHARES_u32_def
  apply (intro kani)
  subgoal for lp using unat_u32_less [of lp] by (simp add: word_le_nat_alt)
  subgoal for lp minted paid using mirror_quote.mint_bound [of s v d lp] by (simp add: word_nat)
  done

lemma v_lp_rounding_favors_pool: "verified (proof_lp_rounding_favors_pool s pv dep)"
  unfolding proof_lp_rounding_favors_pool_def VIRTUAL_ASSETS_u32_def VIRTUAL_SHARES_u32_def
  apply (intro kani)
  subgoal for lp minted paid using mirror_quote.mint_bound [of s pv dep lp] by (simp add: word_nat)
  done

text \<open>Both quotes are monotone in the amount, the burn quote in the value too.\<close>

lemma mint_mono:
  assumes "calc_lp_for_deposit_u32 S V a = Some x" "calc_lp_for_deposit_u32 S V b = Some y" "a \<le> b"
  shows "x \<le> y"
proof (cases "S = 0")
  case False
  have "unat a * (unat S + 1) \<le> unat b * (unat S + 1)" using assms(3) by (intro mult_le_mono1) (simp add: word_le_nat_alt)
  then show ?thesis using assms(1,2) False div_le_mono by (auto simp: mirror_quote_iff word_le_nat_alt)
qed (use assms in \<open>auto simp: mirror_quote_iff\<close>)

lemma burn_mono:
  assumes "calc_collateral_for_withdraw_u32 S V l = Some x" "calc_collateral_for_withdraw_u32 S W m = Some y"
    "V \<le> W" "l \<le> m"
  shows "x \<le> y"
proof -
  have "unat l * (unat V + 1) \<le> unat m * (unat W + 1)"
    using assms(3,4) by (intro mult_le_mono) (simp_all add: word_le_nat_alt)
  from div_le_mono [OF this] show ?thesis using assms(1,2) by (auto simp: mirror_quote_iff word_le_nat_alt)
qed

lemma v_larger_deposit_more_lp: "verified (proof_larger_deposit_more_lp s pv sm lg)"
  unfolding proof_larger_deposit_more_lp_def by (intro kani) (auto intro: mint_mono)

lemma v_larger_burn_more_collateral: "verified (proof_larger_burn_more_collateral s pv sm lg)"
  unfolding proof_larger_burn_more_collateral_def by (intro kani) (auto intro: burn_mono)

lemma v_full_burn_bounded: "verified (proof_full_burn_bounded s pv)"
  unfolding proof_full_burn_bounded_def by (intro kani) (auto intro: mirror_quote.burn_le_value)

lemma v_partial_less_than_full: "verified (proof_partial_less_than_full s pv p)"
  unfolding proof_partial_less_than_full_def by (intro kani) (auto intro: burn_mono)


text \<open>At a price of at least one, a deposit mints no more LP than it pays.\<close>

lemma mint_le_amount:
  assumes "calc_lp_for_deposit_u32 S V a = Some lp" "unat S \<le> unat V"
  shows "unat lp \<le> unat a"
proof -
  have "unat lp * (unat V + 1) \<le> unat a * (unat S + 1)" by (rule mirror_quote.mint_bound [OF assms(1)])
  also have "\<dots> \<le> unat a * (unat V + 1)" using assms(2) by (intro mult_le_mono2) simp
  finally show ?thesis unfolding mult_le_cancel2 by simp
qed

lemma v_two_depositors_conservation: "verified (proof_two_depositors_conservation a b appr)"
  unfolding proof_two_depositors_conservation_def
proof (intro kani verified_unwrapped [OF first_deposit])
  assume a: "a > 0 \<and> a \<le> 0xFFFF" and b: "b > 0 \<and> b \<le> 0xFFFF" and p: "appr \<le> 0xFFFF"
  show "unat a + unat appr < 2 ^ LENGTH(32)" using a p by (simp add: word_nat)
  fix v blp :: u32
  assume v: "unat v = unat a + unat appr" and m: "positive (calc_lp_for_deposit_u32 a v b) = Some blp"
  have lp: "unat blp \<le> unat b" using mint_le_amount [of a v b blp] m v by (simp add: positive_eq_Some)
  show "unat a + unat blp < 2 ^ LENGTH(32)" using a b lp by (simp add: word_nat)
  fix s2 :: u32
  assume s2: "unat s2 = unat a + unat blp"
  show "unat v + unat b < 2 ^ LENGTH(32)" using a b p v by (simp add: word_nat)
  fix v2 aback :: u32
  assume v2: "unat v2 = unat v + unat b" and w: "calc_collateral_for_withdraw_u32 s2 v2 a = Some aback"
  show "unat a \<le> unat s2" using s2 by simp
  then have wa: "aback \<le> v2" using mirror_quote.burn_le_value [OF w] by (simp add: word_le_nat_alt)
  then show "unat aback \<le> unat v2" by (simp add: word_le_nat_alt)
  fix sr vr bback :: u32
  assume sr: "unat s2 = unat sr + unat a" and vr: "unat v2 = unat vr + unat aback"
    and x: "calc_collateral_for_withdraw_u32 sr vr blp = Some bback"
  have "bback \<le> vr" using mirror_quote.burn_le_value [OF x] sr s2 by (simp add: word_le_nat_alt)
  then have out: "unat aback + unat bback \<le> unat a + unat b + unat appr"
    using vr v2 v by (simp add: word_le_nat_alt)
  show "unat (ucast aback :: u64) + unat (ucast bback :: u64) < 2 ^ LENGTH(64)"
    "unat (ucast a :: u64) + unat (ucast b :: u64) < 2 ^ LENGTH(64)"
    using unat_u32_less [of aback] unat_u32_less [of bback] unat_u32_less [of a] unat_u32_less [of b] by simp_all
  fix tout both :: u64
  assume o: "unat tout = unat (ucast aback :: u64) + unat (ucast bback :: u64)"
    and t: "unat both = unat (ucast a :: u64) + unat (ucast b :: u64)"
  then show "unat both + unat (ucast appr :: u64) < 2 ^ LENGTH(64)"
    using unat_u32_less [of a] unat_u32_less [of b] unat_u32_less [of appr] by simp
  fix tin :: u64
  assume "unat tin = unat both + unat (ucast appr :: u64)"
  then show "tout \<le> tin" using o t out by (simp add: word_le_nat_alt)
qed

lemma v_no_inflation_attack: "verified (proof_no_inflation_attack a d don)"
  unfolding proof_no_inflation_attack_def
proof (intro kani verified_unwrapped [OF first_deposit])
  assume a: "a > 0 \<and> a \<le> 0xFFFF" and d: "d > 0 \<and> d \<le> 0xFFFF" and p: "don \<le> 0xFFFF"
  show "unat a + unat don < 2 ^ LENGTH(32)" using a p by (simp add: word_nat)
  fix v lp
  assume v: "unat v = unat a + unat don" and m: "positive (calc_lp_for_deposit_u32 a v d) = Some lp"
  have lp: "unat lp \<le> unat d" using mint_le_amount [of a v d lp] m v by (simp add: positive_eq_Some)
  show "unat a + unat lp < 2 ^ LENGTH(32)" using a d lp by (simp add: word_nat)
  show "unat v + unat d < 2 ^ LENGTH(32)" using a d p v by (simp add: word_nat)
  fix ts tv vb
  assume ts: "unat ts = unat a + unat lp" and tv: "unat tv = unat v + unat d"
    and w: "calc_collateral_for_withdraw_u32 ts tv lp = Some vb"
  have "unat lp * (unat ts + 1) \<le> unat lp * (unat tv + 1)" using ts tv v lp by simp
  from div_le_mono [OF this, of "unat ts + 1"] have "unat lp \<le> unat vb"
    using w by (auto simp: mirror_quote_iff simp del: mult_Suc_right)
  then show "vb > 0 \<or> d = 0" using m by (auto simp: positive_eq_Some word_less_nat_alt)
qed

text \<open>A share's payout does not fall when the price does not.\<close>

lemma payout_mono:
  fixes l p s p' s' :: nat
  assumes "p * s' \<le> p' * s" "0 < s" "0 < s'"
  shows "l * p div s \<le> l * p' div s'"
proof -
  let ?q = "l * p div s"
  have "(?q * s) * s' \<le> (l * p) * s'" by (intro mult_le_mono1) simp
  also have "\<dots> \<le> (l * p') * s" using mult_le_mono2 [OF assms(1), of l] by (simp only: mult.assoc)
  finally have "(?q * s') * s \<le> (l * p') * s" by (simp only: mult.assoc mult.commute [of s])
  then have "?q * s' \<le> l * p'" using assms(2) by simp
  from div_le_mono [OF this, of s'] show ?thesis using assms(3) by simp
qed

lemma v_no_dilution: "verified (proof_no_dilution s v a b)"
  unfolding proof_no_dilution_def
proof (intro kani)
  assume s: "s > 0 \<and> s \<le> 0xFFFF" and v: "v > 0 \<and> v \<le> 0xFFFF" and a: "a > 0 \<and> a \<le> 0xFFFF" and b: "b > 0 \<and> b \<le> 0xFFFF"
  fix alp
  assume m: "positive (calc_lp_for_deposit_u32 s v a) = Some alp"
  have "unat alp \<le> 2147450880" using small_mint [of s v a alp] m s v a by (auto simp: positive_eq_Some word_nat)
  then show "unat s + unat alp < 2 ^ LENGTH(32)" using s by (simp add: word_nat)
  show "unat v + unat a < 2 ^ LENGTH(32)" using v a by (simp add: word_nat)
  fix sa va before blp
  assume sa: "unat sa = unat s + unat alp" and va: "unat va = unat v + unat a"
    and w1: "calc_collateral_for_withdraw_u32 sa va alp = Some before"
    and m2: "positive (calc_lp_for_deposit_u32 sa va b) = Some blp"
  have p1: "(unat v + 1) * (unat sa + 1) \<le> (unat va + 1) * (unat s + 1)"
    using mirror_quote.mint_price [of s v a alp] m by (simp add: positive_eq_Some sa va)
  have p2: "(unat va + 1) * (unat sa + unat blp + 1) \<le> (unat va + unat b + 1) * (unat sa + 1)"
    using mirror_quote.mint_price [of sa va b blp] m2 by (simp add: positive_eq_Some)
  have "(unat v + 1) * (unat sa + unat blp + 1) \<le> (unat va + unat b + 1) * (unat s + 1)"
    by (rule price_trans [OF p1 p2]) simp_all
  also have "\<dots> \<le> (unat v + 1 + 131070) * 65536"
    using s a b by (intro mult_le_mono) (simp_all add: va word_nat)
  finally have fits: "(unat v + 1) * (unat sa + unat blp + 1) \<le> (unat v + 1 + 131070) * 65536" .
  show lt: "unat sa + unat blp < 2 ^ LENGTH(32)"
  proof (rule ccontr)
    assume "\<not> ?thesis"
    then have "(unat v + 1) * 4294967297 \<le> (unat v + 1) * (unat sa + unat blp + 1)" by (intro mult_le_mono2) simp
    then show False using fits v by (simp add: word_nat)
  qed
  show "unat va + unat b < 2 ^ LENGTH(32)" using v a b va by (simp add: word_nat)
  fix sb vb after
  assume sb: "unat sb = unat sa + unat blp" and vb: "unat vb = unat va + unat b"
    and w2: "calc_collateral_for_withdraw_u32 sb vb alp = Some after"
  have "unat alp * (unat va + 1) div (unat sa + 1) \<le> unat alp * (unat vb + 1) div (unat sb + 1)"
    by (rule payout_mono) (use p2 in \<open>simp_all add: sb vb\<close>)
  then show "after \<ge> before" using w1 w2 by (auto simp: mirror_quote_iff word_le_nat_alt)
qed


lemma v_two_depositors_conservation_inductive:
  "verified (proof_two_depositors_conservation_inductive s v a b appr)"
  unfolding proof_two_depositors_conservation_inductive_def
proof (intro kani)
  fix alp s1 v1 va blp s2 v2 aback sr vr bback ab tin tout :: u32
  assume w1: "calc_collateral_for_withdraw_u32 s2 v2 alp = Some aback"
    and w2: "calc_collateral_for_withdraw_u32 sr vr blp = Some bback"
    and "positive (calc_lp_for_deposit_u32 s v a) = Some alp" "checked_add s alp = Some s1" "checked_add v a = Some v1"
    "checked_add v1 appr = Some va" "positive (calc_lp_for_deposit_u32 s1 va b) = Some blp" "checked_add s1 blp = Some s2"
    "checked_add va b = Some v2" "positive (checked_sub s2 alp) = Some sr" "checked_sub v2 aback = Some vr"
    "checked_add a b = Some ab" "checked_add ab appr = Some tin" "checked_add aback bback = Some tout"
  then have m1: "calc_lp_for_deposit_u32 s v a = Some alp" and m2: "calc_lp_for_deposit_u32 s1 va b = Some blp"
    and e1: "unat s1 = unat s + unat alp" "unat v1 = unat v + unat a" and ap: "unat va = unat v1 + unat appr"
    and e2: "unat s2 = unat s1 + unat blp" "unat v2 = unat va + unat b"
    and e3: "unat s2 = unat sr + unat alp" "unat v2 = unat vr + unat aback"
    and t: "unat ab = unat a + unat b" "unat tin = unat ab + unat appr" "unat tout = unat aback + unat bback"
    unfolding positive_eq_Some rust_arith by blast+
  have le: "blp \<le> sr" "alp \<le> s2" "unat sr - unat blp = unat s" using e1 e2 e3 by (simp_all add: word_le_nat_alt)
  have out: "unat bback \<le> unat vr" using mirror_quote.burn_le_value [OF w2 le(1)] by (simp add: word_le_nat_alt)
  have p1: "(unat v + 1) * (unat s1 + 1) \<le> (unat va + 1) * (unat s + 1)"
  proof -
    have "(unat v + 1) * (unat s1 + 1) \<le> (unat v1 + 1) * (unat s + 1)"
      using mirror_quote.mint_price [OF m1] by (simp add: e1)
    also have "\<dots> \<le> (unat va + 1) * (unat s + 1)" by (intro mult_le_mono1) (simp add: ap)
    finally show ?thesis .
  qed
  have p2: "(unat va + 1) * (unat s2 + 1) \<le> (unat v2 + 1) * (unat s1 + 1)"
    using mirror_quote.mint_price [OF m2] by (simp add: e2)
  have p3: "(unat v2 + 1) * (unat sr + 1) \<le> (unat vr + 1) * (unat s2 + 1)"
    using mirror_quote.burn_price [OF w1 le(2)] by (simp add: e3)
  have p4: "(unat vr + 1) * (unat s + 1) \<le> (unat vr - unat bback + 1) * (unat sr + 1)"
    using mirror_quote.burn_price [OF w2 le(1)] by (simp add: le)
  have "(unat v + 1) * (unat s + 1) \<le> (unat vr - unat bback + 1) * (unat s + 1)"
    by (rule price_trans [OF price_trans [OF price_trans [OF p1 p2] p3] p4]) simp_all
  then have "unat v \<le> unat vr - unat bback" unfolding mult_le_cancel2 by simp
  then show "tout \<le> tin" using e1 e2 e3 ap t out unfolding word_le_nat_alt by linarith
qed

lemma v_flush_conservation_lp_value: "verified (proof_flush_conservation_lp_value s dep wd f)"
  unfolding proof_flush_conservation_lp_value_def
proof (intro kani)
  assume d: "dep > 0 \<and> dep \<le> 0xFF" and w: "wd < dep"
  show "unat wd \<le> unat dep" "unat wd + unat 0 \<le> unat dep"
    "unat dep + unat 0 < 4294967296 + unat wd + unat 0" using w d by (simp_all add: word_nat)
  fix net
  assume n: "unat dep = unat net + unat wd" and f: "f > 0 \<and> f < net"
  show "unat wd + unat f \<le> unat dep" "unat dep + unat 0 < 4294967296 + unat wd + unat f"
    using n f d by (simp_all add: word_nat)
  fix vb va bef aft
  assume vb: "unat vb + unat wd + unat 0 = unat dep + unat 0" and va: "unat va + unat wd + unat f = unat dep + unat 0"
    and q: "calc_collateral_for_withdraw_u32 s vb s = Some bef" "calc_collateral_for_withdraw_u32 s va s = Some aft"
  have e: "unat vb = unat va + unat f" using vb va by simp
  have "aft \<le> bef" by (rule burn_mono [OF q(2,1)]) (simp_all add: word_le_nat_alt e)
  then show "unat aft \<le> unat bef" "bef \<ge> aft" by (simp_all add: word_le_nat_alt)
  have "unat s * (unat vb + 1) \<le> unat s * (unat va + 1) + unat f * (unat s + 1)" by (simp add: e algebra_simps)
  from div_le_mono [OF this, of "unat s + 1"] have "unat bef \<le> unat aft + unat f"
    using q by (auto simp: mirror_quote_iff simp del: mult_Suc_right)
  then show "diff \<le> f" if "unat bef = unat diff + unat aft" for diff :: u32 using that by (simp add: word_le_nat_alt)
qed


text \<open>Signed values.\<close>

lemma sint_small: "unat (x :: u32) < 2147483648 \<Longrightarrow> sint x = int (unat x)"
proof -
  assume "unat x < 2147483648"
  then have "uint x < 2147483648" unfolding uint_nat by linarith
  then have "sint x = uint x" unfolding sint_uint
    by (intro signed_take_bit_int_eq_self) (simp_all add: order_trans [OF _ uint_ge_0])
  then show ?thesis unfolding uint_nat .
qed

lemma unat_sint: "0 \<le> sint (x :: u32) \<Longrightarrow> int (unat x) = sint x"
  unfolding uint_nat [symmetric] uint_sint
  by (rule take_bit_int_eq_self) (use sint_lt [of x] in simp_all)

lemma verified_i32_add [kani]:
  assumes "- 0x80000000 \<le> sint a + sint b" "sint a + sint b < 0x80000000" "\<And>c. sint c = sint a + sint b \<Longrightarrow> verified (k c)"
  shows "verified (unwrapped (i32_add a b) k)"
proof -
  have "sint (a + b) = sint a + sint b"
    unfolding sint_word_ariths by (rule signed_take_bit_int_eq_self) (use assms(1,2) in simp_all)
  then show ?thesis using assms by (auto intro!: verified_unwrapped simp: i32_add_def)
qed

lemma v_roundtrip_under_pool_value_change: "verified (proof_roundtrip_under_pool_value_change s v d delta)"
  unfolding proof_roundtrip_under_pool_value_change_def
proof (intro kani)
  assume s: "s > 0 \<and> s \<le> 0xFF" and v: "v > 0 \<and> v \<le> 0xFF" and d: "d > 0 \<and> d \<le> 0xFF"
    and delta: "sint delta > - 0xFF \<and> sint delta < 0xFF"
  have small: "unat v \<le> 255" "unat d \<le> 255" using v d by (simp_all add: word_nat)
  then have si: "sint v = int (unat v)" "sint d = int (unat d)" by (intro sint_small; simp)+
  show "- 0x80000000 \<le> sint v + sint d" "sint v + sint d < 0x80000000" unfolding si using small by linarith+
  fix lp ns g nv bk
  assume m: "positive (calc_lp_for_deposit_u32 s v d) = Some lp"
  have "unat lp \<le> 2147450880" using small_mint [of s v d lp] m s v d by (auto simp: positive_eq_Some word_nat)
  then show "unat s + unat lp < 2 ^ LENGTH(32)" using s by (simp add: word_nat)
  assume g: "sint g = sint v + sint d"
  show "- 0x80000000 \<le> sint g + sint delta" "sint g + sint delta < 0x80000000" unfolding g si using small delta by linarith+
  assume ns: "unat ns = unat s + unat lp" and nv: "sint nv = sint g + sint delta" "sint nv > 0"
    and w: "calc_collateral_for_withdraw_u32 ns nv lp = Some bk" and neg: "sint delta \<le> 0"
  have "unat nv \<le> unat v + unat d" using unat_sint [of nv] nv g si neg by linarith
  then have "unat lp * (unat nv + 1) \<le> unat lp * (unat v + unat d + 1)" by (intro mult_le_mono2) simp
  moreover have "unat bk * (unat ns + 1) \<le> unat lp * (unat nv + 1)" by (rule mirror_quote.burn_bound [OF w])
  moreover have "unat lp * (unat v + 1) \<le> unat d * (unat s + 1)"
    using mirror_quote.mint_bound m by (simp add: positive_eq_Some)
  ultimately have "unat bk * (unat ns + 1) \<le> unat d * (unat ns + 1)" by (simp add: ns algebra_simps)
  then show "bk \<le> d" unfolding mult_le_cancel2 word_le_nat_alt by simp
qed

section \<open>Tranches\<close>

lemma v_distribute_loss_conservation: "verified (proof_distribute_loss_conservation jb sb loss)"
proof -
  obtain jl sl where d: "distribute_loss_u32 jb sb loss = (jl, sl)" by fastforce
  note e = distribute_loss_u32_exact [OF d]
  show ?thesis
    unfolding proof_distribute_loss_conservation_def Let_def d prod.case
    by (intro kani) (auto simp: e word_nat min_def)
qed

lemma v_distribute_loss_junior_first: "verified (proof_distribute_loss_junior_first jb sb loss)"
proof -
  obtain jl sl where d: "distribute_loss_u32 jb sb loss = (jl, sl)" by fastforce
  note e = distribute_loss_u32_exact [OF d]
  show ?thesis
    unfolding proof_distribute_loss_junior_first_def Let_def d prod.case
    by (intro kani) (auto simp: e word_nat)
qed

lemma small_fees:
  fixes jb sb mult fee :: u32
  assumes "jb \<le> 0xFFFF" "sb \<le> 0xFFFF" "fee \<le> 0xFFFF" "mult \<le> 50000"
  shows "unat fee * (unat jb * unat mult) < 2 ^ 64" "unat jb * unat mult + unat sb * 10000 < 2 ^ 64"
proof -
  have j: "unat jb * unat mult \<le> 65535 * 50000" using assms by (intro mult_le_mono) (simp_all add: word_nat)
  have "unat fee * (unat jb * unat mult) \<le> 65535 * (65535 * 50000)"
    using assms(3) by (intro mult_le_mono j) (simp add: word_nat)
  then show "unat fee * (unat jb * unat mult) < 2 ^ 64" by simp
  show "unat jb * unat mult + unat sb * 10000 < 2 ^ 64" using j assms(2) by (simp add: word_nat)
qed

lemma v_distribute_fees_conservation: "verified (proof_distribute_fees_conservation jb sb mult fee)"
  unfolding proof_distribute_fees_conservation_def
proof (intro verified_assume)
  assume b: "jb \<le> 0xFFFF \<and> sb \<le> 0xFFFF \<and> fee \<le> 0xFFFF" and m: "mult > 0 \<and> mult \<le> 50000"
  let ?w = "unat jb * unat mult + unat sb * 10000"
  obtain jf sf where r: "distribute_fees_u32 jb sb mult fee = Some (jf, sf)"
    "unat jf = unat fee * (unat jb * unat mult) div ?w" "?w \<noteq> 0 \<Longrightarrow> unat jf + unat sf = unat fee" "?w = 0 \<Longrightarrow> sf = 0"
    using distribute_fees_u32_eq_Some [of fee jb mult sb] small_fees [of jb sb fee mult] b m by metis
  have w: "?w = 0 \<longleftrightarrow> jb = 0 \<and> sb = 0" using m by (auto simp: unat_eq_0)
  have le: "unat jf + unat sf \<le> unat fee" using r by (cases "?w = 0") auto
  have eq: "unat jf + unat sf = unat fee" if "fee > 0 \<and> (jb > 0 \<or> sb > 0)" using r(3) w that by auto
  have lt: "unat jf + unat sf < 4294967296" using le unat_u32_less [of fee] by simp
  show "verified (unwrapped (distribute_fees_u32 jb sb mult fee) (\<lambda>(jf, sf).
     kani_assert (jf \<le> fee) (
     kani_assert (sf \<le> fee) (
     unwrapped (checked_add (ucast jf :: u64) (ucast sf)) (\<lambda>paid.
     kani_assert (paid \<le> ucast fee) (
     if fee > 0 \<and> (jb > 0 \<or> sb > 0) then
       unwrapped (checked_add jf sf) (\<lambda>both.
       kani_cover 0 (both = fee) (
       kani_assert (paid = ucast fee) finished))
     else finished))))))"
    by (rule verified_unwrapped [OF r(1)], unfold prod.case, intro kani) (use le eq lt in \<open>auto simp: word_nat\<close>)
qed

lemma v_distribute_fees_no_senior_all_to_junior: "verified (proof_distribute_fees_no_senior_all_to_junior jb mult fee)"
  unfolding proof_distribute_fees_no_senior_all_to_junior_def
proof (intro verified_assume)
  assume b: "jb > 0 \<and> jb \<le> 0xFFFF" "fee > 0 \<and> fee \<le> 0xFFFF" and m: "mult > 0 \<and> mult \<le> 50000"
  let ?w = "unat jb * unat mult + unat (0 :: u32) * 10000"
  obtain jf sf where r: "distribute_fees_u32 jb 0 mult fee = Some (jf, sf)"
    "unat jf = unat fee * (unat jb * unat mult) div ?w" "?w \<noteq> 0 \<Longrightarrow> unat jf + unat sf = unat fee" "?w = 0 \<Longrightarrow> sf = 0"
    using distribute_fees_u32_eq_Some [of fee jb mult 0] small_fees [of jb 0 fee mult] b m by (metis word_zero_le)
  have "?w \<noteq> 0" using m b by (auto simp: unat_eq_0)
  then have "unat jf = unat fee" "unat sf = 0" using r(2,3) by simp_all
  then show "verified (unwrapped (distribute_fees_u32 jb 0 mult fee) (\<lambda>(jf, sf).
     kani_cover 0 (jf = fee) (kani_assert (jf = fee \<and> sf = 0) finished)))"
    by (intro verified_unwrapped [OF r(1)], unfold prod.case, intro kani) (simp add: word_unat_eq_iff)
qed


lemma v_senior_balance_never_underflows: "verified (proof_senior_balance_never_underflows dep wd fl ret jb)"
  unfolding proof_senior_balance_never_underflows_def Let_def
proof (intro kani)
  fix pv g
  assume "total_pool_value_mode0_u32 dep wd fl ret = Some pv" "checked_sub dep wd = Some g" and r: "ret \<le> fl" and j: "jb \<le> g"
  then have v: "unat pv + unat wd + unat fl = unat dep + unat ret" "unat dep = unat g + unat wd"
    by (simp_all add: total_pool_value_mode0_u32_eq_Some checked_sub_eq_Some)
  show le: "effective_junior_balance_u32 dep wd fl ret jb \<le> pv"
    using v r j unfolding word_le_nat_alt unat_effective_junior_balance_u32 by linarith
  then show "senior_balance_u32 dep wd fl ret jb \<noteq> None"
    using \<open>total_pool_value_mode0_u32 dep wd fl ret = Some pv\<close> by (simp add: senior_balance_u32_def checked_sub_def)
qed

lemma v_tranche_decomposition: "verified (proof_tranche_decomposition dep wd fl ret jb)"
  unfolding proof_tranche_decomposition_def Let_def
proof (intro kani)
  fix pv sb
  assume "total_pool_value_mode0_u32 dep wd fl ret = Some pv" "senior_balance_u32 dep wd fl ret jb = Some sb"
  then have e: "unat pv = unat sb + unat (effective_junior_balance_u32 dep wd fl ret jb)"
    by (simp add: senior_balance_u32_def checked_sub_eq_Some)
  then show "unat sb + unat (effective_junior_balance_u32 dep wd fl ret jb) < 2 ^ LENGTH(32)"
    "unat (ucast sb :: u64) + unat (ucast (effective_junior_balance_u32 dep wd fl ret jb) :: u64) < 2 ^ LENGTH(64)"
    using unat_u32_less [of pv] by simp_all
  show "sm = ucast pv"
    if "unat sm = unat (ucast sb :: u64) + unat (ucast (effective_junior_balance_u32 dep wd fl ret jb) :: u64)" for sm :: u64
    using that e by (simp add: word_unat_eq_iff)
qed

lemma v_169_mode1_no_false_underflow_brick: "verified (proof_169_mode1_no_false_underflow_brick dep wd fl ret fees rl)"
  unfolding proof_169_mode1_no_false_underflow_brick_def total_pool_value_mode1_rl_i128_u32_def Let_def
  by (intro kani) simp_all

lemma v_161_recovery_never_windfalls_protected_senior:
  "verified (proof_161_recovery_never_windfalls_protected_senior sp jb0 nl r)"
proof -
  obtain jl sl where d: "distribute_loss_u32 jb0 sp nl = (jl, sl)" by fastforce
  note e = distribute_loss_u32_exact [OF d]
  show ?thesis
    unfolding proof_161_recovery_never_windfalls_protected_senior_def Let_def d prod.case
  proof (intro kani)
    fix dp rf sn
    assume dp: "checked_add sp jb0 = Some dp" and r: "r \<le> saturating_sub nl (min jl nl)"
      and rf: "checked_add (min jl nl) r = Some rf"
      and sn: "senior_balance_rl_u32 dp (saturating_sub jb0 jl) nl rf 0 (min jl nl) = Some sn"
    have l: "unat (min jl nl) = min (unat nl) (unat jb0)" by (simp add: e min_def word_le_nat_alt)
    obtain v where v: "total_pool_value_mode0_u32 dp (saturating_sub jb0 jl) nl rf = Some v" "unat v = unat sn + unat (min jl nl)"
      using sn by (auto simp: senior_balance_rl_u32_def total_pool_value_mode0_rl_u32_def checked_sub_eq_Some
          unat_effective_junior_balance_u32)
    have "unat v + (unat jb0 - unat jl) + unat nl = unat dp + unat rf"
      using v(1) by (simp add: total_pool_value_mode0_u32_eq_Some)
    moreover have "unat dp = unat sp + unat jb0" "unat rf = unat (min jl nl) + unat r"
      using dp rf by (simp_all add: checked_add_eq_Some)
    moreover have "unat r \<le> unat nl - unat (min jl nl)" using r by (simp add: word_le_nat_alt)
    ultimately show "sn \<le> sp" using v(2) e(1) unfolding word_le_nat_alt l by linarith
  qed
qed

end
