(* ===== verification/Kani_Properties.thy ===== *)
theory Kani_Properties
  imports Kani_Verified
begin

text \<open>
  What the Kani suite is worth: the mirror agrees with the production code on the inputs it
  stands for, every harness is verified, and every cover goal is met.
\<close>

section \<open>The mirror\<close>

text \<open>
  C35 (mirror quotes).  On every 32-bit input the mirror's quotes are the production quotes, with
  a result above \<open>u32::MAX\<close> turned into \<open>None\<close>; its loss split is the production split; and its
  fee split runs without overflow and agrees whenever the junior weight times the fee fits 64 bits.
\<close>

theorem mirror_quotes_agree:
  fixes mult :: u16 and S V a l jb sb loss fee :: u32
  shows "calc_lp_for_deposit_u32 S V a = narrow (calc_lp_for_deposit (ucast S) (ucast V) (ucast a))
    \<and> calc_collateral_for_withdraw_u32 S V l = narrow (calc_collateral_for_withdraw (ucast S) (ucast V) (ucast l))
    \<and> distribute_loss (ucast jb) (ucast sb) (ucast loss) = map_prod ucast ucast (distribute_loss_u32 jb sb loss)
    \<and> (unat fee * (unat jb * unat mult) < 2 ^ 64 \<longrightarrow>
         map_option (map_prod ucast ucast) (distribute_fees_u32 jb sb (ucast mult) fee)
         = Some (distribute_fees (ucast jb) (ucast sb) mult (ucast fee)))"
proof -
  have "map_option (map_prod ucast ucast) (distribute_fees_u32 jb sb (ucast mult) fee)
      = Some (distribute_fees (ucast jb) (ucast sb) mult (ucast fee))" if "unat fee * (unat jb * unat mult) < 2 ^ 64"
    using mirror_distribute_fees [OF that, of sb] by fastforce
  then show ?thesis using mirror_calc_lp mirror_calc_collateral mirror_distribute_loss by blast
qed

theorem mirror_quotes_agree_witness:
  "calc_lp_for_deposit_u32 1000 2000 500 = narrow (calc_lp_for_deposit 1000 2000 500)
   \<and> map_option (map_prod ucast ucast) (distribute_fees_u32 300 700 20000 90) = Some (distribute_fees 300 700 20000 90)"
  using mirror_quotes_agree [of 1000 2000 500 0 300 700 0 90 20000] by simp




section \<open>The harnesses\<close>

text \<open>
  C37 (Kani suite).  No input makes any of the 56 harnesses fail: every assertion holds, every
  \<open>unwrap\<close> finds a value, and no plain addition, subtraction or multiplication leaves its type.
\<close>

theorem kani_suite_verified:
  "verified (proof_deposit_withdraw_no_inflation x y z)
   \<and> verified (proof_first_depositor_exact x)
   \<and> verified (proof_two_depositors_conservation x y z)
   \<and> verified (proof_no_dilution x y z u)
   \<and> verified (proof_flush_full_return_conservation x y z)
   \<and> verified (proof_lp_deposit_no_panic x y z)
   \<and> verified (proof_lp_deposit_overflow_guard x y z)
   \<and> verified proof_overflow_guard_fires_concrete
   \<and> verified (proof_collateral_withdraw_no_panic x y z)
   \<and> verified (proof_pool_value_no_panic x y)
   \<and> verified (proof_flush_available_no_panic x y z)
   \<and> verified (proof_lp_rounding_favors_pool x y z)
   \<and> verified (proof_larger_deposit_more_lp x y z u)
   \<and> verified (proof_larger_burn_more_collateral x y z u)
   \<and> verified (proof_equal_deposits_equal_lp x)
   \<and> verified (proof_full_burn_bounded x y)
   \<and> verified (proof_partial_less_than_full x y z)
   \<and> verified (proof_flush_preserves_value x y z u v)
   \<and> verified (proof_flush_bounded x y z)
   \<and> verified (proof_flush_max_then_zero x y z)
   \<and> verified (proof_pool_value_correctness x y)
   \<and> verified (proof_deposit_increases_value x y z)
   \<and> verified (proof_flush_return_conservation x y z u)
   \<and> verified (proof_returns_increase_value x y z u)
   \<and> verified (proof_zero_deposit_zero_lp x y)
   \<and> verified (proof_zero_burn_zero_col x y)
   \<and> verified (proof_cooldown_no_panic x y z)
   \<and> verified (proof_cooldown_not_immediate x y)
   \<and> verified (proof_cooldown_exact_boundary x y)
   \<and> verified (proof_cap_zero_uncapped x y)
   \<and> verified (proof_cap_at_boundary x y)
   \<and> verified (proof_cap_above_boundary x y)
   \<and> verified (proof_c9_orphaned_value_blocked x y)
   \<and> verified (proof_c9_valueless_lp_blocked x y)
   \<and> verified (proof_c9_true_first_depositor x)
   \<and> verified (proof_flush_reduces_value_exactly x y z)
   \<and> verified (proof_determinism_across_states x)
   \<and> verified (proof_pool_value_with_flush_no_panic x y z u)
   \<and> verified (proof_exceeds_cap_no_panic x y z)
   \<and> verified (proof_roundtrip_under_pool_value_change x y z u)
   \<and> verified (proof_no_inflation_attack x y z)
   \<and> verified (proof_cooldown_boundary_iff x y z)
   \<and> verified (proof_flush_conservation_lp_value x y z u)
   \<and> verified (proof_deposit_withdraw_no_inflation_inductive x y z)
   \<and> verified (proof_two_depositors_conservation_inductive x y z u v)
   \<and> verified (proof_distribute_loss_conservation x y z)
   \<and> verified (proof_distribute_loss_junior_first x y z)
   \<and> verified (proof_distribute_fees_conservation x y z u)
   \<and> verified (proof_distribute_fees_no_senior_all_to_junior x y z)
   \<and> verified (proof_subpool_deposit_orphan_blocked x y)
   \<and> verified (proof_subpool_first_deposit_one_to_one x)
   \<and> verified (proof_subpool_deposit_withdraw_no_profit x y z)
   \<and> verified (proof_senior_balance_never_underflows x y z u v)
   \<and> verified (proof_tranche_decomposition x y z u v)
   \<and> verified (proof_169_mode1_no_false_underflow_brick x y z u v w)
   \<and> verified (proof_161_recovery_never_windfalls_protected_senior x y z u)"
  by (intro conjI;
      rule v_deposit_withdraw_no_inflation v_first_depositor_exact v_two_depositors_conservation
        v_no_dilution v_flush_full_return_conservation v_lp_deposit_no_panic
        v_lp_deposit_overflow_guard v_overflow_guard_fires_concrete v_collateral_withdraw_no_panic
        v_pool_value_no_panic v_flush_available_no_panic v_lp_rounding_favors_pool
        v_larger_deposit_more_lp v_larger_burn_more_collateral v_equal_deposits_equal_lp
        v_full_burn_bounded v_partial_less_than_full v_flush_preserves_value
        v_flush_bounded v_flush_max_then_zero v_pool_value_correctness
        v_deposit_increases_value v_flush_return_conservation v_returns_increase_value
        v_zero_deposit_zero_lp v_zero_burn_zero_col v_cooldown_no_panic
        v_cooldown_not_immediate v_cooldown_exact_boundary v_cap_zero_uncapped
        v_cap_at_boundary v_cap_above_boundary v_c9_orphaned_value_blocked
        v_c9_valueless_lp_blocked v_c9_true_first_depositor v_flush_reduces_value_exactly
        v_determinism_across_states v_pool_value_with_flush_no_panic v_exceeds_cap_no_panic
        v_roundtrip_under_pool_value_change v_no_inflation_attack v_cooldown_boundary_iff
        v_flush_conservation_lp_value v_deposit_withdraw_no_inflation_inductive v_two_depositors_conservation_inductive
        v_distribute_loss_conservation v_distribute_loss_junior_first v_distribute_fees_conservation
        v_distribute_fees_no_senior_all_to_junior v_subpool_deposit_orphan_blocked v_subpool_first_deposit_one_to_one
        v_subpool_deposit_withdraw_no_profit v_senior_balance_never_underflows v_tranche_decomposition
        v_169_mode1_no_false_underflow_brick v_161_recovery_never_windfalls_protected_senior)

lemmas harness_defs =
  proof_deposit_withdraw_no_inflation_def proof_first_depositor_exact_def proof_two_depositors_conservation_def
  proof_no_dilution_def proof_flush_full_return_conservation_def proof_lp_deposit_no_panic_def
  proof_lp_deposit_overflow_guard_def proof_overflow_guard_fires_concrete_def proof_collateral_withdraw_no_panic_def
  proof_pool_value_no_panic_def proof_flush_available_no_panic_def proof_lp_rounding_favors_pool_def
  proof_larger_deposit_more_lp_def proof_larger_burn_more_collateral_def proof_equal_deposits_equal_lp_def
  proof_full_burn_bounded_def proof_partial_less_than_full_def proof_flush_preserves_value_def
  proof_flush_bounded_def proof_flush_max_then_zero_def proof_pool_value_correctness_def
  proof_deposit_increases_value_def proof_flush_return_conservation_def proof_returns_increase_value_def
  proof_zero_deposit_zero_lp_def proof_zero_burn_zero_col_def proof_cooldown_no_panic_def
  proof_cooldown_not_immediate_def proof_cooldown_exact_boundary_def proof_cap_zero_uncapped_def
  proof_cap_at_boundary_def proof_cap_above_boundary_def proof_c9_orphaned_value_blocked_def
  proof_c9_valueless_lp_blocked_def proof_c9_true_first_depositor_def proof_flush_reduces_value_exactly_def
  proof_determinism_across_states_def proof_pool_value_with_flush_no_panic_def proof_exceeds_cap_no_panic_def
  proof_roundtrip_under_pool_value_change_def proof_no_inflation_attack_def proof_cooldown_boundary_iff_def
  proof_flush_conservation_lp_value_def proof_deposit_withdraw_no_inflation_inductive_def proof_two_depositors_conservation_inductive_def
  proof_distribute_loss_conservation_def proof_distribute_loss_junior_first_def proof_distribute_fees_conservation_def
  proof_distribute_fees_no_senior_all_to_junior_def proof_subpool_deposit_orphan_blocked_def proof_subpool_first_deposit_one_to_one_def
  proof_subpool_deposit_withdraw_no_profit_def proof_senior_balance_never_underflows_def proof_tranche_decomposition_def
  proof_169_mode1_no_false_underflow_brick_def proof_161_recovery_never_windfalls_protected_senior_def

lemma u32_max_values: "(ucast U32_MAX :: u64) = 4294967295" "U32_MAX = 4294967295"
  by (simp_all add: word_unat_eq_iff)

lemmas harness_run = harness_defs u32_max_values kani_assume_def kani_assert_def kani_cover_def or_return_def
  unwrapped_def positive_def offset_product_def i32_add_def Let_def
  checked_add_def checked_mul_def checked_sub_def checked_div_def saturating_add_def saturating_sub_def
  VIRTUAL_SHARES_u32_def VIRTUAL_ASSETS_u32_def calc_lp_for_deposit_u32_def calc_collateral_for_withdraw_u32_def
  calc_subpool_lp_for_deposit_u32_def calc_subpool_collateral_for_withdraw_u32_def pool_value_u32_def
  pool_value_with_flush_u32_def flush_available_u32_def cooldown_elapsed_u32_def exceeds_cap_u32_def pool_inv_u32_def
  distribute_loss_u32_def distribute_fees_u32_def total_pool_value_mode0_u32_def effective_junior_balance_u32_def
  senior_balance_u32_def total_pool_value_mode0_rl_u32_def senior_balance_rl_u32_def
  total_pool_value_mode1_rl_i128_u32_def

text \<open>
  Every \<open>kani::cover!\<close> goal of the suite is met by a run that satisfies the
  harness's assumptions and passes, so no harness is verified vacuously.
\<close>

lemma kani_covers_reached:
  "proof_deposit_withdraw_no_inflation 4 4 2 = Passed [0]
   \<and> proof_first_depositor_exact 5 = Passed [0]
   \<and> proof_two_depositors_conservation 4 2 0 = Passed [0]
   \<and> proof_no_dilution 4 4 2 2 = Passed [0]
   \<and> proof_flush_full_return_conservation 9 2 3 = Passed [0]
   \<and> proof_lp_deposit_no_panic 1 1 1 = Passed [0]
   \<and> proof_lp_deposit_overflow_guard 4 4 2 = Passed [0]
   \<and> proof_collateral_withdraw_no_panic 1 1 1 = Passed [0]
   \<and> proof_pool_value_no_panic 1 1 = Passed [0]
   \<and> proof_flush_available_no_panic 1 1 1 = Passed [0]
   \<and> proof_lp_rounding_favors_pool 4 4 2 = Passed [0]
   \<and> proof_larger_deposit_more_lp 4 4 1 2 = Passed [0]
   \<and> proof_larger_burn_more_collateral 4 4 1 2 = Passed [0]
   \<and> proof_equal_deposits_equal_lp 5 = Passed [0]
   \<and> proof_full_burn_bounded 4 4 = Passed [0]
   \<and> proof_partial_less_than_full 4 4 2 = Passed [0]
   \<and> proof_flush_preserves_value 9 1 2 1 3 = Passed [0]
   \<and> proof_flush_bounded 9 1 2 = Passed [0]
   \<and> proof_flush_max_then_zero 9 1 2 = Passed [0]
   \<and> proof_pool_value_correctness 9 1 = Passed [0]
   \<and> proof_deposit_increases_value 9 1 2 = Passed [0]
   \<and> proof_flush_return_conservation 9 1 2 2 = Passed [0]
   \<and> proof_flush_return_conservation 9 1 2 1 = Passed [1]
   \<and> proof_returns_increase_value 9 1 2 1 = Passed [0]
   \<and> proof_zero_deposit_zero_lp 4 4 = Passed [0]
   \<and> proof_zero_burn_zero_col 4 4 = Passed [0]
   \<and> proof_cooldown_no_panic 1 1 1 = Passed [0]
   \<and> proof_cooldown_not_immediate 7 1 = Passed [0]
   \<and> proof_cooldown_exact_boundary 7 1 = Passed [0]
   \<and> proof_cap_zero_uncapped 7 1 = Passed [0]
   \<and> proof_cap_at_boundary 7 1 = Passed [0]
   \<and> proof_cap_above_boundary 7 1 = Passed [0]
   \<and> proof_c9_orphaned_value_blocked 7 1 = Passed [0]
   \<and> proof_c9_valueless_lp_blocked 7 1 = Passed [0]
   \<and> proof_c9_true_first_depositor 7 = Passed [0]
   \<and> proof_flush_reduces_value_exactly 9 1 2 = Passed [0]
   \<and> proof_determinism_across_states 7 = Passed [0]
   \<and> proof_pool_value_with_flush_no_panic 1 1 1 1 = Passed [0]
   \<and> proof_exceeds_cap_no_panic 1 1 1 = Passed [0]
   \<and> proof_roundtrip_under_pool_value_change 4 4 2 0 = Passed [0]
   \<and> proof_no_inflation_attack 4 2 0 = Passed [0]
   \<and> proof_cooldown_boundary_iff 7 1 8 = Passed [0]
   \<and> proof_cooldown_boundary_iff 7 1 7 = Passed [1]
   \<and> proof_flush_conservation_lp_value 4 12 2 3 = Passed [0]
   \<and> proof_deposit_withdraw_no_inflation_inductive 4 4 2 = Passed [0]
   \<and> proof_two_depositors_conservation_inductive 4 4 2 2 0 = Passed [0]
   \<and> proof_distribute_loss_conservation 4 4 6 = Passed [0]
   \<and> proof_distribute_loss_junior_first 4 4 3 = Passed [0]
   \<and> proof_distribute_fees_conservation 4 4 10000 6 = Passed [0]
   \<and> proof_distribute_fees_no_senior_all_to_junior 4 10000 6 = Passed [0]
   \<and> proof_subpool_first_deposit_one_to_one 7 = Passed [0]
   \<and> proof_subpool_deposit_withdraw_no_profit 4 4 2 = Passed [0]
   \<and> proof_senior_balance_never_underflows 9 1 3 1 2 = Passed [0]
   \<and> proof_tranche_decomposition 9 1 3 1 2 = Passed [0]
   \<and> proof_169_mode1_no_false_underflow_brick 4 6 0 0 9 0 = Passed [0]
   \<and> proof_161_recovery_never_windfalls_protected_senior 5 3 4 1 = Passed [0, 1]"
  by (intro conjI; simp add: harness_run)

end
