(* ===== verification/Panic_Freedom.thy ===== *)
theory Panic_Freedom
  imports Sample_Custody
begin

text \<open>
  The program never aborts: on a well-formed ledger every instruction returns \<open>Ok\<close> or a
  \<open>ProgramError\<close>.  A panic could come from an index or a slice out of range (the instruction's
  payload, token accounts and mints, the images of pools and records, the account list, a pool
  that shrank during a call), from a division by zero or an overflow in the fee split, from the plain
  subtractions behind a comparison, and from \<open>data_len\<close> and
  \<open>data_is_empty\<close> of an account whose data the handler already borrows.  The reserved bytes of a
  pool and of a record are arrays read and written at constant offsets, which the compiler checks.
  The lemmas follow the handlers: \<open>calm r\<close> says that \<open>r\<close> is not a panic, and the collection
  \<open>calm\<close> has one rule for each way the code composes results.
\<close>

definition calm :: "'a result \<Rightarrow> bool" where
  "calm r \<longleftrightarrow> r \<noteq> Inl Panic"

text \<open>The programs and system variables the handlers call report errors and do not abort.\<close>

definition quiet :: "env \<Rightarrow> bool" where
  "quiet E \<longleftrightarrow> (\<forall>h ix accs sd L. calm (runtime_invoke E h ix accs sd L))
     \<and> (\<forall>a L. calm (clock_from_account_info E a L)) \<and> (\<forall>a L. calm (rent_from_account_info E a L))
     \<and> (\<forall>n. calm (rent_minimum_balance E n))"

named_theorems calm \<open>results that are not panics\<close>

lemma calm_Inr [calm]: "calm (Inr x)" and calm_Inl [calm]: "e \<noteq> Panic \<Longrightarrow> calm (Inl e)"
  by (simp_all add: calm_def)

lemma calm_require [calm]: "e \<noteq> Panic \<Longrightarrow> (c \<Longrightarrow> calm k) \<Longrightarrow> calm (require c e k)"
  by (simp add: require_def calm_def)

lemma calm_bind [calm]: "calm r \<Longrightarrow> (\<And>x. r = Inr x \<Longrightarrow> calm (k x)) \<Longrightarrow> calm (bind_err r k)"
  by (auto simp: bind_err_def calm_def split: sum.split)

lemma calm_ok_or [calm]: "e \<noteq> Panic \<Longrightarrow> calm (ok_or x e)"
  by (simp add: ok_or_def calm_def split: option.split)

lemma calm_if [calm]: "(c \<Longrightarrow> calm x) \<Longrightarrow> (\<not> c \<Longrightarrow> calm y) \<Longrightarrow> calm (if c then x else y)"
  by simp

lemma calm_prod [calm]: "(\<And>x y. z = (x, y) \<Longrightarrow> calm (f x y)) \<Longrightarrow> calm (case z of (x, y) \<Rightarrow> f x y)"
  by (cases z) simp

lemma calm_option [calm]: "calm y \<Longrightarrow> (\<And>x. z = Some x \<Longrightarrow> calm (f x)) \<Longrightarrow> calm (case z of None \<Rightarrow> y | Some x \<Rightarrow> f x)"
  by (cases z) simp_all

lemma calm_list [calm]: "calm y \<Longrightarrow> (\<And>x xs. z = x # xs \<Longrightarrow> calm (f x xs)) \<Longrightarrow> calm (case z of [] \<Rightarrow> y | x # xs \<Rightarrow> f x xs)"
  by (cases z) simp_all

lemma calm_slice_at [calm]: "i \<le> j \<Longrightarrow> j \<le> length xs \<Longrightarrow> calm (slice_at i j xs)"
  by (simp add: calm_def)

lemma calm_index_at [calm]: "i < length xs \<Longrightarrow> calm (index_at i xs)"
  by (simp add: calm_def)

lemma calm_sub [calm]: "b < a \<Longrightarrow> calm (ok_or (checked_sub a b) Panic)"
  by (simp add: checked_sub_def calm_def)

lemma calm_distribute_fees [calm]: "calm (ok_or (distribute_fees_run a b c d) Panic)"
  by (simp add: distribute_fees_run_ends calm_def)

lemma calm_calls [calm]:
  assumes "quiet E"
  shows "calm (runtime_invoke E h ix accs sd L)" "calm (clock_from_account_info E x L)"
    "calm (rent_from_account_info E x L)" "calm (rent_minimum_balance E n)"
  using assms by (simp_all add: quiet_def)

lemma calm_data [calm]:
  "calm (data_is_empty [] x L)" "calm (try_borrow_data h x L)"
  "key x \<notin> set h \<Longrightarrow> calm (data_is_empty h x L)" "key x \<notin> set h \<Longrightarrow> calm (data_len h x L)"
  by (simp_all add: calm_def account_access require_def)

lemma calm_spl_token [calm]:
  "calm (spl_transfer a b c d e f)"
    "calm (mint_to a1 b1 c1 d1 e1 f1)"
    "calm (spl_burn a2 b2 c2 d2 e2 f2)"
    "calm (token_account_unpack a3)"
    "calm (mint_unpack a4)"
  unfolding spl_transfer_def mint_to_def spl_burn_def token_account_unpack_def
    mint_unpack_def Let_def
  by (intro calm; simp add: ACCOUNT_LEN_def MINT_LEN_def)+

lemma calm_read_fields [calm]:
  "32 \<le> length d \<Longrightarrow> calm (read_mint d)" "64 \<le> length d \<Longrightarrow> calm (read_owner d)"
  by (simp_all add: calm_def)

lemma calm_spl_token_calls [calm]:
  assumes "quiet E"
  shows "calm (initialize_mint E b c d e f)"
    "calm (initialize_account E b1 c1 d1 e1)"
  unfolding initialize_mint_def initialize_account_def Let_def
  by (intro calm assms; simp)+

lemma calm_cpi_calls [calm]:
  assumes "quiet E"
  shows "calm (cpi_top_up_insurance E b c d e f g h i j k)"
    "calm (cpi_withdraw_insurance_asset E b1 c1 d1 e1 f1 g1 h1 i1 j1 k1 l1)"
    "calm (cpi_update_authority E b2 c2 d2 e2 f2 g2 h2)"
    "calm (cpi_bind_insurance_authority E b3 c3 d3 e3 f3 g3 h3)"
    "calm (cpi_bind_insurance_operator E b4 c4 d4 e4 f4 g4 h4)"
    "calm (cpi_burn_asset_admin E b5 c5 d5 e5 f5 g5)"
    "calm (cpi_rotate_insurance_operator E b6 c6 d6 e6 f6 g6 h6)"
    "calm (cpi_rotate_insurance_authority E b7 c7 d7 e7 f7 g7 h7)"
    "calm (cpi_resolve_market E b8 c8 d8 e8 f8 g8)"
    "calm (cpi_update_fee_split E b9 c9 d9 e9 f9 g9 h9 i9 j9)"
    "calm (cpi_update_maintenance_fee_per_slot E b10 c10 d10 e10 f10 g10 h10)"
    "calm (cpi_update_backing_fee_policy E b11 c11 d11 e11 f11 g11 h11 i11 j11)"
    "calm (cpi_update_trade_fee_policy E b12 c12 d12 e12 f12 g12 h12)"
  unfolding cpi_top_up_insurance_def cpi_withdraw_insurance_asset_def cpi_update_authority_def cpi_bind_insurance_authority_def
    cpi_bind_insurance_operator_def cpi_burn_asset_admin_def cpi_rotate_insurance_operator_def cpi_rotate_insurance_authority_def
    cpi_resolve_market_def cpi_update_fee_split_def cpi_update_maintenance_fee_per_slot_def cpi_update_backing_fee_policy_def
    cpi_update_trade_fee_policy_def Let_def
  by (intro calm assms; simp)+

lemma calm_guards [calm]:
  "calm (timelock_window_elapsed a b c)"
    "calm (validate_cooldown_slots a1)"
    "calm (validate_hwm_floor_bps a2)"
    "calm (verify_token_program a3)"
    "calm (validate_account_owner a4 b4 c4)"
    "calm (validate_pool_version a5)"
    "calm (validate_account_writable a6)"
    "calm (validate_account_not_empty a7 b7)"
    "calm (validate_account_empty a8 b8)"
    "calm (validate_lp_recipient_account a9 b9 c9 d9 e9)"
    "calm (validate_source_ata a10 b10 c10 d10 e10 f10)"
    "calm (validate_mint_of a11 b11 c11 d11)"
    "calm (pool_from_data a12)"
    "calm (deposit_from_data a13)"
    "calm (open_pool a14 b14)"
    "calm (owned_pool_account a15 b15 c15)"
    "calm (present_pool_account a16 b16 c16)"
    "calm (open_pool_as_admin a17 b17 c17 d17)"
  unfolding timelock_window_elapsed_def validate_cooldown_slots_def validate_hwm_floor_bps_def verify_token_program_def
    validate_account_owner_def validate_pool_version_def validate_account_writable_def validate_account_not_empty_def
    validate_account_empty_def validate_lp_recipient_account_def validate_source_ata_def validate_mint_of_def
    pool_from_data_def deposit_from_data_def open_pool_def owned_pool_account_def
    present_pool_account_def open_pool_as_admin_def Let_def
  by (intro calm; simp add: ACCOUNT_LEN_def)+

lemma calm_guards_calls [calm]:
  assumes "quiet E"
  shows "calm (create_or_adopt_pda E b c d e f g h i)"
  unfolding create_or_adopt_pda_def Let_def
  by (intro calm assms; simp)+

lemma calm_admin [calm]:
  "calm (update_config_pool a b c)"
    "calm (accept_admin_pool a1 b1)"
    "calm (propose_cooldown_pool a2 b2 c2)"
    "calm (commit_cooldown_pool a3 b3)"
    "calm (cancel_cooldown_pool a4)"
    "calm (set_tranche_config_pool a5 b5)"
  unfolding update_config_pool_def accept_admin_pool_def propose_cooldown_pool_def commit_cooldown_pool_def
    cancel_cooldown_pool_def set_tranche_config_pool_def Let_def
  by (intro calm; simp)+

lemma calm_admin_handlers [calm]:
  assumes "quiet E"
  shows "calm (process_propose_cooldown_increase E b c d e)"
    "calm (process_commit_cooldown_increase E b1 c1 d1)"
  unfolding process_propose_cooldown_increase_def process_commit_cooldown_increase_def Let_def
  by (intro calm assms; simp)+

lemma calm_admin_plain_handlers [calm]:
  "calm (process_update_config a b c d e)"
    "calm (process_propose_admin a1 b1 c1 d1)"
    "calm (process_accept_admin a2 b2 c2)"
    "calm (process_cancel_cooldown_increase a3 b3 c3)"
    "calm (process_admin_set_hwm_config a4 b4 c4 d4 e4)"
    "calm (process_admin_set_tranche_config a5 b5 c5 d5)"
  unfolding process_update_config_def process_propose_admin_def process_accept_admin_def process_cancel_cooldown_increase_def
    process_admin_set_hwm_config_def process_admin_set_tranche_config_def Let_def
  by (intro calm; simp)+

lemma calm_authorities [calm]:
  "calm (read_pool_as_admin a b c d)"
    "calm (check_market a1 b1 c1)"
    "calm (validate_group_a_proxy a2 b2 c2 d2 e2 f2)"
  unfolding read_pool_as_admin_def check_market_def validate_group_a_proxy_def Let_def
  by (intro calm; simp)+

lemma calm_authorities_calls [calm]:
  assumes "quiet E"
  shows "calm (check_vault_auth E b c d)"
    "calm (validate_group_b_proxy E b1 c1 d1 e1 f1 g1 h1)"
  unfolding check_vault_auth_def validate_group_b_proxy_def Let_def
  by (intro calm assms; simp)+

lemma calm_authorities_handlers [calm]:
  assumes "quiet E"
  shows "calm (process_bind_insurance_authority E b c d)"
    "calm (process_rotate_insurance_operator E b1 c1 d1)"
    "calm (process_rotate_insurance_authority E b2 c2 d2)"
    "calm (process_admin_update_fee_split E b3 c3 d3 e3 f3 g3)"
    "calm (process_admin_update_maintenance_fee_per_slot E b4 c4 d4 e4)"
    "calm (process_admin_update_backing_fee_policy E b5 c5 d5 e5 f5 g5)"
    "calm (process_admin_update_trade_fee_policy E b6 c6 d6 e6)"
  unfolding process_bind_insurance_authority_def process_rotate_insurance_operator_def process_rotate_insurance_authority_def process_admin_update_fee_split_def
    process_admin_update_maintenance_fee_per_slot_def process_admin_update_backing_fee_policy_def process_admin_update_trade_fee_policy_def Let_def
  by (intro calm assms; simp)+

lemma calm_insurance [calm]:
  "calm (flush_pool a b)"
    "calm (return_pool a1 b1)"
    "calm (recover_pool a2 b2)"
    "calm (resolve_pool a3)"
    "calm (flush_checks a4 b4 c4 d4 e4)"
  unfolding flush_pool_def return_pool_def recover_pool_def resolve_pool_def
    flush_checks_def Let_def
  by (intro calm; simp)+

lemma calm_insurance_handlers [calm]:
  assumes "quiet E"
  shows "calm (process_flush_to_insurance E b c d e)"
    "calm (process_return_insurance E b1 c1 d1 e1)"
    "calm (process_recover_flushed_insurance E b2 c2 d2 e2)"
    "calm (process_admin_resolve_market E b3 c3 d3)"
  unfolding process_flush_to_insurance_def process_return_insurance_def process_recover_flushed_insurance_def process_admin_resolve_market_def Let_def
  by (intro calm assms; simp)+

lemma calm_insurance_plain_handlers [calm]:
  "calm (process_set_market_resolved a b c)"
  unfolding process_set_market_resolved_def Let_def
  by (intro calm; simp)+

lemma calm_fees [calm]:
  "calm (accrue_fees_inner a b)"
    "calm (vault_balance a1 b1 c1)"
    "calm (pre_accrue_fee_modes a2 b2 c2 d2)"
  unfolding accrue_fees_inner_def vault_balance_def pre_accrue_fee_modes_def Let_def
  by (intro calm; simp)+

lemma calm_fees_handlers [calm]:
  assumes "quiet E"
  shows "calm (process_accrue_fees E b c d)"
  unfolding process_accrue_fees_def Let_def
  by (intro calm assms; simp)+

lemma calm_deposits [calm]:
  "calm (apply_minimum_liquidity_lock a b)"
    "calm (check_deposit_cap a1 b1)"
    "calm (price_deposit a2 b2)"
    "calm (price_deposit_junior a3 b3)"
    "calm (deposit_totals a4 b4 c4)"
    "calm (deposit_junior_totals a5 b5 c5)"
    "calm (deposit_refresh_hwm a6 b6)"
    "calm (credit_senior_record a7 b7 c7 d7 e7 f7)"
    "calm (credit_junior_record a8 b8 c8 d8 e8 f8)"
  unfolding apply_minimum_liquidity_lock_def check_deposit_cap_def price_deposit_def price_deposit_junior_def
    deposit_totals_def deposit_junior_totals_def deposit_refresh_hwm_def credit_senior_record_def
    credit_junior_record_def Let_def
  by (intro calm; simp)+

lemma calm_deposits_calls [calm]:
  assumes "quiet E"
  shows "calm (deposit_transfers E b c d e f g h i j k l m n)"
    "calm (deposit_checks E b1 c1 d1 e1 f1 g1 h1)"
  unfolding deposit_transfers_def deposit_checks_def Let_def
  by (intro calm assms; simp)+

lemma calm_withdrawals [calm]:
  "calm (validate_burn_account a b c d e)"
    "calm (check_deposit_record a1 b1 c1 d1 e1 f1)"
    "calm (price_withdrawal a2 b2 c2)"
    "calm (enforce_hwm_floor a3 b3 c3 d3)"
    "calm (settle_last_junior a4)"
    "calm (withdraw_totals a5 b5 c5 d5)"
    "calm (debit_deposit_record a6 b6)"
  unfolding validate_burn_account_def check_deposit_record_def price_withdrawal_def enforce_hwm_floor_def
    settle_last_junior_def withdraw_totals_def debit_deposit_record_def Let_def
  by (intro calm; simp add: ACCOUNT_LEN_def)+

lemma calm_withdrawals_calls [calm]:
  assumes "quiet E"
  shows "calm (withdraw_transfers E b c d e f g h i j k l m n q)"
  unfolding withdraw_transfers_def Let_def
  by (intro calm assms; simp)+

lemma calm_init_pool_calls [calm]:
  assumes "quiet E"
  shows "calm (init_pool_checks E b c d e f g h i j k l m)"
    "calm (init_pool_calls E b1 c1 d1 e1 f1 g1 h1 i1 j1 k1 l1 m1 n1)"
  unfolding init_pool_checks_def init_pool_calls_def Let_def
  by (intro calm assms; simp)+

lemma calm_init_pool [calm]:
  assumes "quiet E"
  shows "calm (process_init_pool E b c d e f)"
  unfolding process_init_pool_def Let_def by (intro calm assms; simp)

lemma calm_init_trading_pool [calm]:
  assumes "quiet E"
  shows "calm (process_init_trading_pool E b c d e f)"
  unfolding process_init_trading_pool_def Let_def
  by (intro calm assms; simp add: process_init_pool_def INIT_POOL_POOL_PDA_INDEX_def)

lemma calm_arguments [calm]:
  "i \<le> j \<Longrightarrow> j \<le> length d \<Longrightarrow> calm (le_arg d i j)" "i < length d \<Longrightarrow> calm (flag_arg d i)"
  "(length d = n \<Longrightarrow> calm body) \<Longrightarrow> calm (arm d n body)"
  unfolding le_arg_def flag_arg_def arm_def by (intro calm; simp)+

lemma calm_payloads [calm]: "calm (one_u64 d f)" "calm (two_u64 d f2)" "calm (three_u16 d f3)"
  unfolding one_u64_def two_u64_def three_u16_def by (intro calm; simp)+

lemma calm_instruction [calm]: "calm (unpack_proxies a b)" "calm (unpack_insurance a b)" "calm (unpack d)"
  unfolding unpack_proxies_def unpack_insurance_def unpack_def by (intro calm; simp)+

section \<open>The handlers that could panic\<close>

text \<open>A deposit record is never at the address of a pool.\<close>

lemma record_apart:
  assumes "ledger_ok E pid L" "pda_separation E pid" "present_pool_account pid x L = Inr u" "open_pool x L = Inr p"
  shows "fst (derive_deposit_pda (find_program_address E) pid q r) \<notin> set [key x]"
  using ledger_okD(2) [OF assms(1), of "key x" p] assms(2-4) live_validates
  unfolding open_pool_ok present_pool_account_ok pda_separation_def by auto metis

lemma calm_credit_deposit [calm]:
  assumes "quiet E" "fst (derive_deposit_pda (find_program_address E) pid (key b) (key c)) \<notin> set h"
    and credit: "\<And>a b c d e r. calm (cr a b c d e r)"
  shows "calm (credit_deposit cr E pid h b c d e f g L)"
  unfolding credit_deposit_def open_or_create_deposit_def Let_def
  by (intro calm assms(1) credit; use assms(2) in simp)

lemma calm_validate_deposit_account [calm]:
  assumes "fst (derive_deposit_pda (find_program_address E) pid (key b) (key c)) \<notin> set h"
  shows "calm (validate_deposit_account E pid h b c d L)"
  unfolding validate_deposit_account_def by (intro calm; use assms in simp)

lemma calm_records:
  assumes "quiet E" and apart: "ledger_ok E pid L" "pda_separation E pid"
  shows "calm (process_deposit E pid accs a L)" "calm (process_deposit_junior E pid accs a L)"
    "calm (process_withdraw E pid accs a L)"
  unfolding process_deposit_def process_deposit_junior_def process_withdraw_def Let_def
  by (intro calm assms(1) record_apart [OF apart]; (assumption | simp))+

text \<open>The call of \<open>BurnAssetAdmin\<close> leaves the pool's account as long as it was.\<close>

lemma burn_reads_pool:
  assumes "cpi_frame E pid" "ledger_ok E pid L" "read_pool_as_admin pid a x L = Inr p" "check_market p s perc = Inr u"
    and "cpi_burn_asset_admin E [] perc a v s L = Inr L1" "try_borrow_data [] x L1 = Inr d"
  shows "calm (require (STAKE_POOL_SIZE \<le> length d) Panic (Inr y))"
proof -
  have p: "acc_owner (L (key x)) = pid" "pool_bytes_at L (key x) p" "live_pool p" "percolator_program p = key perc"
    using assms(3,4) by (auto simp: read_pool_as_admin_def check_market_def open_pool_ok)
  then have "keeps pid L L1"
    using ledger_okD(1) [OF assms(2)] live_validates wrapper_call_keeps(6) [OF assms(1) _ assms(5)] by metis
  then have "pool_bytes_at L1 (key x) p" using keeps_pool p(1,2) by blast
  then show ?thesis using assms(6) by (auto simp: try_borrow_data_def pool_bytes_at_def calm_def)
qed

lemma calm_burn:
  assumes "quiet E" and F: "cpi_frame E pid" "ledger_ok E pid L"
  shows "calm (process_burn_asset_admin E pid accs L)"
  unfolding process_burn_asset_admin_def Let_def
  by (intro burn_reads_pool [OF F] calm assms(1); (assumption | simp))

text \<open>
  C6 (no panics).  A slice or index out of range, a second borrow of a borrowed account, a division
  by zero and the overflow of a plain operation abort the program, \<open>Inl Panic\<close> in the model.  When
  the programs and system variables it calls report errors instead of aborting, no instruction with
  any accounts and data, truncated payloads and short token accounts included, aborts on a
  well-formed ledger: it returns \<open>Ok\<close> or an error code.
\<close>

theorem never_panics:
  assumes "quiet E" "cpi_frame E pid" "pda_separation E pid" "ledger_ok E pid L"
  shows "process E pid accs dt L \<noteq> Inl Panic"
proof -
  have "calm (process E pid accs dt L)"
    unfolding process_def
    by (intro calm_bind calm_instruction)
       (simp add: calm assms calm_records calm_burn split: StakeInstruction.split)
  then show ?thesis by (simp add: calm_def)
qed

lemma sample_quiet: "quiet sample_env"
proof -
  have mv: "calm (sample_add k x L)" "calm (sample_sub k x L)" "calm (sample_move k k' x L)" for k k' x L
    unfolding sample_move_def sample_add_def sample_sub_def by (intro calm; simp)+
  have "calm (sample_system ix L)" "calm (sample_token ix L)" "calm (sample_wrapper ix L)" for ix L
    unfolding sample_system_def sample_token_def sample_wrapper_def Let_def by (intro calm mv; simp)+
  then have "calm (sample_invoke ix L)" for ix L by (simp add: sample_invoke_def calm)
  then show ?thesis by (simp add: quiet_def sample_env_def calm)
qed

theorem never_panics_witness:
  "process sample_env sample_pid [ai 1 True, ai 42 False, ai 43 False, ai 2 False, program_ai PERCOLATOR_MAINNET]
     (pack BurnAssetAdmin) sample_ledger \<noteq> Inl Panic
   \<and> process sample_env sample_pid [ai 1 True, ai 42 False] [1, 5, 0] sample_ledger \<noteq> Inl Panic"
  by (intro conjI never_panics [OF sample_quiet sample_frame sample_separation sample_ledger_ok])

end
