(* ===== verification/Divergences.thy ===== *)
theory Divergences
  imports Sample_Tranches
begin

text \<open>
  Two places where the accounting does not do what the comments in \<open>src/processor.rs\<close> and
  \<open>src/state.rs\<close> say it is for.

  The first is the guard of \<open>accrue_fees_inner\<close> against a junior balance above the pool value.  It
  compares the raw junior balance, which a flush leaves alone, with a pool value that the flush
  has lowered.  While flushed insurance is outstanding and the raw junior balance exceeds what
  the vault holds, one token sent to the vault makes the guard fail in every path that accrues.

  The second is that insurance can come back twice: \<open>ReturnInsurance\<close> is capped by flushed minus
  returned, \<open>RecoverFlushedInsurance\<close> by flushed minus recovered from the wrapper, and both count
  into \<open>total_returned\<close>.  The credit left over hides the next flush from the junior tranche.
\<close>

section \<open>A donation that blocks the pool\<close>

lemma accrual_blocked:
  assumes "tranche_enabled p" "junior_total_lp p > 0" "total_lp_supply p > 0"
    and "total_pool_value p = Some v" "v < bal" "bal < junior_balance p"
  shows "accrue_fees_inner bal p \<noteq> Inr p'"
proof
  assume "accrue_fees_inner bal p = Inr p'"
  then obtain fees jf sf sb jb pv where f: "checked_add (total_fees_earned p) (bal - v) = Some fees"
    "checked_add (junior_balance p) jf = Some jb"
    "total_pool_value (set_junior_balance jb (p\<lparr>total_fees_earned := fees\<rparr>)) = Some pv" "\<not> jb > pv"
    using assms by (auto simp: accrue_fees_inner_eq Let_def case_prod_beta)
  have "uint fees = uint (total_fees_earned p) + uint (bal - v)" using f(1) by (simp add: checked_uint)
  moreover have "uint (bal - v) = uint bal - uint v" using assms(5) unfolding uint_sub_lem [symmetric]
    by (simp add: word_less_def)
  ultimately have "pool_value_int (set_junior_balance jb (p\<lparr>total_fees_earned := fees\<rparr>)) = uint bal"
    using assms(4) by (simp add: total_pool_value_eq_Some pool_value_int_def)
  then have "uint pv = uint bal" using f(3) by (simp add: total_pool_value_eq_Some)
  moreover have "uint (junior_balance p) \<le> uint jb" using f(2) by (simp add: checked_uint)
  ultimately show False using f(4) assms(6) by (simp add: word_less_def)
qed

lemma accruing_step:
  assumes "pool_step c ins p p'" "ins \<in> {Deposit a, DepositJunior a, Withdraw a, AccrueFees}" "pool_mode p \<le> 1"
  obtains p1 where "accrue_fees_inner (vault_bal c) p = Inr p1"
  using assms by (cases rule: pool_step.cases) (auto simp: pre_accrue_pool_def)

text \<open>
  C39 (dust donation).  While tranches are on, a pool whose raw junior balance exceeds the tokens
  in its vault, and whose vault holds anything beyond the tracked value, accepts no deposit, no
  withdrawal and no fee accrual, by anyone.
\<close>

theorem dust_blocks_lossy_pool:
  assumes "cpi_frame E pid" "pda_separation E pid" "ledger_ok E pid L"
    and "unpack dt = Inr ins" "ins \<in> {Deposit a, DepositJunior a, Withdraw a, AccrueFees}"
    and "live_at pid L (key (accs ! 1)) p" "pool_mode p \<le> 1"
    and "tranche_enabled p" "junior_total_lp p > 0" "total_lp_supply p > 0"
    and "pool_value_int p < tokens L (vault p)" "0 \<le> pool_value_int p" "tokens L (vault p) < uint (junior_balance p)"
  shows "process E pid accs dt L \<noteq> Inr L'"
proof
  assume run: "process E pid accs dt L = Inr L'"
  obtain p' where p': "live_at pid L' (key (accs ! 1)) p'"
    using process_refines_aux [OF assms(1-3) run assms(6)] by blast
  have act: "acts_on_pool ins" using assms(5) by (auto simp: acts_on_pool_def)
  obtain c :: step_ctx where c: "reads E pid accs ins p L c" "pool_step c ins p p'"
    by (rule process_acting [OF assms(1,3) run assms(4) act assms(6) p'])
  obtain i where i: "vault_index ins = Some i" using assms(5) by (auto simp: vault_index_def)
  have bal: "uint (vault_bal c) = tokens L (vault p)"
    using reads_vault [OF c(1) i] assms(7) vault_balance_tokens by force
  define v :: u64 where "v = word_of_int (pool_value_int p)"
  have "pool_value_int p < 2 ^ 64" using assms(11) bal uint_lt2p [of "vault_bal c"] by simp
  then have "uint v = pool_value_int p"
    unfolding v_def using assms(12) by (simp add: uint_word_of_int_eq take_bit_int_eq_self)
  then have v: "total_pool_value p = Some v" "v < vault_bal c" "vault_bal c < junior_balance p"
    using assms(11,13) bal by (simp_all add: total_pool_value_eq_Some word_less_def)
  obtain p1 where "accrue_fees_inner (vault_bal c) p = Inr p1" by (rule accruing_step [OF c(2) assms(5,7)])
  then show False using accrual_blocked [OF assms(8-10) v] by blast
qed

text \<open>
  The state is an ordinary one: tranches configured, a senior deposit of 5000, a junior deposit
  of 6000 and a flush of 7000 lead to it from a new pool.
\<close>

definition sample_lossy :: StakePool where
  "sample_lossy = set_epoch_high_water_tvl (saturating_sub (epoch_high_water_tvl sample_pool) 7000)
     (sample_both\<lparr>total_flushed := 7000\<rparr>)"

lemma sample_lossy_reached:
  assumes c: "actor c = fill 1" "vault_bal c = 0" and c': "actor c' = fill 1" "vault_bal c' = 5000"
  shows "pool_step c (AdminSetTrancheConfig 10000) sample_pool sample_tranched
    \<and> pool_step c (Deposit 5000) sample_tranched sample_senior
    \<and> pool_step c' (DepositJunior 6000) sample_senior sample_both
    \<and> pool_step c' (FlushToInsurance 7000) sample_both sample_lossy"
proof (intro conjI)
  show "pool_step c (AdminSetTrancheConfig 10000) sample_pool sample_tranched"
    by (rule step_tranche) (use c in \<open>simp_all add: set_tranche_config_pool_def sample_tranched_def\<close>)
  show "pool_step c (Deposit 5000) sample_tranched sample_senior"
    by (rule step_deposit [OF _ _ _ _ sample_first_lock(1), where ?p2.0 = sample_senior])
       (use c in \<open>simp_all add: pre_accrue_pool_def accrue_fees_inner_eq stage_values check_deposit_cap_def
          deposit_totals_def deposit_refresh_hwm_def checked_add_def sample_tranched_def sample_senior_def\<close>)
  show "pool_step c' (DepositJunior 6000) sample_senior sample_both"
    by (rule step_deposit_junior [OF _ _ _ _ _ sample_first_lock(2), where ?p2.0 = sample_both])
       (use c' in \<open>simp_all add: pre_accrue_pool_def accrue_fees_inner_eq stage_values check_deposit_cap_def
          deposit_junior_totals_def deposit_totals_def deposit_refresh_hwm_def checked_add_def sample_stages\<close>)
  show "pool_step c' (FlushToInsurance 7000) sample_both sample_lossy"
    by (rule step_flush [OF _ _ _ _ sample_stage_values(3)])
       (use c' in \<open>simp_all add: flush_pool_def checked_add_def sample_lossy_def sample_stages\<close>)
qed

theorem dust_blocks_lossy_pool_witness:
  "pool_value_int sample_lossy = 4000
   \<and> (\<forall>L'. process sample_env sample_pid sample_withdraw_accounts (pack (Withdraw 2000))
       (write_pool (ai 42 False) sample_lossy sample_matured) \<noteq> Inr L')"
proof -
  let ?L = "write_pool (ai 42 False) sample_lossy sample_matured"
  have id: "identity sample_lossy = identity sample_funded" by (simp add: sample_lossy_def sample_stages)
  have live: "live_at sample_pid ?L (fill 42) sample_lossy"
    using write_live [of sample_pid sample_matured "ai 42 False" sample_funded sample_lossy] sample_matured_live id by simp
  have ok: "ledger_ok sample_env sample_pid ?L"
    by (rule write_pool_ledger_ok [OF sample_matured_ok, where p = sample_funded])
       (use id sample_matured_live live_validates in \<open>auto simp: live_at_def\<close>)
  have f: "pool_value_int sample_lossy = 4000" "tranche_enabled sample_lossy" "junior_total_lp sample_lossy = 6000"
    "total_lp_supply sample_lossy = 11000" "junior_balance sample_lossy = 6000" "pool_mode sample_lossy = 0"
    "vault sample_lossy = fill 4"
    by (simp_all add: sample_lossy_def sample_stages pool_value_int_def)
  have t: "tokens ?L (fill 4) = 5000" by (simp add: tokens_def sample_matured_at)
  have "process sample_env sample_pid sample_withdraw_accounts (pack (Withdraw 2000)) ?L \<noteq> Inr L'" for L'
    by (rule dust_blocks_lossy_pool [OF sample_frame sample_separation ok unpack_pack, where a = 2000 and p = sample_lossy])
       (use live f t in \<open>simp_all add: sample_withdraw_accounts_def\<close>)
  then show ?thesis using f by simp
qed

section \<open>Insurance that comes back twice\<close>

text \<open>
  C40 (double return).  After a flush of \<open>a\<close>, the admin's return of \<open>a\<close> and the recovery of \<open>a\<close> from
  the wrapper both pass their caps and both count: the pool has twice the flushed amount as
  returned.  A later flush of \<open>x\<close>, up to \<open>a\<close>, then lowers the pool value by \<open>x\<close> and leaves the
  effective junior balance untouched, so the senior tranche bears it first.
\<close>

theorem double_return_inverts_waterfall:
  assumes "total_flushed p = a" "total_returned p = 0" "realized_junior_loss p = 0" "total_recovered_from_wrapper p = 0"
    and "2 * unat a < 2 ^ 64" "x \<le> a"
  shows "a \<le> saturating_sub (total_flushed p) (total_returned p) \<and>
    (\<exists>p1 p2 p3. return_pool a p = Inr p1 \<and> a \<le> wrapper_recoverable p1 \<and> recover_pool a p1 = Inr p2
      \<and> unat (total_returned p2) = 2 * unat (total_flushed p2)
      \<and> flush_pool x p2 = Inr p3 \<and> pool_value_int p3 = pool_value_int p2 - uint x
      \<and> effective_junior_balance p3 = effective_junior_balance p2
      \<and> effective_junior_balance p2 = junior_balance p)"
proof -
  have ax: "unat a + unat a < 2 ^ 64" "unat a + unat x < 2 ^ 64" using assms(5,6) by (simp_all add: word_le_nat_alt)
  let ?p1 = "p\<lparr>total_returned := a\<rparr>"
  let ?p2 = "p\<lparr>total_returned := a + a, total_recovered_from_wrapper := a\<rparr>"
  let ?q = "?p2\<lparr>total_flushed := a + x\<rparr>"
  let ?p3 = "set_epoch_high_water_tvl (saturating_sub (epoch_high_water_tvl ?q) x) ?q"
  have s: "unat (a + a) = unat a + unat a" "unat (a + x) = unat a + unat x" using ax by (simp_all add: unat_word_ariths)
  have r: "return_pool a p = Inr ?p1" "recover_pool a ?p1 = Inr ?p2" "flush_pool x ?p2 = Inr ?p3"
    using ax assms(1,2,4) by (simp_all add: return_pool_def recover_pool_def flush_pool_def checked_add_def Let_def)
  have "uint (a + x) = uint a + uint x" unfolding uint_nat s(2) by simp
  then have v: "pool_value_int ?p3 = pool_value_int ?p2 - uint x" using assms(1) by (simp add: pool_value_int_def)
  have e: "effective_junior_balance ?p2 = junior_balance p" "effective_junior_balance ?p3 = junior_balance p"
    using s assms(1,6) by (simp_all add: word_unat_eq_iff unat_effective_junior_balance net_loss_def word_le_nat_alt)
  have "a \<le> wrapper_recoverable ?p1" "a \<le> saturating_sub (total_flushed p) (total_returned p)"
    using assms by (simp_all add: wrapper_recoverable_def word_le_nat_alt)
  moreover have "unat (total_returned ?p2) = 2 * unat (total_flushed ?p2)" using s assms(1) by simp
  ultimately show ?thesis using r v e by metis
qed

theorem double_return_inverts_waterfall_witness:
  "\<exists>p1 p2 p3. return_pool 7000 sample_lossy = Inr p1 \<and> recover_pool 7000 p1 = Inr p2
     \<and> flush_pool 3000 p2 = Inr p3 \<and> effective_junior_balance p3 = 6000"
proof -
  have f: "total_flushed sample_lossy = 7000" "total_returned sample_lossy = 0" "realized_junior_loss sample_lossy = 0"
    "total_recovered_from_wrapper sample_lossy = 0" "junior_balance sample_lossy = 6000"
    using sample_born by (simp_all add: sample_lossy_def sample_stages born_def)
  show ?thesis using double_return_inverts_waterfall [OF f(1-4), of 3000] f(5) by force
qed

end
