(* ===== verification/Account_Types.thy ===== *)
theory Account_Types
  imports Lp_Supply Sample_Chain
begin

text \<open>
  Typing of the program's accounts.  The program tells its accounts apart by discriminator
  bytes and by address; \<open>account_typed\<close> is the discipline those checks are meant to enforce:
  an account owned by the program is blank, or a live pool at the address and bump derived from
  its own slab and with the bump of its vault authority, or a deposit record at the address derived from its own pool and user, of a
  pool that exists.  \<open>world_typed\<close> is type preservation for every instruction.
\<close>

section \<open>The three kinds of account\<close>

definition blank_account :: "ledger \<Rightarrow> pubkey \<Rightarrow> bool" where
  "blank_account L k \<longleftrightarrow> set (acc_data (L k)) \<subseteq> {0}"

definition derived_keys :: "env \<Rightarrow> pubkey \<Rightarrow> pubkey \<Rightarrow> StakePool \<Rightarrow> bool" where
  "derived_keys E pid k p \<longleftrightarrow>
     derive_pool_pda (find_program_address E) pid (slab p) = (k, bump p)
     \<and> snd (derive_vault_authority (find_program_address E) pid k) = vault_authority_bump p"

definition pool_account :: "env \<Rightarrow> pubkey \<Rightarrow> ledger \<Rightarrow> pubkey \<Rightarrow> bool" where
  "pool_account E pid L k \<longleftrightarrow>
     (\<exists>p. live_at pid L k p \<and> derived_keys E pid k p)"

definition record_typed :: "pubkey \<Rightarrow> pubkey \<Rightarrow> StakeDeposit \<Rightarrow> bool" where
  "record_typed pl u r \<longleftrightarrow>
     deposit_validate_discriminator r \<and> dep_pool r = pl \<and> dep_user r = u
     \<and> (dep_is_initialized r = 1 \<or> dep_is_initialized r = 0 \<and> lp_amount r = 0 \<and> \<not> is_junior_deposit r)"

definition record_account :: "env \<Rightarrow> pubkey \<Rightarrow> ledger \<Rightarrow> pubkey \<Rightarrow> bool" where
  "record_account E pid L k \<longleftrightarrow>
     (\<exists>r. acc_owner (L k) = pid \<and> deposit_bytes_at L k r \<and> record_typed (dep_pool r) (dep_user r) r
        \<and> k = fst (derive_deposit_pda (find_program_address E) pid (dep_pool r) (dep_user r))
        \<and> (\<exists>p. live_at pid L (dep_pool r) p))"

definition account_typed :: "env \<Rightarrow> pubkey \<Rightarrow> ledger \<Rightarrow> pubkey \<Rightarrow> bool" where
  "account_typed E pid L k \<longleftrightarrow>
     acc_owner (L k) = pid \<longrightarrow> blank_account L k \<or> pool_account E pid L k \<or> record_account E pid L k"

definition ledger_typed :: "env \<Rightarrow> pubkey \<Rightarrow> ledger \<Rightarrow> bool" where
  "ledger_typed E pid L \<longleftrightarrow> (\<forall>k. account_typed E pid L k)"

lemma ledger_typedD: "ledger_typed E pid L \<Longrightarrow> account_typed E pid L k"
  by (simp add: ledger_typed_def)

section \<open>Records stay records\<close>

lemma discriminator_kept [simp]:
  "deposit_validate_discriminator (deposit_set_discriminator r)"
  "deposit_validate_discriminator (set_junior_deposit b r) = deposit_validate_discriminator r"
  "deposit_validate_discriminator (r\<lparr>dep_is_initialized := x_dep_is_initialized\<rparr>) = deposit_validate_discriminator r"
  "deposit_validate_discriminator (r\<lparr>dep_bump := x_dep_bump\<rparr>) = deposit_validate_discriminator r"
  "deposit_validate_discriminator (r\<lparr>dep_pool := x_dep_pool\<rparr>) = deposit_validate_discriminator r"
  "deposit_validate_discriminator (r\<lparr>dep_user := x_dep_user\<rparr>) = deposit_validate_discriminator r"
  "deposit_validate_discriminator (r\<lparr>last_deposit_slot := x_last_deposit_slot\<rparr>) = deposit_validate_discriminator r"
  "deposit_validate_discriminator (r\<lparr>lp_amount := x_lp_amount\<rparr>) = deposit_validate_discriminator r"
  by (simp_all add: deposit_validate_discriminator_def deposit_set_discriminator_def set_junior_deposit_def
      STAKE_DEPOSIT_DISCRIMINATOR_def)

lemma credit_record_typed:
  assumes "credit_senior_record pl u b now m r = Inr r' \<or> credit_junior_record pl u b now m r = Inr r'"
  shows "record_typed pl u r'"
  using assms
  by (auto simp: credit_senior_record_def credit_junior_record_def record_typed_def Let_def split: if_splits)

lemma debit_record_typed:
  assumes "debit_deposit_record lp r = Inr r'" "check_deposit_record pl u cool now lp r = Inr j"
  shows "record_typed pl u r'"
  using assms
  by (auto simp: debit_deposit_record_def check_deposit_record_def record_typed_def Let_def
      deposit_validate_discriminator_def is_junior_deposit_def split: if_splits)

text \<open>A withdrawal debits the record it checked; a deposit initialises the one it credits.\<close>

lemma rewritten_record_typed:
  assumes "reads E pid accs ins p L c" "keeps pid L L1" "deposit_bytes_at L1 (key (accs ! 7)) r"
    "record_update ins (key (accs ! 1)) (key (accs ! 0)) now m r r'"
  shows "record_typed (key (accs ! 1)) (key (accs ! 0)) r'"
proof (cases ins)
  case (Withdraw lp)
  obtain r0 where r0: "acc_owner (L (key (accs ! 7))) = pid" "deposit_bytes_at L (key (accs ! 7)) r0"
    "check_deposit_record (key (accs ! 1)) (key (accs ! 0)) (cooldown_slots p) (slot (clock_now c)) lp r0
       = Inr (junior_flag c)"
    using assms(1) unfolding reads_def Withdraw StakeInstruction.case by blast
  have "r0 = r" using r0(1,2) assms(2,3) by (simp add: keeps_def deposit_bytes_at_def)
  then show ?thesis using assms(4) r0(3) debit_record_typed by (auto simp: record_update_def Withdraw)
next
  case (Deposit a)
  show ?thesis
    using assms(4) credit_record_typed unfolding record_update_def Deposit StakeInstruction.case by blast
next
  case (DepositJunior a)
  show ?thesis
    using assms(4) credit_record_typed unfolding record_update_def DepositJunior StakeInstruction.case by blast
qed (use assms(4) in \<open>simp_all add: record_update_def\<close>)

lemma zeroed_not_record:
  assumes "set (acc_data (L k)) \<subseteq> {0}" "deposit_bytes_at L k r"
  shows "\<not> deposit_validate_discriminator r"
proof
  assume v: "deposit_validate_discriminator r"
  obtain n where n: "acc_data (L k) = replicate n 0" using zero_bytes [OF assms(1)] by blast
  then have "152 \<le> n" "dep_reserved r = array_of (replicate 64 0)"
    using assms(2) by (auto simp: deposit_bytes_at_def deposit_of_bytes_def slice_def STAKE_DEPOSIT_SIZE_def)
  then have "STAKE_DEPOSIT_DISCRIMINATOR = replicate 8 0"
    using v by (simp add: deposit_validate_discriminator_def get_bytes_def slice_def array_of_inverse)
  then have "hd STAKE_DEPOSIT_DISCRIMINATOR \<in> set (replicate 8 0)"
    by (metis hd_in_set list.size(3) length_replicate zero_neq_numeral)
  then show False by (simp add: STAKE_DEPOSIT_DISCRIMINATOR_def)
qed

section \<open>Type preservation\<close>

lemma keeps_typed:
  assumes "keeps pid L L'" "ledger_typed E pid L"
  shows "ledger_typed E pid L'"
  unfolding ledger_typed_def account_typed_def
proof (intro allI impI)
  fix k
  assume own: "acc_owner (L' k) = pid"
  show "blank_account L' k \<or> pool_account E pid L' k \<or> record_account E pid L' k"
  proof (cases "acc_owner (L k) = pid")
    case False
    then show ?thesis using assms(1) own unfolding keeps_def blank_account_def by metis
  next
    case True
    then have data: "acc_data (L' k) = acc_data (L k)" using assms(1) unfolding keeps_def by metis
    have "pool_account E pid L k \<Longrightarrow> pool_account E pid L' k"
      using keeps_live_at [OF assms(1)] unfolding pool_account_def by blast
    moreover have "record_account E pid L k \<Longrightarrow> record_account E pid L' k"
      using keeps_live_at [OF assms(1)] own data unfolding record_account_def deposit_bytes_at_def by metis
    ultimately show ?thesis
      using ledger_typedD [OF assms(2), of k] True data unfolding account_typed_def blank_account_def by auto
  qed
qed

text \<open>A write that leaves pools live disturbs only the account it writes.\<close>

lemma write_elsewhere_typed:
  assumes "account_typed E pid L k" "L' k = L k" "\<And>pl p. live_at pid L pl p \<Longrightarrow> \<exists>q. live_at pid L' pl q"
  shows "account_typed E pid L' k"
proof -
  have "pool_account E pid L' k = pool_account E pid L k"
    using assms(2) by (simp add: pool_account_def live_at_def pool_bytes_at_def)
  moreover have "record_account E pid L k \<Longrightarrow> record_account E pid L' k"
    using assms(2,3) unfolding record_account_def deposit_bytes_at_def by metis
  ultimately show ?thesis using assms(1,2) unfolding account_typed_def blank_account_def by auto
qed

lemma write_pool_typed:
  assumes ty: "ledger_typed E pid L" and own: "acc_owner (L (key b)) = pid"
    and len: "STAKE_POOL_SIZE \<le> length (acc_data (L (key b)))"
    and p: "live_pool p" "derived_keys E pid (key b) p"
  shows "ledger_typed E pid (write_pool b p L)"
  unfolding ledger_typed_def
proof
  fix k
  have live: "live_at pid (write_pool b p L) (key b) p"
    using own p(1) write_pool_at [of L b p, OF len] by (simp add: live_at_def)
  show "account_typed E pid (write_pool b p L) k"
  proof (cases "k = key b")
    case True
    then show ?thesis using live p(2) unfolding account_typed_def pool_account_def by blast
  next
    case False
    show ?thesis
    proof (rule write_elsewhere_typed [OF ledger_typedD [OF ty]])
      show "write_pool b p L k = L k" using False by simp
      show "\<exists>q. live_at pid (write_pool b p L) pl q" if "live_at pid L pl q0" for pl q0
        using that live write_pool_live by (cases "pl = key b") blast+
    qed
  qed
qed

lemma write_deposit_typed:
  assumes ty: "ledger_typed E pid L" and ok: "ledger_ok E pid L" and sep: "pda_separation E pid"
    and own: "acc_owner (L (key b)) = pid" and at: "deposit_bytes_at L (key b) r"
    and r': "record_typed pl u r'" and adr: "key b = fst (derive_deposit_pda (find_program_address E) pid pl u)"
    and pl: "live_at pid L pl p"
  shows "ledger_typed E pid (write_deposit b r' L)"
  unfolding ledger_typed_def
proof
  fix k
  have away: "q0 \<noteq> key b" if "live_at pid L q0 q" for q0 q
    using ledger_okD(2) [OF ok] that sep adr live_validates unfolding live_at_def pda_separation_def by metis
  have live: "live_at pid (write_deposit b r' L) q0 q" if "live_at pid L q0 q" for q0 q
    using write_deposit_live [OF away [OF that]] that by blast
  show "account_typed E pid (write_deposit b r' L) k"
  proof (cases "k = key b")
    case True
    have "stored pid (write_deposit b r' L) k = Some r'" using write_deposit_stored(1) [OF own at] True by simp
    then have "acc_owner (write_deposit b r' L k) = pid" "deposit_bytes_at (write_deposit b r' L) k r'"
      by (auto simp: stored_def deposit_bytes_at_def split: if_splits)
    moreover have "dep_pool r' = pl" "dep_user r' = u" using r' by (simp_all add: record_typed_def)
    ultimately have "record_account E pid (write_deposit b r' L) k"
      using r' adr True live [OF pl] unfolding record_account_def by blast
    then show ?thesis by (simp add: account_typed_def)
  next
    case False
    show ?thesis
      by (rule write_elsewhere_typed [OF ledger_typedD [OF ty]]) (use False live in auto)
  qed
qed

text \<open>A live pool of a typed ledger is a pool account: it is not blank, and not at a record address.\<close>

lemma typed_pool:
  assumes ty: "ledger_typed E pid L" and ok: "ledger_ok E pid L" and sep: "pda_separation E pid" and p: "live_at pid L k p"
  shows "derived_keys E pid k p"
proof -
  have at: "acc_owner (L k) = pid" "pool_bytes_at L k p" "validate_discriminator p"
    using p live_validates by (auto simp: live_at_def)
  have "\<not> blank_account L k" using zeroed_not_pool at(2,3) unfolding blank_account_def by blast
  moreover have "\<not> record_account E pid L k"
    using ledger_okD(2) [OF ok at] sep unfolding record_account_def pda_separation_def by metis
  ultimately show ?thesis
    using ledger_typedD [OF ty, of k] at(1) p live_at_unique unfolding account_typed_def pool_account_def by blast
qed

lemmas typed_bump = typed_pool [unfolded derived_keys_def, THEN conjunct2, symmetric]

lemma pool_effect_typed:
  assumes eff: "pool_effect E pid accs ins L L'" and ok: "ledger_ok E pid L" and sep: "pda_separation E pid"
    and ty: "ledger_typed E pid L"
  shows "ledger_typed E pid L'"
proof -
  obtain c p p' L1 L2 where s:
    "acc_owner (L (key (accs ! 1))) = pid" "pool_bytes_at L (key (accs ! 1)) p" "live_pool p"
    "reads E pid accs ins p L c" "pool_step c ins p p'" "keeps pid L L1"
    "rewrites_record E pid accs ins (slot (clock_now c)) (total_lp_supply p' - total_lp_supply p) L1 L2"
    "L' = write_pool (accs ! 1) p' L2"
    by (rule pool_effect_cases [OF eff ok]) blast
  have live: "live_at pid L (key (accs ! 1)) p" using s by (simp add: live_at_def)
  have live1: "live_at pid L1 (key (accs ! 1)) p" by (rule keeps_live_at [OF s(6) live])
  have ty1: "ledger_typed E pid L1" by (rule keeps_typed [OF s(6) ty])
  have ok1: "ledger_ok E pid L1" by (rule keeps_ledger_ok [OF s(6) ok])
  have ty2: "ledger_typed E pid L2"
  proof (cases "rewrites_a_record ins")
    case True
    then obtain r r' where r: "acc_owner (L1 (key (accs ! 7))) = pid" "deposit_bytes_at L1 (key (accs ! 7)) r"
      "key (accs ! 7) = fst (derive_deposit_pda (find_program_address E) pid (key (accs ! 1)) (key (accs ! 0)))"
      "record_update ins (key (accs ! 1)) (key (accs ! 0)) (slot (clock_now c))
         (total_lp_supply p' - total_lp_supply p) r r'"
      "L2 = write_deposit (accs ! 7) r' L1"
      using s(7) unfolding rewrites_record_def by auto
    show ?thesis
      unfolding r(5)
      by (rule write_deposit_typed [OF ty1 ok1 sep r(1,2) rewritten_record_typed [OF s(4,6) r(2,4)] r(3) live1])
  qed (use s(7) ty1 in \<open>simp add: rewrites_record_def\<close>)
  have same: "L2 (key (accs ! 1)) = L1 (key (accs ! 1))" by (rule record_pool [OF s(7)])
  have "derived_keys E pid (key (accs ! 1)) p" by (rule typed_pool [OF ty ok sep live])
  moreover have id: "identity p' = identity p" by (rule pool_step_identity [OF s(5)])
  then have "derived_keys E pid k p' = derived_keys E pid k p" for k by (simp add: identity_def derived_keys_def)
  ultimately show ?thesis
    unfolding s(8) using live1 same identity_live [OF id] s(3)
    by (intro write_pool_typed [OF ty2]) (simp_all add: live_at_def pool_bytes_at_def)
qed

lemma init_effect_typed:
  assumes "init_effect E pid accs c d md L L'" "ledger_typed E pid L"
  shows "ledger_typed E pid L'"
proof -
  obtain L2 pb vb q0 p where e:
    "derive_pool_pda (find_program_address E) pid (key (accs ! 1)) = (key (accs ! 2), pb)"
    "derive_vault_authority (find_program_address E) pid (key (accs ! 2)) = (key (accs ! 5), vb)" "keeps pid L L2"
    "acc_owner (L2 (key (accs ! 2))) = pid" "pool_bytes_at L2 (key (accs ! 2)) q0" "L' = write_pool (accs ! 2) p L2"
    and p: "p = (genesis_pool pb vb (key (accs ! 1)) (key (accs ! 0)) (key (accs ! 6)) (key (accs ! 3))
               (key (accs ! 4)) (key (accs ! 7)) c d q0)\<lparr>pool_mode := md\<rparr>"
    using assms(1) unfolding init_effect_def by blast
  have "identity p = (1, pb, vb, key (accs ! 1), key (accs ! 6), key (accs ! 3), key (accs ! 4), key (accs ! 7), md,
      True, CURRENT_VERSION)"
    unfolding p by (rule genesis_identity)
  then have "derived_keys E pid (key (accs ! 2)) p" "live_pool p"
    using e(1,2) by (simp_all add: identity_def live_pool_def derived_keys_def)
  then show ?thesis
    unfolding e(6) using e(4,5) keeps_typed [OF e(3) assms(2)]
    by (intro write_pool_typed) (simp_all add: pool_bytes_at_def)
qed

lemma process_typed:
  assumes F: "cpi_frame E pid" and sep: "pda_separation E pid" and ok: "ledger_ok E pid L"
    and run: "process E pid accs dt L = Inr L'" and ty: "ledger_typed E pid L"
  shows "ledger_typed E pid L'"
proof -
  obtain ins where shape:
    "pool_effect E pid accs ins L L' \<or> call_effect pid accs L L'
     \<or> (\<exists>c d. ins = InitPool c d \<and> init_effect E pid accs c d 0 L L')
     \<or> (\<exists>c d. ins = InitTradingPool c d \<and> init_effect E pid accs c d 1 L L')"
    by (rule process_shape [OF F run])
  have "keeps pid L L'" if "call_effect pid accs L L'"
    using that ledger_okD(1) [OF ok] live_validates unfolding call_effect_def by blast
  then show ?thesis
    using shape pool_effect_typed [OF _ ok sep ty] init_effect_typed [OF _ ty] keeps_typed [OF _ ty] by blast
qed

lemma world_typed:
  assumes "world E pid L0 es L" and F: "cpi_frame E pid" and sep: "pda_separation E pid"
    and fresh: "\<forall>k. acc_owner (L0 k) \<noteq> pid"
  shows "ledger_typed E pid L"
  using assms(1)
proof (induction rule: world.induct)
  case world_start
  then show ?case using fresh by (simp add: ledger_typed_def account_typed_def)
next
  case (world_call es L accs dt L')
  have "ledger_ok E pid L" by (rule world_ledger_ok [OF world_call(1) F sep unowned_ledger_ok [OF fresh]])
  then show ?case using process_typed [OF F sep _ world_call(2)] world_call.IH by blast
next
  case (world_foreign es L L')
  then show ?case using keeps_typed by blast
qed

section \<open>No type confusion\<close>

text \<open>
  C7 (account types).  In every world grown from a ledger without accounts of this program,
  an account the program owns is blank, or a live pool at the address and bump derived from
  its own slab and with the bump of its vault authority, or a deposit record at the address derived from the pool and user it names,
  whose pool is live; and no account is both a pool and a record.
\<close>

theorem account_types:
  assumes "world E pid L0 es L" "cpi_frame E pid" "pda_separation E pid" "\<forall>k. acc_owner (L0 k) \<noteq> pid"
    and "acc_owner (L k) = pid"
  shows "(blank_account L k \<or> pool_account E pid L k \<or> record_account E pid L k)
    \<and> \<not> (pool_account E pid L k \<and> record_account E pid L k)
    \<and> \<not> (blank_account L k \<and> pool_account E pid L k) \<and> \<not> (blank_account L k \<and> record_account E pid L k)"
proof -
  have pool: "\<not> blank_account L k" if "pool_account E pid L k"
    using that zeroed_not_pool live_validates unfolding blank_account_def pool_account_def live_at_def by blast
  have "\<not> record_account E pid L k" if "pool_account E pid L k"
    using that assms(3) unfolding pool_account_def record_account_def derived_keys_def pda_separation_def by (metis fst_conv)
  moreover have "\<not> blank_account L k" if "record_account E pid L k"
    using that zeroed_not_record unfolding blank_account_def record_account_def record_typed_def by blast
  ultimately show ?thesis
    using world_typed [OF assms(1-4)] pool assms(5) unfolding ledger_typed_def account_typed_def by blast
qed

theorem account_types_witness:
  "pool_account sample_env sample_pid sample_ledger (fill 42) \<and>
     \<not> record_account sample_env sample_pid sample_ledger (fill 42)"
proof -
  have "pool_account sample_env sample_pid sample_ledger (fill 42)"
    using sample_live unfolding pool_account_def
    by (intro exI [of _ sample_pool]) (simp add: derived_keys_def sample_pool_def genesis_pool_def set_discriminator_def Let_def)
  then show ?thesis
    using account_types [OF sample_world sample_frame sample_separation sample_unowned sample_owner] by blast
qed

end
