(* ===== verification/Exit.thy ===== *)
theory Exit
  imports Solvency_Properties Account_Types
begin

text \<open>
  Progress of \<open>Withdraw\<close>: what can still refuse a holder whose cooldown has elapsed.  On a pool
  with sound books no computation of the handler fails (\<open>accrue_succeeds\<close>,
  \<open>price_exists\<close>, \<open>withdraw_totals_succeed\<close>), and the typing of the program's accounts
  makes the record and the vault pass their checks.  What remains is the rounding of a dust
  exit to nothing and the pool's high-water-mark floor.
\<close>

section \<open>The computations succeed\<close>

lemma checked_add_fits: "unat (a :: u64) + unat b < 2 ^ 64 \<Longrightarrow> \<exists>c. checked_add a b = Some c \<and> unat c = unat a + unat b"
  by (simp add: checked_add_def unat_word_ariths)

lemma checked_sub_fits: "b \<le> (a :: u64) \<Longrightarrow> \<exists>c. checked_sub a b = Some c \<and> unat a = unat c + unat b"
  by (metis checked_sub_def checked_sub_eq_Some)

text \<open>
  Accrual rejects a surplus only while a loss is outstanding (\<open>dust_blocks_lossy_pool\<close> shows
  that it then does), or when the fee counter is full.
\<close>

lemma accrue_succeeds:
  assumes snd: "books_sound ret (books p)" and le: "pool_value_int p \<le> uint bal"
    and room: "unat (total_fees_earned p) + unat bal < 2 ^ 64"
    and settled: "total_flushed p \<le> total_returned p \<or> pool_value_int p = uint bal"
  obtains p1 where "accrue_fees_inner bal p = Inr p1"
proof -
  have "pool_value_int p < 2 ^ 64" using le uint_lt2p [of bal] by simp
  then obtain v s where v: "total_pool_value p = Some v" "senior_balance p = Some s"
    using sound_valuation [OF snd] by blast
  have vi: "book_value (books p) = int (unat v)" using v(1) total_pool_value_books by blast
  show thesis
  proof (cases "bal > v \<and> total_lp_supply p > 0")
    case False
    then have "accrue_fees_inner bal p = Inr p" using v(1) by (simp only: accrue_fees_inner_eq) auto
    then show ?thesis by (rule that)
  next
    case True
    have d: "unat (bal - v) = unat bal - unat v" "unat v < unat bal"
      using True by (auto simp: word_less_nat_alt unat_sub_if')
    have settled': "total_flushed p \<le> total_returned p"
      using settled vi d(2) unfolding book_value_pool uint_nat by linarith
    have "unat (total_fees_earned p) + unat (bal - v) < 2 ^ 64" using room d by linarith
    from checked_add_fits [OF this] obtain f where f: "checked_add (total_fees_earned p) (bal - v) = Some f"
      "unat f = unat (total_fees_earned p) + unat (bal - v)"
      by blast
    show ?thesis
    proof (cases "tranche_enabled p \<and> junior_total_lp p > 0")
      case False
      then have "accrue_fees_inner bal p = Inr (p\<lparr>total_fees_earned := f\<rparr>)"
        using v(1) True f(1) by (cases "tranche_enabled p") (auto simp: accrue_fees_inner_eq Let_def)
      then show ?thesis by (rule that)
    next
      case j: True
      obtain jf sf where df: "distribute_fees (junior_balance p) s (junior_fee_mult_bps p) (bal - v) = (jf, sf)"
        by (cases "distribute_fees (junior_balance p) s (junior_fee_mult_bps p) (bal - v)")
      have "unat jf \<le> unat (bal - v)" by (rule junior_fee_le [OF df])
      moreover have "int (b_junior (books p)) \<le> book_value (books p)"
        using snd settled' by (simp add: books_sound_def word_le_nat_alt)
      then have "unat (junior_balance p) \<le> unat v" unfolding vi books_sel by linarith
      ultimately have le_bal: "unat (junior_balance p) + unat jf \<le> unat bal" using d by linarith
      then obtain jb where jb: "checked_add (junior_balance p) jf = Some jb"
        "unat jb = unat (junior_balance p) + unat jf"
        using checked_add_fits [of "junior_balance p" jf] unat_u64_less [of bal] by force
      let ?p2 = "set_junior_balance jb (p\<lparr>total_fees_earned := f\<rparr>)"
      have "book_value (books ?p2) = int (unat bal)"
        using vi f(2) d by (simp add: book_value_def)
      then have "total_pool_value ?p2 = Some bal" using total_pool_value_books by blast
      moreover have "\<not> jb > bal" using le_bal jb(2) by (simp add: word_less_nat_alt)
      ultimately have "accrue_fees_inner bal p = Inr ?p2"
        using v True f(1) j df jb(1) by (simp add: accrue_fees_inner_eq Let_def)
      then show ?thesis by (rule that)
    qed
  qed
qed


text \<open>Accrual books at most the vault balance as fees, and values the pool at most at it.\<close>

lemma accrued:
  assumes "accrue_fees_inner bal p = Inr p1" "0 \<le> pool_value_int p" "pool_value_int p \<le> uint bal"
  shows "pool_value_int p1 \<le> uint bal"
    "unat (total_deposited p1) + unat (total_fees_earned p1) \<le> unat (total_deposited p) + unat (total_fees_earned p) + unat bal"
proof -
  have "book_value (books p1) \<le> int (unat bal) \<and>
    b_deposited (books p1) + b_fees (books p1) \<le> b_deposited (books p) + b_fees (books p) + unat bal"
    using assms(1)
  proof (cases rule: accrue_books)
    case same
    then show ?thesis using assms(3) unfolding book_value_pool uint_nat by simp
  next
    case (fees d j)
    have "0 \<le> book_value (books p)" using assms(2) unfolding book_value_pool .
    then have "d \<le> unat bal" using fees(4) by linarith
    then show ?thesis using fees(4) unfolding fees(3) by (simp add: book_value_def)
  qed
  then show "pool_value_int p1 \<le> uint bal"
    "unat (total_deposited p1) + unat (total_fees_earned p1) \<le> unat (total_deposited p) + unat (total_fees_earned p) + unat bal"
    unfolding book_value_pool uint_nat by simp_all
qed

lemma settle_succeeds:
  assumes b: "unat (total_returned p) \<le> unat (total_flushed p)" "unat (realized_junior_loss p) \<le> unat (total_returned p)"
  obtains p' where "settle_last_junior p = Inr p'"
proof -
  let ?nl = "saturating_sub (total_flushed p) (total_returned p)"
  let ?f = "min (saturating_sub (junior_balance p) (effective_junior_balance p)) ?nl"
  have "?f \<le> ?nl" by (rule min.cobounded2)
  then have f: "unat ?f \<le> unat (total_flushed p) - unat (total_returned p)"
    unfolding word_le_nat_alt unat_saturating_sub .
  have "unat (total_returned p) + unat ?f < 2 ^ 64" "unat (realized_junior_loss p) + unat ?f < 2 ^ 64"
    using f b unat_u64_less [of "total_flushed p"] by auto
  then obtain x y where "checked_add (total_returned p) ?f = Some x" "checked_add (realized_junior_loss p) ?f = Some y"
    using checked_add_fits by metis
  then have "\<exists>p'. settle_last_junior p = Inr p'" by (auto simp: settle_last_junior_def Let_def)
  then show thesis using that by blast
qed

text \<open>A quote is within the value of the books, and within the junior tranche when it is the junior's.\<close>

lemma priced_within:
  assumes snd: "books_sound ret (books p)" and pr: "price_withdrawal j lp p = Inr w" and lp: "lp \<le> tranche_supply j p"
  shows "int (unat w) \<le> book_value (books p)" "tranche_enabled p \<Longrightarrow> j \<Longrightarrow> unat w \<le> unat (junior_balance p)"
proof -
  have eff: "int (book_effective (books p)) \<le> book_value (books p)" by (rule sound_effective [OF snd])
  show "int (unat w) \<le> book_value (books p)"
  proof (cases "tranche_enabled p \<and> j")
    case True
    then have "unat w \<le> book_effective (books p)"
      using price_withdrawal_bounds(1) [OF pr] lp by (simp add: tranche_supply_def)
    then show ?thesis using eff by linarith
  next
    case False
    then show ?thesis
      using price_withdrawal_bounds(2,3) [OF pr] lp by (cases "tranche_enabled p") (auto simp: tranche_supply_def)
  qed
  assume "tranche_enabled p" j
  then have "unat w \<le> book_effective (books p)" using price_withdrawal_bounds(1) [OF pr] lp by (simp add: tranche_supply_def)
  then show "unat w \<le> unat (junior_balance p)" by (simp add: book_effective_def)
qed

lemma books_eqD:
  assumes "books p = books q"
  shows "total_deposited p = total_deposited q" "total_withdrawn p = total_withdrawn q" "total_fees_earned p = total_fees_earned q"
    "total_lp_supply p = total_lp_supply q" "junior_total_lp p = junior_total_lp q" "junior_balance p = junior_balance q"
    "tranche_enabled p = tranche_enabled q"
  using assms by (simp_all add: books_def unat_arith_simps)

lemma tranche_supply_cong:
  assumes "total_lp_supply p = total_lp_supply q" "junior_total_lp p = junior_total_lp q" "tranche_enabled p = tranche_enabled q"
  shows "tranche_supply j p = tranche_supply j q"
  using assms by (simp add: tranche_supply_def senior_total_lp_def)

lemma withdraw_totals_succeed:
  assumes snd: "books_sound ret (books p)" and pr: "price_withdrawal j lp p1 = Inr w" and eq: "books p = books p1"
    and lp: "lp \<le> tranche_supply j p" "lp \<le> total_lp_supply p"
    and room: "unat (total_deposited p) + unat (total_fees_earned p) < 2 ^ 64"
  obtains p' where "withdraw_totals j w lp p = Inr p'"
proof -
  note same = books_eqD [OF eq]
  have ts: "lp \<le> tranche_supply j p1" using lp(1) tranche_supply_cong [OF same(4,5,7)] by simp
  have w: "int (unat w) \<le> book_value (books p)" "tranche_enabled p \<Longrightarrow> j \<Longrightarrow> unat w \<le> unat (junior_balance p)"
    using priced_within [OF snd [unfolded eq] pr ts] same unfolding eq by simp_all
  have "unat (total_withdrawn p) + unat w < 2 ^ 64"
    using w(1) room snd unfolding book_value_def books_sound_def books_sel by linarith
  then obtain x where x: "checked_add (total_withdrawn p) w = Some x" using checked_add_fits by blast
  obtain y where y: "checked_sub (total_lp_supply p) lp = Some y" using checked_sub_fits [OF lp(2)] by blast
  let ?p1 = "p\<lparr>total_withdrawn := x, total_lp_supply := y\<rparr>"
  show thesis
  proof (cases "tranche_enabled p \<and> j")
    case False
    then have "withdraw_totals j w lp p = Inr ?p1" using x y by (auto simp: withdraw_totals_def Let_def)
    then show ?thesis by (rule that)
  next
    case True
    then obtain z where z: "checked_sub (junior_total_lp p) lp = Some z"
      using checked_sub_fits [of lp "junior_total_lp p"] lp(1) by (auto simp: tranche_supply_def)
    let ?p2 = "set_junior_total_lp z ?p1"
    obtain v where v: "checked_sub (junior_balance p) w = Some v"
      using checked_sub_fits [of w "junior_balance p"] w(2) True by (auto simp: word_le_nat_alt)
    obtain p' where p': "settle_last_junior ?p2 = Inr p'"
      using settle_succeeds [of ?p2] snd by (auto simp: books_sound_def books_ok_def)
    show ?thesis
    proof (cases "z = 0")
      case z0: True
      then have "withdraw_totals j w lp p = Inr p'" using x y z p' True by (simp add: withdraw_totals_def Let_def)
      then show ?thesis by (rule that)
    next
      case False
      then have "withdraw_totals j w lp p = Inr (set_junior_balance v ?p2)"
        using x y z v True by (simp add: withdraw_totals_def Let_def)
      then show ?thesis by (rule that)
    qed
  qed
qed

text \<open>The floor check refuses with its own error and no other.\<close>

lemma floor_outcomes:
  assumes "total_pool_value p = Some v" "w \<le> v"
  obtains p2 where "enforce_hwm_floor e w b p = Inr p2"
  | "enforce_hwm_floor e w b p = Inl (stake_err WithdrawalBelowHwmFloor)" "hwm_enabled p"
proof -
  obtain d where "checked_sub v w = Some d" using checked_sub_fits [OF assms(2)] by blast
  then have "(\<exists>p2. enforce_hwm_floor e w b p = Inr p2)
     \<or> enforce_hwm_floor e w b p = Inl (stake_err WithdrawalBelowHwmFloor) \<and> hwm_enabled p"
    using assms(1) by (auto simp: enforce_hwm_floor_def Let_def case_prod_beta require_def)
  then show thesis using that by blast
qed

text \<open>The LP of one record is within the supply of its tranche.\<close>

lemma record_within_supply:
  assumes con: "conserved E pid L k" and p: "live_at pid L k p" and a: "a \<in> deposit_addresses E pid k"
    and s: "stored pid L a = Some r" and lp: "lp \<le> lp_amount r"
  shows "lp \<le> total_lp_supply p" "lp \<le> tranche_supply (is_junior_deposit r) p"
proof -
  let ?A = "deposit_addresses E pid k"
  have c: "lp_sum E pid L k = unat (total_lp_supply p)" "junior_lp_sum E pid L k = unat (junior_total_lp p)"
    using con p unfolding conserved_def by auto
  have "lp_of (stored pid L a) \<le> lp_sum E pid L k"
    unfolding lp_sum_def by (rule sum_member [OF finite_addresses a])
  then show tot: "lp \<le> total_lp_supply p" using lp c(1) s by (simp add: lp_of_def word_le_nat_alt)
  have "junior_lp_of (stored pid L a) \<le> junior_lp_sum E pid L k"
    unfolding junior_lp_sum_def by (rule sum_member [OF finite_addresses a])
  then have jun: "is_junior_deposit r \<Longrightarrow> lp \<le> junior_total_lp p"
    using lp c(2) s by (simp add: junior_lp_of_def word_le_nat_alt)
  have "lp_of (stored pid L a) - junior_lp_of (stored pid L a) \<le> lp_sum E pid L k - junior_lp_sum E pid L k"
    unfolding lp_sum_def junior_lp_sum_def sum_subtractf_nat [OF junior_le, symmetric]
    by (rule sum_member [OF finite_addresses a])
  then have "\<not> is_junior_deposit r \<Longrightarrow> lp \<le> senior_total_lp p"
    using lp c s by (simp add: lp_of_def junior_lp_of_def senior_total_lp_def word_le_nat_alt)
  then show "lp \<le> tranche_supply (is_junior_deposit r) p" using tot jun by (simp add: tranche_supply_def)
qed

section \<open>Live pools of reachable ledgers\<close>

text \<open>The vault of a solvent ledger can be read.\<close>

lemma vault_readable:
  assumes "sealed A (L (vault p))" "key v = vault p" "acc_data (L (vault p)) ! 108 = 1" "vault p \<noteq> k"
  obtains bal where "vault_balance [k] v L = Inr bal" "uint bal = tokens L (vault p)"
proof -
  have "\<exists>bal. vault_balance [k] v L = Inr bal"
    using assms by (simp add: vault_balance_def account_owner_def try_borrow_data_def token_account_unpack_eq sealed_def)
  then show thesis using that vault_balance_tokens [of "[k]" v L] assms(2) by metis
qed

text \<open>
  What the invariants give for a live pool: sound books, a vault that can be read and covers
  the value, typed accounts, conserved LP, the bump of its authority, and record addresses
  apart from its own.
\<close>

lemma pool_state:
  assumes "custody_world E pid L0 es L" "cpi_frame E pid" "pda_separation E pid" "token_laws E pid"
    and "authorities_distinct E pid" "pda_injective E pid" and "\<forall>k. acc_owner (L0 k) \<noteq> pid"
    and p: "live_at pid L k p" and "never is_return k es \<or> never is_recover k es"
    and v: "key v = vault p" "acc_data (L (vault p)) ! 108 = 1"
  obtains ret rec bal where "\<not> (ret \<and> rec)" "books_sound ret (books p)"
    and "vault_balance [k] v L = Inr bal" "uint bal = tokens L (vault p)" "pool_value_int p \<le> uint bal"
    and "ledger_typed E pid L" "conserved E pid L k"
    and "vault_authority_bump p = snd (derive_vault_authority (find_program_address E) pid k)"
    and "\<forall>u. fst (derive_deposit_pda (find_program_address E) pid k u) \<noteq> k"
proof -
  note w = custody_world_world [OF assms(1)]
  obtain ret rec where f: "\<not> (ret \<and> rec)" "ret \<or> never is_return k es" "rec \<or> never is_recover k es"
    using assms(9) by blast
  have ty: "ledger_typed E pid L" by (rule world_typed [OF w assms(2,3,7)])
  have ok: "ledger_ok E pid L" by (rule world_ledger_ok [OF w assms(2,3) unowned_ledger_ok [OF assms(7)]])
  note sol = solventD [OF world_solvent [OF assms(1-5,7)] p]
  obtain b0 where "newborn_books b0" "book_steps ret rec b0 (books p)"
    using world_books [OF w assms(2,3,6-8) f(2,3)] by blast
  then have snd: "books_sound ret (books p)" using book_steps_sound newborn_ok(2) f(1) by blast
  obtain s where s: "k = fst (derive_pool_pda (find_program_address E) pid s)"
    using ledger_okD(2) [OF ok] p live_validates unfolding live_at_def by blast
  have con: "conserved E pid L k" using world_conserved [OF w assms(2,3,6,7)] unfolding lp_conserved_def s by blast
  have apart: "\<forall>u. fst (derive_deposit_pda (find_program_address E) pid k u) \<noteq> k"
    using assms(3) s unfolding pda_separation_def by metis
  have "vault p \<noteq> k" using sol(2) assms(2) p by (auto simp: sealed_def live_at_def cpi_frame_def)
  with sol(2) v obtain bal where bal: "vault_balance [k] v L = Inr bal" "uint bal = tokens L (vault p)"
    by (rule vault_readable)
  show thesis
    by (rule that [OF f(1) snd bal _ ty con typed_bump [OF ty ok assms(3) p] apart]) (simp add: sol(3) bal(2))
qed

text \<open>An initialised record of a well-typed ledger carries the discriminator.\<close>

lemma record_type:
  assumes ty: "ledger_typed E pid L" and sep: "pda_separation E pid"
    and a: "a = fst (derive_deposit_pda (find_program_address E) pid k u)"
    and r: "acc_owner (L a) = pid" "deposit_bytes_at L a r" "dep_is_initialized r = 1"
  shows "deposit_validate_discriminator r"
proof -
  have "\<not> blank_account L a"
  proof
    assume "blank_account L a"
    then obtain n where "acc_data (L a) = replicate n 0" using zero_bytes unfolding blank_account_def by blast
    then show False using r by (auto simp: deposit_bytes_at_def deposit_of_bytes_def slice_def STAKE_DEPOSIT_SIZE_def)
  qed
  moreover have "\<not> pool_account E pid L a"
    using sep a unfolding pool_account_def derived_keys_def pda_separation_def by (metis fst_conv)
  ultimately have "record_account E pid L a" using ledger_typedD [OF ty, of a] r(1) unfolding account_typed_def by blast
  then show ?thesis using r(2) by (auto simp: record_account_def record_typed_def deposit_bytes_at_def)
qed

section \<open>The computation of a withdrawal\<close>

lemma pre_accrue_succeeds:
  assumes snd: "books_sound ret (books p)" and le: "pool_value_int p \<le> uint bal"
    and room: "unat (total_deposited p) + unat (total_fees_earned p) + unat bal < 2 ^ 64"
    and settled: "total_flushed p \<le> total_returned p \<or> pool_value_int p = uint bal"
  obtains p1 where "pre_accrue_pool bal p = Inr p1" "pool_value_int p1 \<le> uint bal"
    "unat (total_deposited p1) + unat (total_fees_earned p1) < 2 ^ 64"
proof (cases "pool_mode p \<le> 1")
  case False
  then show thesis using that [of p] le room by (simp add: pre_accrue_pool_def)
next
  case True
  have nn: "0 \<le> pool_value_int p" using snd unfolding books_sound_def book_value_pool by blast
  have "unat (total_fees_earned p) + unat bal < 2 ^ 64" using room by linarith
  from accrue_succeeds [OF snd le this settled] obtain q where q: "accrue_fees_inner bal p = Inr q" by blast
  have "unat (total_deposited q) + unat (total_fees_earned q) < 2 ^ 64"
    using accrued(2) [OF q nn le] room by linarith
  then show thesis using that [of q] accrued(1) [OF q nn le] q True by (simp add: pre_accrue_pool_def)
qed

text \<open>From the pool and the vault balance to the new pool: refused by the floor or not at all.\<close>

lemma exit_pipeline:
  assumes snd: "books_sound ret (books p)" and one: "\<not> (ret \<and> rec)" and le: "pool_value_int p \<le> uint bal"
    and room: "unat (total_deposited p) + unat (total_fees_earned p) + unat bal < 2 ^ 64"
    and settled: "total_flushed p \<le> total_returned p \<or> pool_value_int p = uint bal"
    and lp: "lp \<le> tranche_supply j p" "lp \<le> total_lp_supply p" "lp \<noteq> 0"
  obtains p1 w where "pre_accrue_pool bal p = Inr p1" "price_withdrawal j lp p1 = Inr w" "uint w \<le> uint bal"
    "\<And>e b. (\<exists>p2 p3. enforce_hwm_floor e w b p1 = Inr p2 \<and> withdraw_totals j w lp p2 = Inr p3 \<and> identity p2 = identity p)
       \<or> enforce_hwm_floor e w b p1 = Inl (stake_err WithdrawalBelowHwmFloor) \<and> hwm_enabled p"
proof -
  obtain p1 where p1: "pre_accrue_pool bal p = Inr p1" "pool_value_int p1 \<le> uint bal"
    "unat (total_deposited p1) + unat (total_fees_earned p1) < 2 ^ 64"
    by (rule pre_accrue_succeeds [OF snd le room settled])
  have snd1: "books_sound ret (books p1)"
    by (rule book_steps_sound [OF pre_accrue_book_steps [OF p1(1)] snd one])
  have cnt: "lp_counters p1 = lp_counters p" by (rule pre_accrue_lp_counters [OF p1(1)])
  have set1: "settings p1 = settings p" by (rule pre_accrue_settings [OF p1(1)])
  have tr: "tranche_enabled p1 = tranche_enabled p" using set1 by (simp add: settings_def)
  have lp1: "lp \<le> tranche_supply j p1" "lp \<le> total_lp_supply p1"
    using lp cnt tranche_supply_cong [of p1 p, OF _ _ tr] by (simp_all add: lp_counters_def)
  have "pool_value_int p1 < 2 ^ 64" using p1(2) uint_lt2p [of bal] by simp
  then obtain v s where v: "total_pool_value p1 = Some v" "senior_balance p1 = Some s"
    using sound_valuation [OF snd1] by blast
  obtain w where w: "price_withdrawal j lp p1 = Inr w" by (rule price_exists [OF v lp1(1) lp(3)])
  have wv: "int (unat w) \<le> book_value (books p1)" by (rule priced_within(1) [OF snd1 w lp1(1)])
  then have "uint w \<le> uint bal" using p1(2) unfolding book_value_pool uint_nat by linarith
  moreover have "w \<le> v" using wv v(1) total_pool_value_books by (metis of_nat_le_iff word_le_nat_alt)
  moreover have "(\<exists>p2 p3. enforce_hwm_floor e w b p1 = Inr p2 \<and> withdraw_totals j w lp p2 = Inr p3 \<and> identity p2 = identity p)
       \<or> enforce_hwm_floor e w b p1 = Inl (stake_err WithdrawalBelowHwmFloor) \<and> hwm_enabled p" for e b
  proof (rule floor_outcomes [OF v(1) \<open>w \<le> v\<close>, of e b])
    fix p2
    assume p2: "enforce_hwm_floor e w b p1 = Inr p2"
    have eq: "books p2 = books p1" by (rule hwm_books(1) [OF p2])
    have lp2: "lp \<le> tranche_supply j p2" "lp \<le> total_lp_supply p2"
      "unat (total_deposited p2) + unat (total_fees_earned p2) < 2 ^ 64"
      using lp1 p1(3) books_eqD [OF eq] tranche_supply_cong [OF books_eqD(4,5,7) [OF eq]] by simp_all
    obtain p3 where "withdraw_totals j w lp p2 = Inr p3"
      by (rule withdraw_totals_succeed [OF snd1 [folded eq] w eq lp2])
    moreover have "identity p2 = identity p"
      using hwm_floor_identity [OF p2] pre_accrue_identity [OF p1(1)] by simp
    ultimately show ?thesis using p2 by blast
  next
    assume "enforce_hwm_floor e w b p1 = Inl (stake_err WithdrawalBelowHwmFloor)" "hwm_enabled p1"
    then show ?thesis using set1 by (simp add: settings_def)
  qed
  ultimately show thesis using that p1(1) w by blast
qed

section \<open>The request\<close>

text \<open>
  The accounts a withdrawal documents: the holder signs, the pool and the record are writable,
  the token accounts are those of the pool's mints, the vault is not frozen.
\<close>

definition exit_accounts :: "env \<Rightarrow> pubkey \<Rightarrow> AccountInfo list \<Rightarrow> StakePool \<Rightarrow> ledger \<Rightarrow> bool" where
  "exit_accounts E pid accs p L \<longleftrightarrow>
     10 \<le> length accs \<and> is_signer (accs ! 0) \<and> is_writable (accs ! 1) \<and> is_writable (accs ! 7)
     \<and> key (accs ! 3) = lp_mint p \<and> key (accs ! 4) = vault p \<and> key (accs ! 5) \<noteq> vault p \<and> key (accs ! 8) = spl_token_id
     \<and> key (accs ! 6) = fst (derive_vault_authority (find_program_address E) pid (key (accs ! 1)))
     \<and> key (accs ! 7) = fst (derive_deposit_pda (find_program_address E) pid (key (accs ! 1)) (key (accs ! 0)))
     \<and> validate_burn_account [key (accs ! 1)] (accs ! 2) (lp_mint p) (key (accs ! 0)) L = Inr ()
     \<and> validate_mint_of [key (accs ! 1)] (accs ! 5) (collateral_mint p) L = Inr ()
     \<and> acc_data (L (vault p)) ! 108 = 1"

text \<open>The holder's record is open, holds the LP, and its cooldown has elapsed.\<close>

definition exit_matured :: "pubkey \<Rightarrow> AccountInfo list \<Rightarrow> u64 \<Rightarrow> StakePool \<Rightarrow> u64 \<Rightarrow> StakeDeposit \<Rightarrow> ledger \<Rightarrow> bool" where
  "exit_matured pid accs lp p now r L \<longleftrightarrow>
     acc_owner (L (key (accs ! 7))) = pid \<and> deposit_bytes_at L (key (accs ! 7)) r
     \<and> dep_is_initialized r = 1 \<and> dep_user r = key (accs ! 0) \<and> dep_pool r = key (accs ! 1)
     \<and> lp \<noteq> 0 \<and> lp \<le> lp_amount r \<and> saturating_add (last_deposit_slot r) (cooldown_slots p) \<le> now"

text \<open>
  The token program burns the holder's LP and then pays, on the authority's signature, any
  amount the vault holds.
\<close>

definition exit_honoured :: "env \<Rightarrow> pubkey \<Rightarrow> AccountInfo list \<Rightarrow> u64 \<Rightarrow> ledger \<Rightarrow> bool" where
  "exit_honoured E pid accs lp L \<longleftrightarrow>
     (\<forall>ix. spl_burn (key (accs ! 8)) (key (accs ! 2)) (key (accs ! 3)) (key (accs ! 0)) [] lp = Inr ix \<longrightarrow>
        (\<exists>L1. runtime_invoke E [key (accs ! 1)] ix [accs ! 2, accs ! 3, accs ! 0, accs ! 8] [] L = Inr L1 \<and>
           (\<forall>w ix2. uint w \<le> tokens L (key (accs ! 4)) \<longrightarrow>
              spl_transfer (key (accs ! 8)) (key (accs ! 4)) (key (accs ! 5)) (key (accs ! 6)) [] w = Inr ix2 \<longrightarrow>
              (\<exists>L2. runtime_invoke E [key (accs ! 1)] ix2 [accs ! 4, accs ! 5, accs ! 6, accs ! 8]
                 [vault_auth_seeds (accs ! 1) (snd (derive_vault_authority (find_program_address E) pid (key (accs ! 1))))] L1
                 = Inr L2))))"

lemma exit_transfers:
  assumes "exit_honoured E pid accs lp L" "uint w \<le> tokens L (key (accs ! 4))" and F: "cpi_frame E pid"
    and b: "vault_authority_bump p = snd (derive_vault_authority (find_program_address E) pid (key (accs ! 1)))"
  obtains L1 where "withdraw_transfers E pid [key (accs ! 1)] p (accs ! 1) (accs ! 0) (accs ! 2) (accs ! 3) (accs ! 4)
      (accs ! 5) (accs ! 6) (accs ! 8) lp w L = Inr L1" "keeps pid L L1"
proof -
  obtain ix ix2 where ix: "spl_burn (key (accs ! 8)) (key (accs ! 2)) (key (accs ! 3)) (key (accs ! 0)) [] lp = Inr ix"
      "spl_transfer (key (accs ! 8)) (key (accs ! 4)) (key (accs ! 5)) (key (accs ! 6)) [] w = Inr ix2"
      "ix_program_id ix = spl_token_id" "ix_program_id ix2 = spl_token_id"
    by (simp add: spl_burn_def spl_transfer_def)
  obtain M1 M2 where m: "runtime_invoke E [key (accs ! 1)] ix [accs ! 2, accs ! 3, accs ! 0, accs ! 8] [] L = Inr M1"
      "runtime_invoke E [key (accs ! 1)] ix2 [accs ! 4, accs ! 5, accs ! 6, accs ! 8]
         [vault_auth_seeds (accs ! 1) (vault_authority_bump p)] M1 = Inr M2"
    using assms(1,2) ix(1,2) unfolding exit_honoured_def b by blast
  have "keeps pid L M1" "keeps pid M1 M2" using F m ix(3,4) unfolding cpi_frame_def by metis+
  then show thesis
    using that [of M1] that [of M2] keeps_trans m ix(1,2) b
    by (cases "w > 0") (simp_all add: withdraw_transfers_def)
qed

text \<open>The record of a well-typed ledger passes the withdrawal's checks.\<close>

lemma exit_record:
  assumes ty: "ledger_typed E pid L" and sep: "pda_separation E pid" and acc: "exit_accounts E pid accs p L"
    and mat: "exit_matured pid accs lp p now r L"
  shows "check_deposit_record (key (accs ! 1)) (key (accs ! 0)) (cooldown_slots p) now lp r = Inr (is_junior_deposit r)"
proof -
  have "deposit_validate_discriminator r"
    using record_type [OF ty sep, of "key (accs ! 7)" "key (accs ! 1)" "key (accs ! 0)" r] acc mat
    by (simp add: exit_accounts_def exit_matured_def)
  then show ?thesis using mat by (auto simp: check_deposit_record_def exit_matured_def not_less)
qed

text \<open>The record's account can be checked, read after any call that keeps it, and debited.\<close>

lemma exit_record_access:
  assumes acc: "exit_accounts E pid accs p L" and mat: "exit_matured pid accs lp p now r L"
    and apart: "key (accs ! 7) \<noteq> key (accs ! 1)"
  shows "validate_deposit_account E pid [key (accs ! 1)] (accs ! 1) (accs ! 0) (accs ! 7) L = Inr ()"
    and "try_borrow_data [key (accs ! 1)] (accs ! 7) M = Inr (acc_data (M (key (accs ! 7))))"
    and "keeps pid L M \<Longrightarrow> deposit_from_data (acc_data (M (key (accs ! 7)))) = Inr r"
    and "\<exists>r'. debit_deposit_record lp r = Inr r'"
proof -
  have at: "acc_owner (L (key (accs ! 7))) = pid" "deposit_bytes_at L (key (accs ! 7)) r" "lp \<le> lp_amount r"
    using mat by (simp_all add: exit_matured_def)
  show "validate_deposit_account E pid [key (accs ! 1)] (accs ! 1) (accs ! 0) (accs ! 7) L = Inr ()"
    using acc at apart
    by (simp add: validate_deposit_account_def account_owner_def data_len_def validate_account_writable_def
        exit_accounts_def deposit_bytes_at_def)
  show "try_borrow_data [key (accs ! 1)] (accs ! 7) M = Inr (acc_data (M (key (accs ! 7))))"
    using apart by (simp add: try_borrow_data_def)
  show "deposit_from_data (acc_data (M (key (accs ! 7)))) = Inr r" if "keeps pid L M"
    using at that by (auto simp: deposit_from_data_ok keeps_def deposit_bytes_at_def)
  obtain d where "checked_sub (lp_amount r) lp = Some d" using checked_sub_fits at(3) by blast
  then show "\<exists>r'. debit_deposit_record lp r = Inr r'" by (simp add: debit_deposit_record_def Let_def)
qed

text \<open>On a request that passes its account checks the handler is its computation and its transfers.\<close>

lemma exit_head:
  assumes live: "live_at pid L (key (accs ! 1)) p" and acc: "exit_accounts E pid accs p L"
    and mat: "exit_matured pid accs lp p (slot now) r L" and apart: "key (accs ! 7) \<noteq> key (accs ! 1)"
    and clk: "clock_from_account_info E (accs ! 9) L = Inr now"
    and rec: "check_deposit_record (key (accs ! 1)) (key (accs ! 0)) (cooldown_slots p) (slot now) lp r
        = Inr (is_junior_deposit r)"
    and bal: "vault_balance [key (accs ! 1)] (accs ! 4) L = Inr bal"
    and price: "pre_accrue_pool bal p = Inr p1" "price_withdrawal (is_junior_deposit r) lp p1 = Inr w"
  shows "process_withdraw E pid accs lp L =
      (let wiped = fully_wiped_junior_exit (is_junior_deposit r) w p1 in
      require (\<not> (w = 0 \<and> \<not> wiped)) (stake_err ZeroAmount) (
      bind_err (enforce_hwm_floor (epoch now) w wiped p1) (\<lambda>p2.
      bind_err (withdraw_transfers E pid [key (accs ! 1)] p2 (accs ! 1) (accs ! 0) (accs ! 2) (accs ! 3) (accs ! 4)
                  (accs ! 5) (accs ! 6) (accs ! 8) lp w L) (\<lambda>L1.
      bind_err (withdraw_totals (is_junior_deposit r) w lp p2) (\<lambda>p3.
      bind_err (try_borrow_data [key (accs ! 1)] (accs ! 7) L1) (\<lambda>dd1.
      bind_err (deposit_from_data dd1) (\<lambda>r1.
      bind_err (debit_deposit_record lp r1) (\<lambda>r2.
      Inr (write_pool (accs ! 1) p3 (write_deposit (accs ! 7) r2 L1))))))))))"
proof -
  have "is_writable (accs ! 1)" using acc by (simp add: exit_accounts_def)
  note op = live_open [OF live this] and access = exit_record_access [OF acc mat apart]
  have pres: "present_pool_account pid (accs ! 1) L = Inr ()" using op(1) by simp
  have pre: "pre_accrue_fee_modes [key (accs ! 1)] (accs ! 4) L p = Inr p1"
    using bal price(1) by (simp add: pre_accrue_fee_modes_def pre_accrue_pool_def split: if_splits)
  have c: "lp \<noteq> 0" "10 \<le> length accs" "is_signer (accs ! 0)" "lp_mint p = key (accs ! 3)" "vault p = key (accs ! 4)"
    "key (accs ! 5) \<noteq> key (accs ! 4)" "key (accs ! 8) = spl_token_id"
    "key (accs ! 6) = fst (derive_vault_authority (find_program_address E) pid (key (accs ! 1)))"
    "validate_burn_account [key (accs ! 1)] (accs ! 2) (key (accs ! 3)) (key (accs ! 0)) L = Inr ()"
    "validate_mint_of [key (accs ! 1)] (accs ! 5) (collateral_mint p) L = Inr ()"
    using acc mat unfolding exit_accounts_def exit_matured_def by (elim conjE, metis)+
  show ?thesis
    using c pres op(2) access(1) clk access(2) [of L] access(3) [OF keeps_refl] rec pre price(2)
    by (simp add: process_withdraw_def Let_def verify_token_program_def del: present_pool_account_ok)
qed

lemma exit_handler:
  assumes live: "live_at pid L (key (accs ! 1)) p" and acc: "exit_accounts E pid accs p L"
    and mat: "exit_matured pid accs lp p (slot now) r L" and apart: "key (accs ! 7) \<noteq> key (accs ! 1)"
    and clk: "clock_from_account_info E (accs ! 9) L = Inr now"
    and rec: "check_deposit_record (key (accs ! 1)) (key (accs ! 0)) (cooldown_slots p) (slot now) lp r
        = Inr (is_junior_deposit r)"
    and bal: "vault_balance [key (accs ! 1)] (accs ! 4) L = Inr bal"
    and price: "pre_accrue_pool bal p = Inr p1" "price_withdrawal (is_junior_deposit r) lp p1 = Inr w"
    and steps: "\<And>e b. (\<exists>p2 p3. enforce_hwm_floor e w b p1 = Inr p2
          \<and> withdraw_totals (is_junior_deposit r) w lp p2 = Inr p3 \<and> identity p2 = identity p)
       \<or> enforce_hwm_floor e w b p1 = Inl (stake_err WithdrawalBelowHwmFloor) \<and> hwm_enabled p"
    and pay: "\<And>p2. identity p2 = identity p \<Longrightarrow> \<exists>L1. withdraw_transfers E pid [key (accs ! 1)] p2 (accs ! 1) (accs ! 0) (accs ! 2)
        (accs ! 3) (accs ! 4) (accs ! 5) (accs ! 6) (accs ! 8) lp w L = Inr L1 \<and> keeps pid L L1"
  shows "(\<exists>L'. process_withdraw E pid accs lp L = Inr L')
    \<or> hwm_enabled p \<and> process_withdraw E pid accs lp L = Inl (stake_err WithdrawalBelowHwmFloor)
    \<or> w = 0 \<and> process_withdraw E pid accs lp L = Inl (stake_err ZeroAmount)"
  using steps [of "epoch now" "fully_wiped_junior_exit (is_junior_deposit r) w p1"]
proof (elim disjE exE conjE)
  note head = exit_head [OF live acc mat apart clk rec bal price, unfolded Let_def]
    and access = exit_record_access [OF acc mat apart]
  {
    fix p2 p3
    assume s: "enforce_hwm_floor (epoch now) w (fully_wiped_junior_exit (is_junior_deposit r) w p1) p1 = Inr p2"
      "withdraw_totals (is_junior_deposit r) w lp p2 = Inr p3" "identity p2 = identity p"
    obtain L1 where L1: "withdraw_transfers E pid [key (accs ! 1)] p2 (accs ! 1) (accs ! 0) (accs ! 2) (accs ! 3) (accs ! 4)
        (accs ! 5) (accs ! 6) (accs ! 8) lp w L = Inr L1" "keeps pid L L1"
      using pay [OF s(3)] by blast
    obtain r' where "debit_deposit_record lp r = Inr r'" using access(4) by blast
    then show ?thesis
      unfolding head s(1) using s(2) L1(1) access(2) [of L1] access(3) [OF L1(2)] by (simp add: require_def)
  next
    assume "enforce_hwm_floor (epoch now) w (fully_wiped_junior_exit (is_junior_deposit r) w p1) p1
        = Inl (stake_err WithdrawalBelowHwmFloor)" "hwm_enabled p"
    then show ?thesis unfolding head by (simp add: require_def)
  }
qed

text \<open>What the invariants of reachable ledgers say of the holder's record.\<close>

lemma exit_state:
  assumes w: "custody_world E pid L0 es L" "cpi_frame E pid" "pda_separation E pid" "token_laws E pid"
      "authorities_distinct E pid" "pda_injective E pid" "\<forall>k. acc_owner (L0 k) \<noteq> pid"
    and p: "live_at pid L (key (accs ! 1)) p" "never is_return (key (accs ! 1)) es \<or> never is_recover (key (accs ! 1)) es"
    and "exit_accounts E pid accs p L" "exit_matured pid accs lp p now r L"
  obtains ret rec bal where "\<not> (ret \<and> rec)" "books_sound ret (books p)"
    and "lp \<le> tranche_supply (is_junior_deposit r) p" "lp \<le> total_lp_supply p"
    and "vault_balance [key (accs ! 1)] (accs ! 4) L = Inr bal" "uint bal = tokens L (vault p)" "pool_value_int p \<le> uint bal"
    and "ledger_typed E pid L" "key (accs ! 7) \<noteq> key (accs ! 1)"
    and "vault_authority_bump p = snd (derive_vault_authority (find_program_address E) pid (key (accs ! 1)))"
proof -
  let ?k = "key (accs ! 1)"
  have a: "key (accs ! 7) = fst (derive_deposit_pda (find_program_address E) pid ?k (key (accs ! 0)))"
    "key (accs ! 4) = vault p" "acc_data (L (vault p)) ! 108 = 1"
    using assms(10) by (simp_all add: exit_accounts_def)
  obtain ret rec bal where f: "\<not> (ret \<and> rec)" "books_sound ret (books p)"
    and bal: "vault_balance [?k] (accs ! 4) L = Inr bal" "uint bal = tokens L (vault p)" "pool_value_int p \<le> uint bal"
    and ty: "ledger_typed E pid L" "conserved E pid L ?k"
    and bump: "vault_authority_bump p = snd (derive_vault_authority (find_program_address E) pid ?k)"
    and apart: "\<forall>u. fst (derive_deposit_pda (find_program_address E) pid ?k u) \<noteq> ?k"
    by (rule pool_state [OF w p a(2,3)])
  have m: "acc_owner (L (key (accs ! 7))) = pid" "deposit_bytes_at L (key (accs ! 7)) r" "lp \<le> lp_amount r"
    using assms(11) by (simp_all add: exit_matured_def)
  have "key (accs ! 7) \<in> deposit_addresses E pid ?k" unfolding a(1) deposit_addresses_def by simp
  note lp = record_within_supply [OF ty(2) p(1) this stored_SomeD [OF m(1,2)] m(3)]
  show thesis by (rule that [OF f lp(2,1) bal ty(1) _ bump]) (unfold a(1), rule apart [rule_format])
qed

section \<open>Guaranteed exit\<close>

text \<open>
  C3 (guaranteed exit).  In every world in which only this program signs for its vault
  authorities and flushed insurance comes back one way only, a holder whose record is open and
  past its cooldown and who names the documented accounts can withdraw: as long as the pool's
  lifetime counters have room, no surplus meets an outstanding loss, and the token program
  honours the burn and the payout, the instruction succeeds.  The two exceptions are the pool's
  high-water-mark floor and an amount of LP whose quote rounds to nothing.
\<close>

theorem exit_guaranteed:
  assumes "custody_world E pid L0 es L" "cpi_frame E pid" "pda_separation E pid" "token_laws E pid"
    and "authorities_distinct E pid" "pda_injective E pid" and "\<forall>k. acc_owner (L0 k) \<noteq> pid"
    and "live_at pid L (key (accs ! 1)) p" and "never is_return (key (accs ! 1)) es \<or> never is_recover (key (accs ! 1)) es"
    and "exit_accounts E pid accs p L" "clock_from_account_info E (accs ! 9) L = Inr now"
    and "exit_matured pid accs lp p (slot now) r L" "exit_honoured E pid accs lp L"
    and "int (unat (total_deposited p)) + int (unat (total_fees_earned p)) + tokens L (vault p) < 2 ^ 64"
    and "total_flushed p \<le> total_returned p \<or> pool_value_int p = tokens L (vault p)"
  shows "(\<exists>L'. process E pid accs (pack (Withdraw lp)) L = Inr L')
    \<or> hwm_enabled p \<and> process E pid accs (pack (Withdraw lp)) L = Inl (stake_err WithdrawalBelowHwmFloor)
    \<or> (\<exists>bal p1. uint bal = tokens L (vault p) \<and> pre_accrue_pool bal p = Inr p1
          \<and> price_withdrawal (is_junior_deposit r) lp p1 = Inr 0)
      \<and> process E pid accs (pack (Withdraw lp)) L = Inl (stake_err ZeroAmount)"
proof -
  let ?k = "key (accs ! 1)" and ?j = "is_junior_deposit r"
  obtain ret rec bal where f: "\<not> (ret \<and> rec)" "books_sound ret (books p)"
    and lp: "lp \<le> tranche_supply ?j p" "lp \<le> total_lp_supply p"
    and bal: "vault_balance [?k] (accs ! 4) L = Inr bal" "uint bal = tokens L (vault p)" "pool_value_int p \<le> uint bal"
    and ty: "ledger_typed E pid L" and apart: "key (accs ! 7) \<noteq> ?k"
    and bump: "vault_authority_bump p = snd (derive_vault_authority (find_program_address E) pid ?k)"
    by (rule exit_state [OF assms(1-10,12)])
  have "int (unat (total_deposited p) + unat (total_fees_earned p) + unat bal) < int (2 ^ 64)"
    using assms(14) bal(2) unfolding uint_nat by simp
  then have room: "unat (total_deposited p) + unat (total_fees_earned p) + unat bal < 2 ^ 64" by linarith
  have "lp \<noteq> 0" "key (accs ! 4) = vault p" using assms(10,12) by (simp_all add: exit_accounts_def exit_matured_def)
  note v4 = this
  obtain p1 v where v: "pre_accrue_pool bal p = Inr p1" "price_withdrawal ?j lp p1 = Inr v" "uint v \<le> uint bal"
    and st: "\<And>e b. (\<exists>p2 p3. enforce_hwm_floor e v b p1 = Inr p2 \<and> withdraw_totals ?j v lp p2 = Inr p3 \<and> identity p2 = identity p)
       \<or> enforce_hwm_floor e v b p1 = Inl (stake_err WithdrawalBelowHwmFloor) \<and> hwm_enabled p"
    by (rule exit_pipeline [OF f(2,1) bal(3) room assms(15) [folded bal(2)] lp v4(1)]) blast
  have pay: "\<exists>L1. withdraw_transfers E pid [?k] p2 (accs ! 1) (accs ! 0) (accs ! 2) (accs ! 3) (accs ! 4) (accs ! 5)
      (accs ! 6) (accs ! 8) lp v L = Inr L1 \<and> keeps pid L L1" if "identity p2 = identity p" for p2
  proof -
    have "vault_authority_bump p2 = snd (derive_vault_authority (find_program_address E) pid ?k)"
      using that bump by (simp add: identity_def)
    then show ?thesis using exit_transfers [OF assms(13) _ assms(2)] v(3) bal(2) v4(2) by metis
  qed
  show ?thesis
    unfolding process_pack
    using exit_handler [OF assms(8,10,12) apart assms(11) exit_record [OF ty assms(3,10,12)] bal(1) v(1,2) st pay] bal(2) v(1,2)
    by simp blast
qed

section \<open>On the sample chain\<close>

lemma sample_matured_custody:
  "custody_world sample_env sample_pid sample_genesis
     [(sample_init_accounts, pack (InitPool 1000 0), sample_genesis),
      (sample_deposit_accounts, pack (Deposit 5000), sample_ledger)] sample_matured"
proof (rule custody_foreign [OF sample_custody sample_matured_keeps])
  have "\<not> sealed A (sample_deposited (fill 10))" for A
    by (simp add: sealed_def sample_deposited_def sample_paid_def with_tokens_def sample_ledger_at)
  then show "moves (authorities sample_env sample_pid) (\<lambda>a. 0) sample_deposited sample_matured"
    by (auto simp: moves_def sample_matured_def sample_clock_def tokens_def)
qed

lemma sample_exit_accounts: "exit_accounts sample_env sample_pid sample_withdraw_accounts sample_funded sample_matured"
  by (simp add: exit_accounts_def sample_withdraw_accounts_def validate_burn_account_eq validate_mint_of_eq
      account_owner_def try_borrow_data_def sample_matured_at ACCOUNT_LEN_def sample_funded_def)

lemma sample_exit_matured:
  "exit_matured sample_pid sample_withdraw_accounts 2000 sample_funded 1000 sample_record sample_matured"
  using deposit_layout.dec_enc [of sample_record "[]"]
  by (simp add: exit_matured_def sample_withdraw_accounts_def sample_matured_at deposit_bytes_at_def
      deposit_layout.enc_length saturating_add_def)


lemma sample_exit_honoured: "exit_honoured sample_env sample_pid sample_withdraw_accounts 2000 sample_matured"
proof -
  let ?L1 = "with_tokens 12 3 1 2000 sample_matured"
  have burn: "sample_invoke \<lparr>ix_program_id = spl_token_id,
       ix_accounts = [meta_new (fill 12) False, meta_new (fill 3) False, meta_new_readonly (fill 1) True],
       ix_data = IX_BURN # to_le_bytes (2000 :: u64)\<rparr> sample_matured = Inr ?L1"
    by (simp add: sample_invoke_def sample_token_def token_tags meta_new_def meta_new_readonly_def sample_sub_def
        is_token_def amount_at_def sample_matured_at put_amount_def set_data_def put_token_account checked_sub_def with_tokens_def)
  have pay: "\<exists>L2. sample_invoke \<lparr>ix_program_id = spl_token_id,
       ix_accounts = [meta_new (fill 4) False, meta_new (fill 11) False, meta_new_readonly (fill 43) True],
       ix_data = IX_TRANSFER # to_le_bytes w\<rparr> ?L1 = Inr L2" if "uint w \<le> 5000" for w :: u64
  proof -
    have w: "unat w \<le> 5000" using that unfolding uint_nat by linarith
    then have "w \<le> 5000" by (simp add: word_le_nat_alt)
    then obtain x where x: "checked_sub 5000 w = Some x" using checked_sub_fits by blast
    obtain y where y: "checked_add 4000 w = Some y" using checked_add_fits [of 4000 w] w by auto
    show ?thesis
      using x y
      by (simp add: sample_invoke_def sample_token_def token_tags meta_new_def meta_new_readonly_def sample_move_def sample_sub_def
          sample_add_def is_token_def amount_at_def sample_matured_at put_amount_def set_data_def put_token_account with_tokens_def)
  qed
  have at: "tokens sample_matured (fill 4) = 5000" by (simp add: tokens_def sample_matured_at)
  show ?thesis
    unfolding exit_honoured_def sample_withdraw_accounts_def spl_burn_def spl_transfer_def
    using burn pay at by auto
qed

theorem exit_guaranteed_witness:
  "\<exists>L'. process sample_env sample_pid sample_withdraw_accounts (pack (Withdraw 2000)) sample_matured = Inr L'"
proof -
  have one: "never is_return (fill 42) [(sample_init_accounts, pack (InitPool 1000 0), sample_genesis),
      (sample_deposit_accounts, pack (Deposit 5000), sample_ledger)]"
    by (simp add: never_def is_return_def unpack_pack del: pack.simps)
  have k: "key (sample_withdraw_accounts ! 1) = fill 42" "sample_withdraw_accounts ! 9 = ai 10 False"
    by (simp_all add: sample_withdraw_accounts_def)
  have at: "tokens sample_matured (fill 4) = 5000" by (simp add: tokens_def sample_matured_at)
  have clk: "clock_from_account_info sample_env (ai 10 False) sample_matured = Inr \<lparr>slot = 1000, epoch = 0\<rparr>"
    unfolding sample_matured_def by (rule sample_clock_slot)
  have "price_withdrawal False 2000 p1 \<noteq> Inr 0" if "uint bal = 5000" "pre_accrue_pool bal sample_funded = Inr p1" for bal p1
  proof -
    have "bal = 5000" using that(1) by (intro word_uint_eqI) simp
    then show ?thesis using that(2) sample_payout by (simp add: pre_accrue_pool_def accrue_fees_inner_eq)
  qed
  then show ?thesis
    using exit_guaranteed [OF sample_matured_custody sample_frame sample_separation sample_laws sample_distinct sample_injective
        sample_unowned, of sample_withdraw_accounts sample_funded "\<lparr>slot = 1000, epoch = 0\<rparr>" 2000 sample_record]
      sample_matured_live one sample_exit_accounts sample_exit_matured sample_exit_honoured clk at
    unfolding k by (auto simp: simp del: pack.simps)
qed

end
