(* ===== verification/Entry.thy ===== *)
theory Entry
  imports Exit
begin

text \<open>
  Progress of \<open>Deposit\<close>: with the documented accounts, below the cap and with room in the
  counters, the quote alone decides.  The record of the depositor may be absent, its address
  may have been funded by somebody else, or it may exist; none of these blocks the deposit.
\<close>

section \<open>The record\<close>

lemma credit_succeeds:
  assumes "dep_is_initialized r = 1 \<Longrightarrow> deposit_validate_discriminator r" "\<not> is_junior_deposit r"
    and "unat (lp_amount r) + unat lp < 2 ^ 64"
  shows "\<exists>r'. credit_senior_record pl u b now lp r = Inr r'"
proof -
  obtain x where "checked_add (lp_amount r) lp = Some x" using checked_add_fits [OF assms(3)] by blast
  then show ?thesis using assms(1,2) by (auto simp: credit_senior_record_def)
qed

text \<open>The record's address is empty, or holds a record outside the junior tranche.\<close>

definition record_ready :: "pubkey \<Rightarrow> pubkey \<Rightarrow> ledger \<Rightarrow> bool" where
  "record_ready pid a L \<longleftrightarrow>
     acc_data (L a) = [] \<or> acc_owner (L a) = pid \<and> (\<exists>r. deposit_bytes_at L a r \<and> \<not> is_junior_deposit r)"

text \<open>
  The system program at an empty record address: it creates the account, or, when the address
  already holds lamports, tops them up to the rent, allocates the space and assigns the owner.
\<close>

definition system_serves :: "env \<Rightarrow> pubkey \<Rightarrow> AccountInfo list \<Rightarrow> ledger \<Rightarrow> bool" where
  "system_serves E pid accs L \<longleftrightarrow>
     (let a = key (accs ! 7); held = [key (accs ! 1)];
          sd = [deposit_seeds (accs ! 1) (accs ! 0)
                 (snd (derive_deposit_pda (find_program_address E) pid (key (accs ! 1)) (key (accs ! 0))))] in
      \<exists>need L3. rent_minimum_balance E STAKE_DEPOSIT_SIZE = Inr need
        \<and> acc_data (L3 a) = replicate STAKE_DEPOSIT_SIZE 0
        \<and> (if acc_lamports (L a) = 0
           then runtime_invoke E held (system_create_account E (key (accs ! 0)) a need (of_nat STAKE_DEPOSIT_SIZE) pid)
                  [accs ! 0, accs ! 7, accs ! 10] sd L = Inr L3
           else \<exists>L1 L2.
             (if acc_lamports (L a) < need
              then runtime_invoke E held (system_transfer E (key (accs ! 0)) a (need - acc_lamports (L a)))
                     [accs ! 0, accs ! 7, accs ! 10] [] L = Inr L1
              else L1 = L)
             \<and> runtime_invoke E held (system_allocate E a (of_nat STAKE_DEPOSIT_SIZE)) [accs ! 7, accs ! 10] sd L1 = Inr L2
             \<and> runtime_invoke E held (system_assign E a pid) [accs ! 7, accs ! 10] sd L2 = Inr L3))"

lemma served:
  assumes "system_serves E pid accs L"
  obtains L3 where "acc_data (L3 (key (accs ! 7))) = replicate STAKE_DEPOSIT_SIZE 0"
    "create_or_adopt_pda E [key (accs ! 1)] (accs ! 7) (accs ! 0) (accs ! 10) pid STAKE_DEPOSIT_SIZE
       (deposit_seeds (accs ! 1) (accs ! 0)
         (snd (derive_deposit_pda (find_program_address E) pid (key (accs ! 1)) (key (accs ! 0))))) L = Inr L3"
  using assms unfolding system_serves_def create_or_adopt_pda_eq account_lamports_def Let_def
  by (auto split: if_splits)

lemma credit_deposit_succeeds:
  assumes ty: "ledger_typed E pid L" and con: "conserved E pid L (key (accs ! 1))"
    and p: "live_at pid L (key (accs ! 1)) p" and apart: "\<forall>u. fst (derive_deposit_pda (find_program_address E) pid (key (accs ! 1)) u) \<noteq> key (accs ! 1)"
    and sep: "pda_separation E pid"
    and a: "key (accs ! 7) = fst (derive_deposit_pda (find_program_address E) pid (key (accs ! 1)) (key (accs ! 0)))"
    and rd: "record_ready pid (key (accs ! 7)) L" and same: "M (key (accs ! 7)) = L (key (accs ! 7))"
    and sv: "acc_data (M (key (accs ! 7))) = [] \<Longrightarrow> system_serves E pid accs M"
    and room: "unat (total_lp_supply p) + unat lp < 2 ^ 64"
  shows "\<exists>M'. credit_deposit credit_senior_record E pid [key (accs ! 1)] (accs ! 1) (accs ! 0) (accs ! 7) (accs ! 10) now lp M = Inr M'"
proof -
  let ?d = "key (accs ! 7)" and ?held = "[key (accs ! 1)]"
  let ?b = "snd (derive_deposit_pda (find_program_address E) pid (key (accs ! 1)) (key (accs ! 0)))"
  have free: "?d \<notin> set ?held" using apart a by auto
  obtain M1 r where M1: "open_or_create_deposit E pid ?held (accs ! 1) (accs ! 0) (accs ! 7) (accs ! 10) M = Inr (?b, M1)"
    and r: "deposit_from_data (acc_data (M1 ?d)) = Inr r"
    and ok: "dep_is_initialized r = 1 \<Longrightarrow> deposit_validate_discriminator r" "\<not> is_junior_deposit r"
      "unat (lp_amount r) + unat lp < 2 ^ 64"
  proof (cases "acc_data (M ?d) = []")
    case True
    from served [OF sv [OF True]] obtain M1 where m: "acc_data (M1 ?d) = replicate STAKE_DEPOSIT_SIZE 0"
      "create_or_adopt_pda E ?held (accs ! 7) (accs ! 0) (accs ! 10) pid STAKE_DEPOSIT_SIZE
         (deposit_seeds (accs ! 1) (accs ! 0) ?b) M = Inr M1" by blast
    show ?thesis
    proof (rule that [of M1 zero_deposit])
      show "open_or_create_deposit E pid ?held (accs ! 1) (accs ! 0) (accs ! 7) (accs ! 10) M = Inr (?b, M1)"
        using m(2) True free a by (simp add: open_or_create_deposit_def data_is_empty_def case_prod_beta)
      show "deposit_from_data (acc_data (M1 ?d)) = Inr zero_deposit" by (simp add: deposit_from_data_eq m(1))
    qed (use room in \<open>simp_all add: is_junior_deposit_def\<close>)
  next
    case False
    then obtain r where r: "acc_owner (L ?d) = pid" "deposit_bytes_at L ?d r" "\<not> is_junior_deposit r"
      using rd same by (auto simp: record_ready_def)
    have "?d \<in> deposit_addresses E pid (key (accs ! 1))" unfolding a deposit_addresses_def by simp
    note le = record_within_supply(1) [OF con p this stored_SomeD [OF r(1,2)] order_refl]
    show ?thesis
    proof (rule that [of M r])
      show "open_or_create_deposit E pid ?held (accs ! 1) (accs ! 0) (accs ! 7) (accs ! 10) M = Inr (?b, M)"
        using False free a r(1) same
        by (simp add: open_or_create_deposit_def data_is_empty_def account_owner_def case_prod_beta)
      show "deposit_from_data (acc_data (M ?d)) = Inr r"
        using r(2) same by (auto simp: deposit_from_data_ok deposit_bytes_at_def)
      show "unat (lp_amount r) + unat lp < 2 ^ 64" using room le by (simp add: word_le_nat_alt)
      show "deposit_validate_discriminator r" if "dep_is_initialized r = 1"
        using record_type [OF ty sep a r(1,2) that] .
    qed (use r(3) in simp)
  qed
  obtain r' where "credit_senior_record (key (accs ! 1)) (key (accs ! 0)) ?b now lp r = Inr r'"
    using credit_succeeds [OF ok] by blast
  then show ?thesis using M1 r free by (auto simp: credit_deposit_def try_borrow_data_def)
qed

section \<open>The computation of a deposit\<close>

lemma pre_accrue_deposited: "pre_accrue_pool bal p = Inr p1 \<Longrightarrow> total_deposited p1 = total_deposited p"
  by (auto simp: pre_accrue_pool_def accrue_fees_inner_eq Let_def case_prod_beta split: if_splits)

lemma deposit_totals_succeed:
  assumes "unat (total_deposited p) + unat a < 2 ^ 64" "unat (total_lp_supply p) + unat lp < 2 ^ 64"
    and "0 \<le> pool_value_int p" "pool_value_int p + uint a < 2 ^ 64"
  obtains p2 p3 where "deposit_totals a lp p = Inr p2" "deposit_refresh_hwm e p2 = Inr p3"
proof -
  obtain d s where d: "checked_add (total_deposited p) a = Some d" "unat d = unat (total_deposited p) + unat a"
    and s: "checked_add (total_lp_supply p) lp = Some s"
    using checked_add_fits assms(1,2) by metis
  let ?p2 = "p\<lparr>total_deposited := d, total_lp_supply := s\<rparr>"
  have v: "pool_value_int ?p2 = pool_value_int p + uint a"
    using d(2) unfolding pool_value_int_def uint_nat by simp
  have "0 \<le> pool_value_int p + uint a" using assms(3) by simp
  then have "uint (word_of_int (pool_value_int ?p2) :: u64) = pool_value_int ?p2"
    using assms(4) unfolding v by (simp add: uint_word_of_int_eq take_bit_int_eq_self del: of_int_add)
  then have "total_pool_value ?p2 = Some (word_of_int (pool_value_int ?p2))" by (simp add: total_pool_value_eq_Some)
  then have "\<exists>p3. deposit_refresh_hwm e ?p2 = Inr p3" by (auto simp: deposit_refresh_hwm_def)
  then show thesis using that [of ?p2] d(1) s by (auto simp: deposit_totals_def)
qed

section \<open>The request\<close>

text \<open>
  The accounts a deposit documents: the user signs, the pool is writable, the token accounts
  are those of the pool's mints and of the user, the vault is not frozen.
\<close>

definition entry_accounts :: "env \<Rightarrow> pubkey \<Rightarrow> AccountInfo list \<Rightarrow> StakePool \<Rightarrow> ledger \<Rightarrow> bool" where
  "entry_accounts E pid accs p L \<longleftrightarrow>
     11 \<le> length accs \<and> is_signer (accs ! 0) \<and> is_writable (accs ! 1)
     \<and> key (accs ! 3) = vault p \<and> key (accs ! 4) = lp_mint p \<and> key (accs ! 8) = spl_token_id
     \<and> key (accs ! 6) = fst (derive_vault_authority (find_program_address E) pid (key (accs ! 1)))
     \<and> key (accs ! 7) = fst (derive_deposit_pda (find_program_address E) pid (key (accs ! 1)) (key (accs ! 0)))
     \<and> validate_source_ata [key (accs ! 1)] InvalidMint (accs ! 2) (collateral_mint p) (key (accs ! 0)) L = Inr ()
     \<and> validate_lp_recipient_account [key (accs ! 1)] (accs ! 5) (lp_mint p) (key (accs ! 0)) L = Inr ()
     \<and> acc_data (L (vault p)) ! 108 = 1"

text \<open>
  The token program moves the collateral and mints the LP on the authority's signature, both
  leave the record's address alone, the clock can be read, and the system program serves an
  absent record.
\<close>

definition entry_honoured :: "env \<Rightarrow> pubkey \<Rightarrow> AccountInfo list \<Rightarrow> u64 \<Rightarrow> u64 \<Rightarrow> ledger \<Rightarrow> bool" where
  "entry_honoured E pid accs a m L \<longleftrightarrow>
     (\<forall>ix ix2. spl_transfer (key (accs ! 8)) (key (accs ! 2)) (key (accs ! 3)) (key (accs ! 0)) [] a = Inr ix \<longrightarrow>
        mint_to (key (accs ! 8)) (key (accs ! 4)) (key (accs ! 5)) (key (accs ! 6)) [] m = Inr ix2 \<longrightarrow>
        (\<exists>L1 L2 now. runtime_invoke E [key (accs ! 1)] ix [accs ! 2, accs ! 3, accs ! 0, accs ! 8] [] L = Inr L1
           \<and> runtime_invoke E [key (accs ! 1)] ix2 [accs ! 4, accs ! 5, accs ! 6, accs ! 8]
               [vault_auth_seeds (accs ! 1) (snd (derive_vault_authority (find_program_address E) pid (key (accs ! 1))))] L1
               = Inr L2
           \<and> L2 (key (accs ! 7)) = L (key (accs ! 7)) \<and> clock_from_account_info E (accs ! 9) L2 = Inr now
           \<and> (acc_data (L2 (key (accs ! 7))) = [] \<longrightarrow> system_serves E pid accs L2)))"

lemma entry_transfers:
  assumes "entry_honoured E pid accs a m L"
  obtains L1 now where "deposit_transfers E pid [key (accs ! 1)] (accs ! 1) (accs ! 0) (accs ! 2) (accs ! 3) (accs ! 4)
      (accs ! 5) (accs ! 6) (accs ! 8) a m L = Inr L1" "L1 (key (accs ! 7)) = L (key (accs ! 7))"
    "clock_from_account_info E (accs ! 9) L1 = Inr now"
    "acc_data (L1 (key (accs ! 7))) = [] \<longrightarrow> system_serves E pid accs L1"
proof -
  obtain ix ix2 where ix: "spl_transfer (key (accs ! 8)) (key (accs ! 2)) (key (accs ! 3)) (key (accs ! 0)) [] a = Inr ix"
      "mint_to (key (accs ! 8)) (key (accs ! 4)) (key (accs ! 5)) (key (accs ! 6)) [] m = Inr ix2"
    by (simp add: spl_transfer_def mint_to_def)
  with assms obtain M1 M2 now where m: "runtime_invoke E [key (accs ! 1)] ix [accs ! 2, accs ! 3, accs ! 0, accs ! 8] [] L = Inr M1"
      "runtime_invoke E [key (accs ! 1)] ix2 [accs ! 4, accs ! 5, accs ! 6, accs ! 8]
         [vault_auth_seeds (accs ! 1) (snd (derive_vault_authority (find_program_address E) pid (key (accs ! 1))))] M1 = Inr M2"
      "M2 (key (accs ! 7)) = L (key (accs ! 7))" "clock_from_account_info E (accs ! 9) M2 = Inr now"
      "acc_data (M2 (key (accs ! 7))) = [] \<longrightarrow> system_serves E pid accs M2"
    unfolding entry_honoured_def by blast
  have "deposit_transfers E pid [key (accs ! 1)] (accs ! 1) (accs ! 0) (accs ! 2) (accs ! 3) (accs ! 4)
      (accs ! 5) (accs ! 6) (accs ! 8) a m L = Inr M2"
    using ix m(1,2) by (simp add: deposit_transfers_def case_prod_beta)
  then show thesis using that m(3-5) by blast
qed

text \<open>On a request that passes its account checks the handler is its quote and what follows it.\<close>

lemma entry_head:
  assumes live: "live_at pid L (key (accs ! 1)) p" and acc: "entry_accounts E pid accs p L"
    and ok: "a \<noteq> 0" "\<not> market_resolved p" "check_deposit_cap a p = Inr ()"
    and bal: "vault_balance [key (accs ! 1)] (accs ! 3) L = Inr bal" and pre: "pre_accrue_pool bal p = Inr p1"
  shows "process_deposit E pid accs a L =
      bind_err (price_deposit a p1) (\<lambda>(lp, m).
      bind_err (deposit_transfers E pid [key (accs ! 1)] (accs ! 1) (accs ! 0) (accs ! 2) (accs ! 3) (accs ! 4)
                  (accs ! 5) (accs ! 6) (accs ! 8) a m L) (\<lambda>L1.
      bind_err (deposit_totals a lp p1) (\<lambda>p2.
      bind_err (clock_from_account_info E (accs ! 9) L1) (\<lambda>clock.
      bind_err (deposit_refresh_hwm (epoch clock) p2) (\<lambda>p3.
      bind_err (credit_deposit credit_senior_record E pid [key (accs ! 1)] (accs ! 1) (accs ! 0) (accs ! 7) (accs ! 10)
                  (slot clock) lp L1) (\<lambda>L2.
      Inr (write_pool (accs ! 1) p3 L2)))))))"
proof -
  have "is_writable (accs ! 1)" using acc by (simp add: entry_accounts_def)
  note op = live_open [OF live this]
  have pres: "present_pool_account pid (accs ! 1) L = Inr ()" using op(1) by simp
  have pm: "pre_accrue_fee_modes [key (accs ! 1)] (accs ! 3) L p = Inr p1"
    using bal pre by (simp add: pre_accrue_fee_modes_def pre_accrue_pool_def split: if_splits)
  have c: "11 \<le> length accs" "is_signer (accs ! 0)" "vault p = key (accs ! 3)" "lp_mint p = key (accs ! 4)"
    "key (accs ! 8) = spl_token_id"
    "key (accs ! 6) = fst (derive_vault_authority (find_program_address E) pid (key (accs ! 1)))"
    "validate_source_ata [key (accs ! 1)] InvalidMint (accs ! 2) (collateral_mint p) (key (accs ! 0)) L = Inr ()"
    "validate_lp_recipient_account [key (accs ! 1)] (accs ! 5) (key (accs ! 4)) (key (accs ! 0)) L = Inr ()"
    using acc unfolding entry_accounts_def by (elim conjE, metis)+
  show ?thesis
    using c pres op(2) ok pm
    by (simp add: process_deposit_def deposit_checks_def Let_def verify_token_program_def del: present_pool_account_ok)
qed

text \<open>Behind the quote nothing fails once the calls are carried out.\<close>

lemma entry_completes:
  assumes st: "ledger_typed E pid L" "conserved E pid L (key (accs ! 1))" "live_at pid L (key (accs ! 1)) p"
      "\<forall>u. fst (derive_deposit_pda (find_program_address E) pid (key (accs ! 1)) u) \<noteq> key (accs ! 1)" "pda_separation E pid"
      "key (accs ! 7) = fst (derive_deposit_pda (find_program_address E) pid (key (accs ! 1)) (key (accs ! 0)))"
      "record_ready pid (key (accs ! 7)) L"
    and hon: "entry_honoured E pid accs a m L" and room: "unat (total_lp_supply p) + unat lp < 2 ^ 64"
    and totals: "\<And>e. \<exists>p2 p3. deposit_totals a lp P = Inr p2 \<and> deposit_refresh_hwm e p2 = Inr p3"
  shows "\<exists>L'. bind_err (deposit_transfers E pid [key (accs ! 1)] (accs ! 1) (accs ! 0) (accs ! 2) (accs ! 3) (accs ! 4)
                  (accs ! 5) (accs ! 6) (accs ! 8) a m L) (\<lambda>L1.
      bind_err (deposit_totals a lp P) (\<lambda>p2.
      bind_err (clock_from_account_info E (accs ! 9) L1) (\<lambda>clock.
      bind_err (deposit_refresh_hwm (epoch clock) p2) (\<lambda>p3.
      bind_err (credit_deposit credit_senior_record E pid [key (accs ! 1)] (accs ! 1) (accs ! 0) (accs ! 7) (accs ! 10)
                  (slot clock) lp L1) (\<lambda>L2.
      Inr (write_pool (accs ! 1) p3 L2)))))) = Inr L'"
proof -
  from entry_transfers [OF hon] obtain L1 now where t: "deposit_transfers E pid [key (accs ! 1)] (accs ! 1) (accs ! 0) (accs ! 2)
      (accs ! 3) (accs ! 4) (accs ! 5) (accs ! 6) (accs ! 8) a m L = Inr L1" "L1 (key (accs ! 7)) = L (key (accs ! 7))"
    "clock_from_account_info E (accs ! 9) L1 = Inr now" "acc_data (L1 (key (accs ! 7))) = [] \<longrightarrow> system_serves E pid accs L1"
    by metis
  obtain p2 p3 where s: "deposit_totals a lp P = Inr p2" "deposit_refresh_hwm (epoch now) p2 = Inr p3"
    using totals by blast
  obtain L2 where "credit_deposit credit_senior_record E pid [key (accs ! 1)] (accs ! 1) (accs ! 0) (accs ! 7) (accs ! 10)
      (slot now) lp L1 = Inr L2"
    using credit_deposit_succeeds [where M = L1, OF st t(2) _ room] t(4) by blast
  then show ?thesis using t(1,3) s by simp
qed

section \<open>Guaranteed entry\<close>

text \<open>
  C4 (the quote decides a deposit).  In every world in which only this program signs for its
  vault authorities and flushed insurance comes back one way only, a deposit into an unresolved
  pool below its cap, with the documented accounts, a record address that is empty or holds a senior
  record, room in the counters and no surplus against an outstanding loss, is decided by the quote
  of the pool after fee accrual alone: a refused quote is the instruction's error, and a quote the
  LP counter can take makes it succeed, whether the depositor's record exists, is absent, or
  its address was funded beforehand, as long as the token and system programs do what they are asked.
\<close>

theorem deposit_decided_by_quote:
  assumes "custody_world E pid L0 es L" "cpi_frame E pid" "pda_separation E pid" "token_laws E pid"
    and "authorities_distinct E pid" "pda_injective E pid" and "\<forall>k. acc_owner (L0 k) \<noteq> pid"
    and "live_at pid L (key (accs ! 1)) p" and "never is_return (key (accs ! 1)) es \<or> never is_recover (key (accs ! 1)) es"
    and "entry_accounts E pid accs p L" "record_ready pid (key (accs ! 7)) L"
    and "a \<noteq> 0" "\<not> market_resolved p" "check_deposit_cap a p = Inr ()"
    and "int (unat (total_deposited p)) + int (unat (total_fees_earned p)) + tokens L (vault p) + int (unat a) < 2 ^ 64"
    and "total_flushed p \<le> total_returned p \<or> pool_value_int p = tokens L (vault p)"
  shows "\<exists>bal p1. uint bal = tokens L (vault p) \<and> pre_accrue_pool bal p = Inr p1 \<and>
    (case price_deposit a p1 of
       Inl e \<Rightarrow> process E pid accs (pack (Deposit a)) L = Inl e
     | Inr (lp, m) \<Rightarrow> unat (total_lp_supply p) + unat lp < 2 ^ 64 \<longrightarrow> entry_honoured E pid accs a m L \<longrightarrow>
         (\<exists>L'. process E pid accs (pack (Deposit a)) L = Inr L'))"
proof -
  let ?k = "key (accs ! 1)"
  have acc: "key (accs ! 3) = vault p" "acc_data (L (vault p)) ! 108 = 1"
    "key (accs ! 7) = fst (derive_deposit_pda (find_program_address E) pid ?k (key (accs ! 0)))"
    using assms(10) by (simp_all add: entry_accounts_def)
  obtain ret rec bal where f: "\<not> (ret \<and> rec)" "books_sound ret (books p)"
    and bal: "vault_balance [?k] (accs ! 3) L = Inr bal" "uint bal = tokens L (vault p)" "pool_value_int p \<le> uint bal"
    and ty: "ledger_typed E pid L" "conserved E pid L ?k"
    and apart: "\<forall>u. fst (derive_deposit_pda (find_program_address E) pid ?k u) \<noteq> ?k"
    by (rule pool_state [OF assms(1-9) acc(1,2)])
  have "int (unat (total_deposited p) + unat (total_fees_earned p) + unat bal + unat a) < int (2 ^ 64)"
    using assms(15) bal(2) unfolding uint_nat by simp
  then have room: "unat (total_deposited p) + unat (total_fees_earned p) + unat bal + unat a < 2 ^ 64" by linarith
  then have "unat (total_deposited p) + unat (total_fees_earned p) + unat bal < 2 ^ 64" by linarith
  from pre_accrue_succeeds [OF f(2) bal(3) this assms(16) [folded bal(2)]]
  obtain p1 where p1: "pre_accrue_pool bal p = Inr p1" "pool_value_int p1 \<le> uint bal" by blast
  have "books_sound ret (books p1)"
    by (rule book_steps_sound [OF pre_accrue_book_steps [OF p1(1)] f(2,1)])
  then have nn: "0 \<le> pool_value_int p1" unfolding books_sound_def book_value_pool by blast
  have dep: "unat (total_deposited p1) + unat a < 2 ^ 64" using pre_accrue_deposited [OF p1(1)] room by simp
  have "int (unat bal + unat a) < int (2 ^ 64)" using room by linarith
  then have val: "pool_value_int p1 + uint a < 2 ^ 64" using p1(2) unfolding uint_nat by simp
  note head = entry_head [OF assms(8,10,12-14) bal(1) p1(1)]
  have "\<exists>L'. process_deposit E pid accs a L = Inr L'"
    if q: "price_deposit a p1 = Inr (lp, m)" "unat (total_lp_supply p) + unat lp < 2 ^ 64" "entry_honoured E pid accs a m L" for lp m
  proof -
    have "unat (total_lp_supply p1) + unat lp < 2 ^ 64" using q(2) pre_accrue_lp_supply [OF p1(1)] by simp
    note totals = deposit_totals_succeed [OF dep this nn val]
    have "\<exists>p2 p3. deposit_totals a lp p1 = Inr p2 \<and> deposit_refresh_hwm e p2 = Inr p3" for e by (rule totals [of e]) blast
    then show ?thesis
      unfolding head q(1)
      using entry_completes [OF ty assms(8) apart assms(3) acc(3) assms(11) q(3,2), where P = p1] by simp
  qed
  moreover have "process_deposit E pid accs a L = Inl e" if "price_deposit a p1 = Inl e" for e
    unfolding head that by simp
  ultimately show ?thesis
    using bal(2) p1(1) unfolding process_pack
    by (intro exI [of _ bal] exI [of _ p1]) (auto split: sum.split)
qed

section \<open>On the sample chain\<close>

text \<open>Somebody has sent lamports to the address of the record before the first deposit.\<close>

definition sample_prefunded :: ledger where
  "sample_prefunded = sample_ledger(fill 77 := \<lparr>acc_lamports = 5, acc_owner = fill 0, acc_data = []\<rparr>)"

lemma sample_prefunded_at:
  "a \<noteq> fill 77 \<Longrightarrow> sample_prefunded a = sample_ledger a"
  "sample_prefunded (fill 77) = \<lparr>acc_lamports = 5, acc_owner = fill 0, acc_data = []\<rparr>"
  by (simp_all add: sample_prefunded_def)

lemma sample_prefunded_custody:
  "custody_world sample_env sample_pid sample_genesis [(sample_init_accounts, pack (InitPool 1000 0), sample_genesis)] sample_prefunded"
proof -
  have "custody_world sample_env sample_pid sample_genesis ([] @ [(sample_init_accounts, pack (InitPool 1000 0), sample_genesis)]) sample_ledger"
    by (rule custody_call [OF custody_start sample_init]) (simp add: sample_init_accounts_def)
  moreover have "keeps sample_pid sample_ledger sample_prefunded"
    by (auto simp: keeps_def sample_prefunded_def sample_pid_def sample_ledger_at)
  moreover have "moves (authorities sample_env sample_pid) (\<lambda>a. 0) sample_ledger sample_prefunded"
    by (auto simp: moves_def sample_prefunded_def sealed_def tokens_def sample_ledger_at)
  ultimately show ?thesis using custody_foreign by fastforce
qed

lemma sample_prefunded_live: "live_at sample_pid sample_prefunded (fill 42) sample_pool"
  using sample_live by (simp add: live_at_def pool_bytes_at_def sample_prefunded_at)

lemma sample_entry_accounts: "entry_accounts sample_env sample_pid sample_deposit_accounts sample_pool sample_prefunded"
  by (simp add: entry_accounts_def sample_deposit_accounts_def validate_source_ata_eq validate_lp_recipient_account_eq
      account_owner_def try_borrow_data_def sample_prefunded_at sample_ledger_at ACCOUNT_LEN_def)

lemma sample_serves:
  assumes "L (fill 77) = \<lparr>acc_lamports = 5, acc_owner = fill 0, acc_data = []\<rparr>"
  shows "system_serves sample_env sample_pid sample_deposit_accounts L"
proof -
  let ?L3 = "L(fill 77 := \<lparr>acc_lamports = 5, acc_owner = sample_pid, acc_data = replicate STAKE_DEPOSIT_SIZE 0\<rparr>)"
  show ?thesis
    unfolding system_serves_def Let_def
    by (rule exI [of _ 1], rule exI [of _ ?L3])
       (simp add: sample_deposit_accounts_def assms sample_env_def sample_invoke_def sample_system_def meta_new_def Let_def
         STAKE_DEPOSIT_SIZE_def)
qed

lemma sample_entry_honoured: "entry_honoured sample_env sample_pid sample_deposit_accounts 5000 4000 sample_prefunded"
proof -
  let ?L2 = "with_tokens 12 3 1 4000 (with_tokens 4 5 43 5000 (with_tokens 11 5 1 4000 sample_prefunded))"
  have at: "?L2 (fill 77) = \<lparr>acc_lamports = 5, acc_owner = fill 0, acc_data = []\<rparr>"
    by (simp add: with_tokens_def sample_prefunded_at)
  have "\<exists>now. clock_from_account_info sample_env (ai 10 False) ?L2 = Inr now" by (simp add: sample_env_def)
  then show ?thesis
    using sample_serves [of ?L2, OF at] at
    by (simp add: entry_honoured_def sample_deposit_accounts_def spl_transfer_def mint_to_def sample_invoke_def sample_token_def
        token_tags meta_new_def meta_new_readonly_def sample_move_def sample_sub_def sample_add_def is_token_def amount_at_def
        sample_prefunded_at sample_ledger_at put_amount_def set_data_def put_token_account checked_add_def checked_sub_def
        with_tokens_def)
qed

theorem deposit_decided_by_quote_witness:
  "\<exists>L'. process sample_env sample_pid sample_deposit_accounts (pack (Deposit 5000)) sample_prefunded = Inr L'"
proof -
  have k: "key (sample_deposit_accounts ! 1) = fill 42" "key (sample_deposit_accounts ! 7) = fill 77"
    by (simp_all add: sample_deposit_accounts_def)
  have one: "never is_return (fill 42) [(sample_init_accounts, pack (InitPool 1000 0), sample_genesis)]"
    by (simp add: never_def is_return_def unpack_pack del: pack.simps)
  have at: "tokens sample_prefunded (fill 4) = 0" by (simp add: tokens_def sample_prefunded_at sample_ledger_at)
  have rd: "record_ready sample_pid (fill 77) sample_prefunded" by (simp add: record_ready_def sample_prefunded_at)
  have cap: "check_deposit_cap 5000 sample_pool = Inr ()" by (simp add: check_deposit_cap_def)
  have acc: "pre_accrue_pool 0 sample_pool = Inr sample_pool"
    by (simp add: pre_accrue_pool_def accrue_fees_inner_eq sample_price)
  obtain bal p1 where "uint bal = 0" "pre_accrue_pool bal sample_pool = Inr p1"
    and c: "case price_deposit 5000 p1 of
       Inl e \<Rightarrow> process sample_env sample_pid sample_deposit_accounts (pack (Deposit 5000)) sample_prefunded = Inl e
     | Inr (lp, m) \<Rightarrow> unat (total_lp_supply sample_pool) + unat lp < 2 ^ 64 \<longrightarrow>
         entry_honoured sample_env sample_pid sample_deposit_accounts 5000 m sample_prefunded \<longrightarrow>
         (\<exists>L'. process sample_env sample_pid sample_deposit_accounts (pack (Deposit 5000)) sample_prefunded = Inr L')"
    using deposit_decided_by_quote [OF sample_prefunded_custody sample_frame sample_separation sample_laws sample_distinct
        sample_injective sample_unowned, of sample_deposit_accounts sample_pool 5000]
      sample_prefunded_live one sample_entry_accounts rd cap at
    unfolding k by (auto simp del: pack.simps)
  then have "p1 = sample_pool" using acc by (simp add: uint_0_iff)
  then show ?thesis using c sample_entry_honoured by (simp add: sample_price(2) del: pack.simps)
qed

end
