(* ===== verification/Access.thy ===== *)
theory Access
  imports Governance_Properties Exit Layout
begin

text \<open>
  Who may do what, and to which accounts.  The policy is a table of its own: the role an
  instruction demands of its first account, the accounts of the program it may write, and the
  wrapper call a proxy relays.  The properties show that \<open>process\<close> keeps to each of them.
\<close>

section \<open>The access policy\<close>

datatype role = Anyone | AnySigner | Holder | PoolAdmin | NominatedAdmin

definition role_of :: "StakeInstruction \<Rightarrow> role" where
  "role_of ins =
     (case ins of
        RecoverFlushedInsurance a \<Rightarrow> Anyone
      | InitPool c d \<Rightarrow> AnySigner | InitTradingPool c d \<Rightarrow> AnySigner
      | Deposit a \<Rightarrow> AnySigner | DepositJunior a \<Rightarrow> AnySigner | AccrueFees \<Rightarrow> AnySigner
      | Withdraw l \<Rightarrow> Holder
      | AcceptAdmin \<Rightarrow> NominatedAdmin
      | _ \<Rightarrow> PoolAdmin)"

definition holds_record :: "env \<Rightarrow> pubkey \<Rightarrow> AccountInfo list \<Rightarrow> ledger \<Rightarrow> bool" where
  "holds_record E pid accs L \<longleftrightarrow>
     (\<exists>r. acc_owner (L (key (accs ! 7))) = pid \<and> deposit_bytes_at L (key (accs ! 7)) r
        \<and> key (accs ! 7) = fst (derive_deposit_pda (find_program_address E) pid (key (accs ! 1)) (key (accs ! 0)))
        \<and> dep_user r = key (accs ! 0) \<and> dep_pool r = key (accs ! 1))"

definition authorised :: "env \<Rightarrow> pubkey \<Rightarrow> AccountInfo list \<Rightarrow> ledger \<Rightarrow> role \<Rightarrow> bool" where
  "authorised E pid accs L rl \<longleftrightarrow>
     (case rl of
        Anyone \<Rightarrow> True
      | AnySigner \<Rightarrow> is_signer (accs ! 0)
      | Holder \<Rightarrow> is_signer (accs ! 0) \<and> holds_record E pid accs L
      | PoolAdmin \<Rightarrow> is_signer (accs ! 0) \<and> (\<exists>p. live_at pid L (key (accs ! 1)) p \<and> admin p = key (accs ! 0))
      | NominatedAdmin \<Rightarrow> is_signer (accs ! 0)
          \<and> (\<exists>p. live_at pid L (key (accs ! 1)) p \<and> pending_admin p = key (accs ! 0) \<and> pending_admin p \<noteq> fill 0))"

lemma authorised_signer:
  assumes "is_signer (accs ! 0)"
  shows "authorised E pid accs L Anyone" "authorised E pid accs L AnySigner"
    "holds_record E pid accs L \<Longrightarrow> authorised E pid accs L Holder"
    "live_at pid L (key (accs ! 1)) p \<Longrightarrow> admin p = key (accs ! 0) \<Longrightarrow> authorised E pid accs L PoolAdmin"
    "live_at pid L (key (accs ! 1)) p \<Longrightarrow> pending_admin p = key (accs ! 0) \<Longrightarrow> pending_admin p \<noteq> fill 0 \<Longrightarrow>
       authorised E pid accs L NominatedAdmin"
  using assms by (auto simp: authorised_def)

lemma reads_holder:
  assumes "reads E pid accs (Withdraw lp) p L c"
  shows "holds_record E pid accs L"
proof -
  obtain r where r: "acc_owner (L (key (accs ! 7))) = pid" "deposit_bytes_at L (key (accs ! 7)) r"
    "key (accs ! 7) = fst (derive_deposit_pda (find_program_address E) pid (key (accs ! 1)) (key (accs ! 0)))"
    "check_deposit_record (key (accs ! 1)) (key (accs ! 0)) (cooldown_slots p) (slot (clock_now c)) lp r = Inr (junior_flag c)"
    using assms unfolding reads_def StakeInstruction.case by blast
  have "dep_user r = key (accs ! 0)" "dep_pool r = key (accs ! 1)"
    using r(4) by (auto simp: check_deposit_record_def)
  then show ?thesis unfolding holds_record_def using r(1-3) by blast
qed

text \<open>A step of the pool is taken for the role its instruction demands.\<close>

lemma step_role:
  assumes "pool_step c ins p p'" "reads E pid accs ins p L c" "live_at pid L (key (accs ! 1)) p"
    and "(\<forall>a. ins \<noteq> RecoverFlushedInsurance a) \<longrightarrow> is_signer (accs ! 0)"
  shows "authorised E pid accs L (role_of ins)"
proof -
  have a: "actor c = key (accs ! 0)" using assms(2) by simp
  from assms(1) show ?thesis
  proof cases
    case step_recover
    then show ?thesis by (simp add: role_of_def authorised_def)
  next
    case step_accept_admin
    then show ?thesis
      using assms(3,4) a by (auto simp: role_of_def accept_admin_pool_def intro!: authorised_signer(5))
  next
    case step_withdraw
    then show ?thesis using assms(2,4) reads_holder by (simp add: role_of_def authorised_signer(3))
  qed (use assms(3,4) a in \<open>auto simp: role_of_def authorised_signer(2) intro: authorised_signer(4)\<close>)
qed

lemma call_role:
  assumes "call_effect pid accs L L'" "\<not> acts_on_pool ins"
  shows "authorised E pid accs L (role_of ins)"
proof -
  obtain p where s: "is_signer (accs ! 0)" and p: "live_at pid L (key (accs ! 1)) p" "admin p = key (accs ! 0)"
    using assms(1) by (auto simp: call_effect_def live_at_def)
  show ?thesis
    using assms(2) authorised_signer(2) [OF s] authorised_signer(4) [OF s p]
    by (cases ins) (simp_all add: role_of_def acts_on_pool_def)
qed

lemma process_role:
  assumes F: "cpi_frame E pid" and ok: "ledger_ok E pid L" and run: "process E pid accs dt L = Inr L'"
    and u: "unpack dt = Inr ins"
  shows "authorised E pid accs L (role_of ins)"
proof (cases "acts_on_pool ins")
  case True
  obtain c p p' where "acc_owner (L (key (accs ! 1))) = pid" "pool_bytes_at L (key (accs ! 1)) p" "live_pool p"
    "(\<forall>a. ins \<noteq> RecoverFlushedInsurance a) \<longrightarrow> is_signer (accs ! 0)" "reads E pid accs ins p L c" "pool_step c ins p p'"
    by (rule pool_effect_cases [OF process_acts [OF F run u True] ok]) blast
  then show ?thesis by (intro step_role) (auto simp: live_at_def)
next
  case False
  have "\<not> pool_effect E pid accs ins L L'"
    using False step_acts by (blast elim: pool_effect_cases [OF _ ok])
  then consider "call_effect pid accs L L'"
    | c d and md :: u8 where "ins = InitPool c d \<or> ins = InitTradingPool c d" "init_effect E pid accs c d md L L'"
    using process_shape [OF F run] u by (metis sum.inject(2))
  then show ?thesis
  proof cases
    case 1
    then show ?thesis using False by (rule call_role)
  next
    case 2
    then show ?thesis by (auto simp: role_of_def init_effect_def intro: authorised_signer(2))
  qed
qed

text \<open>
  C8 (access policy).  On a well-formed ledger an instruction whose first account lacks the role
  it demands is refused: the admin's instructions without the signature of the live pool's
  admin, \<open>AcceptAdmin\<close> without that of the nominated one, \<open>Withdraw\<close> without that of the user the
  record at its derived address names, and every other one but the recovery of flushed
  insurance without any signature.
\<close>

theorem access_policy:
  assumes "cpi_frame E pid" "ledger_ok E pid L" and "unpack dt = Inr ins"
    and "\<not> authorised E pid accs L (role_of ins)"
  shows "\<exists>e. process E pid accs dt L = Inl e"
proof (cases "process E pid accs dt L")
  case (Inl e)
  then show ?thesis by blast
next
  case (Inr L')
  then show ?thesis using process_role [OF assms(1,2) _ assms(3)] assms(4) by blast
qed

theorem access_policy_witness:
  "\<exists>e. process sample_env sample_pid [ai 8 True, ai 42 False] (pack (ProposeAdmin (fill 8))) sample_ledger = Inl e"
proof -
  have "\<not> (\<exists>p. live_at sample_pid sample_ledger (fill 42) p \<and> admin p = fill 8)"
    using live_at_unique [OF sample_live] by fastforce
  then have "\<not> authorised sample_env sample_pid [ai 8 True, ai 42 False] sample_ledger (role_of (ProposeAdmin (fill 8)))"
    by (simp add: role_of_def authorised_def)
  then show ?thesis by (rule access_policy [OF sample_frame sample_ledger_ok unpack_pack])
qed

section \<open>Isolation\<close>

text \<open>The program's accounts an instruction may write.\<close>

definition is_init :: "StakeInstruction \<Rightarrow> bool" where
  "is_init ins \<longleftrightarrow> (case ins of InitPool c d \<Rightarrow> True | InitTradingPool c d \<Rightarrow> True | _ \<Rightarrow> False)"

definition touched :: "StakeInstruction \<Rightarrow> AccountInfo list \<Rightarrow> pubkey set" where
  "touched ins accs =
     (if is_init ins then {key (accs ! 2)}
      else if acts_on_pool ins then insert (key (accs ! 1)) (if rewrites_a_record ins then {key (accs ! 7)} else {})
      else {})"

definition undisturbed :: "pubkey \<Rightarrow> ledger \<Rightarrow> ledger \<Rightarrow> pubkey \<Rightarrow> bool" where
  "undisturbed pid L L' k \<longleftrightarrow>
     (if acc_owner (L k) = pid then acc_owner (L' k) = pid \<and> acc_data (L' k) = acc_data (L k)
      else acc_owner (L' k) = pid \<longrightarrow> set (acc_data (L' k)) \<subseteq> {0})"

lemma keeps_undisturbed: "keeps pid L L' \<longleftrightarrow> (\<forall>k. undisturbed pid L L' k)"
  by (simp add: keeps_def undisturbed_def)

lemma undisturbed_cong: "L2 k = L1 k \<Longrightarrow> undisturbed pid L L2 k = undisturbed pid L L1 k"
  by (simp add: undisturbed_def)

lemma pool_effect_frame:
  assumes e: "pool_effect E pid accs ins L L'" and ok: "ledger_ok E pid L"
    and k: "k \<noteq> key (accs ! 1)" "rewrites_a_record ins \<Longrightarrow> k \<noteq> key (accs ! 7)"
  shows "undisturbed pid L L' k"
proof -
  obtain p p' :: StakePool and c :: step_ctx and L1 L2 where s: "keeps pid L L1"
    "rewrites_record E pid accs ins (slot (clock_now c)) (total_lp_supply p' - total_lp_supply p) L1 L2"
    "L' = write_pool (accs ! 1) p' L2"
    by (rule pool_effect_cases [OF e ok]) blast
  have "L' k = L1 k" using record_other [OF s(2)] k by (auto simp: s(3))
  then show ?thesis using s(1) undisturbed_cong unfolding keeps_undisturbed by blast
qed

lemma process_frame:
  assumes F: "cpi_frame E pid" and ok: "ledger_ok E pid L" and run: "process E pid accs dt L = Inr L'"
    and u: "unpack dt = Inr ins" and k: "k \<notin> touched ins accs"
  shows "undisturbed pid L L' k"
proof (cases "acts_on_pool ins")
  case True
  then have "\<not> is_init ins" by (auto simp: is_init_def acts_on_pool_def split: StakeInstruction.splits)
  then show ?thesis
    using k True by (intro pool_effect_frame [OF process_acts [OF F run u True] ok]) (auto simp: touched_def)
next
  case False
  have "\<not> pool_effect E pid accs ins L L'"
    using False step_acts by (blast elim: pool_effect_cases [OF _ ok])
  then consider "call_effect pid accs L L'"
    | c d and md :: u8 where "ins = InitPool c d \<or> ins = InitTradingPool c d" "init_effect E pid accs c d md L L'"
    using process_shape [OF F run] u by (metis sum.inject(2))
  then show ?thesis
  proof cases
    case 1
    then have "keeps pid L L'"
      using ledger_okD(1) [OF ok] live_validates unfolding call_effect_def by blast
    then show ?thesis by (simp add: keeps_undisturbed)
  next
    case 2
    then obtain L2 q where e: "keeps pid L L2" "L' = write_pool (accs ! 2) q L2" unfolding init_effect_def by blast
    have "k \<noteq> key (accs ! 2)" using k 2(1) by (auto simp: touched_def is_init_def)
    then have "L' k = L2 k" by (simp add: e(2))
    then show ?thesis using e(1) undisturbed_cong unfolding keeps_undisturbed by blast
  qed
qed

text \<open>
  C9 (isolation).  Whatever accounts a caller passes, an instruction writes no account of the
  program but the pool it names (the new pool, for a creation) and, for a deposit or a
  withdrawal, the record at account 7.  Every other account keeps its owner and data, none is
  handed over with data in it, and every other live pool stays as it was, with its vault under its authority
  and holding at least what it held.
\<close>

theorem pool_isolation:
  assumes "custody_world E pid L0 es L" "cpi_frame E pid" "pda_separation E pid" "token_laws E pid"
    and "authorities_distinct E pid" and "\<forall>k. acc_owner (L0 k) \<noteq> pid"
    and "process E pid accs dt L = Inr L'" "unpack dt = Inr ins"
    and "is_signer (accs ! 0) \<longrightarrow> key (accs ! 0) \<notin> authorities E pid" and "k \<notin> touched ins accs"
  shows "undisturbed pid L L' k
    \<and> (\<forall>p. live_at pid L k p \<longrightarrow>
         live_at pid L' k p \<and> sealed (vault_authority E pid k) (L' (vault p)) \<and> tokens L (vault p) \<le> tokens L' (vault p))"
proof (intro conjI allI impI)
  have ok: "ledger_ok E pid L"
    by (rule world_ledger_ok [OF custody_world_world [OF assms(1)] assms(2,3) unowned_ledger_ok [OF assms(6)]])
  show u: "undisturbed pid L L' k" by (rule process_frame [OF assms(2) ok assms(7,8,10)])
  fix p
  assume p: "live_at pid L k p"
  then show "live_at pid L' k p" using u by (auto simp: live_at_def pool_bytes_at_def undisturbed_def)
  have far: "\<not> acts_on_pool ins \<or> k \<noteq> key (accs ! 1)"
    using assms(10) by (auto simp: touched_def is_init_def acts_on_pool_def split: StakeInstruction.splits if_splits)
  note o = process_others [OF assms(2-4) ok world_solvent [OF assms(1-6)] assms(5,7-9) p]
  show "sealed (vault_authority E pid k) (L' (vault p))" by (rule o(1))
  show "tokens L (vault p) \<le> tokens L' (vault p)" by (rule o(2) [OF far])
qed

lemma sample_matured_propose:
  "process sample_env sample_pid sample_call (pack (ProposeAdmin (fill 8))) sample_matured
   = Inr (write_pool (ai 42 False) (sample_funded\<lparr>pending_admin := fill 8\<rparr>) sample_matured)"
proof -
  have "open_pool_as_admin sample_pid (ai 1 True) (ai 42 False) sample_matured = Inr sample_funded"
    using sample_matured_live pool_bytes_nonempty
    by (auto simp: open_pool_as_admin_ok live_at_def sample_funded_def)
  then show ?thesis unfolding process_pack by (simp add: process_propose_admin_def sample_call_def)
qed

theorem pool_isolation_witness:
  "\<exists>L'. process sample_env sample_pid sample_call (pack (ProposeAdmin (fill 8))) sample_matured = Inr L'
     \<and> undisturbed sample_pid sample_matured L' (fill 77)"
proof -
  have "is_signer (sample_call ! 0) \<longrightarrow> key (sample_call ! 0) \<notin> authorities sample_env sample_pid"
    "fill 77 \<notin> touched (ProposeAdmin (fill 8)) sample_call"
    by (simp_all add: sample_call_def touched_def is_init_def acts_on_pool_def)
  from pool_isolation [OF sample_matured_custody sample_frame sample_separation sample_laws sample_distinct sample_unowned
      sample_matured_propose unpack_pack this]
  show ?thesis using sample_matured_propose by blast
qed

end
