(* ===== verification/Proxies.thy ===== *)
theory Proxies
  imports Access
begin

text \<open>
  The proxied wrapper instructions end to end.  After pool creation the wrapper's market is
  governed by addresses derived from this program, so its resolution and fee settings are
  reached only through the five proxies here.  Each relays the payload of its own instruction,
  unchanged, behind the wrapper's tag.
\<close>

section \<open>The relay table\<close>

definition wrapper_tag :: "StakeInstruction \<Rightarrow> u8 option" where
  "wrapper_tag ins =
     (case ins of
        AdminResolveMarket \<Rightarrow> Some 19
      | AdminUpdateBackingFeePolicy d f s \<Rightarrow> Some 51
      | AdminUpdateTradeFeePolicy t \<Rightarrow> Some 55
      | AdminUpdateFeeSplit a b c \<Rightarrow> Some 86
      | AdminUpdateMaintenanceFeePerSlot f \<Rightarrow> Some 88
      | _ \<Rightarrow> None)"

text \<open>
  The wrapper checks its market authority (the pool) for resolution, fee split and maintenance
  fee, and its insurance authority (the vault authority) for backing and trade fees.
\<close>

definition signing_seeds :: "StakeInstruction \<Rightarrow> pubkey \<Rightarrow> StakePool \<Rightarrow> u8 list list" where
  "signing_seeds ins k p =
     (case ins of
        AdminUpdateBackingFeePolicy d f s \<Rightarrow> [ascii ''vault_auth'', list_of_bytes k]
      | AdminUpdateTradeFeePolicy t \<Rightarrow> [ascii ''vault_auth'', list_of_bytes k]
      | _ \<Rightarrow> [ascii ''stake_pool'', list_of_bytes (slab p)])"

definition relayed ::
  "env \<Rightarrow> pubkey \<Rightarrow> AccountInfo list \<Rightarrow> StakeInstruction \<Rightarrow> u8 list \<Rightarrow> ledger \<Rightarrow> ledger \<Rightarrow> bool" where
  "relayed E pid accs ins payload L L' \<longleftrightarrow>
     (\<exists>p a b infos. live_at pid L (key (accs ! 1)) p \<and> is_signer (accs ! 0) \<and> admin p = key (accs ! 0)
        \<and> (ins = AdminResolveMarket \<longrightarrow> wrapper_fully_recovered p)
        \<and> find_program_address E (signing_seeds ins (key (accs ! 1)) p) pid = (a, b)
        \<and> runtime_invoke E []
            \<lparr>ix_program_id = percolator_program p,
             ix_accounts = [meta_new_readonly a True, meta_new (slab p) False],
             ix_data = the (wrapper_tag ins) # payload\<rparr>
            infos [signing_seeds ins (key (accs ! 1)) p @ [[b]]] L = Inr L')"

section \<open>The payload\<close>

lemma le_bytes_exact [simp]:
  "length xs = 2 \<Longrightarrow> to_le_bytes (from_le_bytes xs :: u16) = xs"
  "length ys = 8 \<Longrightarrow> to_le_bytes (from_le_bytes ys :: u64) = ys"
  "length zs = 16 \<Longrightarrow> to_le_bytes (from_le_bytes zs :: u128) = zs"
  by (simp_all add: to_from_le_bytes)

lemma slices_of_six: "length xs = 6 \<Longrightarrow> slice 0 2 xs @ slice 2 2 xs @ slice 4 2 xs = xs"
  by (simp add: slice_def) (metis append_take_drop_id drop_drop numeral_Bit0)

text \<open>The data of a proxied instruction is its reference encoding.\<close>

lemma proxy_data:
  assumes "unpack dt = Inr ins" "wrapper_tag ins = Some t"
  shows "dt = pack ins"
  using assms slices_of_six [of "tl dt"]
  by (cases dt) (auto simp: unpack_defs slice_at_def wrapper_tag_def slice_def split: if_splits)

section \<open>The handlers\<close>

locale proxy_handler =
  fixes run :: "env \<Rightarrow> pubkey \<Rightarrow> AccountInfo list \<Rightarrow> ledger \<Rightarrow> ledger result"
    and ins :: StakeInstruction
  assumes relay: "\<lbrakk>run E pid accs L = Inr L';
    \<And>p. live_at pid L (key (accs ! 1)) p \<Longrightarrow> derived_keys E pid (key (accs ! 1)) p\<rbrakk>
    \<Longrightarrow> relayed E pid accs ins (tl (pack ins)) L L'"
begin

text \<open>In a world whose pools carry their own derivation every run of the handler is relayed.\<close>

lemma relayed_in_world:
  assumes "world E pid L0 es L" "cpi_frame E pid" "pda_separation E pid" "\<forall>k. acc_owner (L0 k) \<noteq> pid"
    and "run E pid accs L = Inr L'"
  shows "relayed E pid accs ins (tl (pack ins)) L L'"
proof (rule relay [OF assms(5)])
  have ok: "ledger_ok E pid L" by (rule world_ledger_ok [OF assms(1-3) unowned_ledger_ok [OF assms(4)]])
  show "derived_keys E pid (key (accs ! 1)) p" if "live_at pid L (key (accs ! 1)) p" for p
    using typed_pool [OF world_typed [OF assms(1-4)] ok assms(3) that] .
qed

end

lemma relayedI:
  assumes "live_at pid L (key (accs ! 1)) p" "is_signer (accs ! 0)" "admin p = key (accs ! 0)"
    and "ins = AdminResolveMarket \<Longrightarrow> wrapper_fully_recovered p"
    and "find_program_address E (signing_seeds ins (key (accs ! 1)) p) pid = (a, b)"
    and "runtime_invoke E []
      \<lparr>ix_program_id = percolator_program p, ix_accounts = [meta_new_readonly a True, meta_new (slab p) False],
       ix_data = the (wrapper_tag ins) # payload\<rparr> infos [signing_seeds ins (key (accs ! 1)) p @ [[b]]] L = Inr L'"
  shows "relayed E pid accs ins payload L L'"
  unfolding relayed_def using assms by blast

text \<open>What the two prologues establish.\<close>

lemma group_a_ok:
  assumes "validate_group_a_proxy pid a k s w L = Inr b"
  obtains p where "live_at pid L (key k) p" "is_signer a" "admin p = key a" "slab p = key s" "percolator_program p = key w" "b = bump p"
  using assms by (auto simp: proxy_defs open_ok live_at_def)

lemma group_b_ok:
  assumes "validate_group_b_proxy E pid a k v s w L = Inr b"
  obtains p where "live_at pid L (key k) p" "is_signer a" "admin p = key a" "slab p = key s" "percolator_program p = key w"
    "find_program_address E [ascii ''vault_auth'', list_of_bytes (key k)] pid = (key v, b)"
  using assms by (auto simp: validate_group_b_proxy_def derive_vault_authority_def elim: group_a_ok)

lemma pool_signs:
  "derived_keys E pid k p \<Longrightarrow> find_program_address E [ascii ''stake_pool'', list_of_bytes (slab p)] pid = (k, bump p)"
  by (simp add: derived_keys_def derive_pool_pda_def)

lemmas relay_simps =
  wrapper_tag_def signing_seeds_def signed_market_ix_def pool_seeds_def vault_auth_seeds_def

lemma group_a_relay:
  assumes "validate_group_a_proxy pid (accs ! 0) (accs ! 1) (accs ! 2) (accs ! 3) L = Inr b"
    and "runtime_invoke E [] (signed_market_ix (accs ! 3) (accs ! 1) (accs ! 2) (the (wrapper_tag ins) # payload)) infos
      [pool_seeds (accs ! 2) b] L = Inr L'"
    and d: "\<And>p. live_at pid L (key (accs ! 1)) p \<Longrightarrow> derived_keys E pid (key (accs ! 1)) p"
    and ins: "ins \<noteq> AdminResolveMarket" "\<And>k p. signing_seeds ins k p = [ascii ''stake_pool'', list_of_bytes (slab p)]"
  shows "relayed E pid accs ins payload L L'"
proof -
  from assms(1) obtain p where p: "live_at pid L (key (accs ! 1)) p" "is_signer (accs ! 0)" "admin p = key (accs ! 0)"
    "slab p = key (accs ! 2)" "percolator_program p = key (accs ! 3)" "b = bump p" by (rule group_a_ok)
  show ?thesis
    by (rule relayedI [OF p(1-3)])
       (use assms(2) ins p(4-6) pool_signs [OF d [OF p(1)]] in \<open>simp_all add: signed_market_ix_def pool_seeds_def\<close>)
qed

lemma group_b_relay:
  assumes "validate_group_b_proxy E pid (accs ! 0) (accs ! 1) (accs ! 2) (accs ! 3) (accs ! 4) L = Inr b"
    and "runtime_invoke E [] (signed_market_ix (accs ! 4) (accs ! 2) (accs ! 3) (the (wrapper_tag ins) # payload)) infos
      [vault_auth_seeds (accs ! 1) b] L = Inr L'"
    and ins: "ins \<noteq> AdminResolveMarket" "\<And>k p. signing_seeds ins k p = [ascii ''vault_auth'', list_of_bytes k]"
  shows "relayed E pid accs ins payload L L'"
proof -
  from assms(1) obtain p where p: "live_at pid L (key (accs ! 1)) p" "is_signer (accs ! 0)" "admin p = key (accs ! 0)"
    "slab p = key (accs ! 3)" "percolator_program p = key (accs ! 4)"
    "find_program_address E [ascii ''vault_auth'', list_of_bytes (key (accs ! 1))] pid = (key (accs ! 2), b)"
    by (rule group_b_ok)
  show ?thesis
    by (rule relayedI [OF p(1-3)])
       (use assms(2) ins p(4-6) in \<open>simp_all add: signed_market_ix_def vault_auth_seeds_def\<close>)
qed

interpretation p_fee_split:
  proxy_handler "\<lambda>E pid accs. process_admin_update_fee_split E pid accs x y z" "AdminUpdateFeeSplit x y z" for x y z
  by unfold_locales (auto simp: process_admin_update_fee_split_def Let_def cpi_update_fee_split_def
      TAG_UPDATE_FEE_SPLIT_def wrapper_tag_def signing_seeds_def intro!: group_a_relay)

interpretation p_maintenance_fee:
  proxy_handler "\<lambda>E pid accs. process_admin_update_maintenance_fee_per_slot E pid accs f"
    "AdminUpdateMaintenanceFeePerSlot f" for f
  by unfold_locales (auto simp: process_admin_update_maintenance_fee_per_slot_def Let_def
      cpi_update_maintenance_fee_per_slot_def TAG_UPDATE_MAINTENANCE_FEE_PER_SLOT_def wrapper_tag_def signing_seeds_def
      intro!: group_a_relay)

interpretation p_backing_fee:
  proxy_handler "\<lambda>E pid accs. process_admin_update_backing_fee_policy E pid accs x y z"
    "AdminUpdateBackingFeePolicy x y z" for x y z
  by unfold_locales (auto simp: process_admin_update_backing_fee_policy_def Let_def
      cpi_update_backing_fee_policy_def TAG_UPDATE_BACKING_FEE_POLICY_def wrapper_tag_def signing_seeds_def
      intro!: group_b_relay)

interpretation p_trade_fee:
  proxy_handler "\<lambda>E pid accs. process_admin_update_trade_fee_policy E pid accs t" "AdminUpdateTradeFeePolicy t" for t
  by unfold_locales (auto simp: process_admin_update_trade_fee_policy_def Let_def
      cpi_update_trade_fee_policy_def TAG_UPDATE_TRADE_FEE_POLICY_def wrapper_tag_def signing_seeds_def
      intro!: group_b_relay)

interpretation p_resolve: proxy_handler process_admin_resolve_market AdminResolveMarket
proof
  fix E pid accs L L'
  assume run: "process_admin_resolve_market E pid accs L = Inr L'"
    and d: "\<And>p. live_at pid L (key (accs ! 1)) p \<Longrightarrow> derived_keys E pid (key (accs ! 1)) p"
  obtain p where p: "live_at pid L (key (accs ! 1)) p" "is_signer (accs ! 0)" "admin p = key (accs ! 0)"
    "wrapper_fully_recovered p" "slab p = key (accs ! 2)" "percolator_program p = key (accs ! 3)"
    "cpi_resolve_market E [] (accs ! 3) (accs ! 1) (accs ! 2) (pool_seeds (accs ! 2) (bump p)) L = Inr L'"
    using run by (auto simp: process_admin_resolve_market_def Let_def read_pool_as_admin_def open_ok live_at_def)
  show "relayed E pid accs AdminResolveMarket (tl (pack AdminResolveMarket)) L L'"
    by (rule relayedI [OF p(1-3)])
       (use p(4-7) pool_signs [OF d [OF p(1)]] in \<open>simp_all add: relay_simps cpi_resolve_market_def TAG_RESOLVE_MARKET_def\<close>)
qed

text \<open>
  C26 (proxies relay their payload).  In every world grown from a ledger without accounts of
  this program, a proxied instruction that succeeds was signed by the admin of the live pool
  it names and is one call of that pool's wrapper on that pool's market: the data is the
  wrapper's tag followed by the very bytes the caller sent behind this program's tag, the
  signer is the address \<open>find_program_address\<close> derives from the authority's seeds, and the
  seeds and bump handed to the runtime are those of that derivation.  A market is resolved
  only with all flushed insurance recovered.
\<close>

theorem proxies_relay_payload:
  assumes "world E pid L0 es L" "cpi_frame E pid" "pda_separation E pid" "\<forall>k. acc_owner (L0 k) \<noteq> pid"
    and "process E pid accs dt L = Inr L'" "unpack dt = Inr ins" "wrapper_tag ins = Some t"
  shows "\<exists>p a b infos. live_at pid L (key (accs ! 1)) p \<and> is_signer (accs ! 0) \<and> admin p = key (accs ! 0)
        \<and> (ins = AdminResolveMarket \<longrightarrow> wrapper_fully_recovered p)
        \<and> find_program_address E (signing_seeds ins (key (accs ! 1)) p) pid = (a, b)
        \<and> runtime_invoke E []
            \<lparr>ix_program_id = percolator_program p,
             ix_accounts = [meta_new_readonly a True, meta_new (slab p) False], ix_data = t # tl dt\<rparr>
            infos [signing_seeds ins (key (accs ! 1)) p @ [[b]]] L = Inr L'"
proof -
  note relays =
    p_fee_split.relayed_in_world p_maintenance_fee.relayed_in_world p_backing_fee.relayed_in_world
    p_trade_fee.relayed_in_world p_resolve.relayed_in_world
  have "relayed E pid accs ins (tl (pack ins)) L L'"
    using assms(5-7) relays [OF assms(1-4)]
    by (cases ins) (simp_all add: process_def wrapper_tag_def del: pack.simps)
  then show ?thesis
    unfolding relayed_def proxy_data [OF assms(6,7)] assms(7) option.sel .
qed

lemma sample_fee_split:
  "process sample_env sample_pid [ai 1 True, ai 42 False, ai 2 False, program_ai PERCOLATOR_MAINNET]
     (pack (AdminUpdateFeeSplit 1000 7000 2000)) sample_ledger = Inr sample_ledger"
proof -
  have "read_pool_as_admin sample_pid (ai 1 True) (ai 42 False) sample_ledger = Inr sample_pool"
    using sample_open by (auto simp: read_pool_as_admin_def open_ok)
  moreover have "percolator_program sample_pool = PERCOLATOR_MAINNET"
    by (simp add: sample_pool_def genesis_pool_def set_discriminator_def Let_def)
  ultimately have "validate_group_a_proxy sample_pid (ai 1 True) (ai 42 False) (ai 2 False) (program_ai PERCOLATOR_MAINNET)
      sample_ledger = Inr (bump sample_pool)"
    by (simp add: validate_group_a_proxy_def)
  then show ?thesis
    by (simp add: process_def unpack_pack process_admin_update_fee_split_def Let_def cpi_update_fee_split_def
        sample_invoke_def sample_wrapper_def signed_market_ix_def wrapper_tags TAG_UPDATE_FEE_SPLIT_def del: pack.simps)
qed

theorem proxies_relay_payload_witness:
  "\<exists>p a b infos. slab p = fill 2 \<and> runtime_invoke sample_env []
      \<lparr>ix_program_id = percolator_program p,
       ix_accounts = [meta_new_readonly a True, meta_new (slab p) False],
       ix_data = 86 # to_le_bytes (1000 :: u16) @ to_le_bytes (7000 :: u16) @ to_le_bytes (2000 :: u16)\<rparr>
      infos [signing_seeds (AdminUpdateFeeSplit 1000 7000 2000) (fill 42) p @ [[b]]] sample_ledger = Inr sample_ledger"
proof -
  have t: "wrapper_tag (AdminUpdateFeeSplit 1000 7000 2000) = Some 86" by (simp add: wrapper_tag_def)
  obtain p a b infos where p: "live_at sample_pid sample_ledger (fill 42) p" and r: "runtime_invoke sample_env []
      \<lparr>ix_program_id = percolator_program p, ix_accounts = [meta_new_readonly a True, meta_new (slab p) False],
       ix_data = 86 # tl (pack (AdminUpdateFeeSplit 1000 7000 2000))\<rparr>
      infos [signing_seeds (AdminUpdateFeeSplit 1000 7000 2000) (fill 42) p @ [[b]]] sample_ledger = Inr sample_ledger"
    using proxies_relay_payload [OF sample_world sample_frame sample_separation sample_unowned sample_fee_split unpack_pack t]
    by auto
  have "slab p = fill 2" using live_at_unique [OF p sample_live] by simp
  then show ?thesis using r by (intro exI conjI) (assumption, simp)
qed

end
