(* ===== verification/Math_Tests.thy ===== *)
theory Math_Tests
  imports Tranche_Math
begin

unbundle bit_operations_syntax

text \<open>
  The unit tests of \<open>src/math.rs\<close>, run on the model.  A test is a proposition: its assertions
  joined, with \<open>unwrap\<close> failing on \<open>None\<close>.  \<open>math_suite_passes\<close> proves them all, so the definitions
  of \<open>Math\<close> agree with the source on every value its authors wrote down.  The module also keeps
  the pricing formulas of before the virtual offset; \<open>offset_direction\<close> compares them with the
  current ones on all inputs.
\<close>

section \<open>Assertions\<close>

named_theorems unit_test \<open>definitions of the tests\<close>

definition unwrap_in :: "'a option \<Rightarrow> ('a \<Rightarrow> bool) \<Rightarrow> bool" where
  "unwrap_in x P \<longleftrightarrow> (case x of None \<Rightarrow> False | Some v \<Rightarrow> P v)"

lemma unwrap_in_simps [simp]: "unwrap_in (Some v) P = P v" "\<not> unwrap_in None P"
  by (simp_all add: unwrap_in_def)

section \<open>The formulas without the virtual offset\<close>

definition pre_n7_calc_lp_for_deposit_baseline :: "u64 \<Rightarrow> u64 \<Rightarrow> u64 \<Rightarrow> u64 option" where
  "pre_n7_calc_lp_for_deposit_baseline total_lp_supply total_pool_value deposit_amount =
     (if total_lp_supply = 0 \<and> total_pool_value = 0 then Some deposit_amount
      else if total_lp_supply = 0 \<or> total_pool_value = 0 then None
      else
        Option.bind (checked_mul (ucast deposit_amount :: u128) (ucast total_lp_supply)) (\<lambda>product.
        Option.bind (checked_div product (ucast total_pool_value)) (\<lambda>lp.
        if lp \<le> ucast U64_MAX then Some (ucast lp) else None)))"

definition pre_n7_calc_collateral_for_withdraw_baseline :: "u64 \<Rightarrow> u64 \<Rightarrow> u64 \<Rightarrow> u64 option" where
  "pre_n7_calc_collateral_for_withdraw_baseline total_lp_supply total_pool_value lp_amount =
     (if total_lp_supply = 0 then None
      else
        Option.bind (checked_mul (ucast lp_amount :: u128) (ucast total_pool_value)) (\<lambda>product.
        Option.bind (checked_div product (ucast total_lp_supply)) (\<lambda>col.
        if col \<le> ucast U64_MAX then Some (ucast col) else None)))"


section \<open>The tests\<close>

definition test_first_depositor :: bool where [unit_test]:
  "test_first_depositor \<longleftrightarrow>
     calc_lp_for_deposit 0 0 1000000 = Some 1000000"

definition test_pro_rata :: bool where [unit_test]:
  "test_pro_rata \<longleftrightarrow>
     calc_lp_for_deposit 1000000 1000000 500000 = Some 500000"

definition test_withdraw_proportional :: bool where [unit_test]:
  "test_withdraw_proportional \<longleftrightarrow>
     calc_collateral_for_withdraw 2000000 2000000 1000000 = Some 1000000"

definition test_rounding_down :: bool where [unit_test]:
  "test_rounding_down \<longleftrightarrow>
     calc_lp_for_deposit 999999 1000000 1 = Some 0"

definition test_zero_supply_withdraw_none :: bool where [unit_test]:
  "test_zero_supply_withdraw_none \<longleftrightarrow>
     calc_collateral_for_withdraw 0 100 10 = None"

definition test_roundtrip_no_profit :: bool where [unit_test]:
  "test_roundtrip_no_profit \<longleftrightarrow>
     unwrap_in (calc_lp_for_deposit 5000 10000 1000) (\<lambda>lp. lp = 500 \<and>
     unwrap_in (calc_collateral_for_withdraw 5500 11000 500) (\<lambda>back. back = 999 \<and> back \<le> 1000))"

definition test_roundtrip_with_rounding_loss :: bool where [unit_test]:
  "test_roundtrip_with_rounding_loss \<longleftrightarrow>
     unwrap_in (calc_lp_for_deposit 3 10 7) (\<lambda>lp. lp = 2 \<and>
     unwrap_in (calc_collateral_for_withdraw 5 17 2) (\<lambda>back. back = 6 \<and> back \<le> 7))"

definition test_two_depositors_conservation :: bool where [unit_test]:
  "test_two_depositors_conservation \<longleftrightarrow>
     unwrap_in (calc_lp_for_deposit 0 0 100) (\<lambda>a_lp. a_lp = 100 \<and>
     unwrap_in (calc_lp_for_deposit 100 100 50) (\<lambda>b_lp. b_lp = 50 \<and>
     unwrap_in (calc_collateral_for_withdraw 150 150 100) (\<lambda>a_back. a_back = 100 \<and>
     unwrap_in (calc_collateral_for_withdraw 50 50 50) (\<lambda>b_back. b_back = 50 \<and>
     unwrap_in (checked_add a_back b_back) (\<lambda>both. both \<le> 100 + 50)))))"

definition test_no_dilution_attack :: bool where [unit_test]:
  "test_no_dilution_attack \<longleftrightarrow>
     unwrap_in (calc_lp_for_deposit 0 0 1000) (\<lambda>a_lp.
     unwrap_in (calc_collateral_for_withdraw a_lp 1000 a_lp) (\<lambda>a_value_before. a_value_before = 1000 \<and>
     unwrap_in (calc_lp_for_deposit 1000 1000 1) (\<lambda>b_lp. b_lp = 1 \<and>
     unwrap_in (calc_collateral_for_withdraw 1001 1001 1000) (\<lambda>a_value_after. a_value_after \<ge> a_value_before))))"

definition test_zero_deposit_zero_lp :: bool where [unit_test]:
  "test_zero_deposit_zero_lp \<longleftrightarrow>
     calc_lp_for_deposit 100 200 0 = Some 0"

definition test_zero_burn_zero_col :: bool where [unit_test]:
  "test_zero_burn_zero_col \<longleftrightarrow>
     calc_collateral_for_withdraw 100 200 0 = Some 0"

definition test_deposit_into_zero_value_pool_blocked :: bool where [unit_test]:
  "test_deposit_into_zero_value_pool_blocked \<longleftrightarrow>
     calc_lp_for_deposit 100 0 50 = None"

definition test_deposit_orphaned_value_blocked :: bool where [unit_test]:
  "test_deposit_orphaned_value_blocked \<longleftrightarrow>
     calc_lp_for_deposit 0 500 1 = None"

definition test_large_values_no_overflow :: bool where [unit_test]:
  "test_large_values_no_overflow \<longleftrightarrow>
     (let max = U64_MAX div 2 in
     calc_lp_for_deposit max max max \<noteq> None \<and> calc_collateral_for_withdraw max max max \<noteq> None)"

definition test_u64_max_deposit :: bool where [unit_test]:
  "test_u64_max_deposit \<longleftrightarrow>
     calc_lp_for_deposit U64_MAX U64_MAX U64_MAX = Some U64_MAX"

definition math_test_pool_value_normal :: bool where [unit_test]:
  "math_test_pool_value_normal \<longleftrightarrow>
     pool_value 1000 300 = Some 700"

definition math_test_pool_value_overdrawn :: bool where [unit_test]:
  "math_test_pool_value_overdrawn \<longleftrightarrow>
     pool_value 100 200 = None"

definition test_pool_value_exact :: bool where [unit_test]:
  "test_pool_value_exact \<longleftrightarrow>
     pool_value 100 100 = Some 0"

definition test_lp_rounds_down_not_up :: bool where [unit_test]:
  "test_lp_rounds_down_not_up \<longleftrightarrow>
     unwrap_in (calc_lp_for_deposit 3 10 7) (\<lambda>lp. lp = 2 \<and>
     unwrap_in (checked_mul (ucast lp :: u128) 10) (\<lambda>x. x \<le> 7 * 3))"

definition test_withdrawal_rounds_down_not_up :: bool where [unit_test]:
  "test_withdrawal_rounds_down_not_up \<longleftrightarrow>
     unwrap_in (calc_collateral_for_withdraw 7 10 3) (\<lambda>col. col = 4 \<and>
     unwrap_in (checked_mul (ucast col :: u128) 7) (\<lambda>x. x \<le> 3 * 10))"

definition test_c9_orphaned_insurance_theft_blocked :: bool where [unit_test]:
  "test_c9_orphaned_insurance_theft_blocked \<longleftrightarrow>
     calc_lp_for_deposit 0 10000000 1 = None"

definition test_c9_dilution_attack_blocked :: bool where [unit_test]:
  "test_c9_dilution_attack_blocked \<longleftrightarrow>
     calc_lp_for_deposit 1000 0 500 = None"

definition test_c9_true_first_depositor_works :: bool where [unit_test]:
  "test_c9_true_first_depositor_works \<longleftrightarrow>
     calc_lp_for_deposit 0 0 1000 = Some 1000"

definition test_c9_normal_pro_rata_unaffected :: bool where [unit_test]:
  "test_c9_normal_pro_rata_unaffected \<longleftrightarrow>
     calc_lp_for_deposit 1000 2000 500 = Some 250"

definition test_larger_deposit_more_lp :: bool where [unit_test]:
  "test_larger_deposit_more_lp \<longleftrightarrow>
     unwrap_in (calc_lp_for_deposit 100 200 10) (\<lambda>small.
     unwrap_in (calc_lp_for_deposit 100 200 20) (\<lambda>large. large \<ge> small))"

definition test_larger_burn_more_collateral :: bool where [unit_test]:
  "test_larger_burn_more_collateral \<longleftrightarrow>
     unwrap_in (calc_collateral_for_withdraw 100 200 10) (\<lambda>small.
     unwrap_in (calc_collateral_for_withdraw 100 200 20) (\<lambda>large. large \<ge> small))"

definition test_pool_value_with_fees :: bool where [unit_test]:
  "test_pool_value_with_fees \<longleftrightarrow>
     pool_value_with_fees 1000 200 100 = Some 900"

definition test_pool_value_with_fees_zero :: bool where [unit_test]:
  "test_pool_value_with_fees_zero \<longleftrightarrow>
     pool_value_with_fees 1000 1000 0 = Some 0"

definition test_pool_value_with_fees_overflow :: bool where [unit_test]:
  "test_pool_value_with_fees_overflow \<longleftrightarrow>
     pool_value_with_fees 100 200 50 = None"

definition test_junior_first_deposit_1_to_1 :: bool where [unit_test]:
  "test_junior_first_deposit_1_to_1 \<longleftrightarrow>
     calc_junior_lp_for_deposit 0 0 1000 = Some 1000"

definition test_junior_pro_rata :: bool where [unit_test]:
  "test_junior_pro_rata \<longleftrightarrow>
     calc_junior_lp_for_deposit 1000 2000 500 = Some 250"

definition test_senior_first_deposit_1_to_1 :: bool where [unit_test]:
  "test_senior_first_deposit_1_to_1 \<longleftrightarrow>
     calc_senior_lp_for_deposit 0 0 1000 = Some 1000"

definition test_senior_pro_rata :: bool where [unit_test]:
  "test_senior_pro_rata \<longleftrightarrow>
     calc_senior_lp_for_deposit 1000 2000 500 = Some 250"

definition test_senior_deposit_orphaned_value_blocked :: bool where [unit_test]:
  "test_senior_deposit_orphaned_value_blocked \<longleftrightarrow>
     calc_senior_lp_for_deposit 0 500 1000 = None"

definition test_senior_deposit_round_trip_no_profit_after_loss :: bool where [unit_test]:
  "test_senior_deposit_round_trip_no_profit_after_loss \<longleftrightarrow>
     unwrap_in (calc_senior_lp_for_deposit 1000 1000 1000) (\<lambda>lp.
     unwrap_in (calc_senior_collateral_for_withdraw 2000 2000 lp) (\<lambda>back. back \<le> 1000))"

definition test_junior_withdraw_proportional :: bool where [unit_test]:
  "test_junior_withdraw_proportional \<longleftrightarrow>
     calc_junior_collateral_for_withdraw 1000 2000 500 = Some 999"

definition test_junior_withdraw_after_loss :: bool where [unit_test]:
  "test_junior_withdraw_after_loss \<longleftrightarrow>
     calc_junior_collateral_for_withdraw 1000 500 1000 = Some 500"

definition test_senior_withdraw_full_protection :: bool where [unit_test]:
  "test_senior_withdraw_full_protection \<longleftrightarrow>
     calc_senior_collateral_for_withdraw 500 1000 500 = Some 999"

definition test_distribute_loss_junior_absorbs_all :: bool where [unit_test]:
  "test_distribute_loss_junior_absorbs_all \<longleftrightarrow>
     (let (j, s) = distribute_loss 1000 5000 800 in j = 800 \<and> s = 0)"

definition test_distribute_loss_junior_wiped :: bool where [unit_test]:
  "test_distribute_loss_junior_wiped \<longleftrightarrow>
     (let (j, s) = distribute_loss 1000 5000 1500 in j = 1000 \<and> s = 500)"

definition test_distribute_loss_total_wipe :: bool where [unit_test]:
  "test_distribute_loss_total_wipe \<longleftrightarrow>
     (let (j, s) = distribute_loss 1000 5000 10000 in j = 1000 \<and> s = 5000)"

definition test_distribute_loss_zero :: bool where [unit_test]:
  "test_distribute_loss_zero \<longleftrightarrow>
     (let (j, s) = distribute_loss 1000 5000 0 in j = 0 \<and> s = 0)"

definition test_distribute_fees_2x_multiplier :: bool where [unit_test]:
  "test_distribute_fees_2x_multiplier \<longleftrightarrow>
     (let (jf, sf) = distribute_fees 1000 4000 20000 600 in jf = 200 \<and> sf = 400)"

definition test_distribute_fees_no_junior :: bool where [unit_test]:
  "test_distribute_fees_no_junior \<longleftrightarrow>
     (let (jf, sf) = distribute_fees 0 5000 20000 1000 in jf = 0 \<and> sf = 1000)"

definition test_distribute_fees_no_senior :: bool where [unit_test]:
  "test_distribute_fees_no_senior \<longleftrightarrow>
     (let (jf, sf) = distribute_fees 5000 0 20000 1000 in jf = 1000 \<and> sf = 0)"

definition test_distribute_fees_zero_fee :: bool where [unit_test]:
  "test_distribute_fees_zero_fee \<longleftrightarrow>
     (let (jf, sf) = distribute_fees 1000 4000 20000 0 in jf = 0 \<and> sf = 0)"

definition test_distribute_fees_overflow_proportional :: bool where [unit_test]:
  "test_distribute_fees_overflow_proportional \<longleftrightarrow>
     (let max = U64_MAX in
     (let (jf, sf) = distribute_fees max max 50000 max in
        jf = 15372286728091293012 \<and> sf = 3074457345618258603
        \<and> unwrap_in (checked_add (ucast jf :: u128) (ucast sf)) (\<lambda>both. both = ucast max) \<and> sf > 0)
     \<and> (let (jf, sf) = distribute_fees max 1000000 50000 max in jf = 18446744073709351615 \<and> sf = 200000)
     \<and> (let (jf, sf) = distribute_fees 1000000 max 50000 max in jf = 4999999 \<and> sf = 18446744073704551616)
     \<and> (let (jf, sf) = distribute_fees (max div 2) (max div 3) 30000 (max div 7) in
        jf = 2156112943680337201 \<and> sf = 479136209706741601))"

definition test_mul_div_floor_matches_native_when_product_fits :: bool where [unit_test]:
  "test_mul_div_floor_matches_native_when_product_fits \<longleftrightarrow>
     list_all (\<lambda>(a, b, d). unwrap_in (checked_mul a b) (\<lambda>p. mul_div_floor a b d = p div d))
     [(1000000, 500000, 1500000), (0, 123, 7), (ucast U64_MAX, 3, 7), (12345678, 87654321, 999983), (1, 1, 1)]
   \<and> (let big = push_bit 120 1 in mul_div_floor big big big = big)"

definition test_senior_protected_when_junior_covers :: bool where [unit_test]:
  "test_senior_protected_when_junior_covers \<longleftrightarrow>
     senior_protected 1000 5000 800"

definition test_senior_not_protected_when_loss_exceeds_junior :: bool where [unit_test]:
  "test_senior_not_protected_when_loss_exceeds_junior \<longleftrightarrow>
     \<not> senior_protected 1000 5000 1500"

definition test_hwm_floor_basic :: bool where [unit_test]:
  "test_hwm_floor_basic \<longleftrightarrow>
     hwm_floor 1000 5000 = Some 500"

definition test_hwm_floor_zero_tvl :: bool where [unit_test]:
  "test_hwm_floor_zero_tvl \<longleftrightarrow>
     hwm_floor 0 5000 = Some 0"

definition test_hwm_floor_zero_bps :: bool where [unit_test]:
  "test_hwm_floor_zero_bps \<longleftrightarrow>
     hwm_floor 1000 0 = Some 0"

definition test_hwm_floor_100_percent :: bool where [unit_test]:
  "test_hwm_floor_100_percent \<longleftrightarrow>
     hwm_floor 1000 10000 = Some 1000"

definition test_hwm_floor_rounds_down :: bool where [unit_test]:
  "test_hwm_floor_rounds_down \<longleftrightarrow>
     hwm_floor 999 5000 = Some 499"

definition test_hwm_floor_large_values :: bool where [unit_test]:
  "test_hwm_floor_large_values \<longleftrightarrow>
     unwrap_in (hwm_floor U64_MAX 5000) (\<lambda>r. r = U64_MAX div 2)"

definition test_hwm_withdrawal_allowed_above_floor :: bool where [unit_test]:
  "test_hwm_withdrawal_allowed_above_floor \<longleftrightarrow>
     hwm_withdrawal_allowed 600 1000 5000"

definition test_hwm_withdrawal_allowed_at_floor :: bool where [unit_test]:
  "test_hwm_withdrawal_allowed_at_floor \<longleftrightarrow>
     hwm_withdrawal_allowed 500 1000 5000"

definition test_hwm_withdrawal_blocked_below_floor :: bool where [unit_test]:
  "test_hwm_withdrawal_blocked_below_floor \<longleftrightarrow>
     \<not> hwm_withdrawal_allowed 499 1000 5000"

definition test_hwm_withdrawal_allowed_zero_floor :: bool where [unit_test]:
  "test_hwm_withdrawal_allowed_zero_floor \<longleftrightarrow>
     hwm_withdrawal_allowed 0 1000 0"

definition test_hwm_withdrawal_blocked_100_percent_floor :: bool where [unit_test]:
  "test_hwm_withdrawal_blocked_100_percent_floor \<longleftrightarrow>
     \<not> hwm_withdrawal_allowed 999 1000 10000 \<and> hwm_withdrawal_allowed 1000 1000 10000"

definition test_fee_appreciation_increases_share_price :: bool where [unit_test]:
  "test_fee_appreciation_increases_share_price \<longleftrightarrow>
     unwrap_in (calc_collateral_for_withdraw 1000 1000 100) (\<lambda>lp_before. lp_before = 100 \<and>
     unwrap_in (calc_collateral_for_withdraw 1000 1200 100) (\<lambda>lp_after. lp_after = 119 \<and> lp_after > lp_before))"

definition n7_mutation_check_deposit_offset_diverges_from_pre_n7_baseline :: bool where [unit_test]:
  "n7_mutation_check_deposit_offset_diverges_from_pre_n7_baseline \<longleftrightarrow>
     unwrap_in (pre_n7_calc_lp_for_deposit_baseline 900000 400000 400000) (\<lambda>pre_n7.
     unwrap_in (calc_lp_for_deposit 900000 400000 400000) (\<lambda>current. current < pre_n7 \<and> current > 0))"

definition n7_mutation_check_withdraw_offset_diverges_from_pre_n7_baseline :: bool where [unit_test]:
  "n7_mutation_check_withdraw_offset_diverges_from_pre_n7_baseline \<longleftrightarrow>
     unwrap_in (pre_n7_calc_collateral_for_withdraw_baseline 1000 2000 500) (\<lambda>pre_n7.
     unwrap_in (calc_collateral_for_withdraw 1000 2000 500) (\<lambda>current. current < pre_n7))"

definition n7_mutation_check_zero_offset_would_reproduce_exact_pre_n7_values_on_full_test_suite :: bool where [unit_test]:
  "n7_mutation_check_zero_offset_would_reproduce_exact_pre_n7_values_on_full_test_suite \<longleftrightarrow>
     unwrap_in (calc_lp_for_deposit 500000 500000 250000) (\<lambda>current.
     unwrap_in (pre_n7_calc_lp_for_deposit_baseline 500000 500000 250000) (\<lambda>pre_n7. current = pre_n7))"

section \<open>All tests pass\<close>

lemmas run_math =
  calc_lp_for_deposit_def calc_collateral_for_withdraw_def quote_defs pool_value_def pool_value_with_fees_def
  distribute_loss_def distribute_fees_def senior_protected_def hwm_floor_def hwm_withdrawal_allowed_def
  pre_n7_calc_lp_for_deposit_baseline_def pre_n7_calc_collateral_for_withdraw_baseline_def
  checked_add_def checked_sub_def checked_mul_def checked_div_def saturating_add_def saturating_sub_def
  VIRTUAL_SHARES_def VIRTUAL_ASSETS_def U64_MAX_def unsigned_minus_1_eq_mask mask_eq_exp_minus_1 Let_def

text \<open>The extreme fee splits and the wide division run 256 loop steps; their closed forms give the values.\<close>

lemma distribute_fees_eq:
  assumes "unat jf = unat fee * (unat jb * unat mult) div (unat jb * unat mult + unat sb * 10000)"
    "unat jb * unat mult + unat sb * 10000 \<noteq> 0" "unat jf + unat sf = unat fee"
  shows "distribute_fees jb sb mult fee = (jf, sf)"
proof -
  obtain a b where d: "distribute_fees jb sb mult fee = (a, b)" by (cases "distribute_fees jb sb mult fee")
  have "unat a = unat jf" using distribute_fees_exact(1) [OF d] assms(1) by simp
  moreover from this have "unat b = unat sf" using distribute_fees_exact(2) [OF d assms(2)] assms(3) by simp
  ultimately show ?thesis using d by (simp add: unat_eqD)
qed

lemma extreme_fee_splits:
  "distribute_fees U64_MAX U64_MAX 50000 U64_MAX = (15372286728091293012, 3074457345618258603)"
  "distribute_fees U64_MAX 1000000 50000 U64_MAX = (18446744073709351615, 200000)"
  "distribute_fees 1000000 U64_MAX 50000 U64_MAX = (4999999, 18446744073704551616)"
  "distribute_fees (U64_MAX div 2) (U64_MAX div 3) 30000 (U64_MAX div 7) = (2156112943680337201, 479136209706741601)"
  by (rule distribute_fees_eq; simp add: unat_div)+

lemma overflow_test_passes: "test_distribute_fees_overflow_proportional"
  unfolding unit_test Let_def extreme_fee_splits
  by (simp add: checked_add_def U64_MAX_def unsigned_minus_1_eq_mask mask_eq_exp_minus_1)

lemma mul_div_test_passes: "test_mul_div_floor_matches_native_when_product_fits"
proof -
  have "mul_div_floor big big big = big" if "big = push_bit 120 1" for big
    using mul_div_floor_exact [of big big big] that by (intro unat_eqD) simp
  then show ?thesis
    by (simp add: unit_test checked_mul_def mul_div_floor_def U64_MAX_def unsigned_minus_1_eq_mask mask_eq_exp_minus_1 Let_def)
qed

definition math_suite :: bool where
  "math_suite \<longleftrightarrow>
    test_first_depositor \<and> test_pro_rata \<and> test_withdraw_proportional \<and> test_rounding_down
     \<and> test_zero_supply_withdraw_none \<and> test_roundtrip_no_profit
     \<and> test_roundtrip_with_rounding_loss \<and> test_two_depositors_conservation
     \<and> test_no_dilution_attack \<and> test_zero_deposit_zero_lp \<and> test_zero_burn_zero_col
     \<and> test_deposit_into_zero_value_pool_blocked \<and> test_deposit_orphaned_value_blocked
     \<and> test_large_values_no_overflow \<and> test_u64_max_deposit \<and> math_test_pool_value_normal
     \<and> math_test_pool_value_overdrawn \<and> test_pool_value_exact \<and> test_lp_rounds_down_not_up
     \<and> test_withdrawal_rounds_down_not_up \<and> test_c9_orphaned_insurance_theft_blocked
     \<and> test_c9_dilution_attack_blocked \<and> test_c9_true_first_depositor_works
     \<and> test_c9_normal_pro_rata_unaffected \<and> test_larger_deposit_more_lp
     \<and> test_larger_burn_more_collateral \<and> test_pool_value_with_fees
     \<and> test_pool_value_with_fees_zero \<and> test_pool_value_with_fees_overflow
     \<and> test_junior_first_deposit_1_to_1 \<and> test_junior_pro_rata
     \<and> test_senior_first_deposit_1_to_1 \<and> test_senior_pro_rata
     \<and> test_senior_deposit_orphaned_value_blocked
     \<and> test_senior_deposit_round_trip_no_profit_after_loss \<and> test_junior_withdraw_proportional
     \<and> test_junior_withdraw_after_loss \<and> test_senior_withdraw_full_protection
     \<and> test_distribute_loss_junior_absorbs_all \<and> test_distribute_loss_junior_wiped
     \<and> test_distribute_loss_total_wipe \<and> test_distribute_loss_zero
     \<and> test_distribute_fees_2x_multiplier \<and> test_distribute_fees_no_junior
     \<and> test_distribute_fees_no_senior \<and> test_distribute_fees_zero_fee
     \<and> test_distribute_fees_overflow_proportional
     \<and> test_mul_div_floor_matches_native_when_product_fits \<and> test_senior_protected_when_junior_covers
     \<and> test_senior_not_protected_when_loss_exceeds_junior \<and> test_hwm_floor_basic
     \<and> test_hwm_floor_zero_tvl \<and> test_hwm_floor_zero_bps \<and> test_hwm_floor_100_percent
     \<and> test_hwm_floor_rounds_down \<and> test_hwm_floor_large_values
     \<and> test_hwm_withdrawal_allowed_above_floor \<and> test_hwm_withdrawal_allowed_at_floor
     \<and> test_hwm_withdrawal_blocked_below_floor \<and> test_hwm_withdrawal_allowed_zero_floor
     \<and> test_hwm_withdrawal_blocked_100_percent_floor \<and> test_fee_appreciation_increases_share_price
     \<and> n7_mutation_check_deposit_offset_diverges_from_pre_n7_baseline
     \<and> n7_mutation_check_withdraw_offset_diverges_from_pre_n7_baseline
     \<and> n7_mutation_check_zero_offset_would_reproduce_exact_pre_n7_values_on_full_test_suite"

lemma math_suite_passes: math_suite
  unfolding math_suite_def
  by (intro conjI overflow_test_passes mul_div_test_passes; simp add: unit_test run_math)

section \<open>What the virtual offset does to a quote\<close>

lemma baseline_quote:
  fixes S a V r :: u64
  assumes "V \<noteq> 0"
  shows "Option.bind (checked_mul (ucast a :: u128) (ucast S)) (\<lambda>p.
     Option.bind (checked_div p (ucast V)) (\<lambda>q. if q \<le> ucast U64_MAX then Some (ucast q) else None)) = Some r
   \<longleftrightarrow> unat r = unat a * unat S div unat V"
proof -
  have cast: "unat (ucast x :: u128) = unat x" for x :: u64 by (rule unat_ucast_widen) simp
  have "unat a * unat S < 2 ^ 64 * 2 ^ 64"
    using unat_u64_less [of a] unat_u64_less [of S] by (intro mult_strict_mono) simp_all
  then have m: "checked_mul (ucast a :: u128) (ucast S) = Some (ucast a * ucast S)"
    "unat (ucast a * ucast S :: u128) = unat a * unat S"
    by (simp_all add: checked_mul_def cast unat_word_ariths)
  have v: "(ucast V :: u128) \<noteq> 0" using assms cast [of V] by (metis unat_0 unat_eqD)
  let ?q = "ucast a * ucast S div ucast V :: u128"
  have q: "unat ?q = unat a * unat S div unat V" by (simp add: unat_div m(2) cast)
  have "?q \<le> ucast U64_MAX \<longleftrightarrow> unat ?q < 2 ^ 64" using gt_u64_max_iff [of ?q] by (simp add: not_less [symmetric])
  then show ?thesis
    using ucast_u128_u64_eq [of ?q r] q unat_u64_less [of r] by (auto simp: m(1) checked_div_def v)
qed

lemma baseline_eq_Some:
  "S \<noteq> 0 \<Longrightarrow> V \<noteq> 0 \<Longrightarrow> pre_n7_calc_lp_for_deposit_baseline S V a = Some lp \<longleftrightarrow> unat lp = unat a * unat S div unat V"
  "S \<noteq> 0 \<Longrightarrow> pre_n7_calc_collateral_for_withdraw_baseline S V l = Some c \<longleftrightarrow> unat c = unat l * unat V div unat S"
  unfolding pre_n7_calc_lp_for_deposit_baseline_def pre_n7_calc_collateral_for_withdraw_baseline_def
  using baseline_quote by simp_all

text \<open>Floors of fractions that differ by a third one.\<close>

lemma div_add_bounds:
  fixes x y n :: nat
  assumes "0 < n"
  shows "x div n + y div n \<le> (x + y) div n" "(x + y) div n \<le> x div n + y div n + 1"
proof -
  have "(x + y) div n = x div n + y div n + (x mod n + y mod n) div n" by (rule div_add1_eq)
  moreover have "(x mod n + y mod n) div n < 2"
    using mod_less_divisor [OF assms, of x] mod_less_divisor [OF assms, of y]
    by (intro less_mult_imp_div_less) linarith
  ultimately show "x div n + y div n \<le> (x + y) div n" "(x + y) div n \<le> x div n + y div n + 1" by linarith+
qed

lemma floor_gap:
  fixes a b c d e :: nat
  assumes "0 < b" "0 < d" "a * d = c * b + e"
  shows "c div d + e div (b * d) \<le> a div b \<and> a div b \<le> c div d + e div (b * d) + 1"
proof -
  have "a div b = (c * b + e) div (b * d)" using div_mult_mult2 [of d a b] assms(2,3) by simp
  moreover have "c div d = c * b div (b * d)" using div_mult_mult2 [of b c d] assms(1) by (simp add: mult.commute)
  ultimately show ?thesis using div_add_bounds [of "b * d" "c * b" e] assms(1,2) by simp
qed

text \<open>
  C28 (size of the virtual offset).  Against the exact pro-rata formulas the tests keep as a
  baseline, the offset changes a mint by the floor of \<open>a |S - V| / (V (V + 1))\<close> or one more, and a
  payout by the floor of \<open>l |S - V| / (S (S + 1))\<close> or one more.  While the pool is worth at most its
  supply it lowers mints and raises payouts, while it is worth at least its supply it raises mints
  and lowers payouts: away from a price of one it is on the pool's side in one of the two quotes only.
\<close>

theorem offset_direction:
  assumes "S \<noteq> 0" "V \<noteq> 0" "calc_lp_for_deposit S V a = Some lp" "pre_n7_calc_lp_for_deposit_baseline S V a = Some lp0"
    and "calc_collateral_for_withdraw S V l = Some c" "pre_n7_calc_collateral_for_withdraw_baseline S V l = Some c0"
  shows "(V \<le> S \<longrightarrow>
       (let g = unat a * (unat S - unat V) div (unat V * (unat V + 1));
            h = unat l * (unat S - unat V) div ((unat S + 1) * unat S) in
        unat lp + g \<le> unat lp0 \<and> unat lp0 \<le> unat lp + g + 1 \<and> unat c0 + h \<le> unat c \<and> unat c \<le> unat c0 + h + 1))
    \<and> (S \<le> V \<longrightarrow>
       (let g = unat a * (unat V - unat S) div ((unat V + 1) * unat V);
            h = unat l * (unat V - unat S) div (unat S * (unat S + 1)) in
        unat lp0 + g \<le> unat lp \<and> unat lp \<le> unat lp0 + g + 1 \<and> unat c + h \<le> unat c0 \<and> unat c0 \<le> unat c + h + 1))"
proof -
  have q: "unat lp = unat a * (unat S + 1) div (unat V + 1)" "unat lp0 = unat a * unat S div unat V"
    "unat c = unat l * (unat V + 1) div (unat S + 1)" "unat c0 = unat l * unat V div unat S"
    using assms
    by (simp_all add: calc_lp_for_deposit_eq_Some calc_collateral_for_withdraw_eq_Some baseline_eq_Some)
  have nz: "0 < unat S" "0 < unat V" using assms(1,2) by (simp_all add: unat_gt_0)
  have gap: "x * (s + 1) div (v + 1) + x * (s - v) div (v * (v + 1)) \<le> x * s div v
      \<and> x * s div v \<le> x * (s + 1) div (v + 1) + x * (s - v) div (v * (v + 1)) + 1" if "v \<le> s" "0 < v" for x s v :: nat
  proof (rule floor_gap)
    obtain t where "s = v + t" using \<open>v \<le> s\<close> le_Suc_ex by blast
    then show "x * s * (v + 1) = x * (s + 1) * v + x * (s - v)" by (simp add: algebra_simps)
  qed (use \<open>0 < v\<close> in simp_all)
  have cut: "x * v div s + x * (s - v) div ((s + 1) * s) \<le> x * (v + 1) div (s + 1)
      \<and> x * (v + 1) div (s + 1) \<le> x * v div s + x * (s - v) div ((s + 1) * s) + 1" if "v \<le> s" "0 < s" for x s v :: nat
  proof (rule floor_gap)
    obtain t where "s = v + t" using \<open>v \<le> s\<close> le_Suc_ex by blast
    then show "x * (v + 1) * s = x * v * (s + 1) + x * (s - v)" by (simp add: algebra_simps)
  qed (use \<open>0 < s\<close> in simp_all)
  show ?thesis
    unfolding Let_def word_le_nat_alt q using gap cut nz by blast
qed

theorem offset_direction_witness:
  "(\<exists>lp lp0 c c0. calc_lp_for_deposit 1 10 1000 = Some lp \<and> pre_n7_calc_lp_for_deposit_baseline 1 10 1000 = Some lp0
     \<and> calc_collateral_for_withdraw 1 10 1 = Some c \<and> pre_n7_calc_collateral_for_withdraw_baseline 1 10 1 = Some c0
     \<and> unat lp0 + 81 \<le> unat lp \<and> unat c + 4 \<le> unat c0)
   \<and> (\<exists>lp lp0 c c0. calc_lp_for_deposit 10 1 6 = Some lp \<and> pre_n7_calc_lp_for_deposit_baseline 10 1 6 = Some lp0
     \<and> calc_collateral_for_withdraw 10 1 1000 = Some c \<and> pre_n7_calc_collateral_for_withdraw_baseline 10 1 1000 = Some c0
     \<and> unat lp + 27 \<le> unat lp0 \<and> unat c0 + 81 \<le> unat c)"
proof -
  have above: "calc_lp_for_deposit 1 10 1000 = Some 181" "pre_n7_calc_lp_for_deposit_baseline 1 10 1000 = Some 100"
    "calc_collateral_for_withdraw 1 10 1 = Some 5" "pre_n7_calc_collateral_for_withdraw_baseline 1 10 1 = Some 10"
    by (simp_all add: run_math)
  have below: "calc_lp_for_deposit 10 1 6 = Some 33" "pre_n7_calc_lp_for_deposit_baseline 10 1 6 = Some 60"
    "calc_collateral_for_withdraw 10 1 1000 = Some 181" "pre_n7_calc_collateral_for_withdraw_baseline 10 1 1000 = Some 100"
    by (simp_all add: run_math)
  show ?thesis
    using offset_direction [OF _ _ above] above offset_direction [OF _ _ below] below by simp
qed

end
