(* ===== verification/State_Tests.thy ===== *)
theory State_Tests
  imports Math_Tests Process
begin

text \<open>
  The unit tests of \<open>src/state.rs\<close>, and those of \<open>src/processor.rs\<close> that call a helper rather
  than a handler, run on the model.  The tests that draw fresh keys are those of
  \<open>Derivation_Tests\<close>.
\<close>

section \<open>Zeroed records\<close>

definition zeroed :: StakePool where
  "zeroed = pool_of_bytes (replicate STAKE_POOL_SIZE 0)"

definition zeroed_deposit :: StakeDeposit where
  "zeroed_deposit = deposit_of_bytes (replicate STAKE_DEPOSIT_SIZE 0)"

definition is_err :: "'a result \<Rightarrow> bool" where
  "is_err r \<longleftrightarrow> (case r of Inl e \<Rightarrow> True | Inr x \<Rightarrow> False)"

definition unwrap_ok :: "'a result \<Rightarrow> ('a \<Rightarrow> bool) \<Rightarrow> bool" where
  "unwrap_ok r P \<longleftrightarrow> (case r of Inl e \<Rightarrow> False | Inr x \<Rightarrow> P x)"

lemma outcome_simps [simp]:
  "is_err (Inl e)" "\<not> is_err (Inr x)" "\<not> unwrap_ok (Inl e) P" "unwrap_ok (Inr x) P = P x"
  by (simp_all add: is_err_def unwrap_ok_def)

lemma zeroed_fields [simp]:
  "total_deposited zeroed = 0" "total_withdrawn zeroed = 0" "total_flushed zeroed = 0" "total_returned zeroed = 0"
  "total_fees_earned zeroed = 0" "total_lp_supply zeroed = 0" "pending_cooldown_slots zeroed = 0"
  "cooldown_proposed_at_slot zeroed = 0" "total_recovered_from_wrapper zeroed = 0" "is_initialized zeroed = 0"
  "reserved zeroed = fill 0"
  by (simp_all add: zeroed_def pool_of_bytes_def STAKE_POOL_SIZE_def slice_def from_le_bytes_zeros fill_def)

lemma zeroed_views [simp]:
  "realized_junior_loss zeroed = 0" "\<not> hwm_enabled zeroed" "hwm_floor_bps zeroed = 0" "epoch_high_water_tvl zeroed = 0"
  "hwm_last_epoch zeroed = 0" "\<not> asset_admin_burned zeroed" "\<not> market_resolved zeroed"
  by (simp_all add: realized_junior_loss_def hwm_enabled_def hwm_floor_bps_def epoch_high_water_tvl_def hwm_last_epoch_def
      asset_admin_burned_def market_resolved_def)

section \<open>The tests of the account state\<close>

definition test_stake_pool_size :: bool where [unit_test]:
  "test_stake_pool_size \<longleftrightarrow>
     STAKE_POOL_SIZE = length (bytes_of_pool zeroed) \<and> STAKE_POOL_SIZE = 408"

definition test_stake_deposit_size :: bool where [unit_test]:
  "test_stake_deposit_size \<longleftrightarrow>
     STAKE_DEPOSIT_SIZE = length (bytes_of_deposit zeroed_deposit) \<and> STAKE_DEPOSIT_SIZE = 152"

definition test_pool_value_normal :: bool where [unit_test]:
  "test_pool_value_normal \<longleftrightarrow>
     total_pool_value (zeroed\<lparr>total_deposited := 1000, total_withdrawn := 300, total_flushed := 0, total_returned := 0\<rparr>)
       = Some 700"

definition test_pool_value_with_flush :: bool where [unit_test]:
  "test_pool_value_with_flush \<longleftrightarrow>
     total_pool_value (zeroed\<lparr>total_deposited := 1000, total_withdrawn := 0, total_flushed := 500, total_returned := 0\<rparr>)
       = Some 500"

definition test_pool_value_with_flush_and_returns :: bool where [unit_test]:
  "test_pool_value_with_flush_and_returns \<longleftrightarrow>
     total_pool_value (zeroed\<lparr>total_deposited := 1000, total_withdrawn := 300, total_flushed := 500, total_returned := 200\<rparr>)
       = Some 400"

definition test_pool_value_full_return_conservation :: bool where [unit_test]:
  "test_pool_value_full_return_conservation \<longleftrightarrow>
     total_pool_value (zeroed\<lparr>total_deposited := 1000, total_withdrawn := 0, total_flushed := 500, total_returned := 500\<rparr>)
       = Some 1000"

definition test_pool_value_overdrawn :: bool where [unit_test]:
  "test_pool_value_overdrawn \<longleftrightarrow>
     total_pool_value (zeroed\<lparr>total_deposited := 100, total_withdrawn := 200\<rparr>) = None"

definition test_pool_value_overflushed :: bool where [unit_test]:
  "test_pool_value_overflushed \<longleftrightarrow>
     total_pool_value (zeroed\<lparr>total_deposited := 1000, total_withdrawn := 0, total_flushed := 1001\<rparr>) = None"

definition test_calc_lp_first_depositor :: bool where [unit_test]:
  "test_calc_lp_first_depositor \<longleftrightarrow>
     pool_calc_lp_for_deposit 1000 (zeroed\<lparr>total_deposited := 0, total_withdrawn := 0, total_lp_supply := 0\<rparr>)
       = Some 1000"

definition test_calc_lp_pro_rata :: bool where [unit_test]:
  "test_calc_lp_pro_rata \<longleftrightarrow>
     pool_calc_lp_for_deposit 500 (zeroed\<lparr>total_deposited := 2000, total_withdrawn := 0, total_lp_supply := 1000\<rparr>)
       = Some 250"

definition test_calc_lp_broken_accounting_returns_none :: bool where [unit_test]:
  "test_calc_lp_broken_accounting_returns_none \<longleftrightarrow>
     pool_calc_lp_for_deposit 100 (zeroed\<lparr>total_deposited := 100, total_withdrawn := 200, total_lp_supply := 50\<rparr>)
       = None"

definition test_calc_lp_first_depositor_still_works :: bool where [unit_test]:
  "test_calc_lp_first_depositor_still_works \<longleftrightarrow>
     total_pool_value zeroed = Some 0 \<and> pool_calc_lp_for_deposit 1000 zeroed = Some 1000"

definition test_calc_lp_fully_flushed_pool_blocks_deposit :: bool where [unit_test]:
  "test_calc_lp_fully_flushed_pool_blocks_deposit \<longleftrightarrow>
     (let pool = zeroed\<lparr>total_deposited := 1000, total_flushed := 1000, total_lp_supply := 100\<rparr> in
        total_pool_value pool = Some 0 \<and> pool_calc_lp_for_deposit 100 pool = None)"

definition test_calc_collateral_proportional :: bool where [unit_test]:
  "test_calc_collateral_proportional \<longleftrightarrow>
     pool_calc_collateral_for_withdraw 250 (zeroed\<lparr>total_deposited := 2000, total_withdrawn := 0, total_lp_supply := 1000\<rparr>)
       = Some 499"

definition test_hwm_defaults_zero :: bool where [unit_test]:
  "test_hwm_defaults_zero \<longleftrightarrow>
     \<not> hwm_enabled zeroed \<and> hwm_floor_bps zeroed = 0 \<and> epoch_high_water_tvl zeroed = 0 \<and> hwm_last_epoch zeroed = 0"

definition test_hwm_set_enabled :: bool where [unit_test]:
  "test_hwm_set_enabled \<longleftrightarrow>
     (let pool = set_hwm_enabled True zeroed in hwm_enabled pool \<and>
      (let pool = set_hwm_enabled False pool in \<not> hwm_enabled pool))"

definition test_hwm_set_floor_bps :: bool where [unit_test]:
  "test_hwm_set_floor_bps \<longleftrightarrow>
     (let pool = set_hwm_floor_bps 5000 zeroed in hwm_floor_bps pool = 5000 \<and>
      (let pool = set_hwm_floor_bps 10000 pool in hwm_floor_bps pool = 10000))"

definition test_hwm_set_epoch_tvl :: bool where [unit_test]:
  "test_hwm_set_epoch_tvl \<longleftrightarrow>
     epoch_high_water_tvl (set_epoch_high_water_tvl 1000000 zeroed) = 1000000"

definition test_hwm_set_last_epoch :: bool where [unit_test]:
  "test_hwm_set_last_epoch \<longleftrightarrow>
     hwm_last_epoch (set_hwm_last_epoch 42 zeroed) = 42"

definition test_refresh_hwm_new_epoch_resets :: bool where [unit_test]:
  "test_refresh_hwm_new_epoch_resets \<longleftrightarrow>
     (let pool = set_epoch_high_water_tvl 2000 (set_hwm_last_epoch 5 zeroed); (hwm, pool) = refresh_hwm 6 1500 pool in
        hwm = 1500 \<and> hwm_last_epoch pool = 6)"

definition test_refresh_hwm_same_epoch_raises :: bool where [unit_test]:
  "test_refresh_hwm_same_epoch_raises \<longleftrightarrow>
     (let pool = set_epoch_high_water_tvl 1000 (set_hwm_last_epoch 5 zeroed); (hwm, pool) = refresh_hwm 5 1500 pool in
        hwm = 1500)"

definition test_refresh_hwm_same_epoch_no_lower :: bool where [unit_test]:
  "test_refresh_hwm_same_epoch_no_lower \<longleftrightarrow>
     (let pool = set_epoch_high_water_tvl 2000 (set_hwm_last_epoch 5 zeroed); (hwm, pool) = refresh_hwm 5 1500 pool in
        hwm = 2000)"

definition test_hwm_does_not_clobber_discriminator :: bool where [unit_test]:
  "test_hwm_does_not_clobber_discriminator \<longleftrightarrow>
     (let pool = set_discriminator zeroed; disc_before = get_bytes 0 8 (reserved pool);
          pool = set_hwm_last_epoch 42 (set_epoch_high_water_tvl 1000000 (set_hwm_floor_bps 5000 (set_hwm_enabled True pool)));
          disc_after = get_bytes 0 8 (reserved pool) in
        disc_before = disc_after \<and> version pool = CURRENT_VERSION)"

definition test_hwm_and_market_resolved_independent :: bool where [unit_test]:
  "test_hwm_and_market_resolved_independent \<longleftrightarrow>
     (let pool = set_hwm_enabled True (set_discriminator zeroed) in hwm_enabled pool \<and> \<not> market_resolved pool \<and>
      (let pool = set_market_resolved True pool in market_resolved pool \<and> hwm_enabled pool \<and>
      (let pool = set_hwm_enabled False pool in \<not> hwm_enabled pool \<and> market_resolved pool \<and>
      (let pool = set_market_resolved False pool in \<not> market_resolved pool \<and> \<not> hwm_enabled pool))))"

definition test_state_layout_byte_offsets :: bool where [unit_test]:
  "test_state_layout_byte_offsets \<longleftrightarrow>
     (let pool = set_market_resolved True (set_discriminator zeroed) in
        get_bytes 9 1 (reserved pool) = [1] \<and> get_bytes 10 1 (reserved pool) = [0] \<and>
      (let pool = set_hwm_enabled True (set_market_resolved False pool) in
        get_bytes 9 1 (reserved pool) = [0] \<and> get_bytes 10 1 (reserved pool) = [1]))"

definition test_asset_admin_burned_flag_uses_reserved_byte_59 :: bool where [unit_test]:
  "test_asset_admin_burned_flag_uses_reserved_byte_59 \<longleftrightarrow>
     \<not> asset_admin_burned zeroed \<and>
      (let pool = set_asset_admin_burned True (set_realized_junior_loss 0x0102030405060708 zeroed) in
        asset_admin_burned pool \<and> get_bytes 59 1 (reserved pool) = [1] \<and> realized_junior_loss pool = 0x0102030405060708 \<and>
      (let pool = set_asset_admin_burned False pool in
        \<not> asset_admin_burned pool \<and> get_bytes 59 1 (reserved pool) = [0]
        \<and> realized_junior_loss pool = 0x0102030405060708))"

definition test_pool_value_returns_overflow :: bool where [unit_test]:
  "test_pool_value_returns_overflow \<longleftrightarrow>
     total_pool_value (zeroed\<lparr>total_deposited := U64_MAX, total_withdrawn := 0, total_flushed := 0, total_returned := 1\<rparr>)
       = None"

section \<open>The tests of the processor's helpers\<close>

definition n7_genesis_deposit_above_minimum_liquidity_carves_out_dead_shares :: bool where [unit_test]:
  "n7_genesis_deposit_above_minimum_liquidity_carves_out_dead_shares \<longleftrightarrow>
     apply_minimum_liquidity_lock 0 (MINIMUM_LIQUIDITY + 1) = Inr 1"

definition n7_genesis_deposit_at_exactly_minimum_liquidity_rejected :: bool where [unit_test]:
  "n7_genesis_deposit_at_exactly_minimum_liquidity_rejected \<longleftrightarrow>
     apply_minimum_liquidity_lock 0 MINIMUM_LIQUIDITY = Inl (stake_err DepositBelowMinimumLiquidity)"

definition n7_genesis_deposit_below_minimum_liquidity_rejected :: bool where [unit_test]:
  "n7_genesis_deposit_below_minimum_liquidity_rejected \<longleftrightarrow>
     apply_minimum_liquidity_lock 0 (MINIMUM_LIQUIDITY - 1) = Inl (stake_err DepositBelowMinimumLiquidity)"

definition n7_genesis_deposit_of_zero_lp_rejected_not_underflow_panic :: bool where [unit_test]:
  "n7_genesis_deposit_of_zero_lp_rejected_not_underflow_panic \<longleftrightarrow>
     apply_minimum_liquidity_lock 0 0 = Inl (stake_err DepositBelowMinimumLiquidity)"

definition n7_non_genesis_deposit_mints_full_amount_unchanged :: bool where [unit_test]:
  "n7_non_genesis_deposit_mints_full_amount_unchanged \<longleftrightarrow>
     apply_minimum_liquidity_lock 1 1 = Inr 1 \<and> apply_minimum_liquidity_lock 1000000 5 = Inr 5
     \<and> apply_minimum_liquidity_lock 42 MINIMUM_LIQUIDITY = Inr MINIMUM_LIQUIDITY"

definition n7_mutation_check_dead_share_floor_is_strictly_deducted_at_genesis :: bool where [unit_test]:
  "n7_mutation_check_dead_share_floor_is_strictly_deducted_at_genesis \<longleftrightarrow>
     (let lp_to_mint = MINIMUM_LIQUIDITY + 12345; pre_n7_baseline_mint_amount = lp_to_mint in
        unwrap_ok (apply_minimum_liquidity_lock 0 lp_to_mint) (\<lambda>actual_mint_amount.
          actual_mint_amount < pre_n7_baseline_mint_amount
          \<and> pre_n7_baseline_mint_amount - actual_mint_amount = MINIMUM_LIQUIDITY))"

definition timelock_not_elapsed_before_window :: bool where [unit_test]:
  "timelock_not_elapsed_before_window \<longleftrightarrow>
     timelock_window_elapsed 1000 TIMELOCK_SLOTS 1000 = Inr False
     \<and> timelock_window_elapsed 1000 TIMELOCK_SLOTS (433000 - 1) = Inr False"

definition timelock_elapsed_at_or_after_window :: bool where [unit_test]:
  "timelock_elapsed_at_or_after_window \<longleftrightarrow>
     timelock_window_elapsed 1000 TIMELOCK_SLOTS (1000 + TIMELOCK_SLOTS) = Inr True
     \<and> timelock_window_elapsed 1000 TIMELOCK_SLOTS (1000 + TIMELOCK_SLOTS + 5) = Inr True"

definition timelock_overflow_is_error_not_panic :: bool where [unit_test]:
  "timelock_overflow_is_error_not_panic \<longleftrightarrow>
     timelock_window_elapsed U64_MAX TIMELOCK_SLOTS U64_MAX = Inl (stake_err Overflow)"

definition pending_cooldown_accessors_roundtrip_and_default_zero :: bool where [unit_test]:
  "pending_cooldown_accessors_roundtrip_and_default_zero \<longleftrightarrow>
     pending_cooldown_slots zeroed = 0 \<and> cooldown_proposed_at_slot zeroed = 0 \<and>
      (let pool = set_cooldown_proposed_at_slot 42 (set_pending_cooldown_slots 987654 zeroed) in
        pending_cooldown_slots pool = 987654 \<and> cooldown_proposed_at_slot pool = 42 \<and>
      (let pool = set_cooldown_proposed_at_slot 0 pool in cooldown_proposed_at_slot pool = 0))"

definition pending_cooldown_bytes_do_not_collide_with_neighbors :: bool where [unit_test]:
  "pending_cooldown_bytes_do_not_collide_with_neighbors \<longleftrightarrow>
     (let pool = set_tranche_enabled True (set_realized_junior_loss 7777 (set_market_resolved True (set_discriminator zeroed)));
          pool = set_cooldown_proposed_at_slot 123 (set_pending_cooldown_slots U64_MAX pool) in
        validate_discriminator pool \<and> version pool = CURRENT_VERSION \<and> market_resolved pool \<and> tranche_enabled pool
        \<and> realized_junior_loss pool = 7777 \<and> pending_cooldown_slots pool = U64_MAX \<and> cooldown_proposed_at_slot pool = 123)"

definition test_apply_hwm_config_disable_preserves_floor :: bool where [unit_test]:
  "test_apply_hwm_config_disable_preserves_floor \<longleftrightarrow>
     (let pool = apply_hwm_config True 5000 zeroed in hwm_enabled pool \<and> hwm_floor_bps pool = 5000 \<and>
      (let pool = apply_hwm_config False 0 pool in \<not> hwm_enabled pool \<and> hwm_floor_bps pool = 5000 \<and>
      (let pool = apply_hwm_config True 0 pool in hwm_enabled pool \<and> hwm_floor_bps pool = 0)))"

definition test_apply_hwm_config_enable_writes_floor :: bool where [unit_test]:
  "test_apply_hwm_config_enable_writes_floor \<longleftrightarrow>
     (let pool = apply_hwm_config True 7500 zeroed in hwm_enabled pool \<and> hwm_floor_bps pool = 7500 \<and>
      (let pool = apply_hwm_config True 9000 pool in hwm_enabled pool \<and> hwm_floor_bps pool = 9000))"

definition test_validate_hwm_floor_bps_rejects_100_percent_and_above_cap :: bool where [unit_test]:
  "test_validate_hwm_floor_bps_rejects_100_percent_and_above_cap \<longleftrightarrow>
     is_err (validate_hwm_floor_bps 10000) \<and> is_err (validate_hwm_floor_bps (MAX_HWM_FLOOR_BPS + 1))
     \<and> is_err (validate_hwm_floor_bps 0xFFFF)"

definition test_validate_hwm_floor_bps_rejects_zero :: bool where [unit_test]:
  "test_validate_hwm_floor_bps_rejects_zero \<longleftrightarrow>
     is_err (validate_hwm_floor_bps 0)"

definition test_validate_hwm_floor_bps_accepts_legitimate_range_up_to_cap :: bool where [unit_test]:
  "test_validate_hwm_floor_bps_accepts_legitimate_range_up_to_cap \<longleftrightarrow>
     list_all (\<lambda>bps. \<not> is_err (validate_hwm_floor_bps bps)) [1, 5000, 7500, MAX_HWM_FLOOR_BPS] \<and> MAX_HWM_FLOOR_BPS < 10000"

definition test_capped_floor_preserves_a_withdrawal_margin :: bool where [unit_test]:
  "test_capped_floor_preserves_a_withdrawal_margin \<longleftrightarrow>
     (let tvl = 1000000; hwm = tvl in
        unwrap_in (hwm_floor hwm MAX_HWM_FLOOR_BPS) (\<lambda>floor. floor < tvl \<and>
        unwrap_in (checked_sub tvl floor) (\<lambda>margin. margin > 0 \<and>
        unwrap_in (checked_sub tvl margin) (\<lambda>rest. hwm_withdrawal_allowed rest hwm MAX_HWM_FLOOR_BPS)))
        \<and> \<not> hwm_withdrawal_allowed (tvl - 1) hwm 10000)"

definition test_pool_helpers_reject_undersized_without_panic :: bool where [unit_test]:
  "test_pool_helpers_reject_undersized_without_panic \<longleftrightarrow>
     STAKE_DEPOSIT_SIZE < STAKE_POOL_SIZE \<and> is_err (pool_from_data (replicate STAKE_DEPOSIT_SIZE 0))
     \<and> is_err (pool_from_data (replicate (STAKE_POOL_SIZE - 1) 0)) \<and> is_err (pool_from_data [])"

definition test_pool_helpers_accept_exact_and_oversized :: bool where [unit_test]:
  "test_pool_helpers_accept_exact_and_oversized \<longleftrightarrow>
     unwrap_ok (pool_from_data (replicate STAKE_POOL_SIZE 0)) (\<lambda>pool. is_initialized pool = 0)
     \<and> \<not> is_err (pool_from_data (replicate (STAKE_POOL_SIZE + 32) 0))"

definition test_deposit_helpers_reject_undersized_without_panic :: bool where [unit_test]:
  "test_deposit_helpers_reject_undersized_without_panic \<longleftrightarrow>
     is_err (deposit_from_data (replicate (STAKE_DEPOSIT_SIZE - 1) 0)) \<and> is_err (deposit_from_data [])"

definition test_deposit_helpers_accept_exact_size :: bool where [unit_test]:
  "test_deposit_helpers_accept_exact_size \<longleftrightarrow>
     \<not> is_err (deposit_from_data (replicate STAKE_DEPOSIT_SIZE 0))"

section \<open>All tests pass\<close>

lemmas run_state =
  total_pool_value_def pool_value_int_def pool_calc_lp_for_deposit_def pool_calc_collateral_for_withdraw_def refresh_hwm_def
  pool_layout.enc_length deposit_layout.enc_length STAKE_POOL_SIZE_def STAKE_DEPOSIT_SIZE_def

text \<open>The tests that look at single reserved bytes, on the accessors' definitions.\<close>

lemmas run_reserved =
  set_discriminator_def STAKE_POOL_DISCRIMINATOR_def version_def validate_discriminator_def market_resolved_def
  set_market_resolved_def hwm_enabled_def set_hwm_enabled_def set_hwm_floor_bps_def set_epoch_high_water_tvl_def
  set_hwm_last_epoch_def asset_admin_burned_def set_asset_admin_burned_def realized_junior_loss_def
  set_realized_junior_loss_def Let_def

lemma reserved_tests_pass:
  "test_hwm_does_not_clobber_discriminator" "test_hwm_and_market_resolved_independent" "test_state_layout_byte_offsets"
  "test_asset_admin_burned_flag_uses_reserved_byte_59"
  by (simp_all add: unit_test run_reserved)

lemma zeroed_discriminator [simp]:
  "validate_discriminator (set_discriminator zeroed)" "version (set_discriminator zeroed) = CURRENT_VERSION"
  by (simp_all add: run_reserved)

lemmas run_helpers =
  apply_minimum_liquidity_lock_def MINIMUM_LIQUIDITY_def timelock_window_elapsed_def TIMELOCK_SLOTS_def
  set_pending_cooldown_slots_def set_cooldown_proposed_at_slot_def apply_hwm_config_def validate_hwm_floor_bps_def
  MAX_HWM_FLOOR_BPS_def pool_from_data_eq deposit_from_data_eq

text \<open>The tests of \<open>src/state.rs\<close> on the pool's counters and reserved bytes.\<close>

definition state_suite :: bool where
  "state_suite \<longleftrightarrow>
    test_stake_pool_size \<and> test_stake_deposit_size \<and> test_pool_value_normal
     \<and> test_pool_value_with_flush \<and> test_pool_value_with_flush_and_returns
     \<and> test_pool_value_full_return_conservation \<and> test_pool_value_overdrawn
     \<and> test_pool_value_overflushed \<and> test_calc_lp_first_depositor \<and> test_calc_lp_pro_rata
     \<and> test_calc_lp_broken_accounting_returns_none \<and> test_calc_lp_first_depositor_still_works
     \<and> test_calc_lp_fully_flushed_pool_blocks_deposit \<and> test_calc_collateral_proportional
     \<and> test_hwm_defaults_zero \<and> test_hwm_set_enabled \<and> test_hwm_set_floor_bps
     \<and> test_hwm_set_epoch_tvl \<and> test_hwm_set_last_epoch \<and> test_refresh_hwm_new_epoch_resets
     \<and> test_refresh_hwm_same_epoch_raises \<and> test_refresh_hwm_same_epoch_no_lower
     \<and> test_hwm_does_not_clobber_discriminator \<and> test_hwm_and_market_resolved_independent
     \<and> test_state_layout_byte_offsets \<and> test_asset_admin_burned_flag_uses_reserved_byte_59
     \<and> test_pool_value_returns_overflow"

lemma state_suite_passes: state_suite
  unfolding state_suite_def
  by (intro conjI reserved_tests_pass; simp add: unit_test run_math run_state)

text \<open>
  The tests of \<open>src/processor.rs\<close> on the liquidity lock, the timelock, the high-water-mark
  configuration and the length-checked account images.
\<close>

definition helper_suite :: bool where
  "helper_suite \<longleftrightarrow>
    n7_genesis_deposit_above_minimum_liquidity_carves_out_dead_shares
     \<and> n7_genesis_deposit_at_exactly_minimum_liquidity_rejected
     \<and> n7_genesis_deposit_below_minimum_liquidity_rejected
     \<and> n7_genesis_deposit_of_zero_lp_rejected_not_underflow_panic
     \<and> n7_non_genesis_deposit_mints_full_amount_unchanged
     \<and> n7_mutation_check_dead_share_floor_is_strictly_deducted_at_genesis
     \<and> timelock_not_elapsed_before_window \<and> timelock_elapsed_at_or_after_window
     \<and> timelock_overflow_is_error_not_panic \<and> pending_cooldown_accessors_roundtrip_and_default_zero
     \<and> pending_cooldown_bytes_do_not_collide_with_neighbors
     \<and> test_apply_hwm_config_disable_preserves_floor \<and> test_apply_hwm_config_enable_writes_floor
     \<and> test_validate_hwm_floor_bps_rejects_100_percent_and_above_cap
     \<and> test_validate_hwm_floor_bps_rejects_zero
     \<and> test_validate_hwm_floor_bps_accepts_legitimate_range_up_to_cap
     \<and> test_capped_floor_preserves_a_withdrawal_margin
     \<and> test_pool_helpers_reject_undersized_without_panic
     \<and> test_pool_helpers_accept_exact_and_oversized
     \<and> test_deposit_helpers_reject_undersized_without_panic \<and> test_deposit_helpers_accept_exact_size"

lemma helper_suite_passes: helper_suite
  unfolding helper_suite_def using zeroed_fields(10) unfolding zeroed_def STAKE_POOL_SIZE_def
  by (intro conjI; simp add: unit_test run_math run_state run_helpers)

end
