(* ===== verification/Wire_Tests.thy ===== *)
theory Wire_Tests
  imports State_Tests
begin

text \<open>
  The unit tests of the two wire formats, run on the model: \<open>src/instruction.rs\<close> (what the program
  accepts as instruction data) and \<open>src/cpi.rs\<close> (what it sends to the wrapper).
\<close>

section \<open>The tests of the instruction decoder\<close>

definition test_unpack_init_pool :: bool where [unit_test]:
  "test_unpack_init_pool \<longleftrightarrow>
     unpack (0 # to_le_bytes (100 :: u64) @ to_le_bytes (5000 :: u64)) = Inr (InitPool 100 5000)"

definition test_unpack_deposit :: bool where [unit_test]:
  "test_unpack_deposit \<longleftrightarrow>
     unpack (1 # to_le_bytes (42 :: u64)) = Inr (Deposit 42)"

definition test_unpack_withdraw :: bool where [unit_test]:
  "test_unpack_withdraw \<longleftrightarrow>
     unpack (2 # to_le_bytes (999 :: u64)) = Inr (Withdraw 999)"

definition test_unpack_return_insurance :: bool where [unit_test]:
  "test_unpack_return_insurance \<longleftrightarrow>
     unpack (10 # to_le_bytes (1234 :: u64)) = Inr (ReturnInsurance 1234)"

definition test_unpack_set_market_resolved :: bool where [unit_test]:
  "test_unpack_set_market_resolved \<longleftrightarrow>
     unpack [18] = Inr SetMarketResolved"

definition test_tombstoned_tags_rejected :: bool where [unit_test]:
  "test_tombstoned_tags_rejected \<longleftrightarrow>
     list_all (\<lambda>tag. is_err (unpack [tag])) [11, 17]"

definition test_unpack_propose_cooldown_increase :: bool where [unit_test]:
  "test_unpack_propose_cooldown_increase \<longleftrightarrow>
     unpack (7 # to_le_bytes (123456 :: u64)) = Inr (ProposeCooldownIncrease 123456)
     \<and> is_err (unpack [7]) \<and> is_err (unpack [7, 1, 2, 3])"

definition test_unpack_commit_and_cancel_cooldown_increase :: bool where [unit_test]:
  "test_unpack_commit_and_cancel_cooldown_increase \<longleftrightarrow>
     unpack [8] = Inr CommitCooldownIncrease \<and> unpack [9] = Inr CancelCooldownIncrease
     \<and> is_err (unpack [8, 0]) \<and> is_err (unpack [9, 0])"

definition test_unpack_propose_admin :: bool where [unit_test]:
  "test_unpack_propose_admin \<longleftrightarrow>
     unpack (5 # replicate 32 7) = Inr (ProposeAdmin (fill 7))"

definition test_unpack_propose_admin_truncated_rejected :: bool where [unit_test]:
  "test_unpack_propose_admin_truncated_rejected \<longleftrightarrow>
     is_err (unpack (5 # replicate 31 0)) \<and> is_err (unpack [5])"

definition test_unpack_accept_admin :: bool where [unit_test]:
  "test_unpack_accept_admin \<longleftrightarrow>
     unpack [6] = Inr AcceptAdmin"

definition test_unpack_bind_insurance_authority :: bool where [unit_test]:
  "test_unpack_bind_insurance_authority \<longleftrightarrow>
     unpack [19] = Inr BindInsuranceAuthority \<and> is_err (unpack [19, 0, 0])"

definition test_unpack_rotate_insurance_authority :: bool where [unit_test]:
  "test_unpack_rotate_insurance_authority \<longleftrightarrow>
     unpack [20] = Inr RotateInsuranceAuthority"

definition test_propose_admin_zero_pubkey_cancel_sentinel_unpacks :: bool where [unit_test]:
  "test_propose_admin_zero_pubkey_cancel_sentinel_unpacks \<longleftrightarrow>
     unpack (5 # replicate 32 0) = Inr (ProposeAdmin (fill 0))"

definition test_truncated_payloads_never_panic :: bool where [unit_test]:
  "test_truncated_payloads_never_panic \<longleftrightarrow>
     list_all (\<lambda>(tag, need). list_all (\<lambda>short_len. is_err (unpack (tag # replicate short_len 0))) [0..<need])
       [(0, 16), (1, 8), (2, 8), (3, 8), (4, 18), (5, 32), (10, 8), (13, 16), (14, 3), (15, 2), (16, 8), (23, 8)]"

definition test_unpack_invalid_tag :: bool where [unit_test]:
  "test_unpack_invalid_tag \<longleftrightarrow>
     is_err (unpack [255])"

definition test_unpack_empty :: bool where [unit_test]:
  "test_unpack_empty \<longleftrightarrow>
     is_err (unpack [])"

definition poc_byte_payload_instructions_should_reject_trailing_bytes :: bool where [unit_test]:
  "poc_byte_payload_instructions_should_reject_trailing_bytes \<longleftrightarrow>
     list_all (\<lambda>(tag, payload). unpack (tag # payload) = Inl InvalidInstructionData)
       [(0, to_le_bytes (100 :: u64) @ to_le_bytes (5000 :: u64) @ [99]), (1, to_le_bytes (42 :: u64) @ [99]),
        (2, to_le_bytes (42 :: u64) @ [99]), (3, to_le_bytes (42 :: u64) @ [99]), (10, to_le_bytes (42 :: u64) @ [99]),
        (13, to_le_bytes (100 :: u64) @ to_le_bytes (5000 :: u64) @ [99]), (15, to_le_bytes (1500 :: u16) @ [99]),
        (16, to_le_bytes (42 :: u64) @ [99]), (23, to_le_bytes (42 :: u64) @ [99])]"

definition poc_tag_only_instructions_should_reject_trailing_bytes :: bool where [unit_test]:
  "poc_tag_only_instructions_should_reject_trailing_bytes \<longleftrightarrow>
     list_all (\<lambda>tag. unpack [tag, 99] = Inl InvalidInstructionData) [6, 12, 18, 19, 20, 21, 22, 24]"

definition test_unpack_recover_flushed_insurance_round_trip :: bool where [unit_test]:
  "test_unpack_recover_flushed_insurance_round_trip \<longleftrightarrow>
     (let amount = 123456789 :: u64; data = 23 # to_le_bytes amount in
        length data = 9 \<and> unpack data = Inr (RecoverFlushedInsurance amount))
     \<and> unpack (23 # to_le_bytes U64_MAX) = Inr (RecoverFlushedInsurance U64_MAX)"

definition test_unpack_recover_flushed_insurance_short_payload_rejected :: bool where [unit_test]:
  "test_unpack_recover_flushed_insurance_short_payload_rejected \<longleftrightarrow>
     list_all (\<lambda>short_len. is_err (unpack (23 # replicate short_len 0))) [0..<8]"

definition test_unpack_recover_flushed_insurance_trailing_bytes_rejected :: bool where [unit_test]:
  "test_unpack_recover_flushed_insurance_trailing_bytes_rejected \<longleftrightarrow>
     unpack (23 # to_le_bytes (1 :: u64) @ [99]) = Inl InvalidInstructionData"

definition test_unpack_admin_resolve_market :: bool where [unit_test]:
  "test_unpack_admin_resolve_market \<longleftrightarrow>
     unpack [24] = Inr AdminResolveMarket \<and> is_err (unpack [24, 0, 0])"

definition test_unpack_admin_resolve_market_trailing_bytes_rejected :: bool where [unit_test]:
  "test_unpack_admin_resolve_market_trailing_bytes_rejected \<longleftrightarrow>
     unpack [24, 99] = Inl InvalidInstructionData"

section \<open>The tests of the wrapper's wire format\<close>

definition test_cpi_tag_constants :: bool where [unit_test]:
  "test_cpi_tag_constants \<longleftrightarrow>
     TAG_TOP_UP_INSURANCE = 9 \<and> TAG_UPDATE_ASSET_AUTHORITY = 65 \<and> ASSET_INDEX_ZERO = 0 \<and> ASSET_AUTH_INSURANCE = 1"

definition test_cpi_bind_asset_authority_wire_shape_v17 :: bool where [unit_test]:
  "test_cpi_bind_asset_authority_wire_shape_v17 \<longleftrightarrow>
     (let pda = replicate 32 9;
          data = TAG_UPDATE_ASSET_AUTHORITY # to_le_bytes ASSET_INDEX_ZERO @ [ASSET_AUTH_INSURANCE] @ pda in
        length data = 36 \<and> data ! 0 = 65 \<and> data ! 0 \<noteq> 32 \<and> data ! 1 = 0 \<and> data ! 2 = 0
        \<and> data ! 3 = 1 \<and> data ! 3 \<noteq> 2 \<and> slice 4 32 data = pda)"

definition test_old_v16_bind_wire_is_wrong_for_v17 :: bool where [unit_test]:
  "test_old_v16_bind_wire_is_wrong_for_v17 \<longleftrightarrow>
     (let pda = replicate 32 9; old_data = [32, 2] @ pda in
        old_data ! 0 = 32 \<and> old_data ! 1 = 2 \<and> length old_data = 34
        \<and> old_data ! 0 \<noteq> TAG_UPDATE_ASSET_AUTHORITY \<and> length old_data \<noteq> 36)"

definition test_cpi_wire_shape_is_tag_plus_u128 :: bool where [unit_test]:
  "test_cpi_wire_shape_is_tag_plus_u128 \<longleftrightarrow>
     (let amount = 1000 :: u64; data = TAG_TOP_UP_INSURANCE # to_le_bytes (ucast amount :: u128) in
        length data = 17 \<and> data ! 0 = 9 \<and> from_le_bytes (slice 1 16 data) = (ucast amount :: u128) \<and> length data \<noteq> 9)"

definition test_cpi_bind_operator_wire_shape :: bool where [unit_test]:
  "test_cpi_bind_operator_wire_shape \<longleftrightarrow>
     (let pda = replicate 32 7;
          data = TAG_UPDATE_ASSET_AUTHORITY # to_le_bytes ASSET_INDEX_ZERO @ [ASSET_AUTH_INSURANCE_OPERATOR] @ pda in
        length data = 36 \<and> data ! 0 = 65 \<and> data ! 3 = 2 \<and> data ! 3 \<noteq> 1 \<and> data ! 3 \<noteq> 0 \<and> slice 4 32 data = pda)"

definition test_cpi_burn_asset_admin_wire_shape :: bool where [unit_test]:
  "test_cpi_burn_asset_admin_wire_shape \<longleftrightarrow>
     (let data = TAG_UPDATE_ASSET_AUTHORITY # to_le_bytes ASSET_INDEX_ZERO @ [ASSET_AUTH_ADMIN] @ replicate 32 0 in
        length data = 36 \<and> data ! 0 = 65 \<and> data ! 3 = 0 \<and> data ! 3 \<noteq> 1 \<and> data ! 3 \<noteq> 2
        \<and> slice 4 32 data = replicate 32 0)"

definition test_secure_bind_kind_constants_are_distinct :: bool where [unit_test]:
  "test_secure_bind_kind_constants_are_distinct \<longleftrightarrow>
     ASSET_AUTH_ADMIN = 0 \<and> ASSET_AUTH_INSURANCE = 1 \<and> ASSET_AUTH_INSURANCE_OPERATOR = 2
     \<and> ASSET_AUTH_ADMIN \<noteq> ASSET_AUTH_INSURANCE \<and> ASSET_AUTH_ADMIN \<noteq> ASSET_AUTH_INSURANCE_OPERATOR
     \<and> ASSET_AUTH_INSURANCE \<noteq> ASSET_AUTH_INSURANCE_OPERATOR"

definition test_cpi_withdraw_insurance_asset_wire_shape :: bool where [unit_test]:
  "test_cpi_withdraw_insurance_asset_wire_shape \<longleftrightarrow>
     (let amount = 250000 :: u64;
          data = TAG_WITHDRAW_INSURANCE_ASSET # to_le_bytes ASSET_INDEX_ZERO @ to_le_bytes (ucast amount :: u128) in
        length data = 19 \<and> data ! 0 = 57 \<and> data ! 1 = 0 \<and> data ! 2 = 0
        \<and> from_le_bytes (slice 3 16 data) = (ucast amount :: u128) \<and> length data \<noteq> 9 \<and> data ! 0 \<noteq> TAG_TOP_UP_INSURANCE)"

definition test_cpi_resolve_market_wire_shape :: bool where [unit_test]:
  "test_cpi_resolve_market_wire_shape \<longleftrightarrow>
     (let data = [TAG_RESOLVE_MARKET] in length data = 1 \<and> data ! 0 = 19 \<and> data = [19])"

definition test_tag_resolve_market_is_19_and_distinct :: bool where [unit_test]:
  "test_tag_resolve_market_is_19_and_distinct \<longleftrightarrow>
     TAG_RESOLVE_MARKET = 19 \<and> TAG_RESOLVE_MARKET \<noteq> TAG_TOP_UP_INSURANCE \<and> TAG_RESOLVE_MARKET \<noteq> TAG_UPDATE_AUTHORITY
     \<and> TAG_RESOLVE_MARKET \<noteq> TAG_UPDATE_ASSET_AUTHORITY \<and> TAG_RESOLVE_MARKET \<noteq> TAG_WITHDRAW_INSURANCE_ASSET"

definition test_cpi_resolve_market_account_shape_is_two_accounts :: bool where [unit_test]:
  "test_cpi_resolve_market_account_shape_is_two_accounts \<longleftrightarrow>
     (let shape = [(True, False), (False, True)] in
        length shape = 2 \<and> fst (shape ! 0) \<and> \<not> snd (shape ! 0) \<and> snd (shape ! 1) \<and> \<not> fst (shape ! 1))"

section \<open>All tests pass\<close>

lemmas run_decoder = unpack_defs slice_at_def slice_def fill_def list_all_iff

lemma zero_index: "to_le_bytes (0 :: u16) = [0, 0]"
  by (simp add: to_le_bytes_def numeral_2_eq_2)

lemmas wire_constants =
  TAG_TOP_UP_INSURANCE_def TAG_UPDATE_ASSET_AUTHORITY_def TAG_UPDATE_AUTHORITY_def TAG_WITHDRAW_INSURANCE_ASSET_def
  TAG_RESOLVE_MARKET_def ASSET_INDEX_ZERO_def ASSET_AUTH_ADMIN_def ASSET_AUTH_INSURANCE_def
  ASSET_AUTH_INSURANCE_OPERATOR_def

text \<open>The tests of \<open>src/instruction.rs\<close>, with the loops over truncated and over-long payloads.\<close>

definition decoder_suite :: bool where
  "decoder_suite \<longleftrightarrow>
    test_unpack_init_pool \<and> test_unpack_deposit \<and> test_unpack_withdraw
     \<and> test_unpack_return_insurance \<and> test_unpack_set_market_resolved
     \<and> test_tombstoned_tags_rejected \<and> test_unpack_propose_cooldown_increase
     \<and> test_unpack_commit_and_cancel_cooldown_increase \<and> test_unpack_propose_admin
     \<and> test_unpack_propose_admin_truncated_rejected \<and> test_unpack_accept_admin
     \<and> test_unpack_bind_insurance_authority \<and> test_unpack_rotate_insurance_authority
     \<and> test_propose_admin_zero_pubkey_cancel_sentinel_unpacks \<and> test_truncated_payloads_never_panic
     \<and> test_unpack_invalid_tag \<and> test_unpack_empty
     \<and> poc_byte_payload_instructions_should_reject_trailing_bytes
     \<and> poc_tag_only_instructions_should_reject_trailing_bytes
     \<and> test_unpack_recover_flushed_insurance_round_trip
     \<and> test_unpack_recover_flushed_insurance_short_payload_rejected
     \<and> test_unpack_recover_flushed_insurance_trailing_bytes_rejected
     \<and> test_unpack_admin_resolve_market \<and> test_unpack_admin_resolve_market_trailing_bytes_rejected"

lemma decoder_suite_passes: decoder_suite
  unfolding decoder_suite_def
  by (intro conjI; simp add: unit_test run_decoder)

text \<open>The tests of \<open>src/cpi.rs\<close> on tags, authority kinds and payload shapes.\<close>

definition wire_suite :: bool where
  "wire_suite \<longleftrightarrow>
    test_cpi_tag_constants \<and> test_cpi_bind_asset_authority_wire_shape_v17
     \<and> test_old_v16_bind_wire_is_wrong_for_v17 \<and> test_cpi_wire_shape_is_tag_plus_u128
     \<and> test_cpi_bind_operator_wire_shape \<and> test_cpi_burn_asset_admin_wire_shape
     \<and> test_secure_bind_kind_constants_are_distinct \<and> test_cpi_withdraw_insurance_asset_wire_shape
     \<and> test_cpi_resolve_market_wire_shape \<and> test_tag_resolve_market_is_19_and_distinct
     \<and> test_cpi_resolve_market_account_shape_is_two_accounts"

lemma wire_suite_passes: wire_suite
  unfolding wire_suite_def
  by (intro conjI; simp add: unit_test wire_constants zero_index slice_def Let_def)

end
