(* ===== verification/Handler_Tests.thy ===== *)
theory Handler_Tests
  imports Wire_Tests
begin

text \<open>
  The unit tests of \<open>src/processor.rs\<close> that run a whole instruction through \<open>process\<close> on accounts
  they build by hand.  Each of them returns before a cross-program call or makes none, so they
  hold for every environment.
\<close>

section \<open>Accounts built by a test\<close>

text \<open>\<open>AccountInfo::new(key, is_signer, is_writable, lamports = 0, data, owner, ..)\<close>.\<close>

definition account_new :: "pubkey \<Rightarrow> bool \<Rightarrow> bool \<Rightarrow> u8 list \<Rightarrow> pubkey \<Rightarrow> AccountInfo \<times> account" where
  "account_new k signer writable data own =
     (\<lparr>key = k, is_signer = signer, is_writable = writable\<rparr>, \<lparr>acc_lamports = 0, acc_owner = own, acc_data = data\<rparr>)"

definition ledger_of :: "(AccountInfo \<times> account) list \<Rightarrow> ledger" where
  "ledger_of xs k =
     (case map_of (map (\<lambda>(i, a). (key i, a)) xs) k of
        None \<Rightarrow> \<lparr>acc_lamports = 0, acc_owner = fill 0, acc_data = []\<rparr> | Some a \<Rightarrow> a)"

definition run_accounts :: "env \<Rightarrow> pubkey \<Rightarrow> (AccountInfo \<times> account) list \<Rightarrow> u8 list \<Rightarrow> ledger result" where
  "run_accounts E pid xs dt = process E pid (map fst xs) dt (ledger_of xs)"

definition pool_after_resolved :: "ledger \<Rightarrow> bool" where
  "pool_after_resolved L = unwrap_ok (pool_from_data (acc_data (L (fill 2)))) market_resolved"

section \<open>The tests\<close>

definition return_insurance_rejects_admin_ata_not_owned_by_admin :: "env \<Rightarrow> bool" where [unit_test]:
  "return_insurance_rejects_admin_ata_not_owned_by_admin E \<longleftrightarrow>
     (let pool = set_discriminator (zeroed\<lparr>is_initialized := 1, admin := fill 1, vault := fill 4, collateral_mint := fill 5,
                   total_flushed := 100, total_returned := 0\<rparr>);
          admin_ata_data = replicate 32 5 @ replicate 32 6 @ replicate 101 0 in
      run_accounts E (fill 9)
        [account_new (fill 1) True False [] (fill 0), account_new (fill 2) False True (bytes_of_pool pool) (fill 9),
         account_new (fill 3) False True admin_ata_data spl_token_id,
         account_new (fill 4) False True (replicate 165 0) spl_token_id,
         account_new spl_token_id False False [] (fill 0)]
        [10, 10, 0, 0, 0, 0, 0, 0, 0] = Inl (stake_err Unauthorized))"

definition poc_set_market_resolved_should_reject_readonly_pool_account :: "env \<Rightarrow> bool" where [unit_test]:
  "poc_set_market_resolved_should_reject_readonly_pool_account E \<longleftrightarrow>
     (let pool = set_market_resolved False (set_discriminator (zeroed\<lparr>is_initialized := 1, admin := fill 1\<rparr>)) in
      run_accounts E (fill 9)
        [account_new (fill 1) True False [] (fill 0), account_new (fill 2) False False (bytes_of_pool pool) (fill 9)]
        [18] = Inl (stake_err InvalidAccount))"

definition h1_set_market_resolved_blocks_when_flushed_not_returned :: "env \<Rightarrow> bool" where [unit_test]:
  "h1_set_market_resolved_blocks_when_flushed_not_returned E \<longleftrightarrow>
     (let pool = set_discriminator (zeroed\<lparr>is_initialized := 1, admin := fill 1, total_flushed := 500, total_returned := 200\<rparr>) in
      run_accounts E (fill 9)
        [account_new (fill 1) True False [] (fill 0), account_new (fill 2) False True (bytes_of_pool pool) (fill 9)]
        [18] = Inl (stake_err InsuranceLossOutstanding))"

text \<open>The pool's account is the caller's after a failed instruction: it is left as it was.\<close>

definition h1_set_market_resolved_blocks_when_only_total_returned_caught_up :: "env \<Rightarrow> bool" where [unit_test]:
  "h1_set_market_resolved_blocks_when_only_total_returned_caught_up E \<longleftrightarrow>
     (let pool = set_discriminator (zeroed\<lparr>is_initialized := 1, admin := fill 1, total_flushed := 500, total_returned := 500,
                   total_recovered_from_wrapper := 0\<rparr>);
          accounts = [account_new (fill 1) True False [] (fill 0),
                      account_new (fill 2) False True (bytes_of_pool pool) (fill 9)] in
      run_accounts E (fill 9) accounts [18] = Inl (stake_err InsuranceLossOutstanding)
      \<and> \<not> pool_after_resolved (ledger_of accounts))"

definition h1_set_market_resolved_allows_when_fully_recovered_from_wrapper :: "env \<Rightarrow> bool" where [unit_test]:
  "h1_set_market_resolved_allows_when_fully_recovered_from_wrapper E \<longleftrightarrow>
     (let pool = set_discriminator (zeroed\<lparr>is_initialized := 1, admin := fill 1, total_flushed := 500, total_returned := 500,
                   total_recovered_from_wrapper := 500\<rparr>) in
      unwrap_ok (run_accounts E (fill 9)
        [account_new (fill 1) True False [] (fill 0), account_new (fill 2) False True (bytes_of_pool pool) (fill 9)]
        [18]) pool_after_resolved)"

definition resolve_accounts :: "pubkey \<Rightarrow> pubkey \<Rightarrow> StakePool \<Rightarrow> (AccountInfo \<times> account) list" where
  "resolve_accounts signer slab_key pool =
     [account_new signer True False [] (fill 0), account_new (fill 2) False False (bytes_of_pool pool) (fill 9),
      account_new slab_key False True [] (fill 4), account_new (fill 4) False False [] (fill 0)]"

definition c1_admin_resolve_market_rejects_non_admin_signer :: "env \<Rightarrow> bool" where [unit_test]:
  "c1_admin_resolve_market_rejects_non_admin_signer E \<longleftrightarrow>
     (let pool = set_discriminator (zeroed\<lparr>is_initialized := 1, admin := fill 1, slab := fill 3,
                   percolator_program := fill 4, bump := 255\<rparr>) in
      run_accounts E (fill 9) (resolve_accounts (fill 0xAA) (fill 3) pool) [24] = Inl (stake_err Unauthorized))"

definition h1_admin_resolve_market_blocks_when_flushed_not_returned :: "env \<Rightarrow> bool" where [unit_test]:
  "h1_admin_resolve_market_blocks_when_flushed_not_returned E \<longleftrightarrow>
     (let pool = set_discriminator (zeroed\<lparr>is_initialized := 1, admin := fill 1, slab := fill 3,
                   percolator_program := fill 4, bump := 255, total_flushed := 1000, total_returned := 400\<rparr>) in
      run_accounts E (fill 9) (resolve_accounts (fill 1) (fill 3) pool) [24] = Inl (stake_err InsuranceLossOutstanding))"

definition c1_admin_resolve_market_rejects_wrong_slab :: "env \<Rightarrow> bool" where [unit_test]:
  "c1_admin_resolve_market_rejects_wrong_slab E \<longleftrightarrow>
     (let pool = set_discriminator (zeroed\<lparr>is_initialized := 1, admin := fill 1, slab := fill 3,
                   percolator_program := fill 4, bump := 255\<rparr>) in
      run_accounts E (fill 9) (resolve_accounts (fill 1) (fill 0xBB) pool) [24] = Inl (stake_err InvalidPda))"

section \<open>All tests pass\<close>

lemma set_discriminator_fields [simp]:
  "is_initialized (set_discriminator p) = is_initialized p" "admin (set_discriminator p) = admin p"
  "vault (set_discriminator p) = vault p" "collateral_mint (set_discriminator p) = collateral_mint p"
  "slab (set_discriminator p) = slab p" "percolator_program (set_discriminator p) = percolator_program p"
  "total_flushed (set_discriminator p) = total_flushed p" "total_returned (set_discriminator p) = total_returned p"
  "total_recovered_from_wrapper (set_discriminator p) = total_recovered_from_wrapper p"
  by (simp_all add: set_discriminator_def Let_def)

lemma open_encoded:
  assumes "acc_data (L (key ai)) = bytes_of_pool p" "is_initialized p = 1"
    "validate_discriminator p" "version p = CURRENT_VERSION"
  shows "open_pool ai L = Inr p"
  using assms pool_layout.dec_enc [of p "[]"]
  by (simp add: open_pool_ok pool_bytes_at_def live_pool_def pool_layout.enc_length)

lemma set_discriminator_valid [simp]: "validate_discriminator (set_discriminator p)" "version (set_discriminator p) = CURRENT_VERSION"
  by (simp_all add: set_discriminator_def validate_discriminator_def version_def STAKE_POOL_DISCRIMINATOR_def Let_def)

lemma test_instructions:
  "unpack [18] = Inr SetMarketResolved" "unpack [24] = Inr AdminResolveMarket"
  "unpack [10, 10, 0, 0, 0, 0, 0, 0, 0] = Inr (ReturnInsurance 10)"
  by (simp_all add: run_decoder from_le_bytes_def)

lemma ledger_of_simps [simp]:
  "ledger_of (account_new k s w d own # xs) j =
     (if j = k then \<lparr>acc_lamports = 0, acc_owner = own, acc_data = d\<rparr> else ledger_of xs j)"
  by (simp add: ledger_of_def account_new_def)

lemma account_new_fst [simp]: "fst (account_new k s w d own) = \<lparr>key = k, is_signer = s, is_writable = w\<rparr>"
  by (simp add: account_new_def)

lemma pool_image_nonempty [simp]: "bytes_of_pool p \<noteq> []"
  using pool_layout.enc_length [of p] by (auto simp: STAKE_POOL_SIZE_def)

lemma test_ata:
  "token_mint (replicate 32 5 @ replicate 32 6 @ replicate 101 0) = fill 5"
  "token_owner (replicate 32 5 @ replicate 32 6 @ replicate 101 0) = fill 6"
  by (simp_all add: token_mint_def token_owner_def slice_def fill_def)

lemma set_discriminator_views [simp]:
  "market_resolved (set_discriminator p) = market_resolved p"
  "realized_junior_loss (set_discriminator p) = realized_junior_loss p"
  by (simp_all add: run_reserved)

lemma started_views [simp]:
  "market_resolved (p\<lparr>is_initialized := x\<rparr>) = market_resolved p"
  "realized_junior_loss (p\<lparr>is_initialized := x\<rparr>) = realized_junior_loss p"
  "realized_junior_loss (p\<lparr>slab := k\<rparr>) = realized_junior_loss p" "realized_junior_loss (p\<lparr>bump := w\<rparr>) = realized_junior_loss p"
  "realized_junior_loss (p\<lparr>percolator_program := k\<rparr>) = realized_junior_loss p"
  by (simp_all add: run_reserved)

lemma decode_pool [simp]: "pool_of_bytes (take STAKE_POOL_SIZE (bytes_of_pool p)) = p"
  using pool_layout.dec_enc [of p "[]"] by (simp add: pool_layout.enc_length)

lemma write_pool_image [simp]:
  "k = key ai \<Longrightarrow> length (acc_data (L k)) = STAKE_POOL_SIZE \<Longrightarrow> acc_data (write_pool ai q L k) = bytes_of_pool q"
  by (simp add: write_pool_def patch_def pool_layout.enc_length)

lemmas run_handler =
  run_accounts_def resolve_accounts_def process_def test_instructions Let_def
  process_set_market_resolved_def process_return_insurance_def process_admin_resolve_market_def
  open_pool_as_admin_def read_pool_as_admin_def open_encoded owned_pool_account_def validate_account_writable_def
  validate_account_owner_def validate_account_not_empty_def account_access verify_token_program_def check_market_def
  resolve_pool_def wrapper_fully_recovered_def wrapper_recoverable_def validate_source_ata_eq ACCOUNT_LEN_def test_ata
  saturating_sub_def pool_after_resolved_def pool_from_data_eq pool_layout.enc_length

text \<open>The tests of \<open>src/processor.rs\<close> that run an instruction.\<close>

definition handler_suite :: "env \<Rightarrow> bool" where
  "handler_suite E \<longleftrightarrow>
     return_insurance_rejects_admin_ata_not_owned_by_admin E
     \<and> poc_set_market_resolved_should_reject_readonly_pool_account E
     \<and> h1_set_market_resolved_blocks_when_flushed_not_returned E
     \<and> h1_set_market_resolved_blocks_when_only_total_returned_caught_up E
     \<and> h1_set_market_resolved_allows_when_fully_recovered_from_wrapper E
     \<and> c1_admin_resolve_market_rejects_non_admin_signer E
     \<and> h1_admin_resolve_market_blocks_when_flushed_not_returned E
     \<and> c1_admin_resolve_market_rejects_wrong_slab E"

lemma handler_suite_passes: "handler_suite E"
  unfolding handler_suite_def by (intro conjI; simp add: unit_test run_handler)

text \<open>
  The tests of the LP arithmetic, of the account state, of the processor's helpers,
  of the instruction decoder, of the wrapper's wire format and, in every environment, of whole
  instructions on hand-built accounts hold of the model.
\<close>

lemma unit_tests_pass:
  "math_suite \<and> state_suite \<and> helper_suite \<and> decoder_suite \<and> wire_suite \<and> handler_suite E"
  by (intro conjI math_suite_passes state_suite_passes helper_suite_passes decoder_suite_passes wire_suite_passes handler_suite_passes)

end
