(* ===== verification/Derivation_Tests.thy ===== *)
theory Derivation_Tests
  imports State_Tests
begin

text \<open>
  The unit tests of \<open>src/state.rs\<close> that draw fresh keys.  The keys are arguments here, and so
  is the derivation: the tests pass for distinct keys whenever the addresses derived in the run
  collide only for seeds with the same bytes, which is what the runtime's hash is relied on for.
\<close>

definition test_pda_derivation_deterministic :: "pda_fn \<Rightarrow> pubkey \<Rightarrow> pubkey \<Rightarrow> bool" where [unit_test]:
  "test_pda_derivation_deterministic fpa program_id slab_key \<longleftrightarrow>
     (let (pda1, bump1) = derive_pool_pda fpa program_id slab_key;
          (pda2, bump2) = derive_pool_pda fpa program_id slab_key in
      pda1 = pda2 \<and> bump1 = bump2)"

definition test_pda_different_slabs_different_pdas :: "pda_fn \<Rightarrow> pubkey \<Rightarrow> pubkey \<Rightarrow> pubkey \<Rightarrow> bool" where [unit_test]:
  "test_pda_different_slabs_different_pdas fpa program_id slab1 slab2 \<longleftrightarrow>
     fst (derive_pool_pda fpa program_id slab1) \<noteq> fst (derive_pool_pda fpa program_id slab2)"

definition test_vault_auth_derives_from_pool :: "pda_fn \<Rightarrow> pubkey \<Rightarrow> pubkey \<Rightarrow> bool" where [unit_test]:
  "test_vault_auth_derives_from_pool fpa program_id slab_key \<longleftrightarrow>
     (let pool_pda = fst (derive_pool_pda fpa program_id slab_key);
          vault_auth = fst (derive_vault_authority fpa program_id pool_pda);
          vault_auth2 = fst (derive_vault_authority fpa program_id pool_pda) in
      vault_auth \<noteq> pool_pda \<and> vault_auth = vault_auth2)"

definition test_deposit_pda_per_user :: "pda_fn \<Rightarrow> pubkey \<Rightarrow> pubkey \<Rightarrow> pubkey \<Rightarrow> pubkey \<Rightarrow> bool" where [unit_test]:
  "test_deposit_pda_per_user fpa program_id pool user1 user2 \<longleftrightarrow>
     fst (derive_deposit_pda fpa program_id pool user1) \<noteq> fst (derive_deposit_pda fpa program_id pool user2)"

definition test_deposit_pda_per_pool :: "pda_fn \<Rightarrow> pubkey \<Rightarrow> pubkey \<Rightarrow> pubkey \<Rightarrow> pubkey \<Rightarrow> bool" where [unit_test]:
  "test_deposit_pda_per_pool fpa program_id pool1 pool2 user \<longleftrightarrow>
     fst (derive_deposit_pda fpa program_id pool1 user) \<noteq> fst (derive_deposit_pda fpa program_id pool2 user)"

definition test_pubkey_helpers :: "pubkey \<Rightarrow> pubkey \<Rightarrow> bool" where [unit_test]:
  "test_pubkey_helpers slab_key admin_key \<longleftrightarrow>
     (let pool = zeroed\<lparr>slab := slab_key\<rparr> in slab_pubkey pool = slab_key \<and>
      (let pool = pool\<lparr>admin := admin_key\<rparr> in admin_pubkey pool = admin_key))"

text \<open>Addresses derived from the seeds of a set collide only for the same bytes.\<close>

definition collision_free :: "pda_fn \<Rightarrow> pubkey \<Rightarrow> u8 list list set \<Rightarrow> bool" where
  "collision_free fpa program_id S \<longleftrightarrow>
     (\<forall>s\<in>S. \<forall>t\<in>S. fst (fpa s program_id) = fst (fpa t program_id) \<longrightarrow> concat s = concat t)"

lemma collision_freeD:
  "collision_free fpa pid S \<Longrightarrow> s \<in> S \<Longrightarrow> t \<in> S \<Longrightarrow> concat s \<noteq> concat t \<Longrightarrow> fst (fpa s pid) \<noteq> fst (fpa t pid)"
  unfolding collision_free_def by blast

definition derivation_seeds :: "pda_fn \<Rightarrow> pubkey \<Rightarrow> pubkey \<Rightarrow> pubkey \<Rightarrow> pubkey \<Rightarrow> pubkey \<Rightarrow> u8 list list set" where
  "derivation_seeds fpa program_id k1 k2 k3 k4 =
     {[ascii ''stake_pool'', list_of_bytes k1], [ascii ''stake_pool'', list_of_bytes k2],
      [ascii ''vault_auth'', list_of_bytes (fst (derive_pool_pda fpa program_id k1))],
      [ascii ''stake_deposit'', list_of_bytes k1, list_of_bytes k3], [ascii ''stake_deposit'', list_of_bytes k1, list_of_bytes k4],
      [ascii ''stake_deposit'', list_of_bytes k2, list_of_bytes k3]}"

definition derivation_suite :: "pda_fn \<Rightarrow> pubkey \<Rightarrow> pubkey \<Rightarrow> pubkey \<Rightarrow> pubkey \<Rightarrow> pubkey \<Rightarrow> bool" where
  "derivation_suite fpa program_id k1 k2 k3 k4 \<longleftrightarrow>
     test_pda_derivation_deterministic fpa program_id k1
     \<and> test_pda_different_slabs_different_pdas fpa program_id k1 k2
     \<and> test_vault_auth_derives_from_pool fpa program_id k1
     \<and> test_deposit_pda_per_user fpa program_id k1 k3 k4
     \<and> test_deposit_pda_per_pool fpa program_id k1 k2 k3
     \<and> test_pubkey_helpers k1 k2"

lemma derivation_suite_passes:
  assumes "k1 \<noteq> k2" "k3 \<noteq> k4" and c: "collision_free fpa program_id (derivation_seeds fpa program_id k1 k2 k3 k4)"
  shows "derivation_suite fpa program_id k1 k2 k3 k4"
proof -
  note free = collision_freeD [OF c]
  have "fst (derive_pool_pda fpa program_id k1) \<noteq> fst (derive_pool_pda fpa program_id k2)"
    unfolding derive_pool_pda_def
    by (rule free) (use assms(1) in \<open>simp_all add: derivation_seeds_def list_of_bytes_inject\<close>)
  moreover have "fst (derive_vault_authority fpa program_id (fst (derive_pool_pda fpa program_id k1)))
      \<noteq> fst (derive_pool_pda fpa program_id k1)"
    unfolding derive_vault_authority_def derive_pool_pda_def [of fpa program_id k1]
    by (rule free) (simp_all add: derivation_seeds_def derive_pool_pda_def ascii_def)
  moreover have "fst (derive_deposit_pda fpa program_id k1 k3) \<noteq> fst (derive_deposit_pda fpa program_id k1 k4)"
    "fst (derive_deposit_pda fpa program_id k1 k3) \<noteq> fst (derive_deposit_pda fpa program_id k2 k3)"
    unfolding derive_deposit_pda_def
    by (rule free, use assms(1,2) in \<open>simp_all add: derivation_seeds_def list_of_bytes_inject\<close>)+
  ultimately show ?thesis
    by (simp add: derivation_suite_def unit_test Let_def case_prod_beta slab_pubkey_def admin_pubkey_def)
qed

text \<open>A derivation on which the tests of one run of keys pass.\<close>

definition tagged_pda :: pda_fn where
  "tagged_pda seeds program_id =
     (fill (if hd seeds = ascii ''stake_pool'' then hd (seeds ! 1)
            else if hd seeds = ascii ''vault_auth'' then 100 else 16 * hd (seeds ! 1) + hd (last seeds)), 255)"

lemma derivation_suite_instance: "derivation_suite tagged_pda (fill 9) (fill 1) (fill 2) (fill 3) (fill 4)"
proof (rule derivation_suite_passes)
  show "collision_free tagged_pda (fill 9) (derivation_seeds tagged_pda (fill 9) (fill 1) (fill 2) (fill 3) (fill 4))"
    by (simp add: collision_free_def derivation_seeds_def tagged_pda_def derive_pool_pda_def ascii_def)
qed simp_all

end
