(* ===== verification/Spec2Isabelle.thy ===== *)
theory Spec2Isabelle
  imports Pricing Layout Governance_Properties Accounting_Properties Solvency_Properties Value_Properties
    Insurance_Flow Kani_Properties Panic_Freedom Divergences Entry Proxies Wide_Run Handler_Tests Derivation_Tests
begin

text \<open>
  \<^bold>\<open>Verification of percolator-stake.\<close>

  \<open>percolator-stake\<close> is a Solana program that runs insurance and trading liquidity pools for
  Percolator markets.  Users deposit collateral into a pool's vault and receive LP tokens; the
  pool's value per LP moves with fees, with insurance flushed to the market's wrapper program,
  and with what comes back from it.  A pool may be split into a senior and a first-loss junior
  tranche, protected by a withdrawal cooldown and a high-water mark, and is governed by an admin.

  \<^bold>\<open>The program and its model.\<close>  Every instruction is the transformation of a ledger, a map from
  addresses to accounts (lamports, owner, data), which either yields the new ledger or an error:
  \<open>process E pid accs dt L\<close> is \<open>processor::process\<close> on the account list and the instruction data.
  The environment \<open>E\<close> holds what is not code of the repository: \<open>find_program_address\<close>, the
  effect of cross-program invocations (\<open>runtime_invoke\<close>), the clock and rent system variables and
  the system program's instruction builders.  Machine integers are words of their width;
  Rust's checked and saturating operations, \<open>?\<close>, early returns and \<open>RefCell\<close> borrows (a list of
  held keys) are definitions of \<open>Prelude\<close> and \<open>Runtime\<close>.  What aborts the program is an outcome of its
  own, \<open>Inl Panic\<close>: slices and indexes out of range (\<open>slice_at\<close>, \<open>index_at\<close> of \<open>Stake_Error\<close>), a second
  borrow, the divisions and plain operations of the fee split, plain subtractions.  Lemmas named
  \<open>_eq\<close> give the value of such a definition behind its own guard.

  \<^item> \<open>Prelude\<close>, \<open>Bytes\<close>: word arithmetic, results, byte strings and fixed-size arrays.
  \<^item> \<open>Math\<close>, \<open>Wide_Arith\<close>, \<open>Tranche_Math\<close>: \<open>src/math.rs\<close>.  The locale \<open>share_pricing\<close> is the contract of
    a mint/burn quote pair; the global, junior, senior and Kani quotes interpret it.
    \<open>Wide_Run\<close> is the 256-bit multiply-divide and the fee split once more with the loop as written and
    every operation that can panic made explicit; \<open>Fees\<close> runs the fee split in this form.
  \<^item> \<open>Stake_Error\<close>: \<open>src/error.rs\<close>.  \<open>State\<close>, \<open>State_Lemmas\<close>: \<open>src/state.rs\<close>, the pool and deposit records,
    their byte images, the fields packed into the reserved bytes, valuations and addresses.
  \<^item> \<open>Instruction\<close>: \<open>src/instruction.rs\<close>.  \<open>Spl_Token\<close>: \<open>src/spl_token.rs\<close>.  \<open>Cpi\<close>: \<open>src/cpi.rs\<close>.
  \<^item> \<open>Guards\<close>, \<open>Fees\<close>, \<open>Deposits\<close>, \<open>Withdrawals\<close>, \<open>Insurance\<close>, \<open>Admin\<close>, \<open>Authorities\<close>, \<open>Init_Pool\<close>, \<open>Process\<close>: the
    handlers of \<open>src/processor.rs\<close>, one definition per \<open>process_*\<close> function and per shared block,
    with the guards, calls and writes in the order of the code.  \<open>process_instruction\<close> of \<open>Process\<close> is
    the function of \<open>src/entrypoint.rs\<close>.
  \<^item> \<open>Kani_Mirror\<close>, \<open>Kani_Harness\<close>: \<open>kani-proofs/src/lib.rs\<close>, the 32-bit mirror of the arithmetic and the 56
    harnesses as programs of assumptions, assertions, checked arithmetic and cover goals.
  \<^item> \<open>Math_Tests\<close>, \<open>State_Tests\<close>, \<open>Wire_Tests\<close>, \<open>Handler_Tests\<close>, \<open>Derivation_Tests\<close>: the \<open>#[cfg(test)]\<close> modules of the source files, one
    proposition per test function over the model's definitions, with the helpers the tests use.
    Tests that draw fresh keys take the keys and the address derivation as arguments.

  \<^bold>\<open>What is assumed of the environment.\<close>  Each hypothesis is a predicate of its own, and the sample
  chain of \<open>Sample_Chain\<close>, \<open>Sample_Custody\<close> and \<open>Sample_Tranches\<close> (concrete system, token and wrapper
  programs) satisfies all of them:
  \<^item> \<open>cpi_frame E pid\<close>: a call to another program leaves accounts owned by this program as they are
    and hands over only zeroed ones (the runtime's ownership rule).
  \<^item> \<open>pda_separation\<close>, \<open>pda_injective\<close>, \<open>authorities_distinct\<close>: derived addresses of different seeds differ.
  \<^item> \<open>token_laws\<close>: what a call to SPL Token, the system program and the wrapper may do to the token
    accounts that authorities of this program own without delegate.  A transfer takes at most
    its amount from the source and credits the destination, a burn takes at most its amount,
    minting, initialisation and the system program take nothing; the wrapper's top-up takes at
    most the amount from the given source, its payout credits the given destination, and the
    seven configuration calls this program issues (\<open>configuration_tags\<close>) take nothing.
  \<^item> \<open>quiet\<close>: called programs report errors and do not abort.
  \<^item> \<open>ledger_ok\<close>: accounts owned by the program with a pool's discriminator are at a pool address.
    It holds in ledgers without accounts of the program and is kept by every instruction.
  \<^item> \<open>exit_accounts\<close>, \<open>exit_matured\<close>, \<open>exit_honoured\<close> (for \<open>exit_guaranteed\<close> only): the holder passes the pool's
    accounts, the record holds the LP and has matured, and SPL Token carries out the burn of the
    holder's LP and the payout of what the vault holds.
  \<^item> \<open>entry_accounts\<close>, \<open>record_ready\<close>, \<open>entry_honoured\<close>, \<open>system_serves\<close> (for \<open>deposit_decided_by_quote\<close> only): the
    same for a deposit, with the system program creating or adopting the record's account.
  \<^item> \<open>collision_free\<close> (for the derivation tests only, and shown of \<open>tagged_pda\<close>): addresses derived in
    the run collide only for seeds with the same bytes.

  \<^bold>\<open>The layers of the proof.\<close>
  \<^item> \<open>Frame\<close> shows which calls keep which accounts.  \<open>Transitions\<close> gives the abstract machine: \<open>pool_step\<close>
    relates a pool before and after an instruction in a context (actor, clock, vault balance,
    tranche of the caller's record); the locale \<open>pool_handler\<close> is the contract between a handler
    and the machine, interpreted for every handler that writes a pool.
  \<^item> \<open>Ledger\<close> and \<open>Refinement\<close> compose the handlers: \<open>process\<close> refines \<open>pool_step\<close>, keeps \<open>ledger_ok\<close>, and
    reachable ledgers (\<open>world\<close>) carry a trace of steps for every live pool.
  \<^item> \<open>Governance\<close>, \<open>Lp_Supply\<close>, \<open>Books\<close> are invariants over those traces: what each setting may do, how
    LP supply and deposit records add up, and the insurance counters.
  \<^item> \<open>Custody\<close>, \<open>Custody_Handlers\<close>, \<open>Solvency\<close> follow the tokens: the locales \<open>custody_handler\<close> and \<open>still_handler\<close>
    bound what a handler takes out of a pool's vault, and with the refinement the vault covers
    the tracked value in every reachable ledger.
  \<^item> \<open>Account_Types\<close> gives every account of the program a type (blank, pool, deposit record) and shows
    that instructions keep the typing; \<open>Exit\<close> and \<open>Entry\<close> turn the invariants into progress, following
    \<open>Withdraw\<close> and \<open>Deposit\<close> guard by guard from a reachable ledger to their result.
  \<^item> \<open>Access\<close> states the access policy and the accounts an instruction may write as tables of their own
    and derives them from the shape of \<open>process\<close>; \<open>Proxies\<close> follows a proxied instruction from its bytes
    to the wrapper's, with the locale \<open>proxy_handler\<close> interpreted for the five proxies.

  \<^bold>\<open>What is shown.\<close>
  \<^item> \<open>Solvency_Properties\<close>: the vault always holds the tracked value; LP can always be priced and paid.
  \<^item> \<open>Exit\<close>: a holder whose deposit has matured can withdraw; the only refusals left are the high-water
    mark of a pool that has one and a payout that rounds to zero.
  \<^item> \<open>Entry\<close>: the quote alone decides a deposit with the documented accounts, also when somebody has
    funded the record's address beforehand.
  \<^item> \<open>Access\<close>: every instruction demands its role, and touches no other pool, record or vault.
  \<^item> \<open>Proxies\<close>: proxied instructions reach the pool's own wrapper and market with the caller's payload
    and the signature of the derived authority.
  \<^item> \<open>Account_Types\<close>: every account of the program is blank, a live pool at its derived address, or the
    record of one user of a live pool.
  \<^item> \<open>Governance_Properties\<close>: refinement, histories, immutability of a pool's identity, two-step admin
    change, the cooldown timelock, configuration bounds, finality of resolution and of the burn.
  \<^item> \<open>Accounting_Properties\<close>: LP conservation and insurance books.
  \<^item> \<open>Trades\<close>: what a deposit or a withdrawal pays, calls and books, exactly.  \<open>Insurance_Flow\<close>: the same for
    a flush, a return and a recovery of insurance.
  \<^item> \<open>Value_Properties\<close>: fee accrual, share price monotonicity, the high-water mark.
  \<^item> \<open>Pricing\<close>: the arithmetic of quotes, tranches and the floor.  \<open>Wide_Run\<close>: the 256-bit division ends,
    does not panic and is the exact floor.  \<open>Math_Tests\<close>: which way and how far the virtual offset moves a quote.
  \<^item> \<open>Layout\<close>: byte images, reserved-byte accessors, instruction decoding, wrapper wire formats.
  \<^item> \<open>Panic_Freedom\<close>: no instruction aborts.
  \<^item> \<open>Handler_Tests\<close>, \<open>Derivation_Tests\<close>: the unit tests of the repository hold of the model, a check of the
    translation rather than a property of the program.
  \<^item> \<open>Kani_Properties\<close>: where the mirror agrees with production, that no harness can fail at any input its
    assumptions admit, and that every cover goal is met.
  \<^item> \<open>Divergences\<close>: two behaviours that contradict the code's own comments, with the state that leads to
    the first reached from a new pool.

  \<^bold>\<open>Bounds and termination.\<close>  Every definition of the handlers and the arithmetic is a total function;
  the only loops are the 256-step division of \<open>mul_div_floor\<close>, a primitive recursion on the bit index,
  and recursions over lists.  \<open>mul_div_while\<close> is the division loop without that knowledge, a partial
  function whose value is \<open>None\<close> where it would not end or would panic; \<open>mul_div_terminates\<close> shows
  that it always has a value.  No fuel is used.  Witnesses run whole instructions on the sample
  chain by simplification.

  \<^bold>\<open>Not modelled.\<close>  The entrypoint macro and logging (\<open>msg!\<close>), compute limits, rent collection and
  transaction atomicity beyond the result of one instruction; the wrapper program, SPL Token,
  the system program and the address derivation hash (parameters above); the \<open>declare_id!\<close> of
  devnet builds; the integration tests against the built binary, scripts and CI.
  \<open>books_stay_sound\<close>, \<open>lp_redeemable\<close>, \<open>exit_guaranteed\<close> and \<open>deposit_decided_by_quote\<close> assume that a
  pool uses one of \<open>ReturnInsurance\<close> and \<open>RecoverFlushedInsurance\<close> only, which
  \<open>double_return_inverts_waterfall\<close> shows to be needed.
\<close>

end
